(* ===== verification/Prelude.thy ===== *)
theory Prelude
  imports Main "HOL-Library.Word" "HOL-Library.Product_Lexorder" "HOL-Library.Multiset"
begin

text \<open>
  What every component shares: the identifier and time types, results that carry a Python
  exception as \<open>Inl\<close>, the transaction combinator, the row-set queries the services send to
  their databases (filter, aggregate, order, page), and the string operations of Python that
  the code calls. Text is modelled as lists of 8-bit characters; case folding is that of ASCII.
\<close>

named_theorems result_simps \<open>equations of results and transactions\<close>
named_theorems query_simps \<open>equations of row-set queries\<close>

section \<open>Identifiers and time\<close>

text \<open>A UUID is a 128-bit value; PostgreSQL and Python both order it as an unsigned number.
  A timestamp is an integer number of microseconds, the resolution of \<open>datetime\<close>.\<close>

type_synonym uuid = "128 word"
type_synonym time = int

section \<open>Results and transactions\<close>

text \<open>A computation that may raise is a sum: \<open>Inl\<close> the exception, \<open>Inr\<close> the value.\<close>

definition rbind :: "'e + 'a \<Rightarrow> ('a \<Rightarrow> 'e + 'b) \<Rightarrow> 'e + 'b" where
  "rbind r f = (case r of Inl e \<Rightarrow> Inl e | Inr x \<Rightarrow> f x)"

definition ensure :: "bool \<Rightarrow> 'e \<Rightarrow> 'e + unit" where
  "ensure c e = (if c then Inr () else Inl e)"

definition of_option :: "'e \<Rightarrow> 'a option \<Rightarrow> 'e + 'a" where
  "of_option e x = (case x of None \<Rightarrow> Inl e | Some a \<Rightarrow> Inr a)"

text \<open>
  The services wrap their work in \<open>try: ... commit() except: rollback(); raise\<close>. The body
  runs on a working copy of the state; if it raises, the committed state is what it was.
\<close>

definition transaction :: "'s \<Rightarrow> 'e + ('a \<times> 's) \<Rightarrow> ('e + 'a) \<times> 's" where
  "transaction s r = (case r of Inl e \<Rightarrow> (Inl e, s) | Inr (a, s') \<Rightarrow> (Inr a, s'))"

lemma rbind_simps [simp]:
  "rbind (Inl e) f = Inl e"
  "rbind (Inr x) f = f x"
  by (simp_all add: rbind_def)

lemma rbind_eq_Inr [result_simps]:
  "rbind r f = Inr y \<longleftrightarrow> (\<exists>x. r = Inr x \<and> f x = Inr y)"
  by (cases r) simp_all

lemma rbind_eq_Inl [result_simps]:
  "rbind r f = Inl e \<longleftrightarrow> r = Inl e \<or> (\<exists>x. r = Inr x \<and> f x = Inl e)"
  by (cases r) simp_all

lemma ensure_eq [result_simps]:
  "ensure c e = Inr u \<longleftrightarrow> c"
  "ensure c e = Inl e' \<longleftrightarrow> \<not> c \<and> e' = e"
  by (auto simp: ensure_def)

lemma ensure_True [simp]: "ensure True e = Inr ()"
  by (simp add: ensure_def)

lemma ensure_False [simp]: "ensure False e = Inl e"
  by (simp add: ensure_def)

lemma of_option_simps [simp]:
  "of_option e None = Inl e"
  "of_option e (Some x) = Inr x"
  by (simp_all add: of_option_def)

lemma of_option_eq [result_simps]:
  "of_option e x = Inr y \<longleftrightarrow> x = Some y"
  "of_option e x = Inl e' \<longleftrightarrow> x = None \<and> e' = e"
  by (cases x; auto)+

lemma transaction_simps [simp]:
  "transaction s (Inl e) = (Inl e, s)"
  "transaction s (Inr (a, s')) = (Inr a, s')"
  by (simp_all add: transaction_def)

lemma transaction_eq_Inr [result_simps]:
  "transaction s r = (Inr a, s') \<longleftrightarrow> r = Inr (a, s')"
  by (cases r) (auto simp: transaction_def)

lemma transaction_eq_Inl [result_simps]:
  "transaction s r = (Inl e, s') \<longleftrightarrow> r = Inl e \<and> s' = s"
  by (cases r) (auto simp: transaction_def)

lemma transaction_cases:
  obtains (raised) e where "r = Inl e" "transaction s r = (Inl e, s)"
    | (committed) a s' where "r = Inr (a, s')" "transaction s r = (Inr a, s')"
  by (cases r) (auto simp: transaction_def)

text \<open>Sequencing of computations that also change a state outside the caller's database, which
  a raised exception does not undo.\<close>

definition sbind :: "('e + 'a) \<times> 's \<Rightarrow> ('a \<Rightarrow> 's \<Rightarrow> ('e + 'b) \<times> 's) \<Rightarrow> ('e + 'b) \<times> 's" where
  "sbind r f = (case fst r of Inl e \<Rightarrow> (Inl e, snd r) | Inr a \<Rightarrow> f a (snd r))"

lemma sbind_simps [simp]:
  "sbind (Inl e, s) f = (Inl e, s)"
  "sbind (Inr a, s) f = f a s"
  by (simp_all add: sbind_def)

lemma sbind_eq_Inr [result_simps]:
  "sbind r f = (Inr b, s') \<longleftrightarrow> (\<exists>a s. r = (Inr a, s) \<and> f a s = (Inr b, s'))"
  by (cases r; cases "fst r") auto

lemma sbind_eq_Inl [result_simps]:
  "sbind r f = (Inl e, s') \<longleftrightarrow>
    r = (Inl e, s') \<or> (\<exists>a s. r = (Inr a, s) \<and> f a s = (Inl e, s'))"
  by (cases r; cases "fst r") auto

section \<open>Queries over rows\<close>

text \<open>\<open>SELECT SUM(f) ... WHERE P\<close> with \<open>COALESCE(.., 0)\<close>: zero when no row matches.\<close>

definition sum_where :: "('r \<Rightarrow> bool) \<Rightarrow> ('r \<Rightarrow> int) \<Rightarrow> 'r list \<Rightarrow> int" where
  "sum_where P f rows = (\<Sum>r\<leftarrow>filter P rows. f r)"

text \<open>\<open>OFFSET offset LIMIT limit\<close>.\<close>

definition page :: "nat \<Rightarrow> nat \<Rightarrow> 'r list \<Rightarrow> 'r list" where
  "page offset limit rows = take limit (drop offset rows)"

text \<open>\<open>ORDER BY created_at DESC\<close>. Rows that tie keep their table order; SQL leaves it open.\<close>

definition newest_first :: "('r \<Rightarrow> time) \<Rightarrow> 'r list \<Rightarrow> 'r list" where
  "newest_first key rows = sort_key (\<lambda>r. - key r) rows"

text \<open>An optional filter: \<open>if x is not None: statement.where(f == x)\<close>.\<close>

definition matches :: "'a option \<Rightarrow> 'a \<Rightarrow> bool" where
  "matches want x = (case want of None \<Rightarrow> True | Some w \<Rightarrow> x = w)"

lemma sum_where_simps [simp, query_simps]:
  "sum_where P f [] = 0"
  "sum_where P f (r # rows) = (if P r then f r else 0) + sum_where P f rows"
  by (simp_all add: sum_where_def)

lemma sum_where_append [simp]: "sum_where P f (xs @ ys) = sum_where P f xs + sum_where P f ys"
  by (induction xs) simp_all

lemma sum_where_cong:
  "(\<And>r. r \<in> set rows \<Longrightarrow> P r = Q r) \<Longrightarrow> (\<And>r. r \<in> set rows \<Longrightarrow> P r \<Longrightarrow> f r = g r) \<Longrightarrow>
    sum_where P f rows = sum_where Q g rows"
  by (induction rows) auto

lemma sum_where_filter [simp]:
  "sum_where P f (filter Q rows) = sum_where (\<lambda>r. Q r \<and> P r) f rows"
  by (induction rows) auto

lemma sum_where_none: "(\<And>r. r \<in> set rows \<Longrightarrow> P r \<Longrightarrow> f r = 0) \<Longrightarrow> sum_where P f rows = 0"
  by (induction rows) auto

text \<open>Counting the rows by value: every row is counted once.\<close>

lemma count_values:
  "distinct ks \<Longrightarrow> f ` set rows \<subseteq> set ks \<Longrightarrow>
    sum_list (map (\<lambda>k. length (filter (\<lambda>r. f r = k) rows)) ks) = length rows"
proof (induction rows)
  case (Cons r rows)
  have "sum_list (map (\<lambda>k. if f r = k then 1 else 0) ks) = length (filter (\<lambda>k. f r = k) ks)"
    by (induction ks) auto
  also have "\<dots> = 1"
  proof -
    have "set (filter (\<lambda>k. f r = k) ks) = {f r}" using Cons.prems by auto
    then show ?thesis using distinct_card [OF distinct_filter [OF Cons.prems(1)], of "\<lambda>k. f r = k"] by simp
  qed
  finally have one: "sum_list (map (\<lambda>k. if f r = k then 1 else 0) ks) = (1 :: nat)" .
  have "(\<lambda>k. length (filter (\<lambda>r. f r = k) (r # rows))) = (\<lambda>k. (if f r = k then 1 else 0) + length (filter (\<lambda>r. f r = k) rows))"
    by (auto simp: fun_eq_iff)
  then show ?case using Cons one by (simp add: sum_list_addf)
qed simp

lemma length_page: "length (page offset limit rows) \<le> limit"
  by (simp add: page_def)

lemma set_page: "set (page offset limit rows) \<subseteq> set rows"
  by (auto simp: page_def dest: in_set_takeD in_set_dropD)

lemma mset_newest_first [simp]: "mset (newest_first key rows) = mset rows"
  by (simp add: newest_first_def)

lemma set_newest_first [simp]: "set (newest_first key rows) = set rows"
  by (simp add: newest_first_def)

lemma sorted_newest_first: "sorted (map (\<lambda>r. - key r) (newest_first key rows))"
  unfolding newest_first_def by (rule sorted_sort_key)

lemma matches_simps [simp]:
  "matches None x"
  "matches (Some w) x \<longleftrightarrow> x = w"
  by (simp_all add: matches_def)

text \<open>Replacing the row with a given key, as an \<open>UPDATE ... WHERE id = k\<close> does.\<close>

definition update_row :: "('r \<Rightarrow> 'k) \<Rightarrow> 'k \<Rightarrow> ('r \<Rightarrow> 'r) \<Rightarrow> 'r list \<Rightarrow> 'r list" where
  "update_row key k f rows = map (\<lambda>r. if key r = k then f r else r) rows"

lemma update_row_keys:
  "(\<And>r. key (f r) = key r) \<Longrightarrow> map key (update_row key k f rows) = map key rows"
  by (simp add: update_row_def comp_def)

lemma set_update_row:
  "r \<in> set (update_row key k f rows) \<longleftrightarrow>
    (\<exists>q\<in>set rows. r = (if key q = k then f q else q))"
  unfolding update_row_def set_map image_iff by (rule refl)

lemma find_row_SomeD: "find P rows = Some r \<Longrightarrow> r \<in> set rows \<and> P r"
  by (auto simp: find_Some_iff)

lemma find_key_distinct:
  "distinct (map key rows) \<Longrightarrow> r \<in> set rows \<Longrightarrow> find (\<lambda>q. key q = key r) rows = Some r"
  by (induction rows) auto

lemma find_update_row_other:
  "(\<And>q. key (f q) = key q) \<Longrightarrow> k \<noteq> k' \<Longrightarrow>
    find (\<lambda>q. key q = k') (update_row key k f rows) = find (\<lambda>q. key q = k') rows"
  by (induction rows) (auto simp: update_row_def)

lemma find_update_row_same:
  "(\<And>q. key (f q) = key q) \<Longrightarrow>
    find (\<lambda>q. key q = k) (update_row key k f rows) = map_option f (find (\<lambda>q. key q = k) rows)"
  by (induction rows) (auto simp: update_row_def)

section \<open>Strings\<close>

definition is_space :: "char \<Rightarrow> bool" where
  "is_space c = (let n = (of_char c :: nat) in
     9 \<le> n \<and> n \<le> 13 \<or> 28 \<le> n \<and> n \<le> 32 \<or> n = 133 \<or> n = 160)"

definition lstrip :: "(char \<Rightarrow> bool) \<Rightarrow> string \<Rightarrow> string" where
  "lstrip P s = dropWhile P s"

definition rstrip :: "(char \<Rightarrow> bool) \<Rightarrow> string \<Rightarrow> string" where
  "rstrip P s = rev (dropWhile P (rev s))"

definition strip :: "string \<Rightarrow> string" where
  "strip s = rstrip is_space (lstrip is_space s)"

definition upper_char :: "char \<Rightarrow> char" where
  "upper_char c = (let n = (of_char c :: nat) in if 97 \<le> n \<and> n \<le> 122 then char_of (n - 32) else c)"

definition lower_char :: "char \<Rightarrow> char" where
  "lower_char c = (let n = (of_char c :: nat) in if 65 \<le> n \<and> n \<le> 90 then char_of (n + 32) else c)"

definition upper :: "string \<Rightarrow> string" where
  "upper s = map upper_char s"

definition lower :: "string \<Rightarrow> string" where
  "lower s = map lower_char s"

definition digit_char :: "nat \<Rightarrow> char" where
  "digit_char d = char_of (48 + d)"

fun str_nat :: "nat \<Rightarrow> string" where
  "str_nat n = (if n < 10 then [digit_char n] else str_nat (n div 10) @ [digit_char (n mod 10)])"

declare str_nat.simps [simp del]

definition str_int :: "int \<Rightarrow> string" where
  "str_int i = (if i < 0 then ''-'' @ str_nat (nat (- i)) else str_nat (nat i))"

definition hex_char :: "nat \<Rightarrow> char" where
  "hex_char d = (if d < 10 then char_of (48 + d) else char_of (87 + d))"

fun hex_fixed :: "nat \<Rightarrow> nat \<Rightarrow> string" where
  "hex_fixed 0 n = []"
| "hex_fixed (Suc w) n = hex_fixed w (n div 16) @ [hex_char (n mod 16)]"

text \<open>\<open>UUID.hex\<close> (32 digits) and \<open>str(UUID)\<close> (the same digits in groups of 8-4-4-4-12).\<close>

definition uuid_hex :: "uuid \<Rightarrow> string" where
  "uuid_hex u = hex_fixed 32 (unat u)"

definition str_uuid :: "uuid \<Rightarrow> string" where
  "str_uuid u = (let h = uuid_hex u in
     take 8 h @ ''-'' @ take 4 (drop 8 h) @ ''-'' @ take 4 (drop 12 h) @ ''-'' @
     take 4 (drop 16 h) @ ''-'' @ drop 20 h)"

lemma dropWhile_fixed: "dropWhile P (dropWhile P xs) = dropWhile P xs"
  by (induction xs) simp_all

lemma rstrip_idem [simp]: "rstrip P (rstrip P s) = rstrip P s"
  by (simp add: rstrip_def dropWhile_fixed)

lemma lstrip_idem [simp]: "lstrip P (lstrip P s) = lstrip P s"
  by (simp add: lstrip_def dropWhile_fixed)

lemma length_rstrip: "length (rstrip P s) \<le> length s"
  by (simp add: rstrip_def) (metis length_dropWhile_le length_rev)

lemma length_strip: "length (strip s) \<le> length s"
  by (metis length_rstrip length_dropWhile_le lstrip_def order_trans strip_def)

lemma hd_rev_dropWhile:
  "dropWhile P s = s \<Longrightarrow> dropWhile P (rev (dropWhile P (rev s))) = rev (dropWhile P (rev s))"
proof (cases s)
  case (Cons c cs)
  assume fixed: "dropWhile P s = s"
  then have "\<not> P c" using Cons by (metis dropWhile_eq_Cons_conv list.sel(1))
  then have "dropWhile P (rev s) = dropWhile P (rev cs) @ [c]"
    using Cons by (simp add: dropWhile_append)
  then show ?thesis using \<open>\<not> P c\<close> by simp
qed simp

lemma strip_idem [simp]: "strip (strip s) = strip s"
proof -
  have "lstrip is_space (rstrip is_space (lstrip is_space s)) = rstrip is_space (lstrip is_space s)"
    unfolding lstrip_def rstrip_def by (rule hd_rev_dropWhile) (rule dropWhile_fixed)
  then show ?thesis by (simp add: strip_def)
qed

lemma upper_char_idem [simp]: "upper_char (upper_char c) = upper_char c"
  by (auto simp: upper_char_def Let_def)

lemma upper_idem [simp]: "upper (upper s) = upper s"
  by (simp add: upper_def comp_def)

lemma length_upper [simp]: "length (upper s) = length s"
  by (simp add: upper_def)

lemma hex_char_inj: "a < 16 \<Longrightarrow> b < 16 \<Longrightarrow> hex_char a = hex_char b \<Longrightarrow> a = b"
  by (auto simp: hex_char_def split: if_splits)

lemma length_hex_fixed [simp]: "length (hex_fixed w n) = w"
  by (induction w n rule: hex_fixed.induct) simp_all

lemma hex_fixed_inj:
  "hex_fixed w n = hex_fixed w m \<Longrightarrow> n < 16 ^ w \<Longrightarrow> m < 16 ^ w \<Longrightarrow> n = m"
proof (induction w n arbitrary: m rule: hex_fixed.induct)
  case (1 n)
  then show ?case by simp
next
  case (2 w n)
  from "2.prems" have "hex_fixed w (n div 16) = hex_fixed w (m div 16)"
    and "hex_char (n mod 16) = hex_char (m mod 16)" by simp_all
  then have "n div 16 = m div 16" and "n mod 16 = m mod 16"
    using "2.IH" [of "m div 16"] "2.prems" hex_char_inj
    by (simp_all add: less_mult_imp_div_less mult.commute)
  then show ?case by (metis div_mult_mod_eq)
qed

lemma uuid_hex_inj: "uuid_hex u = uuid_hex v \<Longrightarrow> u = v"
proof -
  assume "uuid_hex u = uuid_hex v"
  then have "unat u = unat v"
    unfolding uuid_hex_def
    by (rule hex_fixed_inj) (use unsigned_less [of u] unsigned_less [of v] in simp_all)
  then show "u = v" by (simp add: word_unat_eq_iff)
qed

lemma length_uuid_hex [simp]: "length (uuid_hex u) = 32"
  by (simp add: uuid_hex_def)

section \<open>Integer columns\<close>

text \<open>PostgreSQL's \<open>INTEGER\<close> is a signed 32-bit column; storing a value outside its range
  fails with \<open>DataError\<close>.\<close>

definition int4 :: "int \<Rightarrow> bool" where
  "int4 v \<longleftrightarrow> - (2 ^ 31) \<le> v \<and> v < 2 ^ 31"

text \<open>The exceptions a flush or commit can raise: a violated constraint, a value its column
  cannot hold, or a failing database.\<close>

datatype db_error = IntegrityError | DataError | OperationalError

text \<open>What the environment contributes to one transaction: the clock, the identifiers that
  \<open>uuid4()\<close> returns in turn, and the failures the database answers at a flush or at commit, if
  any, for a reason outside the rows written: a concurrent writer that took a unique key, a lost
  connection.\<close>

record env =
  env_now :: time
  env_ids :: "nat \<Rightarrow> uuid"
  env_flush_fault :: "db_error option"
  env_fault :: "db_error option"

definition flush_fault :: "env \<Rightarrow> db_error + unit" where
  "flush_fault env = (case env_flush_fault env of None \<Rightarrow> Inr () | Some e \<Rightarrow> Inl e)"

definition commit_fault :: "env \<Rightarrow> db_error + unit" where
  "commit_fault env = (case env_fault env of None \<Rightarrow> Inr () | Some e \<Rightarrow> Inl e)"

lemma commit_fault_eq [result_simps]:
  "commit_fault env = Inr u \<longleftrightarrow> env_fault env = None"
  "commit_fault env = Inl e \<longleftrightarrow> env_fault env = Some e"
  by (auto simp: commit_fault_def split: option.splits)

lemma flush_fault_eq [result_simps]:
  "flush_fault env = Inr u \<longleftrightarrow> env_flush_fault env = None"
  "flush_fault env = Inl e \<longleftrightarrow> env_flush_fault env = Some e"
  by (auto simp: flush_fault_def split: option.splits)

lemma flush_fault_None [simp]: "env_flush_fault env = None \<Longrightarrow> flush_fault env = Inr ()"
  by (simp add: flush_fault_def)

lemma commit_fault_None [simp]: "env_fault env = None \<Longrightarrow> commit_fault env = Inr ()"
  by (simp add: commit_fault_def)

section \<open>Partial updates\<close>

text \<open>A field of a PATCH body: left out, sent as \<open>null\<close>, or sent with a value.
  \<open>model_dump(exclude_unset=True)\<close> keeps the last two.\<close>

datatype 'a patch = Unset | Null | Value 'a

definition patched :: "'a patch \<Rightarrow> 'a \<Rightarrow> 'a" where
  "patched p x = (case p of Value v \<Rightarrow> v | _ \<Rightarrow> x)"

definition patched_nullable :: "'a patch \<Rightarrow> 'a option \<Rightarrow> 'a option" where
  "patched_nullable p x = (case p of Unset \<Rightarrow> x | Null \<Rightarrow> None | Value v \<Rightarrow> Some v)"

text \<open>Writing \<open>NULL\<close> into a \<open>NOT NULL\<close> column is an \<open>IntegrityError\<close>.\<close>

definition not_null :: "'a patch \<Rightarrow> bool" where
  "not_null p \<longleftrightarrow> (case p of Null \<Rightarrow> False | _ \<Rightarrow> True)"

definition map_patch :: "('a \<Rightarrow> 'b) \<Rightarrow> 'a patch \<Rightarrow> 'b patch" where
  "map_patch f p = (case p of Unset \<Rightarrow> Unset | Null \<Rightarrow> Null | Value v \<Rightarrow> Value (f v))"

definition patch_all :: "('a \<Rightarrow> bool) \<Rightarrow> 'a patch \<Rightarrow> bool" where
  "patch_all P p = (case p of Value v \<Rightarrow> P v | _ \<Rightarrow> True)"

lemma patch_simps [simp]:
  "patched Unset x = x" "patched Null x = x" "patched (Value v) x = v"
  "patched_nullable Unset y = y" "patched_nullable Null y = None"
  "patched_nullable (Value v) y = Some v"
  "not_null Unset" "\<not> not_null Null" "not_null (Value v)"
  "patch_all P Unset" "patch_all P Null" "patch_all P (Value v) \<longleftrightarrow> P v"
  "map_patch f Unset = Unset" "map_patch f Null = Null" "map_patch f (Value v) = Value (f v)"
  by (simp_all add: patched_def patched_nullable_def not_null_def patch_all_def map_patch_def)

end
