(* ===== verification/Json_Decimal.thy ===== *)
theory Json_Decimal
  imports Prelude
begin

text \<open>
  JSON documents as Python sees them after \<open>response.json()\<close>, the parts of \<open>str\<close> and \<open>repr\<close>
  that turn them into messages, and the operations of \<open>decimal.Decimal\<close> on prices: parsing,
  the comparison with zero, and \<open>quantize\<close> to cents with \<open>ROUND_HALF_UP\<close>. A \<open>JFloat\<close> carries
  the shortest decimal text of the double, which is what \<open>repr\<close> prints.
\<close>

section \<open>JSON values\<close>

datatype json =
    JNull
  | JBool bool
  | JInt int
  | JFloat string
  | JStr string
  | JList "json list"
  | JObj "(string \<times> json) list"

definition json_get :: "string \<Rightarrow> json \<Rightarrow> json option" where
  "json_get k j = (case j of JObj kvs \<Rightarrow> map_of kvs k | _ \<Rightarrow> None)"

definition repr_char :: "char \<Rightarrow> char \<Rightarrow> string" where
  "repr_char q c = (let n = (of_char c :: nat) in
     if c = q \<or> n = 92 then [char_of (92::nat), c]
     else if n = 10 then [char_of (92::nat), CHR ''n'']
     else if n = 13 then [char_of (92::nat), CHR ''r'']
     else if n = 9 then [char_of (92::nat), CHR ''t'']
     else if n < 32 \<or> 127 \<le> n \<and> n < 161 \<or> n = 173
       then char_of (92::nat) # CHR ''x'' # hex_fixed 2 n
     else [c])"

definition repr_str :: "string \<Rightarrow> string" where
  "repr_str s = (let sq = char_of (39::nat); dq = char_of (34::nat);
       q = (if sq \<in> set s \<and> dq \<notin> set s then dq else sq)
     in [q] @ concat (map (repr_char q) s) @ [q])"

fun join :: "string \<Rightarrow> string list \<Rightarrow> string" where
  "join sep [] = []"
| "join sep [s] = s"
| "join sep (s # t # ss) = s @ sep @ join sep (t # ss)"

function py_repr :: "json \<Rightarrow> string" where
  "py_repr JNull = ''None''"
| "py_repr (JBool b) = (if b then ''True'' else ''False'')"
| "py_repr (JInt i) = str_int i"
| "py_repr (JFloat s) = s"
| "py_repr (JStr s) = repr_str s"
| "py_repr (JList xs) = ''['' @ join '', '' (map py_repr xs) @ '']''"
| "py_repr (JObj kvs) =
     ''{'' @ join '', '' (map (\<lambda>kv. repr_str (fst kv) @ '': '' @ py_repr (snd kv)) kvs) @ ''}''"
  by pat_completeness auto

lemma size_json_snd: "kv \<in> set kvs \<Longrightarrow> size (snd kv) < size (JObj kvs)"
  by (induction kvs) (auto simp: size_prod_simp)

lemma size_json_list: "x \<in> set xs \<Longrightarrow> size x < size (JList xs)"
  by (induction xs) auto

termination py_repr
  by (relation "measure size") (simp_all add: size_json_snd size_json_list del: json.size)

definition py_str :: "json \<Rightarrow> string" where
  "py_str j = (case j of JStr s \<Rightarrow> s | _ \<Rightarrow> py_repr j)"

section \<open>Decimals\<close>

text \<open>\<open>Finite c e\<close> is the number \<open>c * 10 ^ e\<close> with its exponent.\<close>

datatype decimal = Finite int int | Infinite bool | NaN

datatype decimal_error = InvalidOperation

definition is_digit :: "char \<Rightarrow> bool" where
  "is_digit c = (let n = (of_char c :: nat) in 48 \<le> n \<and> n \<le> 57)"

definition digits_value :: "string \<Rightarrow> int" where
  "digits_value s = foldl (\<lambda>n c. 10 * n + (int (of_char c) - 48)) 0 s"

definition split_sign :: "string \<Rightarrow> bool \<times> string" where
  "split_sign s = (case s of [] \<Rightarrow> (False, [])
     | c # r \<Rightarrow> if c = CHR ''-'' then (True, r) else if c = CHR ''+'' then (False, r) else (False, s))"

definition parse_exponent :: "string \<Rightarrow> int option" where
  "parse_exponent s = (let (neg, ds) = split_sign s in
     if ds \<noteq> [] \<and> list_all is_digit ds
     then Some (if neg then - digits_value ds else digits_value ds) else None)"

definition parse_number :: "bool \<Rightarrow> string \<Rightarrow> decimal option" where
  "parse_number neg s =
     (let ip = takeWhile is_digit s; r = dropWhile is_digit s;
          dot = (r \<noteq> [] \<and> hd r = CHR ''.'');
          fp = (if dot then takeWhile is_digit (tl r) else []);
          r' = (if dot then dropWhile is_digit (tl r) else r);
          c = digits_value (ip @ fp);
          c' = (if neg then - c else c)
      in if ip = [] \<and> fp = [] then None
         else case r' of [] \<Rightarrow> Some (Finite c' (- int (length fp)))
           | x # xs \<Rightarrow> if lower_char x = CHR ''e''
               then map_option (\<lambda>e. Finite c' (e - int (length fp))) (parse_exponent xs)
               else None)"

text \<open>\<open>Decimal(text)\<close>; \<open>None\<close> is the \<open>InvalidOperation\<close> it raises on malformed text.\<close>

definition parse_decimal :: "string \<Rightarrow> decimal option" where
  "parse_decimal s =
     (let (neg, t) = split_sign (filter (\<lambda>c. c \<noteq> CHR ''_'') (strip s)); l = lower t in
      if l = ''inf'' \<or> l = ''infinity'' then Some (Infinite neg)
      else if take 3 l = ''nan'' \<and> list_all is_digit (drop 3 l)
        \<or> take 4 l = ''snan'' \<and> list_all is_digit (drop 4 l) then Some NaN
      else parse_number neg t)"

text \<open>\<open>d < 0\<close>: an ordering comparison with a NaN raises \<open>InvalidOperation\<close>.\<close>

definition decimal_negative :: "decimal \<Rightarrow> decimal_error + bool" where
  "decimal_negative d = (case d of Finite c e \<Rightarrow> Inr (c < 0) | Infinite neg \<Rightarrow> Inr neg
     | NaN \<Rightarrow> Inl InvalidOperation)"

definition round_half_up :: "int \<Rightarrow> int \<Rightarrow> int" where
  "round_half_up c d = sgn c * ((2 * \<bar>c\<bar> + d) div (2 * d))"

text \<open>The default context has 28 digits; \<open>quantize\<close> raises when the result needs more.\<close>

definition fits_context :: "int \<Rightarrow> decimal_error + int" where
  "fits_context n = (if \<bar>n\<bar> < 10 ^ 28 then Inr n else Inl InvalidOperation)"

text \<open>\<open>d.quantize(Decimal("0.01"), ROUND_HALF_UP)\<close> as a number of cents. A NaN never gets here:
  the code compares the price with zero first.\<close>

definition quantize_cents :: "decimal \<Rightarrow> decimal_error + int" where
  "quantize_cents d = (case d of
      Finite c e \<Rightarrow> fits_context (if - 2 \<le> e then c * 10 ^ nat (e + 2)
                                else round_half_up c (10 ^ nat (- 2 - e)))
    | _ \<Rightarrow> Inl InvalidOperation)"

text \<open>How a \<open>Numeric(12, 2)\<close> value is written in a JSON response: digits, a point, two digits.\<close>

definition cents_text :: "int \<Rightarrow> string" where
  "cents_text n = (if n < 0 then ''-'' else '''') @ str_nat (nat \<bar>n\<bar> div 100) @ ''.'' @
     [digit_char (nat \<bar>n\<bar> div 10 mod 10), digit_char (nat \<bar>n\<bar> mod 10)]"

subsection \<open>Rounding\<close>

lemma round_half_up_nonneg: "0 \<le> c \<Longrightarrow> 0 < d \<Longrightarrow> 0 \<le> round_half_up c d"
  by (simp add: round_half_up_def sgn_if pos_imp_zdiv_nonneg_iff)

text \<open>The rounded number is within half a unit of the exact quotient.\<close>

lemma round_half_up_error:
  assumes "0 < d"
  shows "\<bar>2 * (round_half_up c d * d - c)\<bar> \<le> d"
proof -
  define q where "q = (2 * \<bar>c\<bar> + d) div (2 * d)"
  have "(2 * \<bar>c\<bar> + d) div (2 * d) * (2 * d) + (2 * \<bar>c\<bar> + d) mod (2 * d) = 2 * \<bar>c\<bar> + d"
    by (rule div_mult_mod_eq)
  moreover have "0 \<le> (2 * \<bar>c\<bar> + d) mod (2 * d)" "(2 * \<bar>c\<bar> + d) mod (2 * d) < 2 * d"
    using assms by simp_all
  ultimately have "\<bar>2 * (q * d) - 2 * \<bar>c\<bar>\<bar> \<le> d"
    unfolding q_def by (simp add: algebra_simps)
  moreover have "\<bar>2 * (round_half_up c d * d - c)\<bar> \<le> \<bar>2 * (q * d) - 2 * \<bar>c\<bar>\<bar>"
  proof -
    consider "c = 0" | "0 < c" | "c < 0" by linarith
    then show ?thesis
    proof cases
      case 3
      then have "round_half_up c d * d - c = - (q * d - \<bar>c\<bar>)"
        by (simp add: round_half_up_def q_def sgn_if)
      then show ?thesis by (metis abs_minus_cancel mult_minus_right order_refl right_diff_distrib)
    qed (simp_all add: round_half_up_def q_def sgn_if right_diff_distrib)
  qed
  ultimately show ?thesis by linarith
qed

lemma quantize_nonneg:
  "quantize_cents (Finite c e) = Inr n \<Longrightarrow> 0 \<le> c \<Longrightarrow> 0 \<le> n"
  by (auto simp: quantize_cents_def fits_context_def intro!: round_half_up_nonneg split: if_splits)

subsection \<open>Price text round trip\<close>

lemma of_digit_char: "d < 10 \<Longrightarrow> of_char (digit_char d) = 48 + d"
  by (simp add: digit_char_def)

lemma is_digit_digit_char [simp]: "d < 10 \<Longrightarrow> is_digit (digit_char d)"
  by (simp add: is_digit_def of_digit_char Let_def)

lemma digits_str_nat: "list_all is_digit (str_nat n)"
  by (induction n rule: str_nat.induct) (subst str_nat.simps, simp)

lemma str_nat_nonempty [simp]: "str_nat n \<noteq> []"
  by (subst str_nat.simps) simp

lemma digits_value_snoc:
  "digits_value (s @ [c]) = 10 * digits_value s + (int (of_char c) - 48)"
  by (simp add: digits_value_def)

lemma digits_value_str_nat: "digits_value (str_nat n) = int n"
proof (induction n rule: str_nat.induct)
  case (1 n)
  show ?case
  proof (cases "n < 10")
    case True
    then show ?thesis
      by (subst str_nat.simps) (simp add: digits_value_def of_digit_char)
  next
    case False
    with "1" have "digits_value (str_nat (n div 10)) = int (n div 10)" by simp
    with False show ?thesis
      by (subst str_nat.simps) (simp add: digits_value_snoc of_digit_char, presburger)
  qed
qed

lemma digit_not_space: "is_digit c \<Longrightarrow> \<not> is_space c"
  by (auto simp: is_digit_def is_space_def Let_def)

lemma strip_digits_ends:
  assumes "s \<noteq> []" and "is_digit (hd s)" and "is_digit (last s)"
  shows "strip s = s"
proof -
  from assms have "dropWhile is_space s = s"
    by (cases s) (auto simp: digit_not_space)
  moreover from assms have "dropWhile is_space (rev s) = rev s"
    by (cases s rule: rev_cases) (auto simp: digit_not_space)
  ultimately show ?thesis by (simp add: strip_def lstrip_def rstrip_def)
qed

lemma digit_facts:
  "is_digit c \<Longrightarrow> c \<noteq> CHR ''-'' \<and> c \<noteq> CHR ''+'' \<and> c \<noteq> CHR ''_'' \<and> lower_char c = c
    \<and> c \<noteq> CHR ''i'' \<and> c \<noteq> CHR ''n'' \<and> c \<noteq> CHR ''s''"
  by (auto simp: is_digit_def lower_char_def Let_def)

lemma takeWhile_digits_dot:
  "list_all is_digit ds \<Longrightarrow> takeWhile is_digit (ds @ CHR ''.'' # r) = ds"
  "list_all is_digit ds \<Longrightarrow> dropWhile is_digit (ds @ CHR ''.'' # r) = CHR ''.'' # r"
  by (induction ds) (simp_all add: is_digit_def)

lemma filter_underscore_digits:
  "list_all is_digit ds \<Longrightarrow> filter (\<lambda>c. c \<noteq> CHR ''_'') ds = ds"
  by (induction ds) (auto simp: digit_facts)

text \<open>A price sent by the Inventory Service is read back as exactly that many cents.\<close>

lemma parse_cents_text:
  assumes "0 \<le> n"
  shows "parse_decimal (cents_text n) = Some (Finite n (- 2))"
proof -
  define ip where "ip = str_nat (nat n div 100)"
  define fp where "fp = [digit_char (nat n div 10 mod 10), digit_char (nat n mod 10)]"
  have shape: "cents_text n = ip @ CHR ''.'' # fp"
    using assms by (simp add: cents_text_def ip_def fp_def)
  have ip: "list_all is_digit ip" "ip \<noteq> []" by (simp_all add: ip_def digits_str_nat)
  have fp: "list_all is_digit fp" "fp \<noteq> []" "length fp = 2" by (simp_all add: fp_def)
  from ip obtain c cs where c: "ip = c # cs" "is_digit c" by (cases ip) auto
  have strip: "strip (ip @ CHR ''.'' # fp) = ip @ CHR ''.'' # fp"
    using c by (intro strip_digits_ends) (simp_all add: fp_def)
  have clean: "filter (\<lambda>c. c \<noteq> CHR ''_'') (ip @ CHR ''.'' # fp) = ip @ CHR ''.'' # fp"
    using ip fp by (simp add: filter_underscore_digits)
  have hundred: "nat n div 100 = nat n div 10 div 10" by (simp flip: div_mult2_eq)
  have "int (10 * (10 * (nat n div 100) + nat n div 10 mod 10) + nat n mod 10) = int (nat n)"
    by (simp only: hundred mult_div_mod_eq)
  then have "10 * (10 * int (nat n div 100) + int (nat n div 10 mod 10)) + int (nat n mod 10) = n"
    using assms by (simp only: of_nat_add of_nat_mult of_nat_numeral int_nat_eq if_True)
  then have digs: "digits_value (ip @ fp) = n"
    using digits_value_snoc [of "ip @ [digit_char (nat n div 10 mod 10)]"] digits_value_snoc [of ip]
    by (simp add: fp_def ip_def digits_value_str_nat of_digit_char)
  have "parse_number False (ip @ CHR ''.'' # fp) = Some (Finite n (- 2))"
  proof -
    have span: "takeWhile is_digit fp = fp" "dropWhile is_digit fp = []"
      by (simp_all add: fp_def)
    show ?thesis
      using ip fp digs by (simp add: parse_number_def takeWhile_digits_dot span Let_def)
  qed
  moreover have "split_sign (ip @ CHR ''.'' # fp) = (False, ip @ CHR ''.'' # fp)"
    using c by (simp add: split_sign_def digit_facts)
  moreover have "lower (ip @ CHR ''.'' # fp) = c # map lower_char (cs @ CHR ''.'' # fp)"
    using c by (simp add: lower_def digit_facts)
  ultimately show ?thesis
    unfolding shape parse_decimal_def strip clean
    using c digit_facts [of c] by (simp add: Let_def numeral_eq_Suc)
qed

lemma quantize_cents_id: "\<bar>n\<bar> < 10 ^ 28 \<Longrightarrow> quantize_cents (Finite n (- 2)) = Inr n"
  by (simp add: quantize_cents_def fits_context_def)

end
