(* ===== verification/Http_Types.thy ===== *)
theory Http_Types
  imports Json_Decimal
begin

text \<open>
  The HTTP vocabulary of the FastAPI services: what an endpoint returns (a reply with a status
  and a value, or the \<open>HTTPException\<close> it raises), and the requests and responses that travel
  between services. An exception an endpoint does not catch is a 500; a body or query that fails
  its Pydantic model is answered 422 before the endpoint runs.
\<close>

datatype 'a endpoint_result = Reply nat 'a | HTTPException nat json

record http_response =
  resp_status :: nat
  resp_body :: "json option" \<comment> \<open>\<open>None\<close>: the body is not JSON\<close>
  resp_text :: string

record http_request =
  req_method :: string
  req_url :: string
  req_json :: json

text \<open>The two kinds of failure of an \<open>httpx\<close> request that the code distinguishes.\<close>

datatype request_error = TimeoutException | RequestError

definition unprocessable :: "'a endpoint_result" where
  "unprocessable = HTTPException 422 (JStr ''Unprocessable Entity'')"

definition server_error :: "'a endpoint_result" where
  "server_error = HTTPException 500 (JStr ''Internal Server Error'')"

text \<open>\<open>response.is_success\<close>.\<close>

definition is_success :: "http_response \<Rightarrow> bool" where
  "is_success r \<longleftrightarrow> 200 \<le> resp_status r \<and> resp_status r < 300"

text \<open>FastAPI serialises a returned value with the response model, and an \<open>HTTPException\<close> as an
  object with the one key \<open>detail\<close>.\<close>

definition to_response :: "('a \<Rightarrow> json) \<Rightarrow> 'a endpoint_result \<Rightarrow> http_response" where
  "to_response enc r = (case r of
      Reply code x \<Rightarrow> \<lparr>resp_status = code, resp_body = Some (enc x), resp_text = py_repr (enc x)\<rparr>
    | HTTPException code detail \<Rightarrow>
        \<lparr>resp_status = code, resp_body = Some (JObj [(''detail'', detail)]),
         resp_text = py_repr (JObj [(''detail'', detail)])\<rparr>)"

lemma to_response_success:
  "is_success (to_response enc r) \<longleftrightarrow>
    (case r of Reply c x \<Rightarrow> 200 \<le> c \<and> c < 300 | HTTPException c d \<Rightarrow> 200 \<le> c \<and> c < 300)"
  by (simp add: to_response_def is_success_def split: endpoint_result.splits)

end
