(* ===== verification/Inventory_Model.thy ===== *)
theory Inventory_Model
  imports Http_Types
begin

text \<open>
  The tables of the Inventory Service (inventory-service/app/models): products, balances and
  stock movements, with the constraints PostgreSQL checks when a row is written. A balance is
  found by its unique (product, warehouse) pair, so the table is a map on that pair; the movement
  table is a list with the newest row first. Primary keys drawn with \<open>uuid4()\<close> are taken not to
  collide.
\<close>

declare split_paired_All [simp del] split_paired_Ex [simp del]

section \<open>Rows\<close>

record product =
  prod_id :: uuid
  prod_sku :: string
  prod_name :: string
  prod_description :: "string option"
  prod_unit_price :: int \<comment> \<open>\<open>Numeric(12, 2)\<close>, in cents\<close>
  prod_reorder_level :: int
  prod_is_active :: bool
  prod_created_at :: time
  prod_updated_at :: time

record inventory_balance =
  bal_id :: uuid
  bal_product_id :: uuid
  bal_warehouse_id :: uuid
  quantity_on_hand :: int
  quantity_reserved :: int
  bal_created_at :: time
  bal_updated_at :: time

datatype movement_type =
  RECEIPT | ISSUE | ADJUSTMENT | RESERVATION | RELEASE | TRANSFER_OUT | TRANSFER_IN

record stock_movement =
  mv_id :: uuid
  mv_product_id :: uuid
  mv_warehouse_id :: uuid
  mv_type :: movement_type
  mv_on_hand_delta :: int
  mv_reserved_delta :: int
  mv_on_hand_after :: int
  mv_reserved_after :: int
  mv_reference_id :: "string option"
  mv_reason :: "string option"
  mv_transfer_id :: "uuid option"
  mv_created_at :: time

type_synonym stock_key = "uuid \<times> uuid" \<comment> \<open>product, warehouse\<close>

record inventory_db =
  products :: "product list"
  balances :: "stock_key \<Rightarrow> inventory_balance option"
  movements :: "stock_movement list"

definition empty_inventory :: inventory_db where
  "empty_inventory = \<lparr>products = [], balances = (\<lambda>_. None), movements = []\<rparr>"

definition bal_key :: "inventory_balance \<Rightarrow> stock_key" where
  "bal_key b = (bal_product_id b, bal_warehouse_id b)"

definition mv_key :: "stock_movement \<Rightarrow> stock_key" where
  "mv_key m = (mv_product_id m, mv_warehouse_id m)"

section \<open>Constraints\<close>

definition optional_length :: "nat \<Rightarrow> string option \<Rightarrow> bool" where
  "optional_length n s = (case s of None \<Rightarrow> True | Some t \<Rightarrow> length t \<le> n)"

definition check_product :: "product \<Rightarrow> db_error + unit" where
  "check_product p =
     rbind (ensure (length (prod_sku p) \<le> 50 \<and> length (prod_name p) \<le> 200
                  \<and> \<bar>prod_unit_price p\<bar> < 10 ^ 12 \<and> int4 (prod_reorder_level p)) DataError)
       (\<lambda>_. ensure (0 \<le> prod_unit_price p \<and> 0 \<le> prod_reorder_level p) IntegrityError)"

definition check_balance :: "inventory_balance \<Rightarrow> db_error + unit" where
  "check_balance b =
     rbind (ensure (int4 (quantity_on_hand b) \<and> int4 (quantity_reserved b)) DataError)
       (\<lambda>_. ensure (0 \<le> quantity_on_hand b \<and> 0 \<le> quantity_reserved b
                   \<and> quantity_reserved b \<le> quantity_on_hand b) IntegrityError)"

definition check_movement :: "stock_movement \<Rightarrow> db_error + unit" where
  "check_movement m =
     rbind (ensure (int4 (mv_on_hand_delta m) \<and> int4 (mv_reserved_delta m)
                  \<and> int4 (mv_on_hand_after m) \<and> int4 (mv_reserved_after m)
                  \<and> optional_length 100 (mv_reference_id m)
                  \<and> optional_length 500 (mv_reason m)) DataError)
       (\<lambda>_. ensure ((mv_on_hand_delta m \<noteq> 0 \<or> mv_reserved_delta m \<noteq> 0)
                   \<and> 0 \<le> mv_on_hand_after m \<and> 0 \<le> mv_reserved_after m) IntegrityError)"

fun check_all :: "('r \<Rightarrow> 'e + unit) \<Rightarrow> 'r list \<Rightarrow> 'e + unit" where
  "check_all c [] = Inr ()"
| "check_all c (r # rs) = rbind (c r) (\<lambda>_. check_all c rs)"

lemma check_all_Inr [result_simps]:
  "check_all c rs = Inr u \<longleftrightarrow> (\<forall>r\<in>set rs. c r = Inr ())"
  by (induction rs) (auto simp: result_simps)

text \<open>
  Committing the updated balances and the new movements of one stock operation: the flush checks
  every row it writes, and nothing is stored when one of them fails.
\<close>

definition store_balances :: "inventory_balance list \<Rightarrow>
    (stock_key \<Rightarrow> inventory_balance option) \<Rightarrow> (stock_key \<Rightarrow> inventory_balance option)" where
  "store_balances bs t = fold (\<lambda>b t. t(bal_key b \<mapsto> b)) bs t"

definition commit_stock :: "env \<Rightarrow> inventory_db \<Rightarrow> inventory_balance list \<Rightarrow>
    stock_movement list \<Rightarrow> db_error + inventory_db" where
  "commit_stock env db bs ms =
     rbind (commit_fault env) (\<lambda>_.
     rbind (check_all check_balance bs) (\<lambda>_.
     rbind (check_all check_movement ms) (\<lambda>_.
     Inr (db\<lparr>balances := store_balances bs (balances db),
             movements := rev ms @ movements db\<rparr>))))"

definition balance_ok :: "inventory_balance \<Rightarrow> bool" where
  "balance_ok b \<longleftrightarrow> 0 \<le> quantity_reserved b \<and> quantity_reserved b \<le> quantity_on_hand b
     \<and> int4 (quantity_on_hand b) \<and> int4 (quantity_reserved b)"

lemma check_balance_Inr [result_simps]: "check_balance b = Inr u \<longleftrightarrow> balance_ok b"
  by (auto simp: check_balance_def balance_ok_def result_simps)

lemma commit_stock_Inr:
  "commit_stock env db bs ms = Inr db' \<longleftrightarrow>
     env_fault env = None \<and> (\<forall>b\<in>set bs. balance_ok b) \<and> (\<forall>m\<in>set ms. check_movement m = Inr ()) \<and>
     db' = db\<lparr>balances := store_balances bs (balances db), movements := rev ms @ movements db\<rparr>"
  by (auto simp: commit_stock_def result_simps)

lemma commit_stock_Inl:
  assumes "commit_stock env db bs ms = Inl e"
  shows "env_fault env \<noteq> None \<or> (\<exists>b\<in>set bs. \<not> balance_ok b)
    \<or> (\<exists>m\<in>set ms. check_movement m \<noteq> Inr ())"
proof (rule ccontr)
  assume "\<not> ?thesis"
  then have "commit_stock env db bs ms = Inr (db\<lparr>balances := store_balances bs (balances db),
      movements := rev ms @ movements db\<rparr>)"
    by (simp add: commit_stock_Inr)
  with assms show False by simp
qed

section \<open>Views\<close>

definition on_hand :: "inventory_db \<Rightarrow> stock_key \<Rightarrow> int" where
  "on_hand db k = (case balances db k of None \<Rightarrow> 0 | Some b \<Rightarrow> quantity_on_hand b)"

definition reserved :: "inventory_db \<Rightarrow> stock_key \<Rightarrow> int" where
  "reserved db k = (case balances db k of None \<Rightarrow> 0 | Some b \<Rightarrow> quantity_reserved b)"

definition available :: "inventory_db \<Rightarrow> stock_key \<Rightarrow> int" where
  "available db k = on_hand db k - reserved db k"

lemma views_Some:
  "balances db k = Some b \<Longrightarrow> on_hand db k = quantity_on_hand b"
  "balances db k = Some b \<Longrightarrow> reserved db k = quantity_reserved b"
  by (simp_all add: on_hand_def reserved_def)

lemma views_None:
  "balances db k = None \<Longrightarrow> on_hand db k = 0"
  "balances db k = None \<Longrightarrow> reserved db k = 0"
  by (simp_all add: on_hand_def reserved_def)

end
