(* ===== verification/Stock.thy ===== *)
theory Stock
  imports Inventory_Model
begin

text \<open>
  The stock operations of the Inventory Service: the request schemas
  (inventory-service/app/schemas/stock.py) and the service functions receive, issue, reserve,
  release and transfer (inventory-service/app/services/stock.py). Each operation is one database
  transaction whose row locks are held to the end, so it is one atomic step on the tables.
\<close>

section \<open>Requests\<close>

record stock_request =
  rq_product_id :: uuid
  rq_warehouse_id :: uuid
  rq_quantity :: int
  rq_reason :: "string option"

text \<open>Receipts and issues may name a reference; reservations and releases must.\<close>

record stock_change_request = stock_request +
  rq_reference_id :: "string option"

record stock_reservation_request = stock_request +
  rq_owner_reference_id :: string

record stock_transfer_request =
  tr_product_id :: uuid
  tr_source_warehouse_id :: uuid
  tr_destination_warehouse_id :: uuid
  tr_quantity :: int
  tr_reference_id :: "string option"
  tr_reason :: "string option"

definition valid_stock_change :: "stock_change_request \<Rightarrow> bool" where
  "valid_stock_change r \<longleftrightarrow> 0 < rq_quantity r \<and> optional_length 100 (rq_reference_id r)
     \<and> optional_length 500 (rq_reason r)"

definition valid_stock_reservation :: "stock_reservation_request \<Rightarrow> bool" where
  "valid_stock_reservation r \<longleftrightarrow> 0 < rq_quantity r
     \<and> 1 \<le> length (rq_owner_reference_id r) \<and> length (rq_owner_reference_id r) \<le> 100
     \<and> optional_length 500 (rq_reason r)"

definition valid_stock_transfer :: "stock_transfer_request \<Rightarrow> bool" where
  "valid_stock_transfer r \<longleftrightarrow> 0 < tr_quantity r \<and> optional_length 100 (tr_reference_id r)
     \<and> optional_length 500 (tr_reason r)
     \<and> tr_source_warehouse_id r \<noteq> tr_destination_warehouse_id r"

abbreviation rq_key :: "'a stock_request_scheme \<Rightarrow> stock_key" where
  "rq_key r \<equiv> (rq_product_id r, rq_warehouse_id r)"

section \<open>Errors and results\<close>

datatype stock_error =
    ProductNotFoundError uuid
  | InsufficientStockError int int
  | ReservationAlreadyExistsError string int
  | InsufficientReservedStockError int int string
  | StockRuntimeError string
  | StockDatabaseError db_error

definition stock_error_text :: "stock_error \<Rightarrow> string" where
  "stock_error_text e = (case e of
      ProductNotFoundError p \<Rightarrow>
        ''Product '' @ CHR 39 # str_uuid p @ CHR 39 # '' was not found''
    | InsufficientStockError a q \<Rightarrow>
        ''Insufficient stock: '' @ str_int a @ '' available, '' @ str_int q @ '' requested''
    | ReservationAlreadyExistsError r q \<Rightarrow>
        ''Reservation '' @ CHR 39 # r @ CHR 39 # '' already has '' @ str_int q @ '' reserved''
    | InsufficientReservedStockError a q r \<Rightarrow>
        ''Insufficient reserved stock: '' @ str_int a @ '' reserved for '' @ CHR 39 # r @
        CHR 39 # '', '' @ str_int q @ '' requested''
    | StockRuntimeError s \<Rightarrow> s
    | StockDatabaseError _ \<Rightarrow> ''database error'')"

record stock_operation_result =
  res_balance :: inventory_balance
  res_movement :: stock_movement

record stock_transfer_result =
  res_transfer_id :: uuid
  res_source_balance :: inventory_balance
  res_destination_balance :: inventory_balance
  res_outbound_movement :: stock_movement
  res_inbound_movement :: stock_movement

section \<open>Reading and locking\<close>

definition ensure_product_exists :: "inventory_db \<Rightarrow> uuid \<Rightarrow> stock_error + unit" where
  "ensure_product_exists db p =
     ensure (find (\<lambda>r. prod_id r = p) (products db) \<noteq> None) (ProductNotFoundError p)"

definition reservation_row :: "stock_key \<Rightarrow> string \<Rightarrow> stock_movement \<Rightarrow> bool" where
  "reservation_row k ref m \<longleftrightarrow> mv_key m = k \<and> mv_reference_id m = Some ref
     \<and> mv_type m \<in> {RESERVATION, RELEASE}"

definition get_reference_reserved_quantity :: "inventory_db \<Rightarrow> stock_key \<Rightarrow> string \<Rightarrow> int" where
  "get_reference_reserved_quantity db k ref =
     sum_where (reservation_row k ref) mv_reserved_delta (movements db)"

definition insert_empty_balance_if_missing :: "env \<Rightarrow> inventory_db \<Rightarrow> stock_key \<Rightarrow> inventory_db" where
  "insert_empty_balance_if_missing env db k =
     (case balances db k of
        Some _ \<Rightarrow> db
      | None \<Rightarrow> db\<lparr>balances := (balances db)(k \<mapsto>
          \<lparr>bal_id = env_ids env 0, bal_product_id = fst k, bal_warehouse_id = snd k,
           quantity_on_hand = 0, quantity_reserved = 0,
           bal_created_at = env_now env, bal_updated_at = env_now env\<rparr>)\<rparr>)"

definition get_balance_for_update :: "inventory_db \<Rightarrow> stock_key \<Rightarrow> inventory_balance option" where
  "get_balance_for_update db k = balances db k"

definition get_or_create_balance_for_update ::
    "env \<Rightarrow> inventory_db \<Rightarrow> stock_key \<Rightarrow> stock_error + inventory_balance \<times> inventory_db" where
  "get_or_create_balance_for_update env db k =
     (let db1 = insert_empty_balance_if_missing env db k in
      case get_balance_for_update db1 k of
        None \<Rightarrow> Inl (StockRuntimeError ''Inventory balance could not be created'')
      | Some b \<Rightarrow> Inr (b, db1))"

text \<open>The rows a transfer locks, in the order it locks them: by warehouse id.\<close>

definition transfer_lock_order :: "inventory_db \<Rightarrow> uuid \<Rightarrow> uuid \<Rightarrow> uuid \<Rightarrow> stock_key list" where
  "transfer_lock_order db p src dst =
     filter (\<lambda>k. balances db k \<noteq> None) (map (\<lambda>w. (p, w)) (sort (remdups [src, dst])))"

definition get_transfer_balances_for_update ::
    "env \<Rightarrow> inventory_db \<Rightarrow> uuid \<Rightarrow> uuid \<Rightarrow> uuid \<Rightarrow>
      stock_error + inventory_balance option \<times> inventory_balance \<times> inventory_db" where
  "get_transfer_balances_for_update env db p src dst =
     (let db1 = insert_empty_balance_if_missing env db (p, dst);
          rows = map (\<lambda>k. (snd k, the (balances db1 k))) (transfer_lock_order db1 p src dst);
          source = map_of rows src;
          destination = map_of rows dst
      in case destination of
           None \<Rightarrow> Inl (StockRuntimeError ''Destination inventory balance could not be created'')
         | Some d \<Rightarrow> Inr (source, d, db1))"

section \<open>Operations\<close>

text \<open>The audit row of a change: it copies the updated balance into its two after columns.\<close>

definition movement_for :: "env \<Rightarrow> nat \<Rightarrow> inventory_balance \<Rightarrow> movement_type \<Rightarrow> int \<Rightarrow> int \<Rightarrow>
    string option \<Rightarrow> string option \<Rightarrow> uuid option \<Rightarrow> stock_movement" where
  "movement_for env i b ty dh dr ref reason tid =
     \<lparr>mv_id = env_ids env i, mv_product_id = bal_product_id b,
      mv_warehouse_id = bal_warehouse_id b, mv_type = ty, mv_on_hand_delta = dh,
      mv_reserved_delta = dr, mv_on_hand_after = quantity_on_hand b,
      mv_reserved_after = quantity_reserved b, mv_reference_id = ref, mv_reason = reason,
      mv_transfer_id = tid, mv_created_at = env_now env\<rparr>"

text \<open>\<open>database.add(movement); database.commit()\<close> and the refreshed rows as the result. The two
  \<open>refresh\<close> calls behind the commit, which read the rows back, succeed here; a database that fails
  between the commit and them would answer 500 with the operation committed.\<close>

definition commit_one :: "env \<Rightarrow> inventory_db \<Rightarrow> inventory_balance \<Rightarrow> stock_movement \<Rightarrow>
    stock_error + stock_operation_result \<times> inventory_db" where
  "commit_one env db b m =
     (case commit_stock env db [b] [m] of
        Inl e \<Rightarrow> Inl (StockDatabaseError e)
      | Inr db' \<Rightarrow> Inr (\<lparr>res_balance = b, res_movement = m\<rparr>, db'))"

definition receive_stock :: "env \<Rightarrow> inventory_db \<Rightarrow> stock_change_request \<Rightarrow>
    (stock_error + stock_operation_result) \<times> inventory_db" where
  "receive_stock env db request = transaction db (
     rbind (ensure_product_exists db (rq_product_id request)) (\<lambda>_.
     rbind (get_or_create_balance_for_update env db (rq_key request)) (\<lambda>(balance, db1).
     let balance' = balance\<lparr>quantity_on_hand := quantity_on_hand balance + rq_quantity request,
                            bal_updated_at := env_now env\<rparr>;
         movement = movement_for env 1 balance' RECEIPT (rq_quantity request) 0
                      (rq_reference_id request) (rq_reason request) None
     in commit_one env db1 balance' movement)))"

definition issue_stock :: "env \<Rightarrow> inventory_db \<Rightarrow> stock_change_request \<Rightarrow>
    (stock_error + stock_operation_result) \<times> inventory_db" where
  "issue_stock env db request = transaction db (
     rbind (ensure_product_exists db (rq_product_id request)) (\<lambda>_.
     case get_balance_for_update db (rq_key request) of
       None \<Rightarrow> Inl (InsufficientStockError 0 (rq_quantity request))
     | Some balance \<Rightarrow>
         let available_quantity = quantity_on_hand balance - quantity_reserved balance in
         if rq_quantity request > available_quantity
         then Inl (InsufficientStockError available_quantity (rq_quantity request))
         else
           let balance' = balance\<lparr>quantity_on_hand := quantity_on_hand balance - rq_quantity request,
                                  bal_updated_at := env_now env\<rparr>;
               movement = movement_for env 0 balance' ISSUE (- rq_quantity request) 0
                            (rq_reference_id request) (rq_reason request) None
           in commit_one env db balance' movement))"

definition reserve_stock :: "env \<Rightarrow> inventory_db \<Rightarrow> stock_reservation_request \<Rightarrow>
    (stock_error + stock_operation_result) \<times> inventory_db" where
  "reserve_stock env db request = transaction db (
     rbind (ensure_product_exists db (rq_product_id request)) (\<lambda>_.
     let balance_row = get_balance_for_update db (rq_key request);
         reserved_for_reference = get_reference_reserved_quantity db (rq_key request)
                                    (rq_owner_reference_id request)
     in if reserved_for_reference > 0
        then Inl (ReservationAlreadyExistsError (rq_owner_reference_id request)
                    reserved_for_reference)
        else case balance_row of
          None \<Rightarrow> Inl (InsufficientStockError 0 (rq_quantity request))
        | Some balance \<Rightarrow>
            let available_quantity = quantity_on_hand balance - quantity_reserved balance in
            if rq_quantity request > available_quantity
            then Inl (InsufficientStockError available_quantity (rq_quantity request))
            else
              let balance' = balance\<lparr>quantity_reserved := quantity_reserved balance
                                        + rq_quantity request,
                                     bal_updated_at := env_now env\<rparr>;
                  movement = movement_for env 0 balance' RESERVATION 0 (rq_quantity request)
                               (Some (rq_owner_reference_id request)) (rq_reason request) None
              in commit_one env db balance' movement))"

definition release_stock :: "env \<Rightarrow> inventory_db \<Rightarrow> stock_reservation_request \<Rightarrow>
    (stock_error + stock_operation_result) \<times> inventory_db" where
  "release_stock env db request = transaction db (
     rbind (ensure_product_exists db (rq_product_id request)) (\<lambda>_.
     let balance_row = get_balance_for_update db (rq_key request);
         reserved_for_reference = get_reference_reserved_quantity db (rq_key request)
                                    (rq_owner_reference_id request)
     in case balance_row of
          None \<Rightarrow> Inl (InsufficientReservedStockError 0 (rq_quantity request)
                        (rq_owner_reference_id request))
        | Some balance \<Rightarrow>
            let releasable_quantity = min reserved_for_reference (quantity_reserved balance) in
            if rq_quantity request > releasable_quantity
            then Inl (InsufficientReservedStockError releasable_quantity (rq_quantity request)
                        (rq_owner_reference_id request))
            else
              let balance' = balance\<lparr>quantity_reserved := quantity_reserved balance
                                        - rq_quantity request,
                                     bal_updated_at := env_now env\<rparr>;
                  movement = movement_for env 0 balance' RELEASE 0 (- rq_quantity request)
                               (Some (rq_owner_reference_id request)) (rq_reason request) None
              in commit_one env db balance' movement))"

definition transfer_stock :: "env \<Rightarrow> inventory_db \<Rightarrow> stock_transfer_request \<Rightarrow>
    (stock_error + stock_transfer_result) \<times> inventory_db" where
  "transfer_stock env db request = transaction db (
     rbind (ensure_product_exists db (tr_product_id request)) (\<lambda>_.
     rbind (get_transfer_balances_for_update env db (tr_product_id request)
              (tr_source_warehouse_id request) (tr_destination_warehouse_id request))
       (\<lambda>(source, destination, db1).
     case source of
       None \<Rightarrow> Inl (InsufficientStockError 0 (tr_quantity request))
     | Some source_balance \<Rightarrow>
         let available_quantity = quantity_on_hand source_balance
                                    - quantity_reserved source_balance in
         if tr_quantity request > available_quantity
         then Inl (InsufficientStockError available_quantity (tr_quantity request))
         else
           let transfer_id = env_ids env 1;
               source' = source_balance\<lparr>quantity_on_hand := quantity_on_hand source_balance
                                          - tr_quantity request, bal_updated_at := env_now env\<rparr>;
               destination' = destination\<lparr>quantity_on_hand := quantity_on_hand destination
                                          + tr_quantity request, bal_updated_at := env_now env\<rparr>;
               outbound = movement_for env 2 source' TRANSFER_OUT (- tr_quantity request) 0
                            (tr_reference_id request) (tr_reason request) (Some transfer_id);
               inbound = movement_for env 3 destination' TRANSFER_IN (tr_quantity request) 0
                            (tr_reference_id request) (tr_reason request) (Some transfer_id)
           in case commit_stock env db1 [source', destination'] [outbound, inbound] of
                Inl e \<Rightarrow> Inl (StockDatabaseError e)
              | Inr db' \<Rightarrow> Inr (\<lparr>res_transfer_id = transfer_id, res_source_balance = source',
                    res_destination_balance = destination', res_outbound_movement = outbound,
                    res_inbound_movement = inbound\<rparr>, db'))))"

end
