(* ===== verification/Stock_Ledger.thy ===== *)
theory Stock_Ledger
  imports Stock
begin

text \<open>
  The ledger invariant of the Inventory Service and its preservation. Every balance row is the
  sum of its audit movements, the after columns of each movement are the running balance, and
  what an order reference holds is never negative; hence the holdings of the references add up
  to the reserved quantity of the row.
\<close>

named_theorems stock_defs \<open>definitions of the stock operations\<close>

declare receive_stock_def [stock_defs] issue_stock_def [stock_defs] reserve_stock_def [stock_defs]
  release_stock_def [stock_defs] ensure_product_exists_def [stock_defs]
  get_balance_for_update_def [stock_defs]

section \<open>The invariant\<close>

definition key_sum :: "inventory_db \<Rightarrow> stock_key \<Rightarrow> (stock_movement \<Rightarrow> int) \<Rightarrow> int" where
  "key_sum db k f = sum_where (\<lambda>m. mv_key m = k) f (movements db)"

text \<open>Which deltas and columns each type of movement has; no operation writes an adjustment.\<close>

definition movement_wf :: "stock_movement \<Rightarrow> bool" where
  "movement_wf m = (case mv_type m of
      RECEIPT \<Rightarrow> 0 < mv_on_hand_delta m \<and> mv_reserved_delta m = 0
    | ISSUE \<Rightarrow> mv_on_hand_delta m < 0 \<and> mv_reserved_delta m = 0
    | ADJUSTMENT \<Rightarrow> False
    | RESERVATION \<Rightarrow> mv_on_hand_delta m = 0 \<and> 0 < mv_reserved_delta m \<and> mv_reference_id m \<noteq> None
    | RELEASE \<Rightarrow> mv_on_hand_delta m = 0 \<and> mv_reserved_delta m < 0 \<and> mv_reference_id m \<noteq> None
    | TRANSFER_OUT \<Rightarrow> mv_on_hand_delta m < 0 \<and> mv_reserved_delta m = 0 \<and> mv_transfer_id m \<noteq> None
    | TRANSFER_IN \<Rightarrow> 0 < mv_on_hand_delta m \<and> mv_reserved_delta m = 0 \<and> mv_transfer_id m \<noteq> None)"

text \<open>The after columns of a movement are the sums of its own and all older deltas of its key.\<close>

fun audit_trail :: "stock_movement list \<Rightarrow> bool" where
  "audit_trail [] = True"
| "audit_trail (m # older) \<longleftrightarrow>
     mv_on_hand_after m = mv_on_hand_delta m
       + sum_where (\<lambda>x. mv_key x = mv_key m) mv_on_hand_delta older
     \<and> mv_reserved_after m = mv_reserved_delta m
       + sum_where (\<lambda>x. mv_key x = mv_key m) mv_reserved_delta older
     \<and> audit_trail older"

definition rows_ok :: "inventory_db \<Rightarrow> bool" where
  "rows_ok db \<longleftrightarrow> (\<forall>k b. balances db k = Some b \<longrightarrow> bal_key b = k \<and> balance_ok b)"

definition ledger_ok :: "inventory_db \<Rightarrow> bool" where
  "ledger_ok db \<longleftrightarrow> rows_ok db
     \<and> (\<forall>k. on_hand db k = key_sum db k mv_on_hand_delta)
     \<and> (\<forall>k. reserved db k = key_sum db k mv_reserved_delta)
     \<and> (\<forall>k ref. 0 \<le> get_reference_reserved_quantity db k ref)
     \<and> (\<forall>m\<in>set (movements db). movement_wf m)
     \<and> audit_trail (movements db)"

lemma ledger_okD:
  assumes "ledger_ok db"
  shows "rows_ok db"
    and "on_hand db k = key_sum db k mv_on_hand_delta"
    and "reserved db k = key_sum db k mv_reserved_delta"
    and "0 \<le> get_reference_reserved_quantity db k ref"
    and "m \<in> set (movements db) \<Longrightarrow> movement_wf m"
    and "audit_trail (movements db)"
  using assms by (simp_all add: ledger_ok_def)

lemma rows_okD:
  assumes "rows_ok db" and "balances db k = Some b"
  shows "bal_key b = k" and "balance_ok b"
  using assms by (simp_all add: rows_ok_def)

lemma view_bounds:
  assumes "rows_ok db"
  shows "0 \<le> reserved db k" and "reserved db k \<le> on_hand db k" and "on_hand db k < 2 ^ 31"
  using assms
  by (auto simp: on_hand_def reserved_def rows_ok_def balance_ok_def int4_def split: option.splits)
lemma ledger_ok_empty: "ledger_ok empty_inventory"
  by (simp add: ledger_ok_def empty_inventory_def rows_ok_def on_hand_def reserved_def key_sum_def
      get_reference_reserved_quantity_def)

section \<open>One recorded change\<close>

text \<open>What every successful operation does to one balance: update it, and prepend its movement.\<close>

definition stock_change :: "inventory_db \<Rightarrow> stock_key \<Rightarrow> stock_movement \<Rightarrow> inventory_db \<Rightarrow> bool" where
  "stock_change db k m db' \<longleftrightarrow> (\<exists>b b'.
      balances db k = Some b \<and> bal_key b' = k \<and> balance_ok b'
    \<and> quantity_on_hand b' = quantity_on_hand b + mv_on_hand_delta m
    \<and> quantity_reserved b' = quantity_reserved b + mv_reserved_delta m
    \<and> mv_key m = k \<and> mv_on_hand_after m = quantity_on_hand b'
    \<and> mv_reserved_after m = quantity_reserved b'
    \<and> db' = db\<lparr>balances := (balances db)(k \<mapsto> b'), movements := m # movements db\<rparr>)"

lemma stock_changeI:
  assumes "balances db k = Some b" and "bal_key b' = k" and "balance_ok b'"
    and "quantity_on_hand b' = quantity_on_hand b + mv_on_hand_delta m"
    and "quantity_reserved b' = quantity_reserved b + mv_reserved_delta m"
    and "mv_key m = k" and "mv_on_hand_after m = quantity_on_hand b'"
    and "mv_reserved_after m = quantity_reserved b'"
  shows "stock_change db k m (db\<lparr>balances := (balances db)(k \<mapsto> b'), movements := m # movements db\<rparr>)"
  using assms by (auto simp: stock_change_def)

lemma stock_change_views:
  assumes "stock_change db k m db'"
  shows "on_hand db' k' = on_hand db k' + (if k' = k then mv_on_hand_delta m else 0)"
    and "reserved db' k' = reserved db k' + (if k' = k then mv_reserved_delta m else 0)"
    and "get_reference_reserved_quantity db' k' ref = get_reference_reserved_quantity db k' ref
          + (if reservation_row k' ref m then mv_reserved_delta m else 0)"
    and "products db' = products db"
    and "movements db' = m # movements db"
  using assms
  by (auto simp: stock_change_def on_hand_def reserved_def get_reference_reserved_quantity_def)

lemma stock_change_ledger:
  assumes ok: "ledger_ok db" and ch: "stock_change db k m db'" and wf: "movement_wf m"
    and ref: "\<And>ref. reservation_row k ref m \<Longrightarrow>
      0 \<le> get_reference_reserved_quantity db k ref + mv_reserved_delta m"
  shows "ledger_ok db'"
proof -
  note views = stock_change_views [OF ch]
  have key: "mv_key m = k" using ch by (auto simp: stock_change_def)
  have rows: "rows_ok db'"
    using ch ledger_okD(1) [OF ok] by (auto simp: stock_change_def rows_ok_def split: if_splits)
  have "0 \<le> get_reference_reserved_quantity db' k' r" for k' r
    using ledger_okD(4) [OF ok, of k' r] ref [of r] key
    by (auto simp: views reservation_row_def)
  moreover have "audit_trail (movements db')"
    using ch ledger_okD(2) [OF ok, of k] ledger_okD(3) [OF ok, of k] ledger_okD(6) [OF ok]
    by (auto simp: stock_change_def views_Some key_sum_def)
  ultimately show ?thesis
    using rows wf key ledger_okD [OF ok]
    by (auto simp: ledger_ok_def views key_sum_def)
qed

lemma insert_empty_views:
  "on_hand (insert_empty_balance_if_missing env db k) k' = on_hand db k'"
  "reserved (insert_empty_balance_if_missing env db k) k' = reserved db k'"
  "movements (insert_empty_balance_if_missing env db k) = movements db"
  "products (insert_empty_balance_if_missing env db k) = products db"
  "get_reference_reserved_quantity (insert_empty_balance_if_missing env db k) k' ref =
     get_reference_reserved_quantity db k' ref"
  by (auto simp: insert_empty_balance_if_missing_def on_hand_def reserved_def
      get_reference_reserved_quantity_def split: option.splits)

lemma insert_empty_found:
  "\<exists>b. balances (insert_empty_balance_if_missing env db k) k = Some b"
  by (auto simp: insert_empty_balance_if_missing_def split: option.splits)

lemma insert_empty_other:
  "k' \<noteq> k \<Longrightarrow> balances (insert_empty_balance_if_missing env db k) k' = balances db k'"
  by (auto simp: insert_empty_balance_if_missing_def split: option.splits)

lemma insert_empty_rows_ok: "rows_ok db \<Longrightarrow> rows_ok (insert_empty_balance_if_missing env db k)"
  by (cases k) (auto simp: insert_empty_balance_if_missing_def rows_ok_def bal_key_def balance_ok_def
      int4_def split: option.splits)

lemma insert_empty_ledger:
  "ledger_ok db \<Longrightarrow> ledger_ok (insert_empty_balance_if_missing env db k)"
  unfolding ledger_ok_def
  by (simp add: insert_empty_views insert_empty_rows_ok key_sum_def)

section \<open>Holdings of references\<close>

lemma reservation_row_delta:
  "movement_wf m \<Longrightarrow> mv_key m = k \<Longrightarrow>
    mv_reserved_delta m = 0 \<or> (\<exists>ref. reservation_row k ref m)"
  by (cases "mv_type m") (auto simp: movement_wf_def reservation_row_def)

lemma reservation_row_unique: "reservation_row k r m \<Longrightarrow> reservation_row k' r' m \<Longrightarrow> k = k' \<and> r = r'"
  by (auto simp: reservation_row_def)

text \<open>Over any finite set of references that covers the movements, the holdings add up to the
  sum of the reserved deltas.\<close>

lemma holdings_sum:
  assumes "finite R" and "\<And>m. m \<in> set ms \<Longrightarrow> movement_wf m"
    and "\<And>m r. m \<in> set ms \<Longrightarrow> mv_reference_id m = Some r \<Longrightarrow> r \<in> R"
  shows "(\<Sum>r\<in>R. sum_where (reservation_row k r) mv_reserved_delta ms) =
    sum_where (\<lambda>m. mv_key m = k) mv_reserved_delta ms"
  using assms(2,3)
proof (induction ms)
  case Nil
  then show ?case by simp
next
  case (Cons m ms)
  have IH: "(\<Sum>r\<in>R. sum_where (reservation_row k r) mv_reserved_delta ms) =
      sum_where (\<lambda>m. mv_key m = k) mv_reserved_delta ms"
    using Cons.prems by (intro Cons.IH) auto
  have "(\<Sum>r\<in>R. if reservation_row k r m then mv_reserved_delta m else 0) =
      (if mv_key m = k then mv_reserved_delta m else 0)"
  proof (cases "\<exists>r. reservation_row k r m")
    case True
    then obtain r where r: "reservation_row k r m" ..
    then have "r \<in> R" and "mv_key m = k"
      using Cons.prems(2) [of m r] by (auto simp: reservation_row_def)
    moreover have "reservation_row k r' m \<longleftrightarrow> r' = r" for r'
      using r reservation_row_unique by blast
    ultimately show ?thesis using assms(1) by simp
  next
    case False
    then show ?thesis
      using Cons.prems(1) [of m] reservation_row_delta [of m k] by auto
  qed
  then show ?case by (simp add: sum.distrib IH)
qed

definition references :: "inventory_db \<Rightarrow> string set" where
  "references db = {r. \<exists>m\<in>set (movements db). mv_reference_id m = Some r}"

lemma finite_references: "finite (references db)"
proof -
  have "references db \<subseteq> the ` mv_reference_id ` set (movements db)"
    by (force simp: references_def image_iff)
  then show ?thesis by (rule finite_subset) simp
qed

lemma holdings_reserved:
  assumes "ledger_ok db"
  shows "(\<Sum>r\<in>references db. get_reference_reserved_quantity db k r) = reserved db k"
  unfolding get_reference_reserved_quantity_def
  using holdings_sum [OF finite_references, of "movements db" db k] ledger_okD [OF assms]
  by (auto simp: key_sum_def references_def)

lemma holding_le_reserved:
  assumes "ledger_ok db"
  shows "get_reference_reserved_quantity db k ref \<le> reserved db k"
proof (cases "ref \<in> references db")
  case True
  have "get_reference_reserved_quantity db k ref
      \<le> (\<Sum>r\<in>references db. get_reference_reserved_quantity db k r)"
    by (rule member_le_sum) (use True ledger_okD [OF assms] finite_references in auto)
  then show ?thesis by (simp add: holdings_reserved [OF assms])
next
  case False
  then have "get_reference_reserved_quantity db k ref = 0"
    unfolding get_reference_reserved_quantity_def
    by (intro sum_where_none) (auto simp: references_def reservation_row_def)
  moreover have "0 \<le> reserved db k"
    using view_bounds(1) [OF ledger_okD(1) [OF assms]] .
  ultimately show ?thesis by simp
qed

lemma available_nonneg: "ledger_ok db \<Longrightarrow> 0 \<le> available db k"
  using view_bounds(2) [OF ledger_okD(1)] by (simp add: available_def)

end
