(* ===== verification/Products.thy ===== *)
theory Products
  imports Inventory_Model
begin

text \<open>
  Products of the Inventory Service: the request and response schemas
  (inventory-service/app/schemas/product.py), the repository functions
  (inventory-service/app/repositories/product.py) and the endpoints
  (inventory-service/app/api/routes/products.py).
\<close>

section \<open>Schemas\<close>

record product_create =
  pc_sku :: string
  pc_name :: string
  pc_description :: "string option"
  pc_unit_price :: decimal
  pc_reorder_level :: int

record product_update =
  pu_name :: "string patch"
  pu_description :: "string patch"
  pu_unit_price :: "decimal patch"
  pu_reorder_level :: "int patch"
  pu_is_active :: "bool patch"

text \<open>A finite decimal with at most two decimal places, as cents: the check of
  \<open>Field(decimal_places=2)\<close>, which does not count trailing zeros.\<close>

definition exact_cents :: "decimal \<Rightarrow> int option" where
  "exact_cents d = (case d of
      Finite c e \<Rightarrow> if - 2 \<le> e then Some (c * 10 ^ nat (e + 2))
        else if c mod 10 ^ nat (- 2 - e) = 0 then Some (c div 10 ^ nat (- 2 - e)) else None
    | _ \<Rightarrow> None)"

definition price_ok :: "decimal \<Rightarrow> bool" where
  "price_ok d \<longleftrightarrow> (case exact_cents d of None \<Rightarrow> False | Some n \<Rightarrow> 0 \<le> n)"

definition normalize_sku :: "string \<Rightarrow> string option" where
  "normalize_sku v = (let n = upper (strip v) in if n = '''' then None else Some n)"

definition normalize_name :: "string \<Rightarrow> string option" where
  "normalize_name v = (let n = strip v in if n = '''' then None else Some n)"

text \<open>\<open>ProductCreate\<close>: field limits on the submitted text, then the two normalisers; \<open>None\<close> when
  validation fails.\<close>

definition validate_product_create :: "product_create \<Rightarrow> product_create option" where
  "validate_product_create d =
     (if 1 \<le> length (pc_sku d) \<and> length (pc_sku d) \<le> 50
       \<and> 1 \<le> length (pc_name d) \<and> length (pc_name d) \<le> 200
       \<and> optional_length 1000 (pc_description d) \<and> price_ok (pc_unit_price d)
       \<and> 0 \<le> pc_reorder_level d
      then case normalize_sku (pc_sku d) of None \<Rightarrow> None
        | Some sku \<Rightarrow> (case normalize_name (pc_name d) of None \<Rightarrow> None
          | Some name \<Rightarrow> Some (d\<lparr>pc_sku := sku, pc_name := name\<rparr>))
      else None)"

text \<open>\<open>ProductUpdate\<close> has the limits but no normaliser.\<close>

definition valid_product_update :: "product_update \<Rightarrow> bool" where
  "valid_product_update d \<longleftrightarrow>
     patch_all (\<lambda>n. 1 \<le> length n \<and> length n \<le> 200) (pu_name d)
     \<and> patch_all (\<lambda>t. length t \<le> 1000) (pu_description d)
     \<and> patch_all price_ok (pu_unit_price d)
     \<and> patch_all (\<lambda>r. 0 \<le> r) (pu_reorder_level d)"

text \<open>\<open>ProductResponse\<close> inherits the fields and normalisers of \<open>ProductBase\<close>, so a stored row is
  normalised once more on the way out; \<open>None\<close> when the row fails that validation.\<close>

definition product_response :: "product \<Rightarrow> product option" where
  "product_response p =
     (if 1 \<le> length (prod_sku p) \<and> length (prod_sku p) \<le> 50
       \<and> 1 \<le> length (prod_name p) \<and> length (prod_name p) \<le> 200
       \<and> optional_length 1000 (prod_description p) \<and> 0 \<le> prod_unit_price p
       \<and> 0 \<le> prod_reorder_level p
      then case normalize_sku (prod_sku p) of None \<Rightarrow> None
        | Some sku \<Rightarrow> (case normalize_name (prod_name p) of None \<Rightarrow> None
          | Some name \<Rightarrow> Some (p\<lparr>prod_sku := sku, prod_name := name\<rparr>))
      else None)"

section \<open>Repository\<close>

definition get_product_by_id :: "inventory_db \<Rightarrow> uuid \<Rightarrow> product option" where
  "get_product_by_id db i = find (\<lambda>p. prod_id p = i) (products db)"

definition get_product_by_sku :: "inventory_db \<Rightarrow> string \<Rightarrow> product option" where
  "get_product_by_sku db s = find (\<lambda>p. prod_sku p = s) (products db)"

definition create_product :: "env \<Rightarrow> inventory_db \<Rightarrow> product_create \<Rightarrow>
    (db_error + product) \<times> inventory_db" where
  "create_product env db d = transaction db (
     let p = \<lparr>prod_id = env_ids env 0, prod_sku = pc_sku d, prod_name = pc_name d,
              prod_description = pc_description d,
              prod_unit_price = the (exact_cents (pc_unit_price d)),
              prod_reorder_level = pc_reorder_level d, prod_is_active = True,
              prod_created_at = env_now env, prod_updated_at = env_now env\<rparr>
     in rbind (commit_fault env) (\<lambda>_.
        rbind (check_product p) (\<lambda>_.
        rbind (ensure (\<forall>q\<in>set (products db). prod_sku q \<noteq> prod_sku p) IntegrityError) (\<lambda>_.
        Inr (p, db\<lparr>products := p # products db\<rparr>)))))"

definition list_products :: "inventory_db \<Rightarrow> nat \<Rightarrow> nat \<Rightarrow> product list" where
  "list_products db offset limit =
     page offset limit (newest_first prod_created_at (products db))"

text \<open>The attributes a PATCH sets. SQLAlchemy writes the row, and \<open>onupdate\<close> its time, only when
  an attribute changed.\<close>

definition apply_product_update :: "env \<Rightarrow> product_update \<Rightarrow> product \<Rightarrow> product" where
  "apply_product_update env d p =
     (let p' = p\<lparr>
        prod_name := patched (pu_name d) (prod_name p),
        prod_description := patched_nullable (pu_description d) (prod_description p),
        prod_unit_price := patched (map_patch (\<lambda>x. the (exact_cents x)) (pu_unit_price d))
                             (prod_unit_price p),
        prod_reorder_level := patched (pu_reorder_level d) (prod_reorder_level p),
        prod_is_active := patched (pu_is_active d) (prod_is_active p)\<rparr>
      in if p' = p then p else p'\<lparr>prod_updated_at := env_now env\<rparr>)"

definition update_product :: "env \<Rightarrow> inventory_db \<Rightarrow> product \<Rightarrow> product_update \<Rightarrow>
    (db_error + product) \<times> inventory_db" where
  "update_product env db p d = transaction db (
     let p' = apply_product_update env d p in
     rbind (commit_fault env) (\<lambda>_.
     rbind (ensure (not_null (pu_name d) \<and> not_null (pu_unit_price d)
                  \<and> not_null (pu_reorder_level d) \<and> not_null (pu_is_active d)) IntegrityError) (\<lambda>_.
     rbind (check_product p') (\<lambda>_.
     Inr (p', db\<lparr>products := update_row prod_id (prod_id p) (\<lambda>_. p') (products db)\<rparr>)))))"

text \<open>\<open>DELETE\<close> on the product; the foreign keys of balances and movements cascade.\<close>

definition delete_product :: "env \<Rightarrow> inventory_db \<Rightarrow> product \<Rightarrow> (db_error + unit) \<times> inventory_db" where
  "delete_product env db p = transaction db (
     rbind (commit_fault env) (\<lambda>_.
     Inr ((), db\<lparr>products := filter (\<lambda>q. prod_id q \<noteq> prod_id p) (products db),
                 balances := (\<lambda>k. if fst k = prod_id p then None else balances db k),
                 movements := filter (\<lambda>m. mv_product_id m \<noteq> prod_id p) (movements db)\<rparr>)))"

section \<open>Endpoints\<close>

definition product_not_found :: "uuid \<Rightarrow> json" where
  "product_not_found i = JStr (''Product '' @ CHR 39 # str_uuid i @ CHR 39 # '' was not found'')"

definition sku_conflict :: "string \<Rightarrow> json" where
  "sku_conflict s = JStr (''Product with SKU '' @ CHR 39 # s @ CHR 39 # '' already exists'')"

text \<open>FastAPI validates what the endpoint returns against \<open>ProductResponse\<close>; a row that fails
  the validation is answered 500.\<close>

definition respond_product :: "nat \<Rightarrow> product \<Rightarrow> product endpoint_result" where
  "respond_product code p =
     (case product_response p of None \<Rightarrow> server_error | Some r \<Rightarrow> Reply code r)"

definition create_product_endpoint :: "env \<Rightarrow> inventory_db \<Rightarrow> product_create \<Rightarrow>
    product endpoint_result \<times> inventory_db" where
  "create_product_endpoint env db body =
     (case validate_product_create body of
        None \<Rightarrow> (unprocessable, db)
      | Some d \<Rightarrow>
          if get_product_by_sku db (pc_sku d) \<noteq> None
          then (HTTPException 409 (sku_conflict (pc_sku d)), db)
          else case create_product env db d of
              (Inr p, db') \<Rightarrow> (respond_product 201 p, db')
            | (Inl IntegrityError, db') \<Rightarrow> (HTTPException 409 (sku_conflict (pc_sku d)), db')
            | (Inl _, db') \<Rightarrow> (server_error, db'))"

fun respond_all :: "product list \<Rightarrow> product list option" where
  "respond_all [] = Some []"
| "respond_all (p # ps) = (case product_response p of None \<Rightarrow> None
     | Some r \<Rightarrow> map_option (\<lambda>rs. r # rs) (respond_all ps))"

definition list_products_endpoint :: "inventory_db \<Rightarrow> int \<Rightarrow> int \<Rightarrow> product list endpoint_result" where
  "list_products_endpoint db offset limit =
     (if 0 \<le> offset \<and> 1 \<le> limit \<and> limit \<le> 100
      then case respond_all (list_products db (nat offset) (nat limit)) of
          None \<Rightarrow> server_error | Some rs \<Rightarrow> Reply 200 rs
      else unprocessable)"

definition get_product_or_404 :: "inventory_db \<Rightarrow> uuid \<Rightarrow> json + product" where
  "get_product_or_404 db i = of_option (product_not_found i) (get_product_by_id db i)"

definition get_product_endpoint :: "inventory_db \<Rightarrow> uuid \<Rightarrow> product endpoint_result" where
  "get_product_endpoint db i = (case get_product_or_404 db i of
      Inl d \<Rightarrow> HTTPException 404 d | Inr p \<Rightarrow> respond_product 200 p)"

definition update_product_endpoint :: "env \<Rightarrow> inventory_db \<Rightarrow> uuid \<Rightarrow> product_update \<Rightarrow>
    product endpoint_result \<times> inventory_db" where
  "update_product_endpoint env db i body =
     (if \<not> valid_product_update body then (unprocessable, db)
      else case get_product_or_404 db i of
        Inl d \<Rightarrow> (HTTPException 404 d, db)
      | Inr p \<Rightarrow> (case update_product env db p body of
            (Inr p', db') \<Rightarrow> (respond_product 200 p', db')
          | (Inl _, db') \<Rightarrow> (server_error, db')))"

definition delete_product_endpoint :: "env \<Rightarrow> inventory_db \<Rightarrow> uuid \<Rightarrow>
    unit endpoint_result \<times> inventory_db" where
  "delete_product_endpoint env db i = (case get_product_or_404 db i of
      Inl d \<Rightarrow> (HTTPException 404 d, db)
    | Inr p \<Rightarrow> (case delete_product env db p of
          (Inr _, db') \<Rightarrow> (Reply 204 (), db')
        | (Inl _, db') \<Rightarrow> (server_error, db')))"

text \<open>The JSON of a product response, with the price as a decimal string; the two timestamps, which no
  reader in the platform looks at, are left as numbers.\<close>

definition product_json :: "product \<Rightarrow> json" where
  "product_json p = JObj [
     (''sku'', JStr (prod_sku p)), (''name'', JStr (prod_name p)),
     (''description'', case prod_description p of None \<Rightarrow> JNull | Some t \<Rightarrow> JStr t),
     (''unit_price'', JStr (cents_text (prod_unit_price p))),
     (''reorder_level'', JInt (prod_reorder_level p)),
     (''id'', JStr (str_uuid (prod_id p))), (''is_active'', JBool (prod_is_active p)),
     (''created_at'', JInt (prod_created_at p)), (''updated_at'', JInt (prod_updated_at p))]"

end
