(* ===== verification/Stock_Steps.thy ===== *)
theory Stock_Steps
  imports Stock_Correct Products
begin

text \<open>
  Transfers, the preservation of the ledger invariant by every operation that writes the
  inventory tables, and the reachable states of the Inventory Service.
\<close>

section \<open>Transfers\<close>

lemma map_of_locked_rows:
  "map_of (map (\<lambda>k. (snd k, f k)) (filter Q (map (Pair p) ws))) w =
     (if w \<in> set ws \<and> Q (p, w) then Some (f (p, w)) else None)"
  by (induction ws) auto

lemma transfer_balances_eq:
  assumes "db1 = insert_empty_balance_if_missing env db (p, dst)"
  shows "get_transfer_balances_for_update env db p src dst =
    Inr (balances db1 (p, src), the (balances db1 (p, dst)), db1)"
proof -
  have "\<exists>b. balances db1 (p, dst) = Some b" using assms insert_empty_found by simp
  then show ?thesis
    by (auto simp: get_transfer_balances_for_update_def transfer_lock_order_def Let_def
        map_of_locked_rows assms [symmetric])
qed

lemma stock_change_keys: "stock_change db k m db' \<Longrightarrow> k' \<noteq> k \<Longrightarrow> balances db' k' = balances db k'"
  by (auto simp: stock_change_def)

text \<open>A successful transfer is two recorded changes, out of the source and into the destination.\<close>

lemma transfer_stock_change:
  assumes ok: "transfer_stock env db rq = (Inr r, db')" and rows: "rows_ok db"
    and ne: "tr_source_warehouse_id rq \<noteq> tr_destination_warehouse_id rq"
  defines "p \<equiv> tr_product_id rq" and "src \<equiv> tr_source_warehouse_id rq"
    and "dst \<equiv> tr_destination_warehouse_id rq"
  defines "db1 \<equiv> insert_empty_balance_if_missing env db (p, dst)"
  shows "\<exists>dbm. stock_change db1 (p, src) (res_outbound_movement r) dbm
           \<and> stock_change dbm (p, dst) (res_inbound_movement r) db'"
    and "mv_type (res_outbound_movement r) = TRANSFER_OUT"
    and "mv_on_hand_delta (res_outbound_movement r) = - tr_quantity rq"
    and "mv_reserved_delta (res_outbound_movement r) = 0"
    and "mv_type (res_inbound_movement r) = TRANSFER_IN"
    and "mv_on_hand_delta (res_inbound_movement r) = tr_quantity rq"
    and "mv_reserved_delta (res_inbound_movement r) = 0"
    and "mv_transfer_id (res_outbound_movement r) = Some (res_transfer_id r)"
    and "mv_transfer_id (res_inbound_movement r) = Some (res_transfer_id r)"
proof -
  define d where "d = the (balances db1 (p, dst))"
  have d: "balances db1 (p, dst) = Some d" "bal_key d = (p, dst)"
    using inserted_balance [OF rows refl, of env "(p, dst)"] by (simp_all add: d_def db1_def)
  obtain s where s: "balances db1 (p, src) = Some s" "bal_key s = (p, src)"
    and le: "tr_quantity rq \<le> quantity_on_hand s - quantity_reserved s"
    using ok rows_okD(1) [OF insert_empty_rows_ok [OF rows, of env "(p, dst)"], of "(p, src)"]
    by (auto simp: transfer_stock_def result_simps transfer_balances_eq [OF refl] Let_def
        p_def [symmetric] src_def [symmetric] dst_def [symmetric] db1_def [symmetric]
        split: option.splits if_splits)
  have neq: "(p, src) \<noteq> (p, dst)" using ne by (simp add: src_def dst_def)
  note eqs = ok [unfolded transfer_stock_def, folded p_def src_def dst_def]
  define s' where "s' = s\<lparr>quantity_on_hand := quantity_on_hand s - tr_quantity rq,
    bal_updated_at := env_now env\<rparr>"
  define d' where "d' = d\<lparr>quantity_on_hand := quantity_on_hand d + tr_quantity rq,
    bal_updated_at := env_now env\<rparr>"
  define out where "out = movement_for env 2 s' TRANSFER_OUT (- tr_quantity rq) 0
    (tr_reference_id rq) (tr_reason rq) (Some (env_ids env 1))"
  define inb where "inb = movement_for env 3 d' TRANSFER_IN (tr_quantity rq) 0
    (tr_reference_id rq) (tr_reason rq) (Some (env_ids env 1))"
  have "commit_stock env db1 [s', d'] [out, inb] = Inr db'
      \<and> r = \<lparr>res_transfer_id = env_ids env 1, res_source_balance = s',
          res_destination_balance = d', res_outbound_movement = out,
          res_inbound_movement = inb\<rparr>"
    using eqs s d le
    by (auto simp: result_simps transfer_balances_eq [OF refl] Let_def db1_def [symmetric]
        s'_def d'_def out_def inb_def split: sum.splits)
  then have c: "balance_ok s'" "balance_ok d'"
    and db': "db' = db1\<lparr>balances := (balances db1)((p, src) \<mapsto> s', (p, dst) \<mapsto> d'),
                movements := inb # out # movements db1\<rparr>"
    and r: "res_outbound_movement r = out" "res_inbound_movement r = inb"
      "res_transfer_id r = env_ids env 1"
    using s(2) d(2) by (auto simp: commit_stock_Inr store_balances_def s'_def d'_def)
  define dbm where "dbm = db1\<lparr>balances := (balances db1)((p, src) \<mapsto> s'),
    movements := out # movements db1\<rparr>"
  have "stock_change db1 (p, src) out dbm"
    unfolding dbm_def using s c by (intro stock_changeI) (auto simp: out_def s'_def)
  moreover have "stock_change dbm (p, dst) inb (dbm\<lparr>balances := (balances dbm)((p, dst) \<mapsto> d'),
      movements := inb # movements dbm\<rparr>)"
    using d c neq by (intro stock_changeI) (auto simp: inb_def d'_def dbm_def)
  ultimately show "\<exists>dbm. stock_change db1 (p, src) (res_outbound_movement r) dbm
      \<and> stock_change dbm (p, dst) (res_inbound_movement r) db'"
    by (auto simp: r db' dbm_def)
qed (use ok in \<open>auto simp: transfer_stock_def result_simps Let_def
      split: option.splits if_splits sum.splits\<close>)

lemma transfer_stock_succeeds:
  assumes rows: "rows_ok db" and val: "valid_stock_transfer rq"
  shows "(\<exists>r db'. transfer_stock env db rq = (Inr r, db')) \<longleftrightarrow>
    product_known db (tr_product_id rq) \<and> env_fault env = None \<and>
    tr_quantity rq \<le> available db (tr_product_id rq, tr_source_warehouse_id rq) \<and>
    on_hand db (tr_product_id rq, tr_destination_warehouse_id rq) + tr_quantity rq < 2 ^ 31"
proof -
  define p src dst where "p = tr_product_id rq" and "src = tr_source_warehouse_id rq"
    and "dst = tr_destination_warehouse_id rq"
  define db1 where "db1 = insert_empty_balance_if_missing env db (p, dst)"
  have neq: "(p, src) \<noteq> (p, dst)" using val by (simp add: valid_stock_transfer_def src_def dst_def)
  have src: "balances db1 (p, src) = balances db (p, src)"
    unfolding db1_def using neq by (rule insert_empty_other)
  obtain d where d: "balances db1 (p, dst) = Some d" "quantity_on_hand d = on_hand db (p, dst)"
      "quantity_reserved d = reserved db (p, dst)"
    using inserted_balance [OF rows refl, of env "(p, dst)"] unfolding db1_def by blast
  note vb = view_bounds [OF rows, of "(p, dst)"] view_bounds [OF rows, of "(p, src)"]
  show ?thesis
  proof (cases "balances db (p, src)")
    case None
    then show ?thesis using val
      by (auto simp: transfer_stock_def ensure_product_exists_eq result_simps
          transfer_balances_eq [OF refl] available_def views_None valid_stock_transfer_def
          p_def [symmetric] src_def [symmetric] dst_def [symmetric] db1_def [symmetric] src)
  next
    case (Some s)
    then show ?thesis using val vb d
      by (auto simp: transfer_stock_def ensure_product_exists_eq result_simps Let_def
          transfer_balances_eq [OF refl] available_def views_Some valid_stock_transfer_def
          p_def [symmetric] src_def [symmetric] dst_def [symmetric] db1_def [symmetric] src
          commit_stock_Inr check_movement_for balance_ok_def int4_def split: sum.splits
          dest!: commit_stock_Inl)
  qed
qed

section \<open>Every operation keeps the ledger\<close>

lemma receive_stock_ledger:
  assumes "receive_stock env db rq = (Inr r, db')" and "ledger_ok db" and "valid_stock_change rq"
  shows "ledger_ok db'"
proof -
  note ch = receive_stock_change [OF assms(1) ledger_okD(1) [OF assms(2)]]
  show ?thesis
    by (rule stock_change_ledger [OF insert_empty_ledger [OF assms(2)] ch(1)])
       (use ch assms(3) in \<open>simp_all add: movement_wf_def reservation_row_def valid_stock_change_def\<close>)
qed

lemma issue_stock_ledger:
  assumes "issue_stock env db rq = (Inr r, db')" and "ledger_ok db" and "valid_stock_change rq"
  shows "ledger_ok db'"
proof -
  note ch = issue_stock_change [OF assms(1) ledger_okD(1) [OF assms(2)]]
  show ?thesis
    by (rule stock_change_ledger [OF assms(2) ch(1)])
       (use ch assms(3) in \<open>simp_all add: movement_wf_def reservation_row_def valid_stock_change_def\<close>)
qed

lemma reserve_stock_ledger:
  assumes "reserve_stock env db rq = (Inr r, db')" and "ledger_ok db" and "valid_stock_reservation rq"
  shows "ledger_ok db'"
proof -
  note ch = reserve_stock_change [OF assms(1) ledger_okD(1) [OF assms(2)]]
  show ?thesis
    by (rule stock_change_ledger [OF assms(2) ch(1)])
       (use ch assms(3) ledger_okD(4) [OF assms(2)] in
         \<open>auto simp: movement_wf_def reservation_row_def valid_stock_reservation_def
            intro: add_nonneg_nonneg\<close>)
qed

lemma release_stock_ledger:
  assumes "release_stock env db rq = (Inr r, db')" and "ledger_ok db" and "valid_stock_reservation rq"
  shows "ledger_ok db'"
proof -
  note ch = release_stock_change [OF assms(1) ledger_okD(1) [OF assms(2)]]
  show ?thesis
    by (rule stock_change_ledger [OF assms(2) ch(1)])
       (use ch assms(3) in
         \<open>auto simp: movement_wf_def reservation_row_def valid_stock_reservation_def\<close>)
qed

lemma transfer_stock_ledger:
  assumes "transfer_stock env db rq = (Inr r, db')" and "ledger_ok db" and "valid_stock_transfer rq"
  shows "ledger_ok db'"
proof -
  have ne: "tr_source_warehouse_id rq \<noteq> tr_destination_warehouse_id rq" and pos: "0 < tr_quantity rq"
    using assms(3) by (simp_all add: valid_stock_transfer_def)
  note ch = transfer_stock_change [OF assms(1) ledger_okD(1) [OF assms(2)] ne]
  obtain dbm where dbm:
    "stock_change (insert_empty_balance_if_missing env db (tr_product_id rq, tr_destination_warehouse_id rq))
       (tr_product_id rq, tr_source_warehouse_id rq) (res_outbound_movement r) dbm"
    "stock_change dbm (tr_product_id rq, tr_destination_warehouse_id rq) (res_inbound_movement r) db'"
    using ch(1) by blast
  have "ledger_ok dbm"
    by (rule stock_change_ledger [OF insert_empty_ledger [OF assms(2)] dbm(1)])
       (use ch pos in \<open>simp_all add: movement_wf_def reservation_row_def\<close>)
  then show ?thesis
    by (rule stock_change_ledger [OF _ dbm(2)])
       (use ch pos in \<open>simp_all add: movement_wf_def reservation_row_def\<close>)
qed

lemma audit_trail_filter:
  "audit_trail ms \<Longrightarrow> audit_trail (filter (\<lambda>m. mv_product_id m \<noteq> p) ms)"
proof (induction ms)
  case Nil
  then show ?case by simp
next
  case (Cons m ms)
  have "sum_where (\<lambda>x. mv_product_id x \<noteq> p \<and> mv_key x = mv_key m) f ms =
      sum_where (\<lambda>x. mv_key x = mv_key m) f ms" if "mv_product_id m \<noteq> p" for f
    using that by (intro sum_where_cong) (auto simp: mv_key_def)
  with Cons show ?case by simp
qed

text \<open>Deleting a product removes whole accounts, so the remaining ones still balance.\<close>

lemma delete_product_ledger:
  assumes "delete_product env db q = (Inr u, db')" and ok: "ledger_ok db"
  shows "ledger_ok db'"
proof -
  let ?p = "prod_id q"
  have db': "db' = db\<lparr>products := filter (\<lambda>r. prod_id r \<noteq> ?p) (products db),
      balances := (\<lambda>k. if fst k = ?p then None else balances db k),
      movements := filter (\<lambda>m. mv_product_id m \<noteq> ?p) (movements db)\<rparr>"
    using assms(1) by (auto simp: delete_product_def result_simps)
  have views: "on_hand db' k = (if fst k = ?p then 0 else on_hand db k)"
    "reserved db' k = (if fst k = ?p then 0 else reserved db k)" for k
    by (simp_all add: db' on_hand_def reserved_def)
  have sums: "key_sum db' k f = (if fst k = ?p then 0 else key_sum db k f)" for k f
    by (auto simp: db' key_sum_def mv_key_def intro!: sum_where_none sum_where_cong)
  have hold: "get_reference_reserved_quantity db' k ref =
      (if fst k = ?p then 0 else get_reference_reserved_quantity db k ref)" for k ref
    by (auto simp: db' get_reference_reserved_quantity_def reservation_row_def mv_key_def
        intro!: sum_where_none sum_where_cong)
  have "rows_ok db'"
    using ledger_okD(1) [OF ok] by (auto simp: rows_ok_def db' split: if_splits)
  then show ?thesis
    using ok by (simp add: ledger_ok_def views sums hold) (simp add: db' audit_trail_filter)
qed

lemma ledger_products_cong:
  assumes "balances db' = balances db" and "movements db' = movements db"
  shows "ledger_ok db' = ledger_ok db"
  by (simp add: ledger_ok_def rows_ok_def on_hand_def reserved_def key_sum_def
      get_reference_reserved_quantity_def assms)

section \<open>Reachable inventories\<close>

text \<open>One committed transaction of the service, with any environment and any request that passes
  its schema. A failed one leaves the tables as they were, so it is no step.\<close>

inductive inventory_step :: "inventory_db \<Rightarrow> inventory_db \<Rightarrow> bool" where
  receipt: "valid_stock_change rq \<Longrightarrow> receive_stock env db rq = (Inr r, db') \<Longrightarrow> inventory_step db db'"
| issue: "valid_stock_change rq \<Longrightarrow> issue_stock env db rq = (Inr r, db') \<Longrightarrow> inventory_step db db'"
| reservation: "valid_stock_reservation rv \<Longrightarrow> reserve_stock env db rv = (Inr r, db') \<Longrightarrow>
    inventory_step db db'"
| releasing: "valid_stock_reservation rv \<Longrightarrow> release_stock env db rv = (Inr r, db') \<Longrightarrow>
    inventory_step db db'"
| transfer: "valid_stock_transfer rt \<Longrightarrow> transfer_stock env db rt = (Inr t, db') \<Longrightarrow>
    inventory_step db db'"
| new_product: "create_product env db pc = (Inr p, db') \<Longrightarrow> inventory_step db db'"
| patch_product: "update_product env db p pu = (Inr p', db') \<Longrightarrow> inventory_step db db'"
| drop_product: "delete_product env db p = (Inr u, db') \<Longrightarrow> inventory_step db db'"

inductive inventory_reachable :: "inventory_db \<Rightarrow> bool" where
  start: "inventory_reachable empty_inventory"
| step: "inventory_reachable db \<Longrightarrow> inventory_step db db' \<Longrightarrow> inventory_reachable db'"

lemma inventory_step_ledger: "inventory_step db db' \<Longrightarrow> ledger_ok db \<Longrightarrow> ledger_ok db'"
proof (induction rule: inventory_step.induct)
  case (new_product env db pc p db')
  then show ?case
    using ledger_products_cong [of db' db] by (auto simp: create_product_def result_simps Let_def)
next
  case (patch_product env db p pu p' db')
  then show ?case
    using ledger_products_cong [of db' db] by (auto simp: update_product_def result_simps Let_def)
qed (blast intro: receive_stock_ledger issue_stock_ledger reserve_stock_ledger
    release_stock_ledger transfer_stock_ledger delete_product_ledger)+

lemma reachable_ledger: "inventory_reachable db \<Longrightarrow> ledger_ok db"
  by (induction rule: inventory_reachable.induct) (auto intro: ledger_ok_empty inventory_step_ledger)

end
