(* ===== verification/Stock_Spec.thy ===== *)
theory Stock_Spec
  imports Stock_Steps
begin

text \<open>
  The contract of the Inventory Service as an abstract stock account (a quantity per product and
  warehouse, and a holding per order reference), the refinement of that account by the five stock
  operations, and the properties of the service that rest on the ledger.
\<close>

section \<open>The abstract account\<close>

record stock_account =
  acc_on_hand :: "stock_key \<Rightarrow> int"
  acc_held :: "stock_key \<Rightarrow> string \<Rightarrow> int"

datatype stock_call =
    Receive stock_change_request
  | Issue stock_change_request
  | Reserve stock_reservation_request
  | Release stock_reservation_request
  | Transfer stock_transfer_request

definition add_at :: "'k \<Rightarrow> int \<Rightarrow> ('k \<Rightarrow> int) \<Rightarrow> ('k \<Rightarrow> int)" where
  "add_at k q f = f(k := f k + q)"

fun account_step :: "stock_call \<Rightarrow> stock_account \<Rightarrow> stock_account" where
  "account_step (Receive r) a = a\<lparr>acc_on_hand := add_at (rq_key r) (rq_quantity r) (acc_on_hand a)\<rparr>"
| "account_step (Issue r) a = a\<lparr>acc_on_hand := add_at (rq_key r) (- rq_quantity r) (acc_on_hand a)\<rparr>"
| "account_step (Reserve r) a = a\<lparr>acc_held := (acc_held a)(rq_key r :=
     add_at (rq_owner_reference_id r) (rq_quantity r) (acc_held a (rq_key r)))\<rparr>"
| "account_step (Release r) a = a\<lparr>acc_held := (acc_held a)(rq_key r :=
     add_at (rq_owner_reference_id r) (- rq_quantity r) (acc_held a (rq_key r)))\<rparr>"
| "account_step (Transfer r) a = a\<lparr>acc_on_hand :=
     add_at (tr_product_id r, tr_destination_warehouse_id r) (tr_quantity r)
       (add_at (tr_product_id r, tr_source_warehouse_id r) (- tr_quantity r) (acc_on_hand a))\<rparr>"

definition account_of :: "inventory_db \<Rightarrow> stock_account" where
  "account_of db = \<lparr>acc_on_hand = on_hand db, acc_held = get_reference_reserved_quantity db\<rparr>"

section \<open>The five operations as one\<close>

fun valid_call :: "stock_call \<Rightarrow> bool" where
  "valid_call (Receive r) = valid_stock_change r"
| "valid_call (Issue r) = valid_stock_change r"
| "valid_call (Reserve r) = valid_stock_reservation r"
| "valid_call (Release r) = valid_stock_reservation r"
| "valid_call (Transfer r) = valid_stock_transfer r"

definition forget :: "('e + 'a) \<times> 's \<Rightarrow> ('e + unit) \<times> 's" where
  "forget r = (map_sum id (\<lambda>_. ()) (fst r), snd r)"

fun run_call :: "env \<Rightarrow> inventory_db \<Rightarrow> stock_call \<Rightarrow> (stock_error + unit) \<times> inventory_db" where
  "run_call env db (Receive r) = forget (receive_stock env db r)"
| "run_call env db (Issue r) = forget (issue_stock env db r)"
| "run_call env db (Reserve r) = forget (reserve_stock env db r)"
| "run_call env db (Release r) = forget (release_stock env db r)"
| "run_call env db (Transfer r) = forget (transfer_stock env db r)"

lemma forget_eq [simp]:
  "forget r = (Inr u, s) \<longleftrightarrow> (\<exists>x. r = (Inr x, s))"
  "forget r = (Inl e, s) \<longleftrightarrow> r = (Inl e, s)"
  by (cases r; cases "fst r"; auto simp: forget_def)+

lemma run_call_ledger:
  "run_call env db c = (Inr u, db') \<Longrightarrow> ledger_ok db \<Longrightarrow> valid_call c \<Longrightarrow> ledger_ok db'"
  by (cases c) (auto intro: receive_stock_ledger issue_stock_ledger reserve_stock_ledger
      release_stock_ledger transfer_stock_ledger)

lemma run_call_error: "run_call env db c = (Inl e, db') \<Longrightarrow> db' = db"
  by (cases c) (auto dest: stock_failure_unchanged)

lemma account_change_on_hand:
  assumes "stock_change db k m db'" and "mv_reserved_delta m = 0"
  shows "account_of db' =
    (account_of db)\<lparr>acc_on_hand := add_at k (mv_on_hand_delta m) (on_hand db)\<rparr>"
  by (auto simp: account_of_def stock_change_views [OF assms(1)] assms(2) add_at_def fun_eq_iff)

lemma account_insert_empty: "account_of (insert_empty_balance_if_missing env db k) = account_of db"
  by (simp add: account_of_def insert_empty_views fun_eq_iff)

lemma account_change_held:
  assumes "stock_change db k m db'" and "mv_on_hand_delta m = 0"
    and "mv_type m \<in> {RESERVATION, RELEASE}" and "mv_reference_id m = Some ref"
  shows "account_of db' = (account_of db)\<lparr>acc_held := (get_reference_reserved_quantity db)(k :=
    add_at ref (mv_reserved_delta m) (get_reference_reserved_quantity db k))\<rparr>"
proof -
  have "mv_key m = k" using assms(1) by (auto simp: stock_change_def)
  then have "reservation_row k' r m \<longleftrightarrow> k' = k \<and> r = ref" for k' r
    using assms by (auto simp: reservation_row_def)
  then show ?thesis
    by (auto simp: account_of_def stock_change_views [OF assms(1)] assms(2) add_at_def fun_eq_iff)
qed

lemma run_call_refines:
  assumes "run_call env db c = (Inr u, db')" and "rows_ok db" and "valid_call c"
  shows "account_of db' = account_step c (account_of db)"
proof (cases c)
  case (Receive r)
  then obtain x where x: "receive_stock env db r = (Inr x, db')" using assms(1) by auto
  show ?thesis
    using receive_stock_change [OF x assms(2)] Receive
    by (simp add: account_change_on_hand account_insert_empty insert_empty_views)
       (simp add: account_of_def insert_empty_views [THEN ext])
next
  case (Issue r)
  then obtain x where x: "issue_stock env db r = (Inr x, db')" using assms(1) by auto
  show ?thesis
    using issue_stock_change [OF x assms(2)] Issue
    by (simp add: account_change_on_hand) (simp add: account_of_def)
next
  case (Reserve r)
  then obtain x where x: "reserve_stock env db r = (Inr x, db')" using assms(1) by auto
  note ch = reserve_stock_change [OF x assms(2)]
  show ?thesis
    using account_change_held [OF ch(1,3) _ ch(5)] ch Reserve by (simp add: account_of_def)
next
  case (Release r)
  then obtain x where x: "release_stock env db r = (Inr x, db')" using assms(1) by auto
  note ch = release_stock_change [OF x assms(2)]
  show ?thesis
    using account_change_held [OF ch(1,3) _ ch(5)] ch Release by (simp add: account_of_def)
next
  case (Transfer r)
  then obtain x where x: "transfer_stock env db r = (Inr x, db')" using assms(1) by auto
  have ne: "tr_source_warehouse_id r \<noteq> tr_destination_warehouse_id r"
    using assms(3) Transfer by (simp add: valid_stock_transfer_def)
  note ch = transfer_stock_change [OF x assms(2) ne]
  obtain dbm where dbm: "stock_change (insert_empty_balance_if_missing env db
        (tr_product_id r, tr_destination_warehouse_id r))
      (tr_product_id r, tr_source_warehouse_id r) (res_outbound_movement x) dbm"
    "stock_change dbm (tr_product_id r, tr_destination_warehouse_id r) (res_inbound_movement x) db'"
    using ch(1) by blast
  have "account_of dbm = (account_of db)\<lparr>acc_on_hand :=
      add_at (tr_product_id r, tr_source_warehouse_id r) (- tr_quantity r) (on_hand db)\<rparr>"
    using account_change_on_hand [OF dbm(1)] ch
    by (simp add: account_insert_empty insert_empty_views [THEN ext])
  then show ?thesis
    using account_change_on_hand [OF dbm(2)] ch Transfer by (simp add: account_of_def)
qed

end
