(* ===== verification/Wire.thy ===== *)
theory Wire
  imports Http_Types
begin

text \<open>
  Identifiers as text: what \<open>UUID(text)\<close> reads, and that it reads back what \<open>str\<close> writes. The forms
  with braces or an \<open>urn:\<close> prefix, which no service writes, are not read.
\<close>

section \<open>Identifiers on the wire\<close>

definition hex_digit :: "char \<Rightarrow> nat option" where
  "hex_digit c = (let n = (of_char (lower_char c) :: nat) in
     if 48 \<le> n \<and> n \<le> 57 then Some (n - 48) else if 97 \<le> n \<and> n \<le> 102 then Some (n - 87) else None)"

fun hex_value :: "nat \<Rightarrow> string \<Rightarrow> nat option" where
  "hex_value acc [] = Some acc"
| "hex_value acc (c # cs) = (case hex_digit c of None \<Rightarrow> None | Some d \<Rightarrow> hex_value (16 * acc + d) cs)"

text \<open>\<open>UUID(text)\<close>: the dashes are dropped and 32 hexadecimal digits must remain.\<close>

definition parse_uuid :: "string \<Rightarrow> uuid option" where
  "parse_uuid s = (let h = filter (\<lambda>c. c \<noteq> CHR ''-'') s in
     if length h = 32 then map_option of_nat (hex_value 0 h) else None)"

lemma hex_digit_char: "d < 16 \<Longrightarrow> hex_digit (hex_char d) = Some d"
  by (auto simp: hex_digit_def hex_char_def lower_char_def Let_def)

lemma hex_value_append:
  "hex_value acc (xs @ ys) = (case hex_value acc xs of None \<Rightarrow> None | Some v \<Rightarrow> hex_value v ys)"
  by (induction acc xs rule: hex_value.induct) (auto split: option.splits)

lemma hex_value_fixed: "hex_value acc (hex_fixed w n) = Some (acc * 16 ^ w + n mod 16 ^ w)"
proof (induction w n rule: hex_fixed.induct)
  case (1 n)
  then show ?case by simp
next
  case (2 w n)
  have "16 * (n div 16 mod 16 ^ w) + n mod 16 = n mod 16 ^ Suc w"
    by (simp add: mod_mult2_eq)
  with 2 show ?case by (simp add: hex_value_append hex_digit_char)
qed

lemma hex_char_not_dash: "d < 16 \<Longrightarrow> hex_char d \<noteq> CHR ''-''"
  using hex_digit_char [of d] by (auto simp: hex_digit_def lower_char_def)

lemma hex_fixed_no_dash: "CHR ''-'' \<notin> set (hex_fixed w n)"
  by (induction w n rule: hex_fixed.induct) (auto simp: hex_char_not_dash [symmetric])

lemma str_uuid_digits: "filter (\<lambda>c. c \<noteq> CHR ''-'') (str_uuid u) = uuid_hex u"
proof -
  have keep: "filter (\<lambda>c. c \<noteq> CHR ''-'') xs = xs" if "set xs \<subseteq> set (uuid_hex u)" for xs
    using that hex_fixed_no_dash by (auto simp: filter_id_conv uuid_hex_def)
  have sub: "set (take a (drop b (uuid_hex u))) \<subseteq> set (uuid_hex u)"
    "set (drop b (uuid_hex u)) \<subseteq> set (uuid_hex u)"
    "set (take a (uuid_hex u)) \<subseteq> set (uuid_hex u)" for a b
    by (meson set_drop_subset set_take_subset subset_trans)+
  have "take 8 h @ take 4 (drop 8 h) @ take 4 (drop 12 h) @ take 4 (drop 16 h) @ drop 20 h = h"
    for h :: string
    using append_take_drop_id [of 8 h] append_take_drop_id [of 4 "drop 8 h"]
      append_take_drop_id [of 4 "drop 12 h"] append_take_drop_id [of 4 "drop 16 h"]
    by (simp add: add.commute)
  then show ?thesis by (simp add: str_uuid_def Let_def keep sub)
qed

lemma parse_str_uuid [simp]: "parse_uuid (str_uuid u) = Some u"
proof -
  have "unat u < 16 ^ 32"
    by (rule order_less_le_trans [OF unsigned_less]) simp
  then have "unat u mod 16 ^ 32 = unat u" by simp
  then show ?thesis
    by (simp add: parse_uuid_def str_uuid_digits uuid_hex_def hex_value_fixed)
qed

end
