(* ===== verification/Stock_Api.thy ===== *)
theory Stock_Api
  imports Stock_Spec Wire
begin

text \<open>
  The HTTP endpoints of the Inventory Service (inventory-service/app/api/routes/stock.py), the
  response schemas they return, and the part of the service's routing that other services call:
  the product lookup, reservations and releases, from the request on the wire to the response.
\<close>

section \<open>Responses\<close>

text \<open>\<open>InventoryBalanceResponse.available_quantity\<close>, the computed field.\<close>

definition available_quantity :: "inventory_balance \<Rightarrow> int" where
  "available_quantity b = quantity_on_hand b - quantity_reserved b"

definition opt_json :: "('a \<Rightarrow> json) \<Rightarrow> 'a option \<Rightarrow> json" where
  "opt_json f x = (case x of None \<Rightarrow> JNull | Some a \<Rightarrow> f a)"

definition balance_json :: "inventory_balance \<Rightarrow> json" where
  "balance_json b = JObj [
     (''id'', JStr (str_uuid (bal_id b))), (''product_id'', JStr (str_uuid (bal_product_id b))),
     (''warehouse_id'', JStr (str_uuid (bal_warehouse_id b))),
     (''quantity_on_hand'', JInt (quantity_on_hand b)),
     (''quantity_reserved'', JInt (quantity_reserved b)),
     (''created_at'', JInt (bal_created_at b)), (''updated_at'', JInt (bal_updated_at b)),
     (''available_quantity'', JInt (available_quantity b))]"

definition movement_type_text :: "movement_type \<Rightarrow> string" where
  "movement_type_text t = (case t of RECEIPT \<Rightarrow> ''RECEIPT'' | ISSUE \<Rightarrow> ''ISSUE''
     | ADJUSTMENT \<Rightarrow> ''ADJUSTMENT'' | RESERVATION \<Rightarrow> ''RESERVATION'' | RELEASE \<Rightarrow> ''RELEASE''
     | TRANSFER_OUT \<Rightarrow> ''TRANSFER_OUT'' | TRANSFER_IN \<Rightarrow> ''TRANSFER_IN'')"

definition movement_json :: "stock_movement \<Rightarrow> json" where
  "movement_json m = JObj [
     (''id'', JStr (str_uuid (mv_id m))), (''product_id'', JStr (str_uuid (mv_product_id m))),
     (''warehouse_id'', JStr (str_uuid (mv_warehouse_id m))),
     (''movement_type'', JStr (movement_type_text (mv_type m))),
     (''on_hand_delta'', JInt (mv_on_hand_delta m)), (''reserved_delta'', JInt (mv_reserved_delta m)),
     (''on_hand_balance_after'', JInt (mv_on_hand_after m)),
     (''reserved_balance_after'', JInt (mv_reserved_after m)),
     (''reference_id'', opt_json JStr (mv_reference_id m)), (''reason'', opt_json JStr (mv_reason m)),
     (''transfer_id'', opt_json (\<lambda>u. JStr (str_uuid u)) (mv_transfer_id m)),
     (''created_at'', JInt (mv_created_at m))]"

definition operation_json :: "stock_operation_result \<Rightarrow> json" where
  "operation_json r = JObj [(''balance'', balance_json (res_balance r)),
     (''movement'', movement_json (res_movement r))]"

section \<open>Endpoints\<close>

definition error_text :: "stock_error \<Rightarrow> json" where
  "error_text e = JStr (stock_error_text e)"

text \<open>The exceptions the endpoints translate; any other is a 500. Each endpoint below lists the
  exceptions its own \<open>except\<close> clauses name.\<close>

definition receive_stock_endpoint :: "env \<Rightarrow> inventory_db \<Rightarrow> stock_change_request \<Rightarrow>
    stock_operation_result endpoint_result \<times> inventory_db" where
  "receive_stock_endpoint env db request =
     (if \<not> valid_stock_change request then (unprocessable, db)
      else case receive_stock env db request of
        (Inr r, db') \<Rightarrow> (Reply 201 r, db')
      | (Inl e, db') \<Rightarrow> ((case e of
            ProductNotFoundError p \<Rightarrow> HTTPException 404 (error_text e)
          | _ \<Rightarrow> server_error), db'))"

definition insufficient_detail :: "stock_error \<Rightarrow> int \<Rightarrow> int \<Rightarrow> json" where
  "insufficient_detail e available_qty requested = JObj [(''message'', error_text e),
     (''available_quantity'', JInt available_qty), (''requested_quantity'', JInt requested)]"

definition issue_stock_endpoint :: "env \<Rightarrow> inventory_db \<Rightarrow> stock_change_request \<Rightarrow>
    stock_operation_result endpoint_result \<times> inventory_db" where
  "issue_stock_endpoint env db request =
     (if \<not> valid_stock_change request then (unprocessable, db)
      else case issue_stock env db request of
        (Inr r, db') \<Rightarrow> (Reply 200 r, db')
      | (Inl e, db') \<Rightarrow> ((case e of
            ProductNotFoundError p \<Rightarrow> HTTPException 404 (error_text e)
          | InsufficientStockError a q \<Rightarrow> HTTPException 409 (insufficient_detail e a q)
          | _ \<Rightarrow> server_error), db'))"

definition reserve_stock_endpoint :: "env \<Rightarrow> inventory_db \<Rightarrow> stock_reservation_request \<Rightarrow>
    stock_operation_result endpoint_result \<times> inventory_db" where
  "reserve_stock_endpoint env db request =
     (if \<not> valid_stock_reservation request then (unprocessable, db)
      else case reserve_stock env db request of
        (Inr r, db') \<Rightarrow> (Reply 200 r, db')
      | (Inl e, db') \<Rightarrow> ((case e of
            ProductNotFoundError p \<Rightarrow> HTTPException 404 (error_text e)
          | ReservationAlreadyExistsError ref q \<Rightarrow> HTTPException 409 (JObj
              [(''message'', error_text e), (''reference_id'', JStr ref),
               (''reserved_quantity'', JInt q)])
          | InsufficientStockError a q \<Rightarrow> HTTPException 409 (insufficient_detail e a q)
          | _ \<Rightarrow> server_error), db'))"

definition release_stock_endpoint :: "env \<Rightarrow> inventory_db \<Rightarrow> stock_reservation_request \<Rightarrow>
    stock_operation_result endpoint_result \<times> inventory_db" where
  "release_stock_endpoint env db request =
     (if \<not> valid_stock_reservation request then (unprocessable, db)
      else case release_stock env db request of
        (Inr r, db') \<Rightarrow> (Reply 200 r, db')
      | (Inl e, db') \<Rightarrow> ((case e of
            ProductNotFoundError p \<Rightarrow> HTTPException 404 (error_text e)
          | InsufficientReservedStockError a q ref \<Rightarrow> HTTPException 409 (JObj
              [(''message'', error_text e), (''reference_id'', JStr ref),
               (''reserved_quantity'', JInt a), (''requested_quantity'', JInt q)])
          | _ \<Rightarrow> server_error), db'))"

definition transfer_stock_endpoint :: "env \<Rightarrow> inventory_db \<Rightarrow> stock_transfer_request \<Rightarrow>
    stock_transfer_result endpoint_result \<times> inventory_db" where
  "transfer_stock_endpoint env db request =
     (if \<not> valid_stock_transfer request then (unprocessable, db)
      else case transfer_stock env db request of
        (Inr r, db') \<Rightarrow> (Reply 200 r, db')
      | (Inl e, db') \<Rightarrow> ((case e of
            ProductNotFoundError p \<Rightarrow> HTTPException 404 (error_text e)
          | InsufficientStockError a q \<Rightarrow> HTTPException 409 (insufficient_detail e a q)
          | _ \<Rightarrow> server_error), db'))"

definition get_inventory_balance_endpoint :: "inventory_db \<Rightarrow> uuid \<Rightarrow> uuid \<Rightarrow>
    inventory_balance endpoint_result" where
  "get_inventory_balance_endpoint db w p = (case balances db (p, w) of
      None \<Rightarrow> HTTPException 404 (JStr ''Inventory balance was not found'')
    | Some b \<Rightarrow> Reply 200 b)"

definition list_stock_movements_endpoint :: "inventory_db \<Rightarrow> uuid option \<Rightarrow> uuid option \<Rightarrow>
    uuid option \<Rightarrow> int \<Rightarrow> int \<Rightarrow> stock_movement list endpoint_result" where
  "list_stock_movements_endpoint db product_id warehouse_id transfer_id offset limit =
     (if 0 \<le> offset \<and> 1 \<le> limit \<and> limit \<le> 100
      then Reply 200 (page (nat offset) (nat limit) (newest_first mv_created_at
        (filter (\<lambda>m. matches product_id (mv_product_id m) \<and> matches warehouse_id (mv_warehouse_id m)
             \<and> (case transfer_id of None \<Rightarrow> True | Some t \<Rightarrow> mv_transfer_id m = Some t))
           (movements db))))
      else unprocessable)"

section \<open>Requests on the wire\<close>

definition strip_prefix :: "string \<Rightarrow> string \<Rightarrow> string option" where
  "strip_prefix p s = (if take (length p) s = p then Some (drop (length p) s) else None)"

lemma strip_prefix_append [simp]: "strip_prefix p (p @ s) = Some s"
  by (simp add: strip_prefix_def)

definition json_str :: "json option \<Rightarrow> string option" where
  "json_str j = (case j of Some (JStr s) \<Rightarrow> Some s | _ \<Rightarrow> None)"

definition json_int :: "json option \<Rightarrow> int option" where
  "json_int j = (case j of Some (JInt i) \<Rightarrow> Some i | _ \<Rightarrow> None)"

text \<open>The body of a reservation or release, as \<open>StockReservationRequest\<close> and \<open>StockReleaseRequest\<close>
  read it; \<open>None\<close> when a field is missing or has the wrong type.\<close>

definition parse_reservation_body :: "json \<Rightarrow> stock_reservation_request option" where
  "parse_reservation_body j =
     (case (Option.bind (json_str (json_get ''product_id'' j)) parse_uuid,
            Option.bind (json_str (json_get ''warehouse_id'' j)) parse_uuid,
            json_int (json_get ''quantity'' j), json_str (json_get ''reference_id'' j)) of
        (Some p, Some w, Some q, Some ref) \<Rightarrow>
          (case json_get ''reason'' j of
             None \<Rightarrow> Some \<lparr>rq_product_id = p, rq_warehouse_id = w, rq_quantity = q,
                           rq_reason = None, rq_owner_reference_id = ref\<rparr>
           | Some JNull \<Rightarrow> Some \<lparr>rq_product_id = p, rq_warehouse_id = w, rq_quantity = q,
                           rq_reason = None, rq_owner_reference_id = ref\<rparr>
           | Some (JStr t) \<Rightarrow> Some \<lparr>rq_product_id = p, rq_warehouse_id = w, rq_quantity = q,
                           rq_reason = Some t, rq_owner_reference_id = ref\<rparr>
           | Some _ \<Rightarrow> None)
      | _ \<Rightarrow> None)"

text \<open>The routes the Order Service calls: method, path, and the endpoint behind them.\<close>

definition inventory_http :: "string \<Rightarrow> env \<Rightarrow> inventory_db \<Rightarrow> http_request \<Rightarrow>
    http_response \<times> inventory_db" where
  "inventory_http base env db req =
     (case strip_prefix base (req_url req) of
        None \<Rightarrow> (to_response operation_json (HTTPException 404 (JStr ''Not Found'')), db)
      | Some path \<Rightarrow>
          if req_method req = ''POST'' \<and> path = ''/stock/reservations'' then
            (case parse_reservation_body (req_json req) of
               None \<Rightarrow> (to_response operation_json unprocessable, db)
             | Some r \<Rightarrow> let (x, db') = reserve_stock_endpoint env db r
                 in (to_response operation_json x, db'))
          else if req_method req = ''POST'' \<and> path = ''/stock/releases'' then
            (case parse_reservation_body (req_json req) of
               None \<Rightarrow> (to_response operation_json unprocessable, db)
             | Some r \<Rightarrow> let (x, db') = release_stock_endpoint env db r
                 in (to_response operation_json x, db'))
          else if req_method req = ''GET'' then
            (case Option.bind (strip_prefix ''/products/'' path) parse_uuid of
               None \<Rightarrow> (to_response operation_json (HTTPException 404 (JStr ''Not Found'')), db)
             | Some i \<Rightarrow> (to_response product_json (get_product_endpoint db i), db))
          else (to_response operation_json (HTTPException 404 (JStr ''Not Found'')), db))"

end
