(* ===== verification/Stock_Claims.thy ===== *)
theory Stock_Claims
  imports Stock_Api
begin

text \<open>
  The properties of the Inventory Service, over the operations of \<open>Stock\<close> and the reachable states
  of \<open>Stock_Steps\<close>, with a small inventory on which their hypotheses hold.
\<close>

section \<open>A small inventory\<close>

definition demo_env :: env where
  "demo_env = \<lparr>env_now = 1000, env_ids = of_nat, env_flush_fault = None, env_fault = None\<rparr>"

definition demo_product :: product_create where
  "demo_product = \<lparr>pc_sku = ''BOLT'', pc_name = ''Bolt'', pc_description = None,
     pc_unit_price = Finite 250 (- 2), pc_reorder_level = 5\<rparr>"

definition demo_catalog :: inventory_db where
  "demo_catalog = snd (create_product demo_env empty_inventory demo_product)"

definition demo_change :: "int \<Rightarrow> stock_change_request" where
  "demo_change q = \<lparr>rq_product_id = 0, rq_warehouse_id = 7, rq_quantity = q, rq_reason = None,
     rq_reference_id = None\<rparr>"

definition demo_reservation :: "int \<Rightarrow> stock_reservation_request" where
  "demo_reservation q = \<lparr>rq_product_id = 0, rq_warehouse_id = 7, rq_quantity = q, rq_reason = None,
     rq_owner_reference_id = ''ORD-1''\<rparr>"

definition demo_transfer :: "int \<Rightarrow> stock_transfer_request" where
  "demo_transfer q = \<lparr>tr_product_id = 0, tr_source_warehouse_id = 7,
     tr_destination_warehouse_id = 3, tr_quantity = q, tr_reference_id = None, tr_reason = None\<rparr>"

text \<open>Ten pieces received, four of them reserved.\<close>

definition demo_stocked :: inventory_db where
  "demo_stocked = snd (receive_stock demo_env demo_catalog (demo_change 10))"

definition demo_reserved :: inventory_db where
  "demo_reserved = snd (reserve_stock demo_env demo_stocked (demo_reservation 4))"

lemma demo_requests_valid:
  "0 < q \<Longrightarrow> valid_stock_change (demo_change q)"
  "0 < q \<Longrightarrow> valid_stock_reservation (demo_reservation q)"
  "0 < q \<Longrightarrow> valid_stock_transfer (demo_transfer q)"
  by (simp_all add: valid_stock_change_def valid_stock_reservation_def valid_stock_transfer_def
      demo_change_def demo_reservation_def demo_transfer_def optional_length_def)

lemma demo_catalog_eq:
  "demo_catalog = \<lparr>products = [\<lparr>prod_id = 0, prod_sku = ''BOLT'', prod_name = ''Bolt'',
     prod_description = None, prod_unit_price = 250, prod_reorder_level = 5, prod_is_active = True,
     prod_created_at = 1000, prod_updated_at = 1000\<rparr>], balances = (\<lambda>_. None), movements = []\<rparr>"
  by (simp add: demo_catalog_def create_product_def demo_product_def demo_env_def empty_inventory_def
      check_product_def exact_cents_def int4_def commit_fault_def Let_def)

lemma demo_product_known: "products db = products demo_catalog \<Longrightarrow> product_known db 0"
  by (simp add: product_known_def demo_catalog_eq)

lemma demo_receive: "\<exists>r. receive_stock demo_env demo_catalog (demo_change 10) = (Inr r, demo_stocked)"
proof -
  have "rows_ok demo_catalog" by (simp add: rows_ok_def demo_catalog_eq)
  from receive_stock_succeeds [OF this demo_requests_valid(1), of 10 demo_env] show ?thesis
    by (auto simp: demo_stocked_def demo_change_def demo_product_known demo_env_def on_hand_def
        demo_catalog_eq product_known_def)
qed

lemma demo_catalog_reachable: "inventory_reachable demo_catalog"
proof -
  have "\<exists>p. create_product demo_env empty_inventory demo_product = (Inr p, demo_catalog)"
    by (simp add: demo_catalog_def create_product_def demo_product_def demo_env_def
        empty_inventory_def check_product_def exact_cents_def int4_def commit_fault_def Let_def)
  then show ?thesis using inventory_reachable.start inventory_reachable.step new_product by blast
qed

lemma demo_stocked_reachable: "inventory_reachable demo_stocked"
proof -
  from demo_receive obtain r where "receive_stock demo_env demo_catalog (demo_change 10) =
      (Inr r, demo_stocked)" ..
  then show ?thesis
    using inventory_reachable.step [OF demo_catalog_reachable receipt] demo_requests_valid(1) [of 10]
    by simp
qed

lemma demo_catalog_views:
  "on_hand demo_catalog k = 0" "reserved demo_catalog k = 0"
  "get_reference_reserved_quantity demo_catalog k ref = 0"
  "(find (\<lambda>r. prod_id r = p) (products demo_catalog) \<noteq> None) = (p = 0)"
  by (simp_all add: demo_catalog_eq on_hand_def reserved_def get_reference_reserved_quantity_def)

lemma demo_stocked_views:
  "on_hand demo_stocked k = (if k = (0, 7) then 10 else 0)" "reserved demo_stocked k = 0"
  "product_known demo_stocked p \<longleftrightarrow> p = 0" "get_reference_reserved_quantity demo_stocked k ref = 0"
proof -
  from demo_receive obtain r where r: "receive_stock demo_env demo_catalog (demo_change 10) =
      (Inr r, demo_stocked)" ..
  have "rows_ok demo_catalog" by (simp add: rows_ok_def demo_catalog_eq)
  note ch = receive_stock_change [OF r this]
  note v = stock_change_views [OF ch(1)]
  show "on_hand demo_stocked k = (if k = (0, 7) then 10 else 0)" "reserved demo_stocked k = 0"
    "product_known demo_stocked p \<longleftrightarrow> p = 0" "get_reference_reserved_quantity demo_stocked k ref = 0"
    using ch demo_catalog_views
    by (simp_all add: v insert_empty_views demo_change_def product_known_def reservation_row_def)
qed

lemma demo_reserve:
  "\<exists>r. reserve_stock demo_env demo_stocked (demo_reservation 4) = (Inr r, demo_reserved)"
proof -
  have "rows_ok demo_stocked" by (rule ledger_okD(1) [OF reachable_ledger [OF demo_stocked_reachable]])
  from reserve_stock_succeeds [OF this demo_requests_valid(2), of 4 demo_env] show ?thesis
    by (auto simp: demo_reserved_def demo_reservation_def demo_stocked_views available_def
        demo_env_def)
qed

lemma demo_reserved_reachable: "inventory_reachable demo_reserved"
proof -
  from demo_reserve obtain r where "reserve_stock demo_env demo_stocked (demo_reservation 4) =
      (Inr r, demo_reserved)" ..
  then show ?thesis
    using inventory_reachable.step [OF demo_stocked_reachable reservation]
      demo_requests_valid(2) [of 4] by simp
qed

lemma demo_reserved_views:
  "on_hand demo_reserved k = (if k = (0, 7) then 10 else 0)"
  "reserved demo_reserved k = (if k = (0, 7) then 4 else 0)"
  "product_known demo_reserved p \<longleftrightarrow> p = 0"
  "get_reference_reserved_quantity demo_reserved k ref = (if k = (0, 7) \<and> ref = ''ORD-1'' then 4 else 0)"
proof -
  from demo_reserve obtain r where r: "reserve_stock demo_env demo_stocked (demo_reservation 4) =
      (Inr r, demo_reserved)" ..
  have "rows_ok demo_stocked" by (rule ledger_okD(1) [OF reachable_ledger [OF demo_stocked_reachable]])
  note ch = reserve_stock_change [OF r this]
  have key: "mv_key (res_movement r) = (0, 7)"
    using ch(1) by (auto simp: stock_change_def demo_reservation_def)
  note v = stock_change_views [OF ch(1)]
  show "on_hand demo_reserved k = (if k = (0, 7) then 10 else 0)"
    "reserved demo_reserved k = (if k = (0, 7) then 4 else 0)"
    using ch by (simp_all add: v demo_stocked_views demo_reservation_def)
  show "product_known demo_reserved p \<longleftrightarrow> p = 0"
    using v(4) demo_stocked_views(3) by (simp add: product_known_def)
  show "get_reference_reserved_quantity demo_reserved k ref =
      (if k = (0, 7) \<and> ref = ''ORD-1'' then 4 else 0)"
    using ch key by (auto simp: v demo_stocked_views reservation_row_def demo_reservation_def)
qed

section \<open>The ledger\<close>

text \<open>C4: in every reachable inventory, each balance is the sum of its audit movements, stays within
  \<open>0 \<le> reserved \<le> on hand < 2\<^sup>3\<^sup>1\<close>, and the after columns of the movements are the running sums.\<close>

theorem inventory_ledger_sound:
  assumes "inventory_reachable db"
  shows "on_hand db k = sum_where (\<lambda>m. mv_key m = k) mv_on_hand_delta (movements db)
    \<and> reserved db k = sum_where (\<lambda>m. mv_key m = k) mv_reserved_delta (movements db)
    \<and> 0 \<le> reserved db k \<and> reserved db k \<le> on_hand db k \<and> on_hand db k < 2 ^ 31
    \<and> audit_trail (movements db)"
proof -
  note ok = reachable_ledger [OF assms]
  show ?thesis
    using ledger_okD [OF ok] view_bounds [OF ledger_okD(1) [OF ok]] by (simp add: key_sum_def)
qed

lemma inventory_ledger_sound_witness:
  "on_hand demo_reserved (0, 7) = sum_where (\<lambda>m. mv_key m = (0, 7)) mv_on_hand_delta (movements demo_reserved)
    \<and> on_hand demo_reserved (0, 7) = 10 \<and> reserved demo_reserved (0, 7) = 4"
  using inventory_ledger_sound [OF demo_reserved_reachable, of "(0, 7)"]
  by (simp add: demo_reserved_views)

text \<open>in every reachable inventory, the quantities held under the order references of a balance
  add up to its reserved quantity, and none of them is negative: reserved stock always has owners.\<close>

theorem holdings_partition_reserved:
  assumes "inventory_reachable db"
  shows "(\<Sum>ref\<in>references db. get_reference_reserved_quantity db k ref) = reserved db k
    \<and> 0 \<le> get_reference_reserved_quantity db k ref
    \<and> get_reference_reserved_quantity db k ref \<le> reserved db k"
  using holdings_reserved holding_le_reserved ledger_okD(4) reachable_ledger [OF assms] by blast

lemma holdings_partition_reserved_witness:
  "(\<Sum>ref\<in>references demo_reserved. get_reference_reserved_quantity demo_reserved (0, 7) ref) = 4"
  using holdings_partition_reserved [OF demo_reserved_reachable, of "(0, 7)" "''ORD-1''"]
  by (simp add: demo_reserved_views)

section \<open>The operations\<close>

fun call_product :: "stock_call \<Rightarrow> uuid" where
  "call_product (Receive r) = rq_product_id r"
| "call_product (Issue r) = rq_product_id r"
| "call_product (Reserve r) = rq_product_id r"
| "call_product (Release r) = rq_product_id r"
| "call_product (Transfer r) = tr_product_id r"

text \<open>When the abstract account allows a call. A reference may reserve once per balance.\<close>

fun account_allows :: "stock_call \<Rightarrow> stock_account \<Rightarrow> (stock_key \<Rightarrow> int) \<Rightarrow> bool" where
  "account_allows (Receive r) a free \<longleftrightarrow> acc_on_hand a (rq_key r) + rq_quantity r < 2 ^ 31"
| "account_allows (Issue r) a free \<longleftrightarrow> rq_quantity r \<le> free (rq_key r)"
| "account_allows (Reserve r) a free \<longleftrightarrow> acc_held a (rq_key r) (rq_owner_reference_id r) = 0
     \<and> rq_quantity r \<le> free (rq_key r)"
| "account_allows (Release r) a free \<longleftrightarrow>
     rq_quantity r \<le> acc_held a (rq_key r) (rq_owner_reference_id r)"
| "account_allows (Transfer r) a free \<longleftrightarrow>
     tr_quantity r \<le> free (tr_product_id r, tr_source_warehouse_id r)
     \<and> acc_on_hand a (tr_product_id r, tr_destination_warehouse_id r) + tr_quantity r < 2 ^ 31"

text \<open>C5: a valid stock call succeeds exactly when the product exists, the database does not fail, and
  the abstract account allows it: stock is free (issue, reserve, transfer), the reference holds
  enough (release) or none yet (reserve), and no quantity leaves its 32-bit column.\<close>

theorem stock_call_succeeds_iff:
  assumes "inventory_reachable db" and "valid_call c"
  shows "(\<exists>u db'. run_call env db c = (Inr u, db')) \<longleftrightarrow>
    product_known db (call_product c) \<and> env_fault env = None
    \<and> account_allows c (account_of db) (available db)"
proof -
  note ok = reachable_ledger [OF assms(1)]
  note rows = ledger_okD(1) [OF ok]
  show ?thesis
  proof (cases c)
    case (Receive r)
    then show ?thesis using assms(2) receive_stock_succeeds [OF rows, of r env]
      by (auto simp: account_of_def)
  next
    case (Issue r)
    then show ?thesis using assms(2) issue_stock_succeeds [OF rows, of r env] by auto
  next
    case (Reserve r)
    have "get_reference_reserved_quantity db (rq_key r) (rq_owner_reference_id r) \<le> 0 \<longleftrightarrow>
        get_reference_reserved_quantity db (rq_key r) (rq_owner_reference_id r) = 0"
      using ledger_okD(4) [OF ok, of "rq_key r" "rq_owner_reference_id r"] by linarith
    then show ?thesis using Reserve assms(2) reserve_stock_succeeds [OF rows, of r env]
      by (auto simp: account_of_def)
  next
    case (Release r)
    then show ?thesis using assms(2) release_stock_succeeds [OF ok, of r env]
      by (auto simp: account_of_def)
  next
    case (Transfer r)
    then show ?thesis using assms(2) transfer_stock_succeeds [OF rows, of r env]
      by (auto simp: account_of_def)
  qed
qed

lemma stock_call_succeeds_iff_witness:
  "(\<exists>u db'. run_call demo_env demo_reserved (Issue (demo_change 6)) = (Inr u, db'))
    \<and> \<not> (\<exists>u db'. run_call demo_env demo_reserved (Issue (demo_change 7)) = (Inr u, db'))"
  using stock_call_succeeds_iff [OF demo_reserved_reachable, of "Issue (demo_change 6)" demo_env]
    stock_call_succeeds_iff [OF demo_reserved_reachable, of "Issue (demo_change 7)" demo_env]
  by (simp add: demo_requests_valid available_def demo_reserved_views)
     (simp add: demo_change_def demo_env_def demo_reserved_views)

text \<open>C3: a successful stock call is the abstract step on the account of stock and holdings, and leaves
  every other balance and holding as it was; the error branch changes nothing.\<close>

theorem stock_call_refines_account:
  assumes "inventory_reachable db" and "valid_call c" and "run_call env db c = (r, db')"
  shows "account_of db' = (case r of Inr u \<Rightarrow> account_step c (account_of db) | Inl e \<Rightarrow> account_of db)"
  using run_call_refines [of env db c _ db'] run_call_error [of env db c _ db']
    ledger_okD(1) [OF reachable_ledger [OF assms(1)]] assms(2,3)
  by (cases r) auto

lemma stock_call_refines_account_witness:
  "\<exists>db'. account_of db' = account_step (Release (demo_reservation 4)) (account_of demo_reserved)
    \<and> acc_held (account_of db') (0, 7) ''ORD-1'' = 0"
proof -
  obtain r db' where run: "run_call demo_env demo_reserved (Release (demo_reservation 4)) = (r, db')"
    by fastforce
  have "\<exists>q db'. release_stock demo_env demo_reserved (demo_reservation 4) = (Inr q, db')"
    using release_stock_succeeds [OF reachable_ledger [OF demo_reserved_reachable]
        demo_requests_valid(2), of 4 demo_env]
    by (simp add: demo_reserved_views demo_env_def) (simp add: demo_reservation_def)
  then have "\<exists>u. r = Inr u" using run by (auto simp: forget_def)
  then show ?thesis
    using stock_call_refines_account [OF demo_reserved_reachable _ run] demo_requests_valid(2) [of 4]
    by (intro exI [of _ db'])
       (auto simp: account_of_def demo_reserved_views add_at_def demo_reservation_def)
qed

section \<open>Errors\<close>

text \<open>The reason each exception of a stock operation states about the tables it ran on.\<close>

fun stock_error_holds :: "inventory_db \<Rightarrow> stock_call \<Rightarrow> stock_error \<Rightarrow> bool" where
  "stock_error_holds db c (ProductNotFoundError p) \<longleftrightarrow> p = call_product c \<and> \<not> product_known db p"
| "stock_error_holds db c (InsufficientStockError a q) \<longleftrightarrow> a < q \<and> (case c of
      Issue r \<Rightarrow> q = rq_quantity r \<and> a = available db (rq_key r)
    | Reserve r \<Rightarrow> q = rq_quantity r \<and> a = available db (rq_key r)
    | Transfer r \<Rightarrow> q = tr_quantity r
        \<and> a = available db (tr_product_id r, tr_source_warehouse_id r)
    | _ \<Rightarrow> False)"
| "stock_error_holds db c (ReservationAlreadyExistsError ref q) \<longleftrightarrow> (case c of
      Reserve r \<Rightarrow> ref = rq_owner_reference_id r \<and> 0 < q
        \<and> q = get_reference_reserved_quantity db (rq_key r) ref
    | _ \<Rightarrow> False)"
| "stock_error_holds db c (InsufficientReservedStockError a q ref) \<longleftrightarrow> (case c of
      Release r \<Rightarrow> ref = rq_owner_reference_id r \<and> q = rq_quantity r \<and> a < q
        \<and> a = get_reference_reserved_quantity db (rq_key r) ref
    | _ \<Rightarrow> False)"
| "stock_error_holds db c (StockRuntimeError msg) \<longleftrightarrow> False"
| "stock_error_holds db c (StockDatabaseError e) \<longleftrightarrow> True"

lemma available_views:
  "available db k = (case balances db k of None \<Rightarrow> 0 | Some b \<Rightarrow> quantity_on_hand b - quantity_reserved b)"
  by (simp add: available_def on_hand_def reserved_def split: option.splits)

lemma commit_one_Inl: "commit_one env db b m = Inl e \<Longrightarrow> \<exists>d. e = StockDatabaseError d"
  by (auto simp: commit_one_def split: sum.splits)

lemma transfer_error_holds:
  assumes "transfer_stock env db r = (Inl e, db')" and "rows_ok db" and "valid_stock_transfer r"
  shows "stock_error_holds db (Transfer r) e"
proof -
  let ?p = "tr_product_id r" and ?src = "tr_source_warehouse_id r" and ?dst = "tr_destination_warehouse_id r"
  have "(?p, ?src) \<noteq> (?p, ?dst)" using assms(3) by (simp add: valid_stock_transfer_def)
  note src = insert_empty_other [OF this, of env db]
  have pos: "0 < tr_quantity r" using assms(3) by (simp add: valid_stock_transfer_def)
  show ?thesis
    using assms(1) pos
    by (auto simp: transfer_stock_def result_simps ensure_product_exists_eq Let_def
        transfer_balances_eq [OF refl] src available_views
        split: if_splits option.splits sum.splits)
qed

text \<open>every exception of a valid stock call is true of the tables it was raised on: the missing
  product is missing, the quantities it reports are the available or held ones and too small, the
  reference does hold what is reported; and the internal error for a balance that could not be
  created is never raised.\<close>

theorem stock_error_explains:
  assumes "inventory_reachable db" and "valid_call c" and "run_call env db c = (Inl e, db')"
  shows "stock_error_holds db c e \<and> db' = db"
proof -
  note ok = reachable_ledger [OF assms(1)]
  note rows = ledger_okD(1) [OF ok]
  have "stock_error_holds db c e"
  proof (cases c)
    case (Receive r)
    then show ?thesis using assms(3)
      by (auto simp: receive_stock_def result_simps ensure_product_exists_eq get_or_create_eq Let_def
          dest: commit_one_Inl split: if_splits)
  next
    case (Issue r)
    then show ?thesis using assms(2,3)
      by (auto simp: issue_stock_def result_simps ensure_product_exists_eq Let_def available_views
          get_balance_for_update_def valid_stock_change_def
          dest: commit_one_Inl split: if_splits option.splits)
  next
    case (Reserve r)
    then show ?thesis using assms(2,3)
      by (auto simp: reserve_stock_def result_simps ensure_product_exists_eq Let_def available_views
          get_balance_for_update_def valid_stock_reservation_def
          dest: commit_one_Inl split: if_splits option.splits)
  next
    case (Release r)
    note le = holding_le_reserved [OF ok, of "rq_key r" "rq_owner_reference_id r"]
    note nonneg = ledger_okD(4) [OF ok, of "rq_key r" "rq_owner_reference_id r"]
    show ?thesis using assms(2,3) Release le nonneg
      by (auto simp: release_stock_def result_simps ensure_product_exists_eq Let_def reserved_def
          get_balance_for_update_def valid_stock_reservation_def min_def
          dest: commit_one_Inl split: if_splits option.splits)
  next
    case (Transfer r)
    then show ?thesis using assms(2,3) transfer_error_holds [OF _ rows] by auto
  qed
  then show ?thesis using run_call_error [OF assms(3)] by simp
qed

lemma stock_error_explains_witness:
  "\<exists>e. run_call demo_env demo_reserved (Reserve (demo_reservation 1)) = (Inl e, demo_reserved)
    \<and> stock_error_holds demo_reserved (Reserve (demo_reservation 1)) e"
proof -
  obtain r db' where run: "run_call demo_env demo_reserved (Reserve (demo_reservation 1)) = (r, db')"
    by fastforce
  have "\<not> (\<exists>q db'. reserve_stock demo_env demo_reserved (demo_reservation 1) = (Inr q, db'))"
    using reserve_stock_succeeds [OF ledger_okD(1) [OF reachable_ledger [OF demo_reserved_reachable]]
        demo_requests_valid(2), of 1 demo_env]
    by (simp add: demo_reserved_views) (simp add: demo_reservation_def)
  then obtain e where e: "r = Inl e" using run by (cases r) auto
  show ?thesis
    using stock_error_explains [OF demo_reserved_reachable _ run [unfolded e]] run e
      demo_requests_valid(2) [of 1] by auto
qed

section \<open>Transfers\<close>

text \<open>a successful transfer moves the quantity from the source to the destination, so the stock of
  the product over any set of warehouses that has both is unchanged; nothing else moves, and the
  two movements carry one transfer id.\<close>

theorem transfer_conserves_stock:
  assumes "inventory_reachable db" and "valid_stock_transfer rq"
    and "transfer_stock env db rq = (Inr r, db')"
    and "finite W" and "tr_source_warehouse_id rq \<in> W" and "tr_destination_warehouse_id rq \<in> W"
  shows "(\<Sum>w\<in>W. on_hand db' (tr_product_id rq, w)) = (\<Sum>w\<in>W. on_hand db (tr_product_id rq, w))
    \<and> on_hand db' (tr_product_id rq, tr_source_warehouse_id rq) =
        on_hand db (tr_product_id rq, tr_source_warehouse_id rq) - tr_quantity rq
    \<and> (\<forall>k. fst k \<noteq> tr_product_id rq \<longrightarrow> on_hand db' k = on_hand db k)
    \<and> (\<forall>k. reserved db' k = reserved db k)
    \<and> movements db' = res_inbound_movement r # res_outbound_movement r # movements db
    \<and> mv_transfer_id (res_inbound_movement r) = mv_transfer_id (res_outbound_movement r)"
proof -
  let ?p = "tr_product_id rq" and ?src = "tr_source_warehouse_id rq" and ?dst = "tr_destination_warehouse_id rq"
  have ne: "?src \<noteq> ?dst" using assms(2) by (simp add: valid_stock_transfer_def)
  note rows = ledger_okD(1) [OF reachable_ledger [OF assms(1)]]
  note ch = transfer_stock_change [OF assms(3) rows ne]
  obtain dbm where
    one: "stock_change (insert_empty_balance_if_missing env db (?p, ?dst)) (?p, ?src)
        (res_outbound_movement r) dbm"
    and two: "stock_change dbm (?p, ?dst) (res_inbound_movement r) db'" using ch(1) by blast
  have oh: "on_hand db' k = on_hand db k + (if k = (?p, ?dst) then tr_quantity rq else 0)
      - (if k = (?p, ?src) then tr_quantity rq else 0)" for k
    using ch by (simp add: stock_change_views(1) [OF two] stock_change_views(1) [OF one] insert_empty_views)
  have "(\<Sum>w\<in>W. on_hand db' (?p, w)) = (\<Sum>w\<in>W. on_hand db (?p, w))"
    using assms(4-6) by (simp add: oh sum_subtractf sum.distrib)
  then show ?thesis
    using ne ch stock_change_views(2,5) [OF two] stock_change_views(2,5) [OF one]
    by (auto simp: oh insert_empty_views)
qed

lemma transfer_conserves_stock_witness:
  "\<exists>db'. on_hand db' (0, 7) = 6 \<and> on_hand db' (0, 3) = 4 \<and>
    (\<exists>r. transfer_stock demo_env demo_stocked (demo_transfer 4) = (Inr r, db'))"
proof -
  have ids: "tr_product_id (demo_transfer q) = 0" "tr_source_warehouse_id (demo_transfer q) = 7"
    "tr_destination_warehouse_id (demo_transfer q) = 3" "tr_quantity (demo_transfer q) = q" for q
    by (simp_all add: demo_transfer_def)
  obtain r db' where run: "transfer_stock demo_env demo_stocked (demo_transfer 4) = (Inr r, db')"
    using transfer_stock_succeeds [OF ledger_okD(1) [OF reachable_ledger [OF demo_stocked_reachable]]
        demo_requests_valid(3), of 4 demo_env]
    by (auto simp: ids demo_stocked_views available_def demo_env_def)
  from transfer_conserves_stock [OF demo_stocked_reachable demo_requests_valid(3) run, of "{7, 3}"]
  have "on_hand db' (0, 7) + on_hand db' (0, 3) = 10" "on_hand db' (0, 7) = 6"
    by (simp_all add: ids demo_stocked_views)
  with run show ?thesis by (intro exI [of _ db']) auto
qed

text \<open>two transfers of a product between the same two warehouses lock the same rows in the same
  order, the order of the warehouse ids, whatever their directions: they cannot deadlock.\<close>

theorem transfer_locks_ordered:
  "transfer_lock_order db p a b = transfer_lock_order db p b a
    \<and> sorted (map snd (transfer_lock_order db p a b)) \<and> distinct (transfer_lock_order db p a b)
    \<and> set (transfer_lock_order db p a b) = {k. (k = (p, a) \<or> k = (p, b)) \<and> balances db k \<noteq> None}"
proof -
  have "sort (remdups [a, b]) = sort (remdups [b, a])"
    using linear [of a b] by (auto simp: insort_key.simps)
  moreover have "sorted (map snd (filter P (map (Pair p) ws)))" if "sorted ws" for P :: "stock_key \<Rightarrow> bool" and ws
    using that by (induction ws) auto
  moreover have "distinct (map (Pair p) (sort (remdups [a, b])))"
    by (simp add: distinct_map inj_on_def)
  ultimately show ?thesis by (auto simp: transfer_lock_order_def)
qed

section \<open>Reservations\<close>

text \<open>releasing what was just reserved goes through and restores the account: stock, holdings and
  so the available quantity of every balance; and the reservation cannot be made twice.\<close>

theorem reserve_release_roundtrip:
  assumes "inventory_reachable db" and "valid_stock_reservation rq"
    and "reserve_stock env db rq = (Inr r, db1)" and "env_fault env' = None"
  shows "\<exists>r2 db2. release_stock env' db1 rq = (Inr r2, db2) \<and> account_of db2 = account_of db
    \<and> available db2 = available db
    \<and> reserve_stock env' db1 rq = (Inl (ReservationAlreadyExistsError (rq_owner_reference_id rq)
         (rq_quantity rq)), db1)"
proof -
  let ?ref = "rq_owner_reference_id rq" and ?k = "rq_key rq"
  note ok = reachable_ledger [OF assms(1)]
  note rows = ledger_okD(1) [OF ok]
  note ch = reserve_stock_change [OF assms(3) rows]
  note ok1 = reserve_stock_ledger [OF assms(3) ok assms(2)]
  note rows1 = ledger_okD(1) [OF ok1]
  have q: "0 < rq_quantity rq" using assms(2) by (simp add: valid_stock_reservation_def)
  have row: "reservation_row ?k ?ref (res_movement r)"
    using ch(1,2,5) by (auto simp: reservation_row_def stock_change_def)
  have held: "get_reference_reserved_quantity db1 ?k ?ref = rq_quantity rq"
    using ledger_okD(4) [OF ok, of ?k ?ref] ch(4,6) row
    by (simp add: stock_change_views(3) [OF ch(1)])
  have known: "product_known db1 (rq_product_id rq)"
    using reserve_stock_succeeds [OF rows assms(2), of env] assms(3) stock_change_views(4) [OF ch(1)]
    by (auto simp: product_known_def)
  obtain r2 db2 where rel: "release_stock env' db1 rq = (Inr r2, db2)"
    using release_stock_succeeds [OF ok1 assms(2), of env'] known held assms(4) by auto
  have "account_of db2 = account_step (Release rq) (account_step (Reserve rq) (account_of db))"
    using run_call_refines [of env' db1 "Release rq" "()" db2]
      run_call_refines [of env db "Reserve rq" "()" db1] rel assms(2,3) rows rows1 by simp
  then have acc: "account_of db2 = account_of db"
    by (simp add: account_of_def add_at_def)
  have "available db2 k = available db k" for k
    using release_stock_change [OF rel rows1] ch stock_change_views(1,2)
    by (simp add: available_def stock_change_views [OF ch(1)]
        stock_change_views [OF release_stock_change(1) [OF rel rows1]])
  moreover have "reserve_stock env' db1 rq =
      (Inl (ReservationAlreadyExistsError ?ref (rq_quantity rq)), db1)"
    using known held q by (simp add: reserve_stock_def ensure_product_exists_eq)
  ultimately show ?thesis using rel acc by blast
qed

lemma reserve_release_roundtrip_witness:
  "\<exists>r2 db2. release_stock demo_env demo_reserved (demo_reservation 4) = (Inr r2, db2)
    \<and> account_of db2 = account_of demo_stocked"
proof -
  from demo_reserve obtain r where r: "reserve_stock demo_env demo_stocked (demo_reservation 4) =
      (Inr r, demo_reserved)" ..
  show ?thesis
    using reserve_release_roundtrip [OF demo_stocked_reachable demo_requests_valid(2) r, of demo_env]
    by (auto simp: demo_env_def)
qed

end
