(* ===== verification/Product_Claims.thy ===== *)
theory Product_Claims
  imports Stock_Claims
begin

text \<open>
  The properties of the product catalogue of the Inventory Service: stock keeping units stay unique
  and normalised, a created product is read back, and what a PATCH with a blank name does.
\<close>

section \<open>Normalisation\<close>

lemma upper_char_space: "is_space (upper_char c) = is_space c"
  by (auto simp: is_space_def upper_char_def Let_def)

lemma dropWhile_map_upper: "dropWhile is_space (map upper_char s) = map upper_char (dropWhile is_space s)"
  by (induction s) (simp_all add: upper_char_space)

lemma strip_upper: "strip (upper s) = upper (strip s)"
  by (simp add: strip_def lstrip_def rstrip_def upper_def dropWhile_map_upper rev_map)

lemma normalize_sku_idem: "normalize_sku s = Some n \<Longrightarrow> normalize_sku n = Some n \<and> length n \<le> length s"
  using length_strip [of s]
  by (auto simp: normalize_sku_def Let_def strip_upper split: if_splits)

lemma normalize_name_idem: "normalize_name s = Some n \<Longrightarrow> normalize_name n = Some n \<and> length n \<le> length s"
  using length_strip [of s] by (auto simp: normalize_name_def Let_def split: if_splits)

section \<open>The catalogue\<close>

definition catalog_ok :: "inventory_db \<Rightarrow> bool" where
  "catalog_ok db \<longleftrightarrow> distinct (map prod_sku (products db))
     \<and> (\<forall>p\<in>set (products db). 0 \<le> prod_unit_price p \<and> prod_unit_price p < 10 ^ 12
          \<and> 0 \<le> prod_reorder_level p \<and> length (prod_sku p) \<le> 50 \<and> length (prod_name p) \<le> 200)"

lemma stock_operations_products:
  assumes "rows_ok db"
  shows "valid_stock_change rq \<Longrightarrow> receive_stock env db rq = (Inr r, db') \<Longrightarrow> products db' = products db"
    and "issue_stock env db rq = (Inr r, db') \<Longrightarrow> products db' = products db"
    and "reserve_stock env db rv = (Inr r, db') \<Longrightarrow> products db' = products db"
    and "release_stock env db rv = (Inr r, db') \<Longrightarrow> products db' = products db"
    and "valid_stock_transfer rt \<Longrightarrow> transfer_stock env db rt = (Inr t, db') \<Longrightarrow> products db' = products db"
proof -
  show "receive_stock env db rq = (Inr r, db') \<Longrightarrow> products db' = products db"
    using receive_stock_change(1) [OF _ assms] stock_change_views(4) by (metis insert_empty_views(4))
  show "issue_stock env db rq = (Inr r, db') \<Longrightarrow> products db' = products db"
    using issue_stock_change(1) [OF _ assms] stock_change_views(4) by metis
  show "reserve_stock env db rv = (Inr r, db') \<Longrightarrow> products db' = products db"
    using reserve_stock_change(1) [OF _ assms] stock_change_views(4) by metis
  show "release_stock env db rv = (Inr r, db') \<Longrightarrow> products db' = products db"
    using release_stock_change(1) [OF _ assms] stock_change_views(4) by metis
  show "products db' = products db"
    if "valid_stock_transfer rt" and run: "transfer_stock env db rt = (Inr t, db')"
  proof -
    have "tr_source_warehouse_id rt \<noteq> tr_destination_warehouse_id rt"
      using that(1) by (simp add: valid_stock_transfer_def)
    from transfer_stock_change(1) [OF run assms this] show ?thesis
      using stock_change_views(4) by (metis insert_empty_views(4))
  qed
qed

lemma check_product_Inr:
  "check_product p = Inr u \<longleftrightarrow> length (prod_sku p) \<le> 50 \<and> length (prod_name p) \<le> 200
     \<and> 0 \<le> prod_unit_price p \<and> prod_unit_price p < 10 ^ 12 \<and> 0 \<le> prod_reorder_level p
     \<and> prod_reorder_level p < 2 ^ 31"
  by (auto simp: check_product_def result_simps int4_def)

lemma create_product_Inr:
  assumes "create_product env db d = (Inr p, db')"
  shows "products db' = p # products db" and "check_product p = Inr ()" and "prod_id p = env_ids env 0"
    and "prod_sku p = pc_sku d" and "prod_name p = pc_name d" and "prod_description p = pc_description d"
    and "prod_unit_price p = the (exact_cents (pc_unit_price d))"
    and "prod_reorder_level p = pc_reorder_level d" and "prod_is_active p"
    and "prod_sku p \<notin> prod_sku ` set (products db)"
  using assms by (auto simp: create_product_def result_simps Let_def)

lemma apply_update_sku [simp]: "prod_sku (apply_product_update env d p) = prod_sku p"
  by (simp add: apply_product_update_def Let_def)

text \<open>A PATCH of a stored product, as the endpoint runs it, keeps the catalogue in order.\<close>

lemma update_product_catalog:
  assumes "update_product env db p d = (Inr p', db')" and "catalog_ok db"
    and "get_product_by_id db (prod_id p) = Some p" and "distinct (map prod_id (products db))"
  shows "catalog_ok db'" and "distinct (map prod_id (products db'))"
proof -
  have c: "check_product p' = Inr ()" "p' = apply_product_update env d p"
    "db' = db\<lparr>products := update_row prod_id (prod_id p) (\<lambda>_. p') (products db)\<rparr>"
    using assms(1) by (auto simp: update_product_def result_simps Let_def)
  have same: "prod_sku p' = prod_sku p" "prod_id p' = prod_id p"
    by (simp_all add: c(2) apply_product_update_def Let_def)
  have row: "r = p" if "r \<in> set (products db)" "prod_id r = prod_id p" for r
    using find_key_distinct [OF assms(4) that(1)] assms(3) that(2) by (simp add: get_product_by_id_def)
  have "map prod_sku (products db') = map prod_sku (products db)"
    "map prod_id (products db') = map prod_id (products db)"
    using same row by (auto simp: c(3) update_row_def)
  with c(1) assms(2,4) show "catalog_ok db'" "distinct (map prod_id (products db'))"
    by (auto simp: catalog_ok_def c(3) set_update_row check_product_Inr split: if_splits)
qed

text \<open>The steps the product endpoints commit, with fresh identifiers.\<close>

inductive catalog_step :: "inventory_db \<Rightarrow> inventory_db \<Rightarrow> bool" where
  creation: "env_ids env 0 \<notin> prod_id ` set (products db) \<Longrightarrow>
    create_product_endpoint env db body = (r, db') \<Longrightarrow> catalog_step db db'"
| patching: "update_product_endpoint env db i patch = (r, db') \<Longrightarrow> catalog_step db db'"
| deletion: "delete_product_endpoint env db i = (u, db') \<Longrightarrow> catalog_step db db'"
| stock: "valid_call c \<Longrightarrow> run_call env db c = (Inr v, db') \<Longrightarrow> catalog_step db db'"

inductive catalog_reachable :: "inventory_db \<Rightarrow> bool" where
  start: "catalog_reachable empty_inventory"
| step: "catalog_reachable db \<Longrightarrow> catalog_step db db' \<Longrightarrow> catalog_reachable db'"

lemma create_endpoint_cases:
  assumes "create_product_endpoint env db body = (r, db')"
  obtains "db' = db" "\<nexists>p. r = Reply 201 p"
    | (created) d p where "validate_product_create body = Some d" "create_product env db d = (Inr p, db')"
        "r = respond_product 201 p"
  using assms
  by (auto simp: create_product_endpoint_def create_product_def result_simps unprocessable_def
      server_error_def split: option.splits if_splits prod.splits sum.splits db_error.splits)

lemma update_endpoint_cases:
  assumes "update_product_endpoint env db i patch = (r, db')"
  obtains "db' = db"
    | (patched) p p' where "get_product_by_id db i = Some p" "prod_id p = i"
        "update_product env db p patch = (Inr p', db')" "r = respond_product 200 p'"
  using assms
  by (auto simp: update_product_endpoint_def get_product_or_404_def result_simps get_product_by_id_def
      update_product_def find_Some_iff split: if_splits prod.splits sum.splits)

definition catalog_inv :: "inventory_db \<Rightarrow> bool" where
  "catalog_inv db \<longleftrightarrow> catalog_ok db \<and> distinct (map prod_id (products db)) \<and> ledger_ok db"

lemma run_call_products:
  assumes "run_call env db c = (Inr u, db')" and "valid_call c" and "rows_ok db"
  shows "products db' = products db"
  using assms(1,2) by (cases c) (auto dest: stock_operations_products [OF assms(3)])

lemma catalog_step_inv:
  assumes "catalog_step db db'" and inv: "catalog_inv db"
  shows "catalog_inv db'"
  using assms(1)
proof (cases rule: catalog_step.cases)
  case (creation env body r)
  from creation(2) show ?thesis
  proof (cases rule: create_endpoint_cases)
    case 1
    then show ?thesis using inv by simp
  next
    case (created d p)
    note row = create_product_Inr [OF created(2)]
    have "ledger_ok db'"
      using created(2) inv ledger_products_cong [of db' db]
      by (auto simp: create_product_def result_simps Let_def catalog_inv_def)
    then show ?thesis
      using row inv creation(1) by (auto simp: catalog_inv_def catalog_ok_def check_product_Inr)
  qed
next
  case (patching env i patch r)
  from patching show ?thesis
  proof (cases rule: update_endpoint_cases)
    case 1
    then show ?thesis using inv by simp
  next
    case (patched p p')
    have "ledger_ok db'"
      using patched(3) inv ledger_products_cong [of db' db]
      by (auto simp: update_product_def result_simps Let_def catalog_inv_def)
    then show ?thesis
      using update_product_catalog [OF patched(3)] patched(1,2) inv by (auto simp: catalog_inv_def)
  qed
next
  case (deletion env i u)
  show ?thesis
  proof (cases "db' = db")
    case False
    then obtain p v where "delete_product env db p = (Inr v, db')"
      using deletion
      by (auto simp: delete_product_endpoint_def delete_product_def result_simps
          split: sum.splits prod.splits)
    then have "products db' = filter (\<lambda>q. prod_id q \<noteq> prod_id p) (products db)" "ledger_ok db'"
      using delete_product_ledger inv by (auto simp: delete_product_def result_simps catalog_inv_def)
    then show ?thesis
      using inv by (auto simp: catalog_inv_def catalog_ok_def distinct_map_filter)
  qed (use inv in simp)
next
  case (stock c env v)
  have rows: "rows_ok db" using inv ledger_okD(1) by (simp add: catalog_inv_def)
  show ?thesis
    using run_call_products [OF stock(2,1) rows] run_call_ledger [OF stock(2) _ stock(1)] inv
    by (simp add: catalog_inv_def catalog_ok_def)
qed

lemma catalog_reachable_inv: "catalog_reachable db \<Longrightarrow> catalog_inv db"
proof (induction rule: catalog_reachable.induct)
  case start
  show ?case using ledger_ok_empty by (simp add: catalog_inv_def catalog_ok_def empty_inventory_def)
qed (rule catalog_step_inv)

lemma demo_normalized:
  "normalize_sku ''BOLT'' = Some ''BOLT''" "normalize_name ''Bolt'' = Some ''Bolt''"
  by (simp_all add: normalize_sku_def normalize_name_def strip_def lstrip_def rstrip_def is_space_def
      upper_def upper_char_def Let_def)

lemma demo_product_valid: "validate_product_create demo_product = Some demo_product"
  by (simp add: demo_product_def validate_product_create_def optional_length_def price_ok_def
      exact_cents_def demo_normalized)

lemma demo_product_created:
  "\<exists>p. create_product_endpoint demo_env empty_inventory demo_product = (Reply 201 p, demo_catalog)
    \<and> prod_id p = 0 \<and> prod_sku p = ''BOLT'' \<and> products demo_catalog = [p]"
proof -
  have "create_product demo_env empty_inventory demo_product =
      (Inr (hd (products demo_catalog)), demo_catalog)"
    by (simp add: demo_catalog_eq create_product_def demo_product_def demo_env_def
        empty_inventory_def check_product_def exact_cents_def int4_def commit_fault_def Let_def)
  then show ?thesis
    by (simp add: create_product_endpoint_def demo_product_valid get_product_by_sku_def
        empty_inventory_def respond_product_def)
       (simp add: demo_catalog_eq product_response_def optional_length_def demo_normalized)
qed

lemma demo_catalog_in_reach: "catalog_reachable demo_catalog"
proof -
  from demo_product_created obtain r where
    "create_product_endpoint demo_env empty_inventory demo_product = (r, demo_catalog)" by blast
  from catalog_reachable.step [OF catalog_reachable.start creation [OF _ this]] show ?thesis
    by (simp add: empty_inventory_def)
qed

section \<open>Properties\<close>

text \<open>whatever products are created, patched and deleted and whatever stock is moved in between, no
  two products share a stock keeping unit or an id, and every price is a non-negative amount of
  cents that fits its column.\<close>

theorem catalog_skus_unique:
  assumes "catalog_reachable db"
  shows "distinct (map prod_sku (products db)) \<and> distinct (map prod_id (products db))
    \<and> (\<forall>p\<in>set (products db). 0 \<le> prod_unit_price p \<and> prod_unit_price p < 10 ^ 12)"
  using catalog_reachable_inv [OF assms] by (simp add: catalog_inv_def catalog_ok_def)

lemma catalog_skus_unique_witness:
  "map prod_sku (products demo_catalog) = [''BOLT''] \<and> distinct (map prod_sku (products demo_catalog))"
  using catalog_skus_unique [OF demo_catalog_in_reach] by (simp add: demo_catalog_eq)

text \<open>a product that was created is read back by its id exactly as the creation answered it, its
  stock keeping unit and name normalised and its price the requested one in cents; a second creation with the
  same stock keeping unit, however it is spaced or cased, is answered 409 and changes nothing.\<close>

theorem product_create_get:
  assumes "create_product_endpoint env db body = (Reply 201 p, db')"
  shows "get_product_endpoint db' (prod_id p) = Reply 200 p
    \<and> normalize_sku (pc_sku body) = Some (prod_sku p) \<and> normalize_name (pc_name body) = Some (prod_name p)
    \<and> exact_cents (pc_unit_price body) = Some (prod_unit_price p)
    \<and> (normalize_sku (pc_sku body') = Some (prod_sku p) \<and> validate_product_create body' \<noteq> None \<longrightarrow>
         create_product_endpoint env' db' body' = (HTTPException 409 (sku_conflict (prod_sku p)), db'))"
  using assms
proof (cases rule: create_endpoint_cases)
  case (created d q)
  note row = create_product_Inr [OF created(2)]
  obtain sku name where v: "normalize_sku (pc_sku body) = Some sku" "normalize_name (pc_name body) = Some name"
    "d = body\<lparr>pc_sku := sku, pc_name := name\<rparr>" "price_ok (pc_unit_price body)"
    using created(1) by (auto simp: validate_product_create_def split: if_splits option.splits)
  have "normalize_sku sku = Some sku" "normalize_name name = Some name"
    using v normalize_sku_idem normalize_name_idem by blast+
  then have q: "product_response q = Some q" and p: "p = q"
    using created(3) row v
    by (auto simp: respond_product_def product_response_def server_error_def
        split: option.splits if_splits)
  obtain n where n: "exact_cents (pc_unit_price body) = Some n"
    using v(4) by (auto simp: price_ok_def split: option.splits)
  have "get_product_by_id db' (prod_id p) = Some p"
    using row p by (simp add: get_product_by_id_def)
  then have get: "get_product_endpoint db' (prod_id p) = Reply 200 p"
    using q p by (simp add: get_product_endpoint_def get_product_or_404_def respond_product_def)
  have "create_product_endpoint env' db' body' = (HTTPException 409 (sku_conflict (prod_sku p)), db')"
    if again: "normalize_sku (pc_sku body') = Some (prod_sku p)" "validate_product_create body' \<noteq> None"
  proof -
    obtain d' where d': "validate_product_create body' = Some d'" using again(2) by auto
    then have "pc_sku d' = prod_sku p"
      using again(1) by (auto simp: validate_product_create_def split: if_splits option.splits)
    moreover have "get_product_by_sku db' (prod_sku p) \<noteq> None"
      using row p by (simp add: get_product_by_sku_def)
    ultimately show ?thesis using d' by (simp add: create_product_endpoint_def)
  qed
  with get v n row p show ?thesis by (auto simp: v(3))
qed simp

lemma product_create_get_witness:
  "\<exists>p. create_product_endpoint demo_env empty_inventory demo_product = (Reply 201 p, demo_catalog)
    \<and> get_product_endpoint demo_catalog 0 = Reply 200 p
    \<and> create_product_endpoint demo_env demo_catalog demo_product =
        (HTTPException 409 (sku_conflict ''BOLT''), demo_catalog)"
proof -
  from demo_product_created obtain p where
    run: "create_product_endpoint demo_env empty_inventory demo_product = (Reply 201 p, demo_catalog)"
    and p: "prod_id p = 0" "prod_sku p = ''BOLT''" by blast
  have "pc_sku demo_product = ''BOLT''" by (simp add: demo_product_def)
  then show ?thesis
    using product_create_get [OF run, of demo_product demo_env] run p demo_product_valid demo_normalized
    by auto
qed

text \<open>a PATCH with a blank name passes validation and is committed, and from then on the product is
  answered 500 by the PATCH itself, by its GET and by the listing of all products: the update
  schema has not the normaliser that the response schema applies.\<close>

theorem blank_name_patch_breaks_product:
  assumes found: "get_product_by_id db i = Some p" and stored: "check_product p = Inr ()"
    and blank: "0 < length blank" "length blank \<le> 200" "strip blank = []"
    and "env_fault env = None" and few: "length (products db) \<le> 100"
    and patch: "patch = \<lparr>pu_name = Value blank, pu_description = Unset, pu_unit_price = Unset,
                  pu_reorder_level = Unset, pu_is_active = Unset\<rparr>"
  shows "\<exists>db'. update_product_endpoint env db i patch = (server_error, db')
    \<and> (\<exists>q. get_product_by_id db' i = Some q \<and> prod_name q = blank)
    \<and> get_product_endpoint db' i = server_error
    \<and> list_products_endpoint db' 0 100 = server_error"
proof -
  let ?p' = "apply_product_update env patch p"
  let ?db' = "db\<lparr>products := update_row prod_id (prod_id p) (\<lambda>_. ?p') (products db)\<rparr>"
  have id: "prod_id p = i" using found by (auto simp: get_product_by_id_def dest: find_row_SomeD)
  have name: "prod_name ?p' = blank" "prod_id ?p' = i" "prod_sku ?p' = prod_sku p"
    "prod_unit_price ?p' = prod_unit_price p" "prod_reorder_level ?p' = prod_reorder_level p"
    using id by (auto simp: patch apply_product_update_def Let_def dest: arg_cong [of _ _ prod_name])
  have "check_product ?p' = Inr ()" using stored blank name by (simp add: check_product_Inr)
  then have upd: "update_product env db p patch = (Inr ?p', ?db')"
    using \<open>env_fault env = None\<close> by (simp add: update_product_def Let_def) (simp add: patch)
  have valid: "valid_product_update patch" using blank by (simp add: patch valid_product_update_def Suc_le_eq)
  have bad: "product_response ?p' = None"
    using blank by (simp add: product_response_def normalize_name_def name(1) split: option.splits)
  have "find (\<lambda>q. prod_id q = i) (update_row prod_id i (\<lambda>_. ?p') rows) = Some ?p'"
    if "find (\<lambda>q. prod_id q = i) rows = Some p" for rows
    using that name(2) by (induction rows) (auto simp: update_row_def split: if_splits)
  then have find: "get_product_by_id ?db' i = Some ?p'"
    using found id by (simp add: get_product_by_id_def)
  have listed: "respond_all rows = None" if "?p' \<in> set rows" for rows
    using that bad by (induction rows) (auto split: option.splits)
  have "length (newest_first prod_created_at (products ?db')) \<le> 100"
    using few by (simp add: newest_first_def update_row_def)
  then have "?p' \<in> set (list_products ?db' 0 100)"
    using find by (auto simp: list_products_def page_def get_product_by_id_def dest: find_row_SomeD)
  from listed [OF this] have "list_products_endpoint ?db' 0 100 = server_error"
    by (simp add: list_products_endpoint_def)
  then show ?thesis
    using upd valid find bad found
    by (intro exI [of _ ?db'])
       (auto simp: update_product_endpoint_def get_product_or_404_def respond_product_def
          get_product_endpoint_def name)
qed

lemma blank_name_patch_breaks_product_witness:
  "\<exists>db'. update_product_endpoint demo_env demo_catalog 0
      \<lparr>pu_name = Value ''  '', pu_description = Unset, pu_unit_price = Unset,
       pu_reorder_level = Unset, pu_is_active = Unset\<rparr> = (server_error, db')
    \<and> get_product_endpoint db' 0 = server_error"
proof -
  let ?p = "hd (products demo_catalog)"
  have "get_product_by_id demo_catalog 0 = Some ?p" "check_product ?p = Inr ()"
    by (simp_all add: demo_catalog_eq get_product_by_id_def check_product_Inr)
  from blank_name_patch_breaks_product [OF this, of "''  ''" demo_env] show ?thesis
    by (auto simp: strip_def lstrip_def rstrip_def is_space_def Let_def demo_env_def demo_catalog_eq)
qed

end
