(* ===== verification/Warehouses.thy ===== *)
theory Warehouses
  imports Stock_Api
begin

text \<open>
  The Warehouse Service: table (warehouse-service/app/models/warehouse.py), schemas
  (warehouse-service/app/schemas/warehouse.py), operations
  (warehouse-service/app/services/warehouse.py) and endpoints
  (warehouse-service/app/api/routes/warehouses.py).
\<close>

section \<open>Table and schemas\<close>

record warehouse =
  wh_id :: uuid
  wh_code :: string
  wh_name :: string
  wh_address_line_1 :: string
  wh_address_line_2 :: "string option"
  wh_city :: string
  wh_state :: string
  wh_postal_code :: string
  wh_country_code :: string
  wh_is_active :: bool
  wh_created_at :: time
  wh_updated_at :: time

record warehouse_db =
  warehouses :: "warehouse list"

definition check_warehouse :: "warehouse \<Rightarrow> db_error + unit" where
  "check_warehouse w = ensure (length (wh_code w) \<le> 50 \<and> length (wh_name w) \<le> 150
     \<and> length (wh_address_line_1 w) \<le> 200 \<and> optional_length 200 (wh_address_line_2 w)
     \<and> length (wh_city w) \<le> 100 \<and> length (wh_state w) \<le> 100 \<and> length (wh_postal_code w) \<le> 20
     \<and> length (wh_country_code w) \<le> 2) DataError"

definition code_free :: "warehouse_db \<Rightarrow> uuid \<Rightarrow> string \<Rightarrow> bool" where
  "code_free db i code \<longleftrightarrow> (\<forall>q\<in>set (warehouses db). wh_code q = code \<longrightarrow> wh_id q = i)"

record warehouse_create =
  wc_code :: string
  wc_name :: string
  wc_address_line_1 :: string
  wc_address_line_2 :: "string option"
  wc_city :: string
  wc_state :: string
  wc_postal_code :: string
  wc_country_code :: string

record warehouse_update =
  wu_code :: "string patch"
  wu_name :: "string patch"
  wu_address_line_1 :: "string patch"
  wu_address_line_2 :: "string patch"
  wu_city :: "string patch"
  wu_state :: "string patch"
  wu_postal_code :: "string patch"
  wu_country_code :: "string patch"
  wu_is_active :: "bool patch"

definition length_between :: "nat \<Rightarrow> nat \<Rightarrow> string \<Rightarrow> bool" where
  "length_between lo hi s \<longleftrightarrow> lo \<le> length s \<and> length s \<le> hi"

text \<open>\<open>str_strip_whitespace\<close> strips every text field before its limits are checked; the code and
  the country code are then upper-cased.\<close>

definition strip_create :: "warehouse_create \<Rightarrow> warehouse_create" where
  "strip_create r = \<lparr>wc_code = strip (wc_code r), wc_name = strip (wc_name r),
     wc_address_line_1 = strip (wc_address_line_1 r),
     wc_address_line_2 = map_option strip (wc_address_line_2 r), wc_city = strip (wc_city r),
     wc_state = strip (wc_state r), wc_postal_code = strip (wc_postal_code r),
     wc_country_code = strip (wc_country_code r)\<rparr>"

definition validate_warehouse_create :: "warehouse_create \<Rightarrow> warehouse_create option" where
  "validate_warehouse_create raw =
     (let r = strip_create raw in
      if length_between 2 50 (wc_code r) \<and> length_between 2 150 (wc_name r)
        \<and> length_between 2 200 (wc_address_line_1 r) \<and> optional_length 200 (wc_address_line_2 r)
        \<and> length_between 2 100 (wc_city r) \<and> length_between 2 100 (wc_state r)
        \<and> length_between 2 20 (wc_postal_code r) \<and> length_between 2 2 (wc_country_code r)
      then Some (r\<lparr>wc_code := upper (wc_code r), wc_country_code := upper (wc_country_code r)\<rparr>)
      else None)"

definition strip_update :: "warehouse_update \<Rightarrow> warehouse_update" where
  "strip_update r = \<lparr>wu_code = map_patch strip (wu_code r), wu_name = map_patch strip (wu_name r),
     wu_address_line_1 = map_patch strip (wu_address_line_1 r),
     wu_address_line_2 = map_patch strip (wu_address_line_2 r), wu_city = map_patch strip (wu_city r),
     wu_state = map_patch strip (wu_state r), wu_postal_code = map_patch strip (wu_postal_code r),
     wu_country_code = map_patch strip (wu_country_code r), wu_is_active = wu_is_active r\<rparr>"

definition validate_warehouse_update :: "warehouse_update \<Rightarrow> warehouse_update option" where
  "validate_warehouse_update raw =
     (let r = strip_update raw in
      if patch_all (length_between 2 50) (wu_code r) \<and> patch_all (length_between 2 150) (wu_name r)
        \<and> patch_all (length_between 2 200) (wu_address_line_1 r)
        \<and> patch_all (length_between 0 200) (wu_address_line_2 r)
        \<and> patch_all (length_between 2 100) (wu_city r) \<and> patch_all (length_between 2 100) (wu_state r)
        \<and> patch_all (length_between 2 20) (wu_postal_code r)
        \<and> patch_all (length_between 2 2) (wu_country_code r)
      then Some (r\<lparr>wu_code := map_patch upper (wu_code r),
                   wu_country_code := map_patch upper (wu_country_code r)\<rparr>)
      else None)"

section \<open>Operations\<close>

datatype warehouse_error =
    WarehouseNotFoundError uuid
  | WarehouseCodeConflictError string
  | WarehouseDatabaseError db_error

definition find_warehouse_by_code :: "warehouse_db \<Rightarrow> string \<Rightarrow> warehouse option" where
  "find_warehouse_by_code db code = find (\<lambda>w. wh_code w = code) (warehouses db)"

definition get_warehouse :: "warehouse_db \<Rightarrow> uuid \<Rightarrow> warehouse_error + warehouse" where
  "get_warehouse db i =
     of_option (WarehouseNotFoundError i) (find (\<lambda>w. wh_id w = i) (warehouses db))"

fun string_le :: "string \<Rightarrow> string \<Rightarrow> bool" where
  "string_le [] t = True"
| "string_le (c # s) [] = False"
| "string_le (c # s) (d # t) = ((of_char c :: nat) < of_char d \<or> c = d \<and> string_le s t)"

fun insert_by_code :: "warehouse \<Rightarrow> warehouse list \<Rightarrow> warehouse list" where
  "insert_by_code w [] = [w]"
| "insert_by_code w (v # vs) =
     (if string_le (wh_code w) (wh_code v) then w # v # vs else v # insert_by_code w vs)"

text \<open>\<open>ORDER BY code\<close>, with the codes compared character by character.\<close>

definition order_by_code :: "warehouse list \<Rightarrow> warehouse list" where
  "order_by_code ws = foldr insert_by_code ws []"

definition list_warehouses :: "warehouse_db \<Rightarrow> bool \<Rightarrow> nat \<Rightarrow> nat \<Rightarrow> warehouse list" where
  "list_warehouses db include_inactive offset limit =
     page offset limit (order_by_code
       (if include_inactive then warehouses db else filter wh_is_active (warehouses db)))"

definition create_warehouse :: "env \<Rightarrow> warehouse_db \<Rightarrow> warehouse_create \<Rightarrow>
    (warehouse_error + warehouse) \<times> warehouse_db" where
  "create_warehouse env db r = transaction db (
     if find_warehouse_by_code db (wc_code r) \<noteq> None
     then Inl (WarehouseCodeConflictError (wc_code r))
     else
       let w = \<lparr>wh_id = env_ids env 0, wh_code = wc_code r, wh_name = wc_name r,
                wh_address_line_1 = wc_address_line_1 r, wh_address_line_2 = wc_address_line_2 r,
                wh_city = wc_city r, wh_state = wc_state r, wh_postal_code = wc_postal_code r,
                wh_country_code = wc_country_code r, wh_is_active = True,
                wh_created_at = env_now env, wh_updated_at = env_now env\<rparr>
       in case rbind (commit_fault env) (\<lambda>_. check_warehouse w) of
            Inl IntegrityError \<Rightarrow> Inl (WarehouseCodeConflictError (wc_code r))
          | Inl e \<Rightarrow> Inl (WarehouseDatabaseError e)
          | Inr _ \<Rightarrow> Inr (w, db\<lparr>warehouses := w # warehouses db\<rparr>))"

definition patch_warehouse :: "env \<Rightarrow> warehouse_update \<Rightarrow> warehouse \<Rightarrow> warehouse" where
  "patch_warehouse env r w =
     (let w' = w\<lparr>wh_code := patched (wu_code r) (wh_code w), wh_name := patched (wu_name r) (wh_name w),
        wh_address_line_1 := patched (wu_address_line_1 r) (wh_address_line_1 w),
        wh_address_line_2 := patched_nullable (wu_address_line_2 r) (wh_address_line_2 w),
        wh_city := patched (wu_city r) (wh_city w), wh_state := patched (wu_state r) (wh_state w),
        wh_postal_code := patched (wu_postal_code r) (wh_postal_code w),
        wh_country_code := patched (wu_country_code r) (wh_country_code w),
        wh_is_active := patched (wu_is_active r) (wh_is_active w)\<rparr>
      in if w' = w then w else w'\<lparr>wh_updated_at := env_now env\<rparr>)"

definition update_not_null :: "warehouse_update \<Rightarrow> bool" where
  "update_not_null r \<longleftrightarrow> not_null (wu_code r) \<and> not_null (wu_name r)
     \<and> not_null (wu_address_line_1 r) \<and> not_null (wu_city r) \<and> not_null (wu_state r)
     \<and> not_null (wu_postal_code r) \<and> not_null (wu_country_code r) \<and> not_null (wu_is_active r)"

definition new_code :: "warehouse_update \<Rightarrow> string option" where
  "new_code r = (case wu_code r of Value c \<Rightarrow> Some c | _ \<Rightarrow> None)"

definition update_warehouse :: "env \<Rightarrow> warehouse_db \<Rightarrow> uuid \<Rightarrow> warehouse_update \<Rightarrow>
    (warehouse_error + warehouse) \<times> warehouse_db" where
  "update_warehouse env db i r = transaction db (
     rbind (get_warehouse db i) (\<lambda>w.
     let conflicting = (case new_code r of None \<Rightarrow> False
           | Some c \<Rightarrow> c \<noteq> wh_code w \<and> find_warehouse_by_code db c \<noteq> None)
     in if conflicting then Inl (WarehouseCodeConflictError (the (new_code r)))
        else
          let w' = patch_warehouse env r w in
          case rbind (commit_fault env) (\<lambda>_.
               rbind (ensure (update_not_null r) IntegrityError) (\<lambda>_.
               rbind (check_warehouse w') (\<lambda>_.
               ensure (code_free db i (wh_code w')) IntegrityError))) of
            Inl IntegrityError \<Rightarrow> Inl (WarehouseCodeConflictError
                (case new_code r of Some c \<Rightarrow> if c \<noteq> '''' then c else wh_code w
                                  | None \<Rightarrow> wh_code w))
          | Inl e \<Rightarrow> Inl (WarehouseDatabaseError e)
          | Inr _ \<Rightarrow> Inr (w', db\<lparr>warehouses := update_row wh_id i (\<lambda>_. w') (warehouses db)\<rparr>)))"

definition deactivate_warehouse :: "env \<Rightarrow> warehouse_db \<Rightarrow> uuid \<Rightarrow>
    (warehouse_error + unit) \<times> warehouse_db" where
  "deactivate_warehouse env db i = transaction db (
     rbind (get_warehouse db i) (\<lambda>w.
     case commit_fault env of
       Inl e \<Rightarrow> Inl (WarehouseDatabaseError e)
     | Inr _ \<Rightarrow> Inr ((), db\<lparr>warehouses := update_row wh_id i
         (\<lambda>w. if wh_is_active w then w\<lparr>wh_is_active := False, wh_updated_at := env_now env\<rparr> else w)
         (warehouses db)\<rparr>)))"

section \<open>Endpoints\<close>

definition warehouse_error_text :: "warehouse_error \<Rightarrow> json" where
  "warehouse_error_text e = JStr (case e of
      WarehouseNotFoundError i \<Rightarrow> ''Warehouse '' @ CHR 39 # str_uuid i @ CHR 39 # '' was not found''
    | WarehouseCodeConflictError c \<Rightarrow>
        ''Warehouse code '' @ CHR 39 # c @ CHR 39 # '' already exists''
    | WarehouseDatabaseError _ \<Rightarrow> ''database error'')"

definition create_warehouse_endpoint :: "env \<Rightarrow> warehouse_db \<Rightarrow> warehouse_create \<Rightarrow>
    warehouse endpoint_result \<times> warehouse_db" where
  "create_warehouse_endpoint env db body =
     (case validate_warehouse_create body of
        None \<Rightarrow> (unprocessable, db)
      | Some r \<Rightarrow> (case create_warehouse env db r of
            (Inr w, db') \<Rightarrow> (Reply 201 w, db')
          | (Inl e, db') \<Rightarrow> ((case e of
                WarehouseCodeConflictError _ \<Rightarrow> HTTPException 409 (warehouse_error_text e)
              | _ \<Rightarrow> server_error), db')))"

definition list_warehouses_endpoint :: "warehouse_db \<Rightarrow> bool \<Rightarrow> int \<Rightarrow> int \<Rightarrow>
    warehouse list endpoint_result" where
  "list_warehouses_endpoint db include_inactive offset limit =
     (if 0 \<le> offset \<and> 1 \<le> limit \<and> limit \<le> 100
      then Reply 200 (list_warehouses db include_inactive (nat offset) (nat limit))
      else unprocessable)"

definition get_warehouse_endpoint :: "warehouse_db \<Rightarrow> uuid \<Rightarrow> warehouse endpoint_result" where
  "get_warehouse_endpoint db i = (case get_warehouse db i of
      Inl e \<Rightarrow> HTTPException 404 (warehouse_error_text e) | Inr w \<Rightarrow> Reply 200 w)"

definition update_warehouse_endpoint :: "env \<Rightarrow> warehouse_db \<Rightarrow> uuid \<Rightarrow> warehouse_update \<Rightarrow>
    warehouse endpoint_result \<times> warehouse_db" where
  "update_warehouse_endpoint env db i body =
     (case validate_warehouse_update body of
        None \<Rightarrow> (unprocessable, db)
      | Some r \<Rightarrow> (case update_warehouse env db i r of
            (Inr w, db') \<Rightarrow> (Reply 200 w, db')
          | (Inl e, db') \<Rightarrow> ((case e of
                WarehouseNotFoundError _ \<Rightarrow> HTTPException 404 (warehouse_error_text e)
              | WarehouseCodeConflictError _ \<Rightarrow> HTTPException 409 (warehouse_error_text e)
              | _ \<Rightarrow> server_error), db')))"

definition deactivate_warehouse_endpoint :: "env \<Rightarrow> warehouse_db \<Rightarrow> uuid \<Rightarrow>
    unit endpoint_result \<times> warehouse_db" where
  "deactivate_warehouse_endpoint env db i = (case deactivate_warehouse env db i of
      (Inr _, db') \<Rightarrow> (Reply 204 (), db')
    | (Inl e, db') \<Rightarrow> ((case e of
          WarehouseNotFoundError _ \<Rightarrow> HTTPException 404 (warehouse_error_text e)
        | _ \<Rightarrow> server_error), db'))"

definition warehouse_json :: "warehouse \<Rightarrow> json" where
  "warehouse_json w = JObj [(''code'', JStr (wh_code w)), (''name'', JStr (wh_name w)),
     (''address_line_1'', JStr (wh_address_line_1 w)),
     (''address_line_2'', opt_json JStr (wh_address_line_2 w)), (''city'', JStr (wh_city w)),
     (''state'', JStr (wh_state w)), (''postal_code'', JStr (wh_postal_code w)),
     (''country_code'', JStr (wh_country_code w)), (''id'', JStr (str_uuid (wh_id w))),
     (''is_active'', JBool (wh_is_active w)), (''created_at'', JInt (wh_created_at w)),
     (''updated_at'', JInt (wh_updated_at w))]"

text \<open>The route the Order Service calls.\<close>

definition warehouse_http :: "string \<Rightarrow> warehouse_db \<Rightarrow> http_request \<Rightarrow> http_response" where
  "warehouse_http base db req =
     (case Option.bind (strip_prefix (base @ ''/warehouses/'') (req_url req)) parse_uuid of
        None \<Rightarrow> to_response warehouse_json (HTTPException 404 (JStr ''Not Found''))
      | Some i \<Rightarrow> if req_method req = ''GET'' then to_response warehouse_json (get_warehouse_endpoint db i)
          else to_response warehouse_json (HTTPException 405 (JStr ''Method Not Allowed'')))"

section \<open>Codes stay unique\<close>

definition codes_ok :: "warehouse_db \<Rightarrow> bool" where
  "codes_ok db \<longleftrightarrow> distinct (map wh_code (warehouses db)) \<and> distinct (map wh_id (warehouses db))"

inductive warehouse_step :: "warehouse_db \<Rightarrow> warehouse_db \<Rightarrow> bool" where
  creation: "env_ids env 0 \<notin> wh_id ` set (warehouses db) \<Longrightarrow>
    create_warehouse_endpoint env db body = (r, db') \<Longrightarrow> warehouse_step db db'"
| patching: "update_warehouse_endpoint env db i body' = (r, db') \<Longrightarrow> warehouse_step db db'"
| deactivation: "deactivate_warehouse_endpoint env db i = (u, db') \<Longrightarrow> warehouse_step db db'"

inductive warehouse_reachable :: "warehouse_db \<Rightarrow> bool" where
  start: "warehouse_reachable \<lparr>warehouses = []\<rparr>"
| step: "warehouse_reachable db \<Longrightarrow> warehouse_step db db' \<Longrightarrow> warehouse_reachable db'"

end
