(* ===== verification/Warehouse_Correct.thy ===== *)
theory Warehouse_Correct
  imports Warehouses
begin

text \<open>
  Correctness of the Warehouse Service: the order of listings, the invariant of the warehouse table
  (unique, normalised codes) in every reachable state, and what each operation does to the table.
\<close>

section \<open>Ordering by code\<close>

fun_cases string_le_ConsE: "string_le (c # s) (d # t)"

lemma string_le_refl [simp]: "string_le s s"
  by (induction s) simp_all

lemma string_le_total: "string_le s t \<or> string_le t s"
proof (induction s t rule: string_le.induct)
  case (3 c s d t)
  consider "(of_char c :: nat) < of_char d" | "(of_char d :: nat) < of_char c" | "c = d"
    by (metis linorder_neqE_nat of_char_eq_iff)
  then show ?case using 3 by cases auto
qed simp_all

lemma string_le_trans: "string_le s t \<Longrightarrow> string_le t u \<Longrightarrow> string_le s u"
proof (induction s t arbitrary: u rule: string_le.induct)
  case (3 c s d t)
  from "3.prems"(2) obtain e v where u: "u = e # v" by (cases u) simp_all
  from "3.prems"(1) show ?case
  proof (cases rule: string_le_ConsE)
    case 1
    from "3.prems"(2) [unfolded u] show ?thesis
      using "3.IH" [of v] "3.prems"(1) by (auto elim!: string_le_ConsE simp: u)
  qed
qed simp_all

lemma string_le_antisym: "string_le s t \<Longrightarrow> string_le t s \<Longrightarrow> s = t"
  by (induction s t rule: string_le.induct) (auto elim: string_le.elims)

definition ordered_codes :: "warehouse list \<Rightarrow> bool" where
  "ordered_codes ws \<longleftrightarrow> sorted_wrt (\<lambda>a b. string_le (wh_code a) (wh_code b)) ws"

lemma mset_insert_by_code [simp]: "mset (insert_by_code w ws) = add_mset w (mset ws)"
  by (induction ws) simp_all

lemma mset_order_by_code [simp]: "mset (order_by_code ws) = mset ws"
  by (induction ws) (simp_all add: order_by_code_def)

lemma length_order_by_code: "length (order_by_code ws) = length ws"
  using arg_cong [OF mset_order_by_code, of size] by (simp only: size_mset)

lemma set_insert_by_code [simp]: "set (insert_by_code w ws) = insert w (set ws)"
  by (induction ws) auto

lemma ordered_insert_by_code: "ordered_codes ws \<Longrightarrow> ordered_codes (insert_by_code w ws)"
proof (induction ws)
  case (Cons v vs)
  show ?case
  proof (cases "string_le (wh_code w) (wh_code v)")
    case True
    then show ?thesis using Cons.prems by (auto simp: ordered_codes_def intro: string_le_trans)
  next
    case False
    then have "string_le (wh_code v) (wh_code w)" using string_le_total by blast
    then show ?thesis using False Cons by (simp add: ordered_codes_def)
  qed
qed (simp add: ordered_codes_def)

lemma ordered_order_by_code: "ordered_codes (order_by_code ws)"
proof (induction ws)
  case (Cons w ws)
  then show ?case using ordered_insert_by_code by (simp add: order_by_code_def)
qed (simp add: order_by_code_def ordered_codes_def)

section \<open>The table\<close>

definition warehouse_wf :: "warehouse \<Rightarrow> bool" where
  "warehouse_wf w \<longleftrightarrow> upper (wh_code w) = wh_code w \<and> length_between 2 50 (wh_code w)
     \<and> upper (wh_country_code w) = wh_country_code w \<and> length (wh_country_code w) = 2
     \<and> length_between 2 150 (wh_name w)"

definition warehouses_ok :: "warehouse_db \<Rightarrow> bool" where
  "warehouses_ok db \<longleftrightarrow> codes_ok db \<and> (\<forall>w\<in>set (warehouses db). warehouse_wf w)"

lemma create_warehouse_Inr:
  assumes "create_warehouse env db r = (Inr w, db')"
  shows "warehouses db' = w # warehouses db" and "wh_code w = wc_code r" and "wh_id w = env_ids env 0"
    and "wh_country_code w = wc_country_code r" and "wh_name w = wc_name r" and "wh_is_active w"
    and "wc_code r \<notin> wh_code ` set (warehouses db)"
  using assms
  by (auto simp: create_warehouse_def result_simps Let_def find_warehouse_by_code_def find_None_iff
      split: if_splits sum.splits db_error.splits)

lemma create_warehouse_Inl: "create_warehouse env db r = (Inl e, db') \<Longrightarrow> db' = db"
  by (simp add: create_warehouse_def result_simps)

lemma update_warehouse_Inl: "update_warehouse env db i r = (Inl e, db') \<Longrightarrow> db' = db"
  by (simp add: update_warehouse_def result_simps)

lemma update_warehouse_Inr:
  assumes "update_warehouse env db i r = (Inr w', db')"
  shows "\<exists>w. get_warehouse db i = Inr w \<and> w' = patch_warehouse env r w \<and> update_not_null r
    \<and> code_free db i (wh_code w')
    \<and> db' = db\<lparr>warehouses := update_row wh_id i (\<lambda>_. w') (warehouses db)\<rparr>"
  using assms
  by (auto simp: update_warehouse_def result_simps Let_def split: if_splits sum.splits db_error.splits)

lemma patch_warehouse_simps:
  "wh_id (patch_warehouse env r w) = wh_id w"
  "wh_code (patch_warehouse env r w) = patched (wu_code r) (wh_code w)"
  "wh_country_code (patch_warehouse env r w) = patched (wu_country_code r) (wh_country_code w)"
  "wh_name (patch_warehouse env r w) = patched (wu_name r) (wh_name w)"
  by (auto simp: patch_warehouse_def Let_def dest: arg_cong [of _ _ wh_code]
      arg_cong [of _ _ wh_country_code] arg_cong [of _ _ wh_name])

lemma get_warehouse_row: "get_warehouse db i = Inr w \<Longrightarrow> w \<in> set (warehouses db) \<and> wh_id w = i"
  by (auto simp: get_warehouse_def result_simps dest: find_row_SomeD)

lemma patch_all_cases:
  "patch_all P p \<Longrightarrow> P x \<Longrightarrow> P (patched p x)"
  by (cases p) simp_all

lemma patch_all_map: "patch_all P (map_patch f p) = patch_all (\<lambda>x. P (f x)) p"
  by (cases p) simp_all

lemma patch_all_mono: "patch_all P p \<Longrightarrow> (\<And>x. P x \<Longrightarrow> Q x) \<Longrightarrow> patch_all Q p"
  by (cases p) simp_all

lemma validate_update_fields:
  assumes "validate_warehouse_update body = Some q"
  shows "wu_code q = map_patch upper (wu_code (strip_update body))"
    and "wu_country_code q = map_patch upper (wu_country_code (strip_update body))"
    and "wu_name q = wu_name (strip_update body)"
    and "patch_all (length_between 2 50) (wu_code (strip_update body))"
    and "patch_all (length_between 2 2) (wu_country_code (strip_update body))"
    and "patch_all (length_between 2 150) (wu_name (strip_update body))"
  using assms unfolding validate_warehouse_update_def Let_def
  by (auto split: if_split_asm)

lemma distinct_update_key:
  assumes "distinct (map key rows)" and "\<And>r. r \<in> set rows \<Longrightarrow> idf r \<noteq> i \<Longrightarrow> key r \<noteq> c"
    and "distinct (map idf rows)" and "key w = c"
  shows "distinct (map key (map (\<lambda>r. if idf r = i then w else r) rows))"
  using assms
proof (induction rows)
  case (Cons r rows)
  have "\<forall>x\<in>set rows. idf x \<noteq> i \<longrightarrow> key w \<noteq> key x"
    using Cons.prems(2) Cons.prems(4) by (metis list.set_intros(2))
  moreover have "key r \<noteq> key w" if "idf r \<noteq> i" using Cons.prems(2) [of r] Cons.prems(4) that by simp
  moreover have "distinct (map key (map (\<lambda>r. if idf r = i then w else r) rows))"
    using Cons.prems by (intro Cons.IH) auto
  ultimately show ?case using Cons.prems(1,3) by (auto simp: image_iff split: if_splits)
qed simp

lemma create_endpoint_ok:
  assumes ok: "warehouses_ok db" and fresh: "env_ids env 0 \<notin> wh_id ` set (warehouses db)"
    and run: "create_warehouse_endpoint env db body = (r, db')"
  shows "warehouses_ok db'"
proof (cases "db' = db")
  case False
  with run obtain q w where v: "validate_warehouse_create body = Some q"
    and c: "create_warehouse env db q = (Inr w, db')"
    by (auto simp: create_warehouse_endpoint_def dest: create_warehouse_Inl
        split: option.splits prod.splits sum.splits)
  note row = create_warehouse_Inr [OF c]
  have "warehouse_wf w"
    using v row by (auto simp: validate_warehouse_create_def warehouse_wf_def Let_def
        length_between_def split: if_splits)
  then show ?thesis using ok row fresh by (auto simp: warehouses_ok_def codes_ok_def)
qed (use ok in simp)

lemma update_endpoint_ok:
  assumes ok: "warehouses_ok db" and run: "update_warehouse_endpoint env db i body = (r, db')"
  shows "warehouses_ok db'"
proof (cases "db' = db")
  case False
  with run obtain q w' where v: "validate_warehouse_update body = Some q"
    and c: "update_warehouse env db i q = (Inr w', db')"
    by (auto simp: update_warehouse_endpoint_def dest: update_warehouse_Inl
        split: option.splits prod.splits sum.splits)
  from update_warehouse_Inr [OF c] obtain w where w: "get_warehouse db i = Inr w"
    "w' = patch_warehouse env q w" "update_not_null q" "code_free db i (wh_code w')"
    "db' = db\<lparr>warehouses := update_row wh_id i (\<lambda>_. w') (warehouses db)\<rparr>" by blast
  note row = get_warehouse_row [OF w(1)]
  have old: "warehouse_wf w" using ok row by (simp add: warehouses_ok_def)
  have "patch_all (\<lambda>x. upper x = x \<and> length_between 2 50 x) (wu_code q)"
    "patch_all (\<lambda>x. upper x = x \<and> length x = 2) (wu_country_code q)"
    "patch_all (length_between 2 150) (wu_name q)"
    using validate_update_fields [OF v]
    by (auto simp: patch_all_map length_between_def elim!: patch_all_mono)
  from this [THEN patch_all_cases] old have wf: "warehouse_wf w'"
    by (simp add: w(2) warehouse_wf_def patch_warehouse_simps)
  have ids: "map wh_id (update_row wh_id i (\<lambda>_. w') (warehouses db)) = map wh_id (warehouses db)"
    using row w(2) by (auto simp: update_row_def patch_warehouse_simps)
  have "distinct (map wh_code (update_row wh_id i (\<lambda>_. w') (warehouses db)))"
    using distinct_update_key [of wh_code "warehouses db" wh_id i "wh_code w'" w'] ok w(4)
    by (auto simp: update_row_def warehouses_ok_def codes_ok_def code_free_def)
  with ok wf ids show ?thesis
    by (auto simp: warehouses_ok_def codes_ok_def w(5) set_update_row)
qed (use ok in simp)

lemma deactivate_endpoint_ok:
  assumes ok: "warehouses_ok db" and run: "deactivate_warehouse_endpoint env db i = (r, db')"
  shows "warehouses_ok db'"
proof (cases "db' = db")
  case False
  define f :: "warehouse \<Rightarrow> warehouse" where "f = (\<lambda>w. if wh_is_active w
    then w\<lparr>wh_is_active := False, wh_updated_at := env_now env\<rparr> else w)"
  have db': "db' = db\<lparr>warehouses := update_row wh_id i f (warehouses db)\<rparr>"
    using run False
    by (auto simp: deactivate_warehouse_endpoint_def deactivate_warehouse_def result_simps f_def
        transaction_def rbind_def split: prod.splits sum.splits if_splits)
  have "map wh_code (update_row wh_id i f (warehouses db)) = map wh_code (warehouses db)"
    "map wh_id (update_row wh_id i f (warehouses db)) = map wh_id (warehouses db)"
    by (simp_all add: update_row_def f_def)
  moreover have "warehouse_wf (f w)" if "warehouse_wf w" for w
    using that by (simp add: f_def warehouse_wf_def)
  ultimately show ?thesis
    using ok by (auto simp: db' warehouses_ok_def codes_ok_def set_update_row)
qed (use ok in simp)

lemma warehouse_step_ok: "warehouse_step db db' \<Longrightarrow> warehouses_ok db \<Longrightarrow> warehouses_ok db'"
  by (induction rule: warehouse_step.induct)
     (blast intro: create_endpoint_ok update_endpoint_ok deactivate_endpoint_ok)+

lemma reachable_warehouses_ok: "warehouse_reachable db \<Longrightarrow> warehouses_ok db"
proof (induction rule: warehouse_reachable.induct)
  case start
  show ?case by (simp add: warehouses_ok_def codes_ok_def)
qed (rule warehouse_step_ok)

section \<open>Listings\<close>

lemma list_warehouses_all:
  assumes "length (warehouses db) \<le> limit"
  shows "mset (list_warehouses db include_inactive 0 limit) =
    mset (if include_inactive then warehouses db else filter wh_is_active (warehouses db))"
proof -
  let ?ws = "if include_inactive then warehouses db else filter wh_is_active (warehouses db)"
  have "length (order_by_code ?ws) = length ?ws" by (rule length_order_by_code)
  moreover have "length ?ws \<le> limit"
    using order_trans [OF length_filter_le assms, of wh_is_active] assms by simp
  ultimately have "take limit (order_by_code ?ws) = order_by_code ?ws" by (simp only: take_all)
  then show ?thesis by (simp add: list_warehouses_def page_def del: mset_filter)
qed

section \<open>Properties\<close>

definition demo_warehouse :: warehouse_create where
  "demo_warehouse = \<lparr>wc_code = ''WH1'', wc_name = ''Main'', wc_address_line_1 = ''Road 1'',
     wc_address_line_2 = None, wc_city = ''Bonn'', wc_state = ''NRW'', wc_postal_code = ''53111'',
     wc_country_code = ''DE''\<rparr>"

definition demo_warehouses :: "env \<Rightarrow> warehouse_db" where
  "demo_warehouses env = snd (create_warehouse_endpoint env \<lparr>warehouses = []\<rparr> demo_warehouse)"

lemma demo_warehouse_valid: "validate_warehouse_create demo_warehouse = Some demo_warehouse"
  by (simp add: validate_warehouse_create_def demo_warehouse_def strip_create_def strip_def lstrip_def
      rstrip_def is_space_def upper_def upper_char_def length_between_def optional_length_def Let_def)

lemma demo_warehouses_reachable: "warehouse_reachable (demo_warehouses env)"
proof -
  obtain r db' where run: "create_warehouse_endpoint env \<lparr>warehouses = []\<rparr> demo_warehouse = (r, db')"
    by fastforce
  then have "warehouse_step \<lparr>warehouses = []\<rparr> db'" by (intro warehouse_step.creation) simp_all
  with run show ?thesis
    using warehouse_reachable.start warehouse_reachable.step by (auto simp: demo_warehouses_def)
qed

lemma demo_warehouses_eq:
  assumes "env_fault env = None"
  shows "warehouses (demo_warehouses env) = [\<lparr>wh_id = env_ids env 0, wh_code = ''WH1'',
     wh_name = ''Main'', wh_address_line_1 = ''Road 1'', wh_address_line_2 = None, wh_city = ''Bonn'',
     wh_state = ''NRW'', wh_postal_code = ''53111'', wh_country_code = ''DE'', wh_is_active = True,
     wh_created_at = env_now env, wh_updated_at = env_now env\<rparr>]"
proof -
  have "create_warehouse env \<lparr>warehouses = []\<rparr> demo_warehouse =
      (Inr \<lparr>wh_id = env_ids env 0, wh_code = ''WH1'',
        wh_name = ''Main'', wh_address_line_1 = ''Road 1'', wh_address_line_2 = None, wh_city = ''Bonn'',
        wh_state = ''NRW'', wh_postal_code = ''53111'', wh_country_code = ''DE'', wh_is_active = True,
        wh_created_at = env_now env, wh_updated_at = env_now env\<rparr>,
       \<lparr>warehouses = [\<lparr>wh_id = env_ids env 0, wh_code = ''WH1'',
        wh_name = ''Main'', wh_address_line_1 = ''Road 1'', wh_address_line_2 = None, wh_city = ''Bonn'',
        wh_state = ''NRW'', wh_postal_code = ''53111'', wh_country_code = ''DE'', wh_is_active = True,
        wh_created_at = env_now env, wh_updated_at = env_now env\<rparr>]\<rparr>)"
    using assms
    by (simp add: create_warehouse_def demo_warehouse_def find_warehouse_by_code_def check_warehouse_def
        optional_length_def Let_def)
  then show ?thesis
    by (simp add: demo_warehouses_def create_warehouse_endpoint_def demo_warehouse_valid)
qed

text \<open>in every reachable state of the Warehouse Service no two warehouses share a code or an id, and
  every stored code and country code is upper case and within its limits, although only the
  update's own query and the database check it.\<close>

theorem warehouse_codes_unique:
  assumes "warehouse_reachable db"
  shows "distinct (map wh_code (warehouses db)) \<and> distinct (map wh_id (warehouses db))
    \<and> (\<forall>w\<in>set (warehouses db). upper (wh_code w) = wh_code w \<and> length_between 2 50 (wh_code w)
         \<and> upper (wh_country_code w) = wh_country_code w \<and> length (wh_country_code w) = 2)"
  using reachable_warehouses_ok [OF assms]
  by (auto simp: warehouses_ok_def codes_ok_def warehouse_wf_def)

lemma warehouse_codes_unique_witness:
  "map wh_code (warehouses (demo_warehouses \<lparr>env_now = 0, env_ids = of_nat, env_flush_fault = None,
      env_fault = None\<rparr>)) = [''WH1'']
   \<and> distinct (map wh_code (warehouses (demo_warehouses \<lparr>env_now = 0, env_ids = of_nat,
      env_flush_fault = None, env_fault = None\<rparr>)))"
  using warehouse_codes_unique [OF demo_warehouses_reachable] by (simp add: demo_warehouses_eq)

text \<open>a listing long enough for the table returns the active warehouses, or all when asked, each
  once, in the order of their codes; a shorter page is a contiguous piece of that list.\<close>

theorem warehouse_listing_sorted:
  "ordered_codes (list_warehouses db include_inactive offset limit)
    \<and> list_warehouses db include_inactive offset limit =
        take limit (drop offset (list_warehouses db include_inactive 0 (length (warehouses db))))
    \<and> mset (list_warehouses db include_inactive 0 (length (warehouses db))) =
        mset (if include_inactive then warehouses db else filter wh_is_active (warehouses db))"
proof -
  let ?ws = "order_by_code (if include_inactive then warehouses db
    else filter wh_is_active (warehouses db))"
  have "ordered_codes (take limit (drop offset ?ws))"
    using ordered_order_by_code sorted_wrt_take sorted_wrt_drop unfolding ordered_codes_def by blast
  moreover have "length ?ws \<le> length (warehouses db)"
    using length_order_by_code by simp
  ultimately show ?thesis
    using list_warehouses_all [OF order_refl, of db include_inactive]
    by (simp add: list_warehouses_def page_def)
qed

text \<open>C23: a PATCH that sets a required field to \<open>null\<close> on a stored warehouse is refused as a code
  conflict, 409 \<open>already exists\<close>, although no other warehouse has the code: every
  \<open>IntegrityError\<close> of the update is reported as one.\<close>

theorem null_patch_reported_as_conflict:
  assumes "get_warehouse db i = Inr w" and "env_fault env = None"
    and "patch = \<lparr>wu_code = Unset, wu_name = Null, wu_address_line_1 = Unset,
      wu_address_line_2 = Unset, wu_city = Unset, wu_state = Unset, wu_postal_code = Unset,
      wu_country_code = Unset, wu_is_active = Unset\<rparr>"
  shows "update_warehouse_endpoint env db i patch =
    (HTTPException 409 (JStr (''Warehouse code '' @ CHR 39 # wh_code w @ CHR 39 # '' already exists'')), db)"
proof -
  have "validate_warehouse_update patch = Some patch"
    by (simp add: assms(3) validate_warehouse_update_def strip_update_def)
  moreover have "update_warehouse env db i patch = (Inl (WarehouseCodeConflictError (wh_code w)), db)"
    using assms(1,2) by (simp add: update_warehouse_def new_code_def assms(3) update_not_null_def Let_def)
  ultimately show ?thesis
    by (simp add: update_warehouse_endpoint_def warehouse_error_text_def)
qed

lemma null_patch_reported_as_conflict_witness:
  "fst (update_warehouse_endpoint \<lparr>env_now = 0, env_ids = of_nat, env_flush_fault = None, env_fault = None\<rparr>
      (demo_warehouses \<lparr>env_now = 0, env_ids = of_nat, env_flush_fault = None, env_fault = None\<rparr>) 0
      \<lparr>wu_code = Unset, wu_name = Null, wu_address_line_1 = Unset,
       wu_address_line_2 = Unset, wu_city = Unset, wu_state = Unset, wu_postal_code = Unset,
       wu_country_code = Unset, wu_is_active = Unset\<rparr>) =
    HTTPException 409 (JStr (''Warehouse code '' @ CHR 39 # ''WH1'' @ CHR 39 # '' already exists''))"
proof -
  let ?env = "\<lparr>env_now = 0, env_ids = of_nat, env_flush_fault = None, env_fault = None\<rparr> :: env"
  have "get_warehouse (demo_warehouses ?env) 0 = Inr (hd (warehouses (demo_warehouses ?env)))"
    by (simp add: get_warehouse_def demo_warehouses_eq)
  from null_patch_reported_as_conflict [OF this, of ?env] show ?thesis
    by (simp add: demo_warehouses_eq)
qed

end
