(* ===== verification/Order_Client.thy ===== *)
theory Order_Client
  imports Json_Decimal Http_Types
begin

text \<open>
  The Order Service's client for the services it depends on
  (order-service/app/services/external.py). The HTTP library is a parameter: a function from a
  request and the state of the world outside the service to a response, or a request error, and
  the next state of that world.
\<close>

datatype client_error =
    DownstreamServiceError string
  | ProductUnavailableError string
  | WarehouseUnavailableError string
  | StockReservationError string
  | StockReleaseError string
  | UnexpectedError string \<comment> \<open>a Python exception that the client does not translate\<close>

definition client_error_text :: "client_error \<Rightarrow> string" where
  "client_error_text e = (case e of DownstreamServiceError s \<Rightarrow> s | ProductUnavailableError s \<Rightarrow> s
     | WarehouseUnavailableError s \<Rightarrow> s | StockReservationError s \<Rightarrow> s | StockReleaseError s \<Rightarrow> s
     | UnexpectedError s \<Rightarrow> s)"

record product_snapshot =
  snap_product_id :: uuid
  snap_unit_price :: decimal

text \<open>The two service addresses of \<open>Settings\<close> (order-service/app/core/config.py), whose validator
  removes trailing slashes.\<close>

record order_settings =
  inventory_service_url :: string
  warehouse_service_url :: string

definition remove_trailing_slash :: "string \<Rightarrow> string" where
  "remove_trailing_slash v = rstrip (\<lambda>c. c = CHR ''/'') v"

definition make_order_settings :: "string \<Rightarrow> string \<Rightarrow> order_settings" where
  "make_order_settings inventory_url warehouse_url =
     \<lparr>inventory_service_url = remove_trailing_slash inventory_url,
      warehouse_service_url = remove_trailing_slash warehouse_url\<rparr>"

text \<open>What one reservation or release call carries.\<close>

record reservation_call =
  call_product_id :: uuid
  call_warehouse_id :: uuid
  call_quantity :: int
  call_reference_id :: string

type_synonym 's http = "http_request \<Rightarrow> 's \<Rightarrow> (request_error + http_response) \<times> 's"

section \<open>Helpers\<close>

definition response_detail :: "http_response \<Rightarrow> string" where
  "response_detail r = (case resp_body r of
      None \<Rightarrow> if resp_text r \<noteq> '''' then resp_text r else ''HTTP '' @ str_nat (resp_status r)
    | Some payload \<Rightarrow> (case json_get ''detail'' payload of
          Some d \<Rightarrow> py_str d
        | None \<Rightarrow> py_str payload))"

definition truthy :: "json \<Rightarrow> bool" where
  "truthy j = (case j of JNull \<Rightarrow> False | JBool b \<Rightarrow> b | JInt i \<Rightarrow> i \<noteq> 0
     | JFloat s \<Rightarrow> (case parse_decimal s of Some (Finite c e) \<Rightarrow> c \<noteq> 0 | _ \<Rightarrow> True)
     | JStr s \<Rightarrow> s \<noteq> '''' | JList xs \<Rightarrow> xs \<noteq> [] | JObj kvs \<Rightarrow> kvs \<noteq> [])"

definition is_object :: "json \<Rightarrow> bool" where
  "is_object j = (case j of JObj _ \<Rightarrow> True | _ \<Rightarrow> False)"

definition client_request :: "'s http \<Rightarrow> http_request \<Rightarrow> string \<Rightarrow> 's \<Rightarrow>
    (client_error + http_response) \<times> 's" where
  "client_request http req service_name s = (case http req s of
      (Inl _, s') \<Rightarrow> (Inl (DownstreamServiceError (service_name @ '' is unavailable'')), s')
    | (Inr r, s') \<Rightarrow> (Inr r, s'))"

section \<open>Calls\<close>

definition read_product :: "uuid \<Rightarrow> http_response \<Rightarrow> client_error + product_snapshot" where
  "read_product p r =
     (if resp_status r = 404
      then Inl (ProductUnavailableError (''Product '' @ CHR 39 # str_uuid p @ CHR 39 #
             '' was not found''))
      else if \<not> is_success r
      then Inl (DownstreamServiceError (''Inventory Service product lookup failed: '' @
             response_detail r))
      else case resp_body r of
        None \<Rightarrow> Inl (UnexpectedError ''JSONDecodeError'')
      | Some payload \<Rightarrow>
          if \<not> is_object payload then Inl (UnexpectedError ''AttributeError'')
          else if \<not> truthy (case json_get ''is_active'' payload of None \<Rightarrow> JBool True | Some v \<Rightarrow> v)
          then Inl (ProductUnavailableError (''Product '' @ CHR 39 # str_uuid p @ CHR 39 #
                 '' is inactive''))
          else case Option.bind (json_get ''unit_price'' payload) (\<lambda>v. parse_decimal (py_str v)) of
              None \<Rightarrow> Inl (DownstreamServiceError
                        ''Inventory Service returned an invalid product price'')
            | Some d \<Rightarrow> Inr \<lparr>snap_product_id = p, snap_unit_price = d\<rparr>)"

definition get_product :: "order_settings \<Rightarrow> 's http \<Rightarrow> uuid \<Rightarrow> 's \<Rightarrow>
    (client_error + product_snapshot) \<times> 's" where
  "get_product cfg http p s =
     sbind (client_request http \<lparr>req_method = ''GET'',
              req_url = inventory_service_url cfg @ ''/products/'' @ str_uuid p, req_json = JNull\<rparr>
              ''Inventory Service'' s)
       (\<lambda>r s'. (read_product p r, s'))"

definition read_warehouse :: "uuid \<Rightarrow> http_response \<Rightarrow> client_error + unit" where
  "read_warehouse w r =
     (if resp_status r = 404
      then Inl (WarehouseUnavailableError (''Warehouse '' @ CHR 39 # str_uuid w @ CHR 39 #
             '' was not found''))
      else if \<not> is_success r
      then Inl (DownstreamServiceError (''Warehouse Service lookup failed: '' @ response_detail r))
      else case resp_body r of
        None \<Rightarrow> Inl (UnexpectedError ''JSONDecodeError'')
      | Some payload \<Rightarrow>
          if \<not> is_object payload then Inl (UnexpectedError ''AttributeError'')
          else if \<not> truthy (case json_get ''is_active'' payload of None \<Rightarrow> JBool False | Some v \<Rightarrow> v)
          then Inl (WarehouseUnavailableError (''Warehouse '' @ CHR 39 # str_uuid w @ CHR 39 #
                 '' is inactive''))
          else Inr ())"

definition verify_warehouse :: "order_settings \<Rightarrow> 's http \<Rightarrow> uuid \<Rightarrow> 's \<Rightarrow>
    (client_error + unit) \<times> 's" where
  "verify_warehouse cfg http w s =
     sbind (client_request http \<lparr>req_method = ''GET'',
              req_url = warehouse_service_url cfg @ ''/warehouses/'' @ str_uuid w, req_json = JNull\<rparr>
              ''Warehouse Service'' s)
       (\<lambda>r s'. (read_warehouse w r, s'))"

definition call_body :: "reservation_call \<Rightarrow> string \<Rightarrow> json" where
  "call_body c reason = JObj [
     (''product_id'', JStr (str_uuid (call_product_id c))),
     (''warehouse_id'', JStr (str_uuid (call_warehouse_id c))),
     (''quantity'', JInt (call_quantity c)),
     (''reference_id'', JStr (call_reference_id c)),
     (''reason'', JStr reason)]"

definition client_reserve_stock :: "order_settings \<Rightarrow> 's http \<Rightarrow> reservation_call \<Rightarrow> 's \<Rightarrow>
    (client_error + unit) \<times> 's" where
  "client_reserve_stock cfg http c s =
     sbind (client_request http \<lparr>req_method = ''POST'',
              req_url = inventory_service_url cfg @ ''/stock/reservations'',
              req_json = call_body c ''Order inventory reservation''\<rparr> ''Inventory Service'' s)
       (\<lambda>r s'. if is_success r then (Inr (), s')
               else (Inl (StockReservationError (''Stock reservation failed: '' @
                      response_detail r)), s'))"

definition client_release_stock :: "order_settings \<Rightarrow> 's http \<Rightarrow> reservation_call \<Rightarrow> 's \<Rightarrow>
    (client_error + unit) \<times> 's" where
  "client_release_stock cfg http c s =
     sbind (client_request http \<lparr>req_method = ''POST'',
              req_url = inventory_service_url cfg @ ''/stock/releases'',
              req_json = call_body c ''Order inventory reservation release''\<rparr> ''Inventory Service'' s)
       (\<lambda>r s'. if is_success r then (Inr (), s')
               else (Inl (StockReleaseError (''Stock release failed: '' @
                      response_detail r)), s'))"

text \<open>The client object: the order functions take it as an argument, as the Python ones do.\<close>

record 's service_client =
  sc_verify_warehouse :: "uuid \<Rightarrow> 's \<Rightarrow> (client_error + unit) \<times> 's"
  sc_get_product :: "uuid \<Rightarrow> 's \<Rightarrow> (client_error + product_snapshot) \<times> 's"
  sc_reserve_stock :: "reservation_call \<Rightarrow> 's \<Rightarrow> (client_error + unit) \<times> 's"
  sc_release_stock :: "reservation_call \<Rightarrow> 's \<Rightarrow> (client_error + unit) \<times> 's"

definition ServiceClient :: "order_settings \<Rightarrow> 's http \<Rightarrow> 's service_client" where
  "ServiceClient cfg http =
     \<lparr>sc_verify_warehouse = verify_warehouse cfg http, sc_get_product = get_product cfg http,
      sc_reserve_stock = client_reserve_stock cfg http,
      sc_release_stock = client_release_stock cfg http\<rparr>"

end
