(* ===== verification/Orders.thy ===== *)
theory Orders
  imports Order_Client
begin

text \<open>
  The Order Service: its tables (order-service/app/models/order.py), request schemas
  (order-service/app/schemas/order.py), the order functions (order-service/app/services/order.py)
  and the endpoints (order-service/app/api/routes/orders.py). Creating or cancelling an order
  calls other services; their state is the type variable \<open>'s\<close>, threaded through the client. The
  rollback of a failed operation restores the order tables, never the world outside.
\<close>

section \<open>Tables\<close>

datatype order_status = PENDING | RESERVED | CONFIRMED | CANCELLED

definition status_text :: "order_status \<Rightarrow> string" where
  "status_text st = (case st of PENDING \<Rightarrow> ''PENDING'' | RESERVED \<Rightarrow> ''RESERVED''
     | CONFIRMED \<Rightarrow> ''CONFIRMED'' | CANCELLED \<Rightarrow> ''CANCELLED'')"

record order_item =
  item_id :: uuid
  item_product_id :: uuid
  item_quantity :: int
  item_unit_price :: int
  item_line_total :: int

record order =
  ord_id :: uuid
  ord_number :: string
  ord_customer_name :: string
  ord_customer_email :: string
  ord_warehouse_id :: uuid
  ord_status :: order_status
  ord_total_amount :: int
  ord_items :: "order_item list"
  ord_created_at :: time
  ord_updated_at :: time

record order_db =
  orders :: "order list"

definition check_order_item :: "order_item \<Rightarrow> db_error + unit" where
  "check_order_item i =
     rbind (ensure (int4 (item_quantity i) \<and> \<bar>item_unit_price i\<bar> < 10 ^ 12
                  \<and> \<bar>item_line_total i\<bar> < 10 ^ 14) DataError)
       (\<lambda>_. ensure (0 < item_quantity i \<and> 0 \<le> item_unit_price i \<and> 0 \<le> item_line_total i)
              IntegrityError)"

fun check_order_items :: "order_item list \<Rightarrow> db_error + unit" where
  "check_order_items [] = Inr ()"
| "check_order_items (i # is) = rbind (check_order_item i) (\<lambda>_. check_order_items is)"

definition check_order :: "order_db \<Rightarrow> order \<Rightarrow> db_error + unit" where
  "check_order db ord =
     rbind (ensure (length (ord_number ord) \<le> 50 \<and> length (ord_customer_name ord) \<le> 150
                  \<and> length (ord_customer_email ord) \<le> 320 \<and> \<bar>ord_total_amount ord\<bar> < 10 ^ 12)
              DataError)
       (\<lambda>_. rbind (ensure (0 \<le> ord_total_amount ord
                  \<and> (\<forall>q\<in>set (orders db). ord_number q \<noteq> ord_number ord)) IntegrityError)
       (\<lambda>_. check_order_items (ord_items ord)))"

section \<open>Requests and errors\<close>

record order_item_create =
  oi_product_id :: uuid
  oi_quantity :: int

record order_create =
  oc_customer_name :: string
  oc_customer_email :: string
  oc_warehouse_id :: uuid
  oc_items :: "order_item_create list"

text \<open>\<open>OrderCreate\<close>: surrounding white space is stripped before the limits are checked. \<open>EmailStr\<close>
  is the email validator of Pydantic, a parameter: the normalised address, or \<open>None\<close>.\<close>

definition validate_order_create :: "(string \<Rightarrow> string option) \<Rightarrow> order_create \<Rightarrow> order_create option" where
  "validate_order_create email_str r =
     (let name = strip (oc_customer_name r) in
      if 1 \<le> length name \<and> length name \<le> 150
        \<and> 1 \<le> length (oc_items r) \<and> length (oc_items r) \<le> 100
        \<and> (\<forall>i\<in>set (oc_items r). 0 < oi_quantity i \<and> oi_quantity i \<le> 1000000)
        \<and> distinct (map oi_product_id (oc_items r))
      then map_option (\<lambda>e. r\<lparr>oc_customer_name := name, oc_customer_email := e\<rparr>)
             (email_str (strip (oc_customer_email r)))
      else None)"

datatype order_error =
    OrderNotFoundError string
  | OrderStateConflictError string
  | OrderCompensationError string
  | OrderClientError client_error
  | OrderDecimalError decimal_error
  | OrderDatabaseError db_error

record reservation_line =
  line_product_id :: uuid
  line_quantity :: int

definition generate_order_number :: "uuid \<Rightarrow> string" where
  "generate_order_number i = ''ORD-'' @ upper (uuid_hex i)"

section \<open>Loading\<close>

definition load_order :: "order_db \<Rightarrow> uuid \<Rightarrow> order option" where
  "load_order db i = find (\<lambda>ord. ord_id ord = i) (orders db)"

definition require_order :: "order_db \<Rightarrow> uuid \<Rightarrow> order_error + order" where
  "require_order db i = of_option (OrderNotFoundError
     (''Order '' @ CHR 39 # str_uuid i @ CHR 39 # '' was not found'')) (load_order db i)"

section \<open>Building an order\<close>

definition decimal_step :: "decimal_error + 'a \<Rightarrow> order_error + 'a" where
  "decimal_step r = (case r of Inl e \<Rightarrow> Inl (OrderDecimalError e) | Inr x \<Rightarrow> Inr x)"

definition client_step :: "(client_error + 'a) \<times> 's \<Rightarrow> (order_error + 'a) \<times> 's" where
  "client_step r = (case r of (Inl e, s) \<Rightarrow> (Inl (OrderClientError e), s) | (Inr x, s) \<Rightarrow> (Inr x, s))"

text \<open>The unit price and line total of one requested item, in cents. A product of more than 28
  digits is rounded by the decimal context, and then cannot be quantised.\<close>

definition price_line :: "decimal \<Rightarrow> int \<Rightarrow> order_error + int \<times> int" where
  "price_line price quantity =
     rbind (decimal_step (decimal_negative price)) (\<lambda>neg.
     if neg then Inl (OrderClientError (DownstreamServiceError
               ''Inventory Service returned a negative product price''))
     else rbind (decimal_step (quantize_cents price)) (\<lambda>unit_price.
          rbind (decimal_step (fits_context (unit_price * quantity))) (\<lambda>line_total.
          Inr (unit_price, line_total))))"

fun build_items :: "env \<Rightarrow> 's service_client \<Rightarrow> nat \<Rightarrow> order_item_create list \<Rightarrow> 's \<Rightarrow>
    (order_error + order_item list) \<times> 's" where
  "build_items env sc n [] s = (Inr [], s)"
| "build_items env sc n (i # is) s =
     sbind (client_step (sc_get_product sc (oi_product_id i) s)) (\<lambda>product s1.
     sbind (price_line (snap_unit_price product) (oi_quantity i), s1) (\<lambda>(unit_price, line_total) s2.
     sbind (build_items env sc (Suc n) is s2) (\<lambda>items s3.
     (Inr (\<lparr>item_id = env_ids env n, item_product_id = oi_product_id i,
            item_quantity = oi_quantity i, item_unit_price = unit_price,
            item_line_total = line_total\<rparr> # items), s3))))"

definition line_of :: "order_item_create \<Rightarrow> reservation_line" where
  "line_of i = \<lparr>line_product_id = oi_product_id i, line_quantity = oi_quantity i\<rparr>"

definition build_order :: "env \<Rightarrow> order_create \<Rightarrow> 's service_client \<Rightarrow> 's \<Rightarrow>
    (order_error + order \<times> reservation_line list) \<times> 's" where
  "build_order env request sc s =
     sbind (client_step (sc_verify_warehouse sc (oc_warehouse_id request) s)) (\<lambda>_ s1.
     let order_id = env_ids env 0 in
     sbind (build_items env sc 1 (oc_items request) s1) (\<lambda>items s2.
     sbind (decimal_step (fits_context (sum_list (map item_line_total items))), s2)
       (\<lambda>total_amount s3.
     (Inr (\<lparr>ord_id = order_id, ord_number = generate_order_number order_id,
           ord_customer_name = oc_customer_name request,
           ord_customer_email = oc_customer_email request,
           ord_warehouse_id = oc_warehouse_id request, ord_status = PENDING,
           ord_total_amount = total_amount, ord_items = items,
           ord_created_at = env_now env, ord_updated_at = env_now env\<rparr>,
          map line_of (oc_items request)), s3))))"

section \<open>Compensation\<close>

definition line_call :: "uuid \<Rightarrow> string \<Rightarrow> reservation_line \<Rightarrow> reservation_call" where
  "line_call w ref l = \<lparr>call_product_id = line_product_id l, call_warehouse_id = w,
     call_quantity = line_quantity l, call_reference_id = ref\<rparr>"

text \<open>Calling the client for every line, collecting the failures and never stopping.\<close>

fun attempt_lines :: "(reservation_call \<Rightarrow> 's \<Rightarrow> (client_error + unit) \<times> 's) \<Rightarrow> uuid \<Rightarrow> string \<Rightarrow>
    reservation_line list \<Rightarrow> 's \<Rightarrow> string list \<times> 's" where
  "attempt_lines call w ref [] s = ([], s)"
| "attempt_lines call w ref (l # ls) s =
     (case call (line_call w ref l) s of
        (Inl e, s1) \<Rightarrow> let (fs, s2) = attempt_lines call w ref ls s1
          in ((str_uuid (line_product_id l) @ '': '' @ client_error_text e) # fs, s2)
      | (Inr _, s1) \<Rightarrow> attempt_lines call w ref ls s1)"

definition release_lines :: "'s service_client \<Rightarrow> reservation_line list \<Rightarrow> uuid \<Rightarrow> string \<Rightarrow> 's \<Rightarrow>
    string list \<times> 's" where
  "release_lines sc lines w ref s = attempt_lines (sc_release_stock sc) w ref (rev lines) s"

definition reserve_lines :: "'s service_client \<Rightarrow> reservation_line list \<Rightarrow> uuid \<Rightarrow> string \<Rightarrow> 's \<Rightarrow>
    string list \<times> 's" where
  "reserve_lines sc lines w ref s = attempt_lines (sc_reserve_stock sc) w ref lines s"

text \<open>The forward loops of creation and cancellation: they stop at the first exception, and hand
  over the lines done so far.\<close>

fun each_line :: "(reservation_call \<Rightarrow> 's \<Rightarrow> (client_error + unit) \<times> 's) \<Rightarrow> uuid \<Rightarrow> string \<Rightarrow>
    reservation_line list \<Rightarrow> reservation_line list \<Rightarrow> 's \<Rightarrow>
    (client_error option \<times> reservation_line list) \<times> 's" where
  "each_line call w ref [] finished s = ((None, finished), s)"
| "each_line call w ref (l # ls) finished s =
     (case call (line_call w ref l) s of
        (Inl e, s1) \<Rightarrow> ((Some e, finished), s1)
      | (Inr _, s1) \<Rightarrow> each_line call w ref ls (finished @ [l]) s1)"

section \<open>Creating an order\<close>

definition insert_order :: "order_db \<Rightarrow> order \<Rightarrow> order_db" where
  "insert_order db ord = db\<lparr>orders := ord # orders db\<rparr>"

text \<open>What the \<open>except\<close> clause of creation does with the error it caught.\<close>

definition compensate_creation :: "'s service_client \<Rightarrow> reservation_line list \<Rightarrow> uuid \<Rightarrow> string \<Rightarrow>
    order_error \<Rightarrow> 's \<Rightarrow> order_error \<times> 's" where
  "compensate_creation sc reserved_lines w ref err s =
     (let (failures, s') = release_lines sc reserved_lines w ref s in
      (if failures \<noteq> [] then OrderCompensationError
         (''Order creation failed and some reservations could not be released: '' @
          join ''; '' failures)
       else err, s'))"

definition create_order :: "env \<Rightarrow> order_db \<Rightarrow> order_create \<Rightarrow> 's service_client \<Rightarrow> 's \<Rightarrow>
    (order_error + order) \<times> order_db \<times> 's" where
  "create_order env db request sc s =
     (case build_order env request sc s of
        (Inl e, s1) \<Rightarrow> (Inl e, db, s1)
      | (Inr (ord, lines), s1) \<Rightarrow>
          let w = ord_warehouse_id ord; ref = ord_number ord;
              fail = (\<lambda>done e s. let (e', s') = compensate_creation sc done w ref e s
                                 in (Inl e', db, s'))
          in case rbind (flush_fault env) (\<lambda>_. check_order db ord) of
               Inl e \<Rightarrow> fail [] (OrderDatabaseError e) s1
             | Inr _ \<Rightarrow>
                 (case each_line (sc_reserve_stock sc) w ref lines [] s1 of
                    ((Some e, done), s2) \<Rightarrow> fail done (OrderClientError e) s2
                  | ((None, done), s2) \<Rightarrow>
                      (case commit_fault env of
                         Inl e \<Rightarrow> fail done (OrderDatabaseError e) s2
                       | Inr _ \<Rightarrow>
                           let db' = insert_order db (ord\<lparr>ord_status := RESERVED\<rparr>)
                           in (require_order db' (ord_id ord), db', s2))))"

section \<open>Reading, confirming and cancelling\<close>

definition get_order :: "order_db \<Rightarrow> uuid \<Rightarrow> order_error + order" where
  "get_order db i = require_order db i"

definition list_orders :: "order_db \<Rightarrow> order_status option \<Rightarrow> nat \<Rightarrow> nat \<Rightarrow> order list" where
  "list_orders db status_filter offset limit =
     page offset limit (newest_first ord_created_at
       (filter (\<lambda>ord. matches status_filter (ord_status ord)) (orders db)))"

definition set_status :: "env \<Rightarrow> uuid \<Rightarrow> order_status \<Rightarrow> order_db \<Rightarrow> order_db" where
  "set_status env i st db = db\<lparr>orders := update_row ord_id i
     (\<lambda>ord. ord\<lparr>ord_status := st, ord_updated_at := env_now env\<rparr>) (orders db)\<rparr>"

definition conflict_text :: "uuid \<Rightarrow> string \<Rightarrow> order_status \<Rightarrow> string" where
  "conflict_text i action st = ''Order '' @ CHR 39 # str_uuid i @ CHR 39 # '' cannot be '' @ action @
     '' from status '' @ CHR 39 # status_text st @ [CHR 39]"

definition confirm_order :: "env \<Rightarrow> order_db \<Rightarrow> uuid \<Rightarrow> (order_error + order) \<times> order_db" where
  "confirm_order env db i =
     (case require_order db i of
        Inl e \<Rightarrow> (Inl e, db)
      | Inr ord \<Rightarrow>
          if ord_status ord = CONFIRMED then (Inr ord, db)
          else if ord_status ord \<noteq> RESERVED
          then (Inl (OrderStateConflictError (conflict_text i ''confirmed'' (ord_status ord))), db)
          else (case commit_fault env of
                  Inl e \<Rightarrow> (Inl (OrderDatabaseError e), db)
                | Inr _ \<Rightarrow> let db' = set_status env i CONFIRMED db in (require_order db' i, db')))"

definition item_line :: "order_item \<Rightarrow> reservation_line" where
  "item_line i = \<lparr>line_product_id = item_product_id i, line_quantity = item_quantity i\<rparr>"

definition compensate_cancellation :: "'s service_client \<Rightarrow> reservation_line list \<Rightarrow> uuid \<Rightarrow> string \<Rightarrow>
    order_error \<Rightarrow> 's \<Rightarrow> order_error \<times> 's" where
  "compensate_cancellation sc released_lines w ref err s =
     (let (failures, s') = reserve_lines sc released_lines w ref s in
      (if failures \<noteq> [] then OrderCompensationError
         (''Order cancellation failed and some released inventory could not be re-reserved: '' @
          join ''; '' failures)
       else err, s'))"

definition cancel_order :: "env \<Rightarrow> order_db \<Rightarrow> uuid \<Rightarrow> 's service_client \<Rightarrow> 's \<Rightarrow>
    (order_error + order) \<times> order_db \<times> 's" where
  "cancel_order env db i sc s =
     (case require_order db i of
        Inl e \<Rightarrow> (Inl e, db, s)
      | Inr ord \<Rightarrow>
          if ord_status ord = CANCELLED then (Inr ord, db, s)
          else if ord_status ord \<noteq> RESERVED
          then (Inl (OrderStateConflictError (conflict_text i ''cancelled'' (ord_status ord))), db, s)
          else
            let w = ord_warehouse_id ord; ref = ord_number ord;
                lines = map item_line (ord_items ord);
                fail = (\<lambda>done e s. let (e', s') = compensate_cancellation sc done w ref e s
                                   in (Inl e', db, s'))
            in (case each_line (sc_release_stock sc) w ref lines [] s of
                  ((Some e, done), s1) \<Rightarrow> fail done (OrderClientError e) s1
                | ((None, done), s1) \<Rightarrow>
                    (case commit_fault env of
                       Inl e \<Rightarrow> fail done (OrderDatabaseError e) s1
                     | Inr _ \<Rightarrow> let db' = set_status env i CANCELLED db
                         in (require_order db' i, db', s1))))"

section \<open>Endpoints\<close>

definition order_error_text :: "order_error \<Rightarrow> string" where
  "order_error_text e = (case e of OrderNotFoundError s \<Rightarrow> s | OrderStateConflictError s \<Rightarrow> s
     | OrderCompensationError s \<Rightarrow> s | OrderClientError c \<Rightarrow> client_error_text c
     | OrderDecimalError _ \<Rightarrow> '''' | OrderDatabaseError _ \<Rightarrow> '''')"

definition create_order_status :: "order_error \<Rightarrow> nat" where
  "create_order_status e = (case e of
      OrderClientError (ProductUnavailableError _) \<Rightarrow> 404
    | OrderClientError (WarehouseUnavailableError _) \<Rightarrow> 404
    | OrderClientError (StockReservationError _) \<Rightarrow> 409
    | OrderCompensationError _ \<Rightarrow> 502
    | OrderClientError (DownstreamServiceError _) \<Rightarrow> 503
    | OrderClientError (StockReleaseError _) \<Rightarrow> 503
    | _ \<Rightarrow> 500)"

definition create_order_endpoint :: "(string \<Rightarrow> string option) \<Rightarrow> env \<Rightarrow> order_db \<Rightarrow> order_create \<Rightarrow>
    's service_client \<Rightarrow> 's \<Rightarrow> order endpoint_result \<times> order_db \<times> 's" where
  "create_order_endpoint email_str env db body sc s =
     (case validate_order_create email_str body of
        None \<Rightarrow> (unprocessable, db, s)
      | Some request \<Rightarrow> (case create_order env db request sc s of
            (Inr ord, db', s') \<Rightarrow> (Reply 201 ord, db', s')
          | (Inl e, db', s') \<Rightarrow>
              (HTTPException (create_order_status e) (JStr (order_error_text e)), db', s')))"

definition list_orders_endpoint :: "order_db \<Rightarrow> order_status option \<Rightarrow> int \<Rightarrow> int \<Rightarrow>
    order list endpoint_result" where
  "list_orders_endpoint db order_status offset limit =
     (if 0 \<le> offset \<and> 1 \<le> limit \<and> limit \<le> 100
      then Reply 200 (list_orders db order_status (nat offset) (nat limit)) else unprocessable)"

definition get_order_endpoint :: "order_db \<Rightarrow> uuid \<Rightarrow> order endpoint_result" where
  "get_order_endpoint db i = (case get_order db i of
      Inr ord \<Rightarrow> Reply 200 ord | Inl e \<Rightarrow> HTTPException 404 (JStr (order_error_text e)))"

definition confirm_order_endpoint :: "env \<Rightarrow> order_db \<Rightarrow> uuid \<Rightarrow> order endpoint_result \<times> order_db" where
  "confirm_order_endpoint env db i = (case confirm_order env db i of
      (Inr ord, db') \<Rightarrow> (Reply 200 ord, db')
    | (Inl e, db') \<Rightarrow> (HTTPException (case e of OrderNotFoundError _ \<Rightarrow> 404
          | OrderStateConflictError _ \<Rightarrow> 409 | _ \<Rightarrow> 500) (JStr (order_error_text e)), db'))"

definition cancel_order_status :: "order_error \<Rightarrow> nat" where
  "cancel_order_status e = (case e of
      OrderNotFoundError _ \<Rightarrow> 404
    | OrderStateConflictError _ \<Rightarrow> 409
    | OrderClientError (StockReleaseError _) \<Rightarrow> 409
    | OrderCompensationError _ \<Rightarrow> 502
    | OrderClientError (UnexpectedError _) \<Rightarrow> 500
    | OrderClientError _ \<Rightarrow> 503
    | _ \<Rightarrow> 500)"

definition cancel_order_endpoint :: "env \<Rightarrow> order_db \<Rightarrow> uuid \<Rightarrow> 's service_client \<Rightarrow> 's \<Rightarrow>
    order endpoint_result \<times> order_db \<times> 's" where
  "cancel_order_endpoint env db i sc s = (case cancel_order env db i sc s of
      (Inr ord, db', s') \<Rightarrow> (Reply 200 ord, db', s')
    | (Inl e, db', s') \<Rightarrow>
        (HTTPException (cancel_order_status e) (JStr (order_error_text e)), db', s'))"

end
