(* ===== verification/Order_Saga.thy ===== *)
theory Order_Saga
  imports Orders Stock_Api
begin

text \<open>
  The saga of the Order Service against the interface it relies on: what one order reference
  holds in the inventory. The locale states the laws a reservation service promises for one
  reference and a set of products, those of its order; creation and cancellation are then proved
  all-or-nothing once, for every client that keeps the laws. The second locale adds that a release of held stock goes through.
\<close>

section \<open>Quantities of lines\<close>

definition lines_total :: "uuid \<Rightarrow> reservation_line list \<Rightarrow> stock_key \<Rightarrow> int" where
  "lines_total w ls k =
     (\<Sum>l\<leftarrow>ls. if (line_product_id l, w) = k then line_quantity l else 0)"

text \<open>Lines of the given products, with positive quantities.\<close>

definition positive_lines :: "uuid set \<Rightarrow> reservation_line list \<Rightarrow> bool" where
  "positive_lines ps ls \<longleftrightarrow> (\<forall>l\<in>set ls. line_product_id l \<in> ps \<and> 0 < line_quantity l)"

lemma lines_total_simps [simp]:
  "lines_total w [] k = 0"
  "lines_total w (l # ls) k =
     (if (line_product_id l, w) = k then line_quantity l else 0) + lines_total w ls k"
  "lines_total w (ls @ ms) k = lines_total w ls k + lines_total w ms k"
  by (simp_all add: lines_total_def)

lemma lines_total_rev [simp]: "lines_total w (rev ls) k = lines_total w ls k"
  by (induction ls) simp_all

lemma positive_lines_simps [simp]:
  "positive_lines ps []"
  "positive_lines ps (l # ls) \<longleftrightarrow> line_product_id l \<in> ps \<and> 0 < line_quantity l \<and> positive_lines ps ls"
  "positive_lines ps (ls @ ms) \<longleftrightarrow> positive_lines ps ls \<and> positive_lines ps ms"
  "positive_lines ps (rev ls) \<longleftrightarrow> positive_lines ps ls"
  by (auto simp: positive_lines_def)

lemma lines_total_nonneg: "positive_lines ps ls \<Longrightarrow> 0 \<le> lines_total w ls k"
  by (induction ls) auto

definition call_key :: "reservation_call \<Rightarrow> stock_key" where
  "call_key c = (call_product_id c, call_warehouse_id c)"

lemma line_call_simps [simp]:
  "call_key (line_call w ref l) = (line_product_id l, w)"
  "call_quantity (line_call w ref l) = line_quantity l"
  "call_reference_id (line_call w ref l) = ref"
  "call_product_id (line_call w ref l) = line_product_id l"
  by (simp_all add: line_call_def call_key_def)

fun is_compensation_error :: "order_error \<Rightarrow> bool" where
  "is_compensation_error (OrderCompensationError _) = True"
| "is_compensation_error _ = False"

section \<open>The interface\<close>

locale reservation_service =
  fixes sc :: "'s service_client"
    and ref :: string
    and products :: "uuid set"
    and held :: "'s \<Rightarrow> stock_key \<Rightarrow> int"
    and ok :: "'s \<Rightarrow> bool"
  assumes reserve_ok: "ok s \<Longrightarrow> call_reference_id c = ref \<Longrightarrow>
      call_product_id c \<in> products \<Longrightarrow> 0 < call_quantity c \<Longrightarrow>
      sc_reserve_stock sc c s = (Inr u, s') \<Longrightarrow>
      ok s' \<and> held s' = (held s)(call_key c := held s (call_key c) + call_quantity c)"
    and reserve_error: "ok s \<Longrightarrow> call_reference_id c = ref \<Longrightarrow>
      call_product_id c \<in> products \<Longrightarrow> 0 < call_quantity c \<Longrightarrow>
      sc_reserve_stock sc c s = (Inl e, s') \<Longrightarrow> ok s' \<and> held s' = held s"
    and release_ok: "ok s \<Longrightarrow> call_reference_id c = ref \<Longrightarrow>
      call_product_id c \<in> products \<Longrightarrow> 0 < call_quantity c \<Longrightarrow>
      sc_release_stock sc c s = (Inr u, s') \<Longrightarrow>
      ok s' \<and> held s' = (held s)(call_key c := held s (call_key c) - call_quantity c)"
    and release_error: "ok s \<Longrightarrow> call_reference_id c = ref \<Longrightarrow>
      call_product_id c \<in> products \<Longrightarrow> 0 < call_quantity c \<Longrightarrow>
      sc_release_stock sc c s = (Inl e, s') \<Longrightarrow> ok s' \<and> held s' = held s"
    and lookup_product: "ok s \<Longrightarrow> sc_get_product sc p s = (rp, s') \<Longrightarrow> ok s' \<and> held s' = held s"
    and lookup_warehouse: "ok s \<Longrightarrow> sc_verify_warehouse sc w s = (rw, s') \<Longrightarrow>
      ok s' \<and> held s' = held s"
    and held_nonneg: "ok s \<Longrightarrow> 0 \<le> held s k"
begin

lemma build_items_held:
  "build_items env sc n items s = (r, s') \<Longrightarrow> ok s \<Longrightarrow> ok s' \<and> held s' = held s"
proof (induction items arbitrary: n s r s')
  case Nil
  then show ?case by simp
next
  case (Cons i items)
  obtain r1 s1 where g: "sc_get_product sc (oi_product_id i) s = (r1, s1)" by fastforce
  note keep = lookup_product [OF Cons.prems(2) g]
  show ?case
  proof (cases r1)
    case (Inl e)
    with Cons.prems(1) g keep show ?thesis by (simp add: client_step_def)
  next
    case (Inr p)
    show ?thesis
    proof (cases "price_line (snap_unit_price p) (oi_quantity i)")
      case (Inl e)
      with Cons.prems(1) g keep Inr show ?thesis by (simp add: client_step_def)
    next
      case (Inr a)
      obtain rb sb where b: "build_items env sc (Suc n) items s1 = (rb, sb)" by fastforce
      with keep have "ok sb \<and> held sb = held s" using Cons.IH by auto
      moreover have "s' = sb"
        using Cons.prems(1) g Inr \<open>r1 = Inr p\<close> b
        by (cases rb) (auto simp: client_step_def split: prod.splits)
      ultimately show ?thesis by simp
    qed
  qed
qed

lemma build_order_held:
  assumes "build_order env request sc s = (r, s')" and "ok s"
  shows "ok s' \<and> held s' = held s"
proof -
  obtain r1 s1 where v: "sc_verify_warehouse sc (oc_warehouse_id request) s = (r1, s1)" by fastforce
  note keep = lookup_warehouse [OF assms(2) v]
  obtain rb sb where b: "build_items env sc 1 (oc_items request) s1 = (rb, sb)" by fastforce
  have "ok sb \<and> held sb = held s" using build_items_held [OF b] keep by auto
  moreover have "s' = sb \<or> s' = s1"
    using assms(1) v b by (cases r1; cases rb; auto simp: build_order_def client_step_def Let_def
        decimal_step_def fits_context_def sbind_def split: sum.splits if_splits prod.splits)
  ultimately show ?thesis using keep by auto
qed

text \<open>The forward loop of creation reserves exactly the lines it reports as done.\<close>

lemma each_reserve_held:
  "each_line (sc_reserve_stock sc) w ref ls acc s = ((e, acc'), s') \<Longrightarrow> ok s \<Longrightarrow>
    positive_lines products ls \<Longrightarrow>
    ok s' \<and> (\<exists>pre. acc' = acc @ pre \<and> positive_lines products pre \<and> (e = None \<longrightarrow> pre = ls)
      \<and> (\<forall>k. held s' k = held s k + lines_total w pre k))"
proof (induction ls arbitrary: acc s)
  case Nil
  then show ?case by auto
next
  case (Cons l ls)
  obtain r1 s1 where c: "sc_reserve_stock sc (line_call w ref l) s = (r1, s1)" by fastforce
  show ?case
  proof (cases r1)
    case (Inl e1)
    have "ok s1 \<and> held s1 = held s"
      using reserve_error [OF Cons.prems(2) _ _ _ c [unfolded Inl]] Cons.prems(3) by simp
    with Cons.prems c Inl show ?thesis by auto
  next
    case (Inr u)
    have h: "ok s1" "held s1 = (held s)((line_product_id l, w) := held s (line_product_id l, w) + line_quantity l)"
      using reserve_ok [OF Cons.prems(2) _ _ _ c [unfolded Inr]] Cons.prems(3) by simp_all
    have "each_line (sc_reserve_stock sc) w ref ls (acc @ [l]) s1 = ((e, acc'), s')"
      using Cons.prems(1) c Inr by simp
    from Cons.IH [OF this h(1)] Cons.prems(3) obtain pre where
      "ok s'" "acc' = acc @ l # pre" "positive_lines products pre" "e = None \<longrightarrow> pre = ls"
      "\<forall>k. held s' k = held s1 k + lines_total w pre k" by auto
    then show ?thesis using Cons.prems(3)
      by (intro conjI exI [of _ "l # pre"]) (auto simp: h(2))
  qed
qed

lemma each_release_held:
  "each_line (sc_release_stock sc) w ref ls acc s = ((e, acc'), s') \<Longrightarrow> ok s \<Longrightarrow>
    positive_lines products ls \<Longrightarrow>
    ok s' \<and> (\<exists>pre. acc' = acc @ pre \<and> positive_lines products pre \<and> (e = None \<longrightarrow> pre = ls)
      \<and> (\<forall>k. held s' k = held s k - lines_total w pre k))"
proof (induction ls arbitrary: acc s)
  case Nil
  then show ?case by auto
next
  case (Cons l ls)
  obtain r1 s1 where c: "sc_release_stock sc (line_call w ref l) s = (r1, s1)" by fastforce
  show ?case
  proof (cases r1)
    case (Inl e1)
    have "ok s1 \<and> held s1 = held s"
      using release_error [OF Cons.prems(2) _ _ _ c [unfolded Inl]] Cons.prems(3) by simp
    with Cons.prems c Inl show ?thesis by auto
  next
    case (Inr u)
    have h: "ok s1" "held s1 = (held s)((line_product_id l, w) := held s (line_product_id l, w) - line_quantity l)"
      using release_ok [OF Cons.prems(2) _ _ _ c [unfolded Inr]] Cons.prems(3) by simp_all
    have "each_line (sc_release_stock sc) w ref ls (acc @ [l]) s1 = ((e, acc'), s')"
      using Cons.prems(1) c Inr by simp
    from Cons.IH [OF this h(1)] Cons.prems(3) obtain pre where
      "ok s'" "acc' = acc @ l # pre" "positive_lines products pre" "e = None \<longrightarrow> pre = ls"
      "\<forall>k. held s' k = held s1 k - lines_total w pre k" by auto
    then show ?thesis using Cons.prems(3)
      by (intro conjI exI [of _ "l # pre"]) (auto simp: h(2))
  qed
qed

text \<open>A compensation that reports no failure has undone every line it was given.\<close>

lemma attempt_release_held:
  "attempt_lines (sc_release_stock sc) w ref ls s = (fs, s') \<Longrightarrow> ok s \<Longrightarrow> positive_lines products ls \<Longrightarrow>
    ok s' \<and> (fs = [] \<longrightarrow> (\<forall>k. held s' k = held s k - lines_total w ls k))"
proof (induction ls arbitrary: s fs s')
  case Nil
  then show ?case by auto
next
  case (Cons l ls)
  obtain r1 s1 where c: "sc_release_stock sc (line_call w ref l) s = (r1, s1)" by fastforce
  obtain fs2 s2 where t: "attempt_lines (sc_release_stock sc) w ref ls s1 = (fs2, s2)" by fastforce
  have pos: "line_product_id l \<in> products" "0 < line_quantity l" "positive_lines products ls" using Cons.prems(3) by simp_all
  show ?case
  proof (cases r1)
    case (Inl e1)
    have "ok s1" using release_error [OF Cons.prems(2) _ _ _ c [unfolded Inl]] pos by simp
    with Cons.IH [OF t] Cons.prems(1) c t Inl pos show ?thesis by auto
  next
    case (Inr u)
    have "ok s1" "held s1 = (held s)((line_product_id l, w) := held s (line_product_id l, w) - line_quantity l)"
      using release_ok [OF Cons.prems(2) _ _ _ c [unfolded Inr]] pos by simp_all
    with Cons.IH [OF t] Cons.prems(1) c t Inr pos show ?thesis by auto
  qed
qed

lemma attempt_reserve_held:
  "attempt_lines (sc_reserve_stock sc) w ref ls s = (fs, s') \<Longrightarrow> ok s \<Longrightarrow> positive_lines products ls \<Longrightarrow>
    ok s' \<and> (fs = [] \<longrightarrow> (\<forall>k. held s' k = held s k + lines_total w ls k))"
proof (induction ls arbitrary: s fs s')
  case Nil
  then show ?case by auto
next
  case (Cons l ls)
  obtain r1 s1 where c: "sc_reserve_stock sc (line_call w ref l) s = (r1, s1)" by fastforce
  obtain fs2 s2 where t: "attempt_lines (sc_reserve_stock sc) w ref ls s1 = (fs2, s2)" by fastforce
  have pos: "line_product_id l \<in> products" "0 < line_quantity l" "positive_lines products ls" using Cons.prems(3) by simp_all
  show ?case
  proof (cases r1)
    case (Inl e1)
    have "ok s1" using reserve_error [OF Cons.prems(2) _ _ _ c [unfolded Inl]] pos by simp
    with Cons.IH [OF t] Cons.prems(1) c t Inl pos show ?thesis by auto
  next
    case (Inr u)
    have "ok s1" "held s1 = (held s)((line_product_id l, w) := held s (line_product_id l, w) + line_quantity l)"
      using reserve_ok [OF Cons.prems(2) _ _ _ c [unfolded Inr]] pos by simp_all
    with Cons.IH [OF t] Cons.prems(1) c t Inr pos show ?thesis by auto
  qed
qed

lemma compensate_creation_held:
  assumes run: "compensate_creation sc ls w ref e s = (e', s')" and "ok s" and "positive_lines products ls"
  shows "ok s'" and "e' = e \<or> is_compensation_error e'"
    and "\<not> is_compensation_error e' \<Longrightarrow> held s' k = held s k - lines_total w ls k"
proof -
  obtain fs s1 where a: "attempt_lines (sc_release_stock sc) w ref (rev ls) s = (fs, s1)" by fastforce
  have out: "s' = s1" "e' = e \<or> is_compensation_error e'" "\<not> is_compensation_error e' \<Longrightarrow> fs = []"
    using run a by (auto simp: compensate_creation_def release_lines_def split: if_splits)
  have pos: "positive_lines products (rev ls)" using assms(3) by simp
  note held = attempt_release_held [OF a \<open>ok s\<close> pos]
  show "ok s'" using held out(1) by simp
  show "e' = e \<or> is_compensation_error e'" by (rule out(2))
  show "held s' k = held s k - lines_total w ls k" if "\<not> is_compensation_error e'"
    using held out(1) out(3) [OF that] by (simp only: lines_total_rev simp_thms)
qed

lemma compensate_cancellation_held:
  assumes run: "compensate_cancellation sc ls w ref e s = (e', s')" and "ok s" and "positive_lines products ls"
  shows "ok s'" and "e' = e \<or> is_compensation_error e'"
    and "\<not> is_compensation_error e' \<Longrightarrow> held s' k = held s k + lines_total w ls k"
proof -
  obtain fs s1 where a: "attempt_lines (sc_reserve_stock sc) w ref ls s = (fs, s1)" by fastforce
  have out: "s' = s1" "e' = e \<or> is_compensation_error e'" "\<not> is_compensation_error e' \<Longrightarrow> fs = []"
    using run a by (auto simp: compensate_cancellation_def reserve_lines_def split: if_splits)
  note held = attempt_reserve_held [OF a \<open>ok s\<close> assms(3)]
  show "ok s'" using held out(1) by simp
  show "e' = e \<or> is_compensation_error e'" by (rule out(2))
  show "held s' k = held s k + lines_total w ls k" if "\<not> is_compensation_error e'"
    using held out(1) out(3) [OF that] by (simp only: simp_thms)
qed

end

section \<open>What creation builds\<close>

lemma build_order_Inr:
  assumes "build_order env request sc s = (Inr (ord, lines), s')"
  shows "ord_number ord = generate_order_number (env_ids env 0)" and "ord_id ord = env_ids env 0"
    and "ord_warehouse_id ord = oc_warehouse_id request" and "ord_status ord = PENDING"
    and "lines = map line_of (oc_items request)"
    and "\<exists>s1 s2. build_items env sc 1 (oc_items request) s1 = (Inr (ord_items ord), s2)"
    and "ord_total_amount ord = sum_list (map item_line_total (ord_items ord))"
  using assms
  by (auto simp: build_order_def result_simps Let_def decimal_step_def fits_context_def
      split: sum.splits if_splits) blast

lemma positive_request_lines:
  "(\<forall>i\<in>set items. oi_product_id i \<in> ps \<and> 0 < oi_quantity i) \<Longrightarrow>
    positive_lines ps (map line_of items)"
  by (simp add: positive_lines_def line_of_def)

context reservation_service
begin

text \<open>A creation that fails, and does not report a failed compensation, leaves the holdings of its
  reference and the order table as they were.\<close>

lemma create_order_failure:
  assumes run: "create_order env db request sc s = (Inl e, db', s')" and "ok s"
    and ref: "generate_order_number (env_ids env 0) = ref"
    and pos: "\<forall>i\<in>set (oc_items request). oi_product_id i \<in> products \<and> 0 < oi_quantity i"
  shows "ok s' \<and> (\<not> is_compensation_error e \<longrightarrow> db' = db \<and> held s' = held s)"
proof -
  obtain r1 s1 where b: "build_order env request sc s = (r1, s1)" by fastforce
  note keep = build_order_held [OF b \<open>ok s\<close>]
  show ?thesis
  proof (cases r1)
    case (Inl e1)
    with run b keep show ?thesis by (simp add: create_order_def)
  next
    case (Inr ol)
    then obtain ord lines where ol: "r1 = Inr (ord, lines)" by (cases ol) auto
    note built = build_order_Inr [OF b [unfolded ol]]
    have num: "ord_number ord = ref" using built ref by simp
    have lines: "positive_lines products lines" using built pos by (simp add: positive_request_lines)
    obtain oe acc s2 where
      loop: "each_line (sc_reserve_stock sc) (ord_warehouse_id ord) ref lines [] s1 = ((oe, acc), s2)"
      by (metis surj_pair)
    from each_reserve_held [OF loop _ lines] keep have
      loop_ok: "ok s2" and acc: "positive_lines products acc"
      and loop_held: "\<And>k. held s2 k = held s k + lines_total (ord_warehouse_id ord) acc k"
      by auto
    obtain ef sf where none: "compensate_creation sc [] (ord_warehouse_id ord) ref
        (OrderDatabaseError (projl (rbind (flush_fault env) (\<lambda>_. check_order db ord)))) s1 = (ef, sf)"
      by fastforce
    have unchanged: "db' = db"
      using run b ol num loop
      by (auto simp: create_order_def Let_def require_order_def load_order_def insert_order_def
          split: sum.splits prod.splits option.splits)
    show ?thesis
    proof (cases "rbind (flush_fault env) (\<lambda>_. check_order db ord)")
      case (Inl e1)
      with run b ol num none have "e = ef" "s' = sf" by (auto simp: create_order_def Let_def)
      with compensate_creation_held [OF none] keep unchanged show ?thesis by (auto simp: fun_eq_iff)
    next
      case (Inr u)
      have "\<exists>e1. compensate_creation sc acc (ord_warehouse_id ord) ref e1 s2 = (e, s')"
        using run b ol num Inr loop
        by (auto simp: create_order_def Let_def require_order_def load_order_def insert_order_def
            split: sum.splits prod.splits option.splits)
      then obtain e1 where c: "compensate_creation sc acc (ord_warehouse_id ord) ref e1 s2 = (e, s')" ..
      note comp = compensate_creation_held [OF c loop_ok acc]
      show ?thesis using comp(1) comp(3) loop_held unchanged by (auto simp: fun_eq_iff)
    qed
  qed
qed

text \<open>A creation that succeeds stores one order, \<open>RESERVED\<close>, and has reserved exactly its lines.\<close>

lemma create_order_success:
  assumes run: "create_order env db request sc s = (Inr ord', db', s')" and "ok s"
    and ref: "generate_order_number (env_ids env 0) = ref"
    and pos: "\<forall>i\<in>set (oc_items request). oi_product_id i \<in> products \<and> 0 < oi_quantity i"
  shows "ok s'" and "ord_status ord' = RESERVED" and "orders db' = ord' # orders db"
    and "held s' k = held s k + lines_total (oc_warehouse_id request) (map line_of (oc_items request)) k"
proof -
  obtain ord lines s1 where b: "build_order env request sc s = (Inr (ord, lines), s1)"
    using run by (auto simp: create_order_def split: prod.splits sum.splits)
  note keep = build_order_held [OF b \<open>ok s\<close>]
  note built = build_order_Inr [OF b]
  have num: "ord_number ord = ref" using built ref by simp
  have lines: "positive_lines products lines" using built pos by (simp add: positive_request_lines)
  obtain oe acc s2 where
    loop: "each_line (sc_reserve_stock sc) (ord_warehouse_id ord) ref lines [] s1 = ((oe, acc), s2)"
    by (metis surj_pair)
  from run b num loop have oe: "oe = None" and s2: "s' = s2"
    and fin: "ord' = ord\<lparr>ord_status := RESERVED\<rparr>" "orders db' = ord' # orders db"
    by (auto simp: create_order_def Let_def require_order_def load_order_def insert_order_def
        split: sum.splits prod.splits option.splits)
  from each_reserve_held [OF loop _ lines] keep oe obtain
    after: "ok s2" and held: "\<And>k. held s2 k = held s k + lines_total (ord_warehouse_id ord) lines k"
    by auto
  show "ok s'" using after s2 by simp
  show "held s' k = held s k +
      lines_total (oc_warehouse_id request) (map line_of (oc_items request)) k"
    using held [of k] s2 built(3) built(5) by simp
  show "ord_status ord' = RESERVED" "orders db' = ord' # orders db" using fin by simp_all
qed

text \<open>A cancellation that fails, and does not report a failed compensation, leaves the holdings and
  the order table as they were; one that succeeds has released exactly the lines of the order.\<close>

lemma cancel_order_failure:
  assumes run: "cancel_order env db i sc s = (Inl e, db', s')" and "ok s"
    and ref: "\<And>ord. load_order db i = Some ord \<Longrightarrow> ord_number ord = ref \<and>
      positive_lines products (map item_line (ord_items ord))"
  shows "ok s' \<and> (\<not> is_compensation_error e \<longrightarrow> db' = db \<and> held s' = held s)"
proof (cases "load_order db i")
  case None
  with run \<open>ok s\<close> show ?thesis by (simp add: cancel_order_def require_order_def)
next
  case (Some ord)
  note refs = ref [OF Some]
  let ?w = "ord_warehouse_id ord" and ?ls = "map item_line (ord_items ord)"
  show ?thesis
  proof (cases "ord_status ord = RESERVED")
    case False
    with run \<open>ok s\<close> Some show ?thesis
      by (auto simp: cancel_order_def require_order_def split: if_splits)
  next
    case True
    obtain oe acc s1 where
      loop: "each_line (sc_release_stock sc) ?w ref ?ls [] s = ((oe, acc), s1)"
      by (metis surj_pair)
    from each_release_held [OF loop \<open>ok s\<close>] refs have
      loop_ok: "ok s1" and acc: "positive_lines products acc"
      and loop_held: "\<And>k. held s1 k = held s k - lines_total ?w acc k"
      by auto
    have "db' = db \<and> (\<exists>e1. compensate_cancellation sc acc ?w ref e1 s1 = (e, s'))"
      using run Some True refs loop
      by (auto simp: cancel_order_def Let_def require_order_def load_order_def set_status_def
          find_update_row_same split: sum.splits prod.splits option.splits)
    then obtain e1 where c: "compensate_cancellation sc acc ?w ref e1 s1 = (e, s')" and "db' = db"
      by blast
    note comp = compensate_cancellation_held [OF c loop_ok acc]
    show ?thesis using comp(1) comp(3) loop_held \<open>db' = db\<close> by (auto simp: fun_eq_iff)
  qed
qed

lemma cancel_order_success:
  assumes run: "cancel_order env db i sc s = (Inr ord', db', s')" and "ok s"
    and load: "load_order db i = Some ord" and stored: "ord_status ord = RESERVED"
    and ref: "ord_number ord = ref" and pos: "positive_lines products (map item_line (ord_items ord))"
  shows "ok s'" and "ord_status ord' = CANCELLED"
    and "held s' k = held s k - lines_total (ord_warehouse_id ord) (map item_line (ord_items ord)) k"
proof -
  let ?w = "ord_warehouse_id ord" and ?ls = "map item_line (ord_items ord)"
  obtain oe acc s1 where
    loop: "each_line (sc_release_stock sc) ?w ref ?ls [] s = ((oe, acc), s1)"
    by (metis surj_pair)
  have oe: "oe = None" "s' = s1" and "ord_status ord' = CANCELLED"
    using run load stored ref loop
    by (auto simp: cancel_order_def Let_def require_order_def load_order_def set_status_def
        find_update_row_same split: sum.splits prod.splits option.splits)
  from each_release_held [OF loop \<open>ok s\<close> pos] oe obtain
    after: "ok s1" and held: "\<And>k. held s1 k = held s k - lines_total ?w ?ls k"
    by auto
  show "ok s'" using after oe by simp
  show "ord_status ord' = CANCELLED" by fact
  show "held s' k = held s k - lines_total ?w ?ls k" using held [of k] oe by simp
qed

end

section \<open>When releases go through\<close>

text \<open>With a service that releases whatever the reference holds, compensation cannot fail.\<close>

lemma step_not_compensation:
  "client_step r = (Inl e, s) \<Longrightarrow> \<not> is_compensation_error e"
  "decimal_step q = Inl e \<Longrightarrow> \<not> is_compensation_error e"
  by (auto simp: client_step_def decimal_step_def split: prod.splits sum.splits)

lemma price_line_error: "price_line p q = Inl e \<Longrightarrow> \<not> is_compensation_error e"
  by (auto simp: price_line_def result_simps dest: step_not_compensation split: if_splits)

lemma build_items_error:
  "build_items env sc n items s = (Inl e, s') \<Longrightarrow> \<not> is_compensation_error e"
proof (induction items arbitrary: n s)
  case Nil
  then show ?case by simp
next
  case (Cons i items)
  then show ?case
    by (auto simp: result_simps dest: step_not_compensation price_line_error)
qed

locale reliable_releases = reservation_service +
  assumes release_possible: "ok s \<Longrightarrow> call_reference_id c = ref \<Longrightarrow>
      call_product_id c \<in> products \<Longrightarrow> 0 < call_quantity c \<Longrightarrow>
      call_quantity c \<le> held s (call_key c) \<Longrightarrow> \<exists>s'. sc_release_stock sc c s = (Inr (), s')"
begin

lemma attempt_release_all:
  "attempt_lines (sc_release_stock sc) w ref ls s = (fs, s') \<Longrightarrow> ok s \<Longrightarrow> positive_lines products ls \<Longrightarrow>
    (\<And>k. lines_total w ls k \<le> held s k) \<Longrightarrow> fs = []"
proof (induction ls arbitrary: s fs s')
  case Nil
  then show ?case by simp
next
  case (Cons l ls)
  have pos: "line_product_id l \<in> products" "0 < line_quantity l" "positive_lines products ls" using Cons.prems(3) by simp_all
  let ?k = "(line_product_id l, w)"
  have "line_quantity l \<le> held s ?k"
    using Cons.prems(4) [of ?k] lines_total_nonneg [OF pos(3), of w ?k] by simp
  then obtain s1 where c: "sc_release_stock sc (line_call w ref l) s = (Inr (), s1)"
    using release_possible [OF Cons.prems(2), of "line_call w ref l"] pos by auto
  have h: "ok s1" "held s1 = (held s)(?k := held s ?k - line_quantity l)"
    using release_ok [OF Cons.prems(2) _ _ _ c] pos by simp_all
  have "lines_total w ls k \<le> held s1 k" for k using Cons.prems(4) [of k] by (auto simp: h(2))
  then show ?case
    using Cons.IH [OF _ h(1) pos(3), of fs s'] Cons.prems(1) c by simp
qed

lemma each_release_all:
  "ok s \<Longrightarrow> positive_lines products ls \<Longrightarrow> (\<And>k. lines_total w ls k \<le> held s k) \<Longrightarrow>
    \<exists>s'. each_line (sc_release_stock sc) w ref ls acc s = ((None, acc @ ls), s')"
proof (induction ls arbitrary: acc s)
  case Nil
  then show ?case by simp
next
  case (Cons l ls)
  have pos: "line_product_id l \<in> products" "0 < line_quantity l" "positive_lines products ls" using Cons.prems(2) by simp_all
  let ?k = "(line_product_id l, w)"
  have "line_quantity l \<le> held s ?k"
    using Cons.prems(3) [of ?k] lines_total_nonneg [OF pos(3), of w ?k] by simp
  then obtain s1 where c: "sc_release_stock sc (line_call w ref l) s = (Inr (), s1)"
    using release_possible [OF Cons.prems(1), of "line_call w ref l"] pos by auto
  have h: "ok s1" "held s1 = (held s)(?k := held s ?k - line_quantity l)"
    using release_ok [OF Cons.prems(1) _ _ _ c] pos by simp_all
  have "lines_total w ls k \<le> held s1 k" for k using Cons.prems(3) [of k] by (auto simp: h(2))
  then show ?case using Cons.IH [OF h(1) pos(3), of "acc @ [l]"] c by simp
qed

lemma cancel_order_possible:
  assumes "ok s" and load: "load_order db i = Some ord" and st: "ord_status ord = RESERVED"
    and num: "ord_number ord = ref" and pos: "positive_lines products (map item_line (ord_items ord))"
    and covered: "\<And>k. lines_total (ord_warehouse_id ord) (map item_line (ord_items ord)) k \<le> held s k"
    and "env_fault env = None"
  shows "\<exists>ord' db' s'. cancel_order env db i sc s = (Inr ord', db', s')"
proof -
  obtain s1 where "each_line (sc_release_stock sc) (ord_warehouse_id ord) ref
      (map item_line (ord_items ord)) [] s = ((None, map item_line (ord_items ord)), s1)"
    using each_release_all [OF \<open>ok s\<close> pos covered, of "[]"] by auto
  then show ?thesis
    using load st num \<open>env_fault env = None\<close>
    by (auto simp: cancel_order_def Let_def require_order_def load_order_def set_status_def
        find_update_row_same)
qed

lemma compensate_creation_error:
  assumes "compensate_creation sc ls w ref e s = (e', s')" and "ok s" and "positive_lines products ls"
    and "\<And>k. lines_total w ls k \<le> held s k"
  shows "e' = e"
proof -
  obtain fs s1 where a: "attempt_lines (sc_release_stock sc) w ref (rev ls) s = (fs, s1)" by fastforce
  have "fs = []" using attempt_release_all [OF a \<open>ok s\<close>] assms(3,4) by simp
  with a assms(1) show ?thesis by (simp add: compensate_creation_def release_lines_def)
qed

lemma build_order_error:
  "build_order env request sc s = (Inl e, s') \<Longrightarrow> \<not> is_compensation_error e"
  by (auto simp: build_order_def result_simps Let_def
      dest: step_not_compensation build_items_error)

lemma create_order_never_stuck:
  assumes run: "create_order env db request sc s = (Inl e, db', s')" and "ok s"
    and ref: "generate_order_number (env_ids env 0) = ref"
    and pos: "\<forall>i\<in>set (oc_items request). oi_product_id i \<in> products \<and> 0 < oi_quantity i"
  shows "\<not> is_compensation_error e"
proof -
  obtain r1 s1 where b: "build_order env request sc s = (r1, s1)" by fastforce
  note keep = build_order_held [OF b \<open>ok s\<close>]
  show ?thesis
  proof (cases r1)
    case (Inl e1)
    with run b build_order_error show ?thesis by (auto simp: create_order_def)
  next
    case (Inr ol)
    then obtain ord lines where ol: "r1 = Inr (ord, lines)" by (cases ol) auto
    note built = build_order_Inr [OF b [unfolded ol]]
    let ?w = "ord_warehouse_id ord"
    have num: "ord_number ord = ref" using built ref by simp
    have lines: "positive_lines products lines" using built pos by (simp add: positive_request_lines)
    obtain oe acc s2 where
      loop: "each_line (sc_reserve_stock sc) ?w ref lines [] s1 = ((oe, acc), s2)"
      by (metis surj_pair)
    from each_reserve_held [OF loop _ lines] keep have
      loop_ok: "ok s2" and acc: "positive_lines products acc"
      and loop_held: "\<And>k. held s2 k = held s1 k + lines_total ?w acc k" by auto
    have covered: "lines_total ?w acc k \<le> held s2 k" for k
      using loop_held [of k] held_nonneg [of s1 k] keep by simp
    have no_lines: "compensate_creation sc [] w n e1 s1 = (e1, s1)" for w n e1
      by (simp add: compensate_creation_def release_lines_def)
    have "\<exists>e1. \<not> is_compensation_error e1 \<and>
        (compensate_creation sc acc ?w ref e1 s2 = (e, s') \<or> e = e1)"
    proof (cases "rbind (flush_fault env) (\<lambda>_. check_order db ord)")
      case (Inl e1)
      have "compensate_creation sc [] ?w (ord_number ord) (OrderDatabaseError e1) s1 =
          (OrderDatabaseError e1, s1)" by (rule no_lines)
      with run b ol Inl have "e = OrderDatabaseError e1" by (simp add: create_order_def)
      then show ?thesis by (intro exI [of _ e]) simp
    next
      case (Inr u)
      then show ?thesis
        using run b ol num loop
        by (auto simp: create_order_def Let_def require_order_def load_order_def insert_order_def
            split: sum.splits prod.splits option.splits) (metis is_compensation_error.simps)+
    qed
    then show ?thesis
      using compensate_creation_error [OF _ loop_ok acc covered] by auto
  qed
qed

end

end
