(* ===== verification/Order_System.thy ===== *)
theory Order_System
  imports Order_Saga Warehouses
begin

text \<open>
  The Order Service wired to the Inventory and Warehouse Services: the world outside the Order
  Service is the two databases and a schedule of what the network and the other users of the
  Inventory Service do around each call. The model's own HTTP routes serve the client, and the
  locales of the saga are interpreted on them.
\<close>

section \<open>The world outside the Order Service\<close>

text \<open>What happens to one HTTP call: it is answered, its request is lost, or the server handles it
  and the reply is lost (the client sees a timeout in both cases). A service that fails behind its
  commit, and a request that is handled after the timeout, are replies lost in this sense.\<close>

datatype net_event = Deliver | RequestLost | ReplyLost

text \<open>The other calls of the Inventory Service that may be handled in between: the ones that write.
  The deletion of a product drops its balances and its ledger.\<close>

datatype other_call = Stock_Call stock_call | New_Product product_create
  | Patch_Product uuid product_update | Delete_Product uuid

text \<open>A slot is what happens around one call: the other writing calls served just before it, the fate of
  the call, and the environment it is served in. The warehouses are read once per creation and not at
  all by a cancellation, so they keep still.\<close>

record slot =
  slot_others :: "(env \<times> other_call) list"
  slot_event :: net_event
  slot_env :: env

record world =
  w_inventory :: inventory_db
  w_warehouses :: warehouse_db
  w_time :: nat
  w_schedule :: "nat \<Rightarrow> slot"

fun other_step :: "env \<times> other_call \<Rightarrow> inventory_db \<Rightarrow> inventory_db" where
  "other_step (env, Stock_Call c) db = (if valid_call c then snd (run_call env db c) else db)"
| "other_step (env, New_Product body) db = snd (create_product_endpoint env db body)"
| "other_step (env, Patch_Product i body) db = snd (update_product_endpoint env db i body)"
| "other_step (env, Delete_Product i) db = snd (delete_product_endpoint env db i)"

definition run_others :: "(env \<times> other_call) list \<Rightarrow> inventory_db \<Rightarrow> inventory_db" where
  "run_others cs db = fold other_step cs db"

text \<open>The addresses of the settings' defaults.\<close>

definition platform_settings :: order_settings where
  "platform_settings = make_order_settings ''http://127.0.0.1:8001'' ''http://127.0.0.1:8002''"

definition serve :: "env \<Rightarrow> world \<Rightarrow> http_request \<Rightarrow> http_response \<times> world" where
  "serve env w req =
     (case strip_prefix (inventory_service_url platform_settings) (req_url req) of
        Some _ \<Rightarrow> let (r, db) = inventory_http (inventory_service_url platform_settings) env
                          (w_inventory w) req
                 in (r, w\<lparr>w_inventory := db\<rparr>)
      | None \<Rightarrow> (warehouse_http (warehouse_service_url platform_settings) (w_warehouses w) req, w))"

definition before_call :: "world \<Rightarrow> world" where
  "before_call w = w\<lparr>w_inventory := run_others (slot_others (w_schedule w (w_time w))) (w_inventory w),
     w_time := Suc (w_time w)\<rparr>"

definition platform_http :: "world http" where
  "platform_http req w =
     (let sl = w_schedule w (w_time w); w1 = before_call w in
      case slot_event sl of
        RequestLost \<Rightarrow> (Inl TimeoutException, w1)
      | Deliver \<Rightarrow> let (r, w2) = serve (slot_env sl) w1 req in (Inr r, w2)
      | ReplyLost \<Rightarrow> let (_, w2) = serve (slot_env sl) w1 req in (Inl TimeoutException, w2))"

definition platform_client :: "world service_client" where
  "platform_client = ServiceClient platform_settings platform_http"

section \<open>What one reference holds\<close>

definition world_held :: "string \<Rightarrow> world \<Rightarrow> stock_key \<Rightarrow> int" where
  "world_held ref w k = get_reference_reserved_quantity (w_inventory w) k ref"

text \<open>The stock rows of the movement table keep their product, as its foreign key demands.\<close>

definition products_known :: "inventory_db \<Rightarrow> bool" where
  "products_known db \<longleftrightarrow> (\<forall>m\<in>set (movements db). product_known db (mv_product_id m))"

text \<open>What disturbs the holdings a reference has of some products: a reservation or release under
  the same reference, and the deletion of one of the products.\<close>

fun disturbs :: "string \<Rightarrow> uuid set \<Rightarrow> other_call \<Rightarrow> bool" where
  "disturbs ref ps (Stock_Call (Reserve r)) \<longleftrightarrow> rq_owner_reference_id r = ref"
| "disturbs ref ps (Stock_Call (Release r)) \<longleftrightarrow> rq_owner_reference_id r = ref"
| "disturbs ref ps (Delete_Product i) \<longleftrightarrow> i \<in> ps"
| "disturbs ref ps _ \<longleftrightarrow> False"

text \<open>Replies are not lost, nobody else reserves or releases under the reference, and nobody
  deletes one of the products.\<close>

definition quiet :: "string \<Rightarrow> uuid set \<Rightarrow> (nat \<Rightarrow> slot) \<Rightarrow> bool" where
  "quiet ref ps sched \<longleftrightarrow> (\<forall>n. slot_event (sched n) \<noteq> ReplyLost
     \<and> (\<forall>c\<in>set (slot_others (sched n)). \<not> disturbs ref ps (snd c)))"

definition world_ok :: "string \<Rightarrow> uuid set \<Rightarrow> world \<Rightarrow> bool" where
  "world_ok ref ps w \<longleftrightarrow> ledger_ok (w_inventory w) \<and> products_known (w_inventory w)
     \<and> quiet ref ps (w_schedule w)"

text \<open>Moreover every call is answered and no database fails.\<close>

definition world_calm :: "string \<Rightarrow> uuid set \<Rightarrow> world \<Rightarrow> bool" where
  "world_calm ref ps w \<longleftrightarrow> world_ok ref ps w \<and> 1 \<le> length ref \<and> length ref \<le> 100
     \<and> (\<forall>n. slot_event (w_schedule w n) = Deliver \<and> env_fault (slot_env (w_schedule w n)) = None)"

text \<open>What a reference holds of the given products.\<close>

definition held_of :: "uuid set \<Rightarrow> string \<Rightarrow> world \<Rightarrow> stock_key \<Rightarrow> int" where
  "held_of ps ref w k = (if fst k \<in> ps then world_held ref w k else 0)"

lemma held_of_in [simp]: "fst k \<in> ps \<Longrightarrow> held_of ps ref w k = world_held ref w k"
  by (simp add: held_of_def)

section \<open>Endpoints as the client sees them\<close>

lemma reserve_endpoint_outcome:
  assumes "reserve_stock_endpoint env db rq = (x, db')"
  shows "(\<exists>r. x = Reply 200 r \<and> valid_stock_reservation rq \<and> reserve_stock env db rq = (Inr r, db'))
    \<or> (\<exists>c d. x = HTTPException c d \<and> 400 \<le> c \<and> db' = db
         \<and> (valid_stock_reservation rq \<longrightarrow> (\<exists>e. reserve_stock env db rq = (Inl e, db))))"
  using assms
  by (auto simp: reserve_stock_endpoint_def unprocessable_def server_error_def
      split: if_splits prod.splits sum.splits stock_error.splits dest: stock_failure_unchanged)

lemma release_endpoint_outcome:
  assumes "release_stock_endpoint env db rq = (x, db')"
  shows "(\<exists>r. x = Reply 200 r \<and> valid_stock_reservation rq \<and> release_stock env db rq = (Inr r, db'))
    \<or> (\<exists>c d. x = HTTPException c d \<and> 400 \<le> c \<and> db' = db
         \<and> (valid_stock_reservation rq \<longrightarrow> (\<exists>e. release_stock env db rq = (Inl e, db))))"
  using assms
  by (auto simp: release_stock_endpoint_def unprocessable_def server_error_def
      split: if_splits prod.splits sum.splits stock_error.splits dest: stock_failure_unchanged)


section \<open>Requests on the wire\<close>

definition wire_request :: "reservation_call \<Rightarrow> string \<Rightarrow> stock_reservation_request" where
  "wire_request c reason = \<lparr>rq_product_id = call_product_id c, rq_warehouse_id = call_warehouse_id c,
     rq_quantity = call_quantity c, rq_reason = Some reason,
     rq_owner_reference_id = call_reference_id c\<rparr>"

lemma wire_request_simps [simp]:
  "rq_product_id (wire_request c reason) = call_product_id c"
  "rq_warehouse_id (wire_request c reason) = call_warehouse_id c"
  "rq_quantity (wire_request c reason) = call_quantity c"
  "rq_owner_reference_id (wire_request c reason) = call_reference_id c"
  by (simp_all add: wire_request_def)

lemma parse_call_body [simp]:
  "parse_reservation_body (call_body c reason) = Some (wire_request c reason)"
  by (simp add: parse_reservation_body_def call_body_def json_get_def json_str_def json_int_def
      wire_request_def)

lemma serve_reserve:
  "serve env w \<lparr>req_method = ''POST'',
      req_url = inventory_service_url platform_settings @ ''/stock/reservations'',
      req_json = call_body c reason\<rparr> =
   (let (x, db) = reserve_stock_endpoint env (w_inventory w) (wire_request c reason)
    in (to_response operation_json x, w\<lparr>w_inventory := db\<rparr>))"
  by (simp add: serve_def inventory_http_def split: prod.splits)

lemma serve_release:
  "serve env w \<lparr>req_method = ''POST'',
      req_url = inventory_service_url platform_settings @ ''/stock/releases'',
      req_json = call_body c reason\<rparr> =
   (let (x, db) = release_stock_endpoint env (w_inventory w) (wire_request c reason)
    in (to_response operation_json x, w\<lparr>w_inventory := db\<rparr>))"
  by (simp add: serve_def inventory_http_def split: prod.splits)

lemma serve_product:
  "serve env w \<lparr>req_method = ''GET'',
      req_url = inventory_service_url platform_settings @ ''/products/'' @ str_uuid p,
      req_json = JNull\<rparr> =
   (to_response product_json (get_product_endpoint (w_inventory w) p), w)"
proof -
  have "strip_prefix ''/products/'' (''/products/'' @ str_uuid p) = Some (str_uuid p)"
    by (rule strip_prefix_append)
  then show ?thesis by (simp add: serve_def inventory_http_def)
qed

lemma other_address:
  "strip_prefix (inventory_service_url platform_settings)
     (warehouse_service_url platform_settings @ path) = None"
  by (simp add: platform_settings_def make_order_settings_def remove_trailing_slash_def rstrip_def
      strip_prefix_def)

lemma serve_warehouse:
  "serve env w \<lparr>req_method = ''GET'',
      req_url = warehouse_service_url platform_settings @ ''/warehouses/'' @ str_uuid i,
      req_json = JNull\<rparr> =
   (to_response warehouse_json (get_warehouse_endpoint (w_warehouses w) i), w)"
proof -
  let ?base = "warehouse_service_url platform_settings"
  have "strip_prefix (?base @ ''/warehouses/'') ((?base @ ''/warehouses/'') @ str_uuid i) =
      Some (str_uuid i)" by (rule strip_prefix_append)
  then show ?thesis by (simp add: serve_def other_address warehouse_http_def)
qed

section \<open>What other users do\<close>

lemma products_known_cong:
  assumes "movements db' = movements db" and "\<And>p. product_known db p \<Longrightarrow> product_known db' p"
    and "products_known db"
  shows "products_known db'"
  using assms by (auto simp: products_known_def)

lemma stock_change_known:
  assumes "stock_change db k m db'" and "products_known db" and "product_known db (fst k)"
  shows "products_known db'"
proof -
  have "product_known db' p = product_known db p" for p
    using stock_change_views(4) [OF assms(1)] by (simp add: product_known_def)
  moreover have "mv_key m = k" using assms(1) by (auto simp: stock_change_def)
  then have "mv_product_id m = fst k" by (auto simp: mv_key_def)
  ultimately show ?thesis
    using assms stock_change_views(5) [OF assms(1)] by (auto simp: products_known_def)
qed

lemma product_known_insert_empty [simp]:
  "product_known (insert_empty_balance_if_missing env db k) p = product_known db p"
  "products_known (insert_empty_balance_if_missing env db k) = products_known db"
  by (simp_all add: product_known_def products_known_def insert_empty_views)

text \<open>Every stock operation checks the product before it writes a movement.\<close>

lemma success_product_known:
  "receive_stock env db rq = (Inr r, db') \<Longrightarrow> product_known db (rq_product_id rq)"
  "issue_stock env db rq = (Inr r, db') \<Longrightarrow> product_known db (rq_product_id rq)"
  "reserve_stock env db rv = (Inr r, db') \<Longrightarrow> product_known db (rq_product_id rv)"
  "release_stock env db rv = (Inr r, db') \<Longrightarrow> product_known db (rq_product_id rv)"
  "transfer_stock env db rt = (Inr rr, db') \<Longrightarrow> product_known db (tr_product_id rt)"
  by (auto simp: receive_stock_def issue_stock_def reserve_stock_def release_stock_def
      transfer_stock_def ensure_product_exists_eq result_simps split: if_splits)

lemma run_call_known:
  assumes "run_call env db c = (Inr u, db')" and "rows_ok db" and "valid_call c"
    and "products_known db"
  shows "products_known db'"
proof (cases c)
  case (Receive r)
  then obtain x where x: "receive_stock env db r = (Inr x, db')" using assms(1) by auto
  show ?thesis
    using stock_change_known [OF receive_stock_change(1) [OF x assms(2)]] assms(4)
      success_product_known(1) [OF x] by simp
next
  case (Issue r)
  then obtain x where x: "issue_stock env db r = (Inr x, db')" using assms(1) by auto
  show ?thesis
    using stock_change_known [OF issue_stock_change(1) [OF x assms(2)] assms(4)]
      success_product_known(2) [OF x] by simp
next
  case (Reserve r)
  then obtain x where x: "reserve_stock env db r = (Inr x, db')" using assms(1) by auto
  show ?thesis
    using stock_change_known [OF reserve_stock_change(1) [OF x assms(2)] assms(4)]
      success_product_known(3) [OF x] by simp
next
  case (Release r)
  then obtain x where x: "release_stock env db r = (Inr x, db')" using assms(1) by auto
  show ?thesis
    using stock_change_known [OF release_stock_change(1) [OF x assms(2)] assms(4)]
      success_product_known(4) [OF x] by simp
next
  case (Transfer r)
  then obtain x where x: "transfer_stock env db r = (Inr x, db')" using assms(1) by auto
  have "tr_source_warehouse_id r \<noteq> tr_destination_warehouse_id r"
    using assms(3) Transfer by (simp add: valid_stock_transfer_def)
  from transfer_stock_change(1) [OF x assms(2) this] obtain dbm where
    one: "stock_change (insert_empty_balance_if_missing env db
        (tr_product_id r, tr_destination_warehouse_id r))
      (tr_product_id r, tr_source_warehouse_id r) (res_outbound_movement x) dbm"
    and two: "stock_change dbm (tr_product_id r, tr_destination_warehouse_id r)
      (res_inbound_movement x) db'" by blast
  have "products_known dbm"
    using stock_change_known [OF one] assms(4) success_product_known(5) [OF x] by simp
  moreover have "product_known dbm (tr_product_id r)"
    using stock_change_views(4) [OF one] success_product_known(5) [OF x]
    by (simp add: product_known_def insert_empty_views)
  ultimately show ?thesis using stock_change_known [OF two] by simp
qed

lemma run_call_held:
  assumes "run_call env db c = (Inr u, db')" and "rows_ok db" and "valid_call c"
    and "\<not> disturbs ref ps (Stock_Call c)"
  shows "get_reference_reserved_quantity db' k ref = get_reference_reserved_quantity db k ref"
proof -
  have "acc_held (account_of db') k ref = acc_held (account_step c (account_of db)) k ref"
    by (simp add: run_call_refines [OF assms(1-3)])
  also have "\<dots> = acc_held (account_of db) k ref"
    using assms(4) by (cases c) (simp_all add: add_at_def)
  finally show ?thesis by (simp add: account_of_def)
qed

lemma product_endpoints_cong:
  "balances (snd (create_product_endpoint env db body)) = balances db"
  "movements (snd (create_product_endpoint env db body)) = movements db"
  "balances (snd (update_product_endpoint env db i patch)) = balances db"
  "movements (snd (update_product_endpoint env db i patch)) = movements db"
  by (auto simp: create_product_endpoint_def create_product_def update_product_endpoint_def
      update_product_def get_product_or_404_def transaction_def result_simps Let_def
      split: option.splits sum.splits db_error.splits prod.splits)

lemma product_known_set: "product_known db p \<longleftrightarrow> p \<in> prod_id ` set (products db)"
  by (auto simp: product_known_def find_None_iff image_iff)

lemma apply_product_update_id [simp]: "prod_id (apply_product_update env d p) = prod_id p"
  by (simp add: apply_product_update_def Let_def)

lemma product_endpoints_known:
  "product_known db p \<Longrightarrow> product_known (snd (create_product_endpoint env db body)) p"
  "product_known db p \<Longrightarrow> product_known (snd (update_product_endpoint env db i patch)) p"
proof -
  show "product_known (snd (create_product_endpoint env db body)) p" if "product_known db p"
    using that
    by (auto simp: product_known_set create_product_endpoint_def create_product_def transaction_def
        result_simps Let_def split: option.splits sum.splits db_error.splits prod.splits)
  show "product_known (snd (update_product_endpoint env db i patch)) p" if known: "product_known db p"
  proof -
    have keys: "map prod_id (update_row prod_id (prod_id q)
        (\<lambda>_. apply_product_update env patch q) rows) = map prod_id rows" for rows q
      by (auto simp: update_row_def)
    have "prod_id ` set (update_row prod_id (prod_id q)
        (\<lambda>_. apply_product_update env patch q) rows) = prod_id ` set rows" for rows q
      using arg_cong [OF keys, of set] by simp
    then have same: "product_known (snd (update_product env db q patch)) p" for q
      using known
      by (auto simp: product_known_set update_product_def transaction_def result_simps Let_def
          split: sum.splits)
    have "snd (update_product_endpoint env db i patch) = db \<or>
        (\<exists>q. snd (update_product_endpoint env db i patch) = snd (update_product env db q patch))"
      by (auto simp: update_product_endpoint_def split: sum.splits prod.splits) (metis snd_conv)+
    then show ?thesis using same known by auto
  qed
qed

lemma delete_endpoint_cases:
  assumes "delete_product_endpoint env db i = (r, db')"
  obtains "db' = db" | q u where "delete_product env db q = (Inr u, db')" and "prod_id q = i"
  using assms
  by (auto simp: delete_product_endpoint_def get_product_or_404_def get_product_by_id_def
      delete_product_def transaction_def of_option_def
      dest!: find_row_SomeD split: sum.splits prod.splits option.splits)

lemma delete_product_known:
  assumes "delete_product env db q = (Inr u, db')" and "products_known db"
  shows "products_known db'"
    and "fst k \<noteq> prod_id q \<Longrightarrow>
      get_reference_reserved_quantity db' k ref = get_reference_reserved_quantity db k ref"
proof -
  have db': "db' = db\<lparr>products := filter (\<lambda>r. prod_id r \<noteq> prod_id q) (products db),
      balances := (\<lambda>k. if fst k = prod_id q then None else balances db k),
      movements := filter (\<lambda>m. mv_product_id m \<noteq> prod_id q) (movements db)\<rparr>"
    using assms(1) by (auto simp: delete_product_def result_simps)
  show "products_known db'"
    using assms(2) by (auto simp: products_known_def product_known_set db')
  show "get_reference_reserved_quantity db' k ref = get_reference_reserved_quantity db k ref"
    if "fst k \<noteq> prod_id q"
    using that by (auto simp: db' get_reference_reserved_quantity_def reservation_row_def mv_key_def
        intro!: sum_where_cong)
qed

text \<open>Every reachable inventory keeps its foreign keys.\<close>

lemma reachable_products_known: "inventory_reachable db \<Longrightarrow> products_known db"
proof (induction rule: inventory_reachable.induct)
  case start
  then show ?case by (simp add: products_known_def empty_inventory_def)
next
  case (step db db')
  note rows = ledger_okD(1) [OF reachable_ledger [OF step.hyps(1)]]
  note stock = run_call_known [OF _ rows _ step.IH, of _ _ "()"]
  show ?case
    using step.hyps(2)
  proof cases
    case (receipt rq env r)
    then show ?thesis using stock [of env "Receive rq"] by simp
  next
    case (issue rq env r)
    then show ?thesis using stock [of env "Issue rq"] by simp
  next
    case (reservation rv env r)
    then show ?thesis using stock [of env "Reserve rv"] by simp
  next
    case (releasing rv env r)
    then show ?thesis using stock [of env "Release rv"] by simp
  next
    case (transfer rt env r)
    then show ?thesis using stock [of env "Transfer rt"] by simp
  next
    case (new_product env pc p)
    then show ?thesis
      using step.IH by (auto simp: products_known_def product_known_set create_product_def result_simps Let_def)
  next
    case (patch_product env p pu p')
    have "map prod_id (update_row prod_id (prod_id p) (\<lambda>_. apply_product_update env pu p) rows) = map prod_id rows"
      for rows by (auto simp: update_row_def)
    from arg_cong [OF this, of set] have ids: "prod_id ` set (update_row prod_id (prod_id p)
        (\<lambda>_. apply_product_update env pu p) rows) = prod_id ` set rows" for rows by simp
    have "db' = db\<lparr>products := update_row prod_id (prod_id p) (\<lambda>_. apply_product_update env pu p) (products db)\<rparr>"
      using patch_product by (auto simp: update_product_def result_simps Let_def)
    then have "movements db' = movements db" "prod_id ` set (products db') = prod_id ` set (products db)"
      by (simp_all add: ids)
    then show ?thesis using step.IH by (simp add: products_known_def product_known_set)
  next
    case (drop_product env p u)
    then show ?thesis using delete_product_known(1) step.IH by blast
  qed
qed

lemma other_step_keeps:
  assumes "ledger_ok db" and "products_known db"
  shows "ledger_ok (other_step ec db)" and "products_known (other_step ec db)"
    and "\<not> disturbs ref ps (snd ec) \<Longrightarrow> fst k \<in> ps \<Longrightarrow>
      get_reference_reserved_quantity (other_step ec db) k ref = get_reference_reserved_quantity db k ref"
proof -
  obtain env c where ec: "ec = (env, c)" by fastforce
  have "ledger_ok (other_step ec db) \<and> products_known (other_step ec db) \<and>
      (\<not> disturbs ref ps (snd ec) \<longrightarrow> fst k \<in> ps \<longrightarrow> get_reference_reserved_quantity (other_step ec db) k ref =
         get_reference_reserved_quantity db k ref)"
  proof (cases c)
    case (Stock_Call sc)
    obtain r db' where r: "run_call env db sc = (r, db')" by fastforce
    show ?thesis
    proof (cases r)
      case (Inl e)
      have "db' = db" by (rule run_call_error [OF r [unfolded Inl]])
      then show ?thesis using assms r ec Stock_Call by simp
    next
      case (Inr u)
      note run = r [unfolded Inr]
      show ?thesis
        using run_call_ledger [OF run assms(1)] run_call_known [OF run ledger_okD(1) [OF assms(1)]]
          run_call_held [OF run ledger_okD(1) [OF assms(1)]] assms
        by (simp add: ec Stock_Call r)
    qed
  next
    case (New_Product body)
    let ?db = "snd (create_product_endpoint env db body)"
    have "ledger_ok ?db" "products_known ?db"
      using ledger_products_cong [of ?db db] products_known_cong [of ?db db] assms
      by (simp_all add: product_endpoints_cong product_endpoints_known)
    then show ?thesis
      by (simp add: ec New_Product get_reference_reserved_quantity_def product_endpoints_cong)
  next
    case (Patch_Product i patch)
    let ?db = "snd (update_product_endpoint env db i patch)"
    have "ledger_ok ?db" "products_known ?db"
      using ledger_products_cong [of ?db db] products_known_cong [of ?db db] assms
      by (simp_all add: product_endpoints_cong product_endpoints_known)
    then show ?thesis
      by (simp add: ec Patch_Product get_reference_reserved_quantity_def product_endpoints_cong)
  next
    case (Delete_Product i)
    obtain r db' where d: "delete_product_endpoint env db i = (r, db')" by fastforce
    then show ?thesis
    proof (cases rule: delete_endpoint_cases)
      case 1
      then show ?thesis using assms d by (simp add: ec Delete_Product)
    next
      case (2 q u)
      then show ?thesis
        using d delete_product_ledger [OF 2(1) assms(1)] delete_product_known(1) [OF 2(1) assms(2)]
          delete_product_known(2) [OF 2(1) assms(2), where k = k and ref = ref]
        by (cases "fst k = prod_id q") (auto simp: ec Delete_Product)
    qed
  qed
  then show "ledger_ok (other_step ec db)" "products_known (other_step ec db)"
    "\<not> disturbs ref ps (snd ec) \<Longrightarrow> fst k \<in> ps \<Longrightarrow>
      get_reference_reserved_quantity (other_step ec db) k ref = get_reference_reserved_quantity db k ref"
    by blast+
qed

lemma run_others_keeps:
  assumes "ledger_ok db" and "products_known db" and "\<forall>c\<in>set cs. \<not> disturbs ref ps (snd c)"
  shows "ledger_ok (run_others cs db)" and "products_known (run_others cs db)"
    and "fst k \<in> ps \<Longrightarrow> get_reference_reserved_quantity (run_others cs db) k ref = get_reference_reserved_quantity db k ref"
  unfolding run_others_def
  using assms
  by (induction cs arbitrary: db) (simp_all add: other_step_keeps(1,2) other_step_keeps(3) [where ps = ps])

lemma before_call_simps [simp]:
  "w_schedule (before_call w) = w_schedule w"
  "w_warehouses (before_call w) = w_warehouses w"
  "w_time (before_call w) = Suc (w_time w)"
  by (simp_all add: before_call_def)

lemma before_call_ok:
  assumes "world_ok ref ps w"
  shows "world_ok ref ps (before_call w)" and "held_of ps ref (before_call w) = held_of ps ref w"
proof -
  have others: "\<forall>c\<in>set (slot_others (w_schedule w (w_time w))). \<not> disturbs ref ps (snd c)"
    using assms by (simp add: world_ok_def quiet_def)
  note keeps = run_others_keeps [OF _ _ others]
  show "world_ok ref ps (before_call w)" "held_of ps ref (before_call w) = held_of ps ref w"
    using assms by (simp_all add: world_ok_def before_call_def keeps held_of_def world_held_def fun_eq_iff)
qed

lemma held_before_call:
  assumes "world_ok ref ps w" and "fst k \<in> ps"
  shows "get_reference_reserved_quantity (w_inventory (before_call w)) k ref =
    get_reference_reserved_quantity (w_inventory w) k ref"
  using fun_cong [OF before_call_ok(2) [OF assms(1)], of k] assms(2) by (simp add: world_held_def)

section \<open>The laws of the interface\<close>

lemma platform_http_cases:
  assumes "platform_http req w = (r, w')"
  obtains (lost) e where "r = Inl e" and "w' = before_call w"
    | (answered) a where "r = Inr a" and "serve (slot_env (w_schedule w (w_time w))) (before_call w) req = (a, w')"
    | (reply_lost) "slot_event (w_schedule w (w_time w)) = ReplyLost"
  using assms
  by (cases "slot_event (w_schedule w (w_time w))")
     (auto simp: platform_http_def Let_def split: prod.splits)

lemma quiet_event: "world_ok ref ps w \<Longrightarrow> slot_event (w_schedule w n) \<noteq> ReplyLost"
  by (simp add: world_ok_def quiet_def)

lemma world_ok_inventory:
  "world_ok ref ps (w\<lparr>w_inventory := db\<rparr>) \<longleftrightarrow>
     ledger_ok db \<and> products_known db \<and> quiet ref ps (w_schedule w)"
  by (simp add: world_ok_def)

lemma reservation_row_of:
  assumes "stock_change db k m db'" and "mv_reference_id m = Some ref"
    and "mv_type m \<in> {RESERVATION, RELEASE}"
  shows "get_reference_reserved_quantity db' k' ref = get_reference_reserved_quantity db k' ref +
    (if k' = k then mv_reserved_delta m else 0)"
proof -
  have "mv_key m = k" using assms(1) by (auto simp: stock_change_def)
  with assms(2,3) have "reservation_row k' ref m \<longleftrightarrow> k' = k" by (auto simp: reservation_row_def)
  then show ?thesis by (simp add: stock_change_views(3) [OF assms(1)])
qed

lemma reserve_held:
  assumes "reserve_stock env db rq = (Inr r, db')" and "ledger_ok db" and "products_known db"
    and "valid_stock_reservation rq" and "rq_owner_reference_id rq = ref"
  shows "ledger_ok db'" and "products_known db'"
    and "get_reference_reserved_quantity db' k ref = get_reference_reserved_quantity db k ref +
      (if k = rq_key rq then rq_quantity rq else 0)"
proof -
  note rows = ledger_okD(1) [OF assms(2)]
  note ch = reserve_stock_change [OF assms(1) rows]
  show "ledger_ok db'" by (rule reserve_stock_ledger) fact+
  show "products_known db'"
    using stock_change_known [OF ch(1) assms(3)] success_product_known(3) [OF assms(1)] by simp
  show "get_reference_reserved_quantity db' k ref = get_reference_reserved_quantity db k ref +
      (if k = rq_key rq then rq_quantity rq else 0)"
    using reservation_row_of [OF ch(1), of ref k] ch assms(5) by simp
qed

lemma release_held:
  assumes "release_stock env db rq = (Inr r, db')" and "ledger_ok db" and "products_known db"
    and "valid_stock_reservation rq" and "rq_owner_reference_id rq = ref"
  shows "ledger_ok db'" and "products_known db'"
    and "get_reference_reserved_quantity db' k ref = get_reference_reserved_quantity db k ref -
      (if k = rq_key rq then rq_quantity rq else 0)"
proof -
  note rows = ledger_okD(1) [OF assms(2)]
  note ch = release_stock_change [OF assms(1) rows]
  show "ledger_ok db'" by (rule release_stock_ledger) fact+
  show "products_known db'"
    using stock_change_known [OF ch(1) assms(3)] success_product_known(4) [OF assms(1)] by simp
  show "get_reference_reserved_quantity db' k ref = get_reference_reserved_quantity db k ref -
      (if k = rq_key rq then rq_quantity rq else 0)"
    using reservation_row_of [OF ch(1), of ref k] ch assms(5) by simp
qed

lemma client_calls [simp]:
  "sc_reserve_stock platform_client = client_reserve_stock platform_settings platform_http"
  "sc_release_stock platform_client = client_release_stock platform_settings platform_http"
  "sc_get_product platform_client = get_product platform_settings platform_http"
  "sc_verify_warehouse platform_client = verify_warehouse platform_settings platform_http"
  by (simp_all add: platform_client_def ServiceClient_def)

text \<open>A reservation or release call changes the world as the laws say, whatever its reply.\<close>

lemma reserve_call:
  assumes call: "client_reserve_stock platform_settings platform_http c w = (r, w')"
    and ok: "world_ok (call_reference_id c) ps w" and product: "call_product_id c \<in> ps"
  shows "world_ok (call_reference_id c) ps w' \<and> w_schedule w' = w_schedule w \<and>
    held_of ps (call_reference_id c) w' = (case r of Inl e \<Rightarrow> held_of ps (call_reference_id c) w
      | Inr u \<Rightarrow> (held_of ps (call_reference_id c) w)(call_key c :=
          held_of ps (call_reference_id c) w (call_key c) + call_quantity c))"
proof -
  let ?ref = "call_reference_id c" and ?w = "before_call w"
  let ?env = "slot_env (w_schedule w (w_time w))"
  let ?req = "\<lparr>req_method = ''POST'',
    req_url = inventory_service_url platform_settings @ ''/stock/reservations'',
    req_json = call_body c ''Order inventory reservation''\<rparr>"
  let ?rq = "wire_request c ''Order inventory reservation''"
  note before = before_call_ok [OF ok]
  obtain h w1 where h: "platform_http ?req w = (h, w1)" by fastforce
  from h show ?thesis
  proof (cases rule: platform_http_cases)
    case (lost e)
    then show ?thesis
      using call h before by (auto simp: client_reserve_stock_def client_request_def)
  next
    case (answered a)
    obtain x db' where x: "reserve_stock_endpoint ?env (w_inventory ?w) ?rq = (x, db')" by fastforce
    then have a: "a = to_response operation_json x" "w1 = ?w\<lparr>w_inventory := db'\<rparr>"
      using answered by (simp_all add: serve_reserve)
    have inv: "ledger_ok (w_inventory ?w)" "products_known (w_inventory ?w)"
      using before by (simp_all add: world_ok_def)
    from reserve_endpoint_outcome [OF x] show ?thesis
    proof (elim disjE exE conjE)
      fix q
      assume q: "x = Reply 200 q" "valid_stock_reservation ?rq"
        "reserve_stock ?env (w_inventory ?w) ?rq = (Inr q, db')"
      note held = reserve_held [OF q(3) inv q(2), of ?ref]
      have "r = Inr ()" "w' = w1"
        using call h answered a q(1)
        by (auto simp: client_reserve_stock_def client_request_def to_response_success)
      then show ?thesis
        using held ok
        by (auto simp: a world_ok_inventory world_ok_def held_of_def world_held_def fun_eq_iff
            call_key_def product held_before_call [OF ok])
    next
      fix co d
      assume q: "x = HTTPException co d" "400 \<le> co" "db' = w_inventory ?w"
      have "\<exists>e. r = Inl e" "w' = w1"
        using call h answered a q(1,2)
        by (auto simp: client_reserve_stock_def client_request_def to_response_success)
      then show ?thesis using before a q(3) by auto
    qed
  next
    case reply_lost
    with quiet_event [OF ok] show ?thesis by simp
  qed
qed

lemma release_call:
  assumes call: "client_release_stock platform_settings platform_http c w = (r, w')"
    and ok: "world_ok (call_reference_id c) ps w" and product: "call_product_id c \<in> ps"
  shows "world_ok (call_reference_id c) ps w' \<and> w_schedule w' = w_schedule w \<and>
    held_of ps (call_reference_id c) w' = (case r of Inl e \<Rightarrow> held_of ps (call_reference_id c) w
      | Inr u \<Rightarrow> (held_of ps (call_reference_id c) w)(call_key c :=
          held_of ps (call_reference_id c) w (call_key c) - call_quantity c))"
proof -
  let ?ref = "call_reference_id c" and ?w = "before_call w"
  let ?env = "slot_env (w_schedule w (w_time w))"
  let ?req = "\<lparr>req_method = ''POST'',
    req_url = inventory_service_url platform_settings @ ''/stock/releases'',
    req_json = call_body c ''Order inventory reservation release''\<rparr>"
  let ?rq = "wire_request c ''Order inventory reservation release''"
  note before = before_call_ok [OF ok]
  obtain h w1 where h: "platform_http ?req w = (h, w1)" by fastforce
  from h show ?thesis
  proof (cases rule: platform_http_cases)
    case (lost e)
    then show ?thesis
      using call h before by (auto simp: client_release_stock_def client_request_def)
  next
    case (answered a)
    obtain x db' where x: "release_stock_endpoint ?env (w_inventory ?w) ?rq = (x, db')" by fastforce
    then have a: "a = to_response operation_json x" "w1 = ?w\<lparr>w_inventory := db'\<rparr>"
      using answered by (simp_all add: serve_release)
    have inv: "ledger_ok (w_inventory ?w)" "products_known (w_inventory ?w)"
      using before by (simp_all add: world_ok_def)
    from release_endpoint_outcome [OF x] show ?thesis
    proof (elim disjE exE conjE)
      fix q
      assume q: "x = Reply 200 q" "valid_stock_reservation ?rq"
        "release_stock ?env (w_inventory ?w) ?rq = (Inr q, db')"
      note held = release_held [OF q(3) inv q(2), of ?ref]
      have "r = Inr ()" "w' = w1"
        using call h answered a q(1)
        by (auto simp: client_release_stock_def client_request_def to_response_success)
      then show ?thesis
        using held ok
        by (auto simp: a world_ok_inventory world_ok_def held_of_def world_held_def fun_eq_iff
            call_key_def product held_before_call [OF ok])
    next
      fix co d
      assume q: "x = HTTPException co d" "400 \<le> co" "db' = w_inventory ?w"
      have "\<exists>e. r = Inl e" "w' = w1"
        using call h answered a q(1,2)
        by (auto simp: client_release_stock_def client_request_def to_response_success)
      then show ?thesis using before a q(3) by auto
    qed
  next
    case reply_lost
    with quiet_event [OF ok] show ?thesis by simp
  qed
qed

text \<open>A lookup leaves the holdings alone; what the product lookup returns is what the Inventory
  Service has stored.\<close>

lemma lookup_product_call:
  assumes call: "get_product platform_settings platform_http p w = (r, w')" and ok: "world_ok ref ps w"
  shows "w' = before_call w"
    and "r = Inr snap \<Longrightarrow> \<exists>q. get_product_by_id (w_inventory w') p = Some q \<and> prod_is_active q
      \<and> snap_unit_price snap = Finite (prod_unit_price q) (- 2) \<and> 0 \<le> prod_unit_price q"
proof -
  let ?req = "\<lparr>req_method = ''GET'',
    req_url = inventory_service_url platform_settings @ ''/products/'' @ str_uuid p, req_json = JNull\<rparr>"
  obtain h w1 where h: "platform_http ?req w = (h, w1)" by fastforce
  from h have both: "w' = before_call w \<and> (r = Inr snap \<longrightarrow>
      (\<exists>q. get_product_by_id (w_inventory w') p = Some q \<and> prod_is_active q
        \<and> snap_unit_price snap = Finite (prod_unit_price q) (- 2) \<and> 0 \<le> prod_unit_price q))"
  proof (cases rule: platform_http_cases)
    case (lost e)
    then show ?thesis using call h by (auto simp: get_product_def client_request_def)
  next
    case (answered a)
    from answered(2) [unfolded serve_product] have a: "a = to_response product_json (get_product_endpoint (w_inventory (before_call w)) p)"
      "w1 = before_call w"
      by auto
    have r: "r = read_product p a" "w' = before_call w"
      using call h answered a by (auto simp: get_product_def client_request_def)
    show ?thesis
    proof (cases "get_product_by_id (w_inventory (before_call w)) p")
      case None
      then show ?thesis using r a
        by (simp add: get_product_endpoint_def get_product_or_404_def to_response_def read_product_def)
    next
      case (Some q)
      show ?thesis
      proof (cases "product_response q")
        case None
        then show ?thesis using r a Some
          by (simp add: get_product_endpoint_def get_product_or_404_def respond_product_def
              to_response_def read_product_def server_error_def is_success_def)
      next
        case (Some q')
        note q' = this
        have q: "0 \<le> prod_unit_price q" "prod_unit_price q' = prod_unit_price q"
          "prod_is_active q' = prod_is_active q"
          using q' by (auto simp: product_response_def split: if_splits option.splits)
        have get: "json_get ''is_active'' (product_json q') = Some (JBool (prod_is_active q))"
          "json_get ''unit_price'' (product_json q') = Some (JStr (cents_text (prod_unit_price q)))"
          "is_object (product_json q')"
          by (simp_all add: product_json_def json_get_def is_object_def q)
        have "r = (if prod_is_active q
            then Inr \<lparr>snap_product_id = p, snap_unit_price = Finite (prod_unit_price q) (- 2)\<rparr>
            else Inl (ProductUnavailableError (''Product '' @ CHR 39 # str_uuid p @ CHR 39 #
                 '' is inactive'')))"
          using r(1) a \<open>get_product_by_id (w_inventory (before_call w)) p = Some q\<close> q' q(1) get
          by (simp add: get_product_endpoint_def get_product_or_404_def respond_product_def
              to_response_def read_product_def is_success_def truthy_def py_str_def parse_cents_text)
        then show ?thesis
          using r(2) \<open>get_product_by_id (w_inventory (before_call w)) p = Some q\<close> q(1)
          by (auto split: if_splits)
      qed
    qed
  next
    case reply_lost
    with quiet_event [OF ok] show ?thesis by simp
  qed
  then show "w' = before_call w"
    and "r = Inr snap \<Longrightarrow> \<exists>q. get_product_by_id (w_inventory w') p = Some q \<and> prod_is_active q
      \<and> snap_unit_price snap = Finite (prod_unit_price q) (- 2) \<and> 0 \<le> prod_unit_price q" by blast+
qed

lemma lookup_warehouse_call:
  assumes call: "verify_warehouse platform_settings platform_http i w = (r, w')" and ok: "world_ok ref ps w"
  shows "w' = before_call w"
    and "r = Inr () \<Longrightarrow> \<exists>q. get_warehouse (w_warehouses w) i = Inr q \<and> wh_is_active q"
proof -
  let ?req = "\<lparr>req_method = ''GET'',
    req_url = warehouse_service_url platform_settings @ ''/warehouses/'' @ str_uuid i, req_json = JNull\<rparr>"
  obtain h w1 where h: "platform_http ?req w = (h, w1)" by fastforce
  from h have "w' = before_call w \<and> (r = Inr () \<longrightarrow>
      (\<exists>q. get_warehouse (w_warehouses w) i = Inr q \<and> wh_is_active q))"
  proof (cases rule: platform_http_cases)
    case (lost e)
    then show ?thesis using call h by (auto simp: verify_warehouse_def client_request_def)
  next
    case (answered a)
    from answered(2) [unfolded serve_warehouse] have a: "a = to_response warehouse_json (get_warehouse_endpoint (w_warehouses w) i)"
      "w1 = before_call w"
      by auto
    have r: "r = read_warehouse i a" "w' = before_call w"
      using call h answered a by (auto simp: verify_warehouse_def client_request_def)
    show ?thesis
    proof (cases "get_warehouse (w_warehouses w) i")
      case (Inl e)
      then show ?thesis using r a
        by (simp add: get_warehouse_endpoint_def to_response_def read_warehouse_def)
    next
      case (Inr q)
      have get: "json_get ''is_active'' (warehouse_json q) = Some (JBool (wh_is_active q))"
        "is_object (warehouse_json q)"
        by (simp_all add: warehouse_json_def json_get_def is_object_def)
      show ?thesis using r a Inr get
        by (simp add: get_warehouse_endpoint_def to_response_def read_warehouse_def is_success_def
            truthy_def)
    qed
  next
    case reply_lost
    with quiet_event [OF ok] show ?thesis by simp
  qed
  then show "w' = before_call w"
    and "r = Inr () \<Longrightarrow> \<exists>q. get_warehouse (w_warehouses w) i = Inr q \<and> wh_is_active q" by blast+
qed

text \<open>With every call answered and no failing database, whatever is held can be released.\<close>

lemma release_possible_call:
  assumes calm: "world_calm (call_reference_id c) ps w" and product: "call_product_id c \<in> ps"
    and pos: "0 < call_quantity c"
    and le: "call_quantity c \<le> held_of ps (call_reference_id c) w (call_key c)"
  shows "\<exists>w'. client_release_stock platform_settings platform_http c w = (Inr (), w')"
proof -
  let ?ref = "call_reference_id c" and ?w = "before_call w"
  let ?env = "slot_env (w_schedule w (w_time w))"
  let ?rq = "wire_request c ''Order inventory reservation release''"
  have ok: "world_ok ?ref ps w" and event: "slot_event (w_schedule w (w_time w)) = Deliver"
    and fault: "env_fault ?env = None"
    and valid: "valid_stock_reservation ?rq"
    using calm pos
    by (simp_all add: world_calm_def valid_stock_reservation_def optional_length_def wire_request_def)
  note before = before_call_ok [OF ok]
  have inv: "ledger_ok (w_inventory ?w)" "products_known (w_inventory ?w)"
    using before by (simp_all add: world_ok_def)
  have held: "get_reference_reserved_quantity (w_inventory ?w) (rq_key ?rq) ?ref =
      world_held ?ref w (call_key c)"
    using held_before_call [OF ok] product by (simp add: world_held_def call_key_def)
  have "product_known (w_inventory ?w) (call_product_id c)"
  proof (rule ccontr)
    assume "\<not> ?thesis"
    then have "get_reference_reserved_quantity (w_inventory ?w) (rq_key ?rq) ?ref = 0"
      unfolding get_reference_reserved_quantity_def
      using inv(2) by (intro sum_where_none)
        (auto simp: products_known_def reservation_row_def mv_key_def)
    with held le pos product show False by (simp add: call_key_def)
  qed
  with release_stock_succeeds [OF inv(1) valid, of ?env] fault held le product
  obtain q db' where q: "release_stock ?env (w_inventory ?w) ?rq = (Inr q, db')"
    by (auto simp: call_key_def)
  then have "release_stock_endpoint ?env (w_inventory ?w) ?rq = (Reply 200 q, db')"
    using valid by (simp add: release_stock_endpoint_def)
  then show ?thesis
    using event
    by (simp add: client_release_stock_def client_request_def platform_http_def serve_release
        to_response_success)
qed

section \<open>The platform implements the interface\<close>

interpretation platform: reservation_service platform_client ref ps "held_of ps ref" "world_ok ref ps"
  for ref ps
proof
  fix s s' u e k p i rp rw and c :: reservation_call
  assume ok: "world_ok ref ps s"
  show "0 \<le> held_of ps ref s k" using ok ledger_okD(4) by (simp add: world_ok_def held_of_def world_held_def)
  show "world_ok ref ps s' \<and> held_of ps ref s' = held_of ps ref s"
    if "sc_get_product platform_client p s = (rp, s')"
    using lookup_product_call(1) [OF that [simplified] ok] before_call_ok [OF ok] by simp
  show "world_ok ref ps s' \<and> held_of ps ref s' = held_of ps ref s"
    if "sc_verify_warehouse platform_client i s = (rw, s')"
    using lookup_warehouse_call(1) [OF that [simplified] ok] before_call_ok [OF ok] by simp
  assume c: "call_reference_id c = ref" "call_product_id c \<in> ps" "0 < call_quantity c"
  show "world_ok ref ps s' \<and> held_of ps ref s' = (held_of ps ref s)(call_key c :=
      held_of ps ref s (call_key c) + call_quantity c)"
    if "sc_reserve_stock platform_client c s = (Inr u, s')"
    using reserve_call [OF that [simplified]] ok c by simp
  show "world_ok ref ps s' \<and> held_of ps ref s' = held_of ps ref s"
    if "sc_reserve_stock platform_client c s = (Inl e, s')"
    using reserve_call [OF that [simplified]] ok c by simp
  show "world_ok ref ps s' \<and> held_of ps ref s' = (held_of ps ref s)(call_key c :=
      held_of ps ref s (call_key c) - call_quantity c)"
    if "sc_release_stock platform_client c s = (Inr u, s')"
    using release_call [OF that [simplified]] ok c by simp
  show "world_ok ref ps s' \<and> held_of ps ref s' = held_of ps ref s"
    if "sc_release_stock platform_client c s = (Inl e, s')"
    using release_call [OF that [simplified]] ok c by simp
qed

interpretation calm_platform: reliable_releases platform_client ref ps "held_of ps ref" "world_calm ref ps"
  for ref ps
proof
  fix s s' u e k p i rp rw and c :: reservation_call
  assume calm: "world_calm ref ps s"
  then have ok: "world_ok ref ps s" by (simp add: world_calm_def)
  have keep: "world_calm ref ps s'" if "world_ok ref ps s'" and "w_schedule s' = w_schedule s"
    using calm that by (simp add: world_calm_def)
  show "0 \<le> held_of ps ref s k" by (rule platform.held_nonneg [OF ok])
  show "world_calm ref ps s' \<and> held_of ps ref s' = held_of ps ref s"
    if "sc_get_product platform_client p s = (rp, s')"
    using lookup_product_call(1) [OF that [simplified] ok] before_call_ok [OF ok] keep by simp
  show "world_calm ref ps s' \<and> held_of ps ref s' = held_of ps ref s"
    if "sc_verify_warehouse platform_client i s = (rw, s')"
    using lookup_warehouse_call(1) [OF that [simplified] ok] before_call_ok [OF ok] keep by simp
  assume c: "call_reference_id c = ref" "call_product_id c \<in> ps" "0 < call_quantity c"
  show "world_calm ref ps s' \<and> held_of ps ref s' = (held_of ps ref s)(call_key c :=
      held_of ps ref s (call_key c) + call_quantity c)"
    if "sc_reserve_stock platform_client c s = (Inr u, s')"
    using reserve_call [OF that [simplified]] ok c keep by simp
  show "world_calm ref ps s' \<and> held_of ps ref s' = held_of ps ref s"
    if "sc_reserve_stock platform_client c s = (Inl e, s')"
    using reserve_call [OF that [simplified]] ok c keep by simp
  show "world_calm ref ps s' \<and> held_of ps ref s' = (held_of ps ref s)(call_key c :=
      held_of ps ref s (call_key c) - call_quantity c)"
    if "sc_release_stock platform_client c s = (Inr u, s')"
    using release_call [OF that [simplified]] ok c keep by simp
  show "world_calm ref ps s' \<and> held_of ps ref s' = held_of ps ref s"
    if "sc_release_stock platform_client c s = (Inl e, s')"
    using release_call [OF that [simplified]] ok c keep by simp
  show "\<exists>s'. sc_release_stock platform_client c s = (Inr (), s')"
    if "call_quantity c \<le> held_of ps ref s (call_key c)"
    using release_possible_call [of c ps s] calm c that by simp
qed

end
