(* ===== verification/Order_Lifecycle.thy ===== *)
theory Order_Lifecycle
  imports Order_System
begin

text \<open>
  The Order Service's own tables: what every stored order satisfies, in every reachable state of
  the service, and the transitions an order can make.
\<close>

section \<open>Stored orders\<close>

definition item_wf :: "order_item \<Rightarrow> bool" where
  "item_wf i \<longleftrightarrow> 0 < item_quantity i \<and> 0 \<le> item_unit_price i
     \<and> item_line_total i = item_unit_price i * item_quantity i"

definition order_wf :: "order \<Rightarrow> bool" where
  "order_wf ord \<longleftrightarrow> ord_status ord \<noteq> PENDING
     \<and> ord_number ord = generate_order_number (ord_id ord)
     \<and> ord_total_amount ord = sum_list (map item_line_total (ord_items ord))
     \<and> ord_total_amount ord < 10 ^ 12
     \<and> ord_items ord \<noteq> [] \<and> (\<forall>i\<in>set (ord_items ord). item_wf i)
     \<and> distinct (map item_product_id (ord_items ord))"

definition orders_ok :: "order_db \<Rightarrow> bool" where
  "orders_ok db \<longleftrightarrow> distinct (map ord_id (orders db)) \<and> distinct (map ord_number (orders db))
     \<and> (\<forall>ord\<in>set (orders db). order_wf ord)"

section \<open>What creation stores\<close>

lemma price_line_wf:
  assumes "price_line price q = Inr (u, t)"
  shows "0 \<le> u" and "t = u * q"
proof -
  from assms have neg: "decimal_negative price = Inr False" and u: "quantize_cents price = Inr u"
    and t: "fits_context (u * q) = Inr t"
    by (auto simp: price_line_def result_simps decimal_step_def split: if_splits sum.splits)
  from neg obtain c e where price: "price = Finite c e" and "0 \<le> c"
    using u by (cases price) (simp_all add: decimal_negative_def quantize_cents_def)
  show "0 \<le> u" by (rule quantize_nonneg [OF u [unfolded price] \<open>0 \<le> c\<close>])
  show "t = u * q" using t by (simp add: fits_context_def split: if_splits)
qed

lemma build_items_wf:
  "build_items env sc n items s = (Inr is, s') \<Longrightarrow> \<forall>i\<in>set items. 0 < oi_quantity i \<Longrightarrow>
    (\<forall>i\<in>set is. item_wf i) \<and> map item_product_id is = map oi_product_id items
      \<and> map item_quantity is = map oi_quantity items"
proof (induction items arbitrary: n s "is")
  case Nil
  then show ?case by simp
next
  case (Cons i items)
  then show ?case
    by (fastforce simp: result_simps item_wf_def dest: price_line_wf)
qed

lemma order_number_inj: "generate_order_number a = generate_order_number b \<longleftrightarrow> a = b"
proof
  assume "generate_order_number a = generate_order_number b"
  then have up: "upper (uuid_hex a) = upper (uuid_hex b)" by (simp add: generate_order_number_def)
  have keep: "lower (upper (hex_fixed w n)) = hex_fixed w n" for w n
  proof (induction w n rule: hex_fixed.induct)
    case (2 w n)
    have "d < 16 \<Longrightarrow> lower_char (upper_char (hex_char d)) = hex_char d" for d
      by (auto simp: lower_char_def upper_char_def hex_char_def Let_def)
    with 2 show ?case by (simp add: lower_def upper_def)
  qed (simp add: lower_def upper_def)
  from up have "lower (upper (uuid_hex a)) = lower (upper (uuid_hex b))" by simp
  then show "a = b" by (simp add: uuid_hex_def keep uuid_hex_inj [unfolded uuid_hex_def])
qed simp

lemma create_order_Inr:
  assumes "create_order env db request sc s = (Inr ord', db', s')"
  shows "\<exists>ord lines s1. build_order env request sc s = (Inr (ord, lines), s1)
      \<and> check_order db ord = Inr () \<and> ord' = ord\<lparr>ord_status := RESERVED\<rparr>
      \<and> orders db' = ord' # orders db"
  using assms
  by (auto simp: create_order_def Let_def require_order_def load_order_def insert_order_def
      result_simps split: sum.splits prod.splits option.splits)

lemma create_order_Inl:
  assumes "create_order env db request sc s = (Inl e, db', s')"
  shows "db' = db"
  using assms
  by (auto simp: create_order_def Let_def require_order_def load_order_def insert_order_def
      split: sum.splits prod.splits option.splits)

lemma create_order_wf:
  assumes run: "create_order env db request sc s = (Inr ord, db', s')"
    and valid: "validate_order_create email_str body = Some request"
  shows "order_wf ord" and "ord_status ord = RESERVED" and "ord_id ord = env_ids env 0"
    and "ord_warehouse_id ord = oc_warehouse_id request"
    and "map item_line (ord_items ord) = map line_of (oc_items request)"
    and "\<forall>q\<in>set (orders db). ord_number q \<noteq> ord_number ord"
proof -
  from create_order_Inr [OF run] obtain o1 lines s1 where
    b: "build_order env request sc s = (Inr (o1, lines), s1)"
    and check: "check_order db o1 = Inr ()" and ord: "ord = o1\<lparr>ord_status := RESERVED\<rparr>" by blast
  note built = build_order_Inr [OF b]
  have req: "\<forall>i\<in>set (oc_items request). 0 < oi_quantity i" "oc_items request \<noteq> []"
    "distinct (map oi_product_id (oc_items request))"
    using valid by (auto simp: validate_order_create_def Let_def split: if_splits)
  obtain s2 s3 where items: "build_items env sc 1 (oc_items request) s2 = (Inr (ord_items o1), s3)"
    using built(6) by blast
  note wf = build_items_wf [OF items req(1)]
  have "ord_items o1 \<noteq> []" using wf req(2) by auto
  then show "order_wf ord"
    using built wf req(3) check
    by (auto simp: order_wf_def ord check_order_def result_simps)
  show "ord_status ord = RESERVED" "ord_id ord = env_ids env 0"
    "ord_warehouse_id ord = oc_warehouse_id request"
    using built by (simp_all add: ord)
  show "\<forall>q\<in>set (orders db). ord_number q \<noteq> ord_number ord"
    using check by (simp add: ord check_order_def result_simps)
  have "map item_line is = map line_of items"
    if "map item_product_id is = map oi_product_id items" "map item_quantity is = map oi_quantity items"
    for "is" items
    using that
    by (induction items arbitrary: "is") (auto simp: item_line_def line_of_def)
  with wf show "map item_line (ord_items ord) = map line_of (oc_items request)" by (simp add: ord)
qed

section \<open>Transitions\<close>

text \<open>What a request can do to the status of a stored order.\<close>

inductive status_step :: "order_status \<Rightarrow> order_status \<Rightarrow> bool" where
  keep: "status_step st st"
| confirm: "status_step RESERVED CONFIRMED"
| cancel: "status_step RESERVED CANCELLED"

inductive_simps status_step_simps [simp]:
  "status_step RESERVED st" "status_step CONFIRMED st" "status_step CANCELLED st"
  "status_step PENDING st"

lemma confirm_order_db:
  assumes "confirm_order env db i = (r, db')"
  shows "db' = db \<or> db' = set_status env i CONFIRMED db \<and>
    (\<exists>ord. load_order db i = Some ord \<and> ord_status ord = RESERVED)"
  using assms
  by (auto simp: confirm_order_def require_order_def Let_def split: sum.splits if_splits option.splits)
     (auto simp: result_simps)

lemma cancel_order_db:
  assumes "cancel_order env db i sc s = (r, db', s')"
  shows "db' = db \<or> db' = set_status env i CANCELLED db \<and>
    (\<exists>ord. load_order db i = Some ord \<and> ord_status ord = RESERVED)"
  using assms
  by (auto simp: cancel_order_def require_order_def Let_def result_simps
      split: sum.splits if_splits option.splits prod.splits)

lemma set_status_load:
  "load_order (set_status env i st db) j = (if j = i
     then map_option (\<lambda>ord. ord\<lparr>ord_status := st, ord_updated_at := env_now env\<rparr>) (load_order db i)
     else load_order db j)"
  by (auto simp: load_order_def set_status_def find_update_row_same find_update_row_other)

lemma set_status_ok:
  assumes "orders_ok db" and "st \<noteq> PENDING"
  shows "orders_ok (set_status env i st db)"
proof -
  have keys: "map ord_id (orders (set_status env i st db)) = map ord_id (orders db)"
    "map ord_number (orders (set_status env i st db)) = map ord_number (orders db)"
    by (auto simp: set_status_def update_row_def)
  have "order_wf ord" if "ord \<in> set (orders (set_status env i st db))" for ord
    using that assms
    by (auto simp: set_status_def set_update_row orders_ok_def order_wf_def split: if_splits)
  then show ?thesis using assms keys by (simp add: orders_ok_def)
qed

text \<open>One request to the Order Service, in any state of the world, whatever the other services
  answer. Identifiers are fresh, as \<open>uuid4()\<close> makes them.\<close>

inductive order_step :: "order_db \<Rightarrow> order_db \<Rightarrow> bool" where
  creation: "env_ids env 0 \<notin> ord_id ` set (orders db) \<Longrightarrow>
    create_order_endpoint email_str env db body (sc :: world service_client) w = (r, db', w') \<Longrightarrow>
    order_step db db'"
| confirmation: "confirm_order_endpoint env db i = (r, db') \<Longrightarrow> order_step db db'"
| cancellation: "cancel_order_endpoint env db i (sc :: world service_client) w = (r, db', w') \<Longrightarrow>
    order_step db db'"

inductive order_reachable :: "order_db \<Rightarrow> bool" where
  start: "order_reachable \<lparr>orders = []\<rparr>"
| step: "order_reachable db \<Longrightarrow> order_step db db' \<Longrightarrow> order_reachable db'"

lemma create_endpoint_db:
  assumes "create_order_endpoint email_str env db body sc w = (r, db', w')"
  shows "db' = db \<or> (\<exists>request ord s'. validate_order_create email_str body = Some request
    \<and> create_order env db request sc w = (Inr ord, db', s'))"
  using assms
  by (auto simp: create_order_endpoint_def dest: create_order_Inl
      split: option.splits prod.splits sum.splits)

lemma confirm_endpoint_db:
  assumes "confirm_order_endpoint env db i = (r, db')"
  shows "\<exists>x. confirm_order env db i = (x, db')"
  using assms by (auto simp: confirm_order_endpoint_def split: prod.splits sum.splits)

lemma cancel_endpoint_db:
  assumes "cancel_order_endpoint env db i sc w = (r, db', w')"
  shows "\<exists>x. cancel_order env db i sc w = (x, db', w')"
  using assms by (auto simp: cancel_order_endpoint_def split: prod.splits sum.splits)

text \<open>A step adds one new well-formed order in front, or sets the status of one \<open>RESERVED\<close> order.\<close>

lemma order_step_shape:
  assumes "order_step db db'"
  obtains "db' = db"
    | (added) ord where "orders db' = ord # orders db" "order_wf ord" "ord_status ord = RESERVED"
        "ord_id ord \<notin> ord_id ` set (orders db)" "ord_number ord \<notin> ord_number ` set (orders db)"
    | (moved) env i st ord where "db' = set_status env i st db" "st = CONFIRMED \<or> st = CANCELLED"
        "load_order db i = Some ord" "ord_status ord = RESERVED"
  using assms
proof (cases rule: order_step.cases)
  case (creation env email_str body sc w r w')
  show ?thesis
  proof (cases "db' = db")
    case False
    with create_endpoint_db [OF creation(2)] obtain request ord s' where
      v: "validate_order_create email_str body = Some request"
      and run: "create_order env db request sc w = (Inr ord, db', s')" by blast
    note wf = create_order_wf [OF run v]
    show ?thesis
      using create_order_Inr [OF run] wf creation(1) by (intro that(2) [of ord]) (auto simp: image_iff)
  qed (rule that(1))
next
  case (confirmation env i r)
  from confirm_endpoint_db [OF confirmation(1)] obtain x where x: "confirm_order env db i = (x, db')" by blast
  from confirm_order_db [OF x] show ?thesis using that by blast
next
  case (cancellation env i sc w r w')
  from cancel_endpoint_db [OF cancellation(1)] obtain x where x: "cancel_order env db i sc w = (x, db', w')" by blast
  from cancel_order_db [OF x] show ?thesis using that by blast
qed

lemma order_step_ok:
  assumes "order_step db db'" and "orders_ok db"
  shows "orders_ok db'"
  using assms(1)
proof (cases rule: order_step_shape)
  case (moved env i st ord)
  then show ?thesis using set_status_ok [OF assms(2), of st env i] by auto
qed (use assms(2) in \<open>auto simp: orders_ok_def\<close>)

lemma reachable_orders_ok: "order_reachable db \<Longrightarrow> orders_ok db"
proof (induction rule: order_reachable.induct)
  case start
  show ?case by (simp add: orders_ok_def)
next
  case (step db db')
  then show ?case using order_step_ok by blast
qed

lemma order_step_transition:
  assumes "order_step db db'" and "load_order db i = Some ord"
  shows "\<exists>ord'. load_order db' i = Some ord' \<and> status_step (ord_status ord) (ord_status ord')
    \<and> ord' = ord\<lparr>ord_status := ord_status ord', ord_updated_at := ord_updated_at ord'\<rparr>"
  using assms(1)
proof (cases rule: order_step_shape)
  case 1
  then show ?thesis using assms(2) status_step.keep by auto
next
  case (added q)
  have "i \<in> ord_id ` set (orders db)"
    using assms(2) by (auto simp: load_order_def dest: find_row_SomeD)
  then have "ord_id q \<noteq> i" using added(4) by auto
  then show ?thesis using assms(2) added status_step.keep by (auto simp: load_order_def)
next
  case (moved env j st q)
  then show ?thesis using assms(2) status_step.keep
    by (cases "j = i") (auto simp: set_status_load)
qed

end
