(* ===== verification/Order_Liveness.thy ===== *)
theory Order_Liveness
  imports Order_Lifecycle
begin

text \<open>
  When the creation of an order succeeds: in a world where every call is answered, nobody else
  writes and no database fails, an order for active products of an active warehouse that has the
  stock is created and reserved.
\<close>

definition undisturbed :: "world \<Rightarrow> bool" where
  "undisturbed w \<longleftrightarrow> (\<forall>n. slot_others (w_schedule w n) = [] \<and> slot_event (w_schedule w n) = Deliver
     \<and> env_fault (slot_env (w_schedule w n)) = None)"

definition answered_now :: "world \<Rightarrow> bool" where
  "answered_now w \<longleftrightarrow> slot_others (w_schedule w (w_time w)) = []
     \<and> slot_event (w_schedule w (w_time w)) = Deliver"

lemma undisturbed_now [intro]: "undisturbed w \<Longrightarrow> answered_now w"
  by (simp add: undisturbed_def answered_now_def)

lemma undisturbed_before_call:
  "answered_now w \<Longrightarrow> before_call w = w\<lparr>w_time := Suc (w_time w)\<rparr>"
  by (simp add: answered_now_def before_call_def run_others_def)

lemma undisturbed_update [simp]:
  "undisturbed (w\<lparr>w_time := t\<rparr>) = undisturbed w"
  "undisturbed (w\<lparr>w_inventory := db\<rparr>) = undisturbed w"
  by (simp_all add: undisturbed_def)

lemma undisturbed_http:
  assumes "answered_now w"
  shows "platform_http req w = (let (r, w') = serve (slot_env (w_schedule w (w_time w)))
    (w\<lparr>w_time := Suc (w_time w)\<rparr>) req in (Inr r, w'))"
  using assms by (simp add: platform_http_def undisturbed_before_call)
    (simp add: answered_now_def Let_def)

section \<open>Lookups\<close>

definition offered :: "inventory_db \<Rightarrow> uuid \<Rightarrow> int \<Rightarrow> bool" where
  "offered db p price \<longleftrightarrow> (\<exists>q. get_product_by_id db p = Some q \<and> prod_is_active q
     \<and> product_response q \<noteq> None \<and> prod_unit_price q = price)"

lemma get_product_offered:
  assumes "answered_now w" and "offered (w_inventory w) p price"
  shows "get_product platform_settings platform_http p w =
    (Inr \<lparr>snap_product_id = p, snap_unit_price = Finite price (- 2)\<rparr>, w\<lparr>w_time := Suc (w_time w)\<rparr>)"
proof -
  obtain q q' where q: "get_product_by_id (w_inventory w) p = Some q" "prod_is_active q"
    "product_response q = Some q'" "prod_unit_price q = price"
    using assms(2) by (auto simp: offered_def)
  have q': "0 \<le> price" "prod_unit_price q' = price" "prod_is_active q'"
    using q by (auto simp: product_response_def split: if_splits option.splits)
  have get: "json_get ''is_active'' (product_json q') = Some (JBool True)"
    "json_get ''unit_price'' (product_json q') = Some (JStr (cents_text price))"
    "is_object (product_json q')"
    by (simp_all add: product_json_def json_get_def is_object_def q')
  have "get_product_endpoint (w_inventory w) p = Reply 200 q'"
    using q by (simp add: get_product_endpoint_def get_product_or_404_def respond_product_def)
  then show ?thesis
    using get q'(1)
    by (simp add: get_product_def client_request_def undisturbed_http [OF assms(1)]
        serve_product [simplified] to_response_def read_product_def is_success_def truthy_def
        py_str_def parse_cents_text)
qed

lemma verify_warehouse_active:
  assumes "answered_now w" and "get_warehouse (w_warehouses w) i = Inr q" and "wh_is_active q"
  shows "verify_warehouse platform_settings platform_http i w = (Inr (), w\<lparr>w_time := Suc (w_time w)\<rparr>)"
proof -
  have get: "json_get ''is_active'' (warehouse_json q) = Some (JBool True)"
    "is_object (warehouse_json q)"
    by (simp_all add: warehouse_json_def json_get_def is_object_def assms(3))
  show ?thesis
    using get assms(2)
    by (simp add: verify_warehouse_def client_request_def undisturbed_http [OF assms(1)]
        serve_warehouse [simplified] get_warehouse_endpoint_def to_response_def read_warehouse_def
        is_success_def truthy_def)
qed

section \<open>Building\<close>

definition order_price :: "(uuid \<Rightarrow> int) \<Rightarrow> order_item_create list \<Rightarrow> int" where
  "order_price price items = (\<Sum>i\<leftarrow>items. price (oi_product_id i) * oi_quantity i)"

lemma order_price_simps [simp]:
  "order_price price [] = 0"
  "order_price price (i # items) = price (oi_product_id i) * oi_quantity i + order_price price items"
  by (simp_all add: order_price_def)

lemma order_price_nonneg:
  "(\<And>i. i \<in> set items \<Longrightarrow> 0 \<le> price (oi_product_id i) \<and> 0 < oi_quantity i) \<Longrightarrow> 0 \<le> order_price price items"
  by (induction items) (auto simp: less_imp_le)

lemma price_line_ok:
  assumes "0 \<le> p" and "0 < q" and "p * q < 10 ^ 12"
  shows "price_line (Finite p (- 2)) q = Inr (p, p * q)"
proof -
  have "p * 1 \<le> p * q" using assms(1,2) by (intro mult_left_mono) simp_all
  then have "\<bar>p\<bar> < 10 ^ 28" "\<bar>p * q\<bar> < 10 ^ 28" using assms by simp_all
  then show ?thesis
    using assms(1)
    by (simp add: price_line_def decimal_step_def decimal_negative_def quantize_cents_id fits_context_def)
qed

lemma build_items_ok:
  assumes "undisturbed w" and "\<forall>i\<in>set items. offered (w_inventory w) (oi_product_id i) (price (oi_product_id i))
      \<and> 0 \<le> price (oi_product_id i) \<and> 0 < oi_quantity i \<and> int4 (oi_quantity i)"
    and "order_price price items < 10 ^ 12"
  shows "\<exists>is t. build_items env platform_client n items w = (Inr is, w\<lparr>w_time := t\<rparr>)
    \<and> sum_list (map item_line_total is) = order_price price items \<and> check_order_items is = Inr ()"
  using assms
proof (induction items arbitrary: n w)
  case Nil
  have "w = w\<lparr>w_time := w_time w\<rparr>" by simp
  then have "\<exists>t. w = w\<lparr>w_time := t\<rparr>" by blast
  then show ?case by simp
next
  case (Cons i items)
  let ?w = "w\<lparr>w_time := Suc (w_time w)\<rparr>" and ?p = "price (oi_product_id i)"
  have nonneg: "0 \<le> order_price price items" using Cons.prems(2) by (intro order_price_nonneg) auto
  have line: "0 \<le> ?p" "0 < oi_quantity i" "?p * oi_quantity i < 10 ^ 12"
    "order_price price items < 10 ^ 12"
    using Cons.prems nonneg by (auto simp: less_imp_le intro: add_nonneg_nonneg)
       (smt (verit) mult_nonneg_nonneg)+
  have unit: "?p < 10 ^ 12"
    using mult_left_mono [of 1 "oi_quantity i" ?p] line by simp
  have get: "get_product platform_settings platform_http (oi_product_id i) w =
      (Inr \<lparr>snap_product_id = oi_product_id i, snap_unit_price = Finite ?p (- 2)\<rparr>, ?w)"
    using Cons.prems by (intro get_product_offered) auto
  from Cons.IH [of ?w "Suc n"] Cons.prems line obtain "is" t where
    rest: "build_items env platform_client (Suc n) items ?w = (Inr is, w\<lparr>w_time := t\<rparr>)"
    "sum_list (map item_line_total is) = order_price price items" "check_order_items is = Inr ()"
    by auto
  show ?case
    using get rest line unit Cons.prems(2)
    by (auto simp: client_step_def price_line_ok check_order_item_def result_simps)
qed

section \<open>Reserving\<close>

lemma length_order_number: "length (generate_order_number i) = 36"
  by (simp add: generate_order_number_def)

lemma client_reserve_ok:
  assumes w: "undisturbed w" "ledger_ok (w_inventory w)" and known: "product_known (w_inventory w) (call_product_id c)"
    and c: "0 < call_quantity c" "call_quantity c \<le> available (w_inventory w) (call_key c)"
      "1 \<le> length (call_reference_id c)" "length (call_reference_id c) \<le> 100"
      "get_reference_reserved_quantity (w_inventory w) (call_key c) (call_reference_id c) = 0"
  shows "\<exists>db m t. client_reserve_stock platform_settings platform_http c w =
      (Inr (), w\<lparr>w_time := t, w_inventory := db\<rparr>) \<and> ledger_ok db
    \<and> stock_change (w_inventory w) (call_key c) m db \<and> mv_on_hand_delta m = 0"
proof -
  let ?env = "slot_env (w_schedule w (w_time w))"
  let ?rq = "wire_request c ''Order inventory reservation''"
  have valid: "valid_stock_reservation ?rq"
    using c by (simp add: valid_stock_reservation_def optional_length_def wire_request_def)
  have key: "rq_key ?rq = call_key c" by (simp add: call_key_def)
  have "env_fault ?env = None" using w(1) by (simp add: undisturbed_def)
  with reserve_stock_succeeds [OF ledger_okD(1) [OF w(2)] valid, of ?env] known c key
  obtain q db where q: "reserve_stock ?env (w_inventory w) ?rq = (Inr q, db)" by auto
  note ch = reserve_stock_change [OF q ledger_okD(1) [OF w(2)]]
  have "reserve_stock_endpoint ?env (w_inventory w) ?rq = (Reply 200 q, db)"
    using q valid by (simp add: reserve_stock_endpoint_def)
  then have "client_reserve_stock platform_settings platform_http c w =
      (Inr (), w\<lparr>w_time := Suc (w_time w), w_inventory := db\<rparr>)"
    by (simp add: client_reserve_stock_def client_request_def undisturbed_http [OF undisturbed_now [OF w(1)]]
        serve_reserve [simplified] to_response_success)
  then show ?thesis
    using ch key reserve_stock_ledger [OF q w(2) valid] by auto
qed

lemma reserve_all_ok:
  assumes "undisturbed w" and "ledger_ok (w_inventory w)"
    and "\<forall>l\<in>set ls. product_known (w_inventory w) (line_product_id l) \<and> 0 < line_quantity l
      \<and> line_quantity l \<le> available (w_inventory w) (line_product_id l, wh)
      \<and> get_reference_reserved_quantity (w_inventory w) (line_product_id l, wh) ref = 0"
    and "distinct (map line_product_id ls)" and "1 \<le> length ref" and "length ref \<le> 100"
  shows "\<exists>w'. each_line (sc_reserve_stock platform_client) wh ref ls acc w = ((None, acc @ ls), w')"
  using assms(1-4)
proof (induction ls arbitrary: acc w)
  case Nil
  then show ?case by simp
next
  case (Cons l ls)
  let ?c = "line_call wh ref l"
  have fields: "call_product_id ?c = line_product_id l" "call_key ?c = (line_product_id l, wh)"
    "call_quantity ?c = line_quantity l" "call_reference_id ?c = ref"
    by (simp_all add: line_call_def call_key_def)
  from client_reserve_ok [OF Cons.prems(1,2), of ?c] Cons.prems(3) assms(5,6) fields
  obtain db m t where r: "client_reserve_stock platform_settings platform_http ?c w =
      (Inr (), w\<lparr>w_time := t, w_inventory := db\<rparr>)" and db: "ledger_ok db"
    and ch: "stock_change (w_inventory w) (line_product_id l, wh) m db" "mv_on_hand_delta m = 0"
    by auto
  have key: "mv_key m = (line_product_id l, wh)" using ch(1) by (auto simp: stock_change_def)
  have other: "\<forall>j\<in>set ls. line_product_id j \<noteq> line_product_id l"
    using Cons.prems(4) by (metis distinct.simps(2) image_eqI list.set_map list.simps(9))
  have "\<forall>j\<in>set ls. product_known db (line_product_id j) \<and> 0 < line_quantity j
      \<and> line_quantity j \<le> available db (line_product_id j, wh)
      \<and> get_reference_reserved_quantity db (line_product_id j, wh) ref = 0"
    using Cons.prems(3) other key
    by (auto simp: available_def stock_change_views [OF ch(1)] product_known_def reservation_row_def)
  with Cons.IH [of "w\<lparr>w_time := t, w_inventory := db\<rparr>" "acc @ [l]"] Cons.prems db r
  show ?case by simp
qed

section \<open>Creating\<close>

lemma create_order_succeeds:
  assumes w: "undisturbed w" "ledger_ok (w_inventory w)"
    and wh: "get_warehouse (w_warehouses w) (oc_warehouse_id request) = Inr q" "wh_is_active q"
    and items: "\<forall>i\<in>set (oc_items request). offered (w_inventory w) (oi_product_id i) (price (oi_product_id i))
      \<and> 0 \<le> price (oi_product_id i) \<and> 0 < oi_quantity i \<and> int4 (oi_quantity i)
      \<and> oi_quantity i \<le> available (w_inventory w) (oi_product_id i, oc_warehouse_id request)
      \<and> get_reference_reserved_quantity (w_inventory w) (oi_product_id i, oc_warehouse_id request)
          (generate_order_number (env_ids env 0)) = 0"
    and total: "order_price price (oc_items request) < 10 ^ 12"
    and dist: "distinct (map oi_product_id (oc_items request))"
    and fields: "length (oc_customer_name request) \<le> 150" "length (oc_customer_email request) \<le> 320"
    and fresh: "\<forall>o'\<in>set (orders db). ord_number o' \<noteq> generate_order_number (env_ids env 0)"
    and faults: "env_flush_fault env = None" "env_fault env = None"
  shows "\<exists>ord db' w'. create_order env db request platform_client w = (Inr ord, db', w')
    \<and> ord_total_amount ord = order_price price (oc_items request)"
proof -
  let ?ref = "generate_order_number (env_ids env 0)" and ?w = "w\<lparr>w_time := Suc (w_time w)\<rparr>"
  from build_items_ok [of ?w "oc_items request" price env 1] w(1) items total obtain "is" t where
    b: "build_items env platform_client 1 (oc_items request) ?w = (Inr is, w\<lparr>w_time := t\<rparr>)"
    "sum_list (map item_line_total is) = order_price price (oc_items request)"
    "check_order_items is = Inr ()" by auto
  have nonneg: "0 \<le> order_price price (oc_items request)"
    using items by (intro order_price_nonneg) auto
  define ord where "ord = \<lparr>ord_id = env_ids env 0, ord_number = ?ref,
    ord_customer_name = oc_customer_name request, ord_customer_email = oc_customer_email request,
    ord_warehouse_id = oc_warehouse_id request, ord_status = PENDING,
    ord_total_amount = order_price price (oc_items request), ord_items = is,
    ord_created_at = env_now env, ord_updated_at = env_now env\<rparr>"
  have "\<bar>order_price price (oc_items request)\<bar> < 10 ^ 28" using nonneg total by simp
  then have build: "build_order env request platform_client w =
      (Inr (ord, map line_of (oc_items request)), w\<lparr>w_time := t\<rparr>)"
    using b verify_warehouse_active [OF undisturbed_now [OF w(1)] wh]
    by (simp add: build_order_def client_step_def decimal_step_def fits_context_def ord_def Let_def)
  have check: "check_order db ord = Inr ()"
    using nonneg total fields fresh b(3) length_order_number [of "env_ids env 0"]
    by (simp add: check_order_def ord_def)
  have lines: "\<forall>l\<in>set (map line_of (oc_items request)).
      product_known (w_inventory w) (line_product_id l) \<and> 0 < line_quantity l
      \<and> line_quantity l \<le> available (w_inventory w) (line_product_id l, oc_warehouse_id request)
      \<and> get_reference_reserved_quantity (w_inventory w) (line_product_id l, oc_warehouse_id request) ?ref = 0"
    using items by (auto simp: line_of_def offered_def product_known_def get_product_by_id_def)
  have "distinct (map line_product_id (map line_of (oc_items request)))"
    using dist by (simp add: comp_def line_of_def)
  with reserve_all_ok [of "w\<lparr>w_time := t\<rparr>" "map line_of (oc_items request)" "oc_warehouse_id request" ?ref "[]"]
    w lines length_order_number [of "env_ids env 0"]
  obtain w' where "each_line (sc_reserve_stock platform_client) (oc_warehouse_id request) ?ref
      (map line_of (oc_items request)) [] (w\<lparr>w_time := t\<rparr>) = ((None, map line_of (oc_items request)), w')"
    by auto
  then show ?thesis
    using build check faults
    by (auto simp: create_order_def ord_def require_order_def load_order_def insert_order_def Let_def)
qed

end
