(* ===== verification/Order_Claims.thy ===== *)
theory Order_Claims
  imports Order_Liveness Product_Claims Warehouse_Correct
begin

text \<open>
  The properties of the Order Service: the saga over the wired platform, the orders it stores and
  their life cycle, with a small platform on which their hypotheses hold. What a lost reply
  and a deleted product do is shown at the end.
\<close>

section \<open>A small platform\<close>

definition demo_order_env :: env where
  "demo_order_env = demo_env\<lparr>env_ids := (\<lambda>n. 100 + of_nat n)\<rparr>"

definition demo_world :: world where
  "demo_world = \<lparr>w_inventory = demo_stocked,
     w_warehouses = demo_warehouses (demo_env\<lparr>env_ids := (\<lambda>n. 7 + of_nat n)\<rparr>), w_time = 0,
     w_schedule = (\<lambda>n. \<lparr>slot_others = [], slot_event = Deliver, slot_env = demo_env\<rparr>)\<rparr>"

definition demo_order :: order_create where
  "demo_order = \<lparr>oc_customer_name = ''Ada'', oc_customer_email = ''ada@example.org'',
     oc_warehouse_id = 7, oc_items = [\<lparr>oi_product_id = 0, oi_quantity = 4\<rparr>]\<rparr>"

lemma demo_order_valid: "validate_order_create Some demo_order = Some demo_order"
  by (simp add: validate_order_create_def demo_order_def strip_def lstrip_def rstrip_def is_space_def
      Let_def)

lemma demo_stocked_known: "products_known demo_stocked"
proof -
  from demo_receive obtain r where r: "receive_stock demo_env demo_catalog (demo_change 10) =
      (Inr r, demo_stocked)" ..
  have rows: "rows_ok demo_catalog" by (simp add: rows_ok_def demo_catalog_eq)
  have "products_known demo_catalog" by (simp add: products_known_def demo_catalog_eq)
  then show ?thesis
    using run_call_known [of demo_env demo_catalog "Receive (demo_change 10)" "()"] r rows
      demo_requests_valid(1) [of 10] by simp
qed

lemma demo_world_calm: "world_calm (generate_order_number i) ps demo_world"
  using reachable_ledger [OF demo_stocked_reachable] demo_stocked_known
  by (simp add: world_calm_def world_ok_def demo_world_def quiet_def length_order_number demo_env_def)

lemma demo_world_ok: "world_ok (generate_order_number i) ps demo_world"
  using demo_world_calm [of i ps] by (simp add: world_calm_def)

lemma demo_stocked_products: "products demo_stocked = products demo_catalog"
proof -
  from demo_receive obtain r where r: "receive_stock demo_env demo_catalog (demo_change 10) =
      (Inr r, demo_stocked)" ..
  have "rows_ok demo_catalog" by (simp add: rows_ok_def demo_catalog_eq)
  from run_call_products [OF _ _ this, of demo_env "Receive (demo_change 10)"] r
    demo_requests_valid(1) [of 10] show ?thesis by simp
qed

lemma demo_offered: "offered demo_stocked 0 250"
proof -
  let ?q = "hd (products demo_catalog)"
  have "product_response ?q = Some ?q"
    by (simp add: demo_catalog_eq product_response_def optional_length_def demo_normalized)
  then show ?thesis
    by (auto simp: offered_def get_product_by_id_def demo_stocked_products demo_catalog_eq)
qed

lemma demo_create:
  "\<exists>ord db' w'. create_order_endpoint Some demo_order_env \<lparr>orders = []\<rparr> demo_order platform_client
      demo_world = (Reply 201 ord, db', w') \<and> ord_total_amount ord = 1000"
proof -
  obtain q where "get_warehouse (w_warehouses demo_world) 7 = Inr q" "wh_is_active q"
    by (auto simp: get_warehouse_def demo_world_def demo_warehouses_eq demo_env_def)
  from create_order_succeeds [of demo_world demo_order q "\<lambda>_. 250" demo_order_env "\<lparr>orders = []\<rparr>"] this
  obtain ord db' w' where "create_order demo_order_env \<lparr>orders = []\<rparr> demo_order platform_client demo_world =
      (Inr ord, db', w')" "ord_total_amount ord = 1000"
    using reachable_ledger [OF demo_stocked_reachable] demo_offered
    by (auto simp: undisturbed_def demo_order_def demo_order_env_def demo_world_def demo_env_def
        available_def demo_stocked_views int4_def)
  then show ?thesis by (auto simp: create_order_endpoint_def demo_order_valid)
qed

section \<open>Creation and cancellation\<close>

text \<open>The products an order request and a stored order are about.\<close>

definition requested_products :: "order_create \<Rightarrow> uuid set" where
  "requested_products body = oi_product_id ` set (oc_items body)"

definition ordered_products :: "order \<Rightarrow> uuid set" where
  "ordered_products ord = item_product_id ` set (ord_items ord)"

lemma demo_products [simp]:
  "requested_products demo_order = {0}"
  "requested_products (demo_order\<lparr>oc_warehouse_id := i\<rparr>) = {0}"
  by (simp_all add: requested_products_def demo_order_def)

lemma ordered_products_lines:
  "ordered_products ord = line_product_id ` set (map item_line (ord_items ord))"
  by (simp add: ordered_products_def image_image item_line_def)

lemma compensation_502:
  "create_order_status e = 502 \<longleftrightarrow> is_compensation_error e"
  "cancel_order_status e = 502 \<longleftrightarrow> is_compensation_error e"
  by (auto simp: create_order_status_def cancel_order_status_def
      split: order_error.splits client_error.splits)

lemma create_endpoint_result:
  assumes "create_order_endpoint email_str env db body sc w = (r, db', w')"
  obtains "r = HTTPException 422 (JStr ''Unprocessable Entity'')" "db' = db" "w' = w"
    | (created) request ord where "validate_order_create email_str body = Some request"
        "create_order env db request sc w = (Inr ord, db', w')" "r = Reply 201 ord"
    | (failed) request e where "validate_order_create email_str body = Some request"
        "create_order env db request sc w = (Inl e, db', w')"
        "r = HTTPException (create_order_status e) (JStr (order_error_text e))"
  using assms
  by (auto simp: create_order_endpoint_def unprocessable_def split: option.splits prod.splits sum.splits)

lemma valid_order_positive:
  "validate_order_create email_str body = Some request \<Longrightarrow>
    \<forall>i\<in>set (oc_items request). oi_product_id i \<in> requested_products body \<and> 0 < oi_quantity i"
  by (auto simp: validate_order_create_def requested_products_def Let_def split: if_splits)

text \<open>C1: creating an order is all or nothing over the services it calls, under three conditions on what
  happens meanwhile: no reply of the Inventory or Warehouse Service is lost (a lost request is
  allowed), nobody else reserves or releases under the order's reference, and nobody deletes a
  product of the order. A lost reply is any call that is handled without the Order Service learning it:
  also one handled after the timeout, or one whose service fails behind its commit; and a failing
  commit of any database is one that has not taken place. Then, whatever the services answer, whatever their databases do and whatever
  other users do in between: a reply 201 stores exactly one order, \<open>RESERVED\<close>, and its reference
  holds exactly the order's lines more; any error but 502 leaves the orders, and what the reference
  holds of the order's products, as they were; and 502 is the only answer that leaves reservations
  behind. (The inventory starts with its ledger invariant and its foreign keys intact, as every
  reachable one does. What a lost reply does is C9.)\<close>

theorem create_order_all_or_nothing:
  assumes "world_ok (generate_order_number (env_ids env 0)) (requested_products body) w"
    and "create_order_endpoint email_str env db body platform_client w = (r, db', w')"
  shows "case r of
      Reply code ord \<Rightarrow> code = 201 \<and> ord_status ord = RESERVED \<and> orders db' = ord # orders db
        \<and> ord_number ord = generate_order_number (env_ids env 0)
        \<and> (\<forall>k. held_of (requested_products body) (ord_number ord) w' k =
             held_of (requested_products body) (ord_number ord) w k
             + lines_total (ord_warehouse_id ord) (map item_line (ord_items ord)) k)
    | HTTPException code d \<Rightarrow> code \<noteq> 502 \<longrightarrow> db' = db
        \<and> held_of (requested_products body) (generate_order_number (env_ids env 0)) w' =
          held_of (requested_products body) (generate_order_number (env_ids env 0)) w"
  using assms(2)
proof (cases rule: create_endpoint_result)
  case 1
  then show ?thesis by simp
next
  case (created request ord)
  note wf = create_order_wf [OF created(2,1)]
  have num: "ord_number ord = generate_order_number (env_ids env 0)"
    using wf(1,3) by (simp add: order_wf_def)
  note pos = valid_order_positive [OF created(1)]
  note after = platform.create_order_success [OF created(2) assms(1) refl pos]
  have "held_of (requested_products body) (ord_number ord) w' k =
      held_of (requested_products body) (ord_number ord) w k
      + lines_total (ord_warehouse_id ord) (map item_line (ord_items ord)) k" for k
    using after(4) [of k] wf(4,5) num by simp
  then show ?thesis using created(3) after(2,3) num by simp
next
  case (failed request e)
  note pos = valid_order_positive [OF failed(1)]
  show ?thesis
    using platform.create_order_failure [OF failed(2) assms(1) refl pos] compensation_502 failed(3)
    by simp
qed

lemma create_order_all_or_nothing_witness:
  "\<exists>ord db' w'. create_order_endpoint Some demo_order_env \<lparr>orders = []\<rparr> demo_order platform_client
      demo_world = (Reply 201 ord, db', w') \<and> orders db' = [ord] \<and> ord_status ord = RESERVED"
proof -
  from demo_create obtain ord db' w' where run: "create_order_endpoint Some demo_order_env
      \<lparr>orders = []\<rparr> demo_order platform_client demo_world = (Reply 201 ord, db', w')" by blast
  from create_order_all_or_nothing [OF demo_world_ok run] run show ?thesis by auto
qed

text \<open>C2: compensation never fails by itself: when every call is answered, no database of the other
  services fails, nobody else reserves or releases under the order's reference and nobody deletes a
  product of the order meanwhile (the Order Service's own commit may fail, without taking place), no
  creation is answered 502, so every failed creation leaves no
  reservation of the order's products behind, wherever in the sequence of its reservations it
  failed. (A product deleted between its reservation and the compensation makes the release
  answer 404 and the creation 502.)\<close>

theorem create_order_compensates:
  assumes "world_calm (generate_order_number (env_ids env 0)) (requested_products body) w"
    and "create_order_endpoint email_str env db body platform_client w = (HTTPException code d, db', w')"
  shows "code \<noteq> 502 \<and> db' = db
    \<and> held_of (requested_products body) (generate_order_number (env_ids env 0)) w' =
      held_of (requested_products body) (generate_order_number (env_ids env 0)) w"
  using assms(2)
proof (cases rule: create_endpoint_result)
  case (failed request e)
  note pos = valid_order_positive [OF failed(1)]
  have "\<not> is_compensation_error e"
    by (rule calm_platform.create_order_never_stuck [OF failed(2) assms(1) refl pos])
  then show ?thesis
    using calm_platform.create_order_failure [OF failed(2) assms(1) refl pos] compensation_502 failed(3)
    by simp
qed simp_all

lemma demo_unknown_warehouse:
  "create_order_endpoint Some demo_order_env db (demo_order\<lparr>oc_warehouse_id := 9\<rparr>) platform_client
     demo_world = (HTTPException 404 (JStr (''Warehouse '' @ CHR 39 # str_uuid 9 @ CHR 39 #
       '' was not found'')), db, demo_world\<lparr>w_time := 1\<rparr>)"
proof -
  have w: "undisturbed demo_world" by (simp add: undisturbed_def demo_world_def demo_env_def)
  have "get_warehouse (w_warehouses demo_world) 9 = Inl (WarehouseNotFoundError 9)"
    by (simp add: get_warehouse_def demo_world_def demo_warehouses_eq demo_env_def)
  moreover have "w_time demo_world = 0" by (simp add: demo_world_def)
  ultimately have "verify_warehouse platform_settings platform_http 9 demo_world =
      (Inl (WarehouseUnavailableError (''Warehouse '' @ CHR 39 # str_uuid 9 @ CHR 39 #
         '' was not found'')), demo_world\<lparr>w_time := 1\<rparr>)"
    by (simp add: verify_warehouse_def client_request_def undisturbed_http [OF undisturbed_now [OF w]]
        serve_warehouse [simplified] get_warehouse_endpoint_def to_response_def read_warehouse_def)
  moreover have "validate_order_create Some (demo_order\<lparr>oc_warehouse_id := 9\<rparr>) =
      Some (demo_order\<lparr>oc_warehouse_id := 9\<rparr>)"
    by (simp add: validate_order_create_def demo_order_def strip_def lstrip_def rstrip_def
        is_space_def Let_def)
  ultimately show ?thesis
    by (simp add: create_order_endpoint_def create_order_def build_order_def client_step_def
        create_order_status_def order_error_text_def client_error_text_def)
qed

lemma create_order_compensates_witness:
  "\<exists>d w'. create_order_endpoint Some demo_order_env \<lparr>orders = []\<rparr> (demo_order\<lparr>oc_warehouse_id := 9\<rparr>)
      platform_client demo_world = (HTTPException 404 d, \<lparr>orders = []\<rparr>, w')
    \<and> held_of {0} (generate_order_number 100) w' = held_of {0} (generate_order_number 100) demo_world"
proof -
  have "env_ids demo_order_env 0 = 100" by (simp add: demo_order_env_def)
  then show ?thesis
    using create_order_compensates [of demo_order_env, OF demo_world_calm
        demo_unknown_warehouse [of "\<lparr>orders = []\<rparr>"]]
      demo_unknown_warehouse [of "\<lparr>orders = []\<rparr>"] by auto
qed

lemma stored_order_lines:
  assumes "orders_ok db" and "load_order db i = Some ord"
  shows "order_wf ord" 
    and "positive_lines (ordered_products ord) (map item_line (ord_items ord))"
proof -
  show wf: "order_wf ord"
    using assms by (auto simp: orders_ok_def load_order_def dest: find_row_SomeD)
  show "positive_lines (ordered_products ord) (map item_line (ord_items ord))"
    using wf
    by (auto simp: order_wf_def item_wf_def positive_lines_def item_line_def ordered_products_def)
qed

text \<open>C6: cancelling a stored order is all or nothing as well, under the conditions of C1 for the
  order's reference and products: no reply is lost, nobody else reserves or releases under the
  reference, nobody deletes a product of the order meanwhile, and a failing commit has not taken place. A reply 200 answers a cancelled order;
  if the order was \<open>RESERVED\<close>, its reference holds exactly the order's lines less, and otherwise it
  was cancelled before and nothing was called. Any error but 502 leaves the orders, and what the
  reference holds of the order's products, as they were. (With the reply of a release lost, the
  cancellation answers 503 although that line has been released.)\<close>

theorem cancel_order_all_or_nothing:
  assumes "order_reachable db" and "load_order db i = Some ord" and "world_ok (ord_number ord) (ordered_products ord) w"
    and "cancel_order_endpoint env db i platform_client w = (r, db', w')"
  shows "case r of
      Reply code ord' \<Rightarrow> code = 200 \<and> ord_status ord' = CANCELLED \<and>
        (if ord_status ord = RESERVED
         then \<forall>k. held_of (ordered_products ord) (ord_number ord) w' k =
                held_of (ordered_products ord) (ord_number ord) w k
                - lines_total (ord_warehouse_id ord) (map item_line (ord_items ord)) k
         else ord_status ord = CANCELLED \<and> db' = db \<and> w' = w)
    | HTTPException code d \<Rightarrow> code \<noteq> 502 \<longrightarrow> db' = db
        \<and> held_of (ordered_products ord) (ord_number ord) w' =
          held_of (ordered_products ord) (ord_number ord) w"
proof -
  note stored = stored_order_lines [OF reachable_orders_ok [OF assms(1)] assms(2)]
  have one: "\<And>q. load_order db i = Some q \<Longrightarrow> ord_number q = ord_number ord \<and>
      positive_lines (ordered_products ord) (map item_line (ord_items q))"
    using assms(2) stored(2) by simp
  show ?thesis
  proof (cases r)
    case (Reply code ord')
    then have run: "cancel_order env db i platform_client w = (Inr ord', db', w')" and "code = 200"
      using assms(4) by (auto simp: cancel_order_endpoint_def split: prod.splits sum.splits)
    show ?thesis
    proof (cases "ord_status ord = RESERVED")
      case True
      note after = platform.cancel_order_success [OF run assms(3,2) True refl stored(2)]
      then show ?thesis using True Reply \<open>code = 200\<close> by simp
    next
      case False
      then have "ord_status ord = CANCELLED \<and> ord' = ord \<and> db' = db \<and> w' = w"
        using run assms(2) by (auto simp: cancel_order_def require_order_def split: if_splits)
      then show ?thesis using False Reply \<open>code = 200\<close> by simp
    qed
  next
    case (HTTPException code d)
    then obtain e where run: "cancel_order env db i platform_client w = (Inl e, db', w')"
      and "code = cancel_order_status e"
      using assms(4) by (auto simp: cancel_order_endpoint_def split: prod.splits sum.splits)
    with platform.cancel_order_failure [OF run assms(3) one] compensation_502 HTTPException
    show ?thesis by simp
  qed
qed

definition demo_orders :: order_db where
  "demo_orders = fst (snd (create_order_endpoint Some demo_order_env \<lparr>orders = []\<rparr> demo_order
     platform_client demo_world))"

definition demo_world_reserved :: world where
  "demo_world_reserved = snd (snd (create_order_endpoint Some demo_order_env \<lparr>orders = []\<rparr> demo_order
     platform_client demo_world))"

lemma demo_created:
  "\<exists>ord. create_order_endpoint Some demo_order_env \<lparr>orders = []\<rparr> demo_order platform_client demo_world =
     (Reply 201 ord, demo_orders, demo_world_reserved)
   \<and> orders demo_orders = [ord] \<and> ord_status ord = RESERVED \<and> ord_id ord = 100
   \<and> ord_number ord = generate_order_number 100
   \<and> order_reachable demo_orders \<and> world_calm (ord_number ord) (ordered_products ord) demo_world_reserved
   \<and> ordered_products ord = {0} \<and> ord_warehouse_id ord = 7
   \<and> map item_line (ord_items ord) = [\<lparr>line_product_id = 0, line_quantity = 4\<rparr>]
   \<and> world_held (ord_number ord) demo_world_reserved (0, 7) = 4"
proof -
  from demo_create obtain ord db' w' where run: "create_order_endpoint Some demo_order_env
      \<lparr>orders = []\<rparr> demo_order platform_client demo_world = (Reply 201 ord, db', w')" by blast
  then have co: "create_order demo_order_env \<lparr>orders = []\<rparr> demo_order platform_client demo_world =
      (Inr ord, db', w')"
    by (auto simp: create_order_endpoint_def demo_order_valid split: prod.splits sum.splits)
  have ids: "env_ids demo_order_env 0 = 100" by (simp add: demo_order_env_def)
  note wf = create_order_wf [OF co demo_order_valid]
  have num: "ord_number ord = generate_order_number 100"
    using wf(1,3) ids by (simp add: order_wf_def)
  note pos = valid_order_positive [OF demo_order_valid]
  note after = calm_platform.create_order_success [OF co demo_world_calm refl pos]
  have "world_held (ord_number ord) demo_world k = 0" for k
    by (simp add: world_held_def demo_world_def demo_stocked_views)
  then have "world_held (ord_number ord) w' (0, 7) = 4"
    using after(4) [of "(0, 7)"] num ids by simp (simp add: demo_order_def line_of_def)
  moreover have lines: "map item_line (ord_items ord) = [\<lparr>line_product_id = 0, line_quantity = 4\<rparr>]"
    unfolding wf(5) by (simp add: demo_order_def line_of_def)
  moreover have "ordered_products ord = {0}" unfolding ordered_products_lines lines by simp
  moreover have "ord_warehouse_id ord = 7" unfolding wf(4) by (simp add: demo_order_def)
  moreover have "order_reachable db'"
    using order_reachable.step [OF order_reachable.start order_step.creation [OF _ run]] by simp
  ultimately show ?thesis
    using run after wf num ids by (auto simp: demo_orders_def demo_world_reserved_def)
qed

lemma cancel_order_all_or_nothing_witness:
  "\<exists>ord' db' w'. cancel_order_endpoint demo_order_env demo_orders 100 platform_client demo_world_reserved =
      (Reply 200 ord', db', w') \<and> ord_status ord' = CANCELLED
    \<and> world_held (generate_order_number 100) demo_world_reserved (0, 7) = 4
    \<and> world_held (generate_order_number 100) w' (0, 7) = 0"
proof -
  obtain ord where ord: "orders demo_orders = [ord]" "ord_status ord = RESERVED"
    "ord_id ord = 100" "ord_number ord = generate_order_number 100" "order_reachable demo_orders"
    "world_calm (ord_number ord) (ordered_products ord) demo_world_reserved" "ordered_products ord = {0}"
    "world_held (ord_number ord) demo_world_reserved (0, 7) = 4" "ord_warehouse_id ord = 7"
    "map item_line (ord_items ord) = [\<lparr>line_product_id = 0, line_quantity = 4\<rparr>]"
    using demo_created by (elim exE conjE) (rule that; assumption)
  have load: "load_order demo_orders 100 = Some ord" using ord by (simp add: load_order_def)
  have ok: "world_ok (ord_number ord) (ordered_products ord) demo_world_reserved" using ord by (simp add: world_calm_def)
  note lines = stored_order_lines(2) [OF reachable_orders_ok [OF ord(5)] load]
  have covered: "lines_total (ord_warehouse_id ord) (map item_line (ord_items ord)) k \<le>
      held_of (ordered_products ord) (ord_number ord) demo_world_reserved k" for k
    using calm_platform.held_nonneg [OF ord(6), of k] ord(7-10) by (cases k) auto
  have "env_fault demo_order_env = None" by (simp add: demo_order_env_def demo_env_def)
  from calm_platform.cancel_order_possible [OF ord(6) load ord(2) refl lines covered this]
  obtain ord' db' w' where "cancel_order demo_order_env demo_orders 100 platform_client demo_world_reserved =
      (Inr ord', db', w')" by blast
  then have run: "cancel_order_endpoint demo_order_env demo_orders 100 platform_client demo_world_reserved =
      (Reply 200 ord', db', w')" by (simp add: cancel_order_endpoint_def)
  have "ord_status ord' = CANCELLED" and "held_of (ordered_products ord) (ord_number ord) w' (0, 7) =
      held_of (ordered_products ord) (ord_number ord) demo_world_reserved (0, 7)
      - lines_total (ord_warehouse_id ord) (map item_line (ord_items ord)) (0, 7)"
    using cancel_order_all_or_nothing [OF ord(5) load ok run] ord(2) by simp_all
  then show ?thesis using run ord by auto
qed

text \<open>C7: when every call is answered, no database fails, nobody else reserves or releases under the
  order's reference and nobody deletes a product of the order during the two requests, an order that
  was created can be cancelled, and then its reference holds of the order's products what it held
  before the creation. (Once a product of the order is deleted, the order can no longer be
  cancelled: \<open>deleted_product_blocks_cancellation\<close>.)\<close>

theorem create_then_cancel:
  assumes "world_calm (generate_order_number (env_ids env 0)) (requested_products body) w"
    and "env_ids env 0 \<notin> ord_id ` set (orders db)"
    and "create_order_endpoint email_str env db body platform_client w = (Reply code ord, db1, w1)"
    and "env_fault env' = None"
  shows "\<exists>ord' db2 w2. cancel_order_endpoint env' db1 (ord_id ord) platform_client w1 =
      (Reply 200 ord', db2, w2) \<and> ord_status ord' = CANCELLED
    \<and> held_of (requested_products body) (ord_number ord) w2 =
      held_of (requested_products body) (ord_number ord) w"
  using assms(3)
proof (cases rule: create_endpoint_result)
  case (created request q)
  then have run: "create_order env db request platform_client w = (Inr ord, db1, w1)" by simp
  note wf = create_order_wf [OF run created(1)]
  have num: "ord_number ord = generate_order_number (env_ids env 0)"
    using wf(1,3) by (simp add: order_wf_def)
  note pos = valid_order_positive [OF created(1)]
  note after = calm_platform.create_order_success [OF run assms(1) refl pos]
  let ?ls = "map item_line (ord_items ord)"
  have held: "held_of (requested_products body) (ord_number ord) w1 k = held_of (requested_products body) (ord_number ord) w k
      + lines_total (ord_warehouse_id ord) ?ls k" for k
    using after(4) [of k] wf(4,5) num by simp
  have calm: "world_calm (ord_number ord) (requested_products body) w1" using after(1) num by simp
  have nonneg: "0 \<le> held_of (requested_products body) (ord_number ord) w k" for k
    using calm_platform.held_nonneg [OF assms(1)] num by simp
  have load: "load_order db1 (ord_id ord) = Some ord" using after(3) by (simp add: load_order_def)
  have lines: "positive_lines (requested_products body) ?ls"
    using wf(5) pos by (simp add: positive_request_lines)
  from calm_platform.cancel_order_possible [OF calm load after(2) refl lines _ assms(4)]
  obtain ord' db2 w2 where c: "cancel_order env' db1 (ord_id ord) platform_client w1 = (Inr ord', db2, w2)"
    using held nonneg by auto
  note undone = calm_platform.cancel_order_success [OF c calm load after(2) refl lines]
  have "held_of (requested_products body) (ord_number ord) w2 k = held_of (requested_products body) (ord_number ord) w k" for k
    using undone(3) [of k] held [of k] by simp
  then show ?thesis using c undone(2) by (auto simp: cancel_order_endpoint_def)
qed simp_all

lemma create_then_cancel_witness:
  "\<exists>ord' db2 w2. cancel_order_endpoint demo_order_env demo_orders 100 platform_client
      demo_world_reserved = (Reply 200 ord', db2, w2)
    \<and> held_of {0} (generate_order_number 100) w2 = held_of {0} (generate_order_number 100) demo_world"
proof -
  from demo_created obtain ord where ord: "create_order_endpoint Some demo_order_env \<lparr>orders = []\<rparr>
      demo_order platform_client demo_world = (Reply 201 ord, demo_orders, demo_world_reserved)"
    "ord_id ord = 100" "ord_number ord = generate_order_number 100" by blast
  show ?thesis
    using create_then_cancel [of demo_order_env, OF demo_world_calm _ ord(1), of demo_order_env] ord(2,3)
    by (auto simp: demo_order_env_def demo_env_def)
qed

section \<open>When creation succeeds\<close>

text \<open>C8: an order is accepted whenever it can be: if its warehouse is active, its products are active with
  a price, their available stock covers the quantities, its reference is new, the total fits its
  column and no call or database fails, creation answers 201 with the sum of price times quantity.\<close>

theorem create_order_accepts:
  assumes "undisturbed w" and "ledger_ok (w_inventory w)"
    and "validate_order_create email_str body = Some request"
    and "get_warehouse (w_warehouses w) (oc_warehouse_id request) = Inr q" and "wh_is_active q"
    and "\<forall>i\<in>set (oc_items request).
        offered (w_inventory w) (oi_product_id i) (price (oi_product_id i))
      \<and> 0 \<le> price (oi_product_id i)
      \<and> oi_quantity i \<le> available (w_inventory w) (oi_product_id i, oc_warehouse_id request)
      \<and> get_reference_reserved_quantity (w_inventory w) (oi_product_id i, oc_warehouse_id request)
          (generate_order_number (env_ids env 0)) = 0"
    and "order_price price (oc_items request) < 10 ^ 12" and "length (oc_customer_email request) \<le> 320"
    and "\<forall>o'\<in>set (orders db). ord_number o' \<noteq> generate_order_number (env_ids env 0)"
    and "env_flush_fault env = None" and "env_fault env = None"
  shows "\<exists>ord db' w'. create_order_endpoint email_str env db body platform_client w = (Reply 201 ord, db', w')
    \<and> ord_total_amount ord = order_price price (oc_items request)"
proof -
  have bounds: "\<forall>i\<in>set (oc_items request). 0 < oi_quantity i \<and> oi_quantity i \<le> 1000000"
    and req: "distinct (map oi_product_id (oc_items request))" "length (oc_customer_name request) \<le> 150"
    using assms(3) by (auto simp: validate_order_create_def Let_def split: if_splits)
  have "int4 q" if "0 < q" "q \<le> 1000000" for q using that by (simp add: int4_def)
  with bounds have req1: "\<forall>i\<in>set (oc_items request). 0 < oi_quantity i \<and> int4 (oi_quantity i)" by blast
  from create_order_succeeds [OF assms(1,2,4,5) _ assms(7) req(1,2) assms(8-11)] assms(6) req1
  obtain ord db' w' where "create_order env db request platform_client w = (Inr ord, db', w')"
    "ord_total_amount ord = order_price price (oc_items request)" by blast
  then show ?thesis using assms(3) by (auto simp: create_order_endpoint_def)
qed

lemma create_order_accepts_witness:
  "\<exists>ord db' w'. create_order_endpoint Some demo_order_env \<lparr>orders = []\<rparr> demo_order platform_client
      demo_world = (Reply 201 ord, db', w') \<and> ord_total_amount ord = 1000"
proof -
  obtain q where q: "get_warehouse (w_warehouses demo_world) 7 = Inr q" "wh_is_active q"
    by (auto simp: get_warehouse_def demo_world_def demo_warehouses_eq demo_env_def)
  have w: "undisturbed demo_world" by (simp add: undisturbed_def demo_world_def demo_env_def)
  have inv: "w_inventory demo_world = demo_stocked" by (simp add: demo_world_def)
  show ?thesis
    using create_order_accepts [OF w _ demo_order_valid, of q "\<lambda>_. 250" demo_order_env "\<lparr>orders = []\<rparr>"]
      reachable_ledger [OF demo_stocked_reachable] demo_offered q
    by (simp add: inv demo_stocked_views available_def)
       (auto simp: demo_order_def demo_order_env_def demo_env_def)
qed

text \<open>the price of an order line is the product's price: what the client reads over HTTP, as decimal
  text in JSON, and then quantises, is exactly the amount of cents the Inventory Service stores for an
  active product, and the line total is that price times the quantity.\<close>

theorem order_line_price_is_product_price:
  assumes "world_ok ref ps w" and "get_product platform_settings platform_http p w = (Inr snap, w')"
    and "price_line (snap_unit_price snap) quantity = Inr (unit_price, line_total)"
  shows "\<exists>q. get_product_by_id (w_inventory w') p = Some q \<and> prod_is_active q
    \<and> unit_price = prod_unit_price q \<and> line_total = prod_unit_price q * quantity"
proof -
  from lookup_product_call(2) [OF assms(2,1) refl] obtain q where
    q: "get_product_by_id (w_inventory w') p = Some q" "prod_is_active q"
      "snap_unit_price snap = Finite (prod_unit_price q) (- 2)" "0 \<le> prod_unit_price q" by blast
  have "quantize_cents (Finite (prod_unit_price q) (- 2)) = Inr unit_price"
    using assms(3) q(3)
    by (auto simp: price_line_def result_simps decimal_step_def split: if_splits sum.splits)
  then have "unit_price = prod_unit_price q"
    by (simp add: quantize_cents_def fits_context_def split: if_splits)
  with q price_line_wf(2) [OF assms(3)] show ?thesis by auto
qed

lemma order_line_price_is_product_price_witness:
  "\<exists>q. get_product_by_id demo_stocked 0 = Some q \<and> 250 = prod_unit_price q"
proof -
  have w: "undisturbed demo_world" by (simp add: undisturbed_def demo_world_def demo_env_def)
  have "offered (w_inventory demo_world) 0 250" using demo_offered by (simp add: demo_world_def)
  note get = get_product_offered [OF undisturbed_now [OF w] this]
  have "price_line (snap_unit_price \<lparr>snap_product_id = 0, snap_unit_price = Finite 250 (- 2)\<rparr>) 4 =
      Inr (250, 1000)" by (simp add: price_line_ok)
  from order_line_price_is_product_price [OF demo_world_ok [of 0 "{}"] get this] show ?thesis
    by (auto simp: demo_world_def)
qed

section \<open>The life of an order\<close>

text \<open>C11: in every reachable state of the Order Service, order ids and order numbers are unique and each
  determines the other; every stored order has at least one line, each product once; its lines are
  price times a positive quantity and its total is their sum; and no stored order is \<open>PENDING\<close>.\<close>

theorem stored_orders_wellformed:
  assumes "order_reachable db"
  shows "distinct (map ord_id (orders db)) \<and> distinct (map ord_number (orders db))
    \<and> (\<forall>ord\<in>set (orders db). ord_status ord \<noteq> PENDING
        \<and> ord_number ord = generate_order_number (ord_id ord)
        \<and> ord_items ord \<noteq> [] \<and> distinct (map item_product_id (ord_items ord))
        \<and> ord_total_amount ord = (\<Sum>i\<leftarrow>ord_items ord. item_unit_price i * item_quantity i)
        \<and> 0 \<le> ord_total_amount ord \<and> ord_total_amount ord < 10 ^ 12)"
proof -
  note ok = reachable_orders_ok [OF assms]
  have total: "ord_total_amount ord = (\<Sum>i\<leftarrow>ord_items ord. item_unit_price i * item_quantity i)"
    and nonneg: "0 \<le> ord_total_amount ord" if "order_wf ord" for ord
  proof -
    have lines: "map item_line_total (ord_items ord) =
        map (\<lambda>i. item_unit_price i * item_quantity i) (ord_items ord)"
      using that by (simp add: order_wf_def item_wf_def)
    show "ord_total_amount ord = (\<Sum>i\<leftarrow>ord_items ord. item_unit_price i * item_quantity i)"
      using that by (simp only: order_wf_def lines)
    moreover have "0 \<le> (\<Sum>i\<leftarrow>ord_items ord. item_unit_price i * item_quantity i)"
      using that by (intro sum_list_nonneg) (auto simp: order_wf_def item_wf_def)
    ultimately show "0 \<le> ord_total_amount ord" by simp
  qed
  have "ord_status ord \<noteq> PENDING \<and> ord_number ord = generate_order_number (ord_id ord)
      \<and> ord_items ord \<noteq> [] \<and> distinct (map item_product_id (ord_items ord))
      \<and> ord_total_amount ord < 10 ^ 12" if "order_wf ord" for ord
    using that by (simp add: order_wf_def)
  with ok total nonneg show ?thesis unfolding orders_ok_def by blast
qed

lemma stored_orders_wellformed_witness:
  "\<exists>ord. orders demo_orders = [ord] \<and> ord_items ord \<noteq> [] \<and> 0 \<le> ord_total_amount ord"
proof -
  from demo_created obtain ord where "orders demo_orders = [ord]" "order_reachable demo_orders" by blast
  with stored_orders_wellformed [of demo_orders] show ?thesis by auto
qed

text \<open>C10: no request loses an order or moves it other than from \<open>RESERVED\<close> to \<open>CONFIRMED\<close> or
  \<open>CANCELLED\<close>: after any number of requests a stored order is still there, only its status and its
  update time may have changed, and a confirmed or cancelled order stays so.\<close>

theorem order_status_monotone:
  assumes "order_step\<^sup>*\<^sup>* db db'" and "load_order db i = Some ord"
  shows "\<exists>ord'. load_order db' i = Some ord'
    \<and> ord' = ord\<lparr>ord_status := ord_status ord', ord_updated_at := ord_updated_at ord'\<rparr>
    \<and> (ord_status ord = RESERVED \<and> ord_status ord' \<in> {RESERVED, CONFIRMED, CANCELLED}
       \<or> ord_status ord' = ord_status ord)"
  using assms(1)
proof (induction rule: rtranclp_induct)
  case base
  then show ?case using assms(2) by simp
next
  case (step db1 db2)
  from step.IH obtain o1 where o1: "load_order db1 i = Some o1"
    "o1 = ord\<lparr>ord_status := ord_status o1, ord_updated_at := ord_updated_at o1\<rparr>"
    "ord_status ord = RESERVED \<and> ord_status o1 \<in> {RESERVED, CONFIRMED, CANCELLED}
       \<or> ord_status o1 = ord_status ord" by blast
  from order_step_transition [OF step.hyps(2) o1(1)] obtain o2 where o2: "load_order db2 i = Some o2"
    "status_step (ord_status o1) (ord_status o2)"
    "o2 = o1\<lparr>ord_status := ord_status o2, ord_updated_at := ord_updated_at o2\<rparr>" by blast
  have "o2 = ord\<lparr>ord_status := ord_status o2, ord_updated_at := ord_updated_at o2\<rparr>"
    by (subst o2(3), subst o1(2)) simp
  moreover have "ord_status ord = RESERVED \<and> ord_status o2 \<in> {RESERVED, CONFIRMED, CANCELLED}
       \<or> ord_status o2 = ord_status ord"
    using o1(3) o2(2) by (auto elim: status_step.cases)
  ultimately show ?case using o2(1) by blast
qed

lemma order_status_monotone_witness:
  "\<exists>ord'. load_order (snd (confirm_order_endpoint demo_order_env demo_orders 100)) 100 = Some ord'
    \<and> ord_status ord' \<in> {RESERVED, CONFIRMED, CANCELLED}"
proof -
  from demo_created obtain ord where ord: "orders demo_orders = [ord]" "ord_id ord = 100"
    "ord_status ord = RESERVED" by blast
  then have load: "load_order demo_orders 100 = Some ord" by (simp add: load_order_def)
  have "order_step demo_orders (snd (confirm_order_endpoint demo_order_env demo_orders 100))"
    by (rule order_step.confirmation) (rule surjective_pairing)
  then have "order_step\<^sup>*\<^sup>* demo_orders (snd (confirm_order_endpoint demo_order_env demo_orders 100))"
    by simp
  from order_status_monotone [OF this load] ord(3) show ?thesis by auto
qed

section \<open>A lost reply\<close>

text \<open>C9: a reservation that the Inventory Service commits but whose reply is lost is never released: the
  creation fails, the client is told so with an ordinary error and not with the compensation error, the order is not stored, and
  the order's reference goes on holding the stock.\<close>

theorem lost_reply_leaks_reservation:
  assumes "build_order env request platform_client w = (Inr (ord, [l]), w1)"
    and "env_flush_fault env = None" and "check_order db ord = Inr ()"
    and "slot_event (w_schedule w1 (w_time w1)) = ReplyLost"
    and "reserve_stock (slot_env (w_schedule w1 (w_time w1))) (w_inventory (before_call w1))
      (wire_request (line_call (ord_warehouse_id ord) (ord_number ord) l)
        ''Order inventory reservation'') = (Inr q, stock)"
    and "valid_stock_reservation (wire_request (line_call (ord_warehouse_id ord) (ord_number ord) l)
        ''Order inventory reservation'')"
    and "rows_ok (w_inventory (before_call w1))"
  shows "\<exists>w2. create_order env db request platform_client w =
      (Inl (OrderClientError (DownstreamServiceError ''Inventory Service is unavailable'')), db, w2)
    \<and> world_held (ord_number ord) w2 (line_product_id l, ord_warehouse_id ord) =
        world_held (ord_number ord) (before_call w1) (line_product_id l, ord_warehouse_id ord)
          + line_quantity l"
proof -
  let ?c = "line_call (ord_warehouse_id ord) (ord_number ord) l"
  let ?w2 = "before_call w1\<lparr>w_inventory := stock\<rparr>"
  have fields: "rq_key (wire_request ?c reason) = (line_product_id l, ord_warehouse_id ord)"
    "rq_quantity (wire_request ?c reason) = line_quantity l"
    "rq_owner_reference_id (wire_request ?c reason) = ord_number ord" for reason
    by (simp_all add: line_call_def)
  have "client_reserve_stock platform_settings platform_http ?c w1 =
      (Inl (DownstreamServiceError ''Inventory Service is unavailable''), ?w2)"
    using assms(4-6)
    by (simp add: client_reserve_stock_def client_request_def platform_http_def
        serve_reserve [simplified] reserve_stock_endpoint_def)
  then have "create_order env db request platform_client w =
      (Inl (OrderClientError (DownstreamServiceError ''Inventory Service is unavailable'')), db, ?w2)"
    using assms(1-3)
    by (simp add: create_order_def Let_def compensate_creation_def release_lines_def)
  moreover have "world_held (ord_number ord) ?w2 (line_product_id l, ord_warehouse_id ord) =
      world_held (ord_number ord) (before_call w1) (line_product_id l, ord_warehouse_id ord)
        + line_quantity l"
  proof -
    note ch = reserve_stock_change [OF assms(5,7)]
    show ?thesis
      using reservation_row_of [OF ch(1), of "ord_number ord"] ch fields
      by (simp add: world_held_def)
  qed
  ultimately show ?thesis by blast
qed

definition demo_lossy_world :: world where
  "demo_lossy_world = demo_world\<lparr>w_schedule := (\<lambda>n. \<lparr>slot_others = [],
     slot_event = (if n = 2 then ReplyLost else Deliver), slot_env = demo_env\<rparr>)\<rparr>"

lemma lost_reply_leaks_reservation_witness:
  "\<exists>w2. create_order demo_order_env \<lparr>orders = []\<rparr> demo_order platform_client demo_lossy_world =
      (Inl (OrderClientError (DownstreamServiceError ''Inventory Service is unavailable'')),
       \<lparr>orders = []\<rparr>, w2)
    \<and> world_held (generate_order_number 100) w2 (0, 7) = 4"
proof -
  let ?w = demo_lossy_world and ?ref = "generate_order_number 100"
  have slots: "w_schedule ?w n = \<lparr>slot_others = [], slot_event = (if n = 2 then ReplyLost else Deliver),
      slot_env = demo_env\<rparr>" "w_time ?w = 0" "w_inventory ?w = demo_stocked" for n
    by (simp_all add: demo_lossy_world_def demo_world_def)
  let ?w1 = "?w\<lparr>w_time := 1\<rparr>" and ?w2 = "?w\<lparr>w_time := 2\<rparr>"
  have now: "answered_now ?w" "answered_now ?w1" by (simp_all add: answered_now_def slots)
  obtain q where "get_warehouse (w_warehouses ?w) 7 = Inr q" "wh_is_active q"
    by (auto simp: get_warehouse_def demo_lossy_world_def demo_world_def demo_warehouses_eq demo_env_def)
  from verify_warehouse_active [OF now(1) this]
  have v: "verify_warehouse platform_settings platform_http 7 ?w = (Inr (), ?w1)" by (simp add: slots)
  have g: "get_product platform_settings platform_http 0 ?w1 =
      (Inr \<lparr>snap_product_id = 0, snap_unit_price = Finite 250 (- 2)\<rparr>, ?w2)"
    using get_product_offered [OF now(2), of 0 250] demo_offered by (simp add: slots numeral_2_eq_2)
  define ord where "ord = \<lparr>ord_id = 100, ord_number = ?ref, ord_customer_name = ''Ada'',
    ord_customer_email = ''ada@example.org'', ord_warehouse_id = 7, ord_status = PENDING,
    ord_total_amount = 1000, ord_items = [\<lparr>item_id = 101, item_product_id = 0, item_quantity = 4,
      item_unit_price = 250, item_line_total = 1000\<rparr>],
    ord_created_at = 1000, ord_updated_at = 1000\<rparr>"
  have b: "build_order demo_order_env demo_order platform_client ?w =
      (Inr (ord, [\<lparr>line_product_id = 0, line_quantity = 4\<rparr>]), ?w2)"
    using v g
    by (simp add: build_order_def demo_order_def client_step_def price_line_ok decimal_step_def
        fits_context_def ord_def demo_order_env_def demo_env_def line_of_def)
  have check: "check_order \<lparr>orders = []\<rparr> ord = Inr ()"
    using length_order_number [of 100]
    by (simp add: check_order_def ord_def check_order_item_def int4_def)
  let ?rq = "wire_request (line_call 7 ?ref \<lparr>line_product_id = 0, line_quantity = 4\<rparr>)
    ''Order inventory reservation''"
  have valid: "valid_stock_reservation ?rq"
    using length_order_number [of 100]
    by (simp add: valid_stock_reservation_def line_call_def wire_request_def optional_length_def)
  have rows: "rows_ok demo_stocked"
    by (rule ledger_okD(1) [OF reachable_ledger [OF demo_stocked_reachable]])
  have before: "w_inventory (before_call ?w2) = demo_stocked"
    by (simp add: before_call_def slots run_others_def)
  have key: "rq_key ?rq = (0, 7)" "rq_quantity ?rq = 4" by (simp_all add: line_call_def)
  obtain r stock where res: "reserve_stock demo_env demo_stocked ?rq = (Inr r, stock)"
    using reserve_stock_succeeds [OF rows valid, of demo_env]
    by (auto simp: demo_stocked_views key available_def demo_env_def line_call_def)
  have held: "world_held ?ref (before_call ?w2) (0, 7) = 0"
    by (simp add: world_held_def before demo_stocked_views)
  show ?thesis
    using lost_reply_leaks_reservation [OF b _ check] res valid rows before held
    by (simp add: slots ord_def) (simp add: demo_order_env_def demo_env_def)
qed

section \<open>A deleted product\<close>

lemma deleted_product_unknown:
  assumes "delete_product_endpoint env db p = (Reply code u, db')" and "ledger_ok db"
  shows "ledger_ok db'" and "\<not> product_known db' p"
proof -
  from assms(1) obtain q v where q: "delete_product env db q = (Inr v, db')" "prod_id q = p"
    by (auto simp: delete_product_endpoint_def server_error_def get_product_or_404_def
        get_product_by_id_def of_option_def dest!: find_row_SomeD
        split: sum.splits prod.splits option.splits)
  show "ledger_ok db'" by (rule delete_product_ledger [OF q(1) assms(2)])
  show "\<not> product_known db' p"
    using q by (auto simp: delete_product_def result_simps product_known_set)
qed

text \<open>A release of a product the Inventory Service does not have fails, and no release brings a
  product back.\<close>

lemma release_unknown:
  assumes call: "client_release_stock platform_settings platform_http c w = (r, w')"
    and w: "undisturbed w" and ledger: "ledger_ok (w_inventory w)"
  shows "undisturbed w' \<and> ledger_ok (w_inventory w')
    \<and> (product_known (w_inventory w') p \<longrightarrow> product_known (w_inventory w) p)
    \<and> (r = Inr u \<longrightarrow> product_known (w_inventory w) (call_product_id c))"
proof -
  let ?env = "slot_env (w_schedule w (w_time w))"
  let ?rq = "wire_request c ''Order inventory reservation release''"
  obtain x db' where x: "release_stock_endpoint ?env (w_inventory w) ?rq = (x, db')" by fastforce
  then have out: "r = (if is_success (to_response operation_json x) then Inr ()
        else fst (client_release_stock platform_settings platform_http c w))"
    and w': "w' = w\<lparr>w_time := Suc (w_time w), w_inventory := db'\<rparr>"
    using call
    by (auto simp: client_release_stock_def client_request_def
        undisturbed_http [OF undisturbed_now [OF w]] serve_release Let_def split: if_splits)
  from release_endpoint_outcome [OF x] show ?thesis
  proof (elim disjE exE conjE)
    fix q
    assume q: "valid_stock_reservation ?rq" "release_stock ?env (w_inventory w) ?rq = (Inr q, db')"
    have "products db' = products (w_inventory w)"
      by (rule stock_operations_products(4) [OF ledger_okD(1) [OF ledger] q(2)])
    then show ?thesis
      using w w' release_stock_ledger [OF q(2) ledger q(1)] success_product_known(4) [OF q(2)]
      by (simp add: product_known_set undisturbed_def)
  next
    fix co d
    assume q: "x = HTTPException co d" "400 \<le> co" "db' = w_inventory w"
    have "\<exists>e. r = Inl e"
      using call x q
      by (auto simp: client_release_stock_def client_request_def to_response_success
          undisturbed_http [OF undisturbed_now [OF w]] serve_release)
    then show ?thesis using w w' ledger q(3) by (auto simp: undisturbed_def)
  qed
qed

lemma each_release_known:
  "each_line (client_release_stock platform_settings platform_http) wh ref ls acc w =
     ((None, acc'), w') \<Longrightarrow> undisturbed w \<Longrightarrow> ledger_ok (w_inventory w) \<Longrightarrow>
   l \<in> set ls \<Longrightarrow> product_known (w_inventory w) (line_product_id l)"
proof (induction ls arbitrary: acc w)
  case Nil
  then show ?case by simp
next
  case (Cons l' ls)
  obtain r w1 where c: "client_release_stock platform_settings platform_http (line_call wh ref l') w =
      (r, w1)" by fastforce
  note rel = release_unknown [OF c Cons.prems(2,3), of "line_product_id l" "()"]
  from Cons.prems(1) c obtain "r = Inr ()"
    "each_line (client_release_stock platform_settings platform_http) wh ref ls (acc @ [l']) w1 =
       ((None, acc'), w')"
    by (cases r) auto
  with rel Cons.IH [OF this(2)] Cons.prems(4) show ?case by auto
qed

text \<open>Deleting a product strands the orders that have reserved it: the deletion is answered 204
  although an order holds the product, its balances and movements go with it, and from then on no
  cancellation of the order succeeds, even when every call is answered and no database fails; the
  order stays \<open>RESERVED\<close>.\<close>

theorem deleted_product_blocks_cancellation:
  assumes "delete_product_endpoint env0 (w_inventory w0) p = (Reply 204 u, stock)"
    and "ledger_ok (w_inventory w0)" and "undisturbed w0"
    and "load_order db i = Some ord" and "ord_status ord = RESERVED" and "p \<in> ordered_products ord"
  shows "\<exists>code d w'. cancel_order_endpoint env db i platform_client (w0\<lparr>w_inventory := stock\<rparr>) =
    (HTTPException code d, db, w')"
proof -
  let ?w = "w0\<lparr>w_inventory := stock\<rparr>" and ?ls = "map item_line (ord_items ord)"
  note gone = deleted_product_unknown [OF assms(1,2)]
  obtain oe acc w1 where loop: "each_line (client_release_stock platform_settings platform_http)
      (ord_warehouse_id ord) (ord_number ord) ?ls [] ?w = ((oe, acc), w1)" by (metis surj_pair)
  obtain l where l: "l \<in> set ?ls" "line_product_id l = p"
    using assms(6) by (auto simp: ordered_products_lines)
  have "oe \<noteq> None"
    using each_release_known [of "ord_warehouse_id ord" "ord_number ord" ?ls "[]" ?w acc w1 l]
      loop assms(3) gone l by (cases oe) auto
  then have "\<exists>e w'. cancel_order env db i platform_client ?w = (Inl e, db, w')"
    using assms(4,5) loop
    by (auto simp: cancel_order_def require_order_def split: prod.splits)
  then show ?thesis by (auto simp: cancel_order_endpoint_def)
qed

lemma deleted_product_blocks_cancellation_witness:
  "\<exists>code d w'. cancel_order_endpoint demo_order_env demo_orders 100 platform_client
      (demo_world\<lparr>w_inventory := snd (delete_product_endpoint demo_env
         (w_inventory demo_world_reserved) 0)\<rparr>) = (HTTPException code d, demo_orders, w')"
proof -
  from demo_created obtain ord where ord: "orders demo_orders = [ord]" "ord_status ord = RESERVED"
    "ord_id ord = 100" "world_calm (ord_number ord) (ordered_products ord) demo_world_reserved"
    "ordered_products ord = {0}" "world_held (ord_number ord) demo_world_reserved (0, 7) = 4" by blast
  have load: "load_order demo_orders 100 = Some ord" using ord by (simp add: load_order_def)
  have ok: "ledger_ok (w_inventory demo_world_reserved)" "products_known (w_inventory demo_world_reserved)"
    using ord(4) by (simp_all add: world_calm_def world_ok_def)
  have "product_known (w_inventory demo_world_reserved) 0"
  proof (rule ccontr)
    assume "\<not> ?thesis"
    then have "world_held (ord_number ord) demo_world_reserved (0, 7) = 0"
      unfolding world_held_def get_reference_reserved_quantity_def
      using ok(2) by (intro sum_where_none)
        (auto simp: products_known_def reservation_row_def mv_key_def)
    with ord(6) show False by simp
  qed
  then obtain q where "get_product_by_id (w_inventory demo_world_reserved) 0 = Some q"
    by (auto simp: product_known_def get_product_by_id_def)
  then obtain stock where del: "delete_product_endpoint demo_env (w_inventory demo_world_reserved) 0 =
      (Reply 204 (), stock)"
    by (auto simp: delete_product_endpoint_def get_product_or_404_def delete_product_def demo_env_def)
  let ?w = "demo_world\<lparr>w_inventory := w_inventory demo_world_reserved\<rparr>"
  have "undisturbed ?w" by (simp add: undisturbed_def demo_world_def demo_env_def)
  from deleted_product_blocks_cancellation [of demo_env ?w, OF _ _ this load ord(2)] ord(5) del ok(1)
  show ?thesis by simp
qed

end
