(* ===== verification/Job_Queue.thy ===== *)
theory Job_Queue
  imports Complex_Main Json_Decimal
begin

text \<open>
  The job table of the distributed job processing system (job_system/models.py) and the operations
  of \<open>PostgresJobQueue\<close> on it (job_system/queue.py). Every operation is one transaction that reads
  its own process's clock, so the clocks of two operations are unrelated. Durations in seconds are
  rationals, the value of the Python float; a timestamp counts microseconds.
\<close>

section \<open>Rows\<close>

datatype job_status = QUEUED | RUNNING | RETRY_SCHEDULED | SUCCEEDED | DEAD_LETTERED | JOB_CANCELLED

record job =
  job_id :: uuid
  job_queue :: string
  job_task_name :: string
  job_payload :: json
  job_status :: job_status
  job_priority :: int
  job_idempotency_key :: "string option"
  job_attempt_count :: int
  job_max_attempts :: int
  job_available_at :: time
  job_worker_id :: "string option"
  job_result :: "json option"
  job_last_error :: "string option"
  job_started_at :: "time option"
  job_completed_at :: "time option"
  job_lease_expires_at :: "time option"
  job_heartbeat_at :: "time option"
  job_created_at :: time
  job_updated_at :: time

type_synonym job_table = "job list"

definition check_job :: "job \<Rightarrow> db_error + unit" where
  "check_job j =
     rbind (ensure (length (job_queue j) \<le> 100 \<and> length (job_task_name j) \<le> 200
         \<and> (case job_worker_id j of None \<Rightarrow> True | Some w \<Rightarrow> length w \<le> 200)
         \<and> (case job_idempotency_key j of None \<Rightarrow> True | Some k \<Rightarrow> length k \<le> 200)
         \<and> int4 (job_priority j) \<and> int4 (job_attempt_count j) \<and> int4 (job_max_attempts j)) DataError)
       (\<lambda>_. ensure (- 100 \<le> job_priority j \<and> job_priority j \<le> 100 \<and> 0 \<le> job_attempt_count j
         \<and> 1 \<le> job_max_attempts j \<and> job_max_attempts j \<le> 100) IntegrityError)"

section \<open>Transactions\<close>

text \<open>What surrounds one transaction: the caller's clock, the rows other transactions hold locks on
  (\<open>SKIP LOCKED\<close> passes them over), and whether the database fails before anything is committed, or
  commits and loses the answer.\<close>

datatype tx_fault = NoFault | FailsBefore | FailsAfterCommit

record tx =
  tx_now :: time
  tx_locked :: "uuid \<Rightarrow> bool"
  tx_fault :: tx_fault

definition finish :: "tx \<Rightarrow> 's \<Rightarrow> db_error + 'a \<times> 's \<Rightarrow> (db_error + 'a) \<times> 's" where
  "finish tx s r = (case r of Inl e \<Rightarrow> (Inl e, s)
     | Inr (a, s') \<Rightarrow> (case tx_fault tx of NoFault \<Rightarrow> (Inr a, s')
         | FailsBefore \<Rightarrow> (Inl OperationalError, s)
         | FailsAfterCommit \<Rightarrow> (Inl OperationalError, s')))"

lemma finish_simps [simp]:
  "finish tx s (Inl e) = (Inl e, s)"
  "tx_fault tx = NoFault \<Longrightarrow> finish tx s (Inr (a, s')) = (Inr a, s')"
  by (simp_all add: finish_def)

lemma finish_Inr [result_simps]:
  "finish tx s r = (Inr a, s') \<longleftrightarrow> tx_fault tx = NoFault \<and> r = Inr (a, s')"
  by (auto simp: finish_def split: sum.splits tx_fault.splits)

lemma finish_state: "finish tx s r = (x, s') \<Longrightarrow> s' = s \<or> (\<exists>a. r = Inr (a, s'))"
  by (auto simp: finish_def split: sum.splits tx_fault.splits)

section \<open>Time and retries\<close>

text \<open>\<open>timedelta(seconds=s)\<close>: whole microseconds, halves to the even neighbour.\<close>

definition round_half_even :: "rat \<Rightarrow> int" where
  "round_half_even x = (let f = \<lfloor>x\<rfloor>; d = x - of_int f in
     if d < 1 / 2 then f else if 1 / 2 < d then f + 1 else if even f then f else f + 1)"

definition timedelta :: "rat \<Rightarrow> int" where
  "timedelta seconds = round_half_even (seconds * 1000000)"

definition should_retry_job :: "bool \<Rightarrow> int \<Rightarrow> int \<Rightarrow> bool" where
  "should_retry_job retryable attempt_count max_attempts \<longleftrightarrow> retryable \<and> attempt_count < max_attempts"

definition calculate_retry_delay_seconds :: "int \<Rightarrow> rat \<Rightarrow> rat \<Rightarrow> rat" where
  "calculate_retry_delay_seconds attempt_count base_delay_seconds max_delay_seconds =
     (let exponential_delay = base_delay_seconds * 2 ^ nat (max (attempt_count - 1) 0)
      in min exponential_delay max_delay_seconds)"

section \<open>Claiming\<close>

definition claimable :: "string list \<Rightarrow> time \<Rightarrow> job \<Rightarrow> bool" where
  "claimable queues claimed_at j \<longleftrightarrow> job_status j \<in> {QUEUED, RETRY_SCHEDULED}
     \<and> job_queue j \<in> set queues \<and> job_available_at j \<le> claimed_at"

text \<open>\<open>ORDER BY priority DESC, available_at, created_at, id\<close>.\<close>

definition claim_key :: "job \<Rightarrow> int \<times> time \<times> time \<times> uuid" where
  "claim_key j = (- job_priority j, job_available_at j, job_created_at j, job_id j)"

definition claimed :: "string \<Rightarrow> time \<Rightarrow> time \<Rightarrow> job \<Rightarrow> job" where
  "claimed worker claimed_at lease_expires_at j =
     j\<lparr>job_status := RUNNING, job_worker_id := Some worker,
       job_attempt_count := job_attempt_count j + 1, job_started_at := Some claimed_at,
       job_lease_expires_at := Some lease_expires_at, job_heartbeat_at := Some claimed_at,
       job_completed_at := None, job_result := None, job_updated_at := claimed_at\<rparr>"

text \<open>Writing back the rows of a transaction; the flush checks each of them.\<close>

fun check_jobs :: "job list \<Rightarrow> db_error + unit" where
  "check_jobs [] = Inr ()"
| "check_jobs (j # js) = rbind (check_job j) (\<lambda>_. check_jobs js)"

definition store_jobs :: "job list \<Rightarrow> job_table \<Rightarrow> job_table" where
  "store_jobs js table = map (\<lambda>r. case find (\<lambda>j. job_id j = job_id r) js of
     None \<Rightarrow> r | Some j \<Rightarrow> j) table"

definition select_jobs :: "(job \<Rightarrow> bool) \<Rightarrow> (job \<Rightarrow> 'k::linorder) \<Rightarrow> tx \<Rightarrow> int \<Rightarrow> job_table \<Rightarrow> job list" where
  "select_jobs P key tx limit table =
     take (nat limit) (sort_key key (filter (\<lambda>j. P j \<and> \<not> tx_locked tx (job_id j)) table))"

definition claim_jobs :: "tx \<Rightarrow> string \<Rightarrow> string list \<Rightarrow> int \<Rightarrow> rat \<Rightarrow> job_table \<Rightarrow>
    (db_error + job list) \<times> job_table" where
  "claim_jobs tx worker queues limit lease_duration_seconds table =
     (if queues = [] \<or> limit < 1 then (Inr [], table)
      else
        let claimed_at = tx_now tx;
            lease_expires_at = claimed_at + timedelta lease_duration_seconds;
            jobs = map (claimed worker claimed_at lease_expires_at)
                     (select_jobs (claimable queues claimed_at) claim_key tx limit table)
        in finish tx table (rbind (check_jobs jobs) (\<lambda>_. Inr (jobs, store_jobs jobs table))))"

section \<open>Updates by the owner\<close>

text \<open>The \<open>WHERE\<close> clause that the three updates by a worker share.\<close>

definition owned :: "uuid \<Rightarrow> string \<Rightarrow> time \<Rightarrow> job \<Rightarrow> bool" where
  "owned i worker now j \<longleftrightarrow> job_id j = i \<and> job_status j = RUNNING \<and> job_worker_id j = Some worker
     \<and> (case job_lease_expires_at j of None \<Rightarrow> False | Some t \<Rightarrow> now < t)"

text \<open>\<open>UPDATE ... WHERE\<close>: every matching row is changed, and the number of rows is returned.\<close>

definition update_where :: "(job \<Rightarrow> bool) \<Rightarrow> (job \<Rightarrow> job) \<Rightarrow> job_table \<Rightarrow> nat \<times> job_table" where
  "update_where P f table = (length (filter P table), map (\<lambda>j. if P j then f j else j) table)"

definition renew_lease :: "tx \<Rightarrow> uuid \<Rightarrow> string \<Rightarrow> rat \<Rightarrow> job_table \<Rightarrow> (db_error + bool) \<times> job_table" where
  "renew_lease tx i worker lease_duration_seconds table =
     (let heartbeat_at = tx_now tx;
          (rowcount, table') = update_where (owned i worker heartbeat_at)
            (\<lambda>j. j\<lparr>job_heartbeat_at := Some heartbeat_at,
                   job_lease_expires_at := Some (heartbeat_at + timedelta lease_duration_seconds),
                   job_updated_at := heartbeat_at\<rparr>) table
      in finish tx table (Inr (rowcount = 1, table')))"

definition succeeded :: "time \<Rightarrow> json \<Rightarrow> job \<Rightarrow> job" where
  "succeeded completed_at result_payload j =
     j\<lparr>job_status := SUCCEEDED, job_result := Some result_payload, job_last_error := None,
       job_completed_at := Some completed_at, job_lease_expires_at := None,
       job_heartbeat_at := None, job_updated_at := completed_at\<rparr>"

definition mark_succeeded :: "tx \<Rightarrow> uuid \<Rightarrow> string \<Rightarrow> json \<Rightarrow> job_table \<Rightarrow> (db_error + bool) \<times> job_table" where
  "mark_succeeded tx i worker result_payload table =
     (let completed_at = tx_now tx;
          (rowcount, table') = update_where (owned i worker completed_at)
            (succeeded completed_at result_payload) table
      in finish tx table (Inr (rowcount = 1, table')))"

definition failed :: "time \<Rightarrow> string \<Rightarrow> bool \<Rightarrow> rat \<Rightarrow> rat \<Rightarrow> job \<Rightarrow> job" where
  "failed failed_at error_message retryable base_delay max_delay j =
     (let j1 = j\<lparr>job_result := None, job_last_error := Some (take 4000 error_message),
                job_updated_at := failed_at, job_lease_expires_at := None,
                job_heartbeat_at := None\<rparr>
      in if should_retry_job retryable (job_attempt_count j) (job_max_attempts j)
         then j1\<lparr>job_status := RETRY_SCHEDULED,
                 job_available_at := failed_at + timedelta
                   (calculate_retry_delay_seconds (job_attempt_count j) base_delay max_delay),
                 job_worker_id := None, job_completed_at := None\<rparr>
         else j1\<lparr>job_status := DEAD_LETTERED, job_completed_at := Some failed_at\<rparr>)"

definition mark_failed :: "tx \<Rightarrow> uuid \<Rightarrow> string \<Rightarrow> string \<Rightarrow> bool \<Rightarrow> rat \<Rightarrow> rat \<Rightarrow> job_table \<Rightarrow>
    (db_error + job_status option) \<times> job_table" where
  "mark_failed tx i worker error_message retryable base_delay max_delay table =
     finish tx table (case find (owned i worker (tx_now tx)) table of
         None \<Rightarrow> Inr (None, table)
       | Some j \<Rightarrow>
           let j' = failed (tx_now tx) error_message retryable base_delay max_delay j
           in rbind (check_job j') (\<lambda>_. Inr (Some (job_status j'), store_jobs [j'] table)))"

section \<open>Recovery\<close>

definition stale :: "time \<Rightarrow> job \<Rightarrow> bool" where
  "stale recovered_at j \<longleftrightarrow> job_status j = RUNNING
     \<and> (case job_lease_expires_at j of None \<Rightarrow> True | Some t \<Rightarrow> t \<le> recovered_at)"

text \<open>\<open>ORDER BY lease_expires_at NULLS FIRST, id\<close>.\<close>

definition stale_key :: "job \<Rightarrow> bool \<times> time \<times> uuid" where
  "stale_key j = (case job_lease_expires_at j of None \<Rightarrow> (False, 0, job_id j)
     | Some t \<Rightarrow> (True, t, job_id j))"

definition lease_expired_text :: string where
  "lease_expired_text = ''Worker lease expired before job completion''"

definition recovered :: "time \<Rightarrow> job \<Rightarrow> job" where
  "recovered recovered_at j =
     (let j1 = j\<lparr>job_worker_id := None, job_heartbeat_at := None, job_lease_expires_at := None,
                job_result := None, job_last_error := Some lease_expired_text,
                job_updated_at := recovered_at\<rparr>
      in if should_retry_job True (job_attempt_count j) (job_max_attempts j)
         then j1\<lparr>job_status := RETRY_SCHEDULED, job_available_at := recovered_at,
                 job_completed_at := None\<rparr>
         else j1\<lparr>job_status := DEAD_LETTERED, job_completed_at := Some recovered_at\<rparr>)"

definition recover_stale_jobs :: "tx \<Rightarrow> int \<Rightarrow> job_table \<Rightarrow> (db_error + nat \<times> nat) \<times> job_table" where
  "recover_stale_jobs tx limit table =
     (if limit < 1 then (Inr (0, 0), table)
      else
        let jobs = map (recovered (tx_now tx)) (select_jobs (stale (tx_now tx)) stale_key tx limit table)
        in finish tx table (rbind (check_jobs jobs) (\<lambda>_.
             Inr ((length (filter (\<lambda>j. job_status j = RETRY_SCHEDULED) jobs),
                   length (filter (\<lambda>j. job_status j = DEAD_LETTERED) jobs)),
                  store_jobs jobs table))))"

end
