(* ===== verification/Floats.thy ===== *)
theory Floats
  imports Prelude "HOL-Library.Log_Nat"
begin

text \<open>
  Python's \<open>float\<close>: a finite double is the rational number it stands for, comparisons are exact, and
  every literal and operation rounds its exact result to the nearest double, ties to even. The exponent
  range is that of binary64 at the lower end; results beyond the largest double do not occur in the
  modelled programs. \<open>round(x, n)\<close> rounds the exact value to \<open>n\<close> decimal digits, ties to even, and that to
  the nearest double.
\<close>

section \<open>Rounding to an integer\<close>

definition round_even :: "rat \<Rightarrow> int" where
  "round_even x = (let f = \<lfloor>x\<rfloor>; r = x - of_int f in
     if r < 1 / 2 then f else if 1 / 2 < r then f + 1 else if even f then f else f + 1)"

lemma round_even_of_int [simp]: "round_even (of_int n) = n"
  by (simp add: round_even_def)

lemma round_even_bounds: "\<lfloor>x\<rfloor> \<le> round_even x" "round_even x \<le> \<lfloor>x\<rfloor> + 1"
  by (simp_all add: round_even_def Let_def)

lemma round_even_error: "\<bar>of_int (round_even x) - x\<bar> \<le> 1 / 2"
proof -
  have "of_int \<lfloor>x\<rfloor> \<le> x" "x < of_int \<lfloor>x\<rfloor> + 1" by linarith+
  then show ?thesis by (auto simp: round_even_def Let_def)
qed

lemma round_even_mono: "x \<le> y \<Longrightarrow> round_even x \<le> round_even y"
proof (cases "\<lfloor>x\<rfloor> = \<lfloor>y\<rfloor>")
  case True
  assume "x \<le> y"
  then show ?thesis using True by (auto simp: round_even_def Let_def)
next
  case False
  assume "x \<le> y"
  then have "\<lfloor>x\<rfloor> + 1 \<le> \<lfloor>y\<rfloor>" using False floor_mono [of x y] by linarith
  then show ?thesis using round_even_bounds [of x] round_even_bounds [of y] by linarith
qed

lemma round_even_le: "x \<le> of_int n \<Longrightarrow> round_even x \<le> n"
  using round_even_mono [of x "of_int n"] by simp

lemma round_even_ge: "of_int n \<le> x \<Longrightarrow> n \<le> round_even x"
  using round_even_mono [of "of_int n" x] by simp

lemma round_even_near: "of_int a - 1 / 2 < x \<Longrightarrow> x < of_int b + 1 / 2 \<Longrightarrow> a \<le> round_even x \<and> round_even x \<le> b"
  using round_even_error [of x] by linarith

section \<open>Doubles\<close>

text \<open>The exponent of a positive rational: \<open>2 powi e \<le> x < 2 powi (e + 1)\<close>.\<close>

definition exponent :: "rat \<Rightarrow> int" where
  "exponent x = (let (a, b) = quotient_of x; d = int (floorlog 2 (nat a)) - int (floorlog 2 (nat b)) in
     if 2 powi d \<le> x then d else d - 1)"

text \<open>The distance of neighbouring doubles around \<open>x\<close>; below the normal range it stays the same.\<close>

definition spacing :: "rat \<Rightarrow> int" where
  "spacing x = max (exponent x) (- 1022) - 52"

definition double_pos :: "rat \<Rightarrow> rat" where
  "double_pos x = of_int (round_even (x / 2 powi spacing x)) * 2 powi spacing x"

definition double :: "rat \<Rightarrow> rat" where
  "double x = (if x = 0 then 0 else if 0 < x then double_pos x else - double_pos (- x))"

definition fadd :: "rat \<Rightarrow> rat \<Rightarrow> rat" where "fadd x y = double (x + y)"
definition fsub :: "rat \<Rightarrow> rat \<Rightarrow> rat" where "fsub x y = double (x - y)"
definition fmul :: "rat \<Rightarrow> rat \<Rightarrow> rat" where "fmul x y = double (x * y)"
definition fdiv :: "rat \<Rightarrow> rat \<Rightarrow> rat" where "fdiv x y = double (x / y)"

text \<open>\<open>float(n)\<close> and \<open>round(x, n)\<close>.\<close>

definition of_integer :: "int \<Rightarrow> rat" where "of_integer n = double (of_int n)"

definition py_round :: "nat \<Rightarrow> rat \<Rightarrow> rat" where
  "py_round n x = double (of_int (round_even (x * 10 ^ n)) / 10 ^ n)"

section \<open>The exponent\<close>

lemma pow2_pos [simp]: "0 < (2 :: rat) powi e"
  by (simp add: zero_less_power_int)

lemma pow2_not_neg [simp]: "\<not> (2 :: rat) powi e < 0"
  using pow2_pos [of e] by linarith

lemma pow2_less_iff [simp]: "(2 :: rat) powi a < 2 powi b \<longleftrightarrow> a < b"
  using power_int_strict_increasing [of a b "2 :: rat"] power_int_increasing [of b a "2 :: rat"] by fastforce

lemma pow2_le_iff [simp]: "(2 :: rat) powi a \<le> 2 powi b \<longleftrightarrow> a \<le> b"
  using pow2_less_iff [of b a] by linarith

lemma exponent_bounds:
  assumes "0 < x"
  shows "2 powi exponent x \<le> x" and "x < 2 powi (exponent x + 1)"
proof -
  obtain a b where q: "quotient_of x = (a, b)" by fastforce
  have b: "0 < b" using quotient_of_denom_pos [OF q] .
  have x: "x = of_int a / of_int b" using quotient_of_div [OF q] .
  have a: "0 < a" using assms b unfolding x by (simp add: zero_less_divide_iff)
  define la where "la = floorlog 2 (nat a)"
  define lb where "lb = floorlog 2 (nat b)"
  have "2 ^ (la - 1) \<le> nat a \<and> nat a < 2 ^ la" "2 ^ (lb - 1) \<le> nat b \<and> nat b < 2 ^ lb"
    unfolding la_def lb_def using floorlog_bounds [of "nat a" 2] floorlog_bounds [of "nat b" 2] a b by simp_all
  then have "(2::int) ^ (la - 1) \<le> a \<and> a < 2 ^ la" "(2::int) ^ (lb - 1) \<le> b \<and> b < 2 ^ lb"
    using a b by (simp_all add: nat_less_iff le_nat_iff)
  then have ra: "(2::rat) ^ (la - 1) \<le> of_int a" "of_int a < (2::rat) ^ la"
    and rb: "(2::rat) ^ (lb - 1) \<le> of_int b" "of_int b < (2::rat) ^ lb"
    by (metis of_int_le_iff of_int_less_iff of_int_numeral of_int_power)+
  have pos: "0 < la" "0 < lb" using a b by (simp_all add: la_def lb_def floorlog_def)
  have p: "(2::rat) ^ la = 2 * 2 ^ (la - 1)" "(2::rat) ^ lb = 2 * 2 ^ (lb - 1)"
    using pos by (metis Suc_diff_1 power_Suc)+
  define d where "d = int la - int lb"
  have pd: "(2::rat) powi d = 2 ^ la / 2 ^ lb" by (simp add: d_def power_int_diff)
  have "x < 2 * 2 powi d"
  proof -
    have "of_int a * 2 ^ (lb - 1) < (2::rat) ^ la * of_int b"
      by (rule mult_less_le_imp_less [OF ra(2) rb(1)]) (use a in simp_all)
    then show ?thesis using b by (simp add: x pd p field_simps)
  qed
  moreover have "2 powi d < 2 * x"
  proof -
    have "(2::rat) ^ (la - 1) * of_int b < of_int a * 2 ^ lb"
      by (rule mult_le_less_imp_less [OF ra(1) rb(2)]) (use a b in simp_all)
    then show ?thesis using b by (simp add: x pd p field_simps)
  qed
  moreover have "exponent x = (if 2 powi d \<le> x then d else d - 1)"
    by (simp add: exponent_def q la_def lb_def d_def)
  moreover have "(2::rat) powi (d - 1) = 2 powi d / 2" "(2::rat) powi (d + 1) = 2 * 2 powi d"
    by (simp_all add: power_int_diff power_int_add)
  ultimately show "2 powi exponent x \<le> x" "x < 2 powi (exponent x + 1)"
    by (auto split: if_splits)
qed

lemma exponent_mono:
  assumes "0 < x" and "x \<le> y"
  shows "exponent x \<le> exponent y"
proof -
  have "(2::rat) powi exponent x < 2 powi (exponent y + 1)"
    using exponent_bounds [OF assms(1)] exponent_bounds [of y] assms by linarith
  then show ?thesis by (simp del: power_int_add_1)
qed

lemma exponent_unique:
  assumes "2 powi e \<le> x" and "x < 2 powi (e + 1)"
  shows "exponent x = e"
proof -
  have "0 < x" using assms(1) pow2_pos [of e] by linarith
  note b = exponent_bounds [OF this]
  have "(2::rat) powi exponent x < 2 powi (e + 1)" "(2::rat) powi e < 2 powi (exponent x + 1)"
    using assms b by linarith+
  then show ?thesis unfolding pow2_less_iff by linarith
qed

section \<open>Rounding to a double\<close>

lemma spacing_mono: "0 < x \<Longrightarrow> x \<le> y \<Longrightarrow> spacing x \<le> spacing y"
  using exponent_mono [of x y] by (simp add: spacing_def)

lemma double_pos_ge:
  assumes "of_int m * 2 powi spacing x \<le> x"
  shows "of_int m * 2 powi spacing x \<le> double_pos x"
proof -
  have "of_int m \<le> x / 2 powi spacing x" using assms by (simp add: pos_le_divide_eq)
  then show ?thesis using round_even_ge [of m "x / 2 powi spacing x"] by (simp add: double_pos_def)
qed

lemma double_pos_le:
  assumes "x \<le> of_int m * 2 powi spacing x"
  shows "double_pos x \<le> of_int m * 2 powi spacing x"
proof -
  have "x / 2 powi spacing x \<le> of_int m" using assms by (simp add: pos_divide_le_eq)
  then show ?thesis using round_even_le [of "x / 2 powi spacing x" m] by (simp add: double_pos_def)
qed

lemma pow2_multiple: "s \<le> k \<Longrightarrow> (2 :: rat) powi k = of_int (2 ^ nat (k - s)) * 2 powi s"
proof -
  assume "s \<le> k"
  then have "(2 :: rat) powi k = 2 powi (k - s) * 2 powi s" by (simp add: power_int_add [symmetric])
  also have "(2 :: rat) powi (k - s) = of_int (2 ^ nat (k - s))"
    using \<open>s \<le> k\<close> by (simp add: power_int_nonneg_exp)
  finally show ?thesis .
qed

lemma double_pos_mono:
  assumes "0 < x" and "x \<le> y"
  shows "double_pos x \<le> double_pos y"
proof (cases "spacing x = spacing y")
  case True
  then show ?thesis
    using assms round_even_mono [of "x / 2 powi spacing y" "y / 2 powi spacing y"]
    by (simp add: double_pos_def divide_right_mono)
next
  case False
  then have less: "exponent x < exponent y" and sy: "spacing y = exponent y - 52"
    using spacing_mono [OF assms] exponent_mono [OF assms] by (auto simp: spacing_def max_def split: if_splits)
  have "x \<le> 2 powi exponent y"
    using exponent_bounds(2) [OF assms(1)] less by (meson less_le_trans order_less_imp_le pow2_le_iff zless_imp_add1_zle)
  moreover have "spacing x \<le> exponent y" using spacing_mono [OF assms] sy by simp
  ultimately have "double_pos x \<le> 2 powi exponent y"
    using double_pos_le [of x "2 ^ nat (exponent y - spacing x)"] by (simp only: pow2_multiple [symmetric])
  also have "2 powi exponent y \<le> double_pos y"
    using double_pos_ge [of "2 ^ nat (exponent y - spacing y)" y] exponent_bounds(1) [of y] assms sy
      pow2_multiple [of "spacing y" "exponent y"] by simp
  finally show ?thesis .
qed

lemma double_pos_nonneg: "0 < x \<Longrightarrow> 0 \<le> double_pos x"
  using double_pos_ge [of 0 x] by simp

lemma double_0 [simp]: "double 0 = 0"
  by (simp add: double_def)

lemma double_minus: "double (- x) = - double x"
  by (simp add: double_def)

theorem double_mono: "x \<le> y \<Longrightarrow> double x \<le> double y"
  using double_pos_mono [of x y] double_pos_mono [of "- y" "- x"] double_pos_nonneg [of y] double_pos_nonneg [of "- x"]
  by (auto simp: double_def)

lemma double_nonneg: "0 \<le> x \<Longrightarrow> 0 \<le> double x"
  using double_mono [of 0 x] by simp

text \<open>What is representable stays as it is.\<close>

lemma double_pos_representable:
  assumes "0 < m" and "m \<le> 2 ^ 53" and "- 1074 \<le> s"
  shows "double_pos (of_int m * 2 powi s) = of_int m * 2 powi s"
proof -
  have exact: "double_pos (of_int m * 2 powi s) = of_int m * 2 powi s" if m: "0 < m" "m < 2 ^ 53" and s: "- 1074 \<le> s" for m s
  proof -
    let ?y = "of_int m * 2 powi s :: rat"
    have pos: "0 < ?y" using m by simp
    have "?y < 2 powi (s + 53)"
    proof -
      have "(of_int m :: rat) < of_int (2 ^ 53)" using m(2) by (simp only: of_int_less_iff)
      then show ?thesis by (simp add: power_int_add)
    qed
    then have "2 powi exponent ?y < (2 :: rat) powi (s + 53)" using exponent_bounds(1) [OF pos] by linarith
    then have "spacing ?y \<le> s" using s by (simp add: spacing_def)
    then have "?y = of_int (m * 2 ^ nat (s - spacing ?y)) * 2 powi spacing ?y"
      using pow2_multiple [of "spacing ?y" s] by simp
    then have "?y / 2 powi spacing ?y = of_int (m * 2 ^ nat (s - spacing ?y))"
      by (simp only: nonzero_divide_eq_eq pow2_pos [THEN less_imp_neq, symmetric] not_False_eq_True)
    then have "round_even (?y / 2 powi spacing ?y) = m * 2 ^ nat (s - spacing ?y)" by (simp only: round_even_of_int)
    then show ?thesis
      using pow2_multiple [OF \<open>spacing ?y \<le> s\<close>] by (simp add: double_pos_def)
  qed
  show ?thesis
  proof (cases "m = 2 ^ 53")
    case True
    then have "of_int m * (2::rat) powi s = of_int (2 ^ 52) * 2 powi (s + 1)" by (simp add: power_int_add)
    then show ?thesis using exact [of "2 ^ 52" "s + 1"] assms(3) by simp
  qed (use exact assms in simp)
qed

lemma double_representable:
  assumes "\<bar>m\<bar> \<le> 2 ^ 53" and "- 1074 \<le> s"
  shows "double (of_int m * 2 powi s) = of_int m * 2 powi s"
  using double_pos_representable [of m s] double_pos_representable [of "- m" s] assms
  by (auto simp: double_def zero_less_mult_iff split: abs_split)

lemma double_of_int: "\<bar>n\<bar> \<le> 2 ^ 53 \<Longrightarrow> double (of_int n) = of_int n"
  using double_representable [of n 0] by simp

lemma double_1 [simp]: "double 1 = 1"
  using double_of_int [of 1] by simp

theorem double_idem [simp]: "double (double x) = double x"
proof -
  have "double (double_pos x) = double_pos x" if "0 < x" for x
  proof -
    have "exponent x + 1 \<le> spacing x + 53" by (simp add: spacing_def)
    then have "x < 2 powi (spacing x + 53)"
      using exponent_bounds(2) [OF that] by (meson less_le_trans pow2_le_iff)
    then have "x / 2 powi spacing x \<le> of_int (2 ^ 53)"
      by (simp add: pos_divide_le_eq power_int_add mult.commute)
    then have "round_even (x / 2 powi spacing x) \<le> 2 ^ 53" by (rule round_even_le)
    moreover have "0 \<le> round_even (x / 2 powi spacing x)" using that by (intro round_even_ge) simp
    moreover have "- 1074 \<le> spacing x" by (simp add: spacing_def)
    ultimately show ?thesis unfolding double_pos_def by (intro double_representable) simp_all
  qed
  then show ?thesis
    by (cases "x = 0"; cases "0 < x") (simp_all add: double_def [of x] double_minus)
qed

text \<open>The error of a rounding.\<close>

lemma double_pos_error: "0 < x \<Longrightarrow> \<bar>double_pos x - x\<bar> \<le> 2 powi spacing x / 2"
proof -
  assume "0 < x"
  have "double_pos x - x = (of_int (round_even (x / 2 powi spacing x)) - x / 2 powi spacing x) * 2 powi spacing x"
    by (simp add: double_pos_def left_diff_distrib)
  then show ?thesis
    using round_even_error [of "x / 2 powi spacing x"] by (simp add: abs_mult mult_right_mono [of _ "1 / 2", simplified])
qed

theorem double_error:
  assumes "\<bar>x\<bar> < 2 powi k" and "- 1021 \<le> k"
  shows "\<bar>double x - x\<bar> \<le> 2 powi (k - 54)"
proof -
  have small: "\<bar>double_pos x - x\<bar> \<le> 2 powi (k - 54)" if "0 < x" "x < 2 powi k" for x
  proof -
    have "2 powi exponent x < (2 :: rat) powi k" using exponent_bounds(1) [OF that(1)] that(2) by linarith
    then have "spacing x \<le> k - 53" using assms(2) by (simp add: spacing_def)
    then have "(2 :: rat) powi spacing x \<le> 2 powi (k - 54) * 2"
      by (simp add: power_int_add [symmetric, of "2 :: rat" "k - 54" 1, simplified])
    then show ?thesis using double_pos_error [OF that(1)] by linarith
  qed
  show ?thesis
    using small [of x] small [of "- x"] assms(1)
    by (cases "x = 0"; cases "0 < x") (auto simp: double_def abs_minus_commute)
qed

lemma py_round_mono: "x \<le> y \<Longrightarrow> py_round n x \<le> py_round n y"
  unfolding py_round_def
  by (intro double_mono divide_right_mono of_int_le_iff [THEN iffD2] round_even_mono mult_right_mono) simp_all

text \<open>A decimal of \<open>n\<close> digits, written as a literal, and what rounds to it.\<close>

definition decimal_literal :: "nat \<Rightarrow> int \<Rightarrow> rat" where
  "decimal_literal n c = double (of_int c / 10 ^ n)"

lemma decimal_literal_mono: "a \<le> b \<Longrightarrow> decimal_literal n a \<le> decimal_literal n b"
  unfolding decimal_literal_def by (intro double_mono divide_right_mono) simp_all

lemma py_round_between:
  assumes "(of_int a - 1 / 2) / 10 ^ n < x" and "x < (of_int b + 1 / 2) / 10 ^ n"
  shows "decimal_literal n a \<le> py_round n x \<and> py_round n x \<le> decimal_literal n b"
proof -
  have "of_int a - 1 / 2 < x * 10 ^ n" "x * 10 ^ n < of_int b + 1 / 2"
    using assms by (simp_all add: pos_divide_less_eq pos_less_divide_eq)
  then have "a \<le> round_even (x * 10 ^ n) \<and> round_even (x * 10 ^ n) \<le> b" by (rule round_even_near)
  then show ?thesis
    using decimal_literal_mono unfolding py_round_def decimal_literal_def [symmetric] by simp
qed

end
