(* ===== verification/Job_Service.thy ===== *)
theory Job_Service
  imports Job_Queue Http_Types Floats
begin

text \<open>
  Submitting and reading jobs: the request schema (job_system/schemas.py), the repository functions
  (job_system/repository.py), the service with its transaction (job_system/services.py) and the
  endpoints (job_system/api/jobs.py). A payload is a decoded JSON object; it goes through a \<open>JSONB\<close> column
  before it is compared with a repeated submission.
\<close>

section \<open>Equality of decoded JSON\<close>

text \<open>A \<open>JFloat\<close> stands for the double nearest to its text; Python compares numbers and booleans by
  their exact values.\<close>

definition num_value :: "json \<Rightarrow> rat option" where
  "num_value j = (case j of JBool b \<Rightarrow> Some (if b then 1 else 0) | JInt i \<Rightarrow> Some (of_int i)
     | JFloat s \<Rightarrow> (case parse_decimal s of
         Some (Finite c e) \<Rightarrow> Some (double (of_int c * 10 powi e)) | _ \<Rightarrow> None)
     | _ \<Rightarrow> None)"

definition num_eq :: "json \<Rightarrow> json \<Rightarrow> bool" where
  "num_eq x y = (case (num_value x, num_value y) of (Some u, Some v) \<Rightarrow> u = v | _ \<Rightarrow> False)"

text \<open>Python's \<open>==\<close>: dictionaries compare without regard to order.\<close>

fun json_eq :: "json \<Rightarrow> json \<Rightarrow> bool"
  and list_eq :: "json list \<Rightarrow> json list \<Rightarrow> bool"
  and dict_sub :: "(string \<times> json) list \<Rightarrow> (string \<times> json) list \<Rightarrow> bool" where
  "json_eq JNull y = (y = JNull)"
| "json_eq (JStr s) y = (y = JStr s)"
| "json_eq (JList xs) y = (case y of JList ys \<Rightarrow> list_eq xs ys | _ \<Rightarrow> False)"
| "json_eq (JObj xs) y = (case y of JObj ys \<Rightarrow> length xs = length ys \<and> dict_sub xs ys | _ \<Rightarrow> False)"
| "json_eq x y = num_eq x y"
| "list_eq [] ys = (ys = [])"
| "list_eq (x # xs) ys = (case ys of [] \<Rightarrow> False | y # ys' \<Rightarrow> json_eq x y \<and> list_eq xs ys')"
| "dict_sub [] ys = True"
| "dict_sub (kv # xs) ys = ((case map_of ys (fst kv) of None \<Rightarrow> False | Some y \<Rightarrow> json_eq (snd kv) y)
     \<and> dict_sub xs ys)"

text \<open>The keys of a dictionary are distinct.\<close>

fun json_wf :: "json \<Rightarrow> bool" and list_wf :: "json list \<Rightarrow> bool"
  and dict_wf :: "(string \<times> json) list \<Rightarrow> bool" where
  "json_wf (JList xs) = list_wf xs"
| "json_wf (JObj kvs) = (distinct (map fst kvs) \<and> dict_wf kvs)"
| "json_wf x = True"
| "list_wf [] = True"
| "list_wf (x # xs) = (json_wf x \<and> list_wf xs)"
| "dict_wf [] = True"
| "dict_wf (kv # kvs) = (json_wf (snd kv) \<and> dict_wf kvs)"

section \<open>A document in a \<open>JSONB\<close> column\<close>

text \<open>What PostgreSQL refuses in the JSON text of a document: the character NUL in a string or a key,
  and the tokens \<open>NaN\<close> and \<open>Infinity\<close>, which Python writes for floats that are not finite.\<close>

definition jsonb_text :: "string \<Rightarrow> bool" where
  "jsonb_text s \<longleftrightarrow> list_all (\<lambda>c. of_char c \<noteq> (0 :: nat)) s"

fun jsonb_ok :: "json \<Rightarrow> bool" and jsonb_list_ok :: "json list \<Rightarrow> bool"
  and jsonb_dict_ok :: "(string \<times> json) list \<Rightarrow> bool" where
  "jsonb_ok (JFloat s) = (num_value (JFloat s) \<noteq> None)"
| "jsonb_ok (JStr s) = jsonb_text s"
| "jsonb_ok (JList xs) = jsonb_list_ok xs"
| "jsonb_ok (JObj kvs) = jsonb_dict_ok kvs"
| "jsonb_ok x = True"
| "jsonb_list_ok [] = True"
| "jsonb_list_ok (x # xs) = (jsonb_ok x \<and> jsonb_list_ok xs)"
| "jsonb_dict_ok [] = True"
| "jsonb_dict_ok (kv # kvs) = (jsonb_text (fst kv) \<and> jsonb_ok (snd kv) \<and> jsonb_dict_ok kvs)"

text \<open>\<open>JSONB\<close> keeps the members of an object by the length of their keys in bytes, and keys of one
  length by their bytes.\<close>

definition utf8_size :: "string \<Rightarrow> nat" where
  "utf8_size s = (\<Sum>c\<leftarrow>s. if of_char c < (128 :: nat) then 1 else 2)"

fun bytes_le :: "string \<Rightarrow> string \<Rightarrow> bool" where
  "bytes_le [] t = True"
| "bytes_le (c # s) [] = False"
| "bytes_le (c # s) (d # t) = ((of_char c :: nat) < of_char d \<or> c = d \<and> bytes_le s t)"

definition key_le :: "string \<Rightarrow> string \<Rightarrow> bool" where
  "key_le k l \<longleftrightarrow> utf8_size k < utf8_size l \<or> utf8_size k = utf8_size l \<and> bytes_le k l"

fun insert_member :: "string \<times> json \<Rightarrow> (string \<times> json) list \<Rightarrow> (string \<times> json) list" where
  "insert_member kv [] = [kv]"
| "insert_member kv (kw # kws) =
     (if key_le (fst kv) (fst kw) then kv # kw # kws else kw # insert_member kv kws)"

definition order_members :: "(string \<times> json) list \<Rightarrow> (string \<times> json) list" where
  "order_members kvs = foldr insert_member kvs []"

text \<open>What Python reads back from the column. A number is stored as a \<open>numeric\<close>, and is written without
  an exponent: a float whose text has an exponent and, written out, no digits behind the point comes
  back as the integer of its decimal text. Other floats come back with the same value, hence with
  the same shortest text.\<close>

fun jsonb :: "json \<Rightarrow> json" and jsonb_list :: "json list \<Rightarrow> json list"
  and jsonb_dict :: "(string \<times> json) list \<Rightarrow> (string \<times> json) list" where
  "jsonb (JFloat s) = (case parse_decimal s of
       Some (Finite c e) \<Rightarrow> if 0 \<le> e then JInt (c * 10 ^ nat e) else JFloat s
     | _ \<Rightarrow> JFloat s)"
| "jsonb (JList xs) = JList (jsonb_list xs)"
| "jsonb (JObj kvs) = JObj (order_members (jsonb_dict kvs))"
| "jsonb x = x"
| "jsonb_list [] = []"
| "jsonb_list (x # xs) = jsonb x # jsonb_list xs"
| "jsonb_dict [] = []"
| "jsonb_dict (kv # kvs) = (fst kv, jsonb (snd kv)) # jsonb_dict kvs"

definition check_jsonb :: "json \<Rightarrow> db_error + unit" where
  "check_jsonb j = ensure (jsonb_ok j) DataError"

text \<open>The documents that come back equal: each float that comes back as an integer is that integer.\<close>

fun stored_exactly :: "json \<Rightarrow> bool" and list_exactly :: "json list \<Rightarrow> bool"
  and dict_exactly :: "(string \<times> json) list \<Rightarrow> bool" where
  "stored_exactly (JFloat s) = (case parse_decimal s of
       Some (Finite c e) \<Rightarrow> e < 0 \<or> double (of_int (c * 10 ^ nat e)) = of_int (c * 10 ^ nat e)
     | _ \<Rightarrow> False)"
| "stored_exactly (JList xs) = list_exactly xs"
| "stored_exactly (JObj kvs) = dict_exactly kvs"
| "stored_exactly x = True"
| "list_exactly [] = True"
| "list_exactly (x # xs) = (stored_exactly x \<and> list_exactly xs)"
| "dict_exactly [] = True"
| "dict_exactly (kv # kvs) = (stored_exactly (snd kv) \<and> dict_exactly kvs)"

lemma order_members_few [simp]: "order_members [] = []" "order_members [kv] = [kv]"
  by (simp_all add: order_members_def)

lemma mset_order_members [simp]: "mset (order_members kvs) = mset kvs"
proof -
  have "mset (insert_member kv kws) = add_mset kv (mset kws)" for kv kws
    by (induction kws) auto
  then show ?thesis unfolding order_members_def by (induction kvs) auto
qed

lemma order_members_simps [simp]:
  "set (order_members kvs) = set kvs"
  "length (order_members kvs) = length kvs"
  using mset_order_members [of kvs] by (metis set_mset_mset, metis size_mset)

lemma dict_sub_all: "dict_sub xs ys \<longleftrightarrow> (\<forall>kv\<in>set xs. case map_of ys (fst kv) of
    None \<Rightarrow> False | Some y \<Rightarrow> json_eq (snd kv) y)"
  by (induction xs) auto

lemma jsonb_dict_map: "jsonb_dict kvs = map (\<lambda>kv. (fst kv, jsonb (snd kv))) kvs"
  by (induction kvs) auto

lemma dict_exactly_all: "dict_exactly kvs \<longleftrightarrow> (\<forall>kv\<in>set kvs. stored_exactly (snd kv))"
  by (induction kvs) auto

lemma map_of_entry:
  "distinct (map fst kvs) \<Longrightarrow> kv \<in> set kvs \<Longrightarrow> map_of kvs (fst kv) = Some (snd kv)"
  by (simp add: map_of_eq_Some_iff)

text \<open>Comparing what was stored with what was sent.\<close>

lemma json_eq_jsonb:
  "json_wf x \<Longrightarrow> jsonb_ok x \<Longrightarrow> json_eq (jsonb x) x = stored_exactly x"
  "list_wf xs \<Longrightarrow> jsonb_list_ok xs \<Longrightarrow> list_eq (jsonb_list xs) xs = list_exactly xs"
  "dict_wf kvs \<Longrightarrow> jsonb_dict_ok kvs \<Longrightarrow>
     \<forall>kv\<in>set kvs. json_eq (jsonb (snd kv)) (snd kv) = stored_exactly (snd kv)"
proof (induction x and xs and kvs rule: json_wf_list_wf_dict_wf.induct)
  case (2 kvs)
  then have entry: "map_of kvs (fst kv) = Some (snd kv)" if "kv \<in> set kvs" for kv
    using that by (simp add: map_of_entry)
  have "json_eq (jsonb (JObj kvs)) (JObj kvs) =
      (\<forall>kv\<in>set kvs. case map_of kvs (fst kv) of None \<Rightarrow> False | Some y \<Rightarrow> json_eq (jsonb (snd kv)) y)"
    by (simp add: dict_sub_all jsonb_dict_map cong: option.case_cong)
  also have "\<dots> = (\<forall>kv\<in>set kvs. json_eq (jsonb (snd kv)) (snd kv))" by (simp add: entry)
  also have "\<dots> = dict_exactly kvs" using 2 by (simp add: dict_exactly_all)
  finally show ?case by simp
qed (auto simp: num_eq_def num_value_def power_int_def split: option.splits decimal.splits)

section \<open>Submissions\<close>

record job_create =
  jc_queue :: string
  jc_task_name :: string
  jc_payload :: json
  jc_priority :: int
  jc_max_attempts :: int
  jc_idempotency_key :: "string option"

definition name_char :: "char \<Rightarrow> bool" where
  "name_char c = (let n = (of_char c :: nat) in
     65 \<le> n \<and> n \<le> 90 \<or> 97 \<le> n \<and> n \<le> 122 \<or> 48 \<le> n \<and> n \<le> 57 \<or> c = CHR ''_'' \<or> c = CHR ''.''
     \<or> c = CHR ''-'')"

definition valid_name :: "nat \<Rightarrow> string \<Rightarrow> bool" where
  "valid_name n s \<longleftrightarrow> 1 \<le> length s \<and> length s \<le> n \<and> list_all name_char s \<and> strip s = s"

definition valid_job_create :: "job_create \<Rightarrow> bool" where
  "valid_job_create d \<longleftrightarrow> valid_name 100 (jc_queue d) \<and> valid_name 200 (jc_task_name d)
     \<and> (case jc_payload d of JObj _ \<Rightarrow> True | _ \<Rightarrow> False)
     \<and> - 100 \<le> jc_priority d \<and> jc_priority d \<le> 100
     \<and> 1 \<le> jc_max_attempts d \<and> jc_max_attempts d \<le> 100
     \<and> (case jc_idempotency_key d of None \<Rightarrow> True
        | Some k \<Rightarrow> 1 \<le> length k \<and> length k \<le> 200 \<and> list_all (\<lambda>c. name_char c \<or> c = CHR '':'') k)"

text \<open>The new row, as it is read back from the table.\<close>

definition add_job :: "uuid \<Rightarrow> time \<Rightarrow> job_create \<Rightarrow> job" where
  "add_job new_id now d =
     \<lparr>job_id = new_id, job_queue = jc_queue d, job_task_name = jc_task_name d,
      job_payload = jsonb (jc_payload d), job_status = QUEUED, job_priority = jc_priority d,
      job_idempotency_key = jc_idempotency_key d, job_attempt_count = 0,
      job_max_attempts = jc_max_attempts d, job_available_at = now, job_worker_id = None,
      job_result = None, job_last_error = None, job_started_at = None, job_completed_at = None,
      job_lease_expires_at = None, job_heartbeat_at = None, job_created_at = now,
      job_updated_at = now\<rparr>"

datatype submit_error = IdempotencyConflictError | SubmitRuntimeError string
  | SubmitDatabaseError db_error

definition database_step :: "db_error + 'a \<Rightarrow> submit_error + 'a" where
  "database_step r = (case r of Inl e \<Rightarrow> Inl (SubmitDatabaseError e) | Inr a \<Rightarrow> Inr a)"

definition find_by_key :: "string \<Rightarrow> job_table \<Rightarrow> job option" where
  "find_by_key k table = find (\<lambda>j. job_idempotency_key j = Some k) table"

definition create_or_get_idempotent_job :: "uuid \<Rightarrow> time \<Rightarrow> job_create \<Rightarrow> job_table \<Rightarrow>
    submit_error + (job \<times> bool) \<times> job_table" where
  "create_or_get_idempotent_job new_id now d table =
     (let j = add_job new_id now d in
      rbind (database_step (rbind (check_jsonb (jc_payload d)) (\<lambda>_. check_job j))) (\<lambda>_.
      case jc_idempotency_key d of
        None \<Rightarrow> Inr ((j, True), j # table)
      | Some k \<Rightarrow>
          (if \<forall>q\<in>set table. job_idempotency_key q \<noteq> Some k then Inr ((j, True), j # table)
           else case find_by_key k table of
               None \<Rightarrow> Inl (SubmitRuntimeError
                 ''Idempotency conflict occurred but the existing job was not found'')
             | Some q \<Rightarrow> Inr ((q, False), table))))"

definition job_matches_submission :: "job \<Rightarrow> job_create \<Rightarrow> bool" where
  "job_matches_submission j d \<longleftrightarrow> job_queue j = jc_queue d \<and> job_task_name j = jc_task_name d
     \<and> json_eq (job_payload j) (jc_payload d) \<and> job_priority j = jc_priority d
     \<and> job_max_attempts j = jc_max_attempts d"

record submission_result =
  sub_job :: job
  sub_created :: bool

definition create_job :: "tx \<Rightarrow> uuid \<Rightarrow> job_create \<Rightarrow> job_table \<Rightarrow>
    (submit_error + submission_result) \<times> job_table" where
  "create_job tx new_id d table =
     (case rbind (create_or_get_idempotent_job new_id (tx_now tx) d table) (\<lambda>((j, created), table').
             if \<not> created \<and> \<not> job_matches_submission j d then Inl IdempotencyConflictError
             else Inr (\<lparr>sub_job = j, sub_created = created\<rparr>, table')) of
        Inl e \<Rightarrow> (Inl e, table)
      | Inr (r, table') \<Rightarrow> (case tx_fault tx of NoFault \<Rightarrow> (Inr r, table')
          | FailsBefore \<Rightarrow> (Inl (SubmitDatabaseError OperationalError), table)
          | FailsAfterCommit \<Rightarrow> (Inl (SubmitDatabaseError OperationalError), table')))"

section \<open>Reading\<close>

definition get_job_by_id :: "uuid \<Rightarrow> job_table \<Rightarrow> job option" where
  "get_job_by_id i table = find (\<lambda>j. job_id j = i) table"

definition list_key :: "job \<Rightarrow> int \<times> int" where
  "list_key j = (- job_created_at j, - uint (job_id j))"

definition list_jobs :: "string option \<Rightarrow> job_status option \<Rightarrow> nat \<Rightarrow> nat \<Rightarrow> job_table \<Rightarrow> job list" where
  "list_jobs queue_filter status_filter limit offset table =
     page offset limit (sort_key list_key
       (filter (\<lambda>j. matches queue_filter (job_queue j) \<and> matches status_filter (job_status j)) table))"

section \<open>Endpoints\<close>

definition conflict_detail :: json where
  "conflict_detail = JStr ''Idempotency key is already associated with a different job submission''"

definition create_job_endpoint :: "tx \<Rightarrow> uuid \<Rightarrow> job_create \<Rightarrow> job_table \<Rightarrow>
    job endpoint_result \<times> job_table" where
  "create_job_endpoint tx new_id d table =
     (if \<not> valid_job_create d then (unprocessable, table)
      else case create_job tx new_id d table of
          (Inr r, table') \<Rightarrow> (Reply 201 (sub_job r), table')
        | (Inl IdempotencyConflictError, table') \<Rightarrow> (HTTPException 409 conflict_detail, table')
        | (Inl _, table') \<Rightarrow> (server_error, table'))"

definition get_jobs_endpoint :: "string option \<Rightarrow> job_status option \<Rightarrow> int \<Rightarrow> int \<Rightarrow> job_table \<Rightarrow>
    job list endpoint_result" where
  "get_jobs_endpoint queue_filter status_filter limit offset table =
     (if (case queue_filter of None \<Rightarrow> True
          | Some q \<Rightarrow> 1 \<le> length q \<and> length q \<le> 100 \<and> list_all name_char q)
       \<and> 1 \<le> limit \<and> limit \<le> 100 \<and> 0 \<le> offset
      then Reply 200 (list_jobs queue_filter status_filter (nat limit) (nat offset) table)
      else unprocessable)"

definition get_job_endpoint :: "uuid \<Rightarrow> job_table \<Rightarrow> job endpoint_result" where
  "get_job_endpoint i table = (case get_job_by_id i table of
     None \<Rightarrow> HTTPException 404 (JStr ''Job not found'') | Some j \<Rightarrow> Reply 200 j)"

end
