(* ===== verification/Job_Correct.thy ===== *)
theory Job_Correct
  imports Job_Service
begin

text \<open>
  The life cycle of a job: what every stored row satisfies, the steps a row can take, and the
  simulation of every queue operation and submission by these row steps.
\<close>

section \<open>Stored rows\<close>

definition job_wf :: "job \<Rightarrow> bool" where
  "job_wf j \<longleftrightarrow> 1 \<le> job_max_attempts j \<and> job_max_attempts j \<le> 100
     \<and> 0 \<le> job_attempt_count j \<and> job_attempt_count j \<le> job_max_attempts j
     \<and> (case job_status j of
          QUEUED \<Rightarrow> job_attempt_count j = 0 \<and> job_worker_id j = None \<and> job_result j = None
        | RUNNING \<Rightarrow> 1 \<le> job_attempt_count j \<and> job_worker_id j \<noteq> None \<and> job_result j = None
            \<and> job_started_at j \<noteq> None
        | RETRY_SCHEDULED \<Rightarrow> 1 \<le> job_attempt_count j \<and> job_attempt_count j < job_max_attempts j
            \<and> job_worker_id j = None \<and> job_result j = None \<and> job_last_error j \<noteq> None
        | SUCCEEDED \<Rightarrow> 1 \<le> job_attempt_count j \<and> job_result j \<noteq> None \<and> job_last_error j = None
        | DEAD_LETTERED \<Rightarrow> 1 \<le> job_attempt_count j \<and> job_result j = None \<and> job_last_error j \<noteq> None
        | JOB_CANCELLED \<Rightarrow> False)
     \<and> (job_lease_expires_at j \<noteq> None \<longleftrightarrow> job_status j = RUNNING)
     \<and> (job_heartbeat_at j \<noteq> None \<longleftrightarrow> job_status j = RUNNING)
     \<and> (job_completed_at j \<noteq> None \<longleftrightarrow> job_status j \<in> {SUCCEEDED, DEAD_LETTERED})"

definition keys_distinct :: "job_table \<Rightarrow> bool" where
  "keys_distinct table \<longleftrightarrow> distinct (map (\<lambda>j. the (job_idempotency_key j))
     (filter (\<lambda>j. job_idempotency_key j \<noteq> None) table))"

definition table_ok :: "job_table \<Rightarrow> bool" where
  "table_ok table \<longleftrightarrow> distinct (map job_id table) \<and> keys_distinct table \<and> (\<forall>j\<in>set table. job_wf j)"

section \<open>Row steps\<close>

text \<open>What a row never changes: its identity and the submitted work.\<close>

definition same_work :: "job \<Rightarrow> job \<Rightarrow> bool" where
  "same_work j j' \<longleftrightarrow> job_id j' = job_id j \<and> job_queue j' = job_queue j
     \<and> job_task_name j' = job_task_name j \<and> job_payload j' = job_payload j
     \<and> job_priority j' = job_priority j \<and> job_idempotency_key j' = job_idempotency_key j
     \<and> job_max_attempts j' = job_max_attempts j \<and> job_created_at j' = job_created_at j"

text \<open>The abstract life cycle: the status and the attempts used.\<close>

inductive life_step :: "int \<Rightarrow> job_status \<times> int \<Rightarrow> job_status \<times> int \<Rightarrow> bool" for m where
  idle: "life_step m x x"
| claim: "st \<in> {QUEUED, RETRY_SCHEDULED} \<Longrightarrow> n < m \<Longrightarrow> life_step m (st, n) (RUNNING, n + 1)"
| success: "life_step m (RUNNING, n) (SUCCEEDED, n)"
| retry: "n < m \<Longrightarrow> life_step m (RUNNING, n) (RETRY_SCHEDULED, n)"
| give_up: "life_step m (RUNNING, n) (DEAD_LETTERED, n)"

inductive_simps life_step_final:
  "life_step m (SUCCEEDED, n) x" "life_step m (DEAD_LETTERED, n) x"

abbreviation life :: "job \<Rightarrow> job_status \<times> int" where
  "life j \<equiv> (job_status j, job_attempt_count j)"

definition row_step :: "job \<Rightarrow> job \<Rightarrow> bool" where
  "row_step j j' \<longleftrightarrow> same_work j j' \<and> life_step (job_max_attempts j) (life j) (life j')
     \<and> (job_wf j \<longrightarrow> job_wf j') \<and> (job_status j \<in> {SUCCEEDED, DEAD_LETTERED} \<longrightarrow> j' = j)"

lemma row_step_refl [simp]: "row_step j j"
  by (simp add: row_step_def same_work_def life_step.idle)

lemma same_work_trans: "same_work a b \<Longrightarrow> same_work b c \<Longrightarrow> same_work a c"
  by (simp add: same_work_def)

lemma claimed_step:
  assumes "job_wf j" and "claimable queues now j"
  shows "row_step j (claimed w now t j)"
proof -
  have st: "job_status j \<in> {QUEUED, RETRY_SCHEDULED}" and n: "job_attempt_count j < job_max_attempts j"
    using assms by (auto simp: claimable_def job_wf_def)
  have "life_step (job_max_attempts j) (life j) (life (claimed w now t j))"
    using life_step.claim [OF st n] by (simp add: claimed_def)
  moreover have "job_wf (claimed w now t j)"
    using assms n by (auto simp: job_wf_def claimed_def)
  ultimately show ?thesis using st by (auto simp: row_step_def same_work_def claimed_def)
qed

lemma renewed_step:
  "owned i w now j \<Longrightarrow> row_step j (j\<lparr>job_heartbeat_at := Some now, job_lease_expires_at := Some t,
     job_updated_at := now\<rparr>)"
  by (auto simp: row_step_def same_work_def owned_def job_wf_def intro: life_step.idle)

lemma succeeded_step: "owned i w now j \<Longrightarrow> row_step j (succeeded now r j)"
  by (auto simp: row_step_def same_work_def owned_def job_wf_def succeeded_def
      intro: life_step.success)

lemma failed_step:
  assumes "owned i w now j"
  shows "row_step j (failed now msg retryable b c j)"
proof -
  have st: "job_status j = RUNNING" using assms by (simp add: owned_def)
  have "life_step (job_max_attempts j) (life j) (life (failed now msg retryable b c j))"
    using st life_step.retry life_step.give_up
    by (auto simp: failed_def Let_def should_retry_job_def)
  then show ?thesis
    using st by (auto simp: row_step_def same_work_def job_wf_def failed_def Let_def should_retry_job_def)
qed

lemma recovered_step:
  assumes "stale now j"
  shows "row_step j (recovered now j)"
proof -
  have st: "job_status j = RUNNING" using assms by (simp add: stale_def)
  have "life_step (job_max_attempts j) (life j) (life (recovered now j))"
    using st life_step.retry life_step.give_up
    by (auto simp: recovered_def Let_def should_retry_job_def)
  then show ?thesis
    using st by (auto simp: row_step_def same_work_def job_wf_def recovered_def Let_def should_retry_job_def)
qed

section \<open>Tables\<close>

text \<open>A table whose rows each took a step, in place.\<close>

definition rows_step :: "job_table \<Rightarrow> job_table \<Rightarrow> bool" where
  "rows_step table table' \<longleftrightarrow> list_all2 row_step table table'"

lemma rows_step_refl [simp]: "rows_step table table"
  by (simp add: rows_step_def list_all2_same)

lemma rows_step_map: "(\<And>j. j \<in> set table \<Longrightarrow> row_step j (f j)) \<Longrightarrow> rows_step table (map f table)"
  by (simp add: rows_step_def list_all2_map2 list_all2_same)

lemma rows_step_keys:
  assumes "rows_step table table'"
  shows "map job_id table' = map job_id table"
    and "map job_idempotency_key table' = map job_idempotency_key table"
proof -
  from assms have "list_all2 row_step table table'" by (simp add: rows_step_def)
  then show "map job_id table' = map job_id table"
    "map job_idempotency_key table' = map job_idempotency_key table"
    by (induction rule: list_all2_induct) (simp_all add: row_step_def same_work_def)
qed

lemma keys_distinct_map:
  assumes "map job_idempotency_key table' = map job_idempotency_key table"
  shows "keys_distinct table' = keys_distinct table"
proof -
  have form: "map (\<lambda>j. the (job_idempotency_key j)) (filter (\<lambda>j. job_idempotency_key j \<noteq> None) t) =
      map the (filter (\<lambda>k. k \<noteq> None) (map job_idempotency_key t))" for t
    by (induction t) simp_all
  show ?thesis by (simp only: keys_distinct_def form assms)
qed

lemma rows_step_ok: "rows_step table table' \<Longrightarrow> table_ok table \<Longrightarrow> table_ok table'"
proof -
  assume step: "rows_step table table'" and ok: "table_ok table"
  have "\<forall>j'\<in>set table'. \<exists>j\<in>set table. row_step j j'"
    using step unfolding rows_step_def by (induction rule: list_all2_induct) auto
  then have "\<forall>j'\<in>set table'. job_wf j'"
    using ok by (auto simp: table_ok_def row_step_def)
  then show "table_ok table'"
    using ok rows_step_keys(1) [OF step] keys_distinct_map [OF rows_step_keys(2) [OF step]]
    by (simp add: table_ok_def)
qed

lemma rows_step_find:
  assumes "rows_step table table'" and "get_job_by_id i table = Some j"
  shows "\<exists>j'. get_job_by_id i table' = Some j' \<and> row_step j j'"
proof -
  from assms(1) have "list_all2 row_step table table'" by (simp add: rows_step_def)
  then show ?thesis using assms(2) unfolding get_job_by_id_def
    by (induction rule: list_all2_induct) (auto simp: row_step_def same_work_def split: if_splits)
qed

lemma store_jobs_map:
  assumes "distinct (map job_id table)" and "set js \<subseteq> set table" and "\<And>j. job_id (f j) = job_id j"
  shows "store_jobs (map f js) table = map (\<lambda>r. if r \<in> set js then f r else r) table"
proof -
  have "(case find (\<lambda>j. job_id j = job_id r) (map f js) of None \<Rightarrow> r | Some j \<Rightarrow> j) =
      (if r \<in> set js then f r else r)" if r: "r \<in> set table" for r
  proof -
    have eq: "j = r" if "j \<in> set js" "job_id j = job_id r" for j
      using that r assms(1,2) by (metis distinct_map inj_onD subsetD)
    show ?thesis
    proof (cases "find (\<lambda>j. job_id j = job_id r) (map f js)")
      case None
      then have "r \<notin> set js" using assms(3) by (auto simp: find_None_iff)
      then show ?thesis using None by simp
    next
      case (Some q)
      then have "q \<in> set (map f js)" "job_id q = job_id r" by (auto dest: find_row_SomeD)
      then obtain j where "j \<in> set js" "q = f j" "job_id j = job_id r" using assms(3) by auto
      then show ?thesis using Some eq by auto
    qed
  qed
  then show ?thesis by (simp add: store_jobs_def)
qed

lemma select_jobs_props:
  shows "set (select_jobs P key tx limit table) \<subseteq> {j \<in> set table. P j \<and> \<not> tx_locked tx (job_id j)}"
    and "distinct (map job_id table) \<Longrightarrow> distinct (map job_id (select_jobs P key tx limit table))"
    and "sorted (map key (select_jobs P key tx limit table))"
    and "length (select_jobs P key tx limit table) \<le> nat limit"
proof -
  let ?ok = "\<lambda>j. P j \<and> \<not> tx_locked tx (job_id j)"
  show "set (select_jobs P key tx limit table) \<subseteq> {j \<in> set table. ?ok j}"
    by (auto simp: select_jobs_def dest: in_set_takeD)
  show "sorted (map key (select_jobs P key tx limit table))"
    by (simp add: select_jobs_def sorted_wrt_take flip: take_map)
  show "length (select_jobs P key tx limit table) \<le> nat limit" by (simp add: select_jobs_def)
  assume "distinct (map job_id table)"
  then have "distinct (map job_id (filter ?ok table))" by (rule distinct_map_filter)
  then have "distinct (map job_id (sort_key key (filter ?ok table)))" by (simp add: distinct_map)
  then show "distinct (map job_id (select_jobs P key tx limit table))"
    by (simp add: select_jobs_def flip: take_map)
qed

lemma stored_selection_step:
  assumes "distinct (map job_id table)" and "\<And>j. job_id (f j) = job_id j"
    and "\<And>j. j \<in> set table \<Longrightarrow> P j \<Longrightarrow> row_step j (f j)"
  shows "rows_step table (store_jobs (map f (select_jobs P key tx limit table)) table)"
proof -
  have "set (select_jobs P key tx limit table) \<subseteq> set table"
    using select_jobs_props(1) by blast
  then show ?thesis
    using select_jobs_props(1) [of P key tx limit table] assms
    by (subst store_jobs_map) (auto intro!: rows_step_map)
qed

section \<open>The queue operations\<close>

lemma claimed_id [simp]: "job_id (claimed w now t j) = job_id j"
  by (simp add: claimed_def)

lemma failed_id [simp]: "job_id (failed now msg retryable b c j) = job_id j"
  by (simp add: failed_def Let_def)

lemma recovered_id [simp]: "job_id (recovered now j) = job_id j"
  by (simp add: recovered_def Let_def)

lemma claim_jobs_cases:
  assumes "claim_jobs tx w queues limit d table = (r, table')"
  obtains "table' = table" "r = Inr [] \<or> (\<exists>e. r = Inl e)"
    | (committed) js where "js = map (claimed w (tx_now tx) (tx_now tx + timedelta d))
          (select_jobs (claimable queues (tx_now tx)) claim_key tx limit table)"
        "table' = store_jobs js table" "r = Inr js \<or> r = Inl OperationalError" "check_jobs js = Inr ()"
proof (cases "queues = [] \<or> limit < 1")
  case True
  then show thesis using assms that(1) by (auto simp: claim_jobs_def)
next
  case False
  define js where "js = map (claimed w (tx_now tx) (tx_now tx + timedelta d))
    (select_jobs (claimable queues (tx_now tx)) claim_key tx limit table)"
  have run: "finish tx table (rbind (check_jobs js) (\<lambda>_. Inr (js, store_jobs js table))) = (r, table')"
    using assms False by (simp add: claim_jobs_def Let_def js_def)
  show thesis
  proof (cases "check_jobs js")
    case (Inl e)
    then show thesis using run that(1) by auto
  next
    case (Inr u)
    show thesis
    proof (cases "tx_fault tx")
      case FailsBefore
      then show thesis using run Inr by (intro that(1)) (auto simp: finish_def)
    qed (use run Inr in \<open>auto intro!: that(2) [OF js_def] simp: finish_def\<close>)
  qed
qed

lemma claim_jobs_step:
  assumes "claim_jobs tx w queues limit d table = (r, table')" and "table_ok table"
  shows "rows_step table table'"
  using assms(1)
proof (cases rule: claim_jobs_cases)
  case (committed js)
  have "row_step j (claimed w (tx_now tx) (tx_now tx + timedelta d) j)"
    if "j \<in> set table" "claimable queues (tx_now tx) j" for j
    using claimed_step that assms(2) by (auto simp: table_ok_def)
  then show ?thesis
    using committed(1,2) assms(2) by (auto simp: table_ok_def intro!: stored_selection_step)
qed simp

lemma update_where_step:
  assumes "update_where P f table = (n, table')" and "\<And>j. j \<in> set table \<Longrightarrow> P j \<Longrightarrow> row_step j (f j)"
  shows "rows_step table table'"
  using assms by (auto simp: update_where_def intro!: rows_step_map)

lemma renew_lease_step:
  assumes "renew_lease tx i w d table = (r, table')"
  shows "rows_step table table'"
proof -
  obtain n t where u: "update_where (owned i w (tx_now tx))
      (\<lambda>j. j\<lparr>job_heartbeat_at := Some (tx_now tx),
        job_lease_expires_at := Some (tx_now tx + timedelta d), job_updated_at := tx_now tx\<rparr>) table = (n, t)"
    by fastforce
  have "rows_step table t" by (rule update_where_step [OF u]) (auto intro: renewed_step)
  moreover have "table' = table \<or> table' = t"
    using assms u by (auto simp: renew_lease_def Let_def dest: finish_state)
  ultimately show ?thesis by auto
qed

lemma mark_succeeded_step:
  assumes "mark_succeeded tx i w res table = (r, table')"
  shows "rows_step table table'"
proof -
  obtain n t where u: "update_where (owned i w (tx_now tx)) (succeeded (tx_now tx) res) table = (n, t)"
    by fastforce
  have "rows_step table t" by (rule update_where_step [OF u]) (auto intro: succeeded_step)
  moreover have "table' = table \<or> table' = t"
    using assms u by (auto simp: mark_succeeded_def Let_def dest: finish_state)
  ultimately show ?thesis by auto
qed

lemma mark_failed_step:
  assumes "mark_failed tx i w msg retryable b c table = (r, table')" and "distinct (map job_id table)"
  shows "rows_step table table'"
proof (cases "find (owned i w (tx_now tx)) table")
  case None
  then show ?thesis using assms(1) by (auto simp: mark_failed_def dest: finish_state)
next
  case (Some j)
  then have j: "j \<in> set table" "owned i w (tx_now tx) j" by (auto dest: find_row_SomeD)
  let ?f = "failed (tx_now tx) msg retryable b c"
  have "table' = table \<or> table' = store_jobs (map ?f [j]) table"
    using assms(1) Some by (auto simp: mark_failed_def Let_def result_simps dest!: finish_state)
  moreover have "store_jobs (map ?f [j]) table = map (\<lambda>r. if r \<in> set [j] then ?f r else r) table"
    using j assms(2) by (intro store_jobs_map) auto
  moreover have "rows_step table (map (\<lambda>r. if r \<in> set [j] then ?f r else r) table)"
    using failed_step [OF j(2)] by (intro rows_step_map) auto
  ultimately show ?thesis by auto
qed

lemma recover_stale_jobs_step:
  assumes "recover_stale_jobs tx limit table = (r, table')" and "distinct (map job_id table)"
  shows "rows_step table table'"
proof -
  have "rows_step table (store_jobs (map (recovered (tx_now tx))
      (select_jobs (stale (tx_now tx)) stale_key tx limit table)) table)"
    using assms(2) recovered_step by (intro stored_selection_step) auto
  moreover have "table' = table \<or> table' = store_jobs (map (recovered (tx_now tx))
      (select_jobs (stale (tx_now tx)) stale_key tx limit table)) table"
    using assms(1)
    by (auto simp: recover_stale_jobs_def Let_def result_simps split: if_splits dest!: finish_state)
  ultimately show ?thesis by auto
qed

section \<open>Submissions\<close>

lemma create_job_db:
  assumes "create_job tx i d table = (r, table')"
  shows "table' = table \<or> table' = add_job i (tx_now tx) d # table
    \<and> check_job (add_job i (tx_now tx) d) = Inr ()
    \<and> (\<forall>k. jc_idempotency_key d = Some k \<longrightarrow> (\<forall>q\<in>set table. job_idempotency_key q \<noteq> Some k))"
  using assms
  by (auto simp: create_job_def create_or_get_idempotent_job_def database_step_def result_simps Let_def
      split: sum.splits option.splits if_splits tx_fault.splits)

lemma create_job_ok:
  assumes "create_job tx i d table = (r, table')" and "table_ok table" and "i \<notin> job_id ` set table"
  shows "table_ok table'"
proof (cases "table' = table")
  case False
  let ?j = "add_job i (tx_now tx) d"
  have new: "table' = ?j # table" "check_job ?j = Inr ()"
    "\<And>k q. jc_idempotency_key d = Some k \<Longrightarrow> q \<in> set table \<Longrightarrow> job_idempotency_key q \<noteq> Some k"
    using create_job_db [OF assms(1)] False by auto
  have "job_wf ?j" using new(2) by (auto simp: job_wf_def add_job_def check_job_def result_simps)
  moreover have "keys_distinct (?j # table)"
    using new(3) assms(2)
    by (auto simp: table_ok_def keys_distinct_def add_job_def)
  ultimately show ?thesis using new(1) assms(2,3) by (simp add: table_ok_def add_job_def)
qed (use assms in simp)

section \<open>Reachable tables\<close>

datatype queue_call =
    Submit uuid job_create
  | Claim string "string list" int rat
  | Renew uuid string rat
  | Succeed uuid string json
  | Fail uuid string string bool rat rat
  | Recover int

fun queue_run :: "tx \<Rightarrow> queue_call \<Rightarrow> job_table \<Rightarrow> job_table" where
  "queue_run tx (Submit i d) t = snd (create_job_endpoint tx i d t)"
| "queue_run tx (Claim w qs limit d) t = snd (claim_jobs tx w qs limit d t)"
| "queue_run tx (Renew i w d) t = snd (renew_lease tx i w d t)"
| "queue_run tx (Succeed i w r) t = snd (mark_succeeded tx i w r t)"
| "queue_run tx (Fail i w msg retryable b c) t = snd (mark_failed tx i w msg retryable b c t)"
| "queue_run tx (Recover limit) t = snd (recover_stale_jobs tx limit t)"

text \<open>Identifiers of submitted jobs are fresh, as \<open>uuid4()\<close> makes them.\<close>

fun fresh_call :: "queue_call \<Rightarrow> job_table \<Rightarrow> bool" where
  "fresh_call (Submit i d) t \<longleftrightarrow> i \<notin> job_id ` set t"
| "fresh_call _ t \<longleftrightarrow> True"

inductive job_step :: "job_table \<Rightarrow> job_table \<Rightarrow> bool" where
  "fresh_call c t \<Longrightarrow> job_step t (queue_run tx c t)"

inductive job_reachable :: "job_table \<Rightarrow> bool" where
  start: "job_reachable []"
| step: "job_reachable t \<Longrightarrow> job_step t t' \<Longrightarrow> job_reachable t'"

lemma submit_endpoint_db:
  "snd (create_job_endpoint tx i d t) = t \<or> (\<exists>r. create_job tx i d t = (r, snd (create_job_endpoint tx i d t)))"
  by (auto simp: create_job_endpoint_def split: prod.splits sum.splits submit_error.splits)

lemma queue_run_cases:
  assumes "table_ok t" and "fresh_call c t"
  shows "table_ok (queue_run tx c t)"
    and "\<And>i j. get_job_by_id i t = Some j \<Longrightarrow> \<exists>j'. get_job_by_id i (queue_run tx c t) = Some j' \<and> row_step j j'"
proof -
  have dist: "distinct (map job_id t)" using assms(1) by (simp add: table_ok_def)
  have "(\<exists>i d r. c = Submit i d \<and> create_job tx i d t = (r, queue_run tx c t)) \<or> rows_step t (queue_run tx c t)"
  proof (cases c)
    case (Submit i d)
    then show ?thesis using submit_endpoint_db [of tx i d t] by auto
  next
    case (Claim w qs limit d)
    then show ?thesis
      using claim_jobs_step [of tx w qs limit d t "fst (claim_jobs tx w qs limit d t)"] assms(1) by simp
  next
    case (Renew i w d)
    then show ?thesis using renew_lease_step [of tx i w d t "fst (renew_lease tx i w d t)"] by simp
  next
    case (Succeed i w r)
    then show ?thesis using mark_succeeded_step [of tx i w r t "fst (mark_succeeded tx i w r t)"] by simp
  next
    case (Fail i w msg retryable b d)
    then show ?thesis
      using mark_failed_step [of tx i w msg retryable b d t
          "fst (mark_failed tx i w msg retryable b d t)"] dist by simp
  next
    case (Recover limit)
    then show ?thesis
      using recover_stale_jobs_step [of tx limit t "fst (recover_stale_jobs tx limit t)"] dist by simp
  qed
  then have "table_ok (queue_run tx c t) \<and> (\<forall>i j. get_job_by_id i t = Some j \<longrightarrow>
      (\<exists>j'. get_job_by_id i (queue_run tx c t) = Some j' \<and> row_step j j'))"
  proof (elim disjE exE conjE)
    fix i d r
    assume c: "c = Submit i d" "create_job tx i d t = (r, queue_run tx c t)"
    have "get_job_by_id k (queue_run tx c t) = Some j" if "get_job_by_id k t = Some j" for k j
    proof -
      have "k \<in> job_id ` set t" using that by (auto simp: get_job_by_id_def dest: find_row_SomeD)
      then have "k \<noteq> i" using assms(2) c by auto
      then show ?thesis using create_job_db [OF c(2)] that by (auto simp: get_job_by_id_def add_job_def)
    qed
    then show ?thesis using create_job_ok [OF c(2) assms(1)] assms(2) c row_step_refl by auto
  next
    assume "rows_step t (queue_run tx c t)"
    then show ?thesis using rows_step_ok assms(1) rows_step_find by blast
  qed
  then show "table_ok (queue_run tx c t)"
    and "\<And>i j. get_job_by_id i t = Some j \<Longrightarrow> \<exists>j'. get_job_by_id i (queue_run tx c t) = Some j' \<and> row_step j j'"
    by blast+
qed

lemma job_step_ok: "job_step t t' \<Longrightarrow> table_ok t \<Longrightarrow> table_ok t'"
  by (auto elim!: job_step.cases intro: queue_run_cases(1))

lemma job_step_find:
  "job_step t t' \<Longrightarrow> table_ok t \<Longrightarrow> get_job_by_id i t = Some j \<Longrightarrow>
    \<exists>j'. get_job_by_id i t' = Some j' \<and> row_step j j'"
  by (auto elim!: job_step.cases intro: queue_run_cases(2))

lemma reachable_table_ok: "job_reachable t \<Longrightarrow> table_ok t"
proof (induction rule: job_reachable.induct)
  case start
  show ?case by (simp add: table_ok_def keys_distinct_def)
next
  case (step t t')
  then show ?case using job_step_ok by blast
qed

end
