(* ===== verification/Job_Worker.thy ===== *)
theory Job_Worker
  imports Job_Correct
begin

text \<open>
  The task handlers (job_system/handlers.py), the worker runtime (job_system/worker.py) and the
  settings it runs with (job_system/config.py). The worker is a client of the queue, whose operations
  it takes as an argument; its loops run until the stop event is set, and the model counts their
  turns. Metrics and log lines are left out.
\<close>

section \<open>Handlers\<close>

datatype task_error = UnknownTaskError string | InvalidTaskPayloadError string | OverflowError string

definition is_task_handler_error :: "task_error \<Rightarrow> bool" where
  "is_task_handler_error e = (case e of OverflowError _ \<Rightarrow> False | _ \<Rightarrow> True)"

definition task_error_text :: "task_error \<Rightarrow> string" where
  "task_error_text e = (case e of UnknownTaskError s \<Rightarrow> ''UnknownTaskError: '' @ s
     | InvalidTaskPayloadError s \<Rightarrow> ''InvalidTaskPayloadError: '' @ s
     | OverflowError s \<Rightarrow> ''OverflowError: '' @ s)"

definition in_delay_range :: "decimal \<Rightarrow> bool" where
  "in_delay_range d = (case d of
      Finite c e \<Rightarrow> 0 \<le> c \<and> (if 0 \<le> e then c * 10 ^ nat e \<le> 30 else c \<le> 30 * 10 ^ nat (- e))
    | _ \<Rightarrow> False)"

text \<open>\<open>float(i)\<close> raises when the integer rounds to more than the largest double.\<close>

definition float_overflows :: "int \<Rightarrow> bool" where
  "float_overflows i \<longleftrightarrow> 2 ^ 1024 - 2 ^ 970 \<le> \<bar>i\<bar>"

definition processing_delay :: "json \<Rightarrow> task_error + decimal" where
  "processing_delay payload =
     (let check = (\<lambda>d. if in_delay_range d then Inr d
          else Inl (InvalidTaskPayloadError ''delay_seconds must be between 0 and 30''));
          invalid = Inl (InvalidTaskPayloadError ''delay_seconds must be a number'')
      in case json_get ''delay_seconds'' payload of
           None \<Rightarrow> check (Finite 1 (- 1))
         | Some (JInt i) \<Rightarrow> if float_overflows i
             then Inl (OverflowError ''int too large to convert to float'') else check (Finite i 0)
         | Some (JFloat s) \<Rightarrow> (case parse_decimal s of Some d \<Rightarrow> check d | None \<Rightarrow> invalid)
         | Some _ \<Rightarrow> invalid)"

definition get_default :: "string \<Rightarrow> string \<Rightarrow> json \<Rightarrow> string" where
  "get_default k d payload = (case json_get k payload of None \<Rightarrow> d | Some v \<Rightarrow> py_str v)"

definition generate_report :: "json \<Rightarrow> task_error + json" where
  "generate_report payload = rbind (processing_delay payload) (\<lambda>_. Inr (JObj [
     (''report_id'', JStr (get_default ''report_id'' ''generated-report'' payload)),
     (''format'', JStr (get_default ''format'' ''json'' payload)),
     (''generated'', JBool True)]))"

definition send_email :: "json \<Rightarrow> task_error + json" where
  "send_email payload = (case json_get ''recipient'' payload of
      Some (JStr r) \<Rightarrow>
        if strip r = [] then Inl (InvalidTaskPayloadError ''recipient must be a non-empty string'')
        else rbind (processing_delay payload) (\<lambda>_. Inr (JObj [
               (''recipient'', JStr r), (''status'', JStr ''accepted''), (''simulated'', JBool True)]))
    | _ \<Rightarrow> Inl (InvalidTaskPayloadError ''recipient must be a non-empty string''))"

definition echo :: "json \<Rightarrow> task_error + json" where
  "echo payload = rbind (processing_delay payload) (\<lambda>_. Inr (JObj [(''echo'', payload)]))"

definition task_handlers :: "(string \<times> (json \<Rightarrow> task_error + json)) list" where
  "task_handlers = [(''generate-report'', generate_report), (''send-email'', send_email), (''echo'', echo)]"

definition execute_task :: "string \<Rightarrow> json \<Rightarrow> task_error + json" where
  "execute_task task_name payload = (case map_of task_handlers task_name of
      None \<Rightarrow> Inl (UnknownTaskError (''No handler registered for task: '' @ task_name))
    | Some handler \<Rightarrow> handler payload)"

section \<open>Settings\<close>

record job_settings =
  environment :: string
  database_url :: string
  database_echo :: bool
  database_pool_size :: int
  database_max_overflow :: int
  worker_queues :: string
  worker_concurrency :: int
  worker_poll_interval :: rat
  worker_retry_base_delay :: rat
  worker_retry_max_delay :: rat
  worker_lease_duration :: rat
  worker_heartbeat_interval :: rat
  worker_recovery_interval :: rat
  worker_metrics_port :: int

fun is_infix :: "string \<Rightarrow> string \<Rightarrow> bool" where
  "is_infix p [] = (p = [])"
| "is_infix p (c # s) = (take (length p) (c # s) = p \<or> is_infix p s)"

definition validate_settings :: "job_settings \<Rightarrow> job_settings option" where
  "validate_settings c =
     (if environment c \<in> {''development'', ''test'', ''production''}
       \<and> 1 \<le> database_pool_size c \<and> database_pool_size c \<le> 50
       \<and> 0 \<le> database_max_overflow c \<and> database_max_overflow c \<le> 100
       \<and> 1 \<le> worker_concurrency c \<and> worker_concurrency c \<le> 64
       \<and> 0 < worker_poll_interval c \<and> worker_poll_interval c \<le> 30
       \<and> 0 \<le> worker_retry_base_delay c \<and> worker_retry_base_delay c \<le> 3600
       \<and> 0 \<le> worker_retry_max_delay c \<and> worker_retry_max_delay c \<le> 86400
       \<and> 0 < worker_lease_duration c \<and> worker_lease_duration c \<le> 3600
       \<and> 0 < worker_heartbeat_interval c \<and> worker_heartbeat_interval c \<le> 300
       \<and> 0 < worker_recovery_interval c \<and> worker_recovery_interval c \<le> 300
       \<and> 1 \<le> worker_metrics_port c \<and> worker_metrics_port c \<le> 65535
       \<and> worker_heartbeat_interval c < worker_lease_duration c
       \<and> (environment c = ''production'' \<longrightarrow>
            \<not> is_infix ''local_dev_password'' (database_url c) \<and> \<not> database_echo c)
      then Some c else None)"

text \<open>\<open>str.split(",")\<close>: the pieces between the commas, at least one.\<close>

fun split_comma :: "string \<Rightarrow> string list" where
  "split_comma [] = [[]]"
| "split_comma (c # s) = (if c = CHR '','' then [] # split_comma s
     else case split_comma s of [] \<Rightarrow> [[c]] | p # ps \<Rightarrow> (c # p) # ps)"

definition worker_queue_names :: "job_settings \<Rightarrow> string list" where
  "worker_queue_names c =
     (let names = filter (\<lambda>q. q \<noteq> []) (map strip (split_comma (worker_queues c)))
      in if names = [] then [''default''] else names)"

section \<open>The worker\<close>

record 's queue_client =
  qc_claim_jobs :: "string \<Rightarrow> string list \<Rightarrow> int \<Rightarrow> rat \<Rightarrow> 's \<Rightarrow> (db_error + job list) \<times> 's"
  qc_renew_lease :: "uuid \<Rightarrow> string \<Rightarrow> rat \<Rightarrow> 's \<Rightarrow> (db_error + bool) \<times> 's"
  qc_mark_succeeded :: "uuid \<Rightarrow> string \<Rightarrow> json \<Rightarrow> 's \<Rightarrow> (db_error + bool) \<times> 's"
  qc_mark_failed :: "uuid \<Rightarrow> string \<Rightarrow> string \<Rightarrow> bool \<Rightarrow> rat \<Rightarrow> rat \<Rightarrow> 's \<Rightarrow>
    (db_error + job_status option) \<times> 's"
  qc_recover_stale_jobs :: "int \<Rightarrow> 's \<Rightarrow> (db_error + nat \<times> nat) \<times> 's"

record job_worker =
  w_id :: string
  w_queue_names :: "string list"
  w_concurrency :: int
  w_retry_base_delay :: rat
  w_retry_max_delay :: rat
  w_lease_duration :: rat

definition make_worker :: "string \<Rightarrow> job_settings \<Rightarrow> job_worker" where
  "make_worker i c = \<lparr>w_id = i, w_queue_names = worker_queue_names c,
     w_concurrency = worker_concurrency c, w_retry_base_delay = worker_retry_base_delay c,
     w_retry_max_delay = worker_retry_max_delay c, w_lease_duration = worker_lease_duration c\<rparr>"

text \<open>How the processing of one job ends, as the worker logs it.\<close>

datatype job_outcome = JobSucceeded | OwnershipLost | JobTransitioned job_status | FailureNotPersisted

definition db_error_text :: "db_error \<Rightarrow> string" where
  "db_error_text e = (case e of IntegrityError \<Rightarrow> ''IntegrityError: '' | DataError \<Rightarrow> ''DataError: ''
     | OperationalError \<Rightarrow> ''OperationalError: '')"

definition record_failure :: "'s queue_client \<Rightarrow> job_worker \<Rightarrow> job \<Rightarrow> string \<Rightarrow> bool \<Rightarrow> 's \<Rightarrow>
    job_outcome \<times> 's" where
  "record_failure qc w j error_message retryable s =
     (case qc_mark_failed qc (job_id j) (w_id w) error_message retryable
             (w_retry_base_delay w) (w_retry_max_delay w) s of
        (Inr None, s') \<Rightarrow> (OwnershipLost, s')
      | (Inr (Some st), s') \<Rightarrow> (JobTransitioned st, s')
      | (Inl _, s') \<Rightarrow> (FailureNotPersisted, s'))"

text \<open>An error while the success is stored is handled like an error of the handler. The heartbeat task
  that runs beside the handler is \<open>maintain_lease\<close> below; the two are not composed, so a property of
  a processed job says itself that the lease has not ended.\<close>

definition process_job :: "'s queue_client \<Rightarrow> job_worker \<Rightarrow> job \<Rightarrow> 's \<Rightarrow> job_outcome \<times> 's" where
  "process_job qc w j s =
     (case execute_task (job_task_name j) (job_payload j) of
        Inl e \<Rightarrow> record_failure qc w j (task_error_text e) (\<not> is_task_handler_error e) s
      | Inr result \<Rightarrow>
          (case qc_mark_succeeded qc (job_id j) (w_id w) result s of
             (Inr updated, s1) \<Rightarrow> (if updated then JobSucceeded else OwnershipLost, s1)
           | (Inl e, s1) \<Rightarrow> record_failure qc w j (db_error_text e) True s1))"

text \<open>One turn of a slot, and of the recovery loop; \<open>None\<close>: the slot polls again later.\<close>

definition slot_turn :: "'s queue_client \<Rightarrow> job_worker \<Rightarrow> 's \<Rightarrow> job_outcome option \<times> 's" where
  "slot_turn qc w s = (case qc_claim_jobs qc (w_id w) (w_queue_names w) 1 (w_lease_duration w) s of
      (Inl _, s1) \<Rightarrow> (None, s1)
    | (Inr [], s1) \<Rightarrow> (None, s1)
    | (Inr (j # _), s1) \<Rightarrow> let (r, s2) = process_job qc w j s1 in (Some r, s2))"

fun run_slot :: "'s queue_client \<Rightarrow> job_worker \<Rightarrow> nat \<Rightarrow> 's \<Rightarrow> 's" where
  "run_slot qc w 0 s = s"
| "run_slot qc w (Suc turns) s = run_slot qc w turns (snd (slot_turn qc w s))"

fun run_recovery_loop :: "'s queue_client \<Rightarrow> nat \<Rightarrow> 's \<Rightarrow> 's" where
  "run_recovery_loop qc 0 s = s"
| "run_recovery_loop qc (Suc turns) s = run_recovery_loop qc turns (snd (qc_recover_stale_jobs qc 100 s))"

text \<open>The heartbeat of a job: it renews the lease at every tick that comes before the stop event, and
  gives up when the lease is lost; a database error is not the end of it.\<close>

fun maintain_lease :: "'s queue_client \<Rightarrow> job_worker \<Rightarrow> uuid \<Rightarrow> nat \<Rightarrow> 's \<Rightarrow> 's" where
  "maintain_lease qc w i 0 s = s"
| "maintain_lease qc w i (Suc ticks) s =
     (case qc_renew_lease qc i (w_id w) (w_lease_duration w) s of
        (Inl _, s1) \<Rightarrow> maintain_lease qc w i ticks s1
      | (Inr renewed, s1) \<Rightarrow> if renewed then maintain_lease qc w i ticks s1 else s1)"

section \<open>The interface the worker relies on\<close>

text \<open>What the worker may assume of a queue: rows only take the steps of the life cycle, an
  acknowledged update has happened, and a failure that is not retryable is final.\<close>

locale job_queue_service =
  fixes qc :: "'s queue_client"
    and view :: "'s \<Rightarrow> uuid \<Rightarrow> job option"
    and ok :: "'s \<Rightarrow> bool"
  assumes success_ok: "ok s \<Longrightarrow> qc_mark_succeeded qc i w r s = (x, s') \<Longrightarrow> ok s'"
    and success_row: "ok s \<Longrightarrow> qc_mark_succeeded qc i w r s = (Inr True, s') \<Longrightarrow>
      \<exists>j. view s' i = Some j \<and> job_status j = SUCCEEDED \<and> job_result j = Some r"
    and failure_ok: "ok s \<Longrightarrow> qc_mark_failed qc i w msg retryable b c s = (y, s') \<Longrightarrow> ok s'"
    and failure_row: "ok s \<Longrightarrow> qc_mark_failed qc i w msg retryable b c s = (Inr (Some st), s') \<Longrightarrow>
      \<exists>j. view s' i = Some j \<and> job_status j = st \<and> job_last_error j = Some (take 4000 msg)
        \<and> (st = DEAD_LETTERED \<or> st = RETRY_SCHEDULED \<and> retryable)"
    and renew_ok: "ok s \<Longrightarrow> qc_renew_lease qc i w d s = (z, s') \<Longrightarrow> ok s'"
    and claim_ok: "ok s \<Longrightarrow> qc_claim_jobs qc w qs n d s = (u, s') \<Longrightarrow> ok s'"
    and claim_row: "ok s \<Longrightarrow> qc_claim_jobs qc w qs n d s = (Inr js, s') \<Longrightarrow> j \<in> set js \<Longrightarrow>
      view s' (job_id j) = Some j \<and> job_status j = RUNNING \<and> job_worker_id j = Some w
        \<and> job_queue j \<in> set qs"
    and recover_ok: "ok s \<Longrightarrow> qc_recover_stale_jobs qc n s = (v, s') \<Longrightarrow> ok s'"
begin

lemma record_failure_outcome:
  assumes "record_failure qc w j msg retryable s = (r, s')" and "ok s"
  shows "ok s'" and "r \<noteq> JobSucceeded"
    and "r = JobTransitioned st \<Longrightarrow> \<exists>q. view s' (job_id j) = Some q \<and> job_status q = st
      \<and> job_last_error q = Some (take 4000 msg) \<and> (st = DEAD_LETTERED \<or> st = RETRY_SCHEDULED \<and> retryable)"
  using assms failure_ok failure_row
  by (auto simp: record_failure_def split: prod.splits sum.splits option.splits)

text \<open>A job the worker reports as succeeded is stored as such with its handler's result; one it
  reports as moved is stored with that status and the error; an invalid or unknown task is never
  retried.\<close>

lemma process_job_outcome:
  assumes run: "process_job qc w j s = (r, s')" and "ok s"
  shows "ok s'"
    and "r = JobSucceeded \<Longrightarrow> \<exists>q result. execute_task (job_task_name j) (job_payload j) = Inr result
      \<and> view s' (job_id j) = Some q \<and> job_status q = SUCCEEDED \<and> job_result q = Some result"
    and "r = JobTransitioned st \<Longrightarrow> \<exists>q. view s' (job_id j) = Some q \<and> job_status q = st
      \<and> (st = DEAD_LETTERED \<or> st = RETRY_SCHEDULED
           \<and> (\<forall>e. execute_task (job_task_name j) (job_payload j) = Inl e \<longrightarrow> \<not> is_task_handler_error e))"
proof -
  have "ok s' \<and> (r = JobSucceeded \<longrightarrow> (\<exists>q result. execute_task (job_task_name j) (job_payload j) = Inr result
      \<and> view s' (job_id j) = Some q \<and> job_status q = SUCCEEDED \<and> job_result q = Some result))
    \<and> (\<forall>st. r = JobTransitioned st \<longrightarrow> (\<exists>q. view s' (job_id j) = Some q \<and> job_status q = st
      \<and> (st = DEAD_LETTERED \<or> st = RETRY_SCHEDULED
           \<and> (\<forall>e. execute_task (job_task_name j) (job_payload j) = Inl e \<longrightarrow> \<not> is_task_handler_error e))))"
  proof (cases "execute_task (job_task_name j) (job_payload j)")
    case (Inl e)
    then have f: "record_failure qc w j (task_error_text e) (\<not> is_task_handler_error e) s = (r, s')"
      using run by (simp add: process_job_def)
    show ?thesis using record_failure_outcome [OF f \<open>ok s\<close>] Inl by auto
  next
    case (Inr result)
    obtain x s1 where m: "qc_mark_succeeded qc (job_id j) (w_id w) result s = (x, s1)" by fastforce
    note ok1 = success_ok [OF \<open>ok s\<close> m]
    show ?thesis
    proof (cases x)
      case (Inl e)
      then have f: "record_failure qc w j (db_error_text e) True s1 = (r, s')"
        using run m Inr by (simp add: process_job_def)
      show ?thesis using record_failure_outcome [OF f ok1] Inr by auto
    next
      case (Inr b)
      then show ?thesis
        using run m ok1 success_row [OF \<open>ok s\<close>, of "job_id j" "w_id w" result s1]
          \<open>execute_task (job_task_name j) (job_payload j) = Inr result\<close>
        by (auto simp: process_job_def split: if_splits)
    qed
  qed
  then show "ok s'"
    and "r = JobSucceeded \<Longrightarrow> \<exists>q result. execute_task (job_task_name j) (job_payload j) = Inr result
      \<and> view s' (job_id j) = Some q \<and> job_status q = SUCCEEDED \<and> job_result q = Some result"
    and "r = JobTransitioned st \<Longrightarrow> \<exists>q. view s' (job_id j) = Some q \<and> job_status q = st
      \<and> (st = DEAD_LETTERED \<or> st = RETRY_SCHEDULED
           \<and> (\<forall>e. execute_task (job_task_name j) (job_payload j) = Inl e \<longrightarrow> \<not> is_task_handler_error e))"
    by blast+
qed

lemma slot_turn_ok:
  assumes run: "slot_turn qc w s = (r, s')" and "ok s"
  shows "ok s'"
proof -
  obtain u s1 where c: "qc_claim_jobs qc (w_id w) (w_queue_names w) 1 (w_lease_duration w) s = (u, s1)"
    by fastforce
  note ok1 = claim_ok [OF \<open>ok s\<close> c]
  show ?thesis
  proof (cases "\<exists>j js. u = Inr (j # js)")
    case True
    then obtain j js where u: "u = Inr (j # js)" by blast
    obtain r2 s2 where p: "process_job qc w j s1 = (r2, s2)" by fastforce
    have "s' = s2" using run c u p by (simp add: slot_turn_def)
    then show ?thesis using process_job_outcome(1) [OF p ok1] by simp
  next
    case False
    then have "s' = s1" using run c by (auto simp: slot_turn_def split: sum.splits list.splits)
    then show ?thesis using ok1 by simp
  qed
qed

lemma run_slot_ok: "ok s \<Longrightarrow> ok (run_slot qc w turns s)"
proof (induction turns arbitrary: s)
  case (Suc turns)
  have "ok (snd (slot_turn qc w s))"
    by (rule slot_turn_ok [of w s "fst (slot_turn qc w s)"]) (simp_all add: Suc.prems)
  then show ?case using Suc.IH by simp
qed simp

lemma run_recovery_loop_ok: "ok s \<Longrightarrow> ok (run_recovery_loop qc turns s)"
proof (induction turns arbitrary: s)
  case (Suc turns)
  have "ok (snd (qc_recover_stale_jobs qc 100 s))"
    by (rule recover_ok [of s 100 "fst (qc_recover_stale_jobs qc 100 s)"]) (simp_all add: Suc.prems)
  then show ?case using Suc.IH by simp
qed simp

lemma maintain_lease_ok: "ok s \<Longrightarrow> ok (maintain_lease qc w i ticks s)"
proof (induction ticks arbitrary: s)
  case (Suc ticks)
  obtain x s1 where r: "qc_renew_lease qc i (w_id w) (w_lease_duration w) s = (x, s1)" by fastforce
  then show ?case using renew_ok [OF Suc.prems r] Suc.IH by (auto split: sum.splits)
qed simp

end

end
