(* ===== verification/Job_System.thy ===== *)
theory Job_System
  imports Job_Worker
begin

text \<open>
  The PostgreSQL queue as the worker sees it, with whatever other workers, recovery loops and
  clients do to the table between its own transactions; and the interpretation of the worker's
  interface on it.
\<close>

section \<open>Updates of one row\<close>

lemma owned_find:
  assumes "distinct (map job_id t)"
  shows "find (owned i w now) t = (case get_job_by_id i t of None \<Rightarrow> None
    | Some j \<Rightarrow> if owned i w now j then Some j else None)"
  using assms unfolding get_job_by_id_def
proof (induction t)
  case (Cons r t)
  show ?case
  proof (cases "job_id r = i")
    case True
    have "\<forall>x\<in>set t. job_id x \<noteq> i"
      using Cons.prems True by (metis distinct.simps(2) image_eqI list.set_map list.simps(9))
    then have "find (owned i w now) t = None" by (auto simp: find_None_iff owned_def)
    then show ?thesis using True by simp
  next
    case False
    then have "\<not> owned i w now r" by (simp add: owned_def)
    then show ?thesis using False Cons by simp
  qed
qed simp

definition owned_in :: "job_table \<Rightarrow> uuid \<Rightarrow> string \<Rightarrow> time \<Rightarrow> bool" where
  "owned_in t i w now \<longleftrightarrow> (case get_job_by_id i t of None \<Rightarrow> False | Some j \<Rightarrow> owned i w now j)"

lemma owned_update:
  assumes "distinct (map job_id t)"
  shows "update_where (owned i w now) f t =
    (if owned_in t i w now then (1, update_row job_id i f t) else (0, t))"
  using assms unfolding owned_in_def get_job_by_id_def
proof (induction t)
  case Nil
  then show ?case by (simp add: update_where_def)
next
  case (Cons r t)
  show ?case
  proof (cases "job_id r = i")
    case True
    have other: "\<forall>x\<in>set t. job_id x \<noteq> i"
      using Cons.prems True by (metis distinct.simps(2) image_eqI list.set_map list.simps(9))
    have rest: "filter (owned i w now) t = []" "map (\<lambda>j. if owned i w now j then f j else j) t = t"
      "update_row job_id i f t = t"
      using other by (auto simp: filter_empty_conv owned_def update_row_def intro!: map_idI)
    then show ?thesis using True by (simp add: update_where_def) (simp add: update_row_def)
  next
    case False
    then have "\<not> owned i w now r" by (simp add: owned_def)
    then show ?thesis using False Cons by (auto simp: update_where_def update_row_def split: if_splits)
  qed
qed

lemma store_one: "store_jobs [j] t = update_row job_id (job_id j) (\<lambda>_. j) t"
  by (auto simp: store_jobs_def update_row_def)

lemma get_update_row:
  assumes "\<And>j. job_id (f j) = job_id j"
  shows "get_job_by_id k (update_row job_id i f t) =
    (if k = i then map_option f (get_job_by_id i t) else get_job_by_id k t)"
  using find_update_row_same [of job_id f i t] find_update_row_other [of job_id f i k t] assms
  by (auto simp: get_job_by_id_def)

lemma get_store_one:
  "get_job_by_id k (store_jobs [j] t) =
    (if k = job_id j then map_option (\<lambda>_. j) (get_job_by_id k t) else get_job_by_id k t)"
  by (induction t) (auto simp: store_one get_job_by_id_def update_row_def)

lemma get_job_id: "get_job_by_id i t = Some j \<Longrightarrow> j \<in> set t \<and> job_id j = i"
  by (auto simp: get_job_by_id_def dest: find_row_SomeD)

lemma renew_lease_eq:
  assumes "distinct (map job_id t)"
  shows "renew_lease tx i w d t = finish tx t (Inr
    (if owned_in t i w (tx_now tx)
     then (True, update_row job_id i (\<lambda>j. j\<lparr>job_heartbeat_at := Some (tx_now tx),
        job_lease_expires_at := Some (tx_now tx + timedelta d), job_updated_at := tx_now tx\<rparr>) t)
     else (False, t)))"
  by (simp add: renew_lease_def owned_update [OF assms] Let_def)

lemma mark_succeeded_eq:
  assumes "distinct (map job_id t)"
  shows "mark_succeeded tx i w r t = finish tx t (Inr
    (if owned_in t i w (tx_now tx)
     then (True, update_row job_id i (succeeded (tx_now tx) r) t) else (False, t)))"
  by (simp add: mark_succeeded_def owned_update [OF assms] Let_def)

lemma succeeded_id [simp]: "job_id (succeeded now r j) = job_id j"
  by (simp add: succeeded_def)

lemma mark_failed_eq:
  assumes "distinct (map job_id t)"
  shows "mark_failed tx i w msg retryable b c t = finish tx t
    (case get_job_by_id i t of None \<Rightarrow> Inr (None, t)
     | Some j \<Rightarrow> if owned i w (tx_now tx) j
         then let j' = failed (tx_now tx) msg retryable b c j
              in rbind (check_job j') (\<lambda>_. Inr (Some (job_status j'), store_jobs [j'] t))
         else Inr (None, t))"
  by (simp add: mark_failed_def owned_find [OF assms] split: option.splits)

lemma failed_status:
  "job_status (failed now msg retryable b c j) =
     (if should_retry_job retryable (job_attempt_count j) (job_max_attempts j)
      then RETRY_SCHEDULED else DEAD_LETTERED)"
  "job_last_error (failed now msg retryable b c j) = Some (take 4000 msg)"
  by (simp_all add: failed_def Let_def)

lemma owned_inD: "owned_in t i w now \<Longrightarrow> \<exists>j. get_job_by_id i t = Some j \<and> owned i w now j"
  by (simp add: owned_in_def split: option.splits)

lemma mark_succeeded_True:
  assumes "mark_succeeded tx i w r t = (Inr True, t')" and "distinct (map job_id t)"
  shows "\<exists>j. get_job_by_id i t = Some j \<and> owned i w (tx_now tx) j
    \<and> get_job_by_id i t' = Some (succeeded (tx_now tx) r j)"
proof -
  have "owned_in t i w (tx_now tx)" and t': "t' = update_row job_id i (succeeded (tx_now tx) r) t"
    using assms by (auto simp: mark_succeeded_eq result_simps split: if_splits)
  from owned_inD [OF this(1)] show ?thesis by (auto simp: t' get_update_row)
qed

lemma mark_failed_Some:
  assumes "mark_failed tx i w msg retryable b c t = (Inr (Some st), t')" and "distinct (map job_id t)"
  shows "\<exists>j. get_job_by_id i t = Some j \<and> owned i w (tx_now tx) j
    \<and> get_job_by_id i t' = Some (failed (tx_now tx) msg retryable b c j)
    \<and> st = job_status (failed (tx_now tx) msg retryable b c j)"
proof -
  from assms obtain j where j: "get_job_by_id i t = Some j" "owned i w (tx_now tx) j"
    "st = job_status (failed (tx_now tx) msg retryable b c j)"
    "t' = store_jobs [failed (tx_now tx) msg retryable b c j] t"
    by (auto simp: mark_failed_eq result_simps Let_def split: option.splits if_splits)
  moreover have "job_id j = i" using get_job_id [OF j(1)] by simp
  ultimately show ?thesis by (simp add: get_store_one)
qed

section \<open>The table with other users\<close>

record queue_world =
  qw_table :: job_table
  qw_time :: nat
  qw_others :: "nat \<Rightarrow> (tx \<times> queue_call) list"
  qw_tx :: "nat \<Rightarrow> tx"

fun other_queue_step :: "tx \<times> queue_call \<Rightarrow> job_table \<Rightarrow> job_table" where
  "other_queue_step (tx, c) t = (if fresh_call c t then queue_run tx c t else t)"

definition run_queue_calls :: "(tx \<times> queue_call) list \<Rightarrow> job_table \<Rightarrow> job_table" where
  "run_queue_calls cs t = fold other_queue_step cs t"

definition in_transaction :: "(tx \<Rightarrow> job_table \<Rightarrow> 'r \<times> job_table) \<Rightarrow> queue_world \<Rightarrow> 'r \<times> queue_world" where
  "in_transaction f s =
     (let t = run_queue_calls (qw_others s (qw_time s)) (qw_table s);
          (r, t') = f (qw_tx s (qw_time s)) t
      in (r, s\<lparr>qw_table := t', qw_time := Suc (qw_time s)\<rparr>))"

definition PostgresJobQueue :: "queue_world queue_client" where
  "PostgresJobQueue =
     \<lparr>qc_claim_jobs = (\<lambda>w qs n d. in_transaction (\<lambda>tx. claim_jobs tx w qs n d)),
      qc_renew_lease = (\<lambda>i w d. in_transaction (\<lambda>tx. renew_lease tx i w d)),
      qc_mark_succeeded = (\<lambda>i w r. in_transaction (\<lambda>tx. mark_succeeded tx i w r)),
      qc_mark_failed = (\<lambda>i w msg retryable b c. in_transaction (\<lambda>tx. mark_failed tx i w msg retryable b c)),
      qc_recover_stale_jobs = (\<lambda>n. in_transaction (\<lambda>tx. recover_stale_jobs tx n))\<rparr>"

lemma postgres_ops [simp]:
  "qc_claim_jobs PostgresJobQueue w qs n d = in_transaction (\<lambda>tx. claim_jobs tx w qs n d)"
  "qc_renew_lease PostgresJobQueue i w d = in_transaction (\<lambda>tx. renew_lease tx i w d)"
  "qc_mark_succeeded PostgresJobQueue i w r = in_transaction (\<lambda>tx. mark_succeeded tx i w r)"
  "qc_mark_failed PostgresJobQueue i w msg retryable b c =
    in_transaction (\<lambda>tx. mark_failed tx i w msg retryable b c)"
  "qc_recover_stale_jobs PostgresJobQueue n = in_transaction (\<lambda>tx. recover_stale_jobs tx n)"
  by (simp_all add: PostgresJobQueue_def)

lemma in_transaction_eq:
  assumes "run_queue_calls (qw_others s (qw_time s)) (qw_table s) = t" and "f (qw_tx s (qw_time s)) t = (r, t')"
  shows "in_transaction f s = (r, s\<lparr>qw_table := t', qw_time := Suc (qw_time s)\<rparr>)"
  using assms by (simp add: in_transaction_def)

lemma run_queue_calls_step:
  assumes "table_ok t"
  shows "table_ok (run_queue_calls cs t)"
    and "get_job_by_id i t = Some j \<Longrightarrow> \<exists>j'. get_job_by_id i (run_queue_calls cs t) = Some j' \<and> same_work j j'"
proof -
  have "table_ok (fold other_queue_step cs t) \<and> (\<forall>j. get_job_by_id i t = Some j \<longrightarrow>
      (\<exists>j'. get_job_by_id i (fold other_queue_step cs t) = Some j' \<and> same_work j j'))"
    using assms
  proof (induction cs arbitrary: t)
    case Nil
    then show ?case by (simp add: same_work_def)
  next
    case (Cons tc cs)
    obtain tx c where tc: "tc = (tx, c)" by fastforce
    show ?case
    proof (cases "fresh_call c t")
      case True
      note q = queue_run_cases [OF Cons.prems True, where tx = tx]
      from Cons.IH [OF q(1)] q(2) show ?thesis
        by (auto simp: tc True) (metis row_step_def same_work_trans)
    next
      case False
      then show ?thesis using Cons.IH [OF Cons.prems] by (simp add: tc)
    qed
  qed
  then show "table_ok (run_queue_calls cs t)"
    and "get_job_by_id i t = Some j \<Longrightarrow> \<exists>j'. get_job_by_id i (run_queue_calls cs t) = Some j' \<and> same_work j j'"
    by (auto simp: run_queue_calls_def)
qed

lemma in_transaction_cases:
  assumes "in_transaction f s = (r, s')" and "table_ok (qw_table s)"
  shows "\<exists>t. table_ok t \<and> f (qw_tx s (qw_time s)) t = (r, qw_table s')"
  using assms(1) run_queue_calls_step(1) [OF assms(2)]
  by (intro exI [of _ "run_queue_calls (qw_others s (qw_time s)) (qw_table s)"])
     (auto simp: in_transaction_def Let_def split: prod.splits)

lemma table_ok_distinct: "table_ok t \<Longrightarrow> distinct (map job_id t)"
  by (simp add: table_ok_def)

lemma claim_jobs_row:
  assumes run: "claim_jobs tx w qs n d t = (Inr js, t')" and ok: "table_ok t" and j: "j \<in> set js"
  shows "get_job_by_id (job_id j) t' = Some j \<and> job_status j = RUNNING \<and> job_worker_id j = Some w
    \<and> job_queue j \<in> set qs
    \<and> (\<exists>j0. get_job_by_id (job_id j) t = Some j0 \<and> claimable qs (tx_now tx) j0
         \<and> j = claimed w (tx_now tx) (tx_now tx + timedelta d) j0)"
  using run
proof (cases rule: claim_jobs_cases)
  case 1
  then show ?thesis using j by auto
next
  case (committed ks)
  let ?f = "claimed w (tx_now tx) (tx_now tx + timedelta d)"
  let ?sel = "select_jobs (claimable qs (tx_now tx)) claim_key tx n t"
  have "ks = js" using committed(3) by auto
  then obtain j0 where j0: "j0 \<in> set ?sel" "j = ?f j0" using committed(1) j by auto
  have sel: "set ?sel \<subseteq> set t" using select_jobs_props(1) by blast
  have in_t: "j0 \<in> set t" "claimable qs (tx_now tx) j0" using j0(1) select_jobs_props(1) by blast+
  have t': "t' = map (\<lambda>r. if r \<in> set ?sel then ?f r else r) t"
    unfolding committed(2) committed(1)
    by (rule store_jobs_map [OF table_ok_distinct [OF ok] sel]) simp
  have found: "get_job_by_id (job_id j0) t = Some j0"
    unfolding get_job_by_id_def by (rule find_key_distinct [OF table_ok_distinct [OF ok] in_t(1)])
  have "find (\<lambda>r. job_id r = i) (map g rows) = map_option g (find (\<lambda>r. job_id r = i) rows)"
    if "\<And>r. job_id (g r) = job_id r" for g rows i
    using that by (induction rows) auto
  from this [of "\<lambda>r. if r \<in> set ?sel then ?f r else r"] found j0
  have "get_job_by_id (job_id j) t' = Some j" by (simp add: get_job_by_id_def t')
  then show ?thesis using found in_t j0(2) by (auto simp: claimed_def claimable_def)
qed

interpretation postgres: job_queue_service PostgresJobQueue
    "\<lambda>s i. get_job_by_id i (qw_table s)" "\<lambda>s. table_ok (qw_table s)"
proof
  fix s s' :: queue_world and i w r x msg retryable b c y st d z qs n u js v and j :: job
  assume ok: "table_ok (qw_table s)"
  show "table_ok (qw_table s')" if "qc_mark_succeeded PostgresJobQueue i w r s = (x, s')"
    using in_transaction_cases [OF that [unfolded postgres_ops] ok]
      rows_step_ok mark_succeeded_step by blast
  show "table_ok (qw_table s')" if "qc_mark_failed PostgresJobQueue i w msg retryable b c s = (y, s')"
    using in_transaction_cases [OF that [unfolded postgres_ops] ok]
      rows_step_ok mark_failed_step table_ok_distinct by blast
  show "table_ok (qw_table s')" if "qc_renew_lease PostgresJobQueue i w d s = (z, s')"
    using in_transaction_cases [OF that [unfolded postgres_ops] ok]
      rows_step_ok renew_lease_step by blast
  show "table_ok (qw_table s')" if "qc_claim_jobs PostgresJobQueue w qs n d s = (u, s')"
    using in_transaction_cases [OF that [unfolded postgres_ops] ok]
      rows_step_ok claim_jobs_step by blast
  show "table_ok (qw_table s')" if "qc_recover_stale_jobs PostgresJobQueue n s = (v, s')"
    using in_transaction_cases [OF that [unfolded postgres_ops] ok]
      rows_step_ok recover_stale_jobs_step table_ok_distinct by blast
  show "\<exists>j. get_job_by_id i (qw_table s') = Some j \<and> job_status j = SUCCEEDED \<and> job_result j = Some r"
    if "qc_mark_succeeded PostgresJobQueue i w r s = (Inr True, s')"
  proof -
    from in_transaction_cases [OF that [unfolded postgres_ops] ok] obtain t where
      "table_ok t" "mark_succeeded (qw_tx s (qw_time s)) i w r t = (Inr True, qw_table s')" by blast
    from mark_succeeded_True [OF this(2) table_ok_distinct [OF this(1)]] show ?thesis
      by (auto simp: succeeded_def)
  qed
  show "\<exists>j. get_job_by_id i (qw_table s') = Some j \<and> job_status j = st
      \<and> job_last_error j = Some (take 4000 msg) \<and> (st = DEAD_LETTERED \<or> st = RETRY_SCHEDULED \<and> retryable)"
    if "qc_mark_failed PostgresJobQueue i w msg retryable b c s = (Inr (Some st), s')"
  proof -
    from in_transaction_cases [OF that [unfolded postgres_ops] ok] obtain t where
      "table_ok t" "mark_failed (qw_tx s (qw_time s)) i w msg retryable b c t = (Inr (Some st), qw_table s')"
      by blast
    from mark_failed_Some [OF this(2) table_ok_distinct [OF this(1)]] show ?thesis
      by (auto simp: failed_status should_retry_job_def)
  qed
  show "get_job_by_id (job_id j) (qw_table s') = Some j \<and> job_status j = RUNNING
      \<and> job_worker_id j = Some w \<and> job_queue j \<in> set qs"
    if "qc_claim_jobs PostgresJobQueue w qs n d s = (Inr js, s')" and "j \<in> set js"
    using in_transaction_cases [OF that(1) [unfolded postgres_ops] ok]
      claim_jobs_row that(2) by blast
qed

end
