(* ===== verification/Job_History.thy ===== *)
theory Job_History
  imports Job_System
begin

text \<open>
  Whole histories of the job table: the columns always fit the schema, so that a transaction on
  stored rows passes the checks of the database; what a selection leaves behind; how often a job is
  handed out; and what the lease of a running job protects it from.
\<close>

section \<open>Stored columns\<close>

definition columns_ok :: "job_table \<Rightarrow> bool" where
  "columns_ok t \<longleftrightarrow> (\<forall>j\<in>set t. check_job j = Inr ())"

lemma check_jobs_eq: "check_jobs js = Inr () \<longleftrightarrow> (\<forall>j\<in>set js. check_job j = Inr ())"
  by (induction js) (auto simp: result_simps)

lemma check_job_eq: "check_job j = Inr () \<longleftrightarrow>
    length (job_queue j) \<le> 100 \<and> length (job_task_name j) \<le> 200
    \<and> (case job_worker_id j of None \<Rightarrow> True | Some w \<Rightarrow> length w \<le> 200)
    \<and> (case job_idempotency_key j of None \<Rightarrow> True | Some k \<Rightarrow> length k \<le> 200)
    \<and> int4 (job_priority j) \<and> int4 (job_attempt_count j) \<and> int4 (job_max_attempts j)
    \<and> - 100 \<le> job_priority j \<and> job_priority j \<le> 100 \<and> 0 \<le> job_attempt_count j
    \<and> 1 \<le> job_max_attempts j \<and> job_max_attempts j \<le> 100"
  by (auto simp: check_job_def result_simps)

lemma set_store_jobs: "set (store_jobs js t) \<subseteq> set js \<union> set t"
  by (auto simp: store_jobs_def dest: find_row_SomeD split: option.splits)

lemma stored_columns:
  "columns_ok t \<Longrightarrow> check_jobs js = Inr () \<Longrightarrow> columns_ok (store_jobs js t)"
  using set_store_jobs [of js t] by (auto simp: columns_ok_def check_jobs_eq)

lemma updated_columns:
  "columns_ok t \<Longrightarrow> (\<And>j. check_job j = Inr () \<Longrightarrow> check_job (f j) = Inr ()) \<Longrightarrow>
    columns_ok (snd (update_where P f t))"
  by (auto simp: columns_ok_def update_where_def)

lemma finish_columns:
  "columns_ok t \<Longrightarrow> (\<And>a t'. r = Inr (a, t') \<Longrightarrow> columns_ok t') \<Longrightarrow> columns_ok (snd (finish tx t r))"
  using finish_state [of tx t r "fst (finish tx t r)" "snd (finish tx t r)"] by auto

lemma claim_columns: "columns_ok t \<Longrightarrow> columns_ok (snd (claim_jobs tx w qs n d t))"
  by (auto simp: claim_jobs_def Let_def result_simps intro!: finish_columns stored_columns)

lemma recover_columns: "columns_ok t \<Longrightarrow> columns_ok (snd (recover_stale_jobs tx n t))"
  by (auto simp: recover_stale_jobs_def Let_def result_simps intro!: finish_columns stored_columns)

lemma fail_columns: "columns_ok t \<Longrightarrow> columns_ok (snd (mark_failed tx i w msg retryable b c t))"
  by (auto simp: mark_failed_def Let_def result_simps split: option.splits
      intro!: finish_columns stored_columns)

lemma succeed_columns: "columns_ok t \<Longrightarrow> columns_ok (snd (mark_succeeded tx i w r t))"
  using updated_columns [of t "succeeded (tx_now tx) r" "owned i w (tx_now tx)"]
  by (auto simp: mark_succeeded_def Let_def succeeded_def check_job_eq split: prod.splits
      intro!: finish_columns)

lemma renew_columns: "columns_ok t \<Longrightarrow> columns_ok (snd (renew_lease tx i w d t))"
  using updated_columns [of t "\<lambda>j. j\<lparr>job_heartbeat_at := Some (tx_now tx),
      job_lease_expires_at := Some (tx_now tx + timedelta d), job_updated_at := tx_now tx\<rparr>"
      "owned i w (tx_now tx)"]
  by (auto simp: renew_lease_def Let_def check_job_eq split: prod.splits intro!: finish_columns)

lemma submit_columns: "columns_ok t \<Longrightarrow> columns_ok (snd (create_job_endpoint tx i d t))"
  using submit_endpoint_db [of tx i d t] create_job_db [of tx i d t]
  by (auto simp: columns_ok_def)

lemmas call_columns = claim_columns recover_columns fail_columns succeed_columns renew_columns
  submit_columns

lemma queue_run_columns: "columns_ok t \<Longrightarrow> columns_ok (queue_run tx c t)"
  by (cases c) (simp_all add: call_columns)

lemma reachable_columns: "job_reachable t \<Longrightarrow> columns_ok t"
proof (induction rule: job_reachable.induct)
  case start
  show ?case by (simp add: columns_ok_def)
next
  case (step t t')
  then show ?case by (auto elim!: job_step.cases intro: queue_run_columns)
qed

section \<open>What a claim hands out\<close>

lemma claimed_check:
  "check_job j = Inr () \<Longrightarrow> job_wf j \<Longrightarrow> job_attempt_count j < job_max_attempts j \<Longrightarrow>
    length w \<le> 200 \<Longrightarrow> check_job (claimed w now e j) = Inr ()"
  by (auto simp: check_job_eq claimed_def int4_def)

lemma claim_jobs_eq:
  assumes "table_ok t" "columns_ok t" "length w \<le> 200" "qs \<noteq> []" "1 \<le> n" "tx_fault tx = NoFault"
  and js: "js = map (claimed w (tx_now tx) (tx_now tx + timedelta d))
    (select_jobs (claimable qs (tx_now tx)) claim_key tx n t)"
  shows "claim_jobs tx w qs n d t = (Inr js, store_jobs js t)"
proof -
  have "check_job (claimed w (tx_now tx) (tx_now tx + timedelta d) j) = Inr ()"
    if "j \<in> set (select_jobs (claimable qs (tx_now tx)) claim_key tx n t)" for j
  proof (rule claimed_check)
    have j: "j \<in> set t" "claimable qs (tx_now tx) j" using that select_jobs_props(1) by blast+
    show "check_job j = Inr ()" using j(1) assms(2) by (simp add: columns_ok_def)
    show wf: "job_wf j" using j(1) assms(1) by (simp add: table_ok_def)
    show "job_attempt_count j < job_max_attempts j"
      using wf j(2) by (auto simp: job_wf_def claimable_def)
  qed (rule assms(3))
  then have "check_jobs js = Inr ()" by (auto simp: check_jobs_eq js)
  then show ?thesis using assms(4-6) by (simp add: claim_jobs_def Let_def js)
qed

lemma sorted_take_rest:
  assumes "sorted (map key xs)" and "x \<in> set (take n xs)" and "y \<in> set xs" and "y \<notin> set (take n xs)"
  shows "key x \<le> key y"
proof -
  have "y \<in> set (drop n xs)"
    using assms(3,4) append_take_drop_id [of n xs] by (metis Un_iff set_append)
  moreover have "sorted (map key (take n xs) @ map key (drop n xs))"
    using assms(1) append_take_drop_id [of n xs] by (metis map_append)
  ultimately show ?thesis using assms(2) by (auto simp: sorted_append)
qed

text \<open>A row that qualifies and is passed over was beaten by every selected row, and the selection
  is full.\<close>

lemma select_jobs_best:
  assumes "q \<in> set t" "P q" "\<not> tx_locked tx (job_id q)" "q \<notin> set (select_jobs P key tx n t)"
  shows "length (select_jobs P key tx n t) = nat n"
    and "j \<in> set (select_jobs P key tx n t) \<Longrightarrow> key j \<le> key q"
proof -
  let ?ok = "\<lambda>j. P j \<and> \<not> tx_locked tx (job_id j)"
  let ?xs = "sort_key key (filter ?ok t)"
  have q: "q \<in> set ?xs" "q \<notin> set (take (nat n) ?xs)" using assms by (auto simp: select_jobs_def)
  have "\<not> length ?xs \<le> nat n" using q by auto
  then show "length (select_jobs P key tx n t) = nat n" by (simp add: select_jobs_def)
  show "key j \<le> key q" if "j \<in> set (select_jobs P key tx n t)"
    using sorted_take_rest [of key ?xs j "nat n" q] q that by (simp add: select_jobs_def)
qed

section \<open>How often a job is handed out\<close>

definition handed_out :: "uuid \<Rightarrow> tx \<Rightarrow> queue_call \<Rightarrow> job_table \<Rightarrow> nat" where
  "handed_out i tx c t = (case c of
      Claim w qs n d \<Rightarrow> (case fst (claim_jobs tx w qs n d t) of
          Inr js \<Rightarrow> length (filter (\<lambda>j. job_id j = i) js) | Inl _ \<Rightarrow> 0)
    | _ \<Rightarrow> 0)"

fun times_handed_out :: "uuid \<Rightarrow> (tx \<times> queue_call) list \<Rightarrow> job_table \<Rightarrow> nat" where
  "times_handed_out i [] t = 0"
| "times_handed_out i (tc # cs) t =
     (if fresh_call (snd tc) t then handed_out i (fst tc) (snd tc) t else 0)
     + times_handed_out i cs (other_queue_step tc t)"

lemma count_distinct_key:
  "distinct (map key xs) \<Longrightarrow> length (filter (\<lambda>x. key x = k) xs) \<le> 1"
proof (induction xs)
  case (Cons x xs)
  have "filter (\<lambda>y. key y = k) xs = []" if "key x = k"
    unfolding filter_empty_conv using that Cons.prems by (metis distinct.simps(2) image_eqI list.set_map list.simps(9))
  then show ?case using Cons by auto
qed simp

lemma claim_jobs_distinct:
  assumes "claim_jobs tx w qs n d t = (Inr js, t')" and "table_ok t"
  shows "distinct (map job_id js)"
  using assms(1)
proof (cases rule: claim_jobs_cases)
  case (committed ks)
  have "map job_id ks = map job_id (select_jobs (claimable qs (tx_now tx)) claim_key tx n t)"
    using committed(1) by simp
  then show ?thesis
    using committed(3) select_jobs_props(2) [OF table_ok_distinct [OF assms(2)]] by auto
qed auto

lemma row_step_attempts:
  assumes "row_step j j'"
  shows "same_work j j'" and "job_attempt_count j \<le> job_attempt_count j'"
    and "job_status j \<in> {SUCCEEDED, DEAD_LETTERED} \<Longrightarrow> j' = j"
  using assms by (auto simp: row_step_def elim: life_step.cases)

text \<open>A call that hands the job out uses one of its attempts.\<close>

lemma handed_out_row:
  assumes ok: "table_ok t" and "handed_out i tx c t \<noteq> 0"
  shows "handed_out i tx c t = 1 \<and> (\<exists>j j'. get_job_by_id i t = Some j
    \<and> get_job_by_id i (queue_run tx c t) = Some j' \<and> job_attempt_count j' = job_attempt_count j + 1)"
proof -
  from assms(2) obtain w qs n d js where c: "c = Claim w qs n d" "fst (claim_jobs tx w qs n d t) = Inr js"
    "handed_out i tx c t = length (filter (\<lambda>j. job_id j = i) js)"
    by (auto simp: handed_out_def split: queue_call.splits sum.splits)
  then have run: "claim_jobs tx w qs n d t = (Inr js, queue_run tx c t)" by (simp add: prod_eq_iff)
  have "handed_out i tx c t \<le> 1"
    unfolding c(3) by (rule count_distinct_key [OF claim_jobs_distinct [OF run ok]])
  moreover from assms(2) c(3) obtain j where j: "j \<in> set js" "job_id j = i"
    by (auto simp: filter_empty_conv)
  from claim_jobs_row [OF run ok j(1)] j(2) obtain j0 where
    "get_job_by_id i (queue_run tx c t) = Some j" "get_job_by_id i t = Some j0"
    "j = claimed w (tx_now tx) (tx_now tx + timedelta d) j0" by auto
  moreover from this(3) have "job_attempt_count j = job_attempt_count j0 + 1" by (simp add: claimed_def)
  ultimately show ?thesis using assms(2) by auto
qed

lemma handed_out_attempt:
  assumes ok: "table_ok t" and "fresh_call c t"
    and after: "get_job_by_id i (queue_run tx c t) = Some j'"
  shows "(case get_job_by_id i t of None \<Rightarrow> 0 | Some j \<Rightarrow> job_attempt_count j) + int (handed_out i tx c t)
      \<le> max 0 (job_attempt_count j')"
proof (cases "handed_out i tx c t = 0")
  case True
  show ?thesis
  proof (cases "get_job_by_id i t")
    case (Some j)
    then show ?thesis
      using queue_run_cases(2) [OF ok assms(2) Some, of tx] after True row_step_attempts(2) by force
  qed (simp add: True)
next
  case False
  from handed_out_row [OF ok this] after show ?thesis by auto
qed

lemma times_handed_out_attempts:
  assumes "table_ok t" and "get_job_by_id i (run_queue_calls cs t) = Some j'"
  shows "(case get_job_by_id i t of None \<Rightarrow> 0 | Some j \<Rightarrow> job_attempt_count j)
      + int (times_handed_out i cs t) \<le> job_attempt_count j'"
  using assms
proof (induction cs arbitrary: t)
  case Nil
  then show ?case by (simp add: run_queue_calls_def)
next
  case (Cons tc cs)
  obtain tx c where tc: "tc = (tx, c)" by fastforce
  let ?t = "other_queue_step tc t"
  let ?n = "\<lambda>t. case get_job_by_id i t of None \<Rightarrow> 0 | Some j \<Rightarrow> job_attempt_count j"
  have ok: "table_ok ?t" using Cons.prems(1) queue_run_cases(1) by (simp add: tc)
  have IH: "?n ?t + int (times_handed_out i cs ?t) \<le> job_attempt_count j'"
    using Cons.IH [OF ok] Cons.prems(2) by (simp add: run_queue_calls_def)
  show ?case
  proof (cases "fresh_call c t")
    case False
    then show ?thesis using IH by (simp add: tc)
  next
    case True
    have "?n t + int (handed_out i tx c t) \<le> ?n ?t"
    proof (cases "get_job_by_id i ?t")
      case (Some j)
      then have "job_wf j" using ok get_job_id by (auto simp: table_ok_def)
      then show ?thesis
        using handed_out_attempt [OF Cons.prems(1) True, of i tx j] Some True
        by (simp add: tc job_wf_def)
    next
      case None
      have none: "get_job_by_id i t = None"
        using queue_run_cases(2) [OF Cons.prems(1) True, of i _ tx] None
        by (cases "get_job_by_id i t") (auto simp: tc True)
      have "handed_out i tx c t = 0"
        using none handed_out_row [OF Cons.prems(1), of i tx c] by auto
      then show ?thesis using none None by simp
    qed
    then show ?thesis using IH True by (simp add: tc)
  qed
qed

section \<open>The lease\<close>

text \<open>A call that does not act for the owner of the job.\<close>

fun acts_for :: "uuid \<Rightarrow> string \<Rightarrow> queue_call \<Rightarrow> bool" where
  "acts_for i w (Renew i' w' d) \<longleftrightarrow> i' = i \<and> w' = w"
| "acts_for i w (Succeed i' w' r) \<longleftrightarrow> i' = i \<and> w' = w"
| "acts_for i w (Fail i' w' msg retryable b c) \<longleftrightarrow> i' = i \<and> w' = w"
| "acts_for i w _ \<longleftrightarrow> False"

lemma get_store_unselected:
  assumes "\<And>j. j \<in> set js \<Longrightarrow> job_id j \<noteq> i"
  shows "get_job_by_id i (store_jobs js t) = get_job_by_id i t"
proof -
  let ?g = "\<lambda>r. case find (\<lambda>j. job_id j = job_id r) js of None \<Rightarrow> r | Some j \<Rightarrow> j"
  have same: "job_id (?g r) = job_id r" for r
    by (auto dest: find_row_SomeD split: option.splits)
  have fixed: "find (\<lambda>j. job_id j = i) js = None"
    using assms by (auto simp: find_None_iff)
  show ?thesis unfolding get_job_by_id_def store_jobs_def
    by (induction t) (auto simp: same fixed)
qed

lemma get_unselected:
  assumes "distinct (map job_id t)" and "get_job_by_id i t = Some j" and "\<not> P j"
    and id: "\<And>q. job_id (f q) = job_id q"
  shows "get_job_by_id i (store_jobs (map f (select_jobs P key tx n t)) t) = Some j"
proof -
  have sel: "job_id q \<noteq> i" if "q \<in> set (select_jobs P key tx n t)" for q
  proof -
    have q: "q \<in> set t" "P q" using that select_jobs_props(1) [of P key tx n t] by auto
    show ?thesis
      using find_key_distinct [OF assms(1) q(1)] q(2) assms(2,3) by (auto simp: get_job_by_id_def)
  qed
  have "job_id r \<noteq> i" if "r \<in> set (map f (select_jobs P key tx n t))" for r
  proof -
    from that obtain q where "q \<in> set (select_jobs P key tx n t)" "r = f q" by auto
    then show ?thesis using sel id by simp
  qed
  then show ?thesis using assms(2) by (subst get_store_unselected) simp_all
qed

lemma lease_call:
  assumes ok: "table_ok t" and j: "get_job_by_id i t = Some j" and "fresh_call c t"
    and own: "owned i w (tx_now tx) j" and other: "\<not> acts_for i w c"
  shows "get_job_by_id i (queue_run tx c t) = Some j"
proof -
  note dist = table_ok_distinct [OF ok]
  have st: "job_status j = RUNNING" "job_worker_id j = Some w" "\<not> stale (tx_now tx) j"
    using own by (auto simp: owned_def stale_def split: option.splits)
  have foreign: "\<not> (k = i \<and> owned k v (tx_now tx) j)" if "\<not> (k = i \<and> v = w)" for k v
    using that st by (auto simp: owned_def)
  note skip = get_unselected [OF dist j]
  show ?thesis
  proof (cases c)
    case (Submit k d)
    show ?thesis
      using submit_endpoint_db [of tx k d t] create_job_db [of tx k d t] j Submit assms(3) get_job_id [OF j]
      by (auto simp: get_job_by_id_def add_job_def)
  next
    case (Claim v qs n d)
    obtain r t' where run: "claim_jobs tx v qs n d t = (r, t')" by fastforce
    then show ?thesis
    proof (cases rule: claim_jobs_cases)
      case (committed js)
      then show ?thesis using Claim run st(1)
          skip [of "claimable qs (tx_now tx)" "claimed v (tx_now tx) (tx_now tx + timedelta d)" claim_key tx n]
        by (auto simp: claimable_def)
    qed (use Claim run j in simp)
  next
    case (Renew k v d)
    then show ?thesis
      using other j foreign [of k v] dist
      by (auto simp: renew_lease_eq finish_def owned_in_def get_update_row split: tx_fault.splits)
  next
    case (Succeed k v r)
    then show ?thesis
      using other j foreign [of k v] dist
      by (auto simp: mark_succeeded_eq finish_def owned_in_def get_update_row split: tx_fault.splits)
  next
    case (Fail k v msg retryable b e)
    then show ?thesis
      using other j foreign [of k v] dist get_job_id
      by (auto simp: mark_failed_eq finish_def get_store_one Let_def result_simps
          split: tx_fault.splits option.splits sum.splits if_splits)
  next
    case (Recover n)
    then show ?thesis
      using skip [of "stale (tx_now tx)" "recovered (tx_now tx)" stale_key tx n] st(3) j
      by (auto simp: recover_stale_jobs_def Let_def finish_def result_simps
          split: tx_fault.splits sum.splits if_splits)
  qed
qed

end
