(* ===== verification/Job_Claims.thy ===== *)
theory Job_Claims
  imports Job_History
begin

text \<open>
  The properties of the job queue: the stored rows and their history, claiming, the lease, retries,
  recovery and idempotent submission.
\<close>

section \<open>A small history\<close>

definition demo_tx :: "time \<Rightarrow> tx" where
  "demo_tx now = \<lparr>tx_now = now, tx_locked = (\<lambda>_. False), tx_fault = NoFault\<rparr>"

definition demo_job :: job_create where
  "demo_job = \<lparr>jc_queue = ''default'', jc_task_name = ''echo'', jc_payload = JObj [(''n'', JInt 1)],
     jc_priority = 0, jc_max_attempts = 2, jc_idempotency_key = Some ''k''\<rparr>"

definition demo_queued :: job_table where
  "demo_queued = queue_run (demo_tx 0) (Submit 7 demo_job) []"

definition demo_running :: job_table where
  "demo_running = queue_run (demo_tx 10) (Claim ''w1'' [''default''] 1 (1 / 1000)) demo_queued"

definition demo_done :: job_table where
  "demo_done = queue_run (demo_tx 20) (Succeed 7 ''w1'' JNull) demo_running"

lemmas demo_defs = demo_tx_def demo_job_def queue_run.simps

lemma demo_valid: "valid_job_create demo_job"
  by code_simp

lemma demo_check: "check_jsonb (jc_payload demo_job) = Inr ()"
  by (simp add: check_jsonb_def demo_job_def jsonb_text_def)

lemma demo_queued_eq: "demo_queued = [add_job 7 0 demo_job]"
  using demo_valid
  by (simp add: demo_queued_def create_job_endpoint_def create_job_def demo_tx_def demo_check
      create_or_get_idempotent_job_def database_step_def Let_def)
     (simp add: demo_job_def add_job_def check_job_def int4_def)

lemma demo_timedelta: "timedelta (1 / 1000) = 1000"
  by (simp add: timedelta_def round_half_even_def Let_def)

lemma demo_claim: "claim_jobs (demo_tx 10) ''w1'' [''default''] 1 (1 / 1000) demo_queued
    = (Inr [claimed ''w1'' 10 1010 (add_job 7 0 demo_job)], [claimed ''w1'' 10 1010 (add_job 7 0 demo_job)])"
  by (simp add: claim_jobs_def select_jobs_def demo_queued_eq claimable_def demo_timedelta demo_tx_def
      store_jobs_def Let_def)
     (simp add: demo_job_def add_job_def check_job_def int4_def claimed_def)

lemma demo_running_eq: "demo_running = [claimed ''w1'' 10 1010 (add_job 7 0 demo_job)]"
  by (simp add: demo_running_def demo_claim)

lemma demo_done_eq: "demo_done = [succeeded 20 JNull (claimed ''w1'' 10 1010 (add_job 7 0 demo_job))]"
  by (simp add: demo_done_def demo_running_eq mark_succeeded_def update_where_def demo_tx_def Let_def)
     (simp add: owned_def claimed_def add_job_def)

lemma demo_steps: "job_step [] demo_queued" "job_step demo_queued demo_running"
    "job_step demo_running demo_done"
  unfolding demo_queued_def demo_running_def demo_done_def by (rule job_step.intros, simp)+

lemma demo_reachable: "job_reachable demo_queued" "job_reachable demo_running" "job_reachable demo_done"
  using job_reachable.start job_reachable.step demo_steps by blast+

lemma demo_ok: "table_ok demo_queued" "table_ok demo_running" "table_ok demo_done"
  using demo_reachable reachable_table_ok by blast+

lemma demo_rows:
  "get_job_by_id 7 demo_queued = Some (add_job 7 0 demo_job)"
  "get_job_by_id 7 demo_running = Some (claimed ''w1'' 10 1010 (add_job 7 0 demo_job))"
  "get_job_by_id 7 demo_done = Some (succeeded 20 JNull (claimed ''w1'' 10 1010 (add_job 7 0 demo_job)))"
  by (simp_all add: demo_queued_eq demo_running_eq demo_done_eq get_job_by_id_def)
     (simp_all add: add_job_def claimed_def succeeded_def)

section \<open>Rows and their history\<close>

text \<open>C14: in every table that submissions, claims, renewals, completions, failures and recoveries can
  produce, at any clocks and with any database faults, identifiers and idempotency keys are unique, a
  job never used more attempts than it was given, a lease and a heartbeat are stored exactly while it
  is running, a completion time exactly when it is finished, a result exactly when it succeeded, and
  no job is ever CANCELLED.\<close>

theorem stored_jobs_wellformed:
  assumes "job_reachable t" and "get_job_by_id i t = Some j"
  shows "distinct (map job_id t) \<and> keys_distinct t
    \<and> 0 \<le> job_attempt_count j \<and> job_attempt_count j \<le> job_max_attempts j \<and> job_max_attempts j \<le> 100
    \<and> (job_lease_expires_at j \<noteq> None \<longleftrightarrow> job_status j = RUNNING)
    \<and> (job_heartbeat_at j \<noteq> None \<longleftrightarrow> job_status j = RUNNING)
    \<and> (job_status j = RUNNING \<longrightarrow> job_worker_id j \<noteq> None \<and> 1 \<le> job_attempt_count j)
    \<and> (job_completed_at j \<noteq> None \<longleftrightarrow> job_status j \<in> {SUCCEEDED, DEAD_LETTERED})
    \<and> (job_result j \<noteq> None \<longleftrightarrow> job_status j = SUCCEEDED)
    \<and> (job_status j = RETRY_SCHEDULED \<longrightarrow> job_attempt_count j < job_max_attempts j)
    \<and> job_status j \<noteq> JOB_CANCELLED"
proof -
  have "table_ok t" "job_wf j"
    using reachable_table_ok [OF assms(1)] get_job_id [OF assms(2)] by (auto simp: table_ok_def)
  then show ?thesis by (auto simp: table_ok_def job_wf_def split: job_status.splits)
qed

theorem stored_jobs_wellformed_witness:
  "job_attempt_count (claimed ''w1'' 10 1010 (add_job 7 0 demo_job)) \<le> 2
    \<and> job_lease_expires_at (claimed ''w1'' 10 1010 (add_job 7 0 demo_job)) \<noteq> None"
  using stored_jobs_wellformed [OF demo_reachable(2) demo_rows(2)]
  by (simp add: claimed_def add_job_def demo_job_def)

text \<open>whatever happens to the table after a job is stored, it is never lost, the submitted work
  never changes, the number of used attempts never decreases, and once it succeeded or was
  dead-lettered its row never changes again: no late success, failure, renewal, claim or recovery can
  reopen it.\<close>

theorem job_history_monotone:
  assumes "job_reachable t" and "job_step\<^sup>*\<^sup>* t t'" and "get_job_by_id i t = Some j"
  shows "\<exists>j'. get_job_by_id i t' = Some j' \<and> same_work j j' \<and> job_attempt_count j \<le> job_attempt_count j'
    \<and> (job_status j \<in> {SUCCEEDED, DEAD_LETTERED} \<longrightarrow> j' = j)"
  using assms(2)
proof (induction rule: rtranclp_induct)
  case base
  then show ?case using assms(3) by (simp add: same_work_def)
next
  case (step u v)
  from step.IH obtain j1 where j1: "get_job_by_id i u = Some j1" "same_work j j1"
    "job_attempt_count j \<le> job_attempt_count j1" "job_status j \<in> {SUCCEEDED, DEAD_LETTERED} \<longrightarrow> j1 = j"
    by blast
  have "table_ok u"
    using step.hyps(1)
    by (induction rule: rtranclp_induct) (use assms(1) reachable_table_ok job_step_ok in blast)+
  from job_step_find [OF step.hyps(2) this j1(1)] obtain j2
    where j2: "get_job_by_id i v = Some j2" "row_step j1 j2" by blast
  note s = row_step_attempts [OF j2(2)]
  show ?case using j1 j2(1) s same_work_trans [OF j1(2) s(1)] order_trans [OF j1(3) s(2)] by blast
qed

theorem job_history_monotone_witness:
  "\<exists>j'. get_job_by_id 7 demo_done = Some j' \<and> same_work (add_job 7 0 demo_job) j'"
  using job_history_monotone [OF demo_reachable(1) _ demo_rows(1), of demo_done] demo_steps(2,3)
  by (meson converse_rtranclp_into_rtranclp r_into_rtranclp)

section \<open>Claiming\<close>

lemma claim_selection:
  assumes "claim_jobs tx w qs n d t = (Inr js, t')" and "job_reachable t" and "qs \<noteq> []" and "1 \<le> n"
  shows "length js \<le> nat n \<and> distinct (map job_id js)"
    and "j \<in> set js \<Longrightarrow> get_job_by_id (job_id j) t' = Some j \<and> job_status j = RUNNING
      \<and> job_worker_id j = Some w \<and> (\<exists>j0. get_job_by_id (job_id j) t = Some j0
        \<and> claimable qs (tx_now tx) j0 \<and> \<not> tx_locked tx (job_id j0)
        \<and> job_attempt_count j = job_attempt_count j0 + 1)"
    and "q \<in> set t \<Longrightarrow> claimable qs (tx_now tx) q \<Longrightarrow> \<not> tx_locked tx (job_id q) \<Longrightarrow>
      job_id q \<notin> job_id ` set js \<Longrightarrow> length js = nat n
      \<and> (\<forall>j\<in>set js. \<exists>j0. get_job_by_id (job_id j) t = Some j0 \<and> claim_key j0 \<le> claim_key q)"
proof -
  let ?sel = "select_jobs (claimable qs (tx_now tx)) claim_key tx n t"
  let ?f = "claimed w (tx_now tx) (tx_now tx + timedelta d)"
  note ok = reachable_table_ok [OF assms(2)]
  have js: "js = map ?f ?sel"
    using assms(1,3,4) by (auto simp: claim_jobs_def Let_def result_simps)
  have row: "get_job_by_id (job_id j0) t = Some j0 \<and> claimable qs (tx_now tx) j0
      \<and> \<not> tx_locked tx (job_id j0)" if "j0 \<in> set ?sel" for j0
    using that select_jobs_props(1) [of "claimable qs (tx_now tx)" claim_key tx n t]
      find_key_distinct [OF table_ok_distinct [OF ok], of j0] by (auto simp: get_job_by_id_def)
  show "length js \<le> nat n \<and> distinct (map job_id js)"
    using select_jobs_props(4) [of _ claim_key] claim_jobs_distinct [OF assms(1) ok] by (simp add: js)
  show "get_job_by_id (job_id j) t' = Some j \<and> job_status j = RUNNING
      \<and> job_worker_id j = Some w \<and> (\<exists>j0. get_job_by_id (job_id j) t = Some j0
        \<and> claimable qs (tx_now tx) j0 \<and> \<not> tx_locked tx (job_id j0)
        \<and> job_attempt_count j = job_attempt_count j0 + 1)" if "j \<in> set js"
  proof -
    from that js obtain j0 where "j0 \<in> set ?sel" "j = ?f j0" by auto
    then show ?thesis
      using claim_jobs_row [OF assms(1) ok that] row [of j0] by (auto simp: claimed_def)
  qed
  assume q: "q \<in> set t" "claimable qs (tx_now tx) q" "\<not> tx_locked tx (job_id q)"
    "job_id q \<notin> job_id ` set js"
  have out: "q \<notin> set ?sel" using q(4) claimed_id by (metis image_eqI js list.set_map)
  note best = select_jobs_best [OF q(1) _ q(3) out, OF q(2)]
  have "\<exists>j0. get_job_by_id (job_id j) t = Some j0 \<and> claim_key j0 \<le> claim_key q" if "j \<in> set js" for j
  proof -
    from that js obtain j0 where "j0 \<in> set ?sel" "j = ?f j0" by auto
    then show ?thesis using best(2) row by auto
  qed
  then show "length js = nat n
      \<and> (\<forall>j\<in>set js. \<exists>j0. get_job_by_id (job_id j) t = Some j0 \<and> claim_key j0 \<le> claim_key q)"
    using best(1) by (simp add: js)
qed

text \<open>C10: a claim returns at most the requested number of jobs, each of them once, each waiting in one
  of the worker's queues and due before and running under this worker with one more attempt after;
  and it never passes over a better job: a due job of these queues that no other transaction holds is
  left waiting only when the claim is full, and then every job it took comes before it in the order by
  priority, due time, creation and identifier.\<close>

theorem claim_takes_best_jobs:
  assumes "claim_jobs tx w qs n d t = (Inr js, t')" and "job_reachable t" and "qs \<noteq> []" and "1 \<le> n"
  shows "length js \<le> nat n \<and> distinct (map job_id js)
    \<and> (\<forall>j\<in>set js. get_job_by_id (job_id j) t' = Some j \<and> job_status j = RUNNING
        \<and> job_worker_id j = Some w \<and> (\<exists>j0. get_job_by_id (job_id j) t = Some j0
          \<and> claimable qs (tx_now tx) j0 \<and> \<not> tx_locked tx (job_id j0)
          \<and> job_attempt_count j = job_attempt_count j0 + 1))
    \<and> (\<forall>q\<in>set t. claimable qs (tx_now tx) q \<and> \<not> tx_locked tx (job_id q) \<and> job_id q \<notin> job_id ` set js \<longrightarrow>
        length js = nat n
        \<and> (\<forall>j\<in>set js. \<exists>j0. get_job_by_id (job_id j) t = Some j0 \<and> claim_key j0 \<le> claim_key q))"
  using claim_selection [OF assms] by auto

theorem claim_takes_best_jobs_witness:
  "distinct (map job_id [claimed ''w1'' 10 1010 (add_job 7 0 demo_job)])"
  using claim_takes_best_jobs [OF demo_claim demo_reachable(1)] by simp

text \<open>a worker that asks gets an answer: on any reachable table, while the database answers, a
  claim for a worker name the column can hold never fails, and returns at least one job exactly when
  one is due in its queues and not locked by another transaction.\<close>

theorem claim_finds_work:
  assumes "job_reachable t" and "length w \<le> 200" and "qs \<noteq> []" and "1 \<le> n" and "tx_fault tx = NoFault"
  shows "\<exists>js t'. claim_jobs tx w qs n d t = (Inr js, t')
    \<and> (js \<noteq> [] \<longleftrightarrow> (\<exists>q\<in>set t. claimable qs (tx_now tx) q \<and> \<not> tx_locked tx (job_id q)))"
proof -
  let ?sel = "select_jobs (claimable qs (tx_now tx)) claim_key tx n t"
  have "?sel \<noteq> [] \<longleftrightarrow> sort_key claim_key
      (filter (\<lambda>j. claimable qs (tx_now tx) j \<and> \<not> tx_locked tx (job_id j)) t) \<noteq> []"
    using assms(4) by (simp add: select_jobs_def)
  also have "\<dots> \<longleftrightarrow> (\<exists>q\<in>set t. claimable qs (tx_now tx) q \<and> \<not> tx_locked tx (job_id q))"
    by (simp flip: set_empty) blast
  finally have "?sel \<noteq> [] \<longleftrightarrow> (\<exists>q\<in>set t. claimable qs (tx_now tx) q \<and> \<not> tx_locked tx (job_id q))" .
  then show ?thesis
    using claim_jobs_eq [OF reachable_table_ok [OF assms(1)] reachable_columns [OF assms(1)] assms(2-5) refl]
    by simp
qed

theorem claim_finds_work_witness:
  "\<exists>js t'. claim_jobs (demo_tx 10) ''w2'' [''default''] 1 60 demo_queued = (Inr js, t') \<and> js \<noteq> []"
proof -
  have "\<exists>q\<in>set demo_queued. claimable [''default''] 10 q \<and> \<not> tx_locked (demo_tx 10) (job_id q)"
    by (simp add: demo_queued_eq claimable_def add_job_def demo_job_def demo_tx_def)
  then show ?thesis
    using claim_finds_work [OF demo_reachable(1), of "''w2''" "[''default'']" 1 "demo_tx 10" 60]
    by (simp add: demo_tx_def)
qed

text \<open>C12: however submissions, claims, renewals, completions, failures and recoveries of any number of
  workers follow each other, starting from an empty table, the answers of all claims together hand a
  job out at most as often as its maximum number of attempts.\<close>

theorem executions_bounded:
  assumes "get_job_by_id i (run_queue_calls cs []) = Some j"
  shows "int (times_handed_out i cs []) \<le> job_max_attempts j"
proof -
  have ok: "table_ok []" by (simp add: table_ok_def keys_distinct_def)
  have "job_wf j"
    using run_queue_calls_step(1) [OF ok, of cs] get_job_id [OF assms] by (auto simp: table_ok_def)
  moreover have "int (times_handed_out i cs []) \<le> job_attempt_count j"
    using times_handed_out_attempts [OF ok assms] by (simp add: get_job_by_id_def)
  ultimately show ?thesis by (simp add: job_wf_def)
qed

lemma demo_call: "run_queue_calls [(demo_tx 0, Submit 7 demo_job),
    (demo_tx 10, Claim ''w1'' [''default''] 1 (1 / 1000))] [] = demo_running"
  by (simp add: run_queue_calls_def demo_queued_def demo_running_def)

theorem executions_bounded_witness:
  "int (times_handed_out 7 [(demo_tx 0, Submit 7 demo_job),
    (demo_tx 10, Claim ''w1'' [''default''] 1 (1 / 1000))] []) \<le> 2"
  using executions_bounded [of 7 "[(demo_tx 0, Submit 7 demo_job),
    (demo_tx 10, Claim ''w1'' [''default''] 1 (1 / 1000))]"] demo_rows(2)
  unfolding demo_call by (simp add: claimed_def add_job_def demo_job_def)

section \<open>The lease\<close>

lemma leased_row_kept:
  assumes "table_ok t" and "get_job_by_id i t = Some j" and "job_status j = RUNNING"
    and "job_worker_id j = Some w" and "job_lease_expires_at j = Some lease"
    and "\<forall>(tx, c)\<in>set cs. tx_now tx < lease \<and> \<not> acts_for i w c"
  shows "get_job_by_id i (run_queue_calls cs t) = Some j"
  using assms(1,2,6) unfolding run_queue_calls_def
proof (induction cs arbitrary: t)
  case (Cons tc cs)
  obtain tx c where tc: "tc = (tx, c)" by fastforce
  have own: "owned i w (tx_now tx) j"
    using Cons.prems tc assms(3-5) get_job_id [OF Cons.prems(2)] by (auto simp: owned_def)
  have "table_ok (other_queue_step tc t) \<and> get_job_by_id i (other_queue_step tc t) = Some j"
    using queue_run_cases(1) [OF Cons.prems(1)] lease_call [OF Cons.prems(1,2) _ own] Cons.prems tc
    by simp
  then show ?case using Cons.IH Cons.prems(3) by simp
qed simp

text \<open>C11: while its lease is live, a running job belongs to its worker alone: whatever calls the other
  workers, recovery loops and clients make at clocks before the end of the lease, with any faults, the
  row does not change.\<close>

theorem lease_protects_job:
  assumes "job_reachable t" and "get_job_by_id i t = Some j" and "job_status j = RUNNING"
    and "job_worker_id j = Some w" and "job_lease_expires_at j = Some lease"
    and "\<forall>(tx, c)\<in>set cs. tx_now tx < lease \<and> \<not> acts_for i w c"
  shows "get_job_by_id i (run_queue_calls cs t) = Some j"
  by (rule leased_row_kept [OF reachable_table_ok [OF assms(1)] assms(2-6)])

theorem lease_protects_job_witness:
  "get_job_by_id 7 (run_queue_calls [(demo_tx 500, Recover 100), (demo_tx 900, Claim ''w2'' [''default''] 5 60),
      (demo_tx 1009, Succeed 7 ''w2'' JNull)] demo_running) = get_job_by_id 7 demo_running"
proof -
  have "get_job_by_id 7 (run_queue_calls [(demo_tx 500, Recover 100),
      (demo_tx 900, Claim ''w2'' [''default''] 5 60), (demo_tx 1009, Succeed 7 ''w2'' JNull)] demo_running)
      = Some (claimed ''w1'' 10 1010 (add_job 7 0 demo_job))"
    by (rule lease_protects_job [OF demo_reachable(2) demo_rows(2), of "''w1''" 1010])
       (simp_all add: claimed_def demo_tx_def)
  then show ?thesis by (simp add: demo_rows)
qed

text \<open>renewing, completing and failing a job are open to its owner only. On a reachable table and
  with a working database, a completion and a renewal answer True exactly when the job is running
  under the calling worker with a lease that has not ended at the caller's clock, a failure answers a
  status exactly then, a refused call changes nothing, an accepted one changes this row only, and no
  two different workers can be accepted for the same job.\<close>

theorem only_owner_finishes:
  assumes "job_reachable t" and "tx_fault tx = NoFault"
  shows "fst (mark_succeeded tx i w r t) = Inr (owned_in t i w (tx_now tx))
    \<and> fst (renew_lease tx i w d t) = Inr (owned_in t i w (tx_now tx))
    \<and> (\<exists>st. fst (mark_failed tx i w msg retryable b c t) = Inr st
         \<and> (st \<noteq> None \<longleftrightarrow> owned_in t i w (tx_now tx)))
    \<and> (\<not> owned_in t i w (tx_now tx) \<longrightarrow> snd (mark_succeeded tx i w r t) = t
         \<and> snd (renew_lease tx i w d t) = t \<and> snd (mark_failed tx i w msg retryable b c t) = t)
    \<and> (\<forall>k. k \<noteq> i \<longrightarrow> get_job_by_id k (snd (mark_succeeded tx i w r t)) = get_job_by_id k t
         \<and> get_job_by_id k (snd (renew_lease tx i w d t)) = get_job_by_id k t
         \<and> get_job_by_id k (snd (mark_failed tx i w msg retryable b c t)) = get_job_by_id k t)
    \<and> (\<forall>w' now. owned_in t i w (tx_now tx) \<and> owned_in t i w' now \<longrightarrow> w' = w)"
proof -
  note ok = reachable_table_ok [OF assms(1)]
  note dist = table_ok_distinct [OF ok]
  have check: "check_job (failed now msg retryable b c j) = Inr ()" if "get_job_by_id i t = Some j" for now j
  proof -
    have "check_job j = Inr ()"
      using reachable_columns [OF assms(1)] get_job_id [OF that] by (simp add: columns_ok_def)
    then show ?thesis by (auto simp: check_job_eq failed_def Let_def)
  qed
  show ?thesis
  proof (intro conjI allI impI)
    show "fst (mark_succeeded tx i w r t) = Inr (owned_in t i w (tx_now tx))"
      "fst (renew_lease tx i w d t) = Inr (owned_in t i w (tx_now tx))"
      using assms(2) by (auto simp: mark_succeeded_eq [OF dist] renew_lease_eq [OF dist])
    show "\<exists>st. fst (mark_failed tx i w msg retryable b c t) = Inr st
        \<and> (st \<noteq> None \<longleftrightarrow> owned_in t i w (tx_now tx))"
      using assms(2) check
      by (auto simp: mark_failed_eq [OF dist] owned_in_def Let_def split: option.splits)
    show "w' = w" if "owned_in t i w (tx_now tx) \<and> owned_in t i w' now" for w' now
      using that by (auto simp: owned_in_def owned_def split: option.splits)
    fix k assume k: "k \<noteq> i"
    show "get_job_by_id k (snd (mark_succeeded tx i w r t)) = get_job_by_id k t"
      "get_job_by_id k (snd (renew_lease tx i w d t)) = get_job_by_id k t"
      using k assms(2) by (auto simp: mark_succeeded_eq [OF dist] renew_lease_eq [OF dist] get_update_row)
    show "get_job_by_id k (snd (mark_failed tx i w msg retryable b c t)) = get_job_by_id k t"
      using k assms(2) check get_job_id [of i t]
      by (auto simp: mark_failed_eq [OF dist] Let_def get_store_one split: option.splits)
  qed (use assms(2) in \<open>auto simp: mark_succeeded_eq [OF dist] renew_lease_eq [OF dist]
      mark_failed_eq [OF dist] owned_in_def split: option.splits\<close>)
qed

theorem only_owner_finishes_witness:
  "fst (mark_succeeded (demo_tx 20) 7 ''w1'' JNull demo_running) = Inr True
    \<and> fst (mark_succeeded (demo_tx 20) 7 ''w2'' JNull demo_running) = Inr False
    \<and> fst (mark_succeeded (demo_tx 1010) 7 ''w1'' JNull demo_running) = Inr False"
  using only_owner_finishes [OF demo_reachable(2), of "demo_tx 20" 7 "''w1''" JNull]
    only_owner_finishes [OF demo_reachable(2), of "demo_tx 20" 7 "''w2''" JNull]
    only_owner_finishes [OF demo_reachable(2), of "demo_tx 1010" 7 "''w1''" JNull]
  by (simp add: demo_tx_def owned_in_def demo_rows owned_def) (simp add: claimed_def add_job_def)

text \<open>the owner is a worker process, not an execution. When a job's lease ran out, recovery gave
  the job back and the same worker claimed it again, the first execution's completion is accepted: it
  finishes the newer attempt with the old execution's result.\<close>

theorem stale_execution_completes_newer_attempt:
  assumes "job_reachable t" and "claim_jobs tx1 w qs n d t = (Inr js, t1)" and "j \<in> set js"
    and "recover_stale_jobs tx2 m t1 = (Inr counts, t2)"
    and "claim_jobs tx3 w qs n d t2 = (Inr js', t3)" and "j' \<in> set js'" and "job_id j' = job_id j"
    and "0 < timedelta d" and "tx_now tx4 < tx_now tx3 + timedelta d" and "tx_fault tx4 = NoFault"
  shows "\<exists>t4 q. mark_succeeded tx4 (job_id j) w r t3 = (Inr True, t4)
    \<and> get_job_by_id (job_id j) t4 = Some q \<and> job_status q = SUCCEEDED \<and> job_result q = Some r
    \<and> job_attempt_count j < job_attempt_count q"
proof -
  note ok = reachable_table_ok [OF assms(1)]
  have ok1: "table_ok t1" using rows_step_ok [OF claim_jobs_step [OF assms(2) ok] ok] .
  note rec = recover_stale_jobs_step [OF assms(4) table_ok_distinct [OF ok1]]
  have ok2: "table_ok t2" using rows_step_ok [OF rec ok1] .
  have ok3: "table_ok t3" using rows_step_ok [OF claim_jobs_step [OF assms(5) ok2] ok2] .
  have "get_job_by_id (job_id j) t1 = Some j" using claim_jobs_row [OF assms(2) ok assms(3)] by blast
  from rows_step_find [OF rec this] obtain j2 where
    j2: "get_job_by_id (job_id j) t2 = Some j2" "row_step j j2" by blast
  from claim_jobs_row [OF assms(5) ok2 assms(6)] j2(1) assms(7) have
    j': "get_job_by_id (job_id j) t3 = Some j'" "j' = claimed w (tx_now tx3) (tx_now tx3 + timedelta d) j2"
    by auto
  have own: "owned_in t3 (job_id j) w (tx_now tx4)"
    using j' assms(7,9) by (auto simp: owned_in_def owned_def claimed_def)
  have "get_job_by_id (job_id j) (update_row job_id (job_id j) (succeeded (tx_now tx4) r) t3)
      = Some (succeeded (tx_now tx4) r j')"
    by (simp add: get_update_row j'(1))
  moreover have "job_attempt_count j < job_attempt_count (succeeded (tx_now tx4) r j')"
    using row_step_attempts(2) [OF j2(2)] by (simp add: j'(2) claimed_def succeeded_def)
  ultimately show ?thesis
    using own assms(10) by (auto simp: mark_succeeded_eq [OF table_ok_distinct [OF ok3]] succeeded_def)
qed

lemma demo_recover: "recover_stale_jobs (demo_tx 1010) 100 demo_running
    = (Inr (1, 0), [recovered 1010 (claimed ''w1'' 10 1010 (add_job 7 0 demo_job))])"
  by (simp add: recover_stale_jobs_def select_jobs_def demo_running_eq demo_tx_def stale_def claimed_def
      store_jobs_def Let_def recovered_def should_retry_job_def)
     (simp add: demo_job_def add_job_def check_job_def int4_def)

lemma demo_reclaim: "claim_jobs (demo_tx 1010) ''w1'' [''default''] 1 (1 / 1000)
    [recovered 1010 (claimed ''w1'' 10 1010 (add_job 7 0 demo_job))]
    = (Inr [claimed ''w1'' 1010 2010 (recovered 1010 (claimed ''w1'' 10 1010 (add_job 7 0 demo_job)))],
       [claimed ''w1'' 1010 2010 (recovered 1010 (claimed ''w1'' 10 1010 (add_job 7 0 demo_job)))])"
  by (simp add: claim_jobs_def select_jobs_def claimable_def demo_timedelta demo_tx_def
      store_jobs_def Let_def recovered_def should_retry_job_def claimed_def)
     (simp add: demo_job_def add_job_def check_job_def int4_def)

theorem stale_execution_completes_newer_attempt_witness:
  "\<exists>t4. mark_succeeded (demo_tx 1500) 7 ''w1'' (JStr ''old'')
      [claimed ''w1'' 1010 2010 (recovered 1010 (claimed ''w1'' 10 1010 (add_job 7 0 demo_job)))]
    = (Inr True, t4)"
  using stale_execution_completes_newer_attempt [OF demo_reachable(1) demo_claim _
      demo_recover [unfolded demo_running_eq] demo_reclaim, of _ _ "demo_tx 1500" "JStr ''old''"]
  by (force simp: demo_tx_def demo_timedelta add_job_def)

section \<open>Retries and recovery\<close>

lemma round_half_even_mono: "x \<le> y \<Longrightarrow> round_half_even x \<le> round_half_even y"
proof -
  assume le: "x \<le> y"
  then have fl: "\<lfloor>x\<rfloor> \<le> \<lfloor>y\<rfloor>" by (rule floor_mono)
  have near: "\<lfloor>z\<rfloor> \<le> round_half_even z \<and> round_half_even z \<le> \<lfloor>z\<rfloor> + 1" for z
    by (auto simp: round_half_even_def Let_def)
  show ?thesis
  proof (cases "\<lfloor>x\<rfloor> = \<lfloor>y\<rfloor>")
    case True
    then show ?thesis using le by (auto simp: round_half_even_def Let_def)
  next
    case False
    then show ?thesis using fl near [of x] near [of y] by linarith
  qed
qed

lemma timedelta_mono: "x \<le> y \<Longrightarrow> timedelta x \<le> timedelta y"
  by (simp add: timedelta_def round_half_even_mono)

lemma retry_delay_next:
  "1 \<le> n \<Longrightarrow> (b::rat) * 2 ^ nat (max (n + 1 - 1) 0) = 2 * (b * 2 ^ nat (max (n - 1) 0))"
proof -
  assume "1 \<le> n"
  then have "nat (max (n + 1 - 1) 0) = Suc (nat (max (n - 1) 0))" by linarith
  then show ?thesis by (simp only: power_Suc mult.left_commute)
qed

text \<open>the delay before a retry is exponential and bounded: it starts at the base delay (or at the
  cap), each further attempt doubles it up to the cap, it never decreases and never leaves the
  interval from 0 to the cap.\<close>

theorem retry_delay_backoff:
  assumes "0 \<le> b" and "0 \<le> c" and "1 \<le> n"
  shows "calculate_retry_delay_seconds 1 b c = min b c
    \<and> calculate_retry_delay_seconds (n + 1) b c = min (2 * calculate_retry_delay_seconds n b c) c
    \<and> calculate_retry_delay_seconds n b c \<le> calculate_retry_delay_seconds (n + 1) b c
    \<and> 0 \<le> calculate_retry_delay_seconds n b c \<and> calculate_retry_delay_seconds n b c \<le> c"
proof -
  define x where "x = b * 2 ^ nat (max (n - 1) 0)"
  have x: "0 \<le> x" using assms(1) by (simp add: x_def)
  have "calculate_retry_delay_seconds n b c = min x c"
    "calculate_retry_delay_seconds (n + 1) b c = min (2 * x) c"
    using retry_delay_next [OF assms(3), of b]
    by (simp_all only: calculate_retry_delay_seconds_def x_def Let_def)
  moreover have "calculate_retry_delay_seconds 1 b c = min b c"
    by (simp add: calculate_retry_delay_seconds_def)
  ultimately show ?thesis using x assms(2) by (auto simp: min_def)
qed

theorem retry_delay_backoff_witness:
  "calculate_retry_delay_seconds (3 + 1) 5 30 = min (2 * calculate_retry_delay_seconds 3 5 30) 30
    \<and> calculate_retry_delay_seconds (3 + 1) 5 30 = 30"
  using retry_delay_backoff [of 5 30 3] by (simp add: calculate_retry_delay_seconds_def Let_def)

text \<open>a failed execution either schedules a retry, with at least one attempt left, not before the
  clock of the failure and at most the capped delay after it, or dead-letters the job: the latter
  exactly when the failure is not retryable or the attempts are used up.\<close>

theorem failure_retries_or_gives_up:
  assumes "mark_failed tx i w msg retryable b c t = (Inr (Some st), t')" and "job_reachable t"
    and "0 \<le> b" and "0 \<le> c"
  shows "\<exists>j j'. get_job_by_id i t = Some j \<and> get_job_by_id i t' = Some j' \<and> same_work j j'
    \<and> job_status j' = st \<and> job_attempt_count j' = job_attempt_count j
    \<and> job_last_error j' = Some (take 4000 msg) \<and> job_lease_expires_at j' = None
    \<and> (st = DEAD_LETTERED \<longleftrightarrow> \<not> retryable \<or> job_attempt_count j = job_max_attempts j)
    \<and> (st \<noteq> DEAD_LETTERED \<longrightarrow> st = RETRY_SCHEDULED \<and> job_worker_id j' = None
        \<and> tx_now tx \<le> job_available_at j' \<and> job_available_at j' \<le> tx_now tx + timedelta c)"
proof -
  note ok = reachable_table_ok [OF assms(2)]
  from mark_failed_Some [OF assms(1) table_ok_distinct [OF ok]] obtain j where
    j: "get_job_by_id i t = Some j" "owned i w (tx_now tx) j"
      "get_job_by_id i t' = Some (failed (tx_now tx) msg retryable b c j)"
      "st = job_status (failed (tx_now tx) msg retryable b c j)" by blast
  have wf: "job_wf j" using ok get_job_id [OF j(1)] by (auto simp: table_ok_def)
  then have n: "1 \<le> job_attempt_count j" "job_attempt_count j \<le> job_max_attempts j"
    using j(2) by (auto simp: job_wf_def owned_def)
  note d = retry_delay_backoff [OF assms(3,4) n(1)]
  have "0 \<le> timedelta (calculate_retry_delay_seconds (job_attempt_count j) b c)"
    using timedelta_mono [of 0 "calculate_retry_delay_seconds (job_attempt_count j) b c"] d
    by (simp add: timedelta_def round_half_even_def)
  moreover have "timedelta (calculate_retry_delay_seconds (job_attempt_count j) b c) \<le> timedelta c"
    using d by (intro timedelta_mono) simp
  ultimately show ?thesis
    using j n by (intro exI [of _ j] exI [of _ "failed (tx_now tx) msg retryable b c j"])
      (auto simp: failed_def Let_def should_retry_job_def same_work_def)
qed

theorem failure_retries_or_gives_up_witness:
  "\<exists>j'. get_job_by_id 7 (snd (mark_failed (demo_tx 20) 7 ''w1'' ''boom'' False 1 60 demo_running)) = Some j'
    \<and> job_status j' = DEAD_LETTERED"
proof -
  have "mark_failed (demo_tx 20) 7 ''w1'' ''boom'' False 1 60 demo_running = (Inr (Some DEAD_LETTERED),
      snd (mark_failed (demo_tx 20) 7 ''w1'' ''boom'' False 1 60 demo_running))"
    by (simp add: mark_failed_def demo_running_eq demo_tx_def owned_def claimed_def add_job_def
        failed_def should_retry_job_def Let_def) (simp add: check_job_def demo_job_def int4_def)
  from failure_retries_or_gives_up [OF this demo_reachable(2)] show ?thesis by auto
qed

lemma recovered_row:
  "\<not> stale now (recovered now j)"
  "same_work j (recovered now j)"
  "job_attempt_count (recovered now j) = job_attempt_count j"
  "job_last_error (recovered now j) = Some lease_expired_text"
  "job_attempt_count j < job_max_attempts j \<Longrightarrow> job_status (recovered now j) = RETRY_SCHEDULED"
  "job_attempt_count j < job_max_attempts j \<Longrightarrow> claimable [job_queue j] now (recovered now j)"
  "\<not> job_attempt_count j < job_max_attempts j \<Longrightarrow> job_status (recovered now j) = DEAD_LETTERED"
  by (auto simp: recovered_def Let_def should_retry_job_def same_work_def claimable_def stale_def)

text \<open>recovery leaves no abandoned job behind: with a limit that covers the jobs whose lease has
  ended (or is missing), none of them locked, and a working database, each of them goes back to its
  queue at once, its attempts unchanged, or is dead-lettered when they are used up; the two counts
  returned add up to their number; every other row stays as it is.\<close>

theorem recovery_clears_stale_jobs:
  assumes "job_reachable t" and "tx_fault tx = NoFault" and "1 \<le> n"
    and "int (length (filter (stale (tx_now tx)) t)) \<le> n"
    and "\<forall>j\<in>set t. stale (tx_now tx) j \<longrightarrow> \<not> tx_locked tx (job_id j)"
  shows "\<exists>a b t'. recover_stale_jobs tx n t = (Inr (a, b), t')
    \<and> a + b = length (filter (stale (tx_now tx)) t) \<and> (\<forall>j\<in>set t'. \<not> stale (tx_now tx) j)
    \<and> (\<forall>j\<in>set t. if stale (tx_now tx) j
        then \<exists>j'. get_job_by_id (job_id j) t' = Some j' \<and> same_work j j'
          \<and> job_attempt_count j' = job_attempt_count j \<and> job_last_error j' = Some lease_expired_text
          \<and> (if job_attempt_count j < job_max_attempts j
             then job_status j' = RETRY_SCHEDULED \<and> claimable [job_queue j] (tx_now tx) j'
             else job_status j' = DEAD_LETTERED)
        else get_job_by_id (job_id j) t' = Some j)"
proof -
  let ?now = "tx_now tx"
  let ?sel = "select_jobs (stale ?now) stale_key tx n t"
  let ?f = "recovered ?now"
  let ?g = "\<lambda>r. if stale ?now r then ?f r else r"
  note ok = reachable_table_ok [OF assms(1)]
  note dist = table_ok_distinct [OF ok]
  have "filter (\<lambda>j. stale ?now j \<and> \<not> tx_locked tx (job_id j)) t = filter (stale ?now) t"
    using assms(5) by (intro filter_cong) auto
  then have sel: "?sel = sort_key stale_key (filter (stale ?now) t)"
    using assms(4) by (simp add: select_jobs_def)
  have members: "set ?sel = {j \<in> set t. stale ?now j}" by (simp add: sel)
  have "check_job (?f j) = Inr ()" if "j \<in> set ?sel" for j
    using that reachable_columns [OF assms(1)] members
    by (auto simp: columns_ok_def check_job_eq recovered_def Let_def)
  then have checks: "check_jobs (map ?f ?sel) = Inr ()" by (auto simp: check_jobs_eq)
  have t': "store_jobs (map ?f ?sel) t = map ?g t"
    using members by (subst store_jobs_map [OF dist]) auto
  have split: "length (filter (\<lambda>j. job_status j = RETRY_SCHEDULED) (map ?f xs))
      + length (filter (\<lambda>j. job_status j = DEAD_LETTERED) (map ?f xs)) = length xs" for xs
    by (induction xs) (auto simp: recovered_def Let_def)
  have run: "recover_stale_jobs tx n t = (Inr (length (filter (\<lambda>j. job_status j = RETRY_SCHEDULED) (map ?f ?sel)),
      length (filter (\<lambda>j. job_status j = DEAD_LETTERED) (map ?f ?sel))), map ?g t)"
    using assms(2,3) checks t' by (simp add: recover_stale_jobs_def Let_def)
  have found: "get_job_by_id (job_id j) (map ?g t) = Some (?g j)" if "j \<in> set t" for j
  proof -
    have "distinct (map job_id (map ?g t))" using dist by (simp add: comp_def if_distrib cong: if_cong)
    from find_key_distinct [OF this, of "?g j"] that show ?thesis by (auto simp: get_job_by_id_def)
  qed
  have gone: "\<forall>j\<in>set (map ?g t). \<not> stale ?now j" using recovered_row(1) by auto
  have moved: "\<forall>j\<in>set t. if stale ?now j
      then \<exists>j'. get_job_by_id (job_id j) (map ?g t) = Some j' \<and> same_work j j'
        \<and> job_attempt_count j' = job_attempt_count j \<and> job_last_error j' = Some lease_expired_text
        \<and> (if job_attempt_count j < job_max_attempts j
           then job_status j' = RETRY_SCHEDULED \<and> claimable [job_queue j] ?now j'
           else job_status j' = DEAD_LETTERED)
      else get_job_by_id (job_id j) (map ?g t) = Some j"
    using found recovered_row(2-) by auto
  have "length ?sel = length (filter (stale ?now) t)" by (simp add: sel)
  then have counts: "length (filter (\<lambda>j. job_status j = RETRY_SCHEDULED) (map ?f ?sel))
      + length (filter (\<lambda>j. job_status j = DEAD_LETTERED) (map ?f ?sel)) = length (filter (stale ?now) t)"
    by (simp only: split)
  show ?thesis by (intro exI conjI) (rule run counts gone moved)+
qed

theorem recovery_clears_stale_jobs_witness:
  "\<exists>a b t'. recover_stale_jobs (demo_tx 1010) 100 demo_running = (Inr (a, b), t') \<and> a + b = 1
    \<and> (\<forall>j\<in>set t'. \<not> stale 1010 j)"
  using recovery_clears_stale_jobs [OF demo_reachable(2), of "demo_tx 1010" 100]
  by (simp add: demo_tx_def demo_running_eq stale_def claimed_def) blast

section \<open>Idempotent submission\<close>

lemma find_by_key_stored:
  assumes "keys_distinct t" and "j \<in> set t" and "job_idempotency_key j = Some k"
  shows "find_by_key k t = Some j"
  using assms
proof (induction t)
  case (Cons q t)
  show ?case
  proof (cases "job_idempotency_key q = Some k")
    case True
    have "j = q"
    proof (rule ccontr)
      assume "j \<noteq> q"
      then have "j \<in> set t" using Cons.prems(2) by simp
      then have "k \<in> (\<lambda>j. the (job_idempotency_key j)) ` {j \<in> set t. job_idempotency_key j \<noteq> None}"
        using Cons.prems(3) by (intro image_eqI [of _ _ j]) auto
      then show False using Cons.prems(1) True by (simp add: keys_distinct_def)
    qed
    then show ?thesis using True by (simp add: find_by_key_def)
  next
    case False
    have "keys_distinct t" using Cons.prems(1) by (auto simp: keys_distinct_def split: if_splits)
    then show ?thesis using False Cons by (auto simp: find_by_key_def)
  qed
qed simp

lemma valid_check: "valid_job_create d \<Longrightarrow> check_job (add_job i now d) = Inr ()"
  by (auto simp: valid_job_create_def valid_name_def check_job_eq add_job_def int4_def
      split: option.splits)

lemma submit_again:
  assumes "valid_job_create d" and "jsonb_ok (jc_payload d)" and "jc_idempotency_key d = Some k" and "tx_fault tx = NoFault"
    and "keys_distinct t" and "q \<in> set t" and "job_idempotency_key q = Some k"
  shows "create_job_endpoint tx i d t =
    (if job_matches_submission q d then Reply 201 q else HTTPException 409 conflict_detail, t)"
  using find_by_key_stored [OF assms(5-7)] valid_check [OF assms(1)] assms
  by (auto simp: create_job_endpoint_def create_job_def create_or_get_idempotent_job_def Let_def
      database_step_def check_jsonb_def)

lemma accepted_submission:
  assumes "create_job_endpoint tx i d t = (Reply 201 j, t')" and "table_ok t" and "i \<notin> job_id ` set t"
    and "\<forall>q\<in>set t. job_idempotency_key q \<noteq> jc_idempotency_key d"
  shows "valid_job_create d" and "jsonb_ok (jc_payload d)" and "j = add_job i (tx_now tx) d"
    and "get_job_by_id i t' = Some j" and "t' = j # t"
proof -
  show valid: "valid_job_create d"
    using assms(1) by (auto simp: create_job_endpoint_def unprocessable_def split: if_splits)
  have all: "jsonb_ok (jc_payload d) \<and> j = add_job i (tx_now tx) d \<and> t' = j # t"
    using assms(1,4) valid
    by (auto simp: create_job_endpoint_def create_job_def create_or_get_idempotent_job_def Let_def
        result_simps database_step_def check_jsonb_def server_error_def
        split: sum.splits option.splits if_splits tx_fault.splits submit_error.splits prod.splits)
  then show "jsonb_ok (jc_payload d)" "j = add_job i (tx_now tx) d" "t' = j # t" by auto
  with all show "get_job_by_id i t' = Some j" by (simp add: get_job_by_id_def add_job_def)
qed

text \<open>The stored job represents its own submission exactly when the payload comes back equal.\<close>

lemma add_job_matches:
  assumes "json_wf (jc_payload d)" and "jsonb_ok (jc_payload d)"
  shows "job_matches_submission (add_job i now d) d = stored_exactly (jc_payload d)"
  using json_eq_jsonb(1) [OF assms] by (simp add: job_matches_submission_def add_job_def)

lemma same_work_matches: "same_work j j' \<Longrightarrow> job_matches_submission j' d = job_matches_submission j d"
  by (simp add: same_work_def job_matches_submission_def)

lemma steps_ok: "job_step\<^sup>*\<^sup>* t t' \<Longrightarrow> job_reachable t \<Longrightarrow> job_reachable t'"
  by (induction rule: rtranclp_induct) (auto intro: job_reachable.step)

text \<open>C15: a submission with a new idempotency key takes effect once. Whatever happened to the table since
  it was accepted (the job may be running, retried or finished), no submission under the key adds
  or changes a job. Repeating the submission answers 201 with the same job if its payload comes back
  equal from the \<open>JSONB\<close> column, and 409 if not, which is the case just when the payload holds a
  float such as \<open>1e23\<close>, whose decimal text is an integer that no double equals. Every
  submission that differs from the stored job is refused with 409. (Payloads are JSON documents with
  distinct keys; the repeated submissions are ones the database accepts, and it does not fail meanwhile.)\<close>

theorem idempotent_submission:
  assumes "create_job_endpoint tx i d t = (Reply 201 j, t1)" and "job_reachable t"
    and "i \<notin> job_id ` set t" and "json_wf (jc_payload d)" and "jc_idempotency_key d = Some k"
    and "\<forall>q\<in>set t. job_idempotency_key q \<noteq> Some k"
    and "job_step\<^sup>*\<^sup>* t1 t2" and "tx_fault tx' = NoFault"
  shows "\<exists>j'. get_job_by_id i t2 = Some j' \<and> same_work j j'
    \<and> create_job_endpoint tx' i' d t2 =
        (if stored_exactly (jc_payload d) then Reply 201 j' else HTTPException 409 conflict_detail, t2)
    \<and> (\<forall>d'. valid_job_create d' \<and> jsonb_ok (jc_payload d') \<and> jc_idempotency_key d' = Some k \<longrightarrow>
        create_job_endpoint tx' i' d' t2 =
          (if job_matches_submission j d' then Reply 201 j' else HTTPException 409 conflict_detail, t2))"
proof -
  note a = accepted_submission [OF assms(1) reachable_table_ok [OF assms(2)] assms(3)
    assms(6) [folded assms(5)]]
  have key: "job_idempotency_key j = Some k" using a(3) assms(5) by (simp add: add_job_def)
  have "job_step t t1"
    using job_step.intros [of "Submit i d" t tx] assms(1,3) by simp
  then have r1: "job_reachable t1" using assms(2) job_reachable.step by blast
  have "\<exists>j'. get_job_by_id i t2 = Some j' \<and> same_work j j'"
    using assms(7)
  proof (induction rule: rtranclp_induct)
    case base
    then show ?case using a(4) by (simp add: same_work_def)
  next
    case (step u v)
    then obtain j1 where j1: "get_job_by_id i u = Some j1" "same_work j j1" by blast
    from job_step_find [OF step.hyps(2) reachable_table_ok [OF steps_ok [OF step.hyps(1) r1]] j1(1)]
    show ?case using same_work_trans [OF j1(2)] row_step_attempts(1) by blast
  qed
  then obtain j' where j': "get_job_by_id i t2 = Some j'" "same_work j j'" by blast
  have "keys_distinct t2"
    using reachable_table_ok [OF steps_ok [OF assms(7) r1]] by (simp add: table_ok_def)
  moreover have "j' \<in> set t2" "job_idempotency_key j' = Some k"
    using get_job_id [OF j'(1)] j'(2) key by (auto simp: same_work_def)
  ultimately have again: "create_job_endpoint tx' i' e t2 =
      (if job_matches_submission j e then Reply 201 j' else HTTPException 409 conflict_detail, t2)"
    if "valid_job_create e" "jsonb_ok (jc_payload e)" "jc_idempotency_key e = Some k" for e
    using submit_again [OF that assms(8)] same_work_matches [OF j'(2)] by simp
  show ?thesis
    using j' again again [OF a(1,2) assms(5)] add_job_matches [OF assms(4) a(2)] a(3) by auto
qed

theorem idempotent_submission_witness:
  "\<exists>j'. create_job_endpoint (demo_tx 30) 8 demo_job demo_done = (Reply 201 j', demo_done)
    \<and> create_job_endpoint (demo_tx 30) 8 (demo_job\<lparr>jc_priority := 5\<rparr>) demo_done
        = (HTTPException 409 conflict_detail, demo_done)"
proof -
  have first: "create_job_endpoint (demo_tx 0) 7 demo_job [] = (Reply 201 (add_job 7 0 demo_job), demo_queued)"
    using demo_valid valid_check [OF demo_valid]
    by (simp add: demo_queued_eq create_job_endpoint_def create_job_def demo_tx_def demo_check
        create_or_get_idempotent_job_def database_step_def Let_def) (simp add: demo_job_def)
  have valid: "valid_job_create (demo_job\<lparr>jc_priority := 5\<rparr>)" by code_simp
  have "job_step\<^sup>*\<^sup>* demo_queued demo_done"
    using demo_steps(2,3) by (meson converse_rtranclp_into_rtranclp r_into_rtranclp)
  from idempotent_submission [OF first job_reachable.start _ _ _ _ this, of "''k''" "demo_tx 30" 8]
  show ?thesis
    using valid
    by (auto simp: demo_job_def demo_tx_def job_matches_submission_def add_job_def jsonb_text_def)
qed

text \<open>A submission whose payload holds \<open>1e23\<close>: the database accepts it, hands back the integer
  \<open>10 ^ 23\<close>, and the same submission is from then on refused.\<close>

definition float_job :: job_create where
  "float_job = demo_job\<lparr>jc_payload := JObj [(''x'', JFloat ''1e+23'')]\<rparr>"

lemma double_1e23: "double (10 ^ 23) \<noteq> 10 ^ 23"
proof
  assume eq: "double (10 ^ 23) = 10 ^ 23"
  have "exponent (10 ^ 23) = 76" by (rule exponent_unique) (simp_all add: power_int_def)
  then have "double (10 ^ 23) = of_int (round_even (10 ^ 23 / 2 powi 24)) * 2 powi 24"
    by (simp add: double_def double_pos_def spacing_def)
  with eq have "of_int (round_even (10 ^ 23 / 2 powi 24) * 2 ^ 24) = (of_int (10 ^ 23) :: rat)"
    by simp
  then have "round_even (10 ^ 23 / 2 powi 24) * 2 ^ 24 = 10 ^ 23" by (simp only: of_int_eq_iff)
  then show False by simp presburger
qed

theorem large_float_repeat_refused:
  "\<exists>j t. create_job_endpoint (demo_tx 0) 7 float_job [] = (Reply 201 j, t)
    \<and> job_payload j = JObj [(''x'', JInt (10 ^ 23))]
    \<and> create_job_endpoint (demo_tx 30) 8 float_job t = (HTTPException 409 conflict_detail, t)"
proof -
  have dec: "parse_decimal ''1e+23'' = Some (Finite 1 23)" by code_simp
  have "jsonb (jc_payload float_job) = JObj [(''x'', JInt (10 ^ 23))]"
    by (simp add: float_job_def dec)
  moreover have "check_jsonb (jc_payload float_job) = Inr ()"
    by (simp add: check_jsonb_def float_job_def dec num_value_def jsonb_text_def)
  moreover have "\<not> json_eq (JObj [(''x'', JInt (10 ^ 23))]) (jc_payload float_job)"
    using double_1e23 by (simp add: float_job_def dec num_eq_def num_value_def)
  moreover have "valid_job_create float_job" by code_simp
  ultimately show ?thesis
    using valid_check [of float_job]
    by (simp add: create_job_endpoint_def create_job_def demo_tx_def
        create_or_get_idempotent_job_def database_step_def Let_def)
       (simp add: float_job_def demo_job_def add_job_def find_by_key_def job_matches_submission_def)
qed

end
