(* ===== verification/Worker_Claims.thy ===== *)
theory Worker_Claims
  imports Job_Claims
begin

text \<open>
  The properties of the worker on the PostgreSQL queue: what the processing of a job leaves stored,
  that a slot finishes the best job, how payload errors are treated, and the queues of a worker.
\<close>

section \<open>One job\<close>

text \<open>whatever other users do to the table between its transactions, and whatever the database
  answers, a worker that reports a job as succeeded has stored exactly its handler's result, one that
  reports a transition has stored that status, an invalid or unknown task is never put back for a
  retry, and the table stays well-formed.\<close>

theorem processed_job_outcome:
  assumes "process_job PostgresJobQueue w j s = (r, s')" and "job_reachable (qw_table s)"
  shows "table_ok (qw_table s') \<and> (case r of
      JobSucceeded \<Rightarrow> \<exists>q result. execute_task (job_task_name j) (job_payload j) = Inr result
        \<and> get_job_by_id (job_id j) (qw_table s') = Some q \<and> job_status q = SUCCEEDED
        \<and> job_result q = Some result
    | JobTransitioned st \<Rightarrow> \<exists>q. get_job_by_id (job_id j) (qw_table s') = Some q \<and> job_status q = st
        \<and> (st = DEAD_LETTERED \<or> st = RETRY_SCHEDULED
             \<and> (\<forall>e. execute_task (job_task_name j) (job_payload j) = Inl e \<longrightarrow> \<not> is_task_handler_error e))
    | OwnershipLost \<Rightarrow> True
    | FailureNotPersisted \<Rightarrow> True)"
  using postgres.process_job_outcome [OF assms(1) reachable_table_ok [OF assms(2)]]
  by (auto split: job_outcome.splits)

definition demo_queue_world :: queue_world where
  "demo_queue_world = \<lparr>qw_table = demo_queued, qw_time = 0, qw_others = (\<lambda>_. []),
     qw_tx = (\<lambda>n. demo_tx (10 + 5 * int n))\<rparr>"

definition demo_worker :: job_worker where
  "demo_worker = \<lparr>w_id = ''w1'', w_queue_names = [''default''], w_concurrency = 1,
     w_retry_base_delay = 1, w_retry_max_delay = 60, w_lease_duration = 1 / 1000\<rparr>"

lemma demo_process: "process_job PostgresJobQueue demo_worker (claimed ''w1'' 10 1010 (add_job 7 0 demo_job))
      (demo_queue_world\<lparr>qw_table := demo_running\<rparr>) =
    (JobSucceeded, demo_queue_world\<lparr>qw_table := [succeeded 10 (JObj [(''echo'', JObj [(''n'', JInt 1)])])
      (claimed ''w1'' 10 1010 (add_job 7 0 demo_job))], qw_time := 1\<rparr>)"
proof -
  have task: "execute_task ''echo'' (JObj [(''n'', JInt 1)]) = Inr (JObj [(''echo'', JObj [(''n'', JInt 1)])])"
    by code_simp
  show ?thesis
    by (simp add: process_job_def PostgresJobQueue_def in_transaction_def run_queue_calls_def
        demo_queue_world_def demo_worker_def demo_running_eq mark_succeeded_def update_where_def demo_tx_def
        Let_def owned_def claimed_def add_job_def demo_job_def task)
qed

theorem processed_job_outcome_witness:
  "\<exists>(q::job) result. execute_task (job_task_name (claimed ''w1'' 10 1010 (add_job 7 0 demo_job)))
      (job_payload (claimed ''w1'' 10 1010 (add_job 7 0 demo_job))) = Inr result
    \<and> job_status q = SUCCEEDED \<and> job_result q = Some result"
proof -
  have "job_reachable (qw_table (demo_queue_world\<lparr>qw_table := demo_running\<rparr>))"
    using demo_reachable(2) by simp
  from processed_job_outcome [OF demo_process this] show ?thesis
    unfolding job_outcome.case by blast
qed

section \<open>A slot at work\<close>

lemma run_queue_calls_reachable: "job_reachable t \<Longrightarrow> job_reachable (run_queue_calls cs t)"
  unfolding run_queue_calls_def
proof (induction cs arbitrary: t)
  case (Cons tc cs)
  obtain tx c where tc: "tc = (tx, c)" by fastforce
  have "job_reachable (other_queue_step tc t)"
    using Cons.prems by (auto simp: tc intro: job_reachable.step job_step.intros)
  then show ?case using Cons.IH by simp
qed simp

lemma select_the_best:
  assumes "distinct (map job_id t)" and "q \<in> set t" and "P q" and "\<not> tx_locked tx (job_id q)"
    and best: "\<forall>j\<in>set t. P j \<longrightarrow> claim_key q \<le> claim_key j"
  shows "select_jobs P claim_key tx 1 t = [q]"
proof -
  let ?sel = "select_jobs P claim_key tx 1 t"
  have "q \<in> set ?sel"
  proof (rule ccontr)
    assume out: "q \<notin> set ?sel"
    have "length ?sel = 1"
      using select_jobs_best(1) [where P = P, OF assms(2,3,4) out] by simp
    then obtain j where sel: "?sel = [j]" by (auto simp: length_Suc_conv)
    then have j: "j \<in> set t" "P j" using select_jobs_props(1) [of P claim_key tx 1 t] by auto
    have "claim_key j \<le> claim_key q"
      using select_jobs_best(2) [where P = P, OF assms(2,3,4) out] sel by simp
    then have "claim_key j = claim_key q" using best j by (simp add: order_antisym)
    then have "job_id j = job_id q" by (simp add: claim_key_def)
    then have "j = q" using assms(1,2) j(1) by (simp add: distinct_map inj_on_def)
    then show False using out sel by simp
  qed
  moreover have "length ?sel \<le> 1" using select_jobs_props(4) [of P claim_key tx 1 t] by simp
  ultimately show ?thesis by (cases ?sel) auto
qed

lemma failed_check: "check_job j = Inr () \<Longrightarrow> check_job (failed now msg retryable b c j) = Inr ()"
  by (auto simp: check_job_eq failed_def Let_def)

lemma finish_owned_job:
  assumes "job_reachable t" and "get_job_by_id i t = Some j" and "owned i w (tx_now tx) j"
    and "tx_fault tx = NoFault"
  shows "mark_succeeded tx i w r t = (Inr True, update_row job_id i (succeeded (tx_now tx) r) t)"
    and "mark_failed tx i w msg retryable b c t =
      (Inr (Some (job_status (failed (tx_now tx) msg retryable b c j))),
       store_jobs [failed (tx_now tx) msg retryable b c j] t)"
proof -
  note dist = table_ok_distinct [OF reachable_table_ok [OF assms(1)]]
  have "check_job j = Inr ()"
    using reachable_columns [OF assms(1)] get_job_id [OF assms(2)] by (simp add: columns_ok_def)
  then show "mark_succeeded tx i w r t = (Inr True, update_row job_id i (succeeded (tx_now tx) r) t)"
    "mark_failed tx i w msg retryable b c t =
      (Inr (Some (job_status (failed (tx_now tx) msg retryable b c j))),
       store_jobs [failed (tx_now tx) msg retryable b c j] t)"
    using assms(2-4)
    by (simp_all add: mark_succeeded_eq [OF dist] mark_failed_eq [OF dist] owned_in_def Let_def failed_check)
qed

definition task_verdict :: "job_worker \<Rightarrow> job \<Rightarrow> job_outcome" where
  "task_verdict w q = (case execute_task (job_task_name q) (job_payload q) of
      Inr _ \<Rightarrow> JobSucceeded
    | Inl e \<Rightarrow> JobTransitioned (if should_retry_job (\<not> is_task_handler_error e)
         (job_attempt_count q + 1) (job_max_attempts q) then RETRY_SCHEDULED else DEAD_LETTERED))"

text \<open>The first half of a turn: the best job is claimed, and whatever happens until the handler has run, its row is kept.\<close>

lemma slot_claims_best_job:
  assumes "job_reachable (qw_table s)" and "length (w_id w) \<le> 200" and "w_queue_names w \<noteq> []"
    and now: "tx = qw_tx s (qw_time s)" "tx2 = qw_tx s (Suc (qw_time s))"
    and "tx_fault tx = NoFault" and "tx_fault tx2 = NoFault" and "qw_others s (qw_time s) = []"
    and q: "q \<in> set (qw_table s)" "claimable (w_queue_names w) (tx_now tx) q" "\<not> tx_locked tx (job_id q)"
    and best: "\<forall>j\<in>set (qw_table s). claimable (w_queue_names w) (tx_now tx) j \<longrightarrow> claim_key q \<le> claim_key j"
    and lease: "lease = tx_now tx + timedelta (w_lease_duration w)" "tx_now tx2 < lease"
    and others: "\<forall>(tx', c)\<in>set (qw_others s (Suc (qw_time s))).
      tx_now tx' < lease \<and> \<not> acts_for (job_id q) (w_id w) c"
  shows "\<exists>t2 s1. let c = claimed (w_id w) (tx_now tx) lease q in
      slot_turn PostgresJobQueue w s = (Some (fst (process_job PostgresJobQueue w c s1)), snd (process_job PostgresJobQueue w c s1))
    \<and> run_queue_calls (qw_others s1 (qw_time s1)) (qw_table s1) = t2 \<and> qw_tx s1 (qw_time s1) = tx2
    \<and> job_reachable t2 \<and> get_job_by_id (job_id q) t2 = Some c \<and> owned (job_id q) (w_id w) (tx_now tx2) c"
proof -
  let ?t = "qw_table s"
  let ?c = "claimed (w_id w) (tx_now tx) lease q"
  note ok = reachable_table_ok [OF assms(1)]
  have sel: "select_jobs (claimable (w_queue_names w) (tx_now tx)) claim_key tx 1 ?t = [q]"
    by (rule select_the_best [OF table_ok_distinct [OF ok] q best])
  have claim: "claim_jobs tx (w_id w) (w_queue_names w) 1 (w_lease_duration w) ?t = (Inr [?c], store_jobs [?c] ?t)"
    using claim_jobs_eq [OF ok reachable_columns [OF assms(1)] assms(2,3) _ assms(6) refl] sel lease(1) by simp
  define t1 where "t1 = store_jobs [?c] ?t"
  have "job_step ?t t1"
    using job_step.intros [of "Claim (w_id w) (w_queue_names w) 1 (w_lease_duration w)" ?t tx] claim
    by (simp add: t1_def)
  then have r1: "job_reachable t1" using assms(1) job_reachable.step by blast
  have at1: "get_job_by_id (job_id q) t1 = Some ?c"
    using claim_jobs_row [OF claim ok, of ?c] by (simp add: t1_def)
  define t2 where "t2 = run_queue_calls (qw_others s (Suc (qw_time s))) t1"
  have r2: "job_reachable t2" unfolding t2_def by (rule run_queue_calls_reachable [OF r1])
  have at2: "get_job_by_id (job_id q) t2 = Some ?c"
    unfolding t2_def by (rule leased_row_kept [OF reachable_table_ok [OF r1] at1 _ _ _ others]) (simp_all add: claimed_def)
  have own: "owned (job_id q) (w_id w) (tx_now tx2) ?c"
    using lease(2) by (simp add: owned_def claimed_def)
  define s1 where "s1 = s\<lparr>qw_table := t1, qw_time := Suc (qw_time s)\<rparr>"
  have none: "run_queue_calls (qw_others s (qw_time s)) ?t = ?t"
    using assms(8) by (simp add: run_queue_calls_def)
  have turn: "slot_turn PostgresJobQueue w s =
      (Some (fst (process_job PostgresJobQueue w ?c s1)), snd (process_job PostgresJobQueue w ?c s1))"
    using in_transaction_eq [where f = "\<lambda>tx. claim_jobs tx (w_id w) (w_queue_names w) 1
        (w_lease_duration w)", OF none claim [unfolded now(1)]]
    by (simp add: slot_turn_def s1_def t1_def case_prod_unfold Let_def now(1))
  have t2: "run_queue_calls (qw_others s1 (qw_time s1)) (qw_table s1) = t2" "qw_tx s1 (qw_time s1) = tx2"
    by (simp_all add: s1_def t2_def now(2))
  show ?thesis
    using turn t2 r2 at2 own unfolding Let_def by blast
qed

text \<open>C13: a slot that finds work finishes it. On a quiet start with a working database, the turn takes
  the due job that comes first in the order; whatever the other workers, slots, recovery loops and
  clients then do before the lease ends (other than acting on this job under this worker's name),
  the job ends as its handler says: succeeded with the handler's result, or retried or dead-lettered
  with the handler's error.\<close>

theorem slot_finishes_best_job:
  assumes "job_reachable (qw_table s)" and "length (w_id w) \<le> 200" and "w_queue_names w \<noteq> []"
    and now: "tx = qw_tx s (qw_time s)" "tx2 = qw_tx s (Suc (qw_time s))"
    and "tx_fault tx = NoFault" and "tx_fault tx2 = NoFault" and "qw_others s (qw_time s) = []"
    and q: "q \<in> set (qw_table s)" "claimable (w_queue_names w) (tx_now tx) q" "\<not> tx_locked tx (job_id q)"
    and best: "\<forall>j\<in>set (qw_table s). claimable (w_queue_names w) (tx_now tx) j \<longrightarrow> claim_key q \<le> claim_key j"
    and lease: "lease = tx_now tx + timedelta (w_lease_duration w)" "tx_now tx2 < lease"
    and others: "\<forall>(tx', c)\<in>set (qw_others s (Suc (qw_time s))).
      tx_now tx' < lease \<and> \<not> acts_for (job_id q) (w_id w) c"
  shows "\<exists>s' q'. slot_turn PostgresJobQueue w s = (Some (task_verdict w q), s')
    \<and> get_job_by_id (job_id q) (qw_table s') = Some q' \<and> same_work q q'
    \<and> job_attempt_count q' = job_attempt_count q + 1
    \<and> (case execute_task (job_task_name q) (job_payload q) of
        Inr result \<Rightarrow> job_status q' = SUCCEEDED \<and> job_result q' = Some result
      | Inl e \<Rightarrow> task_verdict w q = JobTransitioned (job_status q')
          \<and> job_last_error q' = Some (take 4000 (task_error_text e)))"
proof -
  let ?c = "claimed (w_id w) (tx_now tx) lease q"
  obtain t2 s1 where turn: "slot_turn PostgresJobQueue w s =
        (Some (fst (process_job PostgresJobQueue w ?c s1)), snd (process_job PostgresJobQueue w ?c s1))"
      and t2: "run_queue_calls (qw_others s1 (qw_time s1)) (qw_table s1) = t2" "qw_tx s1 (qw_time s1) = tx2"
      and kept: "job_reachable t2" "get_job_by_id (job_id q) t2 = Some ?c" "owned (job_id q) (w_id w) (tx_now tx2) ?c"
    using slot_claims_best_job [OF assms] unfolding Let_def by blast
  note at2 = kept(2) and fin = finish_owned_job [OF kept assms(7)]
  have task: "job_task_name ?c = job_task_name q" "job_payload ?c = job_payload q" "job_id ?c = job_id q"
    "job_attempt_count ?c = job_attempt_count q + 1" "job_max_attempts ?c = job_max_attempts q"
    by (simp_all add: claimed_def)
  note runs = in_transaction_eq [OF t2(1), unfolded t2(2)]
  show ?thesis
  proof (cases "execute_task (job_task_name q) (job_payload q)")
    case (Inr result)
    let ?u = "update_row job_id (job_id q) (succeeded (tx_now tx2) result) t2"
    have "process_job PostgresJobQueue w ?c s1 =
        (JobSucceeded, s1\<lparr>qw_table := ?u, qw_time := Suc (qw_time s1)\<rparr>)"
      unfolding process_job_def task Inr postgres_ops sum.case
      by (subst runs [where f = "\<lambda>tx. mark_succeeded tx (job_id q) (w_id w) result", OF fin(1)]) simp
    moreover have "get_job_by_id (job_id q) ?u = Some (succeeded (tx_now tx2) result ?c)"
      by (simp add: get_update_row at2)
    ultimately show ?thesis
      using Inr by (simp add: turn task_verdict_def) (simp add: claimed_def succeeded_def same_work_def)
  next
    case (Inl e)
    let ?f = "failed (tx_now tx2) (task_error_text e) (\<not> is_task_handler_error e)
      (w_retry_base_delay w) (w_retry_max_delay w) ?c"
    have "process_job PostgresJobQueue w ?c s1 = (JobTransitioned (job_status ?f),
        s1\<lparr>qw_table := store_jobs [?f] t2, qw_time := Suc (qw_time s1)\<rparr>)"
      unfolding process_job_def record_failure_def task Inl postgres_ops sum.case
      by (subst runs [where f = "\<lambda>tx. mark_failed tx (job_id q) (w_id w) (task_error_text e)
          (\<not> is_task_handler_error e) (w_retry_base_delay w) (w_retry_max_delay w)", OF fin(2)]) simp
    moreover have "get_job_by_id (job_id q) (store_jobs [?f] t2) = Some ?f"
      by (simp add: get_store_one at2 claimed_def)
    moreover have "job_status ?f = (if should_retry_job (\<not> is_task_handler_error e)
        (job_attempt_count q + 1) (job_max_attempts q) then RETRY_SCHEDULED else DEAD_LETTERED)"
      using failed_status(1) by (simp only: task)
    ultimately show ?thesis
      using Inl by (simp add: turn task_verdict_def)
        (simp add: claimed_def failed_def same_work_def Let_def)
  qed
qed

theorem slot_finishes_best_job_witness:
  "\<exists>s' q'. slot_turn PostgresJobQueue demo_worker demo_queue_world = (Some JobSucceeded, s')
    \<and> get_job_by_id 7 (qw_table s') = Some q' \<and> job_status q' = SUCCEEDED"
proof -
  let ?q = "add_job 7 0 demo_job"
  have task: "execute_task (job_task_name ?q) (job_payload ?q) = Inr (JObj [(''echo'', JObj [(''n'', JInt 1)])])"
    by code_simp
  have "\<exists>s' q'. slot_turn PostgresJobQueue demo_worker demo_queue_world = (Some (task_verdict demo_worker ?q), s')
    \<and> get_job_by_id (job_id ?q) (qw_table s') = Some q' \<and> same_work ?q q'
    \<and> job_attempt_count q' = job_attempt_count ?q + 1
    \<and> (case execute_task (job_task_name ?q) (job_payload ?q) of
        Inr result \<Rightarrow> job_status q' = SUCCEEDED \<and> job_result q' = Some result
      | Inl e \<Rightarrow> task_verdict demo_worker ?q = JobTransitioned (job_status q')
          \<and> job_last_error q' = Some (take 4000 (task_error_text e)))"
    by (rule slot_finishes_best_job [where s = demo_queue_world and w = demo_worker,
          OF _ _ _ refl refl _ _ _ _ _ _ _ refl])
       (simp_all add: demo_queue_world_def demo_worker_def demo_reachable demo_timedelta,
        simp_all add: demo_queued_eq demo_tx_def, simp_all add: claimable_def add_job_def demo_job_def)
  then show ?thesis by (simp add: task task_verdict_def) (auto simp: add_job_def)
qed

section \<open>Payload errors\<close>

lemma echo_out_of_range:
  assumes "json_get ''delay_seconds'' p = Some (JInt i)" and "i < 0 \<or> 30 < i"
  shows "\<exists>e. execute_task ''echo'' p = Inl e \<and> is_task_handler_error e = (\<not> float_overflows i)"
proof -
  have "execute_task ''echo'' p = echo p" by (simp add: execute_task_def task_handlers_def)
  moreover have "\<not> in_delay_range (Finite i 0)" using assms(2) by (auto simp: in_delay_range_def)
  ultimately show ?thesis
    using assms(1) by (auto simp: echo_def processing_delay_def Let_def is_task_handler_error_def)
qed

text \<open>an integer delay outside 0 to 30 seconds makes an echo job fail for good, as an invalid payload
  should; but one too large for a float raises an OverflowError before the range check, which the
  worker takes for a temporary failure and retries until the attempts are used up.\<close>

theorem huge_delay_is_retried:
  assumes "job_reachable (qw_table s)" and "qw_others s (qw_time s) = []"
    and tx: "tx = qw_tx s (qw_time s)" and "tx_fault tx = NoFault"
    and row: "get_job_by_id (job_id j) (qw_table s) = Some j" "owned (job_id j) (w_id w) (tx_now tx) j"
    and "job_task_name j = ''echo''" and "json_get ''delay_seconds'' (job_payload j) = Some (JInt i)"
    and "i < 0 \<or> 30 < i"
  shows "fst (process_job PostgresJobQueue w j s) = JobTransitioned
    (if float_overflows i \<and> job_attempt_count j < job_max_attempts j then RETRY_SCHEDULED else DEAD_LETTERED)"
proof -
  from echo_out_of_range [OF assms(8,9)] obtain e where
    e: "execute_task (job_task_name j) (job_payload j) = Inl e" "is_task_handler_error e = (\<not> float_overflows i)"
    using assms(7) by auto
  have none: "run_queue_calls (qw_others s (qw_time s)) (qw_table s) = qw_table s"
    using assms(2) by (simp add: run_queue_calls_def)
  let ?fail = "\<lambda>tx. mark_failed tx (job_id j) (w_id w) (task_error_text e) (\<not> is_task_handler_error e)
    (w_retry_base_delay w) (w_retry_max_delay w)"
  note fin = finish_owned_job(2) [OF assms(1) row assms(4)]
  have "fst (process_job PostgresJobQueue w j s) = JobTransitioned (job_status
      (failed (tx_now tx) (task_error_text e) (\<not> is_task_handler_error e) (w_retry_base_delay w)
        (w_retry_max_delay w) j))"
    unfolding process_job_def record_failure_def e(1) sum.case postgres_ops
    by (subst in_transaction_eq [where f = ?fail, OF none fin [unfolded tx]]) (simp add: tx)
  then show ?thesis by (simp add: failed_status(1) should_retry_job_def e(2))
qed

definition huge_job :: job_create where
  "huge_job = demo_job\<lparr>jc_payload := JObj [(''delay_seconds'', JInt (2 ^ 1024))]\<rparr>"

lemma huge_reachable: "job_reachable [claimed ''w1'' 10 1010 (add_job 7 0 huge_job)]"
proof -
  have "valid_job_create huge_job" by code_simp
  then have q: "queue_run (demo_tx 0) (Submit 7 huge_job) [] = [add_job 7 0 huge_job]"
    using valid_check [of huge_job 7 0]
    by (simp add: create_job_endpoint_def create_job_def demo_tx_def
        create_or_get_idempotent_job_def database_step_def Let_def)
       (simp add: huge_job_def demo_job_def check_jsonb_def jsonb_text_def)
  then have r: "job_reachable [add_job 7 0 huge_job]"
    using job_reachable.step [OF job_reachable.start] job_step.intros [of "Submit 7 huge_job" "[]" "demo_tx 0"]
    by simp
  have c: "queue_run (demo_tx 10) (Claim ''w1'' [''default''] 1 (1 / 1000)) [add_job 7 0 huge_job]
      = [claimed ''w1'' 10 1010 (add_job 7 0 huge_job)]"
    by (simp add: claim_jobs_def select_jobs_def claimable_def demo_timedelta demo_tx_def
        store_jobs_def Let_def)
       (simp add: huge_job_def demo_job_def add_job_def check_job_def int4_def claimed_def)
  show ?thesis
    using job_reachable.step [OF r] job_step.intros [of "Claim ''w1'' [''default''] 1 (1 / 1000)"
        "[add_job 7 0 huge_job]" "demo_tx 10"] c by simp
qed

theorem huge_delay_is_retried_witness:
  "fst (process_job PostgresJobQueue demo_worker (claimed ''w1'' 10 1010 (add_job 7 0 huge_job))
      (demo_queue_world\<lparr>qw_table := [claimed ''w1'' 10 1010 (add_job 7 0 huge_job)]\<rparr>))
    = JobTransitioned RETRY_SCHEDULED"
proof -
  let ?j = "claimed ''w1'' 10 1010 (add_job 7 0 huge_job)"
  let ?s = "demo_queue_world\<lparr>qw_table := [?j]\<rparr>"
  have j: "owned 7 ''w1'' 10 ?j" "job_id ?j = 7" "job_task_name ?j = ''echo''"
    "json_get ''delay_seconds'' (job_payload ?j) = Some (JInt (2 ^ 1024))"
    "job_attempt_count ?j < job_max_attempts ?j"
    by (simp_all add: owned_def claimed_def add_job_def huge_job_def demo_job_def json_get_def)
  have big: "float_overflows (2 ^ 1024)" by (simp add: float_overflows_def)
  have s: "qw_table ?s = [?j]" "qw_others ?s (qw_time ?s) = []" "qw_tx ?s (qw_time ?s) = demo_tx 10"
    "w_id demo_worker = ''w1''" "tx_now (demo_tx 10) = 10" "tx_fault (demo_tx 10) = NoFault"
    by (simp_all add: demo_queue_world_def demo_worker_def demo_tx_def)
  have "fst (process_job PostgresJobQueue demo_worker ?j ?s) = JobTransitioned
      (if float_overflows (2 ^ 1024) \<and> job_attempt_count ?j < job_max_attempts ?j
       then RETRY_SCHEDULED else DEAD_LETTERED)"
    by (rule huge_delay_is_retried [OF _ s(2) s(3) [symmetric] s(6) _ _ j(3,4)])
       (use huge_reachable j(1,2) in \<open>simp_all only: s, simp_all add: get_job_by_id_def\<close>)
  then show ?thesis using big j(5) by simp
qed

section \<open>The queues of a worker\<close>

lemma split_comma_free: "CHR '','' \<notin> set s \<Longrightarrow> split_comma s = [s]"
  by (induction s) auto

lemma split_comma_append:
  "CHR '','' \<notin> set p \<Longrightarrow> split_comma (p @ CHR '','' # s) = p # split_comma s"
  by (induction p) auto

lemma split_comma_pieces: "p \<in> set (split_comma s) \<Longrightarrow> CHR '','' \<notin> set p"
  by (induction s arbitrary: p rule: split_comma.induct) (auto split: if_splits list.splits)

lemma split_comma_join:
  "names \<noteq> [] \<Longrightarrow> \<forall>q\<in>set names. CHR '','' \<notin> set q \<Longrightarrow> split_comma (join '','' names) = names"
  by (induction "'',''" names rule: join.induct) (auto simp: split_comma_free split_comma_append)

text \<open>the configured queue list is read back as it was written: a list of non-empty names without
  commas or surrounding blanks, joined by commas, gives exactly these queues in this order.\<close>

theorem queue_names_roundtrip:
  assumes "names \<noteq> []" and "\<forall>q\<in>set names. q \<noteq> [] \<and> CHR '','' \<notin> set q \<and> strip q = q"
  shows "worker_queue_names (c\<lparr>worker_queues := join '','' names\<rparr>) = names"
proof -
  have "map strip names = names" using assms(2) by (auto intro: map_idI)
  moreover have "filter (\<lambda>q. q \<noteq> []) names = names" using assms(2) by (auto simp: filter_id_conv)
  ultimately show ?thesis
    using assms split_comma_join [of names] by (simp add: worker_queue_names_def)
qed

definition demo_settings :: job_settings where
  "demo_settings = \<lparr>environment = ''development'', database_url = ''postgresql://jobs'',
     database_echo = False, database_pool_size = 5, database_max_overflow = 10,
     worker_queues = ''default'', worker_concurrency = 4,
     worker_poll_interval = 1, worker_retry_base_delay = 5, worker_retry_max_delay = 300,
     worker_lease_duration = 60, worker_heartbeat_interval = 15, worker_recovery_interval = 30,
     worker_metrics_port = 9101\<rparr>"

theorem queue_names_roundtrip_witness:
  "worker_queue_names (demo_settings\<lparr>worker_queues := join '','' [''email'', ''reports'']\<rparr>)
    = [''email'', ''reports'']"
  by (rule queue_names_roundtrip) (simp_all add: strip_def lstrip_def rstrip_def is_space_def)

end
