(* ===== verification/Obs_Model.thy ===== *)
theory Obs_Model
  imports Complex_Main Http_Types "HOL-Library.List_Lexorder" "HOL-Library.Char_ord"
begin

text \<open>
  The data of the observability platform (observability_platform/schemas and db/models.py): the
  registered services, telemetry, anomalies, incidents, correlations and trace spans, with the row
  constraints of their tables. A stored payload (\<open>model_dump\<close> of the item) is the item itself. A
  float is carried as the shortest decimal text that \<open>repr\<close> prints of it; comparing these decimals
  orders floats as comparing the doubles does.
\<close>

section \<open>Environments\<close>

datatype service_environment = DEVELOPMENT | TESTING | STAGING | PRODUCTION

definition environment_value :: "service_environment \<Rightarrow> string" where
  "environment_value e = (case e of DEVELOPMENT \<Rightarrow> ''development'' | TESTING \<Rightarrow> ''testing''
     | STAGING \<Rightarrow> ''staging'' | PRODUCTION \<Rightarrow> ''production'')"

lemma environment_value_inj: "environment_value e = environment_value f \<longleftrightarrow> e = f"
  by (cases e; cases f) (simp_all add: environment_value_def)

text \<open>Environments are stored by their text, so an \<open>ORDER BY environment\<close> is alphabetical.\<close>

instantiation service_environment :: linorder
begin

definition less_eq_service_environment :: "service_environment \<Rightarrow> service_environment \<Rightarrow> bool" where
  "e \<le> f \<longleftrightarrow> environment_value e \<le> environment_value f"

definition less_service_environment :: "service_environment \<Rightarrow> service_environment \<Rightarrow> bool" where
  "e < f \<longleftrightarrow> environment_value e < environment_value f"

instance
proof
  fix x y z :: service_environment
  show "x < y \<longleftrightarrow> x \<le> y \<and> \<not> y \<le> x"
    by (auto simp: less_eq_service_environment_def less_service_environment_def)
  show "x \<le> x" by (simp add: less_eq_service_environment_def)
  show "x \<le> z" if "x \<le> y" "y \<le> z"
    using that by (auto simp: less_eq_service_environment_def)
  show "x = y" if "x \<le> y" "y \<le> x"
    using that by (simp add: less_eq_service_environment_def flip: environment_value_inj)
  show "x \<le> y \<or> y \<le> x" by (auto simp: less_eq_service_environment_def)
qed

end

section \<open>Timestamps\<close>

text \<open>Pydantic accepts timestamps with and without a time zone. Python refuses to order the two kinds
  (\<open>TypeError\<close>), and the driver refuses a naive one for a \<open>timestamptz\<close> column.\<close>

datatype timestamp = Aware time | Naive time

definition later_than :: "timestamp \<Rightarrow> timestamp \<Rightarrow> bool option" where
  "later_than x y = (case (x, y) of (Aware a, Aware b) \<Rightarrow> Some (a > b)
     | (Naive a, Naive b) \<Rightarrow> Some (a > b) | _ \<Rightarrow> None)"

definition column_time :: "timestamp \<Rightarrow> db_error + time" where
  "column_time t = (case t of Aware a \<Rightarrow> Inr a | Naive _ \<Rightarrow> Inl DataError)"

section \<open>Telemetry items\<close>

datatype log_level = LOG_DEBUG | LOG_INFO | LOG_WARNING | LOG_ERROR | LOG_CRITICAL
datatype event_severity = EVENT_INFO | EVENT_WARNING | EVENT_ERROR | EVENT_CRITICAL

definition log_level_value :: "log_level \<Rightarrow> string" where
  "log_level_value l = (case l of LOG_DEBUG \<Rightarrow> ''debug'' | LOG_INFO \<Rightarrow> ''info''
     | LOG_WARNING \<Rightarrow> ''warning'' | LOG_ERROR \<Rightarrow> ''error'' | LOG_CRITICAL \<Rightarrow> ''critical'')"

definition event_severity_value :: "event_severity \<Rightarrow> string" where
  "event_severity_value s = (case s of EVENT_INFO \<Rightarrow> ''info'' | EVENT_WARNING \<Rightarrow> ''warning''
     | EVENT_ERROR \<Rightarrow> ''error'' | EVENT_CRITICAL \<Rightarrow> ''critical'')"

record telemetry_base =
  tb_service :: string
  tb_environment :: service_environment
  tb_source :: string
  tb_timestamp :: timestamp
  tb_attributes :: "(string \<times> json) list"

datatype telemetry_item =
    MetricTelemetry telemetry_base string string "string option"
  | LogTelemetry telemetry_base log_level string
  | EventTelemetry telemetry_base string event_severity "string option"

fun item_base :: "telemetry_item \<Rightarrow> telemetry_base" where
  "item_base (MetricTelemetry b n v u) = b"
| "item_base (LogTelemetry b l m) = b"
| "item_base (EventTelemetry b n s d) = b"

datatype telemetry_type = METRIC | LOG | EVENT

fun item_type :: "telemetry_item \<Rightarrow> telemetry_type" where
  "item_type (MetricTelemetry b n v u) = METRIC"
| "item_type (LogTelemetry b l m) = LOG"
| "item_type (EventTelemetry b n s d) = EVENT"

definition string_length :: "nat \<Rightarrow> nat \<Rightarrow> string \<Rightarrow> bool" where
  "string_length lo hi s \<longleftrightarrow> lo \<le> length s \<and> length s \<le> hi"

definition option_all :: "('a \<Rightarrow> bool) \<Rightarrow> 'a option \<Rightarrow> bool" where
  "option_all P x = (case x of None \<Rightarrow> True | Some a \<Rightarrow> P a)"

fun float_value :: "string \<Rightarrow> rat option" where
  "float_value s = (case parse_decimal s of
     Some (Finite c e) \<Rightarrow> Some (if 0 \<le> e then of_int c * 10 ^ nat e else of_int c / 10 ^ nat (- e))
   | _ \<Rightarrow> None)"

text \<open>\<open>str_strip_whitespace\<close> strips every string of the model, in the attributes too.\<close>

definition strip_scalar :: "json \<Rightarrow> json" where
  "strip_scalar j = (case j of JStr s \<Rightarrow> JStr (strip s) | _ \<Rightarrow> j)"

definition strip_base :: "telemetry_base \<Rightarrow> telemetry_base" where
  "strip_base b = b\<lparr>tb_service := strip (tb_service b), tb_source := strip (tb_source b),
     tb_attributes := map (\<lambda>(k, v). (strip k, strip_scalar v)) (tb_attributes b)\<rparr>"

fun strip_item :: "telemetry_item \<Rightarrow> telemetry_item" where
  "strip_item (MetricTelemetry b n v u) = MetricTelemetry (strip_base b) (strip n) v (map_option strip u)"
| "strip_item (LogTelemetry b l m) = LogTelemetry (strip_base b) l (strip m)"
| "strip_item (EventTelemetry b n s d) = EventTelemetry (strip_base b) (strip n) s (map_option strip d)"

definition scalar :: "json \<Rightarrow> bool" where
  "scalar j = (case j of JStr _ \<Rightarrow> True | JInt _ \<Rightarrow> True | JBool _ \<Rightarrow> True
     | JFloat s \<Rightarrow> float_value s \<noteq> None | _ \<Rightarrow> False)"

definition valid_base :: "telemetry_base \<Rightarrow> bool" where
  "valid_base b \<longleftrightarrow> string_length 1 100 (tb_service b) \<and> string_length 1 200 (tb_source b)
     \<and> list_all (\<lambda>kv. scalar (snd kv)) (tb_attributes b)"

fun valid_item :: "telemetry_item \<Rightarrow> bool" where
  "valid_item (MetricTelemetry b n v u) \<longleftrightarrow> valid_base b \<and> string_length 1 100 n
     \<and> float_value v \<noteq> None \<and> option_all (string_length 0 30) u"
| "valid_item (LogTelemetry b l m) \<longleftrightarrow> valid_base b \<and> string_length 1 5000 m"
| "valid_item (EventTelemetry b n s d) \<longleftrightarrow> valid_base b \<and> string_length 1 100 n
     \<and> option_all (string_length 0 2000) d"

definition validate_batch :: "telemetry_item list \<Rightarrow> telemetry_item list option" where
  "validate_batch items = (let items' = map strip_item items in
     if 1 \<le> length items' \<and> length items' \<le> 1000 \<and> list_all valid_item items' then Some items' else None)"

section \<open>Anomalies\<close>

datatype anomaly_category = METRIC_THRESHOLD | LOG_SEVERITY | EVENT_SEVERITY
datatype anomaly_severity = WARNING | CRITICAL

definition category_value :: "anomaly_category \<Rightarrow> string" where
  "category_value c = (case c of METRIC_THRESHOLD \<Rightarrow> ''metric_threshold''
     | LOG_SEVERITY \<Rightarrow> ''log_severity'' | EVENT_SEVERITY \<Rightarrow> ''event_severity'')"

record anomaly_finding =
  af_rule_id :: string
  af_category :: anomaly_category
  af_severity :: anomaly_severity
  af_title :: string
  af_description :: string
  af_service :: string
  af_environment :: service_environment
  af_source :: string
  af_observed_at :: timestamp
  af_observed_value :: json
  af_threshold :: json

section \<open>Tables\<close>

record monitored_service =
  ms_id :: uuid
  ms_name :: string
  ms_environment :: service_environment
  ms_description :: "string option"
  ms_created_at :: time
  ms_updated_at :: time

record telemetry_record =
  tr_id :: uuid
  tr_service_id :: uuid
  tr_type :: telemetry_type
  tr_source :: string
  tr_observed_at :: time
  tr_received_at :: time
  tr_payload :: telemetry_item

record anomaly_record =
  an_id :: uuid
  an_telemetry_id :: uuid
  an_rule_id :: string
  an_category :: anomaly_category
  an_severity :: anomaly_severity
  an_title :: string
  an_description :: string
  an_observed_value :: json
  an_threshold :: json
  an_detected_at :: time

datatype incident_status = OPEN | ACKNOWLEDGED | RESOLVED

definition incident_status_value :: "incident_status \<Rightarrow> string" where
  "incident_status_value s = (case s of OPEN \<Rightarrow> ''open'' | ACKNOWLEDGED \<Rightarrow> ''acknowledged''
     | RESOLVED \<Rightarrow> ''resolved'')"

record incident_record =
  in_id :: uuid
  in_service_id :: uuid
  in_trigger_anomaly_id :: uuid
  in_status :: incident_status
  in_severity :: anomaly_severity
  in_title :: string
  in_description :: string
  in_created_at :: time
  in_acknowledged_at :: "time option"
  in_acknowledged_by :: "string option"
  in_resolved_at :: "time option"
  in_resolved_by :: "string option"
  in_resolution_summary :: "string option"

datatype correlation_status = ACTIVE | CLOSED

text \<open>A confidence score counts hundredths.\<close>

record correlation_record =
  co_id :: uuid
  co_service_id :: uuid
  co_status :: correlation_status
  co_window_started_at :: time
  co_window_ended_at :: time
  co_root_cause_anomaly_id :: uuid
  co_root_cause_incident_id :: uuid
  co_root_cause_confidence :: int
  co_root_cause_reasons :: "string list"
  co_summary :: string
  co_created_at :: time
  co_updated_at :: time

record correlation_incident_record =
  ci_correlation_id :: uuid
  ci_incident_id :: uuid
  ci_added_at :: time

datatype span_status = SPAN_UNSET | SPAN_OK | SPAN_ERROR

record trace_span_record =
  sp_id :: uuid
  sp_service_id :: uuid
  sp_trace_id :: string
  sp_span_id :: string
  sp_parent_span_id :: "string option"
  sp_source :: string
  sp_operation :: string
  sp_status :: span_status
  sp_started_at :: time
  sp_ended_at :: time
  sp_duration_us :: int
  sp_attributes :: json
  sp_received_at :: time

record obs_db =
  services :: "monitored_service list"
  telemetry :: "telemetry_record list"
  anomalies :: "anomaly_record list"
  incidents :: "incident_record list"
  correlations :: "correlation_record list"
  correlation_incidents :: "correlation_incident_record list"
  spans :: "trace_span_record list"

definition empty_obs_db :: obs_db where
  "empty_obs_db = \<lparr>services = [], telemetry = [], anomalies = [], incidents = [], correlations = [],
     correlation_incidents = [], spans = []\<rparr>"

datatype obs_error =
    UnregisteredServiceError string
  | ServiceAlreadyExistsError
  | ServiceNotFoundError
  | IncidentNotFoundError uuid
  | InvalidIncidentTransitionError string
  | InvalidTimeRangeError string
  | TimestampTypeError
  | InsufficientIncidentsError string
  | CorrelationNotFoundError uuid
  | MixedTraceBatchError
  | DuplicateSpanError string
  | TraceNotFoundError string
  | MetricSamplesNotFoundError string
  | InconsistentMetricUnitError string
  | InvalidDashboardWindowError
  | ObsDatabaseError db_error

definition db_step :: "db_error + 'a \<Rightarrow> obs_error + 'a" where
  "db_step r = (case r of Inl e \<Rightarrow> Inl (ObsDatabaseError e) | Inr a \<Rightarrow> Inr a)"

lemma db_step_eq [result_simps]:
  "db_step r = Inr a \<longleftrightarrow> r = Inr a"
  "db_step r = Inl e \<longleftrightarrow> (\<exists>d. r = Inl d \<and> e = ObsDatabaseError d)"
  by (auto simp: db_step_def split: sum.splits)

lemma db_step_simps [simp]: "db_step (Inr a) = Inr a" "db_step (Inl d) = Inl (ObsDatabaseError d)"
  by (simp_all add: db_step_def)

end
