(* ===== verification/Obs_Detection.thy ===== *)
theory Obs_Detection
  imports Obs_Model
begin

text \<open>
  The two engines of the observability platform: the detection of anomalies in one telemetry item
  (services/anomaly_detection.py) and the ranking of root-cause candidates
  (services/root_cause_analysis.py). Scores are multiples of 0.05 rounded to two digits, so they
  are counted in hundredths, which is what the rounding of the float sum gives.
\<close>

section \<open>Anomaly rules\<close>

record metric_threshold_rule =
  mr_rule_id :: string
  mr_metric_name :: string
  mr_threshold :: string
  mr_unit :: string
  mr_severity :: anomaly_severity
  mr_title :: string

definition METRIC_RULES :: "metric_threshold_rule list" where
  "METRIC_RULES =
    [\<lparr>mr_rule_id = ''metric.cpu_usage.high'', mr_metric_name = ''cpu_usage'', mr_threshold = ''90.0'',
      mr_unit = ''percent'', mr_severity = CRITICAL, mr_title = ''High CPU usage''\<rparr>,
     \<lparr>mr_rule_id = ''metric.memory_usage.high'', mr_metric_name = ''memory_usage'', mr_threshold = ''90.0'',
      mr_unit = ''percent'', mr_severity = CRITICAL, mr_title = ''High memory usage''\<rparr>,
     \<lparr>mr_rule_id = ''metric.response_latency.high'', mr_metric_name = ''response_latency'',
      mr_threshold = ''500.0'', mr_unit = ''milliseconds'', mr_severity = WARNING,
      mr_title = ''High response latency''\<rparr>,
     \<lparr>mr_rule_id = ''metric.error_rate.high'', mr_metric_name = ''error_rate'', mr_threshold = ''5.0'',
      mr_unit = ''percent'', mr_severity = CRITICAL, mr_title = ''High error rate''\<rparr>]"

definition float_ge :: "string \<Rightarrow> string \<Rightarrow> bool" where
  "float_ge x y = (case (float_value x, float_value y) of (Some a, Some b) \<Rightarrow> b \<le> a | _ \<Rightarrow> False)"

definition finding_of :: "telemetry_base \<Rightarrow> string \<Rightarrow> anomaly_category \<Rightarrow> anomaly_severity \<Rightarrow> string \<Rightarrow>
    string \<Rightarrow> json \<Rightarrow> json \<Rightarrow> anomaly_finding" where
  "finding_of b rule category severity title description observed threshold =
     \<lparr>af_rule_id = rule, af_category = category, af_severity = severity, af_title = title,
      af_description = description, af_service = tb_service b, af_environment = tb_environment b,
      af_source = tb_source b, af_observed_at = tb_timestamp b, af_observed_value = observed,
      af_threshold = threshold\<rparr>"

definition rule_applies :: "string \<Rightarrow> string \<Rightarrow> string option \<Rightarrow> metric_threshold_rule \<Rightarrow> bool" where
  "rule_applies name val unit rule \<longleftrightarrow>
     name = mr_metric_name rule \<and> unit = Some (mr_unit rule) \<and> float_ge val (mr_threshold rule)"

definition evaluate_metric :: "telemetry_base \<Rightarrow> string \<Rightarrow> string \<Rightarrow> string option \<Rightarrow> anomaly_finding list" where
  "evaluate_metric b name val unit =
     map (\<lambda>rule. finding_of b (mr_rule_id rule) METRIC_THRESHOLD (mr_severity rule) (mr_title rule)
            (name @ '' reached '' @ val @ '' '' @ mr_unit rule @ ''; threshold is '' @ mr_threshold rule
               @ '' '' @ mr_unit rule)
            (JFloat val) (JFloat (mr_threshold rule)))
       (filter (rule_applies name val unit) METRIC_RULES)"

definition log_severity :: "log_level \<Rightarrow> (anomaly_severity \<times> string) option" where
  "log_severity l = (case l of LOG_ERROR \<Rightarrow> Some (WARNING, ''Error'')
     | LOG_CRITICAL \<Rightarrow> Some (CRITICAL, ''Critical'') | _ \<Rightarrow> None)"

definition evaluate_log :: "telemetry_base \<Rightarrow> log_level \<Rightarrow> string \<Rightarrow> anomaly_finding list" where
  "evaluate_log b l message = (case log_severity l of None \<Rightarrow> []
     | Some (severity, title) \<Rightarrow>
         [finding_of b (''log.level.'' @ log_level_value l) LOG_SEVERITY severity
            (title @ '' log detected'') message (JStr (log_level_value l)) (JStr ''error'')])"

definition event_title :: "event_severity \<Rightarrow> (anomaly_severity \<times> string) option" where
  "event_title s = (case s of EVENT_ERROR \<Rightarrow> Some (WARNING, ''Error'')
     | EVENT_CRITICAL \<Rightarrow> Some (CRITICAL, ''Critical'') | _ \<Rightarrow> None)"

text \<open>\<open>item.description or item.name\<close>: an empty description counts as missing.\<close>

definition evaluate_event :: "telemetry_base \<Rightarrow> string \<Rightarrow> event_severity \<Rightarrow> string option \<Rightarrow> anomaly_finding list" where
  "evaluate_event b name s description = (case event_title s of None \<Rightarrow> []
     | Some (severity, title) \<Rightarrow>
         [finding_of b (''event.severity.'' @ event_severity_value s) EVENT_SEVERITY severity
            (title @ '' event detected'')
            (case description of None \<Rightarrow> name | Some d \<Rightarrow> if d = [] then name else d)
            (JStr (event_severity_value s)) (JStr ''error'')])"

fun evaluate :: "telemetry_item \<Rightarrow> anomaly_finding list" where
  "evaluate (MetricTelemetry b n v u) = evaluate_metric b n v u"
| "evaluate (LogTelemetry b l m) = evaluate_log b l m"
| "evaluate (EventTelemetry b n s d) = evaluate_event b n s d"

text \<open>The rules name different metrics, so an item raises at most one anomaly.\<close>

lemma evaluate_at_most_one: "length (evaluate item) \<le> 1"
proof (cases item)
  case (MetricTelemetry b n v u)
  have "length (filter (rule_applies n v u) METRIC_RULES) \<le> 1"
    by (auto simp: METRIC_RULES_def rule_applies_def)
  then show ?thesis by (simp add: MetricTelemetry evaluate_metric_def)
qed (auto simp: evaluate_log_def evaluate_event_def split: option.splits)

lemma evaluate_identity:
  "f \<in> set (evaluate item) \<Longrightarrow> af_service f = tb_service (item_base item)
     \<and> af_environment f = tb_environment (item_base item) \<and> af_source f = tb_source (item_base item)
     \<and> af_observed_at f = tb_timestamp (item_base item)"
  by (cases item) (auto simp: evaluate_metric_def evaluate_log_def evaluate_event_def finding_of_def
      split: option.splits)

section \<open>Root causes\<close>

record correlation_signal =
  cs_anomaly_id :: uuid
  cs_incident_id :: uuid
  cs_rule_id :: string
  cs_category :: anomaly_category
  cs_severity :: anomaly_severity
  cs_source :: string
  cs_observed_at :: time

record root_cause_candidate =
  rc_anomaly_id :: uuid
  rc_incident_id :: uuid
  rc_rule_id :: string
  rc_category :: anomaly_category
  rc_severity :: anomaly_severity
  rc_source :: string
  rc_observed_at :: time
  rc_confidence_score :: int
  rc_reasons :: "string list"

definition category_score :: "anomaly_category \<Rightarrow> int" where
  "category_score c = (case c of EVENT_SEVERITY \<Rightarrow> 20 | LOG_SEVERITY \<Rightarrow> 10 | METRIC_THRESHOLD \<Rightarrow> 5)"

definition signal_score :: "time \<Rightarrow> nat \<Rightarrow> correlation_signal \<Rightarrow> int" where
  "signal_score earliest source_count s =
     min 100 (25 + (if cs_observed_at s = earliest then 25 else 0) + category_score (cs_category s)
       + (if cs_severity s = CRITICAL then 15 else 5) + (if source_count > 1 then 15 else 0))"

definition score_signal :: "time \<Rightarrow> nat \<Rightarrow> correlation_signal \<Rightarrow> root_cause_candidate" where
  "score_signal earliest source_count s =
     \<lparr>rc_anomaly_id = cs_anomaly_id s, rc_incident_id = cs_incident_id s, rc_rule_id = cs_rule_id s,
      rc_category = cs_category s, rc_severity = cs_severity s, rc_source = cs_source s,
      rc_observed_at = cs_observed_at s,
      rc_confidence_score = signal_score earliest source_count s,
      rc_reasons = [''Signal is part of the correlated incident window'']
        @ (if cs_observed_at s = earliest then [''Signal is the earliest observed anomaly''] else [])
        @ [''Category '' @ [char_of (39::nat)] @ category_value (cs_category s) @ [char_of (39::nat)]
             @ '' contributes causal weight'']
        @ [if cs_severity s = CRITICAL then ''Signal severity is critical'' else ''Signal severity is warning'']
        @ (if source_count > 1
           then [''Source appears in '' @ str_nat source_count @ '' correlated incidents''] else [])\<rparr>"

text \<open>\<open>min(candidates, key=...)\<close>: the first of the smallest.\<close>

definition candidate_key :: "root_cause_candidate \<Rightarrow> int \<times> time \<times> string" where
  "candidate_key c = (- rc_confidence_score c, rc_observed_at c, str_uuid (rc_anomaly_id c))"

definition earliest_observed_at :: "correlation_signal list \<Rightarrow> time" where
  "earliest_observed_at signals = Min (set (map cs_observed_at signals))"

definition source_count :: "correlation_signal list \<Rightarrow> string \<Rightarrow> nat" where
  "source_count signals source = length (filter (\<lambda>s. cs_source s = source) signals)"

fun first_min :: "('a \<Rightarrow> 'k::linorder) \<Rightarrow> 'a \<Rightarrow> 'a list \<Rightarrow> 'a" where
  "first_min key best [] = best"
| "first_min key best (x # xs) = first_min key (if key x < key best then x else best) xs"

definition analyze :: "correlation_signal list \<Rightarrow> root_cause_candidate option" where
  "analyze signals =
     (case map (\<lambda>s. score_signal (earliest_observed_at signals) (source_count signals (cs_source s)) s) signals of
        [] \<Rightarrow> None
      | c # cs \<Rightarrow> Some (first_min candidate_key c cs))"

lemma first_min_in: "first_min key best xs \<in> set (best # xs)"
  by (induction xs arbitrary: best) (auto split: if_splits)

lemma first_min_le: "y \<in> set (best # xs) \<Longrightarrow> key (first_min key best xs) \<le> key y"
proof (induction xs arbitrary: best y)
  case (Cons x xs)
  let ?b = "if key x < key best then x else best"
  have "key (first_min key ?b xs) \<le> key ?b" using Cons.IH [of ?b ?b] by (cases xs) simp_all
  moreover have "key ?b \<le> key best \<and> key ?b \<le> key x" by auto
  ultimately show ?case using Cons.IH [of y ?b] Cons.prems by fastforce
qed simp

lemma signal_score_bounds: "35 \<le> signal_score e n s \<and> signal_score e n s \<le> 100"
  by (cases "cs_category s") (auto simp: signal_score_def category_score_def)

lemma analyze_candidates:
  assumes "analyze signals = Some c"
  shows "\<exists>s\<in>set signals. c = score_signal (earliest_observed_at signals) (source_count signals (cs_source s)) s"
    and "s \<in> set signals \<Longrightarrow> candidate_key c \<le> candidate_key
      (score_signal (earliest_observed_at signals) (source_count signals (cs_source s)) s)"
proof -
  let ?f = "\<lambda>s. score_signal (earliest_observed_at signals) (source_count signals (cs_source s)) s"
  obtain x xs where l: "map ?f signals = x # xs" "c = first_min candidate_key x xs"
    using assms by (auto simp: analyze_def split: list.splits)
  then have "c \<in> set (map ?f signals)" using first_min_in [of candidate_key x xs] by simp
  then show "\<exists>s\<in>set signals. c = ?f s" by auto
  assume "s \<in> set signals"
  then have "?f s \<in> set (x # xs)" unfolding l(1) [symmetric] by simp
  then show "candidate_key c \<le> candidate_key (?f s)"
    unfolding l(2) by (rule first_min_le)
qed

lemma analyze_Nil [simp]: "analyze [] = None"
  by (simp add: analyze_def)

lemma analyze_None [simp]: "analyze signals = None \<longleftrightarrow> signals = []"
  by (cases signals) (simp_all add: analyze_def)

end
