(* ===== verification/Obs_Ingest.thy ===== *)
theory Obs_Ingest
  imports Obs_Detection
begin

text \<open>
  The service registry (services/service_registry.py, api/routes/services.py), the ingestion of
  telemetry with the detection of anomalies and the creation of incidents in one transaction
  (services/persistent_telemetry_service.py), and the queries of stored telemetry and anomalies.
\<close>

section \<open>The registry\<close>

definition get_by_identity :: "obs_db \<Rightarrow> string \<Rightarrow> service_environment \<Rightarrow> monitored_service option" where
  "get_by_identity db name environment =
     find (\<lambda>s. ms_name s = name \<and> ms_environment s = environment) (services db)"

record service_create =
  sc_name :: string
  sc_environment :: service_environment
  sc_description :: "string option"

definition validate_service_create :: "service_create \<Rightarrow> service_create option" where
  "validate_service_create d =
     (let d' = d\<lparr>sc_name := strip (sc_name d), sc_description := map_option strip (sc_description d)\<rparr>
      in if string_length 1 100 (sc_name d') \<and> option_all (string_length 0 2000) (sc_description d')
         then Some d' else None)"

definition identity_free :: "obs_db \<Rightarrow> string \<Rightarrow> service_environment \<Rightarrow> bool" where
  "identity_free db name environment \<longleftrightarrow>
     (\<forall>s\<in>set (services db). \<not> (ms_name s = name \<and> ms_environment s = environment))"

text \<open>An \<open>IntegrityError\<close> of the insert or the commit is reported as a conflict too.\<close>

definition conflict_on_integrity :: "db_error + 'a \<Rightarrow> obs_error + 'a" where
  "conflict_on_integrity r = (case r of Inr a \<Rightarrow> Inr a
     | Inl IntegrityError \<Rightarrow> Inl ServiceAlreadyExistsError | Inl e \<Rightarrow> Inl (ObsDatabaseError e))"

definition register :: "env \<Rightarrow> obs_db \<Rightarrow> service_create \<Rightarrow> (obs_error + monitored_service) \<times> obs_db" where
  "register env db d =
     transaction db (
       if get_by_identity db (sc_name d) (sc_environment d) \<noteq> None then Inl ServiceAlreadyExistsError
       else let s = \<lparr>ms_id = env_ids env 0, ms_name = sc_name d, ms_environment = sc_environment d,
                     ms_description = sc_description d, ms_created_at = env_now env,
                     ms_updated_at = env_now env\<rparr>
            in rbind (conflict_on_integrity (rbind (flush_fault env) (\<lambda>_.
                 rbind (ensure (identity_free db (sc_name d) (sc_environment d)) IntegrityError) (\<lambda>_.
                 commit_fault env)))) (\<lambda>_. Inr (s, db\<lparr>services := services db @ [s]\<rparr>)))"

definition get_service :: "obs_db \<Rightarrow> uuid \<Rightarrow> obs_error + monitored_service" where
  "get_service db i = of_option ServiceNotFoundError (find (\<lambda>s. ms_id s = i) (services db))"

text \<open>\<open>ORDER BY environment, name\<close>.\<close>

definition list_services :: "obs_db \<Rightarrow> nat \<Rightarrow> nat \<Rightarrow> monitored_service list \<times> nat" where
  "list_services db offset limit =
     (page offset limit (sort_key (\<lambda>s. (ms_environment s, ms_name s)) (services db)),
      length (services db))"

definition register_service_endpoint :: "env \<Rightarrow> obs_db \<Rightarrow> service_create \<Rightarrow>
    monitored_service endpoint_result \<times> obs_db" where
  "register_service_endpoint env db d = (case validate_service_create d of
      None \<Rightarrow> (unprocessable, db)
    | Some d' \<Rightarrow> (case register env db d' of
          (Inr s, db') \<Rightarrow> (Reply 201 s, db')
        | (Inl ServiceAlreadyExistsError, db') \<Rightarrow> (HTTPException 409
            (JStr ''A service with this name and environment already exists''), db')
        | (Inl _, db') \<Rightarrow> (server_error, db')))"

definition get_service_endpoint :: "obs_db \<Rightarrow> uuid \<Rightarrow> monitored_service endpoint_result" where
  "get_service_endpoint db i = (case get_service db i of Inr s \<Rightarrow> Reply 200 s
     | Inl _ \<Rightarrow> HTTPException 404 (JStr ''Monitored service was not found''))"

definition list_services_endpoint :: "obs_db \<Rightarrow> int \<Rightarrow> int \<Rightarrow>
    (monitored_service list \<times> nat) endpoint_result" where
  "list_services_endpoint db offset limit =
     (if 0 \<le> offset \<and> 1 \<le> limit \<and> limit \<le> 100
      then Reply 200 (list_services db (nat offset) (nat limit)) else unprocessable)"

section \<open>Ingestion\<close>

definition quoted :: "string \<Rightarrow> string" where
  "quoted s = [char_of (39::nat)] @ s @ [char_of (39::nat)]"

definition unregistered_text :: "string \<Rightarrow> service_environment \<Rightarrow> string" where
  "unregistered_text name environment =
     ''Service '' @ quoted name @ '' is not registered in environment '' @ quoted (environment_value environment)"

text \<open>The services of a batch are looked up once per identity; both ingestion services resolve their
  items with this loop.\<close>

type_synonym service_cache = "((string \<times> service_environment) \<times> uuid) list"

fun resolve :: "('a \<Rightarrow> string \<times> service_environment) \<Rightarrow> obs_db \<Rightarrow> service_cache \<Rightarrow> 'a list \<Rightarrow>
    obs_error + ('a \<times> uuid) list" where
  "resolve ident db cache [] = Inr []"
| "resolve ident db cache (x # xs) =
     (case map_of cache (ident x) of
        Some i \<Rightarrow> rbind (resolve ident db cache xs) (\<lambda>rest. Inr ((x, i) # rest))
      | None \<Rightarrow> (case get_by_identity db (fst (ident x)) (snd (ident x)) of
            None \<Rightarrow> Inl (UnregisteredServiceError (unregistered_text (fst (ident x)) (snd (ident x))))
          | Some s \<Rightarrow> rbind (resolve ident db ((ident x, ms_id s) # cache) xs)
              (\<lambda>rest. Inr ((x, ms_id s) # rest))))"

definition item_identity :: "telemetry_item \<Rightarrow> string \<times> service_environment" where
  "item_identity item = (tb_service (item_base item), tb_environment (item_base item))"

definition telemetry_row :: "uuid \<Rightarrow> time \<Rightarrow> telemetry_item \<times> uuid \<Rightarrow> db_error + telemetry_record" where
  "telemetry_row i received_at x =
     rbind (column_time (tb_timestamp (item_base (fst x)))) (\<lambda>observed_at.
       Inr \<lparr>tr_id = i, tr_service_id = snd x, tr_type = item_type (fst x),
            tr_source = tb_source (item_base (fst x)), tr_observed_at = observed_at,
            tr_received_at = received_at, tr_payload = fst x\<rparr>)"

text \<open>Each new row takes the next identifier.\<close>

fun telemetry_rows :: "(nat \<Rightarrow> uuid) \<Rightarrow> nat \<Rightarrow> time \<Rightarrow> (telemetry_item \<times> uuid) list \<Rightarrow>
    db_error + telemetry_record list" where
  "telemetry_rows ids n received_at [] = Inr []"
| "telemetry_rows ids n received_at (x # xs) = rbind (telemetry_row (ids n) received_at x) (\<lambda>r.
     rbind (telemetry_rows ids (Suc n) received_at xs) (\<lambda>rs. Inr (r # rs)))"

definition findings_of :: "telemetry_record list \<Rightarrow> (anomaly_finding \<times> telemetry_record) list" where
  "findings_of records = concat (map (\<lambda>r. map (\<lambda>f. (f, r)) (evaluate (tr_payload r))) records)"

definition anomaly_row :: "uuid \<Rightarrow> time \<Rightarrow> anomaly_finding \<times> telemetry_record \<Rightarrow> anomaly_record" where
  "anomaly_row i detected_at x =
     \<lparr>an_id = i, an_telemetry_id = tr_id (snd x), an_rule_id = af_rule_id (fst x),
      an_category = af_category (fst x), an_severity = af_severity (fst x), an_title = af_title (fst x),
      an_description = af_description (fst x), an_observed_value = af_observed_value (fst x),
      an_threshold = af_threshold (fst x), an_detected_at = detected_at\<rparr>"

definition anomaly_rows :: "(nat \<Rightarrow> uuid) \<Rightarrow> nat \<Rightarrow> time \<Rightarrow> (anomaly_finding \<times> telemetry_record) list \<Rightarrow>
    (anomaly_record \<times> telemetry_record) list" where
  "anomaly_rows ids n detected_at xs =
     map (\<lambda>(k, x). (anomaly_row (ids k) detected_at x, snd x)) (enumerate n xs)"

definition incident_row :: "uuid \<Rightarrow> time \<Rightarrow> anomaly_record \<times> telemetry_record \<Rightarrow> incident_record" where
  "incident_row i created_at x =
     \<lparr>in_id = i, in_service_id = tr_service_id (snd x), in_trigger_anomaly_id = an_id (fst x),
      in_status = OPEN, in_severity = an_severity (fst x),
      in_title = ''Incident: '' @ an_title (fst x), in_description = an_description (fst x),
      in_created_at = created_at, in_acknowledged_at = None, in_acknowledged_by = None,
      in_resolved_at = None, in_resolved_by = None, in_resolution_summary = None\<rparr>"

definition incident_rows :: "(nat \<Rightarrow> uuid) \<Rightarrow> nat \<Rightarrow> time \<Rightarrow> (anomaly_record \<times> telemetry_record) list \<Rightarrow>
    incident_record list" where
  "incident_rows ids n created_at xs =
     map (\<lambda>(k, x). incident_row (ids k) created_at x)
       (enumerate n (filter (\<lambda>x. an_severity (fst x) = CRITICAL) xs))"

record ingest_response =
  ir_telemetry_ids :: "uuid list"
  ir_received_at :: time
  ir_anomaly_ids :: "uuid list"
  ir_incident_ids :: "uuid list"

definition ingest :: "env \<Rightarrow> obs_db \<Rightarrow> telemetry_item list \<Rightarrow> (obs_error + ingest_response) \<times> obs_db" where
  "ingest env db batch =
     transaction db (
       rbind (resolve item_identity db [] batch) (\<lambda>resolved.
       rbind (db_step (rbind (telemetry_rows (env_ids env) 0 (env_now env) resolved) (\<lambda>records.
                       rbind (flush_fault env) (\<lambda>_. rbind (commit_fault env) (\<lambda>_. Inr records)))))
         (\<lambda>records.
         let found = anomaly_rows (env_ids env) (length records) (env_now env) (findings_of records);
             opened = incident_rows (env_ids env) (length records + length found) (env_now env) found
         in Inr (\<lparr>ir_telemetry_ids = map tr_id records, ir_received_at = env_now env,
                  ir_anomaly_ids = map (an_id \<circ> fst) found, ir_incident_ids = map in_id opened\<rparr>,
                 db\<lparr>telemetry := telemetry db @ records, anomalies := anomalies db @ map fst found,
                    incidents := incidents db @ opened\<rparr>))))"

definition ingest_telemetry_endpoint :: "env \<Rightarrow> obs_db \<Rightarrow> telemetry_item list \<Rightarrow>
    ingest_response endpoint_result \<times> obs_db" where
  "ingest_telemetry_endpoint env db body = (case validate_batch body of
      None \<Rightarrow> (unprocessable, db)
    | Some batch \<Rightarrow> (case ingest env db batch of
          (Inr r, db') \<Rightarrow> (Reply 202 r, db')
        | (Inl (UnregisteredServiceError s), db') \<Rightarrow> (HTTPException 422 (JStr s), db')
        | (Inl _, db') \<Rightarrow> (server_error, db')))"

section \<open>Queries\<close>

text \<open>The optional bounds of a time range: a reversed range is refused, a mixed one is a \<open>TypeError\<close>,
  and the database refuses a naive bound.\<close>

definition check_range :: "string \<Rightarrow> timestamp option \<Rightarrow> timestamp option \<Rightarrow> obs_error + unit" where
  "check_range message lo hi = (case (lo, hi) of
      (Some a, Some b) \<Rightarrow> (case later_than a b of
          None \<Rightarrow> Inl TimestampTypeError
        | Some late \<Rightarrow> ensure (\<not> late) (InvalidTimeRangeError message))
    | _ \<Rightarrow> Inr ())"

definition bound_time :: "timestamp option \<Rightarrow> obs_error + time option" where
  "bound_time t = (case t of None \<Rightarrow> Inr None
     | Some x \<Rightarrow> rbind (db_step (column_time x)) (\<lambda>a. Inr (Some a)))"

definition in_range :: "time option \<Rightarrow> time option \<Rightarrow> time \<Rightarrow> bool" where
  "in_range lo hi t \<longleftrightarrow> option_all (\<lambda>a. a \<le> t) lo \<and> option_all (\<lambda>b. t \<le> b) hi"

text \<open>\<open>JOIN monitored_services ON id = service_id\<close>.\<close>

definition service_of :: "obs_db \<Rightarrow> uuid \<Rightarrow> monitored_service option" where
  "service_of db i = find (\<lambda>s. ms_id s = i) (services db)"

definition join_service :: "obs_db \<Rightarrow> ('r \<Rightarrow> uuid) \<Rightarrow> 'r list \<Rightarrow> ('r \<times> monitored_service) list" where
  "join_service db key rows =
     List.map_filter (\<lambda>r. map_option (\<lambda>s. (r, s)) (service_of db (key r))) rows"

text \<open>A page of the matching rows, newest first, with their number.\<close>

definition select_telemetry :: "obs_db \<Rightarrow> string option \<Rightarrow> service_environment option \<Rightarrow>
    telemetry_type option \<Rightarrow> string option \<Rightarrow> time option \<Rightarrow> time option \<Rightarrow> nat \<Rightarrow> nat \<Rightarrow>
    (telemetry_record \<times> monitored_service) list \<times> nat" where
  "select_telemetry db service environment kind source lo hi limit offset =
     (let rows = filter (\<lambda>(r, s). matches service (ms_name s) \<and> matches environment (ms_environment s)
                   \<and> matches kind (tr_type r) \<and> matches source (tr_source r)
                   \<and> in_range lo hi (tr_observed_at r)) (join_service db tr_service_id (telemetry db))
      in (page offset limit (sort_key (\<lambda>(r, s). (- tr_observed_at r, - uint (tr_id r))) rows), length rows))"

definition telemetry_query :: "obs_db \<Rightarrow> string option \<Rightarrow> service_environment option \<Rightarrow>
    telemetry_type option \<Rightarrow> string option \<Rightarrow> timestamp option \<Rightarrow> timestamp option \<Rightarrow> nat \<Rightarrow> nat \<Rightarrow>
    obs_error + (telemetry_record \<times> monitored_service) list \<times> nat" where
  "telemetry_query db service environment kind source observed_from observed_to limit offset =
     rbind (check_range ''observed_from must be earlier than or equal to observed_to''
              observed_from observed_to) (\<lambda>_.
     rbind (bound_time observed_from) (\<lambda>lo. rbind (bound_time observed_to) (\<lambda>hi.
       Inr (select_telemetry db service environment kind source lo hi limit offset))))"

definition join_telemetry :: "obs_db \<Rightarrow> anomaly_record list \<Rightarrow>
    (anomaly_record \<times> telemetry_record \<times> monitored_service) list" where
  "join_telemetry db rows = List.map_filter (\<lambda>a.
     case find (\<lambda>r. tr_id r = an_telemetry_id a) (telemetry db) of None \<Rightarrow> None
     | Some r \<Rightarrow> map_option (\<lambda>s. (a, r, s)) (service_of db (tr_service_id r))) rows"

definition select_anomalies :: "obs_db \<Rightarrow> string option \<Rightarrow> service_environment option \<Rightarrow>
    anomaly_category option \<Rightarrow> anomaly_severity option \<Rightarrow> string option \<Rightarrow> time option \<Rightarrow> time option \<Rightarrow>
    nat \<Rightarrow> nat \<Rightarrow> (anomaly_record \<times> telemetry_record \<times> monitored_service) list \<times> nat" where
  "select_anomalies db service environment category severity rule_id lo hi limit offset =
     (let rows = filter (\<lambda>(a, r, s). matches service (ms_name s) \<and> matches environment (ms_environment s)
                   \<and> matches category (an_category a) \<and> matches severity (an_severity a)
                   \<and> matches rule_id (an_rule_id a) \<and> in_range lo hi (an_detected_at a))
                 (join_telemetry db (anomalies db))
      in (page offset limit (sort_key (\<lambda>(a, r, s). (- an_detected_at a, - uint (an_id a))) rows), length rows))"

definition anomaly_query :: "obs_db \<Rightarrow> string option \<Rightarrow> service_environment option \<Rightarrow>
    anomaly_category option \<Rightarrow> anomaly_severity option \<Rightarrow> string option \<Rightarrow> timestamp option \<Rightarrow>
    timestamp option \<Rightarrow> nat \<Rightarrow> nat \<Rightarrow>
    obs_error + (anomaly_record \<times> telemetry_record \<times> monitored_service) list \<times> nat" where
  "anomaly_query db service environment category severity rule_id detected_from detected_to limit offset =
     rbind (check_range ''detected_from must be earlier than or equal to detected_to''
              detected_from detected_to) (\<lambda>_.
     rbind (bound_time detected_from) (\<lambda>lo. rbind (bound_time detected_to) (\<lambda>hi.
       Inr (select_anomalies db service environment category severity rule_id lo hi limit offset))))"

text \<open>The query endpoints: bad parameters are refused before the service runs, a reversed range is a
  422, anything else a 500.\<close>

definition query_result :: "nat \<Rightarrow> (obs_error + 'a) \<Rightarrow> 'a endpoint_result" where
  "query_result code r = (case r of Inr a \<Rightarrow> Reply code a
     | Inl (InvalidTimeRangeError s) \<Rightarrow> HTTPException 422 (JStr s) | Inl _ \<Rightarrow> server_error)"

definition valid_page :: "int \<Rightarrow> int \<Rightarrow> bool" where
  "valid_page limit offset \<longleftrightarrow> 1 \<le> limit \<and> limit \<le> 100 \<and> 0 \<le> offset"

definition query_telemetry_endpoint :: "obs_db \<Rightarrow> string option \<Rightarrow> service_environment option \<Rightarrow>
    telemetry_type option \<Rightarrow> string option \<Rightarrow> timestamp option \<Rightarrow> timestamp option \<Rightarrow> int \<Rightarrow> int \<Rightarrow>
    ((telemetry_record \<times> monitored_service) list \<times> nat) endpoint_result" where
  "query_telemetry_endpoint db service environment kind source observed_from observed_to limit offset =
     (if option_all (string_length 1 100) service \<and> option_all (string_length 1 200) source
       \<and> valid_page limit offset
      then query_result 200 (telemetry_query db service environment kind source observed_from
             observed_to (nat limit) (nat offset))
      else unprocessable)"

definition query_anomalies_endpoint :: "obs_db \<Rightarrow> string option \<Rightarrow> service_environment option \<Rightarrow>
    anomaly_category option \<Rightarrow> anomaly_severity option \<Rightarrow> string option \<Rightarrow> timestamp option \<Rightarrow>
    timestamp option \<Rightarrow> int \<Rightarrow> int \<Rightarrow>
    ((anomaly_record \<times> telemetry_record \<times> monitored_service) list \<times> nat) endpoint_result" where
  "query_anomalies_endpoint db service environment category severity rule_id detected_from detected_to
      limit offset =
     (if option_all (string_length 1 100) service \<and> option_all (string_length 1 100) rule_id
       \<and> valid_page limit offset
      then query_result 200 (anomaly_query db service environment category severity rule_id
             detected_from detected_to (nat limit) (nat offset))
      else unprocessable)"

end
