(* ===== verification/Obs_Incidents.thy ===== *)
theory Obs_Incidents
  imports Obs_Ingest
begin

text \<open>
  The life of an incident (services/incident_service.py, repositories/incident_repository.py,
  api/routes/incidents.py) and the correlation of incidents (services/correlation_service.py,
  services/correlation_query_service.py, repositories/correlation_repository.py,
  api/routes/correlations.py). A change of an incident reads the row, checks it, and writes the
  changed columns by identifier; nothing locks the row in between, so the read and the write are
  two steps that other requests may interleave with.
\<close>

section \<open>Incidents\<close>

definition incident_by_id :: "obs_db \<Rightarrow> uuid \<Rightarrow> (incident_record \<times> monitored_service) option" where
  "incident_by_id db i = (case find (\<lambda>r. in_id r = i) (incidents db) of None \<Rightarrow> None
     | Some r \<Rightarrow> map_option (\<lambda>s. (r, s)) (service_of db (in_service_id r)))"

definition get_incident :: "obs_db \<Rightarrow> uuid \<Rightarrow> obs_error + incident_record \<times> monitored_service" where
  "get_incident db i = of_option (IncidentNotFoundError i) (incident_by_id db i)"

definition select_incidents :: "obs_db \<Rightarrow> string option \<Rightarrow> service_environment option \<Rightarrow>
    incident_status option \<Rightarrow> anomaly_severity option \<Rightarrow> time option \<Rightarrow> time option \<Rightarrow> nat \<Rightarrow> nat \<Rightarrow>
    (incident_record \<times> monitored_service) list \<times> nat" where
  "select_incidents db service environment status severity lo hi limit offset =
     (let rows = filter (\<lambda>(r, s). matches service (ms_name s) \<and> matches environment (ms_environment s)
                   \<and> matches status (in_status r) \<and> matches severity (in_severity r)
                   \<and> in_range lo hi (in_created_at r)) (join_service db in_service_id (incidents db))
      in (page offset limit (sort_key (\<lambda>(r, s). (- in_created_at r, - uint (in_id r))) rows), length rows))"

definition incident_query :: "obs_db \<Rightarrow> string option \<Rightarrow> service_environment option \<Rightarrow>
    incident_status option \<Rightarrow> anomaly_severity option \<Rightarrow> timestamp option \<Rightarrow> timestamp option \<Rightarrow>
    nat \<Rightarrow> nat \<Rightarrow> obs_error + (incident_record \<times> monitored_service) list \<times> nat" where
  "incident_query db service environment status severity created_from created_to limit offset =
     rbind (check_range ''created_from must be earlier than or equal to created_to''
              created_from created_to) (\<lambda>_.
     rbind (bound_time created_from) (\<lambda>lo. rbind (bound_time created_to) (\<lambda>hi.
       Inr (select_incidents db service environment status severity lo hi limit offset))))"

text \<open>The columns a request changes, decided on the row it read.\<close>

datatype incident_change =
    Acknowledge string
  | Resolve string string

definition valid_change :: "incident_change \<Rightarrow> incident_change option" where
  "valid_change c = (case c of
      Acknowledge who \<Rightarrow> if string_length 1 100 (strip who) then Some (Acknowledge (strip who)) else None
    | Resolve who summary \<Rightarrow>
        if string_length 1 100 (strip who) \<and> string_length 1 2000 (strip summary)
        then Some (Resolve (strip who) (strip summary)) else None)"

definition change_allowed :: "incident_change \<Rightarrow> incident_record \<Rightarrow> obs_error + unit" where
  "change_allowed c r = (case c of
      Acknowledge _ \<Rightarrow> ensure (in_status r = OPEN) (InvalidIncidentTransitionError
        (''Incident in status '' @ quoted (incident_status_value (in_status r)) @ '' cannot be acknowledged''))
    | Resolve _ _ \<Rightarrow> ensure (in_status r \<noteq> RESOLVED) (InvalidIncidentTransitionError
        ''Resolved incident cannot be resolved again''))"

definition changed :: "incident_change \<Rightarrow> time \<Rightarrow> incident_record \<Rightarrow> incident_record" where
  "changed c now r = (case c of
      Acknowledge who \<Rightarrow> r\<lparr>in_status := ACKNOWLEDGED, in_acknowledged_at := Some now,
        in_acknowledged_by := Some who\<rparr>
    | Resolve who summary \<Rightarrow> r\<lparr>in_status := RESOLVED, in_resolved_at := Some now,
        in_resolved_by := Some who, in_resolution_summary := Some summary\<rparr>)"

text \<open>\<open>_get_record\<close> with the check, then \<open>save\<close> and \<open>commit\<close>. A row that is gone at the flush is
  a \<open>StaleDataError\<close>.\<close>

definition read_incident :: "obs_db \<Rightarrow> uuid \<Rightarrow> incident_change \<Rightarrow>
    obs_error + incident_record \<times> monitored_service" where
  "read_incident db i c = rbind (get_incident db i) (\<lambda>(r, s).
     rbind (change_allowed c r) (\<lambda>_. Inr (r, s)))"

definition write_incident :: "env \<Rightarrow> obs_db \<Rightarrow> uuid \<Rightarrow> incident_change \<Rightarrow>
    (obs_error + incident_record) \<times> obs_db" where
  "write_incident env db i c =
     (let db' = db\<lparr>incidents := update_row in_id i (changed c (env_now env)) (incidents db)\<rparr>
      in transaction db (
        rbind (db_step (rbind (flush_fault env) (\<lambda>_. commit_fault env))) (\<lambda>_.
        rbind (of_option (ObsDatabaseError OperationalError) (find (\<lambda>r. in_id r = i) (incidents db')))
          (\<lambda>r. Inr (r, db')))))"

definition change_incident :: "env \<Rightarrow> obs_db \<Rightarrow> uuid \<Rightarrow> incident_change \<Rightarrow>
    (obs_error + incident_record) \<times> obs_db" where
  "change_incident env db i c = (case read_incident db i c of
      Inl e \<Rightarrow> (Inl e, db)
    | Inr _ \<Rightarrow> write_incident env db i c)"

definition incident_result :: "nat \<Rightarrow> (obs_error + 'a) \<times> obs_db \<Rightarrow> 'a endpoint_result \<times> obs_db" where
  "incident_result code x = (case x of
      (Inr a, db) \<Rightarrow> (Reply code a, db)
    | (Inl (IncidentNotFoundError i), db) \<Rightarrow>
        (HTTPException 404 (JStr (''Incident '' @ quoted (str_uuid i) @ '' was not found'')), db)
    | (Inl (InvalidIncidentTransitionError s), db) \<Rightarrow> (HTTPException 409 (JStr s), db)
    | (Inl _, db) \<Rightarrow> (server_error, db))"

definition get_incident_endpoint :: "obs_db \<Rightarrow> uuid \<Rightarrow>
    (incident_record \<times> monitored_service) endpoint_result" where
  "get_incident_endpoint db i = fst (incident_result 200 (get_incident db i, db))"

definition change_incident_endpoint :: "env \<Rightarrow> obs_db \<Rightarrow> uuid \<Rightarrow> incident_change \<Rightarrow>
    incident_record endpoint_result \<times> obs_db" where
  "change_incident_endpoint env db i c = (case valid_change c of
      None \<Rightarrow> (unprocessable, db)
    | Some c' \<Rightarrow> incident_result 200 (change_incident env db i c'))"

definition query_incidents_endpoint :: "obs_db \<Rightarrow> string option \<Rightarrow> service_environment option \<Rightarrow>
    incident_status option \<Rightarrow> anomaly_severity option \<Rightarrow> timestamp option \<Rightarrow> timestamp option \<Rightarrow>
    int \<Rightarrow> int \<Rightarrow> ((incident_record \<times> monitored_service) list \<times> nat) endpoint_result" where
  "query_incidents_endpoint db service environment status severity created_from created_to limit offset =
     (if option_all (string_length 1 100) service \<and> valid_page limit offset
      then query_result 200 (incident_query db service environment status severity created_from
             created_to (nat limit) (nat offset))
      else unprocessable)"

section \<open>Correlations\<close>

record analyze_request =
  ar_service :: string
  ar_environment :: service_environment
  ar_window_minutes :: int
  ar_minimum_incidents :: int

definition validate_analyze_request :: "analyze_request \<Rightarrow> analyze_request option" where
  "validate_analyze_request q =
     (let q' = q\<lparr>ar_service := strip (ar_service q)\<rparr>
      in if string_length 1 100 (ar_service q') \<and> 1 \<le> ar_window_minutes q' \<and> ar_window_minutes q' \<le> 1440
          \<and> 2 \<le> ar_minimum_incidents q' \<and> ar_minimum_incidents q' \<le> 100
         then Some q' else None)"

type_synonym correlation_row = "incident_record \<times> anomaly_record \<times> telemetry_record \<times> monitored_service"

definition join_incident :: "obs_db \<Rightarrow> incident_record \<Rightarrow> correlation_row option" where
  "join_incident db r =
     (case find (\<lambda>a. an_id a = in_trigger_anomaly_id r) (anomalies db) of
        None \<Rightarrow> None
      | Some a \<Rightarrow> (case find (\<lambda>x. tr_id x = an_telemetry_id a) (telemetry db) of
            None \<Rightarrow> None
          | Some x \<Rightarrow> map_option (\<lambda>s. (r, a, x, s)) (service_of db (in_service_id r))))"

definition uncorrelated :: "obs_db \<Rightarrow> uuid \<Rightarrow> bool" where
  "uncorrelated db i \<longleftrightarrow> (\<forall>l\<in>set (correlation_incidents db). ci_incident_id l \<noteq> i)"

definition find_uncorrelated_incidents :: "obs_db \<Rightarrow> string \<Rightarrow> service_environment \<Rightarrow> time \<Rightarrow> time \<Rightarrow>
    correlation_row list" where
  "find_uncorrelated_incidents db service environment window_started_at window_ended_at =
     sort_key (\<lambda>(r, _). (in_created_at r, uint (in_id r)))
       (filter (\<lambda>(r, a, x, s). ms_name s = service \<and> ms_environment s = environment
          \<and> window_started_at \<le> in_created_at r \<and> in_created_at r \<le> window_ended_at
          \<and> in_status r \<noteq> RESOLVED \<and> uncorrelated db (in_id r))
        (List.map_filter (join_incident db) (incidents db)))"

definition row_signal :: "correlation_row \<Rightarrow> correlation_signal" where
  "row_signal = (\<lambda>(r, a, x, s). \<lparr>cs_anomaly_id = an_id a, cs_incident_id = in_id r,
     cs_rule_id = an_rule_id a, cs_category = an_category a, cs_severity = an_severity a,
     cs_source = tr_source x, cs_observed_at = tr_observed_at x\<rparr>)"

record correlation_response =
  cr_correlation :: correlation_record
  cr_service :: monitored_service
  cr_incident_ids :: "uuid list"
  cr_root_cause :: root_cause_candidate

definition insufficient_text :: "analyze_request \<Rightarrow> nat \<Rightarrow> string" where
  "insufficient_text q n = ''Found '' @ str_nat n @ '' uncorrelated incidents for service '' @
     quoted (ar_service q) @ '' in environment '' @ quoted (environment_value (ar_environment q)) @
     ''; at least '' @ str_int (ar_minimum_incidents q) @ '' are required''"

definition summary_text :: "analyze_request \<Rightarrow> nat \<Rightarrow> root_cause_candidate \<Rightarrow> string" where
  "summary_text q n c = ''Correlated '' @ str_nat n @ '' incidents for '' @ ar_service q @ ''/'' @
     environment_value (ar_environment q) @ ''; probable root cause is rule '' @ quoted (rc_rule_id c) @
     '' from source '' @ quoted (rc_source c)"

text \<open>The rows one analysis inserts: the correlation, then the links, whose incidents must be in no
  other correlation.\<close>

definition create_correlation :: "env \<Rightarrow> obs_db \<Rightarrow> correlation_record \<Rightarrow> uuid list \<Rightarrow> db_error + obs_db" where
  "create_correlation env db co ids =
     rbind (flush_fault env) (\<lambda>_.
     rbind (ensure (distinct ids \<and> (\<forall>i\<in>set ids. uncorrelated db i)) IntegrityError) (\<lambda>_.
     Inr (db\<lparr>correlations := correlations db @ [co],
             correlation_incidents := correlation_incidents db @
               map (\<lambda>i. \<lparr>ci_correlation_id = co_id co, ci_incident_id = i, ci_added_at = co_created_at co\<rparr>) ids\<rparr>)))"

text \<open>Two readings of the clock: the end of the window and the time of creation.\<close>

definition analyze_correlation :: "env \<Rightarrow> time \<Rightarrow> obs_db \<Rightarrow> analyze_request \<Rightarrow>
    (obs_error + correlation_response) \<times> obs_db" where
  "analyze_correlation env created_at db q =
     (let window_ended_at = env_now env;
          window_started_at = window_ended_at - ar_window_minutes q * 60000000;
          rows = find_uncorrelated_incidents db (ar_service q) (ar_environment q)
                   window_started_at window_ended_at
      in if int (length rows) < ar_minimum_incidents q
         then (Inl (InsufficientIncidentsError (insufficient_text q (length rows))), db)
         else case (analyze (map row_signal rows), rows) of
             (Some root_cause, (_, _, _, service) # _) \<Rightarrow>
               let incident_ids = map (\<lambda>(r, _). in_id r) rows;
                   co = \<lparr>co_id = env_ids env 0, co_service_id = ms_id service, co_status = ACTIVE,
                         co_window_started_at = window_started_at, co_window_ended_at = window_ended_at,
                         co_root_cause_anomaly_id = rc_anomaly_id root_cause,
                         co_root_cause_incident_id = rc_incident_id root_cause,
                         co_root_cause_confidence = rc_confidence_score root_cause,
                         co_root_cause_reasons = rc_reasons root_cause,
                         co_summary = summary_text q (length incident_ids) root_cause,
                         co_created_at = created_at, co_updated_at = created_at\<rparr>
               in transaction db (
                    rbind (db_step (rbind (create_correlation env db co incident_ids) (\<lambda>db'.
                             rbind (commit_fault env) (\<lambda>_. Inr db')))) (\<lambda>db'.
                    Inr (\<lparr>cr_correlation = co, cr_service = service, cr_incident_ids = incident_ids,
                          cr_root_cause = root_cause\<rparr>, db')))
           | _ \<Rightarrow> (Inl (ObsDatabaseError OperationalError), db))"

definition analyze_incidents_endpoint :: "env \<Rightarrow> time \<Rightarrow> obs_db \<Rightarrow> analyze_request \<Rightarrow>
    correlation_response endpoint_result \<times> obs_db" where
  "analyze_incidents_endpoint env created_at db body = (case validate_analyze_request body of
      None \<Rightarrow> (unprocessable, db)
    | Some q \<Rightarrow> (case analyze_correlation env created_at db q of
          (Inr r, db') \<Rightarrow> (Reply 201 r, db')
        | (Inl (InsufficientIncidentsError s), db') \<Rightarrow> (HTTPException 422 (JStr s), db')
        | (Inl _, db') \<Rightarrow> (server_error, db')))"

section \<open>Reading correlations\<close>

definition correlation_incident_ids :: "obs_db \<Rightarrow> uuid \<Rightarrow> uuid list" where
  "correlation_incident_ids db c = map ci_incident_id
     (sort_key (\<lambda>l. (ci_added_at l, uint (ci_incident_id l)))
       (filter (\<lambda>l. ci_correlation_id l = c) (correlation_incidents db)))"

definition correlation_response_of :: "obs_db \<Rightarrow> correlation_record \<Rightarrow> correlation_response option" where
  "correlation_response_of db co =
     (case (service_of db (co_service_id co), find (\<lambda>a. an_id a = co_root_cause_anomaly_id co) (anomalies db),
            find (\<lambda>r. in_id r = co_root_cause_incident_id co) (incidents db)) of
        (Some s, Some a, Some r) \<Rightarrow>
          map_option (\<lambda>x. \<lparr>cr_correlation = co, cr_service = s,
              cr_incident_ids = correlation_incident_ids db (co_id co),
              cr_root_cause = \<lparr>rc_anomaly_id = an_id a, rc_incident_id = in_id r, rc_rule_id = an_rule_id a,
                rc_category = an_category a, rc_severity = an_severity a, rc_source = tr_source x,
                rc_observed_at = tr_observed_at x, rc_confidence_score = co_root_cause_confidence co,
                rc_reasons = co_root_cause_reasons co\<rparr>\<rparr>)
            (find (\<lambda>x. tr_id x = an_telemetry_id a) (telemetry db))
      | _ \<Rightarrow> None)"

definition get_correlation :: "obs_db \<Rightarrow> uuid \<Rightarrow> obs_error + correlation_response" where
  "get_correlation db i = of_option (CorrelationNotFoundError i)
     (case find (\<lambda>co. co_id co = i) (correlations db) of None \<Rightarrow> None
      | Some co \<Rightarrow> correlation_response_of db co)"

text \<open>This query has no check of its time range. A response needs at least two incidents, or its
  schema rejects it.\<close>

definition select_correlations :: "obs_db \<Rightarrow> string option \<Rightarrow> service_environment option \<Rightarrow>
    correlation_status option \<Rightarrow> time option \<Rightarrow> time option \<Rightarrow> nat \<Rightarrow> nat \<Rightarrow>
    correlation_response list \<times> nat" where
  "select_correlations db service environment status lo hi limit offset =
     (let rows = filter (\<lambda>q. matches service (ms_name (cr_service q))
                   \<and> matches environment (ms_environment (cr_service q))
                   \<and> matches status (co_status (cr_correlation q))
                   \<and> in_range lo hi (co_created_at (cr_correlation q)))
                 (List.map_filter (correlation_response_of db) (correlations db))
      in (page offset limit (sort_key (\<lambda>q. (- co_created_at (cr_correlation q),
            - uint (co_id (cr_correlation q)))) rows), length rows))"

definition correlation_query :: "obs_db \<Rightarrow> string option \<Rightarrow> service_environment option \<Rightarrow>
    correlation_status option \<Rightarrow> timestamp option \<Rightarrow> timestamp option \<Rightarrow> nat \<Rightarrow> nat \<Rightarrow>
    obs_error + correlation_response list \<times> nat" where
  "correlation_query db service environment status created_from created_to limit offset =
     rbind (bound_time created_from) (\<lambda>lo. rbind (bound_time created_to) (\<lambda>hi.
       Inr (select_correlations db service environment status lo hi limit offset)))"

definition correlation_schema :: "correlation_response \<Rightarrow> bool" where
  "correlation_schema r \<longleftrightarrow> 2 \<le> length (cr_incident_ids r)
     \<and> 0 \<le> rc_confidence_score (cr_root_cause r) \<and> rc_confidence_score (cr_root_cause r) \<le> 100"

definition get_correlation_endpoint :: "obs_db \<Rightarrow> uuid \<Rightarrow> correlation_response endpoint_result" where
  "get_correlation_endpoint db i = (case get_correlation db i of
      Inr r \<Rightarrow> if correlation_schema r then Reply 200 r else server_error
    | Inl _ \<Rightarrow> HTTPException 404
        (JStr (''Correlation '' @ quoted (str_uuid i) @ '' was not found'')))"

definition query_correlations_endpoint :: "obs_db \<Rightarrow> string option \<Rightarrow> service_environment option \<Rightarrow>
    correlation_status option \<Rightarrow> timestamp option \<Rightarrow> timestamp option \<Rightarrow> int \<Rightarrow> int \<Rightarrow>
    (correlation_response list \<times> nat) endpoint_result" where
  "query_correlations_endpoint db service environment status created_from created_to limit offset =
     (if option_all (string_length 1 100) service \<and> valid_page limit offset
      then (case correlation_query db service environment status created_from created_to
              (nat limit) (nat offset) of
          Inr (rows, n) \<Rightarrow> if list_all correlation_schema rows then Reply 200 (rows, n) else server_error
        | Inl _ \<Rightarrow> server_error)
      else unprocessable)"

end
