(* ===== verification/Obs_Traces.thy ===== *)
theory Obs_Traces
  imports Obs_Incidents
begin

text \<open>
  Distributed traces: the span schema (schemas/trace.py), the ingestion of a batch of spans
  (services/trace_ingestion_service.py, repositories/trace_repository.py), the reconstruction of a
  trace (services/trace_query_service.py) and their endpoints (api/routes/traces.py). A duration is
  kept in microseconds; the code stores it in milliseconds rounded to three digits.
\<close>

section \<open>Spans\<close>

record trace_span_create =
  ts_trace_id :: string
  ts_span_id :: string
  ts_parent_span_id :: "string option"
  ts_service :: string
  ts_environment :: service_environment
  ts_source :: string
  ts_operation :: string
  ts_status :: span_status
  ts_started_at :: timestamp
  ts_ended_at :: timestamp
  ts_attributes :: json

definition lower_hex :: "char \<Rightarrow> bool" where
  "lower_hex c = (let n = (of_char c :: nat) in 48 \<le> n \<and> n \<le> 57 \<or> 97 \<le> n \<and> n \<le> 102)"

definition hex_id :: "nat \<Rightarrow> string \<Rightarrow> bool" where
  "hex_id n s \<longleftrightarrow> length s = n \<and> list_all lower_hex s"

definition strip_span :: "trace_span_create \<Rightarrow> trace_span_create" where
  "strip_span s = s\<lparr>ts_trace_id := strip (ts_trace_id s), ts_span_id := strip (ts_span_id s),
     ts_parent_span_id := map_option strip (ts_parent_span_id s), ts_service := strip (ts_service s),
     ts_source := strip (ts_source s), ts_operation := strip (ts_operation s)\<rparr>"

definition valid_span_fields :: "trace_span_create \<Rightarrow> bool" where
  "valid_span_fields s \<longleftrightarrow> hex_id 32 (ts_trace_id s) \<and> hex_id 16 (ts_span_id s)
     \<and> option_all (hex_id 16) (ts_parent_span_id s) \<and> string_length 1 100 (ts_service s)
     \<and> string_length 1 200 (ts_source s) \<and> string_length 1 200 (ts_operation s)
     \<and> (case ts_attributes s of JObj _ \<Rightarrow> True | _ \<Rightarrow> False)"

text \<open>\<open>validate_timing_and_identity\<close> runs on valid fields. A \<open>ValueError\<close> of it fails the validation
  (422); the \<open>TypeError\<close> of comparing a naive with an aware time does not, it is a 500.\<close>

datatype span_validation = SpanValid | SpanInvalid | SpanRaises

definition validate_timing_and_identity :: "trace_span_create \<Rightarrow> span_validation" where
  "validate_timing_and_identity s = (case later_than (ts_started_at s) (ts_ended_at s) of
      None \<Rightarrow> SpanRaises
    | Some late \<Rightarrow>
        if late \<or> ts_parent_span_id s = Some (ts_span_id s) then SpanInvalid else SpanValid)"

definition validate_span :: "trace_span_create \<Rightarrow> span_validation" where
  "validate_span s = (if valid_span_fields (strip_span s) then validate_timing_and_identity (strip_span s)
     else SpanInvalid)"

text \<open>A raising validator ends the validation of the batch at its span.\<close>

definition validate_trace_batch :: "trace_span_create list \<Rightarrow> span_validation" where
  "validate_trace_batch xs =
     (if \<not> (1 \<le> length xs \<and> length xs \<le> 1000) then SpanInvalid
      else if \<exists>s\<in>set xs. validate_span s = SpanRaises then SpanRaises
      else if \<exists>s\<in>set xs. validate_span s = SpanInvalid then SpanInvalid else SpanValid)"

section \<open>Ingestion\<close>

definition span_identity :: "trace_span_create \<Rightarrow> string \<times> service_environment" where
  "span_identity s = (ts_service s, ts_environment s)"

definition find_existing_span_ids :: "obs_db \<Rightarrow> string \<Rightarrow> string list \<Rightarrow> string list" where
  "find_existing_span_ids db trace_id span_ids =
     sort (remdups (map sp_span_id
       (filter (\<lambda>s. sp_trace_id s = trace_id \<and> sp_span_id s \<in> set span_ids) (spans db))))"

definition span_row :: "uuid \<Rightarrow> time \<Rightarrow> trace_span_create \<times> uuid \<Rightarrow> db_error + trace_span_record" where
  "span_row i received_at x =
     rbind (column_time (ts_started_at (fst x))) (\<lambda>started_at.
     rbind (column_time (ts_ended_at (fst x))) (\<lambda>ended_at.
     Inr \<lparr>sp_id = i, sp_service_id = snd x, sp_trace_id = ts_trace_id (fst x),
          sp_span_id = ts_span_id (fst x), sp_parent_span_id = ts_parent_span_id (fst x),
          sp_source = ts_source (fst x), sp_operation = ts_operation (fst x),
          sp_status = ts_status (fst x), sp_started_at = started_at, sp_ended_at = ended_at,
          sp_duration_us = ended_at - started_at, sp_attributes = ts_attributes (fst x),
          sp_received_at = received_at\<rparr>))"

fun span_rows :: "(nat \<Rightarrow> uuid) \<Rightarrow> nat \<Rightarrow> time \<Rightarrow> (trace_span_create \<times> uuid) list \<Rightarrow>
    db_error + trace_span_record list" where
  "span_rows ids n received_at [] = Inr []"
| "span_rows ids n received_at (x # xs) = rbind (span_row (ids n) received_at x) (\<lambda>r.
     rbind (span_rows ids (Suc n) received_at xs) (\<lambda>rs. Inr (r # rs)))"

definition spans_unique :: "trace_span_record list \<Rightarrow> bool" where
  "spans_unique rows \<longleftrightarrow> distinct (map (\<lambda>s. (sp_trace_id s, sp_span_id s)) rows)"

definition ingest_trace :: "env \<Rightarrow> obs_db \<Rightarrow> trace_span_create list \<Rightarrow>
    (obs_error + trace_span_record list) \<times> obs_db" where
  "ingest_trace env db batch =
     transaction db (
       case remdups (map ts_trace_id batch) of
         [trace_id] \<Rightarrow>
           (let span_ids = map ts_span_id batch;
                existing = find_existing_span_ids db trace_id span_ids
            in if \<not> distinct span_ids then Inl (DuplicateSpanError
                 (''Trace '' @ quoted trace_id @ '' contains duplicate span_ids''))
               else if existing \<noteq> [] then Inl (DuplicateSpanError (''Trace '' @ quoted trace_id @
                 '' already contains span_ids: '' @ join '', '' existing))
               else rbind (resolve span_identity db [] batch) (\<lambda>resolved.
                 rbind (db_step (rbind (span_rows (env_ids env) 0 (env_now env) resolved) (\<lambda>records.
                   rbind (flush_fault env) (\<lambda>_.
                   rbind (ensure (spans_unique (spans db @ records)) IntegrityError) (\<lambda>_.
                   rbind (commit_fault env) (\<lambda>_. Inr records)))))) (\<lambda>records.
                 Inr (records, db\<lparr>spans := spans db @ records\<rparr>))))
       | _ \<Rightarrow> Inl MixedTraceBatchError)"

definition ingest_trace_endpoint :: "env \<Rightarrow> obs_db \<Rightarrow> trace_span_create list \<Rightarrow>
    trace_span_record list endpoint_result \<times> obs_db" where
  "ingest_trace_endpoint env db body = (case validate_trace_batch body of
      SpanInvalid \<Rightarrow> (unprocessable, db)
    | SpanRaises \<Rightarrow> (server_error, db)
    | SpanValid \<Rightarrow> (case ingest_trace env db (map strip_span body) of
          (Inr records, db') \<Rightarrow> (Reply 202 records, db')
        | (Inl (DuplicateSpanError s), db') \<Rightarrow> (HTTPException 409 (JStr s), db')
        | (Inl MixedTraceBatchError, db') \<Rightarrow>
            (HTTPException 422 (JStr ''All spans in a batch must share the same trace_id''), db')
        | (Inl (UnregisteredServiceError s), db') \<Rightarrow> (HTTPException 422 (JStr s), db')
        | (Inl _, db') \<Rightarrow> (server_error, db')))"

section \<open>Reconstruction\<close>

record trace_response =
  tq_trace_id :: string
  tq_started_at :: time
  tq_ended_at :: time
  tq_duration_us :: int
  tq_services :: "string list"
  tq_spans :: "(trace_span_record \<times> monitored_service) list"

definition trace_rows :: "obs_db \<Rightarrow> string \<Rightarrow> (trace_span_record \<times> monitored_service) list" where
  "trace_rows db trace_id =
     sort_key (\<lambda>(s, m). (sp_started_at s, sp_span_id s))
       (join_service db sp_service_id (filter (\<lambda>s. sp_trace_id s = trace_id) (spans db)))"

definition get_by_trace_id :: "obs_db \<Rightarrow> string \<Rightarrow> obs_error + trace_response" where
  "get_by_trace_id db trace_id =
     (let rows = trace_rows db trace_id in
      if rows = [] then Inl (TraceNotFoundError trace_id)
      else let started_at = Min (set (map (\<lambda>(s, m). sp_started_at s) rows));
               ended_at = Max (set (map (\<lambda>(s, m). sp_ended_at s) rows))
           in Inr \<lparr>tq_trace_id = trace_id, tq_started_at = started_at, tq_ended_at = ended_at,
                   tq_duration_us = ended_at - started_at,
                   tq_services = sort (remdups (map (\<lambda>(s, m). ms_name m) rows)), tq_spans = rows\<rparr>)"

definition get_trace_endpoint :: "obs_db \<Rightarrow> string \<Rightarrow> trace_response endpoint_result" where
  "get_trace_endpoint db trace_id =
     (if \<not> hex_id 32 trace_id then unprocessable
      else case get_by_trace_id db trace_id of
          Inr r \<Rightarrow> Reply 200 r
        | Inl (TraceNotFoundError i) \<Rightarrow> HTTPException 404 (JStr (''Trace '' @ quoted i @ '' was not found''))
        | Inl _ \<Rightarrow> server_error)"

end
