(* ===== verification/Obs_Correct.thy ===== *)
theory Obs_Correct
  imports Obs_Traces
begin

text \<open>
  The invariant of the platform's tables and the proof that every request keeps it: registered
  services are unique, every anomaly comes from the evaluation of the telemetry it refers to, the
  incidents are exactly the critical anomalies, the fields of an incident follow its status, no
  incident is in two correlations, and spans are unique within their trace.
\<close>

named_theorems obs_simps \<open>equations of the tables after a request\<close>

section \<open>The invariant\<close>

definition services_ok :: "obs_db \<Rightarrow> bool" where
  "services_ok db \<longleftrightarrow> distinct (map ms_id (services db))
     \<and> distinct (map (\<lambda>s. (ms_name s, ms_environment s)) (services db))"

definition registered :: "monitored_service list \<Rightarrow> uuid \<Rightarrow> string \<times> service_environment \<Rightarrow> bool" where
  "registered ss i ident \<longleftrightarrow> (\<exists>s\<in>set ss. ms_id s = i \<and> (ms_name s, ms_environment s) = ident)"

definition telemetry_ok :: "obs_db \<Rightarrow> bool" where
  "telemetry_ok db \<longleftrightarrow> distinct (map tr_id (telemetry db))
     \<and> (\<forall>r\<in>set (telemetry db). registered (services db) (tr_service_id r) (item_identity (tr_payload r))
          \<and> tr_type r = item_type (tr_payload r) \<and> tr_source r = tb_source (item_base (tr_payload r)))"

definition anomaly_matches :: "anomaly_record \<Rightarrow> telemetry_record \<Rightarrow> anomaly_finding \<Rightarrow> bool" where
  "anomaly_matches a r f \<longleftrightarrow> an_telemetry_id a = tr_id r \<and> an_rule_id a = af_rule_id f
     \<and> an_category a = af_category f \<and> an_severity a = af_severity f \<and> an_title a = af_title f
     \<and> an_description a = af_description f"

definition anomalies_ok :: "obs_db \<Rightarrow> bool" where
  "anomalies_ok db \<longleftrightarrow> distinct (map an_id (anomalies db))
     \<and> (\<forall>a\<in>set (anomalies db). \<exists>r\<in>set (telemetry db). \<exists>f\<in>set (evaluate (tr_payload r)). anomaly_matches a r f)
     \<and> (\<forall>r\<in>set (telemetry db). \<forall>f\<in>set (evaluate (tr_payload r)). \<exists>a\<in>set (anomalies db). anomaly_matches a r f)"

definition incident_wf :: "incident_record \<Rightarrow> bool" where
  "incident_wf r \<longleftrightarrow> (in_acknowledged_at r = None \<longleftrightarrow> in_acknowledged_by r = None)
     \<and> (in_resolved_at r \<noteq> None \<longleftrightarrow> in_status r = RESOLVED)
     \<and> (in_resolved_by r \<noteq> None \<longleftrightarrow> in_status r = RESOLVED)
     \<and> (in_resolution_summary r \<noteq> None \<longleftrightarrow> in_status r = RESOLVED)
     \<and> (in_status r = OPEN \<longrightarrow> in_acknowledged_at r = None)
     \<and> (in_status r = ACKNOWLEDGED \<longrightarrow> in_acknowledged_at r \<noteq> None)"

definition triggered_by :: "incident_record \<Rightarrow> anomaly_record \<Rightarrow> telemetry_record \<Rightarrow> bool" where
  "triggered_by i a r \<longleftrightarrow> in_trigger_anomaly_id i = an_id a \<and> an_telemetry_id a = tr_id r
     \<and> in_service_id i = tr_service_id r \<and> an_severity a = CRITICAL \<and> in_severity i = CRITICAL
     \<and> in_title i = ''Incident: '' @ an_title a"

definition incidents_ok :: "obs_db \<Rightarrow> bool" where
  "incidents_ok db \<longleftrightarrow> distinct (map in_id (incidents db)) \<and> distinct (map in_trigger_anomaly_id (incidents db))
     \<and> (\<forall>i\<in>set (incidents db). incident_wf i
          \<and> (\<exists>a\<in>set (anomalies db). \<exists>r\<in>set (telemetry db). triggered_by i a r))
     \<and> (\<forall>a\<in>set (anomalies db). an_severity a = CRITICAL \<longrightarrow> an_id a \<in> in_trigger_anomaly_id ` set (incidents db))"

definition links_of :: "obs_db \<Rightarrow> uuid \<Rightarrow> uuid list" where
  "links_of db c = map ci_incident_id (filter (\<lambda>l. ci_correlation_id l = c) (correlation_incidents db))"

definition correlation_wf :: "obs_db \<Rightarrow> correlation_record \<Rightarrow> bool" where
  "correlation_wf db co \<longleftrightarrow> 2 \<le> length (links_of db (co_id co))
     \<and> co_root_cause_incident_id co \<in> set (links_of db (co_id co))
     \<and> (\<exists>i\<in>set (incidents db). in_id i = co_root_cause_incident_id co
          \<and> in_trigger_anomaly_id i = co_root_cause_anomaly_id co)
     \<and> (\<forall>k\<in>set (links_of db (co_id co)). \<exists>i\<in>set (incidents db). in_id i = k \<and> in_service_id i = co_service_id co)
     \<and> 35 \<le> co_root_cause_confidence co \<and> co_root_cause_confidence co \<le> 100
     \<and> co_service_id co \<in> ms_id ` set (services db)"

definition correlations_ok :: "obs_db \<Rightarrow> bool" where
  "correlations_ok db \<longleftrightarrow> distinct (map co_id (correlations db))
     \<and> distinct (map ci_incident_id (correlation_incidents db))
     \<and> (\<forall>l\<in>set (correlation_incidents db). ci_correlation_id l \<in> co_id ` set (correlations db))
     \<and> (\<forall>co\<in>set (correlations db). correlation_wf db co)"

definition span_wf :: "obs_db \<Rightarrow> trace_span_record \<Rightarrow> bool" where
  "span_wf db s \<longleftrightarrow> sp_started_at s \<le> sp_ended_at s \<and> sp_duration_us s = sp_ended_at s - sp_started_at s
     \<and> sp_parent_span_id s \<noteq> Some (sp_span_id s) \<and> hex_id 32 (sp_trace_id s) \<and> hex_id 16 (sp_span_id s)
     \<and> sp_service_id s \<in> ms_id ` set (services db)"

definition spans_ok :: "obs_db \<Rightarrow> bool" where
  "spans_ok db \<longleftrightarrow> spans_unique (spans db) \<and> (\<forall>s\<in>set (spans db). span_wf db s)"

definition obs_ok :: "obs_db \<Rightarrow> bool" where
  "obs_ok db \<longleftrightarrow> services_ok db \<and> telemetry_ok db \<and> anomalies_ok db \<and> incidents_ok db
     \<and> correlations_ok db \<and> spans_ok db"

lemmas obs_ok_parts = obs_ok_def services_ok_def telemetry_ok_def anomalies_ok_def incidents_ok_def
  correlations_ok_def spans_ok_def

text \<open>Identifiers that \<open>uuid4()\<close> returns are new: a batch of 1000 items takes at most 3000.\<close>

definition obs_ids :: "obs_db \<Rightarrow> uuid set" where
  "obs_ids db = ms_id ` set (services db) \<union> tr_id ` set (telemetry db) \<union> an_id ` set (anomalies db)
     \<union> in_id ` set (incidents db) \<union> co_id ` set (correlations db) \<union> sp_id ` set (spans db)"

definition fresh_ids :: "env \<Rightarrow> obs_db \<Rightarrow> bool" where
  "fresh_ids env db \<longleftrightarrow> inj_on (env_ids env) {..<3000} \<and> env_ids env ` {..<3000} \<inter> obs_ids db = {}"

lemma fresh_new: "fresh_ids env db \<Longrightarrow> n < 3000 \<Longrightarrow> env_ids env n \<notin> obs_ids db"
  by (auto simp: fresh_ids_def)

section \<open>Registration\<close>

lemma get_by_identity_Some:
  "get_by_identity db n e = Some s \<Longrightarrow> s \<in> set (services db) \<and> ms_name s = n \<and> ms_environment s = e"
  by (auto simp: get_by_identity_def dest: find_row_SomeD)

lemma get_by_identity_None: "get_by_identity db n e = None \<longleftrightarrow> identity_free db n e"
  by (auto simp: get_by_identity_def identity_free_def find_None_iff)

lemma register_cases:
  assumes "register env db d = (r, db')"
  shows "db' = db \<and> (\<forall>s. r \<noteq> Inr s) \<or> (\<exists>s. r = Inr s \<and> db' = db\<lparr>services := services db @ [s]\<rparr>
    \<and> ms_id s = env_ids env 0 \<and> ms_name s = sc_name d \<and> ms_environment s = sc_environment d
    \<and> identity_free db (sc_name d) (sc_environment d))"
  using assms unfolding register_def
  by (cases "get_by_identity db (sc_name d) (sc_environment d)")
     (auto simp: Let_def conflict_on_integrity_def result_simps transaction_def rbind_def get_by_identity_None
        split: sum.splits if_splits db_error.splits)

lemma register_ok:
  assumes "register env db d = (r, db')" and "obs_ok db" and "fresh_ids env db"
  shows "obs_ok db'"
proof (cases "db' = db")
  case False
  then obtain s where s: "db' = db\<lparr>services := services db @ [s]\<rparr>" "ms_id s = env_ids env 0"
    "identity_free db (ms_name s) (ms_environment s)"
    using register_cases [OF assms(1)] by auto
  have new: "ms_id s \<notin> ms_id ` set (services db)"
    using fresh_new [OF assms(3), of 0] s(2) by (auto simp: obs_ids_def)
  have "services_ok db'"
    using assms(2) s(1,3) new by (auto simp: obs_ok_parts identity_free_def)
  moreover have "registered (services db) i k \<Longrightarrow> registered (services db') i k" for i k
    by (auto simp: registered_def s(1))
  moreover have "correlation_wf db co \<Longrightarrow> correlation_wf db' co" for co
    by (auto simp: correlation_wf_def links_of_def s(1))
  moreover have "span_wf db q \<Longrightarrow> span_wf db' q" for q
    by (auto simp: span_wf_def s(1))
  ultimately show ?thesis using assms(2) by (simp add: obs_ok_parts s(1))
qed (use assms in simp)

section \<open>Resolution\<close>

text \<open>The cached lookup agrees with looking every item up.\<close>

fun resolve_each :: "('a \<Rightarrow> string \<times> service_environment) \<Rightarrow> obs_db \<Rightarrow> 'a list \<Rightarrow>
    obs_error + ('a \<times> uuid) list" where
  "resolve_each ident db [] = Inr []"
| "resolve_each ident db (x # xs) =
     (case get_by_identity db (fst (ident x)) (snd (ident x)) of
        None \<Rightarrow> Inl (UnregisteredServiceError (unregistered_text (fst (ident x)) (snd (ident x))))
      | Some s \<Rightarrow> rbind (resolve_each ident db xs) (\<lambda>rest. Inr ((x, ms_id s) # rest)))"

definition cache_ok :: "obs_db \<Rightarrow> service_cache \<Rightarrow> bool" where
  "cache_ok db cache \<longleftrightarrow> (\<forall>n e i. map_of cache (n, e) = Some i \<longrightarrow>
     (\<exists>s. get_by_identity db n e = Some s \<and> ms_id s = i))"

lemma resolve_cached: "cache_ok db cache \<Longrightarrow> resolve ident db cache xs = resolve_each ident db xs"
proof (induction xs arbitrary: cache)
  case (Cons x xs)
  obtain n e where id: "ident x = (n, e)" by fastforce
  show ?case
  proof (cases "map_of cache (n, e)")
    case (Some i)
    then obtain s where "get_by_identity db n e = Some s" "ms_id s = i"
      using Cons.prems unfolding cache_ok_def by blast
    then show ?thesis using Some Cons by (simp add: id)
  next
    case None
    show ?thesis
    proof (cases "get_by_identity db n e")
      case (Some s)
      have "cache_ok db (((n, e), ms_id s) # cache)"
        using Cons.prems Some by (simp add: cache_ok_def)
      then show ?thesis using None Some Cons.IH by (simp add: id)
    qed (simp add: None id)
  qed
qed simp

lemma cache_ok_Nil [simp]: "cache_ok db []"
  by (simp add: cache_ok_def)

lemma resolve_each_Inr:
  assumes "resolve_each ident db xs = Inr ys"
  shows "map fst ys = xs" and "y \<in> set ys \<Longrightarrow> registered (services db) (snd y) (ident (fst y))"
proof -
  have "map fst ys = xs \<and> (\<forall>y\<in>set ys. registered (services db) (snd y) (ident (fst y)))"
    using assms
  proof (induction xs arbitrary: ys)
    case (Cons x xs)
    then obtain s zs where s: "get_by_identity db (fst (ident x)) (snd (ident x)) = Some s"
      "resolve_each ident db xs = Inr zs" "ys = (x, ms_id s) # zs"
      by (auto simp: result_simps split: option.splits)
    then have "registered (services db) (ms_id s) (ident x)"
      using get_by_identity_Some by (fastforce simp: registered_def)
    then show ?case using Cons.IH [OF s(2)] s(3) by simp
  qed simp
  then show "map fst ys = xs" and "y \<in> set ys \<Longrightarrow> registered (services db) (snd y) (ident (fst y))"
    by auto
qed

lemmas resolve_Inr = resolve_each_Inr [unfolded resolve_cached [OF cache_ok_Nil, symmetric]]

lemma resolve_Inl:
  "resolve ident db [] xs = Inl e \<longleftrightarrow> (\<exists>x\<in>set xs. get_by_identity db (fst (ident x)) (snd (ident x)) = None)
     \<and> resolve ident db [] xs = Inl e"
  unfolding resolve_cached [OF cache_ok_Nil]
  by (induction xs arbitrary: e) (auto simp: result_simps split: option.splits)

section \<open>Ingestion\<close>

lemma telemetry_rows_Inr:
  assumes "telemetry_rows ids n now xs = Inr rs"
  shows "map tr_id rs = map ids [n..<n + length xs]" and "length rs = length xs"
    and "list_all2 (\<lambda>x r. tr_service_id r = snd x \<and> tr_payload r = fst x \<and> tr_type r = item_type (fst x)
      \<and> tr_source r = tb_source (item_base (fst x)) \<and> tr_received_at r = now
      \<and> tb_timestamp (item_base (fst x)) = Aware (tr_observed_at r)) xs rs"
proof -
  have "map tr_id rs = map ids [n..<n + length xs] \<and> length rs = length xs
    \<and> list_all2 (\<lambda>x r. tr_service_id r = snd x \<and> tr_payload r = fst x \<and> tr_type r = item_type (fst x)
      \<and> tr_source r = tb_source (item_base (fst x)) \<and> tr_received_at r = now
      \<and> tb_timestamp (item_base (fst x)) = Aware (tr_observed_at r)) xs rs"
    using assms
  proof (induction xs arbitrary: n rs)
    case (Cons x xs)
    then obtain r qs where q: "telemetry_row (ids n) now x = Inr r"
      "telemetry_rows ids (Suc n) now xs = Inr qs" "rs = r # qs" by (auto simp: result_simps)
    have "[n..<n + length (x # xs)] = n # [Suc n..<Suc n + length xs]" by (subst upt_rec) simp
    then show ?case
      using Cons.IH [OF q(2)] q(1,3)
      by (auto simp: telemetry_row_def result_simps column_time_def split: timestamp.splits)
  qed simp
  then show "map tr_id rs = map ids [n..<n + length xs]" and "length rs = length xs"
    and "list_all2 (\<lambda>x r. tr_service_id r = snd x \<and> tr_payload r = fst x \<and> tr_type r = item_type (fst x)
      \<and> tr_source r = tb_source (item_base (fst x)) \<and> tr_received_at r = now
      \<and> tb_timestamp (item_base (fst x)) = Aware (tr_observed_at r)) xs rs"
    by auto
qed

lemma list_all2_right: "list_all2 P xs ys \<Longrightarrow> y \<in> set ys \<Longrightarrow> \<exists>x\<in>set xs. P x y"
  by (induction rule: list_all2_induct) auto

lemma map_enumerate: "map (\<lambda>(k, x). f k) (enumerate n xs) = map f [n..<n + length xs]"
proof -
  have "map (\<lambda>(k, x). f k) (enumerate n xs) = map f (map fst (enumerate n xs))"
    by (simp add: case_prod_beta comp_def del: map_fst_enumerate)
  then show ?thesis by simp
qed

lemma anomaly_rows_props:
  shows "map (an_id \<circ> fst) (anomaly_rows ids n now xs) = map ids [n..<n + length xs]"
    and "length (anomaly_rows ids n now xs) = length xs"
    and "y \<in> set (anomaly_rows ids n now xs) \<Longrightarrow> \<exists>f. (f, snd y) \<in> set xs \<and> anomaly_matches (fst y) (snd y) f"
    and "(f, r) \<in> set xs \<Longrightarrow> \<exists>a. (a, r) \<in> set (anomaly_rows ids n now xs) \<and> anomaly_matches a r f"
proof -
  have "map (an_id \<circ> fst) (anomaly_rows ids n now xs) = map (\<lambda>(k, x). ids k) (enumerate n xs)"
    by (simp add: anomaly_rows_def case_prod_beta anomaly_row_def comp_def)
  then show "map (an_id \<circ> fst) (anomaly_rows ids n now xs) = map ids [n..<n + length xs]"
    by (simp only: map_enumerate)
  show "length (anomaly_rows ids n now xs) = length xs" by (simp add: anomaly_rows_def)
  show "\<exists>f. (f, snd y) \<in> set xs \<and> anomaly_matches (fst y) (snd y) f"
    if "y \<in> set (anomaly_rows ids n now xs)"
  proof -
    from that obtain k x where "(k, x) \<in> set (enumerate n xs)" "y = (anomaly_row (ids k) now x, snd x)"
      by (auto simp: anomaly_rows_def)
    moreover from this(1) have "x \<in> set xs" by (auto simp: enumerate_eq_zip dest: set_zip_rightD)
    ultimately show ?thesis
      by (intro exI [of _ "fst x"]) (simp add: anomaly_matches_def anomaly_row_def)
  qed
  show "\<exists>a. (a, r) \<in> set (anomaly_rows ids n now xs) \<and> anomaly_matches a r f" if "(f, r) \<in> set xs"
  proof -
    have "(f, r) \<in> snd ` set (enumerate n xs)"
      using that by (simp flip: set_map)
    then obtain k where "(k, f, r) \<in> set (enumerate n xs)" by force
    then have "(anomaly_row (ids k) now (f, r), r) \<in> set (anomaly_rows ids n now xs)"
      by (force simp: anomaly_rows_def)
    then show ?thesis by (force simp: anomaly_matches_def anomaly_row_def)
  qed
qed

lemma incident_rows_props:
  shows "map in_id (incident_rows ids n now xs) =
      map ids [n..<n + length (filter (\<lambda>x. an_severity (fst x) = CRITICAL) xs)]"
    and "map in_trigger_anomaly_id (incident_rows ids n now xs) =
      map (an_id \<circ> fst) (filter (\<lambda>x. an_severity (fst x) = CRITICAL) xs)"
    and "i \<in> set (incident_rows ids n now xs) \<Longrightarrow> \<exists>x\<in>set xs. incident_wf i \<and> in_status i = OPEN \<and> in_created_at i = now
      \<and> (an_telemetry_id (fst x) = tr_id (snd x) \<longrightarrow> triggered_by i (fst x) (snd x))"
proof -
  let ?ys = "filter (\<lambda>x. an_severity (fst x) = CRITICAL) xs"
  have "map in_id (incident_rows ids n now xs) = map (\<lambda>(k, x). ids k) (enumerate n ?ys)"
    by (simp add: incident_rows_def case_prod_beta incident_row_def comp_def)
  then show "map in_id (incident_rows ids n now xs) = map ids [n..<n + length ?ys]"
    by (simp only: map_enumerate)
  have "map in_trigger_anomaly_id (incident_rows ids n now xs) = map (an_id \<circ> fst) (map snd (enumerate n ?ys))"
    by (simp add: incident_rows_def case_prod_beta incident_row_def comp_def del: map_snd_enumerate)
  then show "map in_trigger_anomaly_id (incident_rows ids n now xs) = map (an_id \<circ> fst) ?ys" by simp
  assume "i \<in> set (incident_rows ids n now xs)"
  then obtain k x where x: "(k, x) \<in> set (enumerate n ?ys)" "i = incident_row (ids k) now x"
    by (auto simp: incident_rows_def)
  then have "x \<in> set ?ys" by (auto simp: enumerate_eq_zip dest: set_zip_rightD)
  then show "\<exists>x\<in>set xs. incident_wf i \<and> in_status i = OPEN \<and> in_created_at i = now
      \<and> (an_telemetry_id (fst x) = tr_id (snd x) \<longrightarrow> triggered_by i (fst x) (snd x))"
    using x(2) by (intro bexI [of _ x]) (auto simp: incident_wf_def incident_row_def triggered_by_def)
qed

lemma findings_of_mem: "(f, r) \<in> set (findings_of rs) \<longleftrightarrow> r \<in> set rs \<and> f \<in> set (evaluate (tr_payload r))"
  by (auto simp: findings_of_def)

lemma length_findings: "length (findings_of rs) \<le> length rs"
proof (induction rs)
  case (Cons r rs)
  then show ?case using evaluate_at_most_one [of "tr_payload r"] by (simp add: findings_of_def)
qed (simp add: findings_of_def)

lemma ingest_cases:
  assumes "ingest env db batch = (r, db')"
  shows "db' = db \<and> (\<forall>a. r \<noteq> Inr a) \<or> (\<exists>resolved records. resolve item_identity db [] batch = Inr resolved
    \<and> telemetry_rows (env_ids env) 0 (env_now env) resolved = Inr records
    \<and> (let found = anomaly_rows (env_ids env) (length records) (env_now env) (findings_of records);
           opened = incident_rows (env_ids env) (length records + length found) (env_now env) found
       in r = Inr \<lparr>ir_telemetry_ids = map tr_id records, ir_received_at = env_now env,
                  ir_anomaly_ids = map (an_id \<circ> fst) found, ir_incident_ids = map in_id opened\<rparr>
          \<and> db' = db\<lparr>telemetry := telemetry db @ records, anomalies := anomalies db @ map fst found,
                    incidents := incidents db @ opened\<rparr>))"
  using assms unfolding ingest_def
  by (auto simp: Let_def transaction_def result_simps rbind_def db_step_def split: sum.splits)

lemma fresh_map:
  assumes "fresh_ids env db" and "b \<le> 3000"
  shows "distinct (map (env_ids env) [a..<b])" and "i \<in> set (map (env_ids env) [a..<b]) \<Longrightarrow> i \<notin> obs_ids db"
proof -
  have "inj_on (env_ids env) (set [a..<b])"
    using assms by (auto simp: fresh_ids_def intro: inj_on_subset)
  then show "distinct (map (env_ids env) [a..<b])" by (simp add: distinct_map)
  show "i \<notin> obs_ids db" if "i \<in> set (map (env_ids env) [a..<b])"
  proof -
    from that obtain x where "i = env_ids env x" "x < b" by auto
    then show ?thesis using fresh_new [OF assms(1), of x] assms(2) by simp
  qed
qed

lemma distinct_append_new:
  assumes "distinct (map f xs)" and "distinct (map f ys)" and "f ` set xs \<subseteq> A"
    and "\<And>i. i \<in> set (map f ys) \<Longrightarrow> i \<notin> A"
  shows "distinct (map f (xs @ ys))"
proof -
  have "f ` set xs \<inter> f ` set ys = {}" using assms(3,4) by fastforce
  then show ?thesis using assms(1,2) by simp
qed

lemma correlation_wf_mono:
  assumes "correlation_wf db co" and "set (incidents db) \<subseteq> set (incidents db')"
    and "set (services db) \<subseteq> set (services db')" and "links_of db' (co_id co) = links_of db (co_id co)"
  shows "correlation_wf db' co"
proof -
  have mono: "\<exists>i\<in>set (incidents db'). P i" if "\<exists>i\<in>set (incidents db). P i" for P
    using that assms(2) by (meson subsetD)
  note wf = assms(1) [unfolded correlation_wf_def]
  have "co_service_id co \<in> ms_id ` set (services db')" using wf image_mono [OF assms(3), of ms_id] by auto
  moreover have "\<exists>i\<in>set (incidents db'). in_id i = k \<and> in_service_id i = co_service_id co"
    if "k \<in> set (links_of db (co_id co))" for k
    using wf that by (intro mono) simp
  moreover have "\<exists>i\<in>set (incidents db'). in_id i = co_root_cause_incident_id co
      \<and> in_trigger_anomaly_id i = co_root_cause_anomaly_id co"
    using wf by (intro mono) simp
  ultimately show ?thesis using wf by (simp add: correlation_wf_def assms(4))
qed

lemma ingest_ok:
  assumes run: "ingest env db batch = (r, db')" and ok: "obs_ok db" and fresh: "fresh_ids env db"
    and size: "length batch \<le> 1000"
  shows "obs_ok db'"
proof (cases "db' = db")
  case False
  define ids where "ids = env_ids env"
  obtain resolved records found opened where resolved: "resolve item_identity db [] batch = Inr resolved"
    and records: "telemetry_rows ids 0 (env_now env) resolved = Inr records"
    and found: "found = anomaly_rows ids (length records) (env_now env) (findings_of records)"
    and opened: "opened = incident_rows ids (length records + length found) (env_now env) found"
    and db': "db' = db\<lparr>telemetry := telemetry db @ records, anomalies := anomalies db @ map fst found,
      incidents := incidents db @ opened\<rparr>"
    using ingest_cases [OF run] False by (auto simp: Let_def ids_def)
  note tel = telemetry_rows_Inr [OF records]
  note ano = anomaly_rows_props [where ids = ids and n = "length records" and now = "env_now env"
    and xs = "findings_of records", folded found]
  note inc = incident_rows_props [where ids = ids and n = "length records + length found" and now = "env_now env"
    and xs = found, folded opened]
  define n where "n = length records"
  define m where "m = length found"
  define k where "k = length (filter (\<lambda>x. an_severity (fst x) = CRITICAL) found)"
  have n: "n = length resolved" "length resolved \<le> 1000"
    using tel(2) resolve_Inr(1) [OF resolved] size by (auto simp: n_def dest: arg_cong [where f = length])
  have m: "m \<le> n" "k \<le> m"
    using ano(2) length_findings [of records] length_filter_le [of "\<lambda>x. an_severity (fst x) = CRITICAL" found]
    by (auto simp: n_def m_def k_def simp del: length_filter_le)
  have telemetry_ids: "map tr_id records = map ids [0..<n]" using tel(1) n by simp
  have anomaly_ids: "map (an_id \<circ> fst) found = map ids [n..<n + m]"
    using ano(1,2) by (simp add: n_def m_def)
  have incident_ids: "map in_id opened = map ids [n + m..<n + m + k]"
    using inc(1) by (simp add: n_def m_def k_def)
  have bounds: "n \<le> 3000" "n + m \<le> 3000" "n + m + k \<le> 3000" using n m by auto
  note new1 = fresh_map [OF fresh bounds(1), where a = 0, folded ids_def, folded telemetry_ids]
  note new2 = fresh_map [OF fresh bounds(2), where a = n, folded ids_def, folded anomaly_ids]
  note new3 = fresh_map [OF fresh bounds(3), where a = "n + m", folded ids_def, folded incident_ids]
  have row: "registered (services db) (tr_service_id r) (item_identity (tr_payload r))
      \<and> tr_type r = item_type (tr_payload r) \<and> tr_source r = tb_source (item_base (tr_payload r))"
    if "r \<in> set records" for r
  proof -
    from that obtain x where "x \<in> set resolved" "tr_service_id r = snd x" "tr_payload r = fst x"
      "tr_type r = item_type (fst x)" "tr_source r = tb_source (item_base (fst x))"
      using list_all2_right [OF tel(3)] by blast
    then show ?thesis using resolve_Inr(2) [OF resolved] by simp
  qed
  have source: "\<exists>f. snd y \<in> set records \<and> f \<in> set (evaluate (tr_payload (snd y)))
      \<and> anomaly_matches (fst y) (snd y) f" if "y \<in> set found" for y
    using ano(3) [OF that] by (auto simp: findings_of_mem)
  note old_ok = ok [unfolded obs_ok_parts]
  have "distinct (map tr_id (telemetry db @ records))"
    by (rule distinct_append_new [where A = "obs_ids db"]) (use old_ok new1 in \<open>auto simp: obs_ids_def\<close>)
  then have "telemetry_ok db'"
    using old_ok row by (auto simp: telemetry_ok_def db')
  moreover have "anomalies_ok db'"
  proof -
    have "distinct (map an_id (anomalies db @ map fst found))"
    proof (rule distinct_append_new [where A = "obs_ids db"])
      show "distinct (map an_id (map fst found))" using new2(1) by simp
      show "i \<notin> obs_ids db" if "i \<in> set (map an_id (map fst found))" for i
        using new2(2) [of i] that by simp
    qed (use old_ok in \<open>auto simp: obs_ids_def\<close>)
    then have "distinct (map an_id (anomalies db'))" by (simp add: db')
    moreover have "\<exists>r\<in>set (telemetry db'). \<exists>f\<in>set (evaluate (tr_payload r)). anomaly_matches a r f"
      if a: "a \<in> set (anomalies db')" for a
    proof (cases "a \<in> set (anomalies db)")
      case True
      then show ?thesis using ok by (fastforce simp: obs_ok_parts db')
    next
      case False
      then obtain y where "y \<in> set found" "a = fst y" using a by (auto simp: db')
      then show ?thesis using source [of y] by (auto simp: db')
    qed
    moreover have "\<exists>a\<in>set (anomalies db'). anomaly_matches a r f"
      if r: "r \<in> set (telemetry db')" "f \<in> set (evaluate (tr_payload r))" for r f
    proof (cases "r \<in> set records")
      case True
      then obtain a where "(a, r) \<in> set found" "anomaly_matches a r f"
        using ano(4) [of f r] r(2) by (auto simp: findings_of_mem)
      then show ?thesis by (force simp: db')
    next
      case False
      then show ?thesis using ok r by (fastforce simp: obs_ok_parts db')
    qed
    ultimately show ?thesis by (simp add: anomalies_ok_def)
  qed
  moreover have "incidents_ok db'"
  proof -
    let ?crit = "filter (\<lambda>x. an_severity (fst x) = CRITICAL) found"
    have old: "in_trigger_anomaly_id i \<in> obs_ids db" if "i \<in> set (incidents db)" for i
    proof -
      have "\<exists>a\<in>set (anomalies db). in_trigger_anomaly_id i = an_id a"
        using old_ok that unfolding triggered_by_def by blast
      then show ?thesis by (auto simp: obs_ids_def)
    qed
    have crit: "distinct (map (an_id \<circ> fst) ?crit)" using new2(1) by (rule distinct_map_filter)
    have fresh_triggers: "in_trigger_anomaly_id i \<notin> obs_ids db" if "i \<in> set opened" for i
    proof -
      have "in_trigger_anomaly_id i \<in> set (map (an_id \<circ> fst) ?crit)"
        using that by (simp flip: inc(2))
      then show ?thesis by (intro new2(2)) auto
    qed
    have "distinct (map in_id (incidents db @ opened))"
      by (rule distinct_append_new [where A = "obs_ids db"])
         (use old_ok new3 in \<open>auto simp: obs_ids_def\<close>)
    then have "distinct (map in_id (incidents db'))" by (simp add: db')
    moreover have "distinct (map in_trigger_anomaly_id (incidents db @ opened))"
    proof (rule distinct_append_new [where A = "obs_ids db"])
      show "distinct (map in_trigger_anomaly_id opened)" unfolding inc(2) by (rule crit)
    qed (use old_ok old fresh_triggers in auto)
    then have "distinct (map in_trigger_anomaly_id (incidents db'))" by (simp add: db')
    moreover have "incident_wf i \<and> (\<exists>a\<in>set (anomalies db'). \<exists>r\<in>set (telemetry db'). triggered_by i a r)"
      if i: "i \<in> set (incidents db')" for i
    proof (cases "i \<in> set opened")
      case True
      from inc(3) [OF this] obtain x where x: "x \<in> set found" "incident_wf i"
        "an_telemetry_id (fst x) = tr_id (snd x) \<longrightarrow> triggered_by i (fst x) (snd x)" by blast
      then show ?thesis using source [OF x(1)] by (auto simp: db' anomaly_matches_def)
    next
      case False
      then show ?thesis using ok i by (fastforce simp: obs_ok_parts db')
    qed
    moreover have "an_id a \<in> in_trigger_anomaly_id ` set (incidents db')"
      if a: "a \<in> set (anomalies db')" "an_severity a = CRITICAL" for a
    proof (cases "a \<in> set (anomalies db)")
      case True
      then show ?thesis using ok a by (auto simp: obs_ok_parts db')
    next
      case False
      then obtain y where "y \<in> set ?crit" "a = fst y" using a by (auto simp: db')
      then have "an_id a \<in> set (map (an_id \<circ> fst) ?crit)" by auto
      then have "an_id a \<in> set (map in_trigger_anomaly_id opened)" unfolding inc(2) .
      then show ?thesis by (auto simp: db')
    qed
    ultimately show ?thesis unfolding incidents_ok_def by blast
  qed
  moreover have "correlations_ok db'"
  proof -
    have "correlation_wf db co \<Longrightarrow> correlation_wf db' co" for co
      by (erule correlation_wf_mono) (auto simp: db' links_of_def)
    then show ?thesis using ok by (simp add: obs_ok_parts db')
  qed
  ultimately show ?thesis using ok by (simp add: obs_ok_def services_ok_def spans_ok_def span_wf_def db')
qed (use ok in simp)

section \<open>Changes of incidents\<close>

lemma changed_keys [simp]:
  "in_id (changed c now r) = in_id r" "in_trigger_anomaly_id (changed c now r) = in_trigger_anomaly_id r"
  "in_service_id (changed c now r) = in_service_id r" "in_severity (changed c now r) = in_severity r"
  "in_title (changed c now r) = in_title r" "in_created_at (changed c now r) = in_created_at r"
  by (simp_all add: changed_def split: incident_change.splits)

lemma changed_wf: "change_allowed c r = Inr () \<Longrightarrow> incident_wf r \<Longrightarrow> incident_wf (changed c now r)"
  by (cases c; cases "in_status r") (auto simp: change_allowed_def changed_def incident_wf_def result_simps)

lemma read_incident_Inr:
  assumes "read_incident db i c = Inr (r, s)"
  shows "find (\<lambda>r. in_id r = i) (incidents db) = Some r" and "change_allowed c r = Inr ()"
  using assms by (auto simp: read_incident_def get_incident_def incident_by_id_def result_simps
      split: option.splits)

lemma write_incident_cases:
  assumes "write_incident env db i c = (x, db')"
  shows "db' = db \<and> (\<exists>e. x = Inl e) \<or> (\<exists>r. find (\<lambda>r. in_id r = i) (incidents db) = Some r
    \<and> x = Inr (changed c (env_now env) r)
    \<and> db' = db\<lparr>incidents := update_row in_id i (changed c (env_now env)) (incidents db)\<rparr>)"
  using assms find_update_row_same [of in_id "changed c (env_now env)" i "incidents db"]
  by (auto simp: write_incident_def Let_def transaction_def rbind_def result_simps db_step_def of_option_def
      split: sum.splits option.splits)

lemma change_incident_cases:
  assumes "change_incident env db i c = (x, db')"
  shows "db' = db \<and> (\<exists>e. x = Inl e) \<or> (\<exists>r. find (\<lambda>r. in_id r = i) (incidents db) = Some r
    \<and> change_allowed c r = Inr () \<and> x = Inr (changed c (env_now env) r)
    \<and> db' = db\<lparr>incidents := update_row in_id i (changed c (env_now env)) (incidents db)\<rparr>)"
  using assms read_incident_Inr [of db i c] write_incident_cases [of env db i c x db']
  by (auto simp: change_incident_def split: sum.splits)

lemma update_row_members:
  assumes "distinct (map key rows)" and "x \<in> set (update_row key i f rows)" and "find (\<lambda>r. key r = i) rows = Some r"
  shows "x \<in> set rows \<and> key x \<noteq> i \<or> x = f r"
proof -
  from assms(2) obtain y where y: "y \<in> set rows" "x = (if key y = i then f y else y)"
    by (auto simp: update_row_def)
  show ?thesis
  proof (cases "key y = i")
    case True
    then have "y = r" using find_key_distinct [OF assms(1) y(1)] assms(3) by simp
    then show ?thesis using y True by simp
  qed (use y in auto)
qed

lemma change_incident_ok:
  assumes "change_incident env db i c = (x, db')" and ok: "obs_ok db"
  shows "obs_ok db'"
proof (cases "db' = db")
  case False
  let ?f = "changed c (env_now env)"
  obtain r where r: "find (\<lambda>r. in_id r = i) (incidents db) = Some r" "change_allowed c r = Inr ()"
    and db': "db' = db\<lparr>incidents := update_row in_id i ?f (incidents db)\<rparr>"
    using change_incident_cases [OF assms(1)] False by auto
  have keys: "map in_id (incidents db') = map in_id (incidents db)"
    "map in_trigger_anomaly_id (incidents db') = map in_trigger_anomaly_id (incidents db)"
    by (simp_all add: db' update_row_def)
  have dist: "distinct (map in_id (incidents db))" using ok by (simp add: obs_ok_parts)
  have old: "\<exists>y\<in>set (incidents db). (in_id x, in_trigger_anomaly_id x, in_service_id x, in_severity x, in_title x)
      = (in_id y, in_trigger_anomaly_id y, in_service_id y, in_severity y, in_title y)
      \<and> (incident_wf y \<longrightarrow> incident_wf x)" if x: "x \<in> set (incidents db')" for x
  proof -
    from update_row_members [OF dist x [unfolded db', simplified] r(1)] show ?thesis
    proof
      assume "x = ?f r"
      moreover have "r \<in> set (incidents db)" using r(1) by (auto dest: find_row_SomeD)
      ultimately show ?thesis using changed_wf [OF r(2)] by (intro bexI [of _ r]) auto
    qed auto
  qed
  have kept: "\<exists>x\<in>set (incidents db'). P x" if "\<exists>y\<in>set (incidents db). P y" and "\<And>y. P (?f y) = P y" for P
    using that by (auto simp: db' update_row_def)
  have "incidents_ok db'"
  proof -
    have "incident_wf x \<and> (\<exists>a\<in>set (anomalies db). \<exists>q\<in>set (telemetry db). triggered_by x a q)"
      if x: "x \<in> set (incidents db')" for x
    proof -
      from old [OF x] obtain y where y: "y \<in> set (incidents db)" "in_trigger_anomaly_id x = in_trigger_anomaly_id y"
        "in_service_id x = in_service_id y" "in_severity x = in_severity y" "in_title x = in_title y"
        "incident_wf y \<longrightarrow> incident_wf x" by auto
      have "incident_wf y \<and> (\<exists>a\<in>set (anomalies db). \<exists>q\<in>set (telemetry db). triggered_by y a q)"
        using ok y(1) by (simp add: obs_ok_parts)
      then show ?thesis using y(2-6) unfolding triggered_by_def by auto
    qed
    then show ?thesis
      using ok keys by (simp add: obs_ok_parts db' flip: set_map)
  qed
  moreover have "correlation_wf db' co" if "correlation_wf db co" for co
  proof -
    have "links_of db' (co_id co) = links_of db (co_id co)" by (simp add: db' links_of_def)
    then show ?thesis using that kept unfolding correlation_wf_def by (auto simp: db')
  qed
  ultimately show ?thesis
    using ok by (simp add: obs_ok_def services_ok_def telemetry_ok_def anomalies_ok_def
        correlations_ok_def spans_ok_def span_wf_def db')
qed (use ok in simp)

section \<open>Correlations\<close>

lemma join_incident_Some:
  assumes "join_incident db i = Some (r, a, x, s)"
  shows "r = i" and "a \<in> set (anomalies db)" and "an_id a = in_trigger_anomaly_id i"
    and "x \<in> set (telemetry db)" and "tr_id x = an_telemetry_id a"
    and "s \<in> set (services db)" and "ms_id s = in_service_id i"
  using assms
  by (auto simp: join_incident_def service_of_def dest: find_row_SomeD split: option.splits)

lemma map_filter_subsequence:
  "(\<And>x y. f x = Some y \<Longrightarrow> key' y = key x) \<Longrightarrow> distinct (map key xs) \<Longrightarrow>
    distinct (map key' (List.map_filter f xs))"
proof (induction xs)
  case (Cons x xs)
  have sub: "set (map key' (List.map_filter f xs)) \<subseteq> set (map key xs)"
    using Cons.prems(1) by (force simp: List.map_filter_def)
  show ?case
  proof (cases "f x")
    case None
    then show ?thesis using Cons by (simp add: List.map_filter_simps)
  next
    case (Some y)
    have "key' y = key x" using Cons.prems(1) Some .
    then have "key' y \<notin> set (map key' (List.map_filter f xs))" using Cons.prems(2) sub by auto
    then show ?thesis using Some Cons by (simp add: List.map_filter_simps)
  qed
qed (simp add: List.map_filter_simps)

lemma find_uncorrelated_props:
  assumes "incidents_ok db" and "services_ok db"
    and rows_def: "rows = find_uncorrelated_incidents db n e lo hi"
  shows "distinct (map (\<lambda>(r, _). in_id r) rows)"
    and "(r, a, x, s) \<in> set rows \<Longrightarrow> r \<in> set (incidents db) \<and> an_id a = in_trigger_anomaly_id r
      \<and> a \<in> set (anomalies db) \<and> x \<in> set (telemetry db) \<and> tr_id x = an_telemetry_id a
      \<and> s \<in> set (services db) \<and> ms_id s = in_service_id r \<and> ms_name s = n \<and> ms_environment s = e
      \<and> lo \<le> in_created_at r \<and> in_created_at r \<le> hi \<and> in_status r \<noteq> RESOLVED \<and> uncorrelated db (in_id r)"
    and "(r, a, x, s) \<in> set rows \<Longrightarrow> (r', a', x', s') \<in> set rows \<Longrightarrow> s' = s"
proof -
  let ?all = "List.map_filter (join_incident db) (incidents db)"
  have "distinct (map (\<lambda>(r, _). in_id r) ?all)"
    using assms(1) by (intro map_filter_subsequence [where key = in_id])
      (auto simp: incidents_ok_def dest: join_incident_Some(1))
  then have "distinct (map (\<lambda>(r, _). in_id r) (filter P ?all))" for P by (rule distinct_map_filter)
  then show "distinct (map (\<lambda>(r, _). in_id r) rows)"
    by (simp add: rows_def find_uncorrelated_incidents_def distinct_map)
  have mem: "r \<in> set (incidents db) \<and> an_id a = in_trigger_anomaly_id r
      \<and> a \<in> set (anomalies db) \<and> x \<in> set (telemetry db) \<and> tr_id x = an_telemetry_id a
      \<and> s \<in> set (services db) \<and> ms_id s = in_service_id r \<and> ms_name s = n \<and> ms_environment s = e
      \<and> lo \<le> in_created_at r \<and> in_created_at r \<le> hi \<and> in_status r \<noteq> RESOLVED \<and> uncorrelated db (in_id r)"
    if "(r, a, x, s) \<in> set rows" for r a x s
  proof -
    from that obtain i where "i \<in> set (incidents db)" and j: "join_incident db i = Some (r, a, x, s)"
      and "ms_name s = n \<and> ms_environment s = e \<and> lo \<le> in_created_at r \<and> in_created_at r \<le> hi
        \<and> in_status r \<noteq> RESOLVED \<and> uncorrelated db (in_id r)"
      by (auto simp: rows_def find_uncorrelated_incidents_def List.map_filter_def)
    then show ?thesis using join_incident_Some [OF j] by simp
  qed
  then show "(r, a, x, s) \<in> set rows \<Longrightarrow> r \<in> set (incidents db) \<and> an_id a = in_trigger_anomaly_id r
      \<and> a \<in> set (anomalies db) \<and> x \<in> set (telemetry db) \<and> tr_id x = an_telemetry_id a
      \<and> s \<in> set (services db) \<and> ms_id s = in_service_id r \<and> ms_name s = n \<and> ms_environment s = e
      \<and> lo \<le> in_created_at r \<and> in_created_at r \<le> hi \<and> in_status r \<noteq> RESOLVED \<and> uncorrelated db (in_id r)" .
  assume "(r, a, x, s) \<in> set rows" "(r', a', x', s') \<in> set rows"
  from mem [OF this(1)] mem [OF this(2)] have "s \<in> set (services db)" "s' \<in> set (services db)"
    "(ms_name s', ms_environment s') = (ms_name s, ms_environment s)" by auto
  then show "s' = s"
    using assms(2) unfolding services_ok_def by (metis (mono_tags, lifting) distinct_map inj_onD)
qed

lemma analyze_correlation_cases:
  assumes "analyze_correlation env created_at db q = (x, db')"
  defines "rows \<equiv> find_uncorrelated_incidents db (ar_service q) (ar_environment q)
    (env_now env - ar_window_minutes q * 60000000) (env_now env)"
  shows "db' = db \<and> (\<forall>a. x \<noteq> Inr a) \<or> (\<exists>root r0 a0 x0 s tl co. ar_minimum_incidents q \<le> int (length rows)
    \<and> analyze (map row_signal rows) = Some root \<and> rows = (r0, a0, x0, s) # tl
    \<and> co_id co = env_ids env 0 \<and> co_service_id co = ms_id s \<and> co_root_cause_anomaly_id co = rc_anomaly_id root
    \<and> co_root_cause_incident_id co = rc_incident_id root \<and> co_root_cause_confidence co = rc_confidence_score root
    \<and> co_root_cause_reasons co = rc_reasons root \<and> co_status co = ACTIVE
    \<and> x = Inr \<lparr>cr_correlation = co, cr_service = s, cr_incident_ids = map (\<lambda>(r, _). in_id r) rows, cr_root_cause = root\<rparr>
    \<and> distinct (map (\<lambda>(r, _). in_id r) rows) \<and> (\<forall>i\<in>set (map (\<lambda>(r, _). in_id r) rows). uncorrelated db i)
    \<and> db' = db\<lparr>correlations := correlations db @ [co], correlation_incidents := correlation_incidents db @
        map (\<lambda>i. \<lparr>ci_correlation_id = co_id co, ci_incident_id = i, ci_added_at = co_created_at co\<rparr>)
          (map (\<lambda>(r, _). in_id r) rows)\<rparr>)"
proof (cases "int (length rows) < ar_minimum_incidents q")
  case True
  then show ?thesis using assms(1) by (auto simp: analyze_correlation_def Let_def rows_def)
next
  case False
  show ?thesis
  proof (cases "analyze (map row_signal rows)")
    case None
    then have "rows = []" by simp
    then show ?thesis using assms(1) False
      unfolding analyze_correlation_def Let_def rows_def [symmetric] by auto
  next
    case (Some root)
    then have "rows \<noteq> []" by auto
    then obtain r0 a0 x0 s tl where rows: "rows = (r0, a0, x0, s) # tl" by (cases rows) auto
    show ?thesis
      using assms(1) False Some rows
      unfolding analyze_correlation_def Let_def rows_def [symmetric]
      by (simp add: transaction_def create_correlation_def del: map_map)
         (auto simp: result_simps rbind_def db_step_def ensure_def not_less simp del: map_map split: sum.splits if_splits)
  qed
qed

lemma score_signal_fields [simp]:
  "rc_anomaly_id (score_signal e n s) = cs_anomaly_id s" "rc_incident_id (score_signal e n s) = cs_incident_id s"
  "rc_rule_id (score_signal e n s) = cs_rule_id s" "rc_category (score_signal e n s) = cs_category s"
  "rc_severity (score_signal e n s) = cs_severity s" "rc_source (score_signal e n s) = cs_source s"
  "rc_observed_at (score_signal e n s) = cs_observed_at s"
  "rc_confidence_score (score_signal e n s) = signal_score e n s"
  by (simp_all add: score_signal_def)

lemma analyze_correlation_ok:
  assumes run: "analyze_correlation env created_at db q = (x, db')" and ok: "obs_ok db"
    and fresh: "fresh_ids env db" and two: "2 \<le> ar_minimum_incidents q"
  shows "obs_ok db'"
proof (cases "db' = db")
  case False
  let ?rows = "find_uncorrelated_incidents db (ar_service q) (ar_environment q)
    (env_now env - ar_window_minutes q * 60000000) (env_now env)"
  define ids where "ids = map (\<lambda>(r, _). in_id r) ?rows"
  obtain root r0 a0 x0 s tl co where many: "ar_minimum_incidents q \<le> int (length ?rows)"
    and root: "analyze (map row_signal ?rows) = Some root" and rows: "?rows = (r0, a0, x0, s) # tl"
    and co: "co_id co = env_ids env 0" "co_service_id co = ms_id s" "co_root_cause_anomaly_id co = rc_anomaly_id root"
      "co_root_cause_incident_id co = rc_incident_id root" "co_root_cause_confidence co = rc_confidence_score root"
    and ids: "distinct ids" "\<forall>i\<in>set ids. uncorrelated db i"
    and db': "db' = db\<lparr>correlations := correlations db @ [co], correlation_incidents := correlation_incidents db @
        map (\<lambda>i. \<lparr>ci_correlation_id = co_id co, ci_incident_id = i, ci_added_at = co_created_at co\<rparr>) ids\<rparr>"
    unfolding ids_def
  proof (rule disjE [OF analyze_correlation_cases [OF run]], goal_cases)
    case 2
    from 2(2) show ?case by (elim exE conjE) (rule 2(1))
  qed (use False in simp)
  note old_ok = ok [unfolded obs_ok_parts]
  have tables: "incidents_ok db" "services_ok db" using ok by (simp_all add: obs_ok_def)
  note mem = find_uncorrelated_props(2) [OF tables refl] and same = find_uncorrelated_props(3) [OF tables refl]
  have first: "(r0, a0, x0, s) \<in> set ?rows" by (simp add: rows)
  have new: "co_id co \<notin> co_id ` set (correlations db)"
    using fresh_new [OF fresh, of 0] by (auto simp: obs_ids_def co)
  have "\<forall>l\<in>set (correlation_incidents db). ci_correlation_id l \<in> co_id ` set (correlations db)"
    using old_ok by simp
  then have "\<forall>l\<in>set (correlation_incidents db). ci_correlation_id l \<noteq> co_id co" using new by metis
  then have no_links: "links_of db (co_id co) = []" by (simp add: links_of_def filter_empty_conv)
  have links: "links_of db' k = (if k = co_id co then ids else links_of db k)" for k
    using no_links by (auto simp: db' links_of_def filter_map comp_def)
  have same_tables: "incidents db' = incidents db" "services db' = services db" by (simp_all add: db')
  have incident: "\<exists>i\<in>set (incidents db). in_id i = k \<and> in_service_id i = ms_id s" if "k \<in> set ids" for k
  proof -
    from that obtain r a y s' where r: "(r, a, y, s') \<in> set ?rows" "k = in_id r" by (auto simp: ids_def)
    then show ?thesis using mem [OF r(1)] same [OF first r(1)] by auto
  qed
  obtain g where g: "g \<in> set (map row_signal ?rows)" "root = score_signal
      (earliest_observed_at (map row_signal ?rows)) (source_count (map row_signal ?rows) (cs_source g)) g"
    using analyze_candidates(1) [OF root] by blast
  then obtain r a y s' where r: "(r, a, y, s') \<in> set ?rows" "g = row_signal (r, a, y, s')" by auto
  have cause: "rc_incident_id root = in_id r" "rc_anomaly_id root = in_trigger_anomaly_id r" "r \<in> set (incidents db)"
    using mem [OF r(1)] by (simp_all add: g(2) r(2) row_signal_def)
  have "in_id r \<in> set ids" using r(1) by (force simp: ids_def)
  moreover have "2 \<le> length ids" using many two by (simp add: ids_def)
  moreover have "ms_id s \<in> ms_id ` set (services db)" using mem [OF first] by blast
  moreover have "35 \<le> rc_confidence_score root \<and> rc_confidence_score root \<le> 100"
    using signal_score_bounds by (simp add: g(2))
  ultimately have "correlation_wf db' co"
    using incident cause unfolding correlation_wf_def links same_tables co(2-5) by auto
  moreover have "correlation_wf db' c" if "c \<in> set (correlations db)" for c
  proof -
    have other: "co_id c \<noteq> co_id co" using new that by (metis image_eqI)
    show ?thesis
      by (rule correlation_wf_mono [of db]) (use other old_ok that in \<open>simp_all add: links same_tables\<close>)
  qed
  moreover have "distinct (map ci_incident_id (correlation_incidents db'))"
    using old_ok ids by (auto simp: db' comp_def uncorrelated_def)
  moreover have "distinct (map co_id (correlations db'))" using old_ok new by (simp add: db')
  moreover have "\<forall>l\<in>set (correlation_incidents db'). ci_correlation_id l \<in> co_id ` set (correlations db')"
    using old_ok by (auto simp: db')
  ultimately have "correlations_ok db'" by (simp add: correlations_ok_def db')
  then show ?thesis
    using ok by (simp add: obs_ok_def services_ok_def telemetry_ok_def anomalies_ok_def incidents_ok_def
        spans_ok_def span_wf_def db')
qed (use ok in simp)

section \<open>Spans\<close>

lemma span_rows_Inr:
  assumes "span_rows ids n now xs = Inr rs"
  shows "map sp_id rs = map ids [n..<n + length xs]" and "length rs = length xs"
    and "list_all2 (\<lambda>x r. sp_service_id r = snd x \<and> sp_trace_id r = ts_trace_id (fst x)
      \<and> sp_span_id r = ts_span_id (fst x) \<and> sp_parent_span_id r = ts_parent_span_id (fst x)
      \<and> sp_source r = ts_source (fst x) \<and> sp_operation r = ts_operation (fst x) \<and> sp_status r = ts_status (fst x)
      \<and> ts_started_at (fst x) = Aware (sp_started_at r) \<and> ts_ended_at (fst x) = Aware (sp_ended_at r)
      \<and> sp_duration_us r = sp_ended_at r - sp_started_at r \<and> sp_attributes r = ts_attributes (fst x)
      \<and> sp_received_at r = now) xs rs" (is "list_all2 ?P xs rs")
proof -
  have "map sp_id rs = map ids [n..<n + length xs] \<and> length rs = length xs \<and> list_all2 ?P xs rs"
    using assms
  proof (induction xs arbitrary: n rs)
    case (Cons x xs)
    then obtain r qs where q: "span_row (ids n) now x = Inr r" "span_rows ids (Suc n) now xs = Inr qs"
      "rs = r # qs" by (auto simp: result_simps)
    have "[n..<n + length (x # xs)] = n # [Suc n..<Suc n + length xs]" by (subst upt_rec) simp
    then show ?case
      using Cons.IH [OF q(2)] q(1,3)
      by (auto simp: span_row_def result_simps column_time_def split: timestamp.splits)
  qed simp
  then show "map sp_id rs = map ids [n..<n + length xs]" and "length rs = length xs"
    and "list_all2 ?P xs rs" by auto
qed

lemma ingest_trace_cases:
  assumes "ingest_trace env db batch = (x, db')"
  shows "db' = db \<and> (\<forall>a. x \<noteq> Inr a) \<or> (\<exists>t resolved records. remdups (map ts_trace_id batch) = [t]
    \<and> distinct (map ts_span_id batch) \<and> find_existing_span_ids db t (map ts_span_id batch) = []
    \<and> resolve span_identity db [] batch = Inr resolved
    \<and> span_rows (env_ids env) 0 (env_now env) resolved = Inr records
    \<and> spans_unique (spans db @ records) \<and> x = Inr records \<and> db' = db\<lparr>spans := spans db @ records\<rparr>)"
  using assms unfolding ingest_trace_def
  by (auto simp: Let_def transaction_def result_simps rbind_def db_step_def ensure_def
      split: sum.splits list.splits if_splits)

lemma valid_span_timing:
  assumes "validate_span s = SpanValid"
  shows "valid_span_fields (strip_span s)" and "later_than (ts_started_at s) (ts_ended_at s) = Some False"
    and "ts_parent_span_id (strip_span s) \<noteq> Some (ts_span_id (strip_span s))"
  using assms by (auto simp: validate_span_def validate_timing_and_identity_def strip_span_def
      split: if_splits option.splits)

lemma validate_trace_batchD:
  assumes "validate_trace_batch xs = SpanValid"
  shows "xs \<noteq> []" and "length xs \<le> 1000" and "s \<in> set xs \<Longrightarrow> validate_span s = SpanValid"
proof -
  show "xs \<noteq> []" "length xs \<le> 1000" using assms by (auto simp: validate_trace_batch_def split: if_splits)
  show "s \<in> set xs \<Longrightarrow> validate_span s = SpanValid"
    using assms by (cases "validate_span s") (auto simp: validate_trace_batch_def split: if_splits)
qed

lemma ingest_trace_ok:
  assumes run: "ingest_trace env db (map strip_span body) = (x, db')" and ok: "obs_ok db"
    and valid: "validate_trace_batch body = SpanValid"
  shows "obs_ok db'"
proof (cases "db' = db")
  case False
  obtain resolved records where resolved: "resolve span_identity db [] (map strip_span body) = Inr resolved"
    and records: "span_rows (env_ids env) 0 (env_now env) resolved = Inr records"
    and unique: "spans_unique (spans db @ records)" and db': "db' = db\<lparr>spans := spans db @ records\<rparr>"
    using ingest_trace_cases [OF run] False by auto
  have "span_wf db r" if "r \<in> set records" for r
  proof -
    from list_all2_right [OF span_rows_Inr(3) [OF records] that] obtain y where y: "y \<in> set resolved"
      "sp_service_id r = snd y" "sp_trace_id r = ts_trace_id (fst y)" "sp_span_id r = ts_span_id (fst y)"
      "sp_parent_span_id r = ts_parent_span_id (fst y)" "ts_started_at (fst y) = Aware (sp_started_at r)"
      "ts_ended_at (fst y) = Aware (sp_ended_at r)" "sp_duration_us r = sp_ended_at r - sp_started_at r"
      by blast
    have "fst y \<in> set (map fst resolved)" using y(1) by simp
    then have "fst y \<in> set (map strip_span body)" by (simp add: resolve_Inr(1) [OF resolved])
    then obtain s where s: "s \<in> set body" "fst y = strip_span s" by auto
    note v = valid_span_timing [OF validate_trace_batchD(3) [OF valid s(1)]]
    have "registered (services db) (snd y) (span_identity (fst y))" by (rule resolve_Inr(2) [OF resolved y(1)])
    then have "snd y \<in> ms_id ` set (services db)" unfolding registered_def by (metis image_eqI)
    moreover have "later_than (Aware (sp_started_at r)) (Aware (sp_ended_at r)) = Some False"
      using v(2) y(6,7) by (simp add: s(2) strip_span_def)
    ultimately show ?thesis
      using v(1,3) y by (auto simp: span_wf_def valid_span_fields_def later_than_def s(2))
  qed
  then have "spans_ok db'"
    using ok unique by (auto simp: obs_ok_parts db' span_wf_def)
  then show ?thesis
    using ok by (simp add: obs_ok_def services_ok_def telemetry_ok_def anomalies_ok_def incidents_ok_def
        correlations_ok_def correlation_wf_def links_of_def db')
qed (use ok in simp)

end
