(* ===== verification/Obs_Claims.thy ===== *)
theory Obs_Claims
  imports Obs_Correct
begin

text \<open>
  The platform as the sequence of requests it serves, and the properties of its tables: what every
  sequence of requests keeps, what one ingestion adds, how a root cause is chosen, that an incident is
  correlated once and resolved once when requests are served one after the other, what an unlocked read
  lets two concurrent changes of one incident do, and that traces read back what was ingested.
\<close>

section \<open>Requests one after the other\<close>

datatype obs_call =
    RegisterService service_create
  | IngestTelemetry "telemetry_item list"
  | ChangeIncident uuid incident_change
  | AnalyzeIncidents time analyze_request
  | IngestTrace "trace_span_create list"

fun obs_run :: "env \<Rightarrow> obs_call \<Rightarrow> obs_db \<Rightarrow> obs_db" where
  "obs_run env (RegisterService d) db = snd (register_service_endpoint env db d)"
| "obs_run env (IngestTelemetry body) db = snd (ingest_telemetry_endpoint env db body)"
| "obs_run env (ChangeIncident i c) db = snd (change_incident_endpoint env db i c)"
| "obs_run env (AnalyzeIncidents t q) db = snd (analyze_incidents_endpoint env t db q)"
| "obs_run env (IngestTrace body) db = snd (ingest_trace_endpoint env db body)"

inductive obs_served :: "obs_db \<Rightarrow> bool" where
  start: "obs_served empty_obs_db"
| request: "obs_served db \<Longrightarrow> fresh_ids env db \<Longrightarrow> obs_served (obs_run env c db)"

lemma empty_obs_ok: "obs_ok empty_obs_db"
  by (simp add: obs_ok_parts empty_obs_db_def spans_unique_def)

lemma register_endpoint_db:
  "snd (register_service_endpoint env db d) = db
    \<or> (\<exists>d' x. register env db d' = (x, snd (register_service_endpoint env db d)))"
  by (auto simp: register_service_endpoint_def split: option.splits prod.splits sum.splits obs_error.splits)

lemma ingest_endpoint_db:
  "snd (ingest_telemetry_endpoint env db body) = db
    \<or> (\<exists>batch x. validate_batch body = Some batch
        \<and> ingest env db batch = (x, snd (ingest_telemetry_endpoint env db body)))"
  by (auto simp: ingest_telemetry_endpoint_def split: option.splits prod.splits sum.splits obs_error.splits)

lemma snd_incident_result [simp]: "snd (incident_result code x) = snd x"
  by (auto simp: incident_result_def split: prod.splits sum.splits obs_error.splits)

lemma change_endpoint_db:
  "snd (change_incident_endpoint env db i c) = db
    \<or> (\<exists>c' x. change_incident env db i c' = (x, snd (change_incident_endpoint env db i c)))"
  by (cases "valid_change c") (auto simp: change_incident_endpoint_def, metis prod.collapse)

lemma analyze_endpoint_db:
  "snd (analyze_incidents_endpoint env t db q) = db
    \<or> (\<exists>q' x. validate_analyze_request q = Some q'
        \<and> analyze_correlation env t db q' = (x, snd (analyze_incidents_endpoint env t db q)))"
  by (auto simp: analyze_incidents_endpoint_def split: option.splits prod.splits sum.splits obs_error.splits)

lemma trace_endpoint_db:
  "snd (ingest_trace_endpoint env db body) = db
    \<or> (\<exists>x. validate_trace_batch body = SpanValid
        \<and> ingest_trace env db (map strip_span body) = (x, snd (ingest_trace_endpoint env db body)))"
  by (auto simp: ingest_trace_endpoint_def split: span_validation.splits prod.splits sum.splits obs_error.splits)

lemma validate_batch_length: "validate_batch body = Some batch \<Longrightarrow> length batch \<le> 1000"
  by (auto simp: validate_batch_def Let_def split: if_splits)

lemma validate_analyze_minimum: "validate_analyze_request q = Some q' \<Longrightarrow> 2 \<le> ar_minimum_incidents q'"
  by (auto simp: validate_analyze_request_def Let_def split: if_splits)

lemma obs_run_ok:
  assumes "obs_ok db" and "fresh_ids env db"
  shows "obs_ok (obs_run env c db)"
proof (cases c)
  case (RegisterService d)
  then show ?thesis using register_endpoint_db [of env db d] register_ok [OF _ assms] assms(1) by auto
next
  case (IngestTelemetry body)
  then show ?thesis
    using ingest_endpoint_db [of env db body] ingest_ok [OF _ assms validate_batch_length] assms(1) by auto
next
  case (ChangeIncident i ch)
  then show ?thesis using change_endpoint_db [of env db i ch] change_incident_ok [OF _ assms(1)] assms(1) by auto
next
  case (AnalyzeIncidents t q)
  then show ?thesis
    using analyze_endpoint_db [of env t db q] analyze_correlation_ok [OF _ assms validate_analyze_minimum] assms(1)
    by auto
next
  case (IngestTrace body)
  then show ?thesis using trace_endpoint_db [of env db body] ingest_trace_ok [OF _ assms(1)] assms(1) by auto
qed

lemma served_ok: "obs_served db \<Longrightarrow> obs_ok db"
  by (induction rule: obs_served.induct) (simp_all add: empty_obs_ok obs_run_ok)

section \<open>What every sequence of requests keeps\<close>

text \<open>C16: In the tables after any sequence of requests, each answered with or without failures of the
  database: no two services share a name and an environment, the anomalies are the findings of the stored
  telemetry, the incidents are exactly the critical anomalies and their fields follow their status, each
  correlation joins at least two incidents of one service among them its root cause, no incident is in
  two correlations, and spans are unique in their trace, end after they start and are not their own parent.\<close>

theorem served_tables_consistent: "obs_served db \<Longrightarrow> obs_ok db"
  by (rule served_ok)

definition demo_env :: "nat \<Rightarrow> time \<Rightarrow> env" where
  "demo_env k now = \<lparr>env_now = now, env_ids = (\<lambda>n. of_nat (n + k)), env_flush_fault = None, env_fault = None\<rparr>"

lemma demo_ids: "unat (of_nat n :: uuid) = n" if "n < 1000000"
  using that by (simp add: unsigned_of_nat take_bit_nat_eq_self)

lemma demo_fresh:
  assumes "k \<le> 100000" and "\<And>i. i \<in> obs_ids db \<Longrightarrow> unat i < k"
  shows "fresh_ids (demo_env k now) db"
proof -
  have eq: "unat (env_ids (demo_env k now) n) = n + k" if "n < 3000" for n
    using that assms(1) by (simp add: demo_env_def demo_ids del: of_nat_add)
  have "inj_on (env_ids (demo_env k now)) {..<3000}"
    by (rule inj_onI) (use eq in \<open>metis add_right_cancel lessThan_iff\<close>)
  moreover have "env_ids (demo_env k now) n \<notin> obs_ids db" if "n < 3000" for n
    using assms(2) [of "env_ids (demo_env k now) n"] eq [OF that] by auto
  ultimately show ?thesis by (auto simp: fresh_ids_def)
qed

definition demo_service :: monitored_service where
  "demo_service = \<lparr>ms_id = 1, ms_name = ''shop'', ms_environment = PRODUCTION, ms_description = None,
     ms_created_at = 5, ms_updated_at = 5\<rparr>"

definition demo_registered :: obs_db where
  "demo_registered = empty_obs_db\<lparr>services := [demo_service]\<rparr>"

definition demo_base :: "time \<Rightarrow> telemetry_base" where
  "demo_base t = \<lparr>tb_service = ''shop'', tb_environment = PRODUCTION, tb_source = ''host'',
     tb_timestamp = Aware t, tb_attributes = []\<rparr>"

definition demo_batch :: "telemetry_item list" where
  "demo_batch = [MetricTelemetry (demo_base 7) ''cpu_usage'' ''95.0'' (Some ''percent''),
     LogTelemetry (demo_base 8) LOG_INFO ''ok'',
     EventTelemetry (demo_base 9) ''crash'' EVENT_CRITICAL None]"

definition demo_ingested :: obs_db where
  "demo_ingested = obs_run (demo_env 10 100) (IngestTelemetry demo_batch) demo_registered"

lemma demo_registered_run:
  "obs_run (demo_env 1 5) (RegisterService \<lparr>sc_name = '' shop '', sc_environment = PRODUCTION, sc_description = None\<rparr>)
     empty_obs_db = demo_registered"
  by code_simp

lemma demo_registered_served: "obs_served demo_registered"
  unfolding demo_registered_run [symmetric]
  by (rule request [OF start]) (rule demo_fresh, simp_all add: obs_ids_def empty_obs_db_def)

lemma demo_ingested_served: "obs_served demo_ingested"
  unfolding demo_ingested_def
  by (rule request [OF demo_registered_served])
     (rule demo_fresh, simp_all add: obs_ids_def demo_registered_def demo_service_def empty_obs_db_def)

lemma demo_ingested_incidents:
  "map (\<lambda>i. (in_id i, in_trigger_anomaly_id i, in_status i)) (incidents demo_ingested) = [(15, 13, OPEN), (16, 14, OPEN)]"
  by code_simp

theorem served_tables_consistent_witness: "obs_ok demo_ingested \<and> length (incidents demo_ingested) = 2"
proof -
  have "length (incidents demo_ingested) = 2"
    using demo_ingested_incidents [THEN arg_cong [where f = length]] by simp
  then show ?thesis using served_tables_consistent [OF demo_ingested_served] by blast
qed

section \<open>Ingestion\<close>

lemma map_enumerate_snd: "map (\<lambda>(k, x). g x) (enumerate n xs) = map g xs"
proof -
  have "map (\<lambda>(k, x). g x) (enumerate n xs) = map g (map snd (enumerate n xs))"
    by (simp add: case_prod_beta comp_def del: map_snd_enumerate)
  then show ?thesis by simp
qed

lemma findings_of_fst: "map fst (findings_of rs) = concat (map evaluate (map tr_payload rs))"
  by (induction rs) (simp_all add: findings_of_def comp_def)

lemma anomaly_rows_findings:
  "map (\<lambda>a. (an_rule_id a, an_category a, an_severity a, an_description a)) (map fst (anomaly_rows ids n now xs))
     = map (\<lambda>f. (af_rule_id f, af_category f, af_severity f, af_description f)) (map fst xs)"
proof -
  have "map (\<lambda>a. (an_rule_id a, an_category a, an_severity a, an_description a)) (map fst (anomaly_rows ids n now xs))
      = map (\<lambda>(k, x). (af_rule_id (fst x), af_category (fst x), af_severity (fst x), af_description (fst x))) (enumerate n xs)"
    by (simp add: anomaly_rows_def anomaly_row_def case_prod_beta comp_def)
  then show ?thesis by (simp add: map_enumerate_snd comp_def)
qed

lemma map_fst_filter: "map (g \<circ> fst) (filter (\<lambda>x. P (fst x)) xs) = map g (filter P (map fst xs))"
  by (induction xs) simp_all

lemma ingest_endpoint_cases:
  assumes "ingest_telemetry_endpoint env db body = (Reply code r, db')"
  shows "code = 202 \<and> (\<exists>batch. validate_batch body = Some batch \<and> ingest env db batch = (Inr r, db'))"
  using assms
  by (auto simp: ingest_telemetry_endpoint_def unprocessable_def server_error_def
      split: option.splits prod.splits sum.splits obs_error.splits)

lemma ingest_error:
  assumes "ingest env db batch = (Inl e, db')"
  shows "db' = db"
  using assms ingest_cases [OF assms] by (auto simp: Let_def)

text \<open>C17: An accepted ingestion answers 202 and stores each item of the validated batch, in order; it
  stores one anomaly for each finding of the rules on these items, in order, and opens one incident for
  each of these anomalies that is critical and for no other, and it returns the identifiers of exactly
  these rows. A refused ingestion stores nothing, whatever the reason, so a batch with one unregistered
  service is refused as a whole.\<close>

theorem ingestion_all_or_nothing:
  assumes "ingest_telemetry_endpoint env db body = (x, db')"
  shows "case x of
      HTTPException _ _ \<Rightarrow> db' = db
    | Reply code r \<Rightarrow> code = 202 \<and> (\<exists>batch tel ano inc. validate_batch body = Some batch
        \<and> db' = db\<lparr>telemetry := telemetry db @ tel, anomalies := anomalies db @ ano, incidents := incidents db @ inc\<rparr>
        \<and> map tr_payload tel = batch
        \<and> map (\<lambda>a. (an_rule_id a, an_category a, an_severity a, an_description a)) ano
          = map (\<lambda>f. (af_rule_id f, af_category f, af_severity f, af_description f)) (concat (map evaluate batch))
        \<and> map in_trigger_anomaly_id inc = map an_id (filter (\<lambda>a. an_severity a = CRITICAL) ano)
        \<and> (\<forall>i\<in>set inc. in_status i = OPEN)
        \<and> ir_telemetry_ids r = map tr_id tel \<and> ir_anomaly_ids r = map an_id ano \<and> ir_incident_ids r = map in_id inc)"
proof (cases x)
  case (HTTPException code d)
  then show ?thesis using assms ingest_error
    by (auto simp: ingest_telemetry_endpoint_def unprocessable_def server_error_def
      split: option.splits prod.splits sum.splits obs_error.splits)
next
  case (Reply code r)
  from ingest_endpoint_cases [OF assms [unfolded Reply]] obtain batch where code: "code = 202"
    and batch: "validate_batch body = Some batch" and run: "ingest env db batch = (Inr r, db')" by blast
  from ingest_cases [OF run] obtain resolved records found opened
    where resolved: "resolve item_identity db [] batch = Inr resolved"
    and records: "telemetry_rows (env_ids env) 0 (env_now env) resolved = Inr records"
    and found: "found = anomaly_rows (env_ids env) (length records) (env_now env) (findings_of records)"
    and opened: "opened = incident_rows (env_ids env) (length records + length found) (env_now env) found"
    and r: "r = \<lparr>ir_telemetry_ids = map tr_id records, ir_received_at = env_now env,
      ir_anomaly_ids = map (an_id \<circ> fst) found, ir_incident_ids = map in_id opened\<rparr>"
    and db': "db' = db\<lparr>telemetry := telemetry db @ records, anomalies := anomalies db @ map fst found,
      incidents := incidents db @ opened\<rparr>"
    by (auto simp: Let_def)
  have "list_all2 (\<lambda>x r. tr_payload r = fst x) resolved records"
    using telemetry_rows_Inr(3) [OF records] by (rule list_all2_mono) simp
  then have "map fst resolved = map tr_payload records" by (induction rule: list_all2_induct) simp_all
  then have payload: "map tr_payload records = batch" using resolve_Inr(1) [OF resolved] by simp
  have "map in_trigger_anomaly_id opened = map an_id (filter (\<lambda>a. an_severity a = CRITICAL) (map fst found))"
    unfolding opened incident_rows_props(2) by (rule map_fst_filter)
  moreover have "\<forall>i\<in>set opened. in_status i = OPEN" using incident_rows_props(3) unfolding opened by blast
  moreover note anomaly_rows_findings [of "env_ids env" "length records" "env_now env" "findings_of records",
      folded found, unfolded findings_of_fst payload]
  ultimately have "\<exists>batch tel ano inc. validate_batch body = Some batch
        \<and> db' = db\<lparr>telemetry := telemetry db @ tel, anomalies := anomalies db @ ano, incidents := incidents db @ inc\<rparr>
        \<and> map tr_payload tel = batch
        \<and> map (\<lambda>a. (an_rule_id a, an_category a, an_severity a, an_description a)) ano
          = map (\<lambda>f. (af_rule_id f, af_category f, af_severity f, af_description f)) (concat (map evaluate batch))
        \<and> map in_trigger_anomaly_id inc = map an_id (filter (\<lambda>a. an_severity a = CRITICAL) ano)
        \<and> (\<forall>i\<in>set inc. in_status i = OPEN)
        \<and> ir_telemetry_ids r = map tr_id tel \<and> ir_anomaly_ids r = map an_id ano \<and> ir_incident_ids r = map in_id inc"
    using batch db' payload
    by (intro exI [of _ batch] exI [of _ records] exI [of _ "map fst found"] exI [of _ opened]) (simp add: r)
  then show ?thesis using code by (simp add: Reply)
qed

lemma demo_ingest_reply:
  "ingest_telemetry_endpoint (demo_env 10 100) demo_registered demo_batch =
     (Reply 202 \<lparr>ir_telemetry_ids = [10, 11, 12], ir_received_at = 100, ir_anomaly_ids = [13, 14],
        ir_incident_ids = [15, 16]\<rparr>, demo_ingested)"
  by code_simp

theorem ingestion_all_or_nothing_witness:
  "length (telemetry demo_ingested) = 3 \<and> map in_status (incidents demo_ingested) = [OPEN, OPEN]"
proof -
  let ?r = "\<lparr>ir_telemetry_ids = [10, 11, 12], ir_received_at = 100, ir_anomaly_ids = [13, 14],
        ir_incident_ids = [15, 16]\<rparr>"
  obtain tel ano inc where db: "demo_ingested = demo_registered\<lparr>telemetry := telemetry demo_registered @ tel,
      anomalies := anomalies demo_registered @ ano, incidents := incidents demo_registered @ inc\<rparr>"
    and rows: "ir_telemetry_ids ?r = map tr_id tel" "ir_incident_ids ?r = map in_id inc"
      "\<forall>i\<in>set inc. in_status i = OPEN"
    using ingestion_all_or_nothing [OF demo_ingest_reply, unfolded endpoint_result.case] by blast
  have "length tel = length (ir_telemetry_ids ?r)" "length inc = length (ir_incident_ids ?r)"
    by (simp_all only: rows(1,2) length_map)
  moreover have "map in_status inc = replicate (length inc) OPEN"
    using rows(3) by (simp add: map_replicate_const [symmetric] cong: map_cong)
  ultimately show ?thesis by (simp add: db demo_registered_def empty_obs_db_def numeral_eq_Suc)
qed

text \<open>Resolving the services of a batch through the cache that fills while the batch is read gives
  the same result, or the same first error, as looking each item up in the table, for telemetry items
  and for spans.\<close>

theorem cached_resolution_is_lookup: "resolve ident db [] xs = resolve_each ident db xs"
  by (rule resolve_cached) simp

section \<open>Root causes\<close>

lemma str_uuid_inj: "str_uuid u = str_uuid v \<Longrightarrow> u = v"
proof -
  have split: "h = take 8 h @ take 4 (drop 8 h) @ take 4 (drop 12 h) @ take 4 (drop 16 h) @ drop 20 h" for h :: string
    using take_add [of 8 4 h] take_add [of 12 4 h] take_add [of 16 4 h] append_take_drop_id [of 20 h]
    by (simp del: append_take_drop_id)
  assume "str_uuid u = str_uuid v"
  then have "uuid_hex u = uuid_hex v"
    using split [of "uuid_hex u"] split [of "uuid_hex v"] by (simp add: str_uuid_def Let_def)
  then show ?thesis by (rule uuid_hex_inj)
qed

lemma candidate_key_inj:
  "candidate_key c = candidate_key d \<Longrightarrow> rc_anomaly_id c = rc_anomaly_id d"
  by (auto simp: candidate_key_def dest: str_uuid_inj)

text \<open>C18: The root cause of a group of signals does not depend on the order in which the database
  returns them. It is the signal with the highest confidence, and among these the earliest; its
  confidence lies between 0.35 and 1.00, and there is a root cause unless there is no signal.\<close>

theorem root_cause_is_best_signal:
  assumes "mset signals = mset signals'" and "distinct (map cs_anomaly_id signals)"
  shows "analyze signals' = analyze signals
    \<and> (case analyze signals of None \<Rightarrow> signals = []
       | Some c \<Rightarrow> 35 \<le> rc_confidence_score c \<and> rc_confidence_score c \<le> 100
           \<and> (\<exists>s\<in>set signals. rc_anomaly_id c = cs_anomaly_id s \<and> rc_incident_id c = cs_incident_id s)
           \<and> (\<forall>s\<in>set signals.
                let score = signal_score (earliest_observed_at signals) (source_count signals (cs_source s)) s
                in score \<le> rc_confidence_score c
                  \<and> (score = rc_confidence_score c \<longrightarrow> rc_observed_at c \<le> cs_observed_at s)))"
proof (cases "analyze signals")
  case None
  then show ?thesis using assms(1) by simp
next
  case (Some c)
  have set: "set signals' = set signals" using assms(1) by (metis mset_eq_setD)
  have count: "source_count signals' k = source_count signals k" for k
    using assms(1) unfolding source_count_def by (metis mset_filter size_mset)
  have early: "earliest_observed_at signals' = earliest_observed_at signals"
    by (simp add: earliest_observed_at_def set)
  let ?f = "\<lambda>s. score_signal (earliest_observed_at signals) (source_count signals (cs_source s)) s"
  have "signals' \<noteq> []" using Some set by (cases signals) auto
  then obtain d where d: "analyze signals' = Some d" by fastforce
  from analyze_candidates(1) [OF Some] obtain s where s: "s \<in> set signals" "c = ?f s" by blast
  from analyze_candidates(1) [OF d] obtain t where t: "t \<in> set signals" "d = ?f t"
    unfolding set early count by blast
  have c_least: "candidate_key c \<le> candidate_key (?f u)" if "u \<in> set signals" for u
    using analyze_candidates(2) [OF Some that] .
  have d_least: "candidate_key d \<le> candidate_key (?f u)" if "u \<in> set signals" for u
    using analyze_candidates(2) [OF d, unfolded set early count, OF that] .
  have "candidate_key c = candidate_key d"
    by (rule order_antisym) (use c_least [OF t(1)] d_least [OF s(1)] in \<open>simp_all add: s(2) t(2)\<close>)
  then have "cs_anomaly_id s = cs_anomaly_id t" using candidate_key_inj [of c d] by (simp add: s(2) t(2))
  then have "s = t" using assms(2) s(1) t(1) by (simp add: distinct_map inj_on_def)
  then have same: "analyze signals' = analyze signals" using d Some by (simp add: s(2) t(2))
  have "signal_score (earliest_observed_at signals) (source_count signals (cs_source u)) u \<le> rc_confidence_score c
      \<and> (signal_score (earliest_observed_at signals) (source_count signals (cs_source u)) u = rc_confidence_score c
          \<longrightarrow> rc_observed_at c \<le> cs_observed_at u)" if "u \<in> set signals" for u
    using c_least [OF that] by (auto simp: candidate_key_def)
  then show ?thesis using same Some s signal_score_bounds by (auto simp: Let_def)
qed

definition demo_signal :: "uuid \<Rightarrow> anomaly_category \<Rightarrow> time \<Rightarrow> correlation_signal" where
  "demo_signal i c t = \<lparr>cs_anomaly_id = i, cs_incident_id = i + 10, cs_rule_id = ''r'', cs_category = c,
     cs_severity = CRITICAL, cs_source = ''host'', cs_observed_at = t\<rparr>"

theorem root_cause_is_best_signal_witness:
  "map_option rc_anomaly_id (analyze [demo_signal 1 METRIC_THRESHOLD 7, demo_signal 2 EVENT_SEVERITY 9]) = Some 1
    \<and> analyze [demo_signal 2 EVENT_SEVERITY 9, demo_signal 1 METRIC_THRESHOLD 7]
      = analyze [demo_signal 1 METRIC_THRESHOLD 7, demo_signal 2 EVENT_SEVERITY 9]"
proof -
  have "map_option rc_anomaly_id (analyze [demo_signal 1 METRIC_THRESHOLD 7, demo_signal 2 EVENT_SEVERITY 9]) = Some 1"
    by code_simp
  moreover have "analyze [demo_signal 2 EVENT_SEVERITY 9, demo_signal 1 METRIC_THRESHOLD 7]
      = analyze [demo_signal 1 METRIC_THRESHOLD 7, demo_signal 2 EVENT_SEVERITY 9]"
    by (rule conjunct1 [OF root_cause_is_best_signal]) (simp_all add: demo_signal_def)
  ultimately show ?thesis by simp
qed

section \<open>The life of an incident\<close>

lemma incidents_kept:
  "register env db d = (x, db') \<Longrightarrow> incidents db' = incidents db"
  "ingest env db batch = (y, db') \<Longrightarrow> set (incidents db) \<subseteq> set (incidents db')"
  "analyze_correlation env t db q = (z, db') \<Longrightarrow> incidents db' = incidents db"
  "ingest_trace env db batch2 = (w, db') \<Longrightarrow> incidents db' = incidents db"
  by (auto simp: Let_def dest!: register_cases ingest_cases analyze_correlation_cases ingest_trace_cases)

text \<open>C19: When requests are served one after the other, a resolved incident never changes again, whatever
  is requested: who resolved it, when and with which summary stay what they are.\<close>

theorem resolved_incident_is_final:
  assumes "obs_served db" and "r \<in> set (incidents db)" and "in_status r = RESOLVED"
  shows "r \<in> set (incidents (obs_run env c db))"
proof (cases c)
  case (RegisterService d)
  then show ?thesis using register_endpoint_db [of env db d] incidents_kept(1) assms(2) by fastforce
next
  case (IngestTelemetry body)
  then show ?thesis using ingest_endpoint_db [of env db body] incidents_kept(2) assms(2) by fastforce
next
  case (ChangeIncident i ch)
  have keep: "r \<in> set (incidents db')" if run: "change_incident env db i ch' = (x, db')" for ch' x db'
  proof (cases "db' = db")
    case False
    then obtain r0 where r0: "find (\<lambda>r. in_id r = i) (incidents db) = Some r0" "change_allowed ch' r0 = Inr ()"
      "db' = db\<lparr>incidents := update_row in_id i (changed ch' (env_now env)) (incidents db)\<rparr>"
      using change_incident_cases [OF run] by auto
    have "distinct (map in_id (incidents db))" using served_ok [OF assms(1)] by (simp add: obs_ok_parts)
    then have "in_id r = i \<Longrightarrow> r0 = r" using find_key_distinct [of in_id "incidents db" r] assms(2) r0(1) by simp
    then have "in_id r \<noteq> i"
      using r0(2) assms(3) by (auto simp: change_allowed_def result_simps split: incident_change.splits)
    then show ?thesis using assms(2) by (auto simp: r0(3) set_update_row)
  qed (use assms(2) in simp)
  show ?thesis using change_endpoint_db [of env db i ch] keep assms(2) by (auto simp: ChangeIncident)
next
  case (AnalyzeIncidents t q)
  then show ?thesis using analyze_endpoint_db [of env t db q] incidents_kept(3) assms(2) by fastforce
next
  case (IngestTrace body)
  then show ?thesis using trace_endpoint_db [of env db body] incidents_kept(4) assms(2) by fastforce
qed

definition demo_resolved :: obs_db where
  "demo_resolved = obs_run (demo_env 20 200) (ChangeIncident 15 (Resolve ''ann'' ''done'')) demo_ingested"

lemma demo_ingested_ids: "i \<in> obs_ids demo_ingested \<Longrightarrow> unat i < 20"
proof -
  have "list_all (\<lambda>i. unat i < 20) (map ms_id (services demo_ingested) @ map tr_id (telemetry demo_ingested)
      @ map an_id (anomalies demo_ingested) @ map in_id (incidents demo_ingested)
      @ map co_id (correlations demo_ingested) @ map sp_id (spans demo_ingested))"
    by code_simp
  then show "i \<in> obs_ids demo_ingested \<Longrightarrow> unat i < 20" by (auto simp: obs_ids_def list_all_iff)
qed

lemma demo_resolved_served: "obs_served demo_resolved"
  unfolding demo_resolved_def
  by (rule request [OF demo_ingested_served], rule demo_fresh) (use demo_ingested_ids in simp_all)

theorem resolved_incident_is_final_witness:
  "\<exists>r\<in>set (incidents (obs_run (demo_env 30 300) (ChangeIncident 15 (Acknowledge ''bob'')) demo_resolved)).
     in_id r = 15 \<and> in_status r = RESOLVED"
proof -
  have "list_ex (\<lambda>r. in_id r = 15 \<and> in_status r = RESOLVED) (incidents demo_resolved)" by code_simp
  then obtain r where "r \<in> set (incidents demo_resolved)" "in_id r = 15" "in_status r = RESOLVED"
    by (auto simp: list_ex_iff)
  then show ?thesis using resolved_incident_is_final [OF demo_resolved_served] by blast
qed

text \<open>C20: Two requests that change one incident at the same time are not served one after the other: a
  request reads the row and checks its status without locking it, so when an acknowledgement has read an
  open incident and a resolution commits before it writes, the acknowledgement is accepted and reopens the
  resolved incident as acknowledged, leaving the columns of its resolution filled.\<close>

theorem acknowledgement_reopens_resolved_incident:
  assumes "obs_served db" and "read_incident db i (Acknowledge who) = Inr seen"
    and "change_incident env db i (Resolve resolver summary) = (Inr r, db')"
    and "env_flush_fault env' = None" and "env_fault env' = None"
  shows "in_status r = RESOLVED \<and> (\<exists>r' db''. write_incident env' db' i (Acknowledge who) = (Inr r', db'')
    \<and> r' \<in> set (incidents db'') \<and> in_id r' = i \<and> in_status r' = ACKNOWLEDGED
    \<and> in_resolved_by r' = Some resolver \<and> \<not> incidents_ok db'')"
proof -
  from change_incident_cases [OF assms(3)] obtain r0 where r0: "find (\<lambda>r. in_id r = i) (incidents db) = Some r0"
    and r: "r = changed (Resolve resolver summary) (env_now env) r0"
    and db': "db' = db\<lparr>incidents := update_row in_id i (changed (Resolve resolver summary) (env_now env)) (incidents db)\<rparr>"
    by auto
  have found: "find (\<lambda>r. in_id r = i) (incidents db') = Some r"
    using find_update_row_same [of in_id "changed (Resolve resolver summary) (env_now env)" i "incidents db"] r0
    by (simp add: db' r)
  let ?ack = "changed (Acknowledge who) (env_now env')"
  have broken: "\<not> incident_wf (?ack r)" by (simp add: incident_wf_def changed_def r)
  define db'' where "db'' = db'\<lparr>incidents := update_row in_id i ?ack (incidents db')\<rparr>"
  have found': "find (\<lambda>r. in_id r = i) (incidents db'') = Some (?ack r)"
    using find_update_row_same [of in_id ?ack i "incidents db'"] found by (simp add: db''_def)
  then have "write_incident env' db' i (Acknowledge who) = (Inr (?ack r), db'')"
    using assms(4,5) by (simp add: write_incident_def Let_def flip: db''_def)
  moreover have "?ack r \<in> set (incidents db'')" "in_id (?ack r) = i" using find_row_SomeD [OF found'] by simp_all
  moreover from this(1) have "\<not> incidents_ok db''"
    unfolding incidents_ok_def by (metis broken)
  ultimately show ?thesis by (auto simp: r changed_def)
qed

theorem acknowledgement_reopens_resolved_incident_witness:
  "\<exists>r db'' db'. change_incident (demo_env 20 200) demo_ingested 15 (Resolve ''ann'' ''done'') = (Inr r, db')
     \<and> in_status r = RESOLVED \<and> \<not> incidents_ok db''
     \<and> (\<exists>r'. write_incident (demo_env 30 300) db' 15 (Acknowledge ''bob'') = (Inr r', db'') \<and> in_status r' = ACKNOWLEDGED)"
proof -
  have "(case read_incident demo_ingested 15 (Acknowledge ''bob'') of Inl _ \<Rightarrow> False | Inr _ \<Rightarrow> True)"
    and "(case fst (change_incident (demo_env 20 200) demo_ingested 15 (Resolve ''ann'' ''done'')) of
        Inl _ \<Rightarrow> False | Inr _ \<Rightarrow> True)" by code_simp+
  then obtain seen r db' where "read_incident demo_ingested 15 (Acknowledge ''bob'') = Inr seen"
    and run: "change_incident (demo_env 20 200) demo_ingested 15 (Resolve ''ann'' ''done'') = (Inr r, db')"
    by (cases "change_incident (demo_env 20 200) demo_ingested 15 (Resolve ''ann'' ''done'')")
      (auto split: sum.splits)
  from acknowledgement_reopens_resolved_incident [OF demo_ingested_served this, of "demo_env 30 300"]
  show ?thesis using run by (auto simp: demo_env_def)
qed

end
