(* ===== verification/Obs_Reads.thy ===== *)
theory Obs_Reads
  imports Obs_Claims
begin

text \<open>
  What the platform reads back: a created correlation is returned by its identifier and takes its
  incidents out of later analyses, an ingested trace is reconstructed with the spans that were sent, and
  the timestamps without a time zone that the schemas accept and the code behind them does not.
\<close>

section \<open>Correlations\<close>

lemma analyze_correlation_stored:
  assumes run: "analyze_correlation env t db q = (Inr resp, db')" and ok: "obs_ok db"
  obtains co s ids root i a x e n where
    "resp = \<lparr>cr_correlation = co, cr_service = s, cr_incident_ids = ids, cr_root_cause = root\<rparr>"
    "co_id co = env_ids env 0" "co_service_id co = ms_id s" "co_root_cause_anomaly_id co = an_id a"
    "co_root_cause_incident_id co = in_id i" "co_root_cause_confidence co = rc_confidence_score root"
    "co_root_cause_reasons co = rc_reasons root" "root = score_signal e n (row_signal (i, a, x, s))"
    "i \<in> set (incidents db)" "a \<in> set (anomalies db)" "x \<in> set (telemetry db)" "tr_id x = an_telemetry_id a"
    "s \<in> set (services db)" "ar_minimum_incidents q \<le> int (length ids)" "\<forall>i\<in>set ids. uncorrelated db i"
    "db' = db\<lparr>correlations := correlations db @ [co], correlation_incidents := correlation_incidents db @
      map (\<lambda>i. \<lparr>ci_correlation_id = co_id co, ci_incident_id = i, ci_added_at = co_created_at co\<rparr>) ids\<rparr>"
proof -
  let ?rows = "find_uncorrelated_incidents db (ar_service q) (ar_environment q)
    (env_now env - ar_window_minutes q * 60000000) (env_now env)"
  have tables: "incidents_ok db" "services_ok db" using ok by (simp_all add: obs_ok_def)
  note mem = find_uncorrelated_props(2) [OF tables refl] and same = find_uncorrelated_props(3) [OF tables refl]
  obtain root r0 a0 x0 s tl co where many: "ar_minimum_incidents q \<le> int (length ?rows)"
    and root: "analyze (map row_signal ?rows) = Some root" and rows: "?rows = (r0, a0, x0, s) # tl"
    and co: "co_id co = env_ids env 0" "co_service_id co = ms_id s" "co_root_cause_anomaly_id co = rc_anomaly_id root"
      "co_root_cause_incident_id co = rc_incident_id root" "co_root_cause_confidence co = rc_confidence_score root"
      "co_root_cause_reasons co = rc_reasons root"
    and resp: "resp = \<lparr>cr_correlation = co, cr_service = s,
      cr_incident_ids = map (\<lambda>(r, _). in_id r) ?rows, cr_root_cause = root\<rparr>"
    and ids: "\<forall>i\<in>set (map (\<lambda>(r, _). in_id r) ?rows). uncorrelated db i"
    and db': "db' = db\<lparr>correlations := correlations db @ [co], correlation_incidents := correlation_incidents db @
      map (\<lambda>i. \<lparr>ci_correlation_id = co_id co, ci_incident_id = i, ci_added_at = co_created_at co\<rparr>)
        (map (\<lambda>(r, _). in_id r) ?rows)\<rparr>"
  proof (rule disjE [OF analyze_correlation_cases [OF run]], goal_cases)
    case 2
    from 2(2) [unfolded sum.inject] show ?case by (elim exE conjE) (rule 2(1))
  qed simp
  have first: "(r0, a0, x0, s) \<in> set ?rows" by (simp add: rows)
  obtain g e n where g: "g \<in> set (map row_signal ?rows)" "root = score_signal e n g"
    using analyze_candidates(1) [OF root] by blast
  then obtain i a x s' where r: "(i, a, x, s') \<in> set ?rows" "g = row_signal (i, a, x, s')" by auto
  have s': "s' = s" by (rule same [OF first r(1)])
  note m = mem [OF r(1) [unfolded s']]
  show thesis
    by (rule that [of co s "map (\<lambda>(r, _). in_id r) ?rows" root a i e n x])
       (use resp co g(2) r(2) m many ids db' in \<open>simp_all add: s' row_signal_def del: map_map\<close>)
qed

lemma find_append_new: "find P xs = None \<Longrightarrow> find P (xs @ ys) = find P ys"
  by (induction xs) auto

lemma analyze_endpoint_reply:
  assumes "analyze_incidents_endpoint env t db body = (Reply code r, db')"
  shows "code = 201 \<and> (\<exists>q. validate_analyze_request body = Some q \<and> analyze_correlation env t db q = (Inr r, db'))"
  using assms
  by (auto simp: analyze_incidents_endpoint_def unprocessable_def server_error_def
      split: option.splits prod.splits sum.splits obs_error.splits)

text \<open>A successful analysis answers 201 with at least two incidents, none of which was in a
  correlation before and all of which are in one afterwards, so no later analysis takes them again; and
  reading the correlation back by its identifier gives the same record, service and root cause, and the
  same incidents up to their order.\<close>

theorem correlation_create_get:
  assumes "obs_served db" and "fresh_ids env db"
    and "analyze_incidents_endpoint env t db body = (Reply code r, db')"
  shows "code = 201 \<and> 2 \<le> length (cr_incident_ids r)
    \<and> (\<forall>i\<in>set (cr_incident_ids r). uncorrelated db i \<and> \<not> uncorrelated db' i)
    \<and> (\<exists>r'. get_correlation_endpoint db' (co_id (cr_correlation r)) = Reply 200 r'
         \<and> cr_correlation r' = cr_correlation r \<and> cr_service r' = cr_service r
         \<and> cr_root_cause r' = cr_root_cause r \<and> mset (cr_incident_ids r') = mset (cr_incident_ids r))"
proof -
  from analyze_endpoint_reply [OF assms(3)] obtain q where code: "code = 201"
    and q: "2 \<le> ar_minimum_incidents q" and run: "analyze_correlation env t db q = (Inr r, db')"
    using validate_analyze_minimum by blast
  have ok: "obs_ok db" by (rule served_ok [OF assms(1)])
  note old_ok = ok [unfolded obs_ok_parts]
  obtain co s ids root i a x e n where
    r: "r = \<lparr>cr_correlation = co, cr_service = s, cr_incident_ids = ids, cr_root_cause = root\<rparr>"
    and co: "co_id co = env_ids env 0" "co_service_id co = ms_id s" "co_root_cause_anomaly_id co = an_id a"
      "co_root_cause_incident_id co = in_id i" "co_root_cause_confidence co = rc_confidence_score root"
      "co_root_cause_reasons co = rc_reasons root" and root: "root = score_signal e n (row_signal (i, a, x, s))"
    and rows: "i \<in> set (incidents db)" "a \<in> set (anomalies db)" "x \<in> set (telemetry db)" "tr_id x = an_telemetry_id a"
      "s \<in> set (services db)"
    and ids: "ar_minimum_incidents q \<le> int (length ids)" "\<forall>i\<in>set ids. uncorrelated db i"
    and db': "db' = db\<lparr>correlations := correlations db @ [co], correlation_incidents := correlation_incidents db @
      map (\<lambda>i. \<lparr>ci_correlation_id = co_id co, ci_incident_id = i, ci_added_at = co_created_at co\<rparr>) ids\<rparr>"
    by (rule analyze_correlation_stored [OF run ok])
  have new: "\<forall>c\<in>set (correlations db). co_id c \<noteq> co_id co"
    using fresh_new [OF assms(2), of 0] unfolding obs_ids_def co(1) by (simp add: image_iff) metis
  have "\<forall>l\<in>set (correlation_incidents db). ci_correlation_id l \<in> co_id ` set (correlations db)"
    using old_ok by simp
  then have "\<forall>l\<in>set (correlation_incidents db). ci_correlation_id l \<noteq> co_id co"
    using new unfolding image_iff by metis
  then have "filter (\<lambda>l. ci_correlation_id l = co_id co) (correlation_incidents db) = []"
    by (simp add: filter_empty_conv)
  then have links: "mset (correlation_incident_ids db' (co_id co)) = mset ids"
    by (simp add: correlation_incident_ids_def db' filter_map comp_def multiset.map_comp multiset.map_ident)
  note size = mset_eq_length [OF links]
  have same_root: "\<lparr>rc_anomaly_id = an_id a, rc_incident_id = in_id i, rc_rule_id = an_rule_id a,
      rc_category = an_category a, rc_severity = an_severity a, rc_source = tr_source x,
      rc_observed_at = tr_observed_at x, rc_confidence_score = rc_confidence_score root,
      rc_reasons = rc_reasons root\<rparr> = root"
    by (rule root_cause_candidate.equality) (simp_all add: root row_signal_def)
  have "find (\<lambda>c. co_id c = co_id co) (correlations db) = None" using new by (simp add: find_None_iff)
  then have "find (\<lambda>c. co_id c = co_id co) (correlations db') = Some co"
    by (simp add: db' find_append_new)
  moreover have "service_of db' (co_service_id co) = Some s"
    using find_key_distinct [of ms_id "services db" s] old_ok rows by (simp add: service_of_def co db')
  moreover have "find (\<lambda>a. an_id a = co_root_cause_anomaly_id co) (anomalies db') = Some a"
    using find_key_distinct [of an_id "anomalies db" a] old_ok rows by (simp add: co db')
  moreover have "find (\<lambda>i. in_id i = co_root_cause_incident_id co) (incidents db') = Some i"
    using find_key_distinct [of in_id "incidents db" i] old_ok rows by (simp add: co db')
  moreover have "find (\<lambda>y. tr_id y = an_telemetry_id a) (telemetry db') = Some x"
    using find_key_distinct [of tr_id "telemetry db" x] old_ok rows(3) unfolding rows(4) by (simp add: db')
  ultimately have "get_correlation db' (co_id co) = Inr \<lparr>cr_correlation = co, cr_service = s,
      cr_incident_ids = correlation_incident_ids db' (co_id co), cr_root_cause = root\<rparr>"
    by (simp add: get_correlation_def correlation_response_of_def co(5,6) same_root)
  moreover have two: "2 \<le> length ids" using ids(1) q by simp
  moreover have "0 \<le> rc_confidence_score root \<and> rc_confidence_score root \<le> 100"
    using signal_score_bounds [of e n "row_signal (i, a, x, s)"] by (simp add: root)
  ultimately have "get_correlation_endpoint db' (co_id co) = Reply 200 \<lparr>cr_correlation = co, cr_service = s,
      cr_incident_ids = correlation_incident_ids db' (co_id co), cr_root_cause = root\<rparr>"
    by (simp add: get_correlation_endpoint_def correlation_schema_def size)
  moreover have "\<not> uncorrelated db' k" if "k \<in> set ids" for k
    using that by (simp add: uncorrelated_def db' bex_Un)
  ultimately show ?thesis using code two ids(2) links by (simp add: r)
qed

definition demo_analysis :: analyze_request where
  "demo_analysis = \<lparr>ar_service = ''shop'', ar_environment = PRODUCTION, ar_window_minutes = 60, ar_minimum_incidents = 2\<rparr>"

theorem correlation_create_get_witness:
  "\<exists>r db' r'. analyze_incidents_endpoint (demo_env 20 300) 301 demo_ingested demo_analysis = (Reply 201 r, db')
     \<and> 2 \<le> length (cr_incident_ids r) \<and> get_correlation_endpoint db' 20 = Reply 200 r'"
proof -
  have "(case fst (analyze_incidents_endpoint (demo_env 20 300) 301 demo_ingested demo_analysis) of
      Reply code r \<Rightarrow> code = 201 \<and> co_id (cr_correlation r) = 20 | HTTPException _ _ \<Rightarrow> False)"
    by code_simp
  then obtain r db' where run: "analyze_incidents_endpoint (demo_env 20 300) 301 demo_ingested demo_analysis = (Reply 201 r, db')"
    "co_id (cr_correlation r) = 20"
    by (cases "analyze_incidents_endpoint (demo_env 20 300) 301 demo_ingested demo_analysis")
      (auto split: endpoint_result.splits)
  have "fresh_ids (demo_env 20 300) demo_ingested" by (rule demo_fresh) (use demo_ingested_ids in simp_all)
  from correlation_create_get [OF demo_ingested_served this run(1)] show ?thesis using run by auto
qed

section \<open>Traces\<close>

lemma trace_endpoint_reply:
  assumes "ingest_trace_endpoint env db body = (Reply code rs, db')"
  shows "code = 202 \<and> validate_trace_batch body = SpanValid \<and> ingest_trace env db (map strip_span body) = (Inr rs, db')"
  using assms
  by (auto simp: ingest_trace_endpoint_def unprocessable_def server_error_def
      split: span_validation.splits prod.splits sum.splits obs_error.splits)

lemma remdups_single: "remdups xs = [t] \<Longrightarrow> x \<in> set xs \<Longrightarrow> x = t"
  by (metis empty_iff list.set(1) list.set_intros(1) set_ConsD set_remdups)

lemma join_service_all:
  assumes "\<forall>r\<in>set rows. key r \<in> ms_id ` set (services db)"
  shows "map fst (join_service db key rows) = rows"
  using assms
proof (induction rows)
  case (Cons r rows)
  then obtain s where "find (\<lambda>s. ms_id s = key r) (services db) = Some s"
    by (cases "find (\<lambda>s. ms_id s = key r) (services db)") (auto simp: find_None_iff)
  then show ?case using Cons by (simp add: join_service_def service_of_def List.map_filter_simps)
qed (simp add: join_service_def List.map_filter_simps)

lemma fst_trace_rows:
  assumes "spans_ok db"
  shows "mset (map fst (trace_rows db t)) = mset (filter (\<lambda>s. sp_trace_id s = t) (spans db))"
proof -
  have "map fst (join_service db sp_service_id (filter (\<lambda>s. sp_trace_id s = t) (spans db)))
      = filter (\<lambda>s. sp_trace_id s = t) (spans db)"
    by (rule join_service_all) (use assms in \<open>auto simp: spans_ok_def span_wf_def\<close>)
  then have "mset (map fst (join_service db sp_service_id (filter (\<lambda>s. sp_trace_id s = t) (spans db))))
      = mset (filter (\<lambda>s. sp_trace_id s = t) (spans db))" by (simp only:)
  then show ?thesis by (simp add: trace_rows_def)
qed

text \<open>A batch of spans that is accepted is answered 202 with one stored span per span sent, all of one
  trace. Reading that trace back returns exactly its earlier spans and the new ones, ordered by start, and
  the reported interval of the trace encloses every span of it.\<close>

theorem trace_ingest_get:
  assumes "obs_served db" and "fresh_ids env db"
    and "ingest_trace_endpoint env db body = (Reply code rs, db')"
  shows "code = 202 \<and> rs \<noteq> [] \<and> map sp_span_id rs = map ts_span_id (map strip_span body)
    \<and> (\<forall>s\<in>set rs. sp_trace_id s = sp_trace_id (hd rs))
    \<and> (\<exists>r. get_trace_endpoint db' (sp_trace_id (hd rs)) = Reply 200 r
         \<and> mset (map fst (tq_spans r)) = mset (filter (\<lambda>s. sp_trace_id s = sp_trace_id (hd rs)) (spans db)) + mset rs
         \<and> sorted (map (\<lambda>(s, m). sp_started_at s) (tq_spans r))
         \<and> (\<forall>(s, m)\<in>set (tq_spans r). tq_started_at r \<le> sp_started_at s \<and> sp_ended_at s \<le> tq_ended_at r
              \<and> sp_duration_us s \<le> tq_duration_us r))"
proof -
  from trace_endpoint_reply [OF assms(3)] have code: "code = 202" and valid: "validate_trace_batch body = SpanValid"
    and run: "ingest_trace env db (map strip_span body) = (Inr rs, db')" by simp_all
  obtain t resolved where t: "remdups (map ts_trace_id (map strip_span body)) = [t]"
    and resolved: "resolve span_identity db [] (map strip_span body) = Inr resolved"
    and rows: "span_rows (env_ids env) 0 (env_now env) resolved = Inr rs"
    and db': "db' = db\<lparr>spans := spans db @ rs\<rparr>"
    using ingest_trace_cases [OF run] by auto
  have ok': "obs_ok db'" by (rule ingest_trace_ok [OF run served_ok [OF assms(1)] valid])
  then have spans': "spans_ok db'" by (simp add: obs_ok_def)
  have "list_all2 (\<lambda>x r. sp_span_id r = ts_span_id (fst x) \<and> sp_trace_id r = ts_trace_id (fst x)) resolved rs"
    using span_rows_Inr(3) [OF rows] by (rule list_all2_mono) simp
  then have "map (\<lambda>r. (sp_span_id r, sp_trace_id r)) rs = map (\<lambda>x. (ts_span_id x, ts_trace_id x)) (map fst resolved)"
    by (induction rule: list_all2_induct) simp_all
  then have sent: "map (\<lambda>r. (sp_span_id r, sp_trace_id r)) rs = map (\<lambda>x. (ts_span_id x, ts_trace_id x)) (map strip_span body)"
    by (simp only: resolve_Inr(1) [OF resolved])
  have ids: "map sp_span_id rs = map ts_span_id (map strip_span body)"
    using arg_cong [OF sent, of "map fst"] by (simp add: comp_def)
  have traces: "map sp_trace_id rs = map ts_trace_id (map strip_span body)"
    using arg_cong [OF sent, of "map snd"] by (simp add: comp_def)
  have all_t: "sp_trace_id s = t" if "s \<in> set rs" for s
  proof -
    have "sp_trace_id s \<in> set (map sp_trace_id rs)" using that by simp
    then show ?thesis unfolding traces by (rule remdups_single [OF t])
  qed
  have "rs \<noteq> []" using ids validate_trace_batchD(1) [OF valid] by auto
  then have hd: "sp_trace_id (hd rs) = t" by (simp add: all_t)
  have found: "mset (map fst (trace_rows db' t)) = mset (filter (\<lambda>s. sp_trace_id s = t) (spans db)) + mset rs"
    using fst_trace_rows [OF spans', of t] all_t by (simp add: db' filter_True)
  let ?rows = "trace_rows db' t"
  have "?rows \<noteq> []" using found \<open>rs \<noteq> []\<close> by auto
  have hex: "hex_id 32 t"
    using spans' \<open>rs \<noteq> []\<close> hd by (auto simp: spans_ok_def span_wf_def db')
  define a where "a = Min (set (map (\<lambda>(s, m). sp_started_at s) ?rows))"
  define b where "b = Max (set (map (\<lambda>(s, m). sp_ended_at s) ?rows))"
  have inside: "a \<le> sp_started_at s \<and> sp_ended_at s \<le> b \<and> sp_duration_us s \<le> b - a" if "(s, m) \<in> set ?rows" for s m
  proof -
    have "sp_started_at s \<in> set (map (\<lambda>(s, m). sp_started_at s) ?rows)"
      "sp_ended_at s \<in> set (map (\<lambda>(s, m). sp_ended_at s) ?rows)" using that by force+
    then have *: "a \<le> sp_started_at s" "sp_ended_at s \<le> b" unfolding a_def b_def by simp_all
    have "s \<in># mset (map fst ?rows)" using that by force
    then have "s \<in># mset (filter (\<lambda>s. sp_trace_id s = t) (spans db'))"
      unfolding fst_trace_rows [OF spans', of t] .
    then have "s \<in> set (spans db')" by simp
    then show ?thesis using spans' * by (auto simp: spans_ok_def span_wf_def)
  qed
  have "sorted (map (\<lambda>(s, m). (sp_started_at s, sp_span_id s)) ?rows)" by (simp add: trace_rows_def)
  then have "sorted (map (\<lambda>(s, m). sp_started_at s) ?rows)"
    unfolding sorted_map by (rule sorted_wrt_mono_rel [rotated]) (auto simp: less_eq_prod_def)
  moreover have "get_trace_endpoint db' t = Reply 200 \<lparr>tq_trace_id = t, tq_started_at = a, tq_ended_at = b,
      tq_duration_us = b - a, tq_services = sort (remdups (map (\<lambda>(s, m). ms_name m) ?rows)), tq_spans = ?rows\<rparr>"
    using hex \<open>?rows \<noteq> []\<close> by (simp add: get_trace_endpoint_def get_by_trace_id_def Let_def a_def b_def)
  ultimately show ?thesis using code \<open>rs \<noteq> []\<close> ids all_t found inside unfolding hd by auto
qed

definition demo_span :: "string \<Rightarrow> string option \<Rightarrow> timestamp \<Rightarrow> timestamp \<Rightarrow> trace_span_create" where
  "demo_span i parent a b = \<lparr>ts_trace_id = replicate 32 (CHR ''a''), ts_span_id = i, ts_parent_span_id = parent,
     ts_service = ''shop'', ts_environment = PRODUCTION, ts_source = ''host'', ts_operation = ''get'',
     ts_status = SPAN_OK, ts_started_at = a, ts_ended_at = b, ts_attributes = JObj []\<rparr>"

definition demo_spans :: "trace_span_create list" where
  "demo_spans = [demo_span (replicate 16 (CHR ''1'')) None (Aware 10) (Aware 90),
     demo_span (replicate 16 (CHR ''2'')) (Some (replicate 16 (CHR ''1''))) (Aware 20) (Aware 40)]"

theorem trace_ingest_get_witness:
  "\<exists>rs db' r. ingest_trace_endpoint (demo_env 20 300) demo_ingested demo_spans = (Reply 202 rs, db') \<and> rs \<noteq> []
     \<and> get_trace_endpoint db' (sp_trace_id (hd rs)) = Reply 200 r"
proof -
  have "(case fst (ingest_trace_endpoint (demo_env 20 300) demo_ingested demo_spans) of
      Reply code r \<Rightarrow> code = 202 | HTTPException _ _ \<Rightarrow> False)"
    by code_simp
  then obtain rs db' where run: "ingest_trace_endpoint (demo_env 20 300) demo_ingested demo_spans = (Reply 202 rs, db')"
    by (cases "ingest_trace_endpoint (demo_env 20 300) demo_ingested demo_spans")
      (auto split: endpoint_result.splits)
  have "fresh_ids (demo_env 20 300) demo_ingested" by (rule demo_fresh) (use demo_ingested_ids in simp_all)
  from trace_ingest_get [OF demo_ingested_served this run] show ?thesis using run by blast
qed

section \<open>Timestamps without a time zone\<close>

text \<open>The schemas accept a timestamp without a time zone, the code behind them does not: a batch that
  is otherwise valid and accepted, but holds one such telemetry timestamp, and a span that starts with a time
  zone and ends without one, are answered 500 instead of 422; nothing is stored.\<close>

theorem naive_timestamp_is_server_error:
  assumes "validate_batch body = Some batch" and "resolve item_identity db [] batch = Inr resolved"
    and "item \<in> set batch" and "tb_timestamp (item_base item) = Naive t"
    and "s \<in> set trace" and "valid_span_fields (strip_span s)" and "length trace \<le> 1000"
    and "ts_started_at s = Aware a" and "ts_ended_at s = Naive b"
  shows "ingest_telemetry_endpoint env db body = (server_error, db)
    \<and> ingest_trace_endpoint env db trace = (server_error, db)"
proof
  have "telemetry_rows ids n now xs = Inl DataError"
    if "(x, i) \<in> set xs" "tb_timestamp (item_base x) = Naive t" for ids n now xs x i
    using that
  proof (induction xs arbitrary: n)
    case (Cons y ys)
    show ?case
    proof (cases "tb_timestamp (item_base (fst y))")
      case (Aware u)
      then have "(x, i) \<in> set ys" using Cons.prems by auto
      then show ?thesis using Cons.IH [of "Suc n"] Cons.prems(2) Aware
        by (simp add: telemetry_row_def column_time_def)
    qed (simp add: telemetry_row_def column_time_def)
  qed simp
  moreover obtain i where "(item, i) \<in> set resolved"
  proof -
    have "item \<in> set (map fst resolved)" using resolve_Inr(1) [OF assms(2)] assms(3) by simp
    then show ?thesis using that by auto
  qed
  ultimately have "telemetry_rows (env_ids env) 0 (env_now env) resolved = Inl DataError" using assms(4) by blast
  then have "ingest env db batch = (Inl (ObsDatabaseError DataError), db)"
    using assms(2) by (simp add: ingest_def)
  then show "ingest_telemetry_endpoint env db body = (server_error, db)"
    using assms(1) by (simp add: ingest_telemetry_endpoint_def)
  have "validate_span s = SpanRaises"
    using assms(6,8,9)
    by (simp add: validate_span_def validate_timing_and_identity_def later_than_def strip_span_def)
  moreover have "1 \<le> length trace" using assms(5) by (cases trace) auto
  ultimately have "validate_trace_batch trace = SpanRaises"
    using assms(5,7) by (auto simp: validate_trace_batch_def)
  then show "ingest_trace_endpoint env db trace = (server_error, db)" by (simp add: ingest_trace_endpoint_def)
qed

definition demo_naive_item :: telemetry_item where
  "demo_naive_item = LogTelemetry ((demo_base 0)\<lparr>tb_timestamp := Naive 7\<rparr>) LOG_INFO ''ok''"

definition demo_naive_span :: trace_span_create where
  "demo_naive_span = demo_span (replicate 16 (CHR ''1'')) None (Aware 10) (Naive 90)"

theorem naive_timestamp_is_server_error_witness:
  "ingest_telemetry_endpoint (demo_env 10 100) demo_registered [demo_naive_item] = (server_error, demo_registered)
    \<and> ingest_trace_endpoint (demo_env 10 100) demo_registered [demo_naive_span] = (server_error, demo_registered)"
proof (rule naive_timestamp_is_server_error [where batch = "[demo_naive_item]" and item = demo_naive_item
      and resolved = "[(demo_naive_item, 1)]" and s = demo_naive_span and t = 7 and a = 10 and b = 90])
  show "validate_batch [demo_naive_item] = Some [demo_naive_item]"
    "resolve item_identity demo_registered [] [demo_naive_item] = Inr [(demo_naive_item, 1)]"
    "valid_span_fields (strip_span demo_naive_span)" by code_simp+
qed (simp_all add: demo_naive_item_def demo_naive_span_def demo_span_def demo_base_def)

end
