(* ===== verification/Obs_Access.thy ===== *)
theory Obs_Access
  imports Complex_Main Http_Types
begin

text \<open>
  What stands before the routes of the observability platform: the rate limiter (rate_limit.py), the
  API key (security.py), the header middleware (middleware.py), the settings (config.py) and the
  order in which main.py applies them. Times of the monotonic clock are rationals, the values of
  Python's floats; header names are given in lower case.
\<close>

section \<open>Settings\<close>

datatype obs_environment = DevelopmentEnv | TestingEnv | ProductionEnv

record obs_settings =
  os_environment :: obs_environment
  os_database_url :: string
  os_api_key_enabled :: bool
  os_api_key :: "string option"
  os_trusted_hosts :: "string list"
  os_rate_limit_enabled :: bool
  os_rate_limit_requests :: int
  os_rate_limit_window_seconds :: int

definition UNSAFE_API_KEYS :: "string list" where
  "UNSAFE_API_KEYS = [''change-me'', ''development-only'', ''replace-with-a-secure-api-key'']"

fun contains_text :: "string \<Rightarrow> string \<Rightarrow> bool" where
  "contains_text p [] = (p = [])"
| "contains_text p (c # s) = (take (length p) (c # s) = p \<or> contains_text p s)"

definition validate_production_security :: "obs_settings \<Rightarrow> bool" where
  "validate_production_security c \<longleftrightarrow> os_environment c \<noteq> ProductionEnv
     \<or> os_api_key_enabled c
       \<and> (case os_api_key c of None \<Rightarrow> False | Some k \<Rightarrow> lower (strip k) \<notin> set UNSAFE_API_KEYS)
       \<and> ''*'' \<notin> set (os_trusted_hosts c)
       \<and> \<not> contains_text ''observability:observability_dev@'' (lower (os_database_url c))
       \<and> os_rate_limit_enabled c"

definition validate_obs_settings :: "obs_settings \<Rightarrow> obs_settings option" where
  "validate_obs_settings c =
     (if (case os_api_key c of None \<Rightarrow> True | Some k \<Rightarrow> 32 \<le> length k)
       \<and> 0 < os_rate_limit_requests c \<and> 0 < os_rate_limit_window_seconds c
       \<and> validate_production_security c
      then Some c else None)"

section \<open>The API key\<close>

definition ascii :: "string \<Rightarrow> bool" where
  "ascii s \<longleftrightarrow> list_all (\<lambda>c. (of_char c :: nat) < 128) s"

text \<open>\<open>compare_digest\<close> on strings raises a \<open>TypeError\<close> unless both are ASCII.\<close>

definition compare_digest :: "string \<Rightarrow> string \<Rightarrow> bool option" where
  "compare_digest a b = (if ascii a \<and> ascii b then Some (a = b) else None)"

definition unauthorized :: "unit endpoint_result" where
  "unauthorized = HTTPException 401 (JStr ''Invalid or missing API key'')"

definition require_api_key :: "obs_settings \<Rightarrow> string option \<Rightarrow> unit endpoint_result" where
  "require_api_key c presented_api_key =
     (if \<not> os_api_key_enabled c then Reply 200 ()
      else case os_api_key c of
          None \<Rightarrow> HTTPException 503 (JStr ''API authentication is not configured'')
        | Some configured \<Rightarrow> (case presented_api_key of
              None \<Rightarrow> unauthorized
            | Some k \<Rightarrow> (case compare_digest k configured of
                  None \<Rightarrow> server_error
                | Some same \<Rightarrow> if same then Reply 200 () else unauthorized)))"

section \<open>The rate limiter\<close>

record rate_policy =
  rl_enabled :: bool
  rl_request_limit :: nat
  rl_window_seconds :: nat

type_synonym request_times = "string \<Rightarrow> rat list"

definition RATE_LIMIT_EXEMPT_PATHS :: "string list" where
  "RATE_LIMIT_EXEMPT_PATHS = [''/docs'', ''/openapi.json'', ''/redoc'']"

definition starts_with :: "string \<Rightarrow> string \<Rightarrow> bool" where
  "starts_with p s \<longleftrightarrow> take (length p) s = p"

definition exempt :: "rate_policy \<Rightarrow> string \<Rightarrow> bool" where
  "exempt p path \<longleftrightarrow> \<not> rl_enabled p \<or> starts_with ''/health'' path \<or> path \<in> set RATE_LIMIT_EXEMPT_PATHS"

definition client_key :: "string option \<Rightarrow> string" where
  "client_key host = (case host of None \<Rightarrow> ''unknown'' | Some h \<Rightarrow> h)"

datatype rate_decision = Exempt | Admitted int int | Limited int

definition wait_seconds :: "rate_policy \<Rightarrow> rat \<Rightarrow> rat list \<Rightarrow> int" where
  "wait_seconds p now queue = max 1 \<lceil>hd queue + of_nat (rl_window_seconds p) - now\<rceil>"

definition rate_limit :: "rate_policy \<Rightarrow> rat \<Rightarrow> string option \<Rightarrow> string \<Rightarrow> request_times \<Rightarrow>
    rate_decision \<times> request_times" where
  "rate_limit p now host path seen =
     (if exempt p path then (Exempt, seen)
      else let k = client_key host;
               window_started_at = now - of_nat (rl_window_seconds p);
               recent = dropWhile (\<lambda>t. t \<le> window_started_at) (seen k)
           in if rl_request_limit p \<le> length recent
              then (Limited (wait_seconds p now recent), seen(k := recent))
              else let recent' = recent @ [now]
                   in (Admitted (int (rl_request_limit p) - int (length recent')) (wait_seconds p now recent'),
                       seen(k := recent')))"

section \<open>Headers\<close>

type_synonym headers = "(string \<times> string) list"

definition set_default :: "string \<Rightarrow> string \<Rightarrow> headers \<Rightarrow> headers" where
  "set_default k v hs = (if map_of hs k = None then hs @ [(k, v)] else hs)"

definition set_header :: "string \<Rightarrow> string \<Rightarrow> headers \<Rightarrow> headers" where
  "set_header k v hs = (if map_of hs k = None then hs @ [(k, v)]
     else map (\<lambda>(k', v'). if k' = k then (k', v) else (k', v')) hs)"

definition SECURITY_HEADERS :: headers where
  "SECURITY_HEADERS = [(''x-content-type-options'', ''nosniff''), (''x-frame-options'', ''DENY''),
     (''referrer-policy'', ''no-referrer''),
     (''permissions-policy'', ''camera=(), geolocation=(), microphone=()'')]"

definition security_headers :: "bool \<Rightarrow> string \<Rightarrow> headers \<Rightarrow> headers" where
  "security_headers enable_hsts path hs =
     (let hs1 = foldl (\<lambda>hs (k, v). set_default k v hs) hs SECURITY_HEADERS;
          hs2 = (if path = ''/health'' \<or> starts_with ''/health/'' path \<or> starts_with ''/api/'' path
                 then set_default ''cache-control'' ''no-store'' hs1 else hs1)
      in if enable_hsts
         then set_default ''strict-transport-security'' ''max-age=31536000; includeSubDomains'' hs2
         else hs2)"

definition rate_headers :: "rate_policy \<Rightarrow> rate_decision \<Rightarrow> headers \<Rightarrow> headers" where
  "rate_headers p d hs = (case d of
      Exempt \<Rightarrow> hs
    | Admitted remaining reset_after \<Rightarrow>
        set_default ''x-ratelimit-reset'' (str_int reset_after)
          (set_default ''x-ratelimit-remaining'' (str_int remaining)
            (set_default ''x-ratelimit-limit'' (str_nat (rl_request_limit p)) hs))
    | Limited retry_after \<Rightarrow>
        [(''retry-after'', str_int retry_after), (''x-ratelimit-limit'', str_nat (rl_request_limit p)),
         (''x-ratelimit-remaining'', ''0''), (''x-ratelimit-reset'', str_int retry_after)])"

section \<open>One request\<close>

record access_request =
  aq_path :: string
  aq_host :: "string option"
  aq_api_key :: "string option"
  aq_request_id :: "string option"

record access_response =
  ap_status :: nat
  ap_detail :: "json option"
  ap_headers :: headers

text \<open>Security headers around request identifiers around the rate limiter around the API key around the
  route. Which requests reach a route of a protected router is an argument, and so is the route, which
  answers a status and headers or raises (\<open>None\<close>) and is asked only when everything before it lets the
  request pass. The host check of Starlette, between the identifiers and the limiter, and the
  422 of FastAPI for a body that is no JSON, which comes before the key check, are left out. An
  exception that no handler catches leaves as a bare 500.\<close>

definition bare_error :: access_response where
  "bare_error = \<lparr>ap_status = 500, ap_detail = None, ap_headers = []\<rparr>"

definition handle_request :: "obs_settings \<Rightarrow> rate_policy \<Rightarrow> rat \<Rightarrow> string \<Rightarrow> (access_request \<Rightarrow> bool) \<Rightarrow>
    (access_request \<Rightarrow> 's \<Rightarrow> access_response option \<times> 's) \<Rightarrow> access_request \<Rightarrow> request_times \<times> 's \<Rightarrow>
    access_response \<times> request_times \<times> 's" where
  "handle_request c p now fresh_id is_protected route q st =
     (let (d, seen) = rate_limit p now (aq_host q) (aq_path q) (fst st);
          request_id = (case aq_request_id q of None \<Rightarrow> fresh_id | Some i \<Rightarrow> i);
          answer = (\<lambda>code detail hs. \<lparr>ap_status = code, ap_detail = detail,
            ap_headers = security_headers (os_environment c = ProductionEnv) (aq_path q)
              (set_header ''x-request-id'' request_id (rate_headers p d hs))\<rparr>)
      in case d of
           Limited _ \<Rightarrow> (answer 429 (Some (JStr ''Rate limit exceeded'')) [], seen, snd st)
         | _ \<Rightarrow>
             (case (if is_protected q then require_api_key c (aq_api_key q) else Reply 200 ()) of
                Reply _ _ \<Rightarrow> (case route q (snd st) of
                    (None, s) \<Rightarrow> (bare_error, seen, s)
                  | (Some r, s) \<Rightarrow> (answer (ap_status r) (ap_detail r) (ap_headers r), seen, s))
              | HTTPException code detail \<Rightarrow>
                  (if code = 500 then bare_error
                   else answer code (Some detail)
                     (if code = 401 then [(''www-authenticate'', ''ApiKey'')] else []), seen, snd st)))"

end
