(* ===== verification/Obs_Dashboard.thy ===== *)
theory Obs_Dashboard
  imports Obs_Traces
begin

text \<open>
  The metric dashboard (services/metric_dashboard_service.py, api/routes/dashboard.py and the query
  of metric records): statistics of the samples of one metric in a window. The mean is the one
  statistic that rounds floats; it is an argument, a function of the values. The rank
  \<open>ceil(0.95 * n)\<close> is exact in floats: the double next to 0.95 is off by less than half a unit in
  the last place, so for a multiple of 20 the product rounds to the integer.
\<close>

definition sample_name :: "telemetry_record \<Rightarrow> string option" where
  "sample_name r = (case tr_payload r of MetricTelemetry b n v u \<Rightarrow> Some n
     | EventTelemetry b n s d \<Rightarrow> Some n | LogTelemetry b l m \<Rightarrow> None)"

definition sample_unit :: "telemetry_record \<Rightarrow> string option" where
  "sample_unit r = (case tr_payload r of MetricTelemetry b n v u \<Rightarrow> u | _ \<Rightarrow> None)"

definition sample_value :: "telemetry_record \<Rightarrow> string" where
  "sample_value r = (case tr_payload r of MetricTelemetry b n v u \<Rightarrow> v | _ \<Rightarrow> [])"

definition value_key :: "string \<Rightarrow> rat" where
  "value_key v = (case float_value v of Some x \<Rightarrow> x | None \<Rightarrow> 0)"

definition query_metric_records :: "obs_db \<Rightarrow> string \<Rightarrow> service_environment \<Rightarrow> string option \<Rightarrow> time \<Rightarrow>
    time \<Rightarrow> (telemetry_record \<times> monitored_service) list" where
  "query_metric_records db service environment source observed_from observed_to =
     sort_key (\<lambda>(r, s). (tr_observed_at r, uint (tr_id r)))
       (filter (\<lambda>(r, s). tr_type r = METRIC \<and> ms_name s = service \<and> ms_environment s = environment
          \<and> observed_from \<le> tr_observed_at r \<and> tr_observed_at r \<le> observed_to
          \<and> matches source (tr_source r))
        (join_service db tr_service_id (telemetry db)))"

definition p95_index :: "nat \<Rightarrow> nat" where
  "p95_index n = (19 * n + 19) div 20 - 1"

definition shifted :: "timestamp \<Rightarrow> int \<Rightarrow> timestamp" where
  "shifted t d = (case t of Aware a \<Rightarrow> Aware (a + d) | Naive a \<Rightarrow> Naive (a + d))"

record metric_summary =
  sm_service :: string
  sm_environment :: service_environment
  sm_metric_name :: string
  sm_unit :: "string option"
  sm_sources :: "string list"
  sm_window_started_at :: time
  sm_window_ended_at :: time
  sm_sample_count :: nat
  sm_minimum_value :: string
  sm_maximum_value :: string
  sm_average_value :: string
  sm_p95_value :: string
  sm_latest_value :: string
  sm_latest_observed_at :: time
  sm_points :: "(time \<times> string \<times> string) list"

definition metric_statistics :: "(string list \<Rightarrow> string) \<Rightarrow> string \<Rightarrow> service_environment \<Rightarrow> string \<Rightarrow>
    telemetry_record \<Rightarrow> telemetry_record list \<Rightarrow> metric_summary" where
  "metric_statistics mean service environment metric_name r rs =
     (let rows = r # rs;
          vals = map sample_value rows;
          sorted_values = sort_key value_key vals;
          latest = last rows
      in \<lparr>sm_service = service, sm_environment = environment, sm_metric_name = metric_name,
          sm_unit = sample_unit r, sm_sources = sort (remdups (map tr_source rows)),
          sm_window_started_at = tr_observed_at r, sm_window_ended_at = tr_observed_at latest,
          sm_sample_count = length vals,
          sm_minimum_value = first_min value_key (hd vals) (tl vals),
          sm_maximum_value = first_min (\<lambda>v. - value_key v) (hd vals) (tl vals),
          sm_average_value = mean vals, sm_p95_value = sorted_values ! p95_index (length sorted_values),
          sm_latest_value = sample_value latest, sm_latest_observed_at = tr_observed_at latest,
          sm_points = map (\<lambda>x. (tr_observed_at x, sample_value x, tr_source x)) rows\<rparr>)"

definition summarize :: "(string list \<Rightarrow> string) \<Rightarrow> time \<Rightarrow> obs_db \<Rightarrow> string \<Rightarrow> service_environment \<Rightarrow>
    string \<Rightarrow> string option \<Rightarrow> timestamp option \<Rightarrow> timestamp option \<Rightarrow> int \<Rightarrow> obs_error + metric_summary" where
  "summarize mean now db service environment metric_name source observed_from observed_to window_minutes =
     (let window_ended_at = (case observed_to of None \<Rightarrow> Aware now | Some t \<Rightarrow> t);
          window_started_at = (case observed_from of
            None \<Rightarrow> shifted window_ended_at (- (window_minutes * 60000000)) | Some t \<Rightarrow> t)
      in case later_than window_started_at window_ended_at of
           None \<Rightarrow> Inl TimestampTypeError
         | Some True \<Rightarrow> Inl InvalidDashboardWindowError
         | Some False \<Rightarrow>
             rbind (db_step (column_time window_started_at)) (\<lambda>lo.
             rbind (db_step (column_time window_ended_at)) (\<lambda>hi.
             case filter (\<lambda>r. sample_name r = Some metric_name)
                    (map fst (query_metric_records db service environment source lo hi)) of
               [] \<Rightarrow> Inl (MetricSamplesNotFoundError (''No samples found for metric '' @ quoted metric_name @
                    '' on service '' @ quoted service @ '' in environment '' @
                    quoted (environment_value environment)))
             | r # rs \<Rightarrow>
                 if \<exists>x\<in>set rs. sample_unit x \<noteq> sample_unit r
                 then Inl (InconsistentMetricUnitError
                   (''Metric '' @ quoted metric_name @ '' contains inconsistent units''))
                 else Inr (metric_statistics mean service environment metric_name r rs))))"

definition summarize_metric_endpoint :: "(string list \<Rightarrow> string) \<Rightarrow> time \<Rightarrow> obs_db \<Rightarrow> string \<Rightarrow>
    service_environment \<Rightarrow> string \<Rightarrow> string option \<Rightarrow> timestamp option \<Rightarrow> timestamp option \<Rightarrow> int \<Rightarrow>
    metric_summary endpoint_result" where
  "summarize_metric_endpoint mean now db service environment metric_name source observed_from observed_to
      window_minutes =
     (if string_length 1 100 service \<and> string_length 1 100 metric_name
       \<and> option_all (string_length 1 200) source \<and> 1 \<le> window_minutes \<and> window_minutes \<le> 10080
      then (case summarize mean now db service environment metric_name source observed_from observed_to
              window_minutes of
          Inr m \<Rightarrow> Reply 200 m
        | Inl (MetricSamplesNotFoundError s) \<Rightarrow> HTTPException 404 (JStr s)
        | Inl (InconsistentMetricUnitError s) \<Rightarrow> HTTPException 422 (JStr s)
        | Inl InvalidDashboardWindowError \<Rightarrow> HTTPException 422
            (JStr ''observed_from must be earlier than or equal to observed_to'')
        | Inl _ \<Rightarrow> server_error)
      else unprocessable)"

section \<open>The nearest rank\<close>

lemma p95_index_less: "0 < n \<Longrightarrow> p95_index n < n"
  by (simp add: p95_index_def)

lemma p95_index_rank: "0 < n \<Longrightarrow> 19 * n \<le> 20 * (p95_index n + 1) \<and> 20 * p95_index n < 19 * n"
  by (simp add: p95_index_def) linarith

end
