(* ===== verification/Access_Claims.thy ===== *)
theory Access_Claims
  imports Obs_Access Obs_Dashboard
begin

text \<open>
  What protects the observability platform and what its dashboard reports: no client passes the rate
  limiter more often than the limit in any window, the announced waiting time is enough, a protected
  route of a production deployment runs only for the configured key, and the percentile of a metric
  is the nearest rank of its samples.
\<close>

section \<open>The rate limiter over a sequence of requests\<close>

type_synonym timed_request = "rat \<times> string option \<times> string"

fun admissions :: "rate_policy \<Rightarrow> timed_request list \<Rightarrow> request_times \<Rightarrow> (string \<times> rat) list" where
  "admissions p [] seen = []"
| "admissions p ((now, host, path) # rest) seen =
     (case rate_limit p now host path seen of
        (Admitted _ _, seen') \<Rightarrow> (client_key host, now) # admissions p rest seen'
      | (_, seen') \<Rightarrow> admissions p rest seen')"

fun rate_after :: "rate_policy \<Rightarrow> timed_request list \<Rightarrow> request_times \<Rightarrow> request_times" where
  "rate_after p [] seen = seen"
| "rate_after p ((now, host, path) # rest) seen = rate_after p rest (snd (rate_limit p now host path seen))"

definition in_window :: "rat \<Rightarrow> rat \<Rightarrow> rat \<Rightarrow> bool" where
  "in_window lo w t \<longleftrightarrow> lo < t \<and> t \<le> lo + w"

definition queue_ok :: "rate_policy \<Rightarrow> rat \<Rightarrow> rat list \<Rightarrow> bool" where
  "queue_ok p now q \<longleftrightarrow> sorted q \<and> length q \<le> rl_request_limit p \<and> (\<forall>t\<in>set q. t \<le> now)"

lemma queue_ok_later: "queue_ok p now q \<Longrightarrow> now \<le> now' \<Longrightarrow> queue_ok p now' q"
  by (auto simp: queue_ok_def)

lemma queue_ok_recent: "queue_ok p now q \<Longrightarrow> queue_ok p now (dropWhile P q)"
  using length_dropWhile_le [of P q]
  by (auto simp: queue_ok_def sorted_dropWhile dest: set_dropWhileD)

lemma rate_limit_cases:
  assumes "rate_limit p now host path seen = (d, seen')"
  shows "exempt p path \<and> d = Exempt \<and> seen' = seen
    \<or> \<not> exempt p path \<and> (\<exists>recent. recent = dropWhile (\<lambda>t. t \<le> now - of_nat (rl_window_seconds p)) (seen (client_key host))
       \<and> (rl_request_limit p \<le> length recent \<and> d = Limited (wait_seconds p now recent)
            \<and> seen' = seen(client_key host := recent)
          \<or> length recent < rl_request_limit p
            \<and> d = Admitted (int (rl_request_limit p) - int (length (recent @ [now]))) (wait_seconds p now (recent @ [now]))
            \<and> seen' = seen(client_key host := recent @ [now])))"
  using assms by (auto simp: rate_limit_def Let_def split: if_splits)

lemma rate_limit_queue_ok:
  assumes "rate_limit p now host path seen = (d, seen')" and "queue_ok p now (seen k)"
  shows "queue_ok p now (seen' k)"
proof -
  have "queue_ok p now (q @ [now])" if "queue_ok p now q" "length q < rl_request_limit p" for q
    using that by (auto simp: queue_ok_def sorted_append)
  then show ?thesis using rate_limit_cases [OF assms(1)] assms(2) by (auto simp: queue_ok_recent)
qed

lemma rate_after_queue_ok:
  assumes "sorted (map fst reqs)" and "\<forall>q\<in>set reqs. start \<le> fst q \<and> fst q \<le> now" and "start \<le> now"
    and "\<And>k. queue_ok p start (seen k)"
  shows "queue_ok p now (rate_after p reqs seen k)"
  using assms
proof (induction reqs arbitrary: seen start)
  case (Cons q rest)
  obtain t host path where q: "q = (t, host, path)" by (cases q)
  obtain d seen' where step: "rate_limit p t host path seen = (d, seen')" by fastforce
  have "queue_ok p t (seen k)" for k
    using Cons.prems by (intro queue_ok_later [OF Cons.prems(4)]) (simp add: q)
  then have "\<And>k. queue_ok p t (seen' k)" by (rule rate_limit_queue_ok [OF step])
  then have "queue_ok p now (rate_after p rest seen' k)"
    using Cons.prems by (intro Cons.IH) (auto simp: q)
  then show ?case by (simp add: q step)
next
  case Nil
  then show ?case using queue_ok_later [OF Nil.prems(4,3)] by simp
qed

definition passed :: "string \<Rightarrow> (string \<times> rat) list \<Rightarrow> rat list" where
  "passed k xs = map snd (filter (\<lambda>x. fst x = k) xs)"

lemma passed_times: "t \<in> set (passed k (admissions p reqs seen)) \<Longrightarrow> t \<in> fst ` set reqs"
proof (induction reqs arbitrary: seen)
  case (Cons q rest)
  obtain now host path where q: "q = (now, host, path)" by (cases q)
  obtain d seen' where step: "rate_limit p now host path seen = (d, seen')" by fastforce
  then have "t \<in> set (passed k (admissions p rest seen')) \<or> t = now"
    using Cons.prems by (cases d) (auto simp: q passed_def split: if_splits)
  then show ?case using Cons.IH by (auto simp: q)
qed (simp add: passed_def)

lemma filter_dropWhile: "(\<And>x. P x \<Longrightarrow> \<not> Q x) \<Longrightarrow> filter Q (dropWhile P xs) = filter Q xs"
  by (induction xs) auto

lemma admissions_window:
  assumes "sorted (map fst reqs)" and "\<forall>q\<in>set reqs. start \<le> fst q"
    and "\<And>k. queue_ok p start (seen k)"
  shows "length (filter (in_window lo (of_nat (rl_window_seconds p))) (seen k @ passed k (admissions p reqs seen)))
    \<le> rl_request_limit p"
  using assms
proof (induction reqs arbitrary: seen start)
  case Nil
  have "length (filter P (seen k)) \<le> rl_request_limit p" for P
    using Nil.prems(3) [of k] by (intro order_trans [OF length_filter_le]) (simp add: queue_ok_def)
  then show ?case by (simp add: passed_def)
next
  case (Cons q rest)
  let ?w = "of_nat (rl_window_seconds p) :: rat"
  let ?in = "in_window lo ?w"
  obtain now host path where q: "q = (now, host, path)" by (cases q)
  obtain d seen' where step: "rate_limit p now host path seen = (d, seen')" by fastforce
  have ok: "\<And>k. queue_ok p now (seen k)"
    using Cons.prems by (intro queue_ok_later [OF Cons.prems(3)]) (simp add: q)
  then have "\<And>k. queue_ok p now (seen' k)" by (rule rate_limit_queue_ok [OF step])
  then have IH: "length (filter ?in (seen' k @ passed k (admissions p rest seen'))) \<le> rl_request_limit p"
    using Cons.prems by (intro Cons.IH) (auto simp: q)
  show ?case
  proof (cases "lo + ?w < now")
    case True
    have "\<not> ?in t" if "t \<in> set (passed k (admissions p (q # rest) seen))" for t
    proof -
      from that have "t \<in> fst ` set (q # rest)" by (rule passed_times)
      then have "now \<le> t" using Cons.prems(1) by (auto simp: q)
      then show ?thesis using True by (simp add: in_window_def)
    qed
    then have none: "filter ?in (passed k (admissions p (q # rest) seen)) = []" by (simp add: filter_empty_conv)
    have "length (filter ?in (seen k)) \<le> rl_request_limit p"
      using ok [of k] by (intro order_trans [OF length_filter_le]) (simp add: queue_ok_def)
    then show ?thesis using none by simp
  next
    case False
    then have "filter ?in (dropWhile (\<lambda>t. t \<le> now - ?w) ts) = filter ?in ts" for ts
      by (intro filter_dropWhile) (auto simp: in_window_def)
    then have "filter ?in (seen' k @ passed k (admissions p rest seen'))
        = filter ?in (seen k @ passed k (admissions p (q # rest) seen))"
      using rate_limit_cases [OF step] by (auto simp: q step passed_def)
    then show ?thesis using IH by simp
  qed
qed

definition no_requests :: request_times where
  "no_requests = (\<lambda>k. [])"

lemma queue_ok_start: "queue_ok p start (no_requests k)"
  by (simp add: queue_ok_def no_requests_def)

text \<open>C21: Whatever requests arrive, from whatever clients and on whatever paths, as long as the
  monotonic clock does not go back, no client is admitted more often than the limit within any window
  of the configured length, wherever the window starts: the limiter of rate_limit.py slides its window.\<close>

theorem rate_limit_window:
  assumes "sorted (map fst reqs)"
  shows "length (filter (in_window lo (of_nat (rl_window_seconds p)))
    (passed k (admissions p reqs no_requests))) \<le> rl_request_limit p"
proof (cases reqs)
  case (Cons q rest)
  have "\<forall>r\<in>set reqs. fst q \<le> fst r" using assms by (auto simp: Cons)
  from admissions_window [OF assms this queue_ok_start, where k = k and lo = lo and p = p]
  show ?thesis by (simp add: no_requests_def)
qed (simp add: passed_def)

definition demo_policy :: rate_policy where
  "demo_policy = \<lparr>rl_enabled = True, rl_request_limit = 2, rl_window_seconds = 10\<rparr>"

definition demo_requests :: "timed_request list" where
  "demo_requests = [(1, Some ''a'', ''/api''), (2, Some ''a'', ''/api''), (3, Some ''a'', ''/api''),
     (3, Some ''b'', ''/api''), (12, Some ''a'', ''/api'')]"

theorem rate_limit_window_witness:
  "passed ''a'' (admissions demo_policy demo_requests no_requests) = [1, 2, 12]
    \<and> length (filter (in_window 2 10) [1, 2, 12 :: rat]) \<le> 2"
proof -
  have "sorted (map fst demo_requests)" by (simp add: demo_requests_def)
  note bound = rate_limit_window [OF this, where k = "''a''" and lo = 2 and p = demo_policy]
  have "passed ''a'' (admissions demo_policy demo_requests no_requests) = [1, 2, 12]"
    by (simp add: passed_def demo_requests_def demo_policy_def rate_limit_def exempt_def starts_with_def
        RATE_LIMIT_EXEMPT_PATHS_def client_key_def no_requests_def Let_def)
  then show ?thesis using bound by (simp add: demo_policy_def)
qed

lemma ceiling_wait: "hd q + of_nat (rl_window_seconds p) \<le> now + of_int (wait_seconds p now q)"
proof -
  have "hd q + of_nat (rl_window_seconds p) - now \<le> of_int \<lceil>hd q + of_nat (rl_window_seconds p) - now\<rceil>"
    by (rule le_of_int_ceiling)
  also have "\<dots> \<le> of_int (wait_seconds p now q)" unfolding wait_seconds_def by simp
  finally show ?thesis by simp
qed

text \<open>C29: A refused client that waits for the announced number of seconds is admitted: the
  \<open>Retry-After\<close> of a 429 is at least one second, at most the window (or one second, if that is longer),
  and the client's next request after it is admitted when it makes none in between.\<close>

theorem retry_after_suffices:
  assumes "sorted (map fst reqs)" and "\<forall>q\<in>set reqs. 0 \<le> fst q \<and> fst q \<le> now" and "0 \<le> now"
    and "rate_limit p now host path (rate_after p reqs no_requests) = (Limited n, seen)"
    and "0 < rl_request_limit p" and "now + of_int n \<le> later"
  shows "1 \<le> n \<and> n \<le> max 1 (int (rl_window_seconds p))
    \<and> (\<exists>remaining reset. fst (rate_limit p later host path seen) = Admitted remaining reset)"
proof -
  let ?w = "of_nat (rl_window_seconds p) :: rat"
  let ?k = "client_key host"
  define q where "q = seen ?k"
  have old: "queue_ok p now (rate_after p reqs no_requests ?k)"
    using rate_after_queue_ok [OF assms(1-3), where seen = no_requests] queue_ok_start by blast
  then have ok: "queue_ok p now q" unfolding q_def by (rule rate_limit_queue_ok [OF assms(4)])
  have full: "rl_request_limit p \<le> length q" and n: "n = wait_seconds p now q"
    and recent: "q = dropWhile (\<lambda>t. t \<le> now - ?w) (rate_after p reqs no_requests ?k)"
    and on: "\<not> exempt p path"
    using rate_limit_cases [OF assms(4)] by (auto simp: q_def)
  obtain t ts where q: "q = t # ts" using full assms(5) by (cases q) auto
  have "now - ?w < t" using hd_dropWhile [of "\<lambda>t. t \<le> now - ?w"] recent q
    by (metis list.distinct(1) list.sel(1) not_le)
  moreover have "t \<le> now" using ok q by (simp add: queue_ok_def)
  ultimately have "\<lceil>t + ?w - now\<rceil> \<le> int (rl_window_seconds p)"
    by (simp add: ceiling_le_iff)
  then have bounds: "1 \<le> n \<and> n \<le> max 1 (int (rl_window_seconds p))" by (simp add: n wait_seconds_def q)
  have "t \<le> later - ?w" using ceiling_wait [of q p now] assms(6) by (simp add: n q)
  then have "length (dropWhile (\<lambda>t. t \<le> later - ?w) q) < rl_request_limit p"
    using ok length_dropWhile_le [of "\<lambda>t. t \<le> later - ?w" ts] by (simp add: q queue_ok_def)
  then show ?thesis using bounds on by (simp add: rate_limit_def Let_def q_def)
qed

theorem retry_after_suffices_witness:
  "fst (rate_limit demo_policy 3 (Some ''a'') ''/api'' (rate_after demo_policy (take 2 demo_requests) no_requests)) = Limited 8
    \<and> (\<exists>remaining reset. fst (rate_limit demo_policy 11 (Some ''a'') ''/api''
         (snd (rate_limit demo_policy 3 (Some ''a'') ''/api'' (rate_after demo_policy (take 2 demo_requests) no_requests))))
           = Admitted remaining reset)"
proof -
  have limited: "fst (rate_limit demo_policy 3 (Some ''a'') ''/api''
    (rate_after demo_policy (take 2 demo_requests) no_requests)) = Limited 8"
    by (simp add: demo_requests_def demo_policy_def rate_limit_def exempt_def starts_with_def
        RATE_LIMIT_EXEMPT_PATHS_def client_key_def no_requests_def wait_seconds_def Let_def)
  then have step: "rate_limit demo_policy 3 (Some ''a'') ''/api''
    (rate_after demo_policy (take 2 demo_requests) no_requests) = (Limited 8,
      snd (rate_limit demo_policy 3 (Some ''a'') ''/api'' (rate_after demo_policy (take 2 demo_requests) no_requests)))"
    by (simp add: prod_eq_iff)
  show ?thesis
    using limited retry_after_suffices [OF _ _ _ step, of 11]
    by (simp add: demo_requests_def demo_policy_def)
qed

section \<open>Keys\<close>

lemma set_default_keep: "map_of hs n = Some v \<Longrightarrow> map_of (set_default k w hs) n = Some v"
  by (auto simp: set_default_def map_add_def)

lemma map_of_set_header: "map_of (set_header k v hs) n = (if n = k then Some v else map_of hs n)"
proof (cases "map_of hs k")
  case (Some w)
  have "map_of (map (\<lambda>(k', v'). if k' = k then (k', v) else (k', v')) xs) n
    = (if n = k then map_option (\<lambda>_. v) (map_of xs n) else map_of xs n)" for xs
    by (induction xs) auto
  then show ?thesis using Some by (simp add: set_header_def)
qed (auto simp: set_header_def map_add_def split: option.splits)

lemma security_headers_keep:
  "map_of hs n = Some v \<Longrightarrow> map_of (security_headers hsts path hs) n = Some v"
  by (simp add: security_headers_def SECURITY_HEADERS_def Let_def set_default_keep)

lemma rate_headers_keep:
  "map_of hs n = Some v \<Longrightarrow> map_of (rate_headers p Exempt hs) n = Some v"
  "map_of hs n = Some v \<Longrightarrow> map_of (rate_headers p (Admitted i j) hs) n = Some v"
  by (simp_all add: rate_headers_def set_default_keep)

text \<open>C22: In a production deployment that passes the validation of its settings, a request to a
  protected route that presents no key or another key than the configured one never reaches the route:
  the platform's state is what it was, and the answer is 401, 429 when the limiter is exhausted, or the
  500 of a comparison that a non-ASCII key makes raise.\<close>

theorem protected_route_needs_key:
  assumes "validate_obs_settings c = Some c'" and "os_environment c' = ProductionEnv"
    and "is_protected q" and "aq_api_key q \<noteq> os_api_key c'"
    and "handle_request c' p now fresh_id is_protected route q (seen, s) = (r, seen', s')"
  shows "s' = s \<and> ap_status r \<in> {401, 429, 500}
    \<and> (ap_status r = 500 \<longrightarrow> (\<exists>k. aq_api_key q = Some k \<and> \<not> (ascii k \<and> ascii (the (os_api_key c')))))
    \<and> (ap_status r = 401 \<longrightarrow> map_of (ap_headers r) ''www-authenticate'' = Some ''ApiKey'')"
proof -
  have c: "os_api_key_enabled c'" "\<exists>k. os_api_key c' = Some k"
    using assms(1,2)
    by (auto simp: validate_obs_settings_def validate_production_security_def split: if_splits option.splits)
  then obtain k where k: "os_api_key c' = Some k" by blast
  obtain d seen1 where limit: "rate_limit p now (aq_host q) (aq_path q) seen = (d, seen1)" by fastforce
  define refused where "refused = (\<lambda>hs. \<lparr>ap_status = 401, ap_detail = Some (JStr ''Invalid or missing API key''),
    ap_headers = security_headers (os_environment c' = ProductionEnv) (aq_path q)
      (set_header ''x-request-id'' (case aq_request_id q of None \<Rightarrow> fresh_id | Some i \<Rightarrow> i) hs)\<rparr>)"
  have key: "require_api_key c' (aq_api_key q) = (case aq_api_key q of
      Some k' \<Rightarrow> if ascii k' \<and> ascii k then unauthorized else server_error | None \<Rightarrow> unauthorized)"
    using c k assms(4) by (auto simp: require_api_key_def compare_digest_def split: option.splits)
  show ?thesis
  proof (cases "\<exists>w. d = Limited w")
    case True
    then show ?thesis using assms(5) by (auto simp: handle_request_def limit Let_def)
  next
    case False
    have answer: "handle_request c' p now fresh_id is_protected route q (seen, s) =
        (if require_api_key c' (aq_api_key q) = server_error then bare_error
         else refused (rate_headers p d [(''www-authenticate'', ''ApiKey'')]), seen1, s)"
    proof (cases "require_api_key c' (aq_api_key q) = server_error")
      case True
      then show ?thesis using False assms(3)
        by (cases d) (simp_all add: handle_request_def limit Let_def server_error_def)
    next
      case refuse: False
      then have "require_api_key c' (aq_api_key q) = HTTPException 401 (JStr ''Invalid or missing API key'')"
        using key by (auto simp: unauthorized_def split: option.splits if_splits)
      then show ?thesis using False assms(3) refuse
        by (cases d) (simp_all add: handle_request_def limit Let_def refused_def)
    qed
    have "map_of (rate_headers p d [(''www-authenticate'', ''ApiKey'')]) ''www-authenticate'' = Some ''ApiKey''"
      using False by (cases d) (simp_all add: rate_headers_keep)
    then have refused_key: "map_of (ap_headers (refused (rate_headers p d [(''www-authenticate'', ''ApiKey'')])))
        ''www-authenticate'' = Some ''ApiKey''"
      by (simp add: refused_def map_of_set_header security_headers_keep)
    have refused_status: "ap_status (refused hs) = 401" for hs by (simp add: refused_def)
    have raises: "require_api_key c' (aq_api_key q) = server_error \<Longrightarrow>
        \<exists>k'. aq_api_key q = Some k' \<and> \<not> (ascii k' \<and> ascii k)"
      unfolding key by (cases "aq_api_key q") (simp_all add: unauthorized_def server_error_def split: if_splits)
    show ?thesis
      using trans [OF answer [symmetric] assms(5)] raises refused_status refused_key k
      by (cases "require_api_key c' (aq_api_key q) = server_error") (auto simp: bare_error_def)
  qed
qed

definition demo_settings :: obs_settings where
  "demo_settings = \<lparr>os_environment = ProductionEnv, os_database_url = ''postgresql://db'',
     os_api_key_enabled = True, os_api_key = Some (replicate 32 (CHR ''k'')), os_trusted_hosts = [''h''],
     os_rate_limit_enabled = True, os_rate_limit_requests = 2, os_rate_limit_window_seconds = 10\<rparr>"

definition demo_request :: access_request where
  "demo_request = \<lparr>aq_path = ''/api'', aq_host = Some ''a'', aq_api_key = Some ''guess'', aq_request_id = None\<rparr>"

lemma demo_settings_valid: "validate_obs_settings demo_settings = Some demo_settings"
  unfolding validate_obs_settings_def validate_production_security_def demo_settings_def
  by code_simp

theorem protected_route_needs_key_witness:
  "\<exists>r seen. handle_request demo_settings demo_policy 1 ''id'' (\<lambda>_. True)
      (\<lambda>_ n. (None, n + 1)) demo_request (no_requests, 0 :: nat) = (r, seen, 0) \<and> ap_status r = 401"
proof -
  obtain r seen s where run: "handle_request demo_settings demo_policy 1 ''id'' (\<lambda>_. True)
      (\<lambda>_ n. (None, n + 1)) demo_request (no_requests, 0 :: nat) = (r, seen, s)"
    by (metis prod_cases3)
  have "aq_api_key demo_request \<noteq> os_api_key demo_settings"
    by (simp add: demo_request_def demo_settings_def numeral_eq_Suc)
  from protected_route_needs_key [OF demo_settings_valid _ _ this run]
  have "s = 0" by (simp add: demo_settings_def)
  moreover have "ap_status (fst (handle_request demo_settings demo_policy 1 ''id'' (\<lambda>_. True)
      (\<lambda>_ n. (None, n + 1)) demo_request (no_requests, 0 :: nat))) = 401"
    by (simp add: handle_request_def demo_request_def demo_settings_def demo_policy_def no_requests_def
        rate_limit_def exempt_def starts_with_def RATE_LIMIT_EXEMPT_PATHS_def client_key_def Let_def
        require_api_key_def compare_digest_def ascii_def unauthorized_def numeral_eq_Suc)
  ultimately show ?thesis using run by simp
qed

section \<open>The dashboard\<close>

lemma length_filter_mset: "mset xs = mset ys \<Longrightarrow> length (filter P xs) = length (filter P ys)"
  by (metis mset_filter size_mset)

lemma rank_bounds:
  fixes key :: "'a \<Rightarrow> 'k::linorder"
  assumes "sorted (map key xs)" and "i < length xs"
  shows "i < length (filter (\<lambda>v. key v \<le> key (xs ! i)) xs)"
    and "length (filter (\<lambda>v. key v < key (xs ! i)) xs) \<le> i"
proof -
  have le: "key (xs ! a) \<le> key (xs ! b)" if "a \<le> b" "b < length xs" for a b
    using sorted_nth_mono [OF assms(1) that(1)] that by simp
  have "{..i} \<subseteq> {j. j < length xs \<and> key (xs ! j) \<le> key (xs ! i)}"
    using assms(2) le by auto
  then have "card {..i} \<le> card {j. j < length xs \<and> key (xs ! j) \<le> key (xs ! i)}"
    by (intro card_mono) simp_all
  then show "i < length (filter (\<lambda>v. key v \<le> key (xs ! i)) xs)" by (simp add: length_filter_conv_card)
  have "{j. j < length xs \<and> key (xs ! j) < key (xs ! i)} \<subseteq> {..<i}"
    using le [of i] by (auto simp: not_le [symmetric])
  then have "card {j. j < length xs \<and> key (xs ! j) < key (xs ! i)} \<le> card {..<i}"
    by (intro card_mono) simp_all
  then show "length (filter (\<lambda>v. key v < key (xs ! i)) xs) \<le> i" by (simp add: length_filter_conv_card)
qed

lemma rank_arith:
  "i < k \<Longrightarrow> 19 * n \<le> 20 * (i + 1) \<Longrightarrow> n = v \<Longrightarrow> 19 * v \<le> 20 * (k :: nat)"
  "k \<le> i \<Longrightarrow> 20 * i < 19 * n \<Longrightarrow> n = v \<Longrightarrow> 20 * k < 19 * (v :: nat)"
  by simp_all

lemma summarize_Inr:
  assumes "summarize mean now db service environment name source lo hi minutes = Inr m"
  shows "\<exists>r rs. m = metric_statistics mean service environment name r rs
    \<and> set (r # rs) \<subseteq> set (telemetry db) \<and> (\<forall>x\<in>set (r # rs). sample_name x = Some name \<and> sample_unit x = sample_unit r)"
proof -
  let ?rows = "\<lambda>a b. filter (\<lambda>r. sample_name r = Some name)
    (map fst (query_metric_records db service environment source a b))"
  obtain a b where ab: "(case ?rows a b of
      [] \<Rightarrow> Inl (MetricSamplesNotFoundError (''No samples found for metric '' @ quoted name @
         '' on service '' @ quoted service @ '' in environment '' @ quoted (environment_value environment)))
    | r # rs \<Rightarrow> if \<exists>x\<in>set rs. sample_unit x \<noteq> sample_unit r
        then Inl (InconsistentMetricUnitError (''Metric '' @ quoted name @ '' contains inconsistent units''))
        else Inr (metric_statistics mean service environment name r rs)) = Inr m"
    using assms unfolding summarize_def Let_def rbind_eq_Inr option.case_eq_if
    by (auto simp: rbind_eq_Inr split: option.splits bool.splits if_splits simp del: list.case)
  then obtain r rs where found: "?rows a b = r # rs" by (cases "?rows a b") auto
  then have m: "m = metric_statistics mean service environment name r rs"
    and unit: "\<forall>x\<in>set rs. sample_unit x = sample_unit r"
    using ab by (auto split: if_splits)
  have "set (r # rs) \<subseteq> set (telemetry db)"
    unfolding found [symmetric]
    by (auto simp: query_metric_records_def join_service_def List.map_filter_def)
  moreover have "\<forall>x\<in>set (r # rs). sample_name x = Some name" unfolding found [symmetric] by simp
  ultimately show ?thesis using m unit by (intro exI [of _ r] exI [of _ rs]) simp
qed

text \<open>The summary of a metric is taken over at least one stored sample. Its minimum and maximum
  are samples that bound all others, and its 95th percentile is a sample between them with at least 95%
  of the samples not above it and less than 95% of them below it.\<close>

theorem metric_summary_statistics:
  assumes "summarize mean now db service environment name source lo hi minutes = Inr m"
  defines "samples \<equiv> map (\<lambda>(t, v, s). v) (sm_points m)"
  shows "sm_sample_count m = length samples \<and> {sm_minimum_value m, sm_maximum_value m, sm_p95_value m} \<subseteq> set samples
    \<and> (\<forall>v\<in>set samples. value_key (sm_minimum_value m) \<le> value_key v \<and> value_key v \<le> value_key (sm_maximum_value m))
    \<and> 19 * length samples \<le> 20 * length (filter (\<lambda>v. value_key v \<le> value_key (sm_p95_value m)) samples)
    \<and> 20 * length (filter (\<lambda>v. value_key v < value_key (sm_p95_value m)) samples) < 19 * length samples"
proof -
  obtain r rs where m: "m = metric_statistics mean service environment name r rs"
    using summarize_Inr [OF assms(1)] by blast
  define vals where "vals = map sample_value (r # rs)"
  define ordered where "ordered = sort_key value_key vals"
  define i where "i = p95_index (length ordered)"
  have samples: "samples = vals" by (simp add: samples_def m metric_statistics_def Let_def vals_def)
  have p95: "sm_p95_value m = ordered ! i"
    by (simp add: m metric_statistics_def Let_def ordered_def i_def vals_def)
  have n: "0 < length ordered" "length ordered = length vals" by (simp_all add: ordered_def vals_def)
  have i: "i < length ordered" using p95_index_less [OF n(1)] by (simp add: i_def)
  have same: "length (filter P ordered) = length (filter P vals)" for P
    by (rule length_filter_mset) (simp add: ordered_def)
  have sorted: "sorted (map value_key ordered)" by (simp add: ordered_def)
  have rank: "19 * length ordered \<le> 20 * (i + 1)" "20 * i < 19 * length ordered"
    using p95_index_rank [OF n(1)] by (simp_all add: i_def)
  have "19 * length vals \<le> 20 * length (filter (\<lambda>v. value_key v \<le> value_key (ordered ! i)) vals)"
    by (rule rank_arith(1) [OF _ rank(1) n(2)]) (use rank_bounds(1) [OF sorted i] in \<open>simp only: same\<close>)
  moreover have "20 * length (filter (\<lambda>v. value_key v < value_key (ordered ! i)) vals) < 19 * length vals"
    by (rule rank_arith(2) [OF _ rank(2) n(2)]) (use rank_bounds(2) [OF sorted i] in \<open>simp only: same\<close>)
  moreover have "ordered ! i \<in> set vals" using nth_mem [OF i] by (simp add: ordered_def)
  moreover have "sm_minimum_value m = first_min value_key (hd vals) (tl vals)"
    "sm_maximum_value m = first_min (\<lambda>v. - value_key v) (hd vals) (tl vals)" "sm_sample_count m = length vals"
    by (simp_all add: m metric_statistics_def Let_def vals_def)
  moreover have "hd vals # tl vals = vals" by (simp add: vals_def)
  ultimately show ?thesis
    using first_min_in [of value_key "hd vals" "tl vals"] first_min_le [where key = value_key and best = "hd vals" and xs = "tl vals"]
      first_min_in [of "\<lambda>v. - value_key v" "hd vals" "tl vals"]
      first_min_le [where key = "\<lambda>v. - value_key v" and best = "hd vals" and xs = "tl vals"]
    unfolding samples p95 by simp
qed

definition demo_sample :: "uuid \<Rightarrow> time \<Rightarrow> string \<Rightarrow> telemetry_record" where
  "demo_sample i t v = \<lparr>tr_id = i, tr_service_id = 1, tr_type = METRIC, tr_source = ''host'', tr_observed_at = t,
     tr_received_at = t, tr_payload = MetricTelemetry \<lparr>tb_service = ''s'', tb_environment = STAGING,
       tb_source = ''host'', tb_timestamp = Aware t, tb_attributes = []\<rparr> ''load'' v None\<rparr>"

definition demo_metrics :: obs_db where
  "demo_metrics = empty_obs_db\<lparr>services := [\<lparr>ms_id = 1, ms_name = ''s'', ms_environment = STAGING,
      ms_description = None, ms_created_at = 0, ms_updated_at = 0\<rparr>],
    telemetry := [demo_sample 2 20 ''7.5'', demo_sample 3 10 ''10.0'', demo_sample 4 30 ''9.0'']\<rparr>"

definition demo_summary :: "obs_error + metric_summary" where
  "demo_summary = summarize (\<lambda>_. ''8.83'') 50 demo_metrics ''s'' STAGING ''load'' None (Some (Aware 5)) None 60"

lemma demo_summary_value:
  "(case demo_summary of Inl _ \<Rightarrow> None | Inr m \<Rightarrow> Some (map (\<lambda>(t, v, s). v) (sm_points m), sm_minimum_value m, sm_p95_value m))
     = Some ([''10.0'', ''7.5'', ''9.0''], ''7.5'', ''10.0'')"
  by code_simp

theorem metric_summary_statistics_witness:
  "\<exists>m. demo_summary = Inr m \<and> sm_sample_count m = 3 \<and> sm_p95_value m = ''10.0''"
proof -
  obtain m where m: "demo_summary = Inr m" "map (\<lambda>(t, v, s). v) (sm_points m) = [''10.0'', ''7.5'', ''9.0'']"
    "sm_p95_value m = ''10.0''"
    using demo_summary_value by (auto split: sum.splits)
  have "sm_sample_count m = 3"
    using conjunct1 [OF metric_summary_statistics [OF m(1) [unfolded demo_summary_def]]] m(2) by simp
  then show ?thesis using m by blast
qed

text \<open>The check of the production key refuses placeholders, not blanks.\<close>

theorem blank_production_key_accepted:
  "validate_obs_settings (demo_settings\<lparr>os_api_key := Some (replicate 32 (CHR '' ''))\<rparr>) \<noteq> None"
  unfolding validate_obs_settings_def validate_production_security_def demo_settings_def
  by code_simp

end
