(* ===== verification/Cloud_Model.thy ===== *)
theory Cloud_Model
  imports Wire
begin

text \<open>
  The data of the cloud operations API (cloud-deployed-full-stack-system/backend/app): users, incidents
  and the audit history (models/), the request bodies (schemas/), the settings (core/config.py), and the
  third-party functions the service calls, which are arguments of the model: password hashing (pwdlib),
  signed tokens (PyJWT) and the validation of e-mail addresses.
  Tokens are values of a type of their own, the parameter \<open>'t\<close>.
\<close>

section \<open>Tables\<close>

datatype user_role = VIEWER | OPERATOR | ADMIN

definition role_value :: "user_role \<Rightarrow> string" where
  "role_value r = (case r of VIEWER \<Rightarrow> ''viewer'' | OPERATOR \<Rightarrow> ''operator'' | ADMIN \<Rightarrow> ''admin'')"

record cloud_user =
  us_id :: uuid
  us_email :: string
  us_full_name :: string
  us_password_hash :: string
  us_role :: user_role
  us_is_active :: bool
  us_created_at :: time
  us_updated_at :: time

datatype ops_status = OPS_OPEN | OPS_INVESTIGATING | OPS_RESOLVED | OPS_CLOSED
datatype ops_severity = SEV_LOW | SEV_MEDIUM | SEV_HIGH | SEV_CRITICAL

definition ops_status_value :: "ops_status \<Rightarrow> string" where
  "ops_status_value s = (case s of OPS_OPEN \<Rightarrow> ''open'' | OPS_INVESTIGATING \<Rightarrow> ''investigating''
     | OPS_RESOLVED \<Rightarrow> ''resolved'' | OPS_CLOSED \<Rightarrow> ''closed'')"

definition ops_severity_value :: "ops_severity \<Rightarrow> string" where
  "ops_severity_value s = (case s of SEV_LOW \<Rightarrow> ''low'' | SEV_MEDIUM \<Rightarrow> ''medium'' | SEV_HIGH \<Rightarrow> ''high''
     | SEV_CRITICAL \<Rightarrow> ''critical'')"

record ops_incident =
  oi_id :: uuid
  oi_title :: string
  oi_description :: string
  oi_service_name :: string
  oi_severity :: ops_severity
  oi_status :: ops_status
  oi_created_at :: time
  oi_updated_at :: time

datatype audit_action = INCIDENT_CREATED | INCIDENT_UPDATED | INCIDENT_DELETED | USER_ROLE_CHANGED
  | USER_STATUS_CHANGED

datatype audit_resource_type = INCIDENT | USER

text \<open>A change: the field, its value before and its value after.\<close>

type_synonym change_set = "(string \<times> json \<times> json) list"

record audit_event =
  au_id :: uuid
  au_actor_user_id :: uuid
  au_actor_email :: string
  au_actor_role :: user_role
  au_action :: audit_action
  au_resource_type :: audit_resource_type
  au_resource_id :: uuid
  au_resource_label :: string
  au_changes :: change_set
  au_created_at :: time

record cloud_db =
  users :: "cloud_user list"
  ops_incidents :: "ops_incident list"
  audit_events :: "audit_event list"

definition empty_cloud_db :: cloud_db where
  "empty_cloud_db = \<lparr>users = [], ops_incidents = [], audit_events = []\<rparr>"

section \<open>Third-party functions and settings\<close>

record 't auth_library =
  al_hash :: "uuid \<Rightarrow> string \<Rightarrow> string" \<comment> \<open>a salt of 16 bytes and a password\<close>
  al_verify :: "string \<Rightarrow> string \<Rightarrow> bool"
  al_encode :: "json \<Rightarrow> string \<Rightarrow> 't" \<comment> \<open>a payload and a key\<close>
  al_decode :: "'t \<Rightarrow> string \<Rightarrow> string \<Rightarrow> string \<Rightarrow> time \<Rightarrow> json option"
    \<comment> \<open>a token, a key, an issuer, an audience and the time; \<open>None\<close> is an \<open>InvalidTokenError\<close>\<close>
  al_email :: "string \<Rightarrow> string option"
  al_dummy_salt :: uuid

record cloud_settings =
  cs_jwt_secret_key :: string
  cs_access_token_expire_minutes :: int
  cs_jwt_issuer :: string
  cs_jwt_audience :: string

definition valid_cloud_settings :: "cloud_settings \<Rightarrow> bool" where
  "valid_cloud_settings c \<longleftrightarrow> 0 < cs_access_token_expire_minutes c \<and> cs_access_token_expire_minutes c \<le> 1440"

section \<open>Request bodies\<close>

definition length_between :: "nat \<Rightarrow> nat \<Rightarrow> string \<Rightarrow> bool" where
  "length_between lo hi s \<longleftrightarrow> lo \<le> length s \<and> length s \<le> hi"

record user_create =
  uc_email :: string
  uc_full_name :: string
  uc_password :: string

definition validate_user_create :: "'t auth_library \<Rightarrow> user_create \<Rightarrow> user_create option" where
  "validate_user_create lib d = (case al_email lib (uc_email d) of
      None \<Rightarrow> None
    | Some email \<Rightarrow> if length_between 1 120 (uc_full_name d) \<and> length_between 12 128 (uc_password d)
        then Some (d\<lparr>uc_email := email\<rparr>) else None)"

text \<open>\<open>UserResponse\<close> reads a row and applies the same limits.\<close>

definition user_response :: "'t auth_library \<Rightarrow> cloud_user \<Rightarrow> bool" where
  "user_response lib u \<longleftrightarrow> al_email lib (us_email u) \<noteq> None \<and> length_between 1 120 (us_full_name u)"

record incident_create =
  ic_title :: string
  ic_description :: string
  ic_service_name :: string
  ic_severity :: ops_severity

definition valid_incident_text :: "string \<Rightarrow> string \<Rightarrow> string \<Rightarrow> bool" where
  "valid_incident_text title description service_name \<longleftrightarrow> length_between 3 200 title
     \<and> length_between 1 5000 description \<and> length_between 2 120 service_name"

definition validate_incident_create :: "incident_create \<Rightarrow> incident_create option" where
  "validate_incident_create d =
     (let d' = d\<lparr>ic_title := strip (ic_title d), ic_description := strip (ic_description d),
                 ic_service_name := strip (ic_service_name d)\<rparr>
      in if valid_incident_text (ic_title d') (ic_description d') (ic_service_name d') then Some d' else None)"

text \<open>A field of an update that is left out or \<open>null\<close> is \<open>None\<close>: the code drops both.\<close>

record incident_update =
  iu_title :: "string option"
  iu_description :: "string option"
  iu_service_name :: "string option"
  iu_severity :: "ops_severity option"
  iu_status :: "ops_status option"

definition given :: "('a \<Rightarrow> bool) \<Rightarrow> 'a option \<Rightarrow> bool" where
  "given P x = (case x of None \<Rightarrow> True | Some a \<Rightarrow> P a)"

definition validate_incident_update :: "incident_update \<Rightarrow> incident_update option" where
  "validate_incident_update d =
     (let d' = d\<lparr>iu_title := map_option strip (iu_title d), iu_description := map_option strip (iu_description d),
                 iu_service_name := map_option strip (iu_service_name d)\<rparr>
      in if given (length_between 3 200) (iu_title d') \<and> given (length_between 1 5000) (iu_description d')
          \<and> given (length_between 2 120) (iu_service_name d')
         then Some d' else None)"

definition incident_response :: "ops_incident \<Rightarrow> bool" where
  "incident_response r \<longleftrightarrow>
     valid_incident_text (strip (oi_title r)) (strip (oi_description r)) (strip (oi_service_name r))"

section \<open>Errors\<close>

datatype cloud_error =
    EmailAlreadyRegisteredError string
  | InvalidCredentialsError
  | InactiveUserError
  | UserNotFoundError uuid
  | IncidentMissingError uuid
  | CloudDatabaseError db_error

definition cloud_error_text :: "cloud_error \<Rightarrow> string" where
  "cloud_error_text e = (let q = (\<lambda>s. [char_of (39::nat)] @ s @ [char_of (39::nat)]) in case e of
      EmailAlreadyRegisteredError email \<Rightarrow> ''Email '' @ q email @ '' is already registered.''
    | InvalidCredentialsError \<Rightarrow> ''Incorrect email or password.''
    | InactiveUserError \<Rightarrow> ''User account is disabled.''
    | UserNotFoundError i \<Rightarrow> ''User '' @ q (str_uuid i) @ '' was not found.''
    | IncidentMissingError i \<Rightarrow> ''Incident '' @ q (str_uuid i) @ '' was not found.''
    | CloudDatabaseError _ \<Rightarrow> [])"

definition db_result :: "db_error + 'a \<Rightarrow> cloud_error + 'a" where
  "db_result r = (case r of Inl e \<Rightarrow> Inl (CloudDatabaseError e) | Inr a \<Rightarrow> Inr a)"

lemma db_result_eq [result_simps]:
  "db_result r = Inr a \<longleftrightarrow> r = Inr a"
  "db_result r = Inl e \<longleftrightarrow> (\<exists>d. r = Inl d \<and> e = CloudDatabaseError d)"
  by (auto simp: db_result_def split: sum.splits)

section \<open>Request identifiers\<close>

definition safe_id_char :: "char \<Rightarrow> bool" where
  "safe_id_char c = (let n = (of_char c :: nat) in 65 \<le> n \<and> n \<le> 90 \<or> 97 \<le> n \<and> n \<le> 122
     \<or> 48 \<le> n \<and> n \<le> 57 \<or> c = CHR ''.'' \<or> c = CHR ''_'' \<or> c = CHR ''-'')"

definition resolve_request_id :: "uuid \<Rightarrow> string option \<Rightarrow> string" where
  "resolve_request_id fresh candidate = (case candidate of
      Some c \<Rightarrow> if length_between 1 128 c \<and> list_all safe_id_char c then c else uuid_hex fresh
    | None \<Rightarrow> uuid_hex fresh)"

end
