(* ===== verification/Cloud_Search.thy ===== *)
theory Cloud_Search
  imports Cloud_Model "HOL-Library.Sublist"
begin

text \<open>
  Reading incidents: the search of repositories/incidents.py with SQL's \<open>ILIKE\<close>, the filters, the order and
  the page of a listing, and the counts of repositories/dashboard.py and services/dashboard.py. The
  pattern language of \<open>LIKE\<close> with the escape character backslash is defined on its own, so that the
  escaping in the code can be compared with plain containment of the search text.
\<close>

section \<open>Patterns\<close>

abbreviation percent :: char where "percent \<equiv> CHR ''%''"
abbreviation underscore :: char where "underscore \<equiv> CHR ''_''"
abbreviation backslash :: char where "backslash \<equiv> CHR 0x5C"

text \<open>A pattern that ends with the escape character is an error of the database (\<open>None\<close>).\<close>

fun like :: "string \<Rightarrow> string \<Rightarrow> bool option" where
  "like [] t = Some (t = [])"
| "like (c # p) t =
     (if c = percent then
        (case like p t of
           None \<Rightarrow> None
         | Some True \<Rightarrow> Some True
         | Some False \<Rightarrow> (case t of [] \<Rightarrow> Some False | _ # t' \<Rightarrow> like (c # p) t'))
      else if c = backslash then
        (case p of
           [] \<Rightarrow> None
         | d # p' \<Rightarrow> (case t of [] \<Rightarrow> Some False | x # t' \<Rightarrow> if x = d then like p' t' else Some False))
      else (case t of [] \<Rightarrow> Some False
         | x # t' \<Rightarrow> if c = underscore \<or> x = c then like p t' else Some False))"

definition ilike :: "string \<Rightarrow> string \<Rightarrow> bool option" where
  "ilike p t = like (lower p) (lower t)"

section \<open>The search of the code\<close>

definition replace_char :: "char \<Rightarrow> string \<Rightarrow> string \<Rightarrow> string" where
  "replace_char c r s = concat (map (\<lambda>x. if x = c then r else [x]) s)"

definition escape_like_value :: "string \<Rightarrow> string" where
  "escape_like_value value =
     replace_char underscore [backslash, underscore]
       (replace_char percent [backslash, percent]
         (replace_char backslash [backslash, backslash] value))"

definition search_pattern :: "string \<Rightarrow> string" where
  "search_pattern value = [percent] @ escape_like_value value @ [percent]"

text \<open>\<open>or_\<close> of the three columns; a pattern error of one fails the statement. Letters are folded as in
  ASCII; the character NUL, which no stored text holds and which the driver refuses as a parameter, is
  not singled out.\<close>

definition search_matches :: "string option \<Rightarrow> ops_incident \<Rightarrow> bool option" where
  "search_matches search r =
     (let normalized_search = (case search of None \<Rightarrow> [] | Some s \<Rightarrow> strip s);
          p = search_pattern normalized_search
      in if normalized_search = [] then Some True
         else case (ilike p (oi_title r), ilike p (oi_description r), ilike p (oi_service_name r)) of
             (Some a, Some b, Some c) \<Rightarrow> Some (a \<or> b \<or> c)
           | _ \<Rightarrow> None)"

definition service_matches :: "string option \<Rightarrow> ops_incident \<Rightarrow> bool" where
  "service_matches service_name r =
     (let normalized_service_name = (case service_name of None \<Rightarrow> [] | Some s \<Rightarrow> lower (strip s))
      in normalized_service_name = [] \<or> lower (oi_service_name r) = normalized_service_name)"

definition newest_key :: "ops_incident \<Rightarrow> int \<times> int" where
  "newest_key r = (- oi_created_at r, - uint (oi_id r))"

definition list_ops_incidents :: "cloud_db \<Rightarrow> string option \<Rightarrow> ops_status option \<Rightarrow> ops_severity option \<Rightarrow>
    string option \<Rightarrow> nat \<Rightarrow> nat \<Rightarrow> cloud_error + ops_incident list" where
  "list_ops_incidents db search status severity service_name offset limit =
     (if \<exists>r\<in>set (ops_incidents db). search_matches search r = None
      then Inl (CloudDatabaseError DataError)
      else Inr (page offset limit (sort_key newest_key
        (filter (\<lambda>r. search_matches search r = Some True \<and> service_matches service_name r
            \<and> matches status (oi_status r) \<and> matches severity (oi_severity r)) (ops_incidents db)))))"

section \<open>The dashboard\<close>

definition count_incidents_by_status :: "cloud_db \<Rightarrow> ops_status \<Rightarrow> nat" where
  "count_incidents_by_status db s = length (filter (\<lambda>r. oi_status r = s) (ops_incidents db))"

definition count_incidents_by_severity :: "cloud_db \<Rightarrow> ops_severity \<Rightarrow> nat" where
  "count_incidents_by_severity db s = length (filter (\<lambda>r. oi_severity r = s) (ops_incidents db))"

definition active_status :: "ops_status \<Rightarrow> bool" where
  "active_status s \<longleftrightarrow> s = OPS_OPEN \<or> s = OPS_INVESTIGATING"

definition count_affected_services :: "cloud_db \<Rightarrow> nat" where
  "count_affected_services db =
     length (remdups (map oi_service_name (filter (\<lambda>r. active_status (oi_status r)) (ops_incidents db))))"

record dashboard_summary =
  ds_total_incidents :: nat
  ds_active_incidents :: nat
  ds_critical_incidents :: nat
  ds_resolved_incidents :: nat
  ds_affected_services :: nat
  ds_status_counts :: "(ops_status \<times> nat) list"
  ds_severity_counts :: "(ops_severity \<times> nat) list"

definition all_statuses :: "ops_status list" where
  "all_statuses = [OPS_OPEN, OPS_INVESTIGATING, OPS_RESOLVED, OPS_CLOSED]"

definition all_severities :: "ops_severity list" where
  "all_severities = [SEV_LOW, SEV_MEDIUM, SEV_HIGH, SEV_CRITICAL]"

definition get_dashboard_summary :: "cloud_db \<Rightarrow> dashboard_summary" where
  "get_dashboard_summary db =
     (let by_status = count_incidents_by_status db; by_severity = count_incidents_by_severity db
      in \<lparr>ds_total_incidents = sum_list (map by_status all_statuses),
          ds_active_incidents = by_status OPS_OPEN + by_status OPS_INVESTIGATING,
          ds_critical_incidents = by_severity SEV_CRITICAL,
          ds_resolved_incidents = by_status OPS_RESOLVED,
          ds_affected_services = count_affected_services db,
          ds_status_counts = map (\<lambda>s. (s, by_status s)) all_statuses,
          ds_severity_counts = map (\<lambda>s. (s, by_severity s)) all_severities\<rparr>)"

section \<open>The escaped pattern is containment\<close>

definition escape_char :: "char \<Rightarrow> string" where
  "escape_char c = (if c \<in> {backslash, percent, underscore} then [backslash, c] else [c])"

lemma escape_chars: "escape_like_value s = concat (map escape_char s)"
  by (induction s) (auto simp: escape_like_value_def replace_char_def escape_char_def)

lemma code_lower_char:
  "(of_char (lower_char c) :: nat) = (if 65 \<le> (of_char c :: nat) \<and> (of_char c :: nat) \<le> 90 then of_char c + 32 else of_char c)"
  by (simp add: lower_char_def Let_def)

lemma lower_char_special: "x \<in> {percent, underscore, backslash} \<Longrightarrow> lower_char c = x \<longleftrightarrow> c = x"
proof -
  assume "x \<in> {percent, underscore, backslash}"
  then have "(of_char x :: nat) \<in> {37, 95, 92}" by auto
  then have "(of_char (lower_char c) :: nat) = of_char x \<longleftrightarrow> (of_char c :: nat) = of_char x"
    unfolding code_lower_char by auto
  then show ?thesis by simp
qed

lemma lower_escape: "lower (escape_like_value s) = escape_like_value (lower s)"
proof (induction s)
  case (Cons c s)
  have fixed: "lower_char percent = percent" "lower_char underscore = underscore" "lower_char backslash = backslash"
    using lower_char_special [of percent percent] lower_char_special [of underscore underscore]
      lower_char_special [of backslash backslash] by simp_all
  have "lower (escape_char c) = escape_char (lower_char c)"
  proof (cases "c \<in> {percent, underscore, backslash}")
    case False
    then have "lower_char c \<notin> {percent, underscore, backslash}"
      using lower_char_special [of percent c] lower_char_special [of underscore c] lower_char_special [of backslash c]
      by simp
    then show ?thesis using False by (simp add: escape_char_def lower_def)
  qed (auto simp: escape_char_def lower_def fixed)
  then show ?case using Cons by (simp add: escape_chars lower_def)
qed (simp add: escape_chars lower_def)

lemma like_percent: "like [percent] t = Some True"
  by (induction t) auto

lemma like_escaped_prefix: "like (escape_like_value q @ [percent]) t = Some (prefix q t)"
  unfolding escape_chars
proof (induction q arbitrary: t)
  case Nil
  then show ?case by (simp add: like_percent del: like.simps)
next
  case (Cons c q)
  then show ?case by (cases t) (auto simp: escape_char_def split: option.splits)
qed

lemma like_search: "like (search_pattern q) t = Some (sublist q t)"
  unfolding search_pattern_def
  by (induction t) (auto simp: like_escaped_prefix sublist_Cons_right split: option.splits bool.splits)

lemma ilike_search: "ilike (search_pattern q) t = Some (sublist (lower q) (lower t))"
proof -
  have "lower (search_pattern q) = search_pattern (lower q)"
    by (simp add: search_pattern_def lower_escape [symmetric]) (simp add: lower_def lower_char_def)
  then show ?thesis by (simp add: ilike_def like_search)
qed

end
