(* ===== verification/Cloud_Service.thy ===== *)
theory Cloud_Service
  imports Cloud_Search
begin

text \<open>
  The services and endpoints of the cloud operations API: tokens (core/security.py), the audit history
  (services/audit_events.py), users (services/auth.py), incidents (services/incidents.py), the
  authentication and authorization of a request (api/dependencies/auth.py), the routes (api/routes) and
  the command that creates the first administrator (cli/bootstrap_admin.py). A request loads its user
  first; what it does after that is a function of the user it loaded and the tables it then finds, so
  that other requests may come in between. A transaction reads one clock.
\<close>

section \<open>Tokens\<close>

definition epoch_seconds :: "time \<Rightarrow> int" where
  "epoch_seconds t = t div 1000000"

definition create_access_token :: "'t auth_library \<Rightarrow> cloud_settings \<Rightarrow> time \<Rightarrow> string \<Rightarrow> 't" where
  "create_access_token lib c now subject = al_encode lib (JObj
     [(''sub'', JStr subject), (''type'', JStr ''access''), (''iat'', JInt (epoch_seconds now)),
      (''exp'', JInt (epoch_seconds (now + cs_access_token_expire_minutes c * 60000000))),
      (''iss'', JStr (cs_jwt_issuer c)), (''aud'', JStr (cs_jwt_audience c))]) (cs_jwt_secret_key c)"

definition decode_access_token :: "'t auth_library \<Rightarrow> cloud_settings \<Rightarrow> time \<Rightarrow> 't \<Rightarrow> string option" where
  "decode_access_token lib c now token =
     (case al_decode lib token (cs_jwt_secret_key c) (cs_jwt_issuer c) (cs_jwt_audience c) now of
        None \<Rightarrow> None
      | Some payload \<Rightarrow> if json_get ''type'' payload \<noteq> Some (JStr ''access'') then None
          else (case json_get ''sub'' payload of
              Some (JStr s) \<Rightarrow> if s = [] then None else Some s
            | _ \<Rightarrow> None))"

section \<open>The audit history\<close>

definition build_change_set :: "(string \<times> json) list \<Rightarrow> (string \<times> json) list \<Rightarrow> change_set" where
  "build_change_set previous_values current_values =
     filter (\<lambda>(k, a, b). a \<noteq> b)
       (map (\<lambda>(k, b). (k, (case map_of previous_values k of None \<Rightarrow> JNull | Some a \<Rightarrow> a), b)) current_values)"

definition audit_row :: "uuid \<Rightarrow> time \<Rightarrow> cloud_user \<Rightarrow> audit_action \<Rightarrow> audit_resource_type \<Rightarrow> uuid \<Rightarrow> string \<Rightarrow>
    change_set \<Rightarrow> audit_event" where
  "audit_row i now actor action resource_type resource_id resource_label changes =
     \<lparr>au_id = i, au_actor_user_id = us_id actor, au_actor_email = us_email actor, au_actor_role = us_role actor,
      au_action = action, au_resource_type = resource_type, au_resource_id = resource_id,
      au_resource_label = resource_label, au_changes = changes, au_created_at = now\<rparr>"

text \<open>The event is flushed in the transaction of its mutation; its actor must be a stored user.\<close>

definition record_audit_event :: "env \<Rightarrow> cloud_db \<Rightarrow> audit_event \<Rightarrow> db_error + cloud_db" where
  "record_audit_event env db e =
     rbind (flush_fault env) (\<lambda>_.
     rbind (ensure (au_actor_user_id e \<in> us_id ` set (users db)) IntegrityError) (\<lambda>_.
     Inr (db\<lparr>audit_events := audit_events db @ [e]\<rparr>)))"

definition list_audit_events :: "cloud_db \<Rightarrow> nat \<Rightarrow> nat \<Rightarrow> audit_event list" where
  "list_audit_events db offset limit =
     page offset limit (sort_key (\<lambda>e. (- au_created_at e, - uint (au_id e))) (audit_events db))"

section \<open>Users\<close>

definition get_user_by_email :: "cloud_db \<Rightarrow> string \<Rightarrow> cloud_user option" where
  "get_user_by_email db email = find (\<lambda>u. us_email u = lower (strip email)) (users db)"

definition user_by_id :: "cloud_db \<Rightarrow> uuid \<Rightarrow> cloud_user option" where
  "user_by_id db i = find (\<lambda>u. us_id u = i) (users db)"

definition get_user :: "cloud_db \<Rightarrow> uuid \<Rightarrow> cloud_error + cloud_user" where
  "get_user db i = of_option (UserNotFoundError i) (user_by_id db i)"

text \<open>\<open>ORDER BY created_at\<close>; rows that tie keep their table order.\<close>

definition list_users :: "cloud_db \<Rightarrow> nat \<Rightarrow> nat \<Rightarrow> cloud_user list" where
  "list_users db offset limit = page offset limit (sort_key us_created_at (users db))"

definition create_user :: "env \<Rightarrow> cloud_db \<Rightarrow> string \<Rightarrow> string \<Rightarrow> string \<Rightarrow> user_role \<Rightarrow>
    db_error + cloud_user \<times> cloud_db" where
  "create_user env db email full_name hash role =
     (let u = \<lparr>us_id = env_ids env 0, us_email = lower (strip email), us_full_name = strip full_name,
               us_password_hash = hash, us_role = role, us_is_active = True, us_created_at = env_now env,
               us_updated_at = env_now env\<rparr>
      in rbind (flush_fault env) (\<lambda>_.
         rbind (ensure (us_email u \<notin> us_email ` set (users db)) IntegrityError) (\<lambda>_.
         Inr (u, db\<lparr>users := users db @ [u]\<rparr>))))"

definition register_user :: "'t auth_library \<Rightarrow> env \<Rightarrow> cloud_db \<Rightarrow> user_create \<Rightarrow>
    (cloud_error + cloud_user) \<times> cloud_db" where
  "register_user lib env db d =
     (let email = lower (strip (uc_email d)) in
      if get_user_by_email db email \<noteq> None then (Inl (EmailAlreadyRegisteredError email), db)
      else transaction db (case rbind (create_user env db email (uc_full_name d)
                                    (al_hash lib (env_ids env 1) (uc_password d)) VIEWER) (\<lambda>x.
                                  rbind (commit_fault env) (\<lambda>_. Inr x)) of
          Inr x \<Rightarrow> Inr x
        | Inl IntegrityError \<Rightarrow> Inl (EmailAlreadyRegisteredError email)
        | Inl e \<Rightarrow> Inl (CloudDatabaseError e)))"

definition DUMMY_PASSWORD_HASH :: "'t auth_library \<Rightarrow> string" where
  "DUMMY_PASSWORD_HASH lib = al_hash lib (al_dummy_salt lib) ''CloudOperationsDummyPassword123!''"

definition authenticate_user :: "'t auth_library \<Rightarrow> cloud_db \<Rightarrow> string \<Rightarrow> string \<Rightarrow> cloud_error + cloud_user" where
  "authenticate_user lib db email password =
     (let stored_password_hash = (case get_user_by_email db email of
            Some u \<Rightarrow> us_password_hash u | None \<Rightarrow> DUMMY_PASSWORD_HASH lib);
          password_is_valid = al_verify lib password stored_password_hash
      in case get_user_by_email db email of
          None \<Rightarrow> Inl InvalidCredentialsError
        | Some u \<Rightarrow> if \<not> password_is_valid then Inl InvalidCredentialsError
            else if us_is_active u then Inr u else Inl InactiveUserError)"

text \<open>A stored user takes new column values; the row and its event are committed together. The session holds
  one object per row: a user who changes the own account changes the object that the event then reads.\<close>

definition change_user :: "env \<Rightarrow> cloud_db \<Rightarrow> uuid \<Rightarrow> (cloud_user \<Rightarrow> change_set) \<Rightarrow> (cloud_user \<Rightarrow> cloud_user) \<Rightarrow>
    audit_action \<Rightarrow> cloud_user \<Rightarrow> (cloud_error + cloud_user) \<times> cloud_db" where
  "change_user env db i changes_of new_values action actor =
     (case (if i = us_id actor then Inr actor else get_user db i) of
      Inl e \<Rightarrow> (Inl e, db)
    | Inr u \<Rightarrow> if changes_of u = [] then (Inr u, db)
        else let u' = (new_values u)\<lparr>us_updated_at := env_now env\<rparr>
             in transaction db (db_result (rbind (flush_fault env) (\<lambda>_.
               rbind (record_audit_event env (db\<lparr>users := update_row us_id i (\<lambda>_. u') (users db)\<rparr>)
                 (audit_row (env_ids env 0) (env_now env) (if i = us_id actor then u' else actor) action USER i
                    (us_email u') (changes_of u))) (\<lambda>db'.
               rbind (commit_fault env) (\<lambda>_. Inr (u', db')))))))"

definition role_changes :: "user_role \<Rightarrow> cloud_user \<Rightarrow> change_set" where
  "role_changes role u = build_change_set [(''role'', JStr (role_value (us_role u)))] [(''role'', JStr (role_value role))]"

definition change_user_role :: "env \<Rightarrow> cloud_db \<Rightarrow> uuid \<Rightarrow> user_role \<Rightarrow> cloud_user \<Rightarrow>
    (cloud_error + cloud_user) \<times> cloud_db" where
  "change_user_role env db i role actor =
     change_user env db i (role_changes role) (\<lambda>u. u\<lparr>us_role := role\<rparr>) USER_ROLE_CHANGED actor"

definition status_changes :: "bool \<Rightarrow> cloud_user \<Rightarrow> change_set" where
  "status_changes is_active u = build_change_set [(''is_active'', JBool (us_is_active u))] [(''is_active'', JBool is_active)]"

definition change_user_status :: "env \<Rightarrow> cloud_db \<Rightarrow> uuid \<Rightarrow> bool \<Rightarrow> cloud_user \<Rightarrow>
    (cloud_error + cloud_user) \<times> cloud_db" where
  "change_user_status env db i is_active actor =
     change_user env db i (status_changes is_active) (\<lambda>u. u\<lparr>us_is_active := is_active\<rparr>) USER_STATUS_CHANGED actor"

section \<open>Incidents\<close>

definition incident_values :: "ops_incident \<Rightarrow> (string \<times> json) list" where
  "incident_values r = [(''title'', JStr (oi_title r)), (''description'', JStr (oi_description r)),
     (''service_name'', JStr (oi_service_name r)), (''severity'', JStr (ops_severity_value (oi_severity r))),
     (''status'', JStr (ops_status_value (oi_status r)))]"

definition ops_incident_by_id :: "cloud_db \<Rightarrow> uuid \<Rightarrow> ops_incident option" where
  "ops_incident_by_id db i = find (\<lambda>r. oi_id r = i) (ops_incidents db)"

definition get_ops_incident :: "cloud_db \<Rightarrow> uuid \<Rightarrow> cloud_error + ops_incident" where
  "get_ops_incident db i = of_option (IncidentMissingError i) (ops_incident_by_id db i)"

definition new_incident :: "env \<Rightarrow> incident_create \<Rightarrow> ops_incident" where
  "new_incident env d = \<lparr>oi_id = env_ids env 0, oi_title = ic_title d, oi_description = ic_description d,
     oi_service_name = ic_service_name d, oi_severity = ic_severity d, oi_status = OPS_OPEN,
     oi_created_at = env_now env, oi_updated_at = env_now env\<rparr>"

definition create_ops_incident :: "env \<Rightarrow> cloud_db \<Rightarrow> incident_create \<Rightarrow> cloud_user \<Rightarrow>
    (cloud_error + ops_incident) \<times> cloud_db" where
  "create_ops_incident env db d actor =
     (let r = new_incident env d;
          changes = build_change_set (map (\<lambda>(k, v). (k, JNull)) (incident_values r)) (incident_values r)
      in transaction db (db_result (rbind (flush_fault env) (\<lambda>_.
           rbind (record_audit_event env (db\<lparr>ops_incidents := ops_incidents db @ [r]\<rparr>)
             (audit_row (env_ids env 1) (env_now env) actor INCIDENT_CREATED INCIDENT (oi_id r) (oi_title r) changes)) (\<lambda>db'.
           rbind (commit_fault env) (\<lambda>_. Inr (r, db')))))))"

text \<open>\<open>model_dump(exclude_unset=True, exclude_none=True)\<close> in the order of the fields.\<close>

definition requested_values :: "incident_update \<Rightarrow> (string \<times> json) list" where
  "requested_values d = List.map_filter (\<lambda>x. x)
     [map_option (\<lambda>s. (''title'', JStr s)) (iu_title d), map_option (\<lambda>s. (''description'', JStr s)) (iu_description d),
      map_option (\<lambda>s. (''service_name'', JStr s)) (iu_service_name d),
      map_option (\<lambda>s. (''severity'', JStr (ops_severity_value s))) (iu_severity d),
      map_option (\<lambda>s. (''status'', JStr (ops_status_value s))) (iu_status d)]"

definition or_else :: "'a option \<Rightarrow> 'a \<Rightarrow> 'a" where
  "or_else x d = (case x of None \<Rightarrow> d | Some a \<Rightarrow> a)"

definition apply_incident_update :: "incident_update \<Rightarrow> ops_incident \<Rightarrow> ops_incident" where
  "apply_incident_update d r = r\<lparr>oi_title := or_else (iu_title d) (oi_title r),
     oi_description := or_else (iu_description d) (oi_description r),
     oi_service_name := or_else (iu_service_name d) (oi_service_name r),
     oi_severity := or_else (iu_severity d) (oi_severity r), oi_status := or_else (iu_status d) (oi_status r)\<rparr>"

definition update_ops_incident :: "env \<Rightarrow> cloud_db \<Rightarrow> uuid \<Rightarrow> incident_update \<Rightarrow> cloud_user \<Rightarrow>
    (cloud_error + ops_incident) \<times> cloud_db" where
  "update_ops_incident env db i d actor = (case get_ops_incident db i of
      Inl e \<Rightarrow> (Inl e, db)
    | Inr r \<Rightarrow>
        let changes = build_change_set (incident_values r) (requested_values d);
            r' = (apply_incident_update d r)\<lparr>oi_updated_at := env_now env\<rparr>
        in if changes = [] then (Inr r, db)
           else transaction db (db_result (rbind (flush_fault env) (\<lambda>_.
             rbind (record_audit_event env (db\<lparr>ops_incidents := update_row oi_id i (\<lambda>_. r') (ops_incidents db)\<rparr>)
               (audit_row (env_ids env 0) (env_now env) actor INCIDENT_UPDATED INCIDENT i (oi_title r') changes)) (\<lambda>db'.
             rbind (commit_fault env) (\<lambda>_. Inr (r', db')))))))"

definition delete_ops_incident :: "env \<Rightarrow> cloud_db \<Rightarrow> uuid \<Rightarrow> cloud_user \<Rightarrow> (cloud_error + unit) \<times> cloud_db" where
  "delete_ops_incident env db i actor = (case get_ops_incident db i of
      Inl e \<Rightarrow> (Inl e, db)
    | Inr r \<Rightarrow> transaction db (db_result (rbind (flush_fault env) (\<lambda>_.
        rbind (record_audit_event env (db\<lparr>ops_incidents := filter (\<lambda>q. oi_id q \<noteq> i) (ops_incidents db)\<rparr>)
          (audit_row (env_ids env 0) (env_now env) actor INCIDENT_DELETED INCIDENT i (oi_title r)
             [(''deleted'', JBool False, JBool True)])) (\<lambda>db'.
        rbind (commit_fault env) (\<lambda>_. Inr ((), db')))))))"

end
