(* ===== verification/Cloud_Api.thy ===== *)
theory Cloud_Api
  imports Cloud_Service
begin

text \<open>
  Who may do what, and the routes: the bearer token of a request names its user, who is loaded and
  checked before the route runs; a role that is not allowed, like a disabled account, is refused.
\<close>

section \<open>Authentication and authorization\<close>

type_synonym http_error = "nat \<times> string"

definition fail :: "http_error \<Rightarrow> 'a endpoint_result" where
  "fail e = HTTPException (fst e) (JStr (snd e))"

definition credentials_exception :: http_error where
  "credentials_exception = (401, ''Could not validate credentials.'')"

definition get_current_user :: "'t auth_library \<Rightarrow> cloud_settings \<Rightarrow> time \<Rightarrow> cloud_db \<Rightarrow> 't option \<Rightarrow>
    http_error + cloud_user" where
  "get_current_user lib c now db token = (case token of
      None \<Rightarrow> Inl (401, ''Not authenticated'')
    | Some t \<Rightarrow> (case decode_access_token lib c now t of
          None \<Rightarrow> Inl credentials_exception
        | Some subject \<Rightarrow> (case parse_uuid subject of
              None \<Rightarrow> Inl credentials_exception
            | Some i \<Rightarrow> (case get_user db i of
                  Inl _ \<Rightarrow> Inl credentials_exception
                | Inr u \<Rightarrow> if us_is_active u then Inr u else Inl (403, ''User account is disabled.'')))))"

definition require_roles :: "user_role list \<Rightarrow> cloud_user \<Rightarrow> http_error + cloud_user" where
  "require_roles allowed_roles u =
     (if us_role u \<in> set allowed_roles then Inr u else Inl (403, ''Insufficient permissions.''))"

definition authorize :: "'t auth_library \<Rightarrow> cloud_settings \<Rightarrow> time \<Rightarrow> cloud_db \<Rightarrow> user_role list \<Rightarrow> 't option \<Rightarrow>
    http_error + cloud_user" where
  "authorize lib c now db roles token = rbind (get_current_user lib c now db token) (require_roles roles)"

definition any_role :: "user_role list" where
  "any_role = [VIEWER, OPERATOR, ADMIN]"

text \<open>What the request middleware answers for an exception that no route caught, what it records of a request
  (the outcome is the status of the response, or \<open>None\<close> for an exception), and the readiness probe.\<close>

definition internal_error :: "'a endpoint_result" where
  "internal_error = HTTPException 500 (JStr ''Internal server error.'')"

record request_event =
  re_event :: string
  re_request_id :: string
  re_method :: string
  re_path :: string
  re_status_code :: nat

definition record_request :: "uuid \<Rightarrow> string option \<Rightarrow> string \<Rightarrow> string \<Rightarrow> nat option \<Rightarrow> request_event" where
  "record_request fresh header http_method path outcome =
     \<lparr>re_event = (if outcome = None then ''request_failed'' else ''request_completed''),
      re_request_id = resolve_request_id fresh header, re_method = http_method, re_path = path,
      re_status_code = (case outcome of None \<Rightarrow> 500 | Some code \<Rightarrow> code)\<rparr>"

definition readiness_check :: "db_error + unit \<Rightarrow> (string \<times> string) list endpoint_result" where
  "readiness_check select_1 = (case select_1 of
      Inl _ \<Rightarrow> fail (503, ''Database is unavailable.'')
    | Inr _ \<Rightarrow> Reply 200 [(''status'', ''ready''), (''service'', ''cloud-operations-api''), (''database'', ''available'')])"

section \<open>Routes, given the user they run for\<close>

definition cloud_result :: "nat \<Rightarrow> ('a \<Rightarrow> bool) \<Rightarrow> (cloud_error + 'a) \<times> cloud_db \<Rightarrow>
    'a endpoint_result \<times> cloud_db" where
  "cloud_result code valid_response x = (case x of
      (Inr a, db) \<Rightarrow> (if valid_response a then Reply code a else internal_error, db)
    | (Inl (EmailAlreadyRegisteredError m), db) \<Rightarrow> (fail (409, cloud_error_text (EmailAlreadyRegisteredError m)), db)
    | (Inl InvalidCredentialsError, db) \<Rightarrow> (fail (401, cloud_error_text InvalidCredentialsError), db)
    | (Inl InactiveUserError, db) \<Rightarrow> (fail (403, cloud_error_text InactiveUserError), db)
    | (Inl (UserNotFoundError i), db) \<Rightarrow> (fail (404, cloud_error_text (UserNotFoundError i)), db)
    | (Inl (IncidentMissingError i), db) \<Rightarrow> (fail (404, cloud_error_text (IncidentMissingError i)), db)
    | (Inl (CloudDatabaseError _), db) \<Rightarrow> (internal_error, db))"

definition register_user_endpoint :: "'t auth_library \<Rightarrow> env \<Rightarrow> cloud_db \<Rightarrow> user_create \<Rightarrow>
    cloud_user endpoint_result \<times> cloud_db" where
  "register_user_endpoint lib env db body = (case validate_user_create lib body of
      None \<Rightarrow> (unprocessable, db)
    | Some d \<Rightarrow> cloud_result 201 (user_response lib) (register_user lib env db d))"

definition login_for_access_token :: "'t auth_library \<Rightarrow> cloud_settings \<Rightarrow> time \<Rightarrow> cloud_db \<Rightarrow> string \<Rightarrow> string \<Rightarrow>
    ('t \<times> int) endpoint_result" where
  "login_for_access_token lib c now db username password =
     fst (cloud_result 200 (\<lambda>_. True)
       (rbind (authenticate_user lib db username password) (\<lambda>u.
          Inr (create_access_token lib c now (str_uuid (us_id u)), cs_access_token_expire_minutes c * 60)), db))"

definition get_current_user_profile :: "'t auth_library \<Rightarrow> cloud_user \<Rightarrow> cloud_user endpoint_result" where
  "get_current_user_profile lib current_user =
     (if user_response lib current_user then Reply 200 current_user else internal_error)"

definition paged :: "int \<Rightarrow> int \<Rightarrow> bool" where
  "paged offset limit \<longleftrightarrow> 0 \<le> offset \<and> 1 \<le> limit \<and> limit \<le> 100"

definition list_users_endpoint :: "'t auth_library \<Rightarrow> cloud_db \<Rightarrow> int \<Rightarrow> int \<Rightarrow> cloud_user list endpoint_result" where
  "list_users_endpoint lib db offset limit =
     (if paged offset limit
      then let rows = list_users db (nat offset) (nat limit)
           in if list_all (user_response lib) rows then Reply 200 rows else internal_error
      else unprocessable)"

definition get_user_endpoint :: "'t auth_library \<Rightarrow> cloud_db \<Rightarrow> uuid \<Rightarrow> cloud_user endpoint_result" where
  "get_user_endpoint lib db i = fst (cloud_result 200 (user_response lib) (get_user db i, db))"

definition update_user_role :: "'t auth_library \<Rightarrow> env \<Rightarrow> cloud_db \<Rightarrow> uuid \<Rightarrow> user_role \<Rightarrow> cloud_user \<Rightarrow>
    cloud_user endpoint_result \<times> cloud_db" where
  "update_user_role lib env db i role administrator =
     (if i = us_id administrator \<and> role \<noteq> ADMIN
      then (fail (400, ''Administrators cannot remove their own admin role.''), db)
      else cloud_result 200 (user_response lib) (change_user_role env db i role administrator))"

definition update_user_status :: "'t auth_library \<Rightarrow> env \<Rightarrow> cloud_db \<Rightarrow> uuid \<Rightarrow> bool \<Rightarrow> cloud_user \<Rightarrow>
    cloud_user endpoint_result \<times> cloud_db" where
  "update_user_status lib env db i is_active administrator =
     (if i = us_id administrator \<and> \<not> is_active
      then (fail (400, ''Administrators cannot disable their own account.''), db)
      else cloud_result 200 (user_response lib) (change_user_status env db i is_active administrator))"

definition create_incident_endpoint :: "env \<Rightarrow> cloud_db \<Rightarrow> incident_create \<Rightarrow> cloud_user \<Rightarrow>
    ops_incident endpoint_result \<times> cloud_db" where
  "create_incident_endpoint env db body authorized_user = (case validate_incident_create body of
      None \<Rightarrow> (unprocessable, db)
    | Some d \<Rightarrow> cloud_result 201 incident_response (create_ops_incident env db d authorized_user))"

definition update_incident_endpoint :: "env \<Rightarrow> cloud_db \<Rightarrow> uuid \<Rightarrow> incident_update \<Rightarrow> cloud_user \<Rightarrow>
    ops_incident endpoint_result \<times> cloud_db" where
  "update_incident_endpoint env db i body authorized_user = (case validate_incident_update body of
      None \<Rightarrow> (unprocessable, db)
    | Some d \<Rightarrow> cloud_result 200 incident_response (update_ops_incident env db i d authorized_user))"

definition delete_incident_endpoint :: "env \<Rightarrow> cloud_db \<Rightarrow> uuid \<Rightarrow> cloud_user \<Rightarrow> unit endpoint_result \<times> cloud_db" where
  "delete_incident_endpoint env db i administrator =
     cloud_result 204 (\<lambda>_. True) (delete_ops_incident env db i administrator)"

definition get_ops_incident_endpoint :: "cloud_db \<Rightarrow> uuid \<Rightarrow> ops_incident endpoint_result" where
  "get_ops_incident_endpoint db i = fst (cloud_result 200 incident_response (get_ops_incident db i, db))"

definition list_incidents_endpoint :: "cloud_db \<Rightarrow> string option \<Rightarrow> ops_status option \<Rightarrow> ops_severity option \<Rightarrow>
    string option \<Rightarrow> int \<Rightarrow> int \<Rightarrow> ops_incident list endpoint_result" where
  "list_incidents_endpoint db search status severity service_name offset limit =
     (if given (length_between 1 200) search \<and> given (length_between 2 120) service_name \<and> paged offset limit
      then fst (cloud_result 200 (list_all incident_response)
        (list_ops_incidents db search status severity service_name (nat offset) (nat limit), db))
      else unprocessable)"

definition list_audit_events_endpoint :: "cloud_db \<Rightarrow> int \<Rightarrow> int \<Rightarrow> audit_event list endpoint_result" where
  "list_audit_events_endpoint db offset limit =
     (if paged offset limit then Reply 200 (list_audit_events db (nat offset) (nat limit)) else unprocessable)"

section \<open>Requests\<close>

text \<open>What a request may ask for, and the roles its route allows.\<close>

datatype cloud_action =
    CreateIncident incident_create
  | UpdateIncident uuid incident_update
  | DeleteIncident uuid
  | SetRole uuid user_role
  | SetStatus uuid bool

definition allowed_roles :: "cloud_action \<Rightarrow> user_role list" where
  "allowed_roles a = (case a of CreateIncident _ \<Rightarrow> [OPERATOR, ADMIN] | UpdateIncident _ _ \<Rightarrow> [OPERATOR, ADMIN]
     | DeleteIncident _ \<Rightarrow> [ADMIN] | SetRole _ _ \<Rightarrow> [ADMIN] | SetStatus _ _ \<Rightarrow> [ADMIN])"

datatype cloud_reply = IncidentReply ops_incident | UserReply cloud_user | EmptyReply

definition wrap :: "('a \<Rightarrow> 'b) \<Rightarrow> 'a endpoint_result \<times> 's \<Rightarrow> 'b endpoint_result \<times> 's" where
  "wrap f x = (case x of (Reply code a, s) \<Rightarrow> (Reply code (f a), s) | (HTTPException code d, s) \<Rightarrow> (HTTPException code d, s))"

fun run_action :: "'t auth_library \<Rightarrow> env \<Rightarrow> cloud_db \<Rightarrow> cloud_action \<Rightarrow> cloud_user \<Rightarrow>
    cloud_reply endpoint_result \<times> cloud_db" where
  "run_action lib env db (CreateIncident body) actor = wrap IncidentReply (create_incident_endpoint env db body actor)"
| "run_action lib env db (UpdateIncident i body) actor = wrap IncidentReply (update_incident_endpoint env db i body actor)"
| "run_action lib env db (DeleteIncident i) actor = wrap (\<lambda>_. EmptyReply) (delete_incident_endpoint env db i actor)"
| "run_action lib env db (SetRole i role) actor = wrap UserReply (update_user_role lib env db i role actor)"
| "run_action lib env db (SetStatus i is_active) actor = wrap UserReply (update_user_status lib env db i is_active actor)"

definition cloud_request :: "'t auth_library \<Rightarrow> cloud_settings \<Rightarrow> env \<Rightarrow> cloud_db \<Rightarrow> 't option \<Rightarrow> cloud_action \<Rightarrow>
    cloud_reply endpoint_result \<times> cloud_db" where
  "cloud_request lib c env db token a = (case authorize lib c (env_now env) db (allowed_roles a) token of
      Inl e \<Rightarrow> (fail e, db)
    | Inr u \<Rightarrow> run_action lib env db a u)"

section \<open>The first administrator\<close>

text \<open>The command line tool runs up to three transactions, each with its own clock and failures, and
  acts in the name of the account itself. The \<open>ValidationError\<close> of Pydantic is a \<open>ValueError\<close>, so the
  first handler takes it, and an uncaught exception ends the command.\<close>

datatype bootstrap_result = AdministratorReady cloud_user | UsageError | CreationFailed string | Crashed

definition promote :: "env \<Rightarrow> env \<Rightarrow> cloud_db \<Rightarrow> cloud_user \<Rightarrow> bootstrap_result \<times> cloud_db" where
  "promote env2 env3 db user =
     (case (if us_role user = ADMIN then (Inr user, db) else change_user_role env2 db (us_id user) ADMIN user) of
        (Inl _, db') \<Rightarrow> (Crashed, db')
      | (Inr user', db') \<Rightarrow>
          (case (if us_is_active user' then (Inr user', db')
                 else change_user_status env3 db' (us_id user') True user') of
             (Inl _, db'') \<Rightarrow> (Crashed, db'')
           | (Inr user'', db'') \<Rightarrow> (AdministratorReady user'', db'')))"

definition bootstrap_admin :: "'t auth_library \<Rightarrow> env \<Rightarrow> env \<Rightarrow> env \<Rightarrow> cloud_db \<Rightarrow> string \<Rightarrow> string option \<Rightarrow>
    string \<times> string \<Rightarrow> (user_create \<Rightarrow> string) \<Rightarrow> bootstrap_result \<times> cloud_db" where
  "bootstrap_admin lib env1 env2 env3 db email full_name passwords validation_text =
     (let normalized_email = lower (strip email) in
      case get_user_by_email db normalized_email of
        Some user \<Rightarrow> promote env2 env3 db user
      | None \<Rightarrow> (case full_name of
            None \<Rightarrow> (UsageError, db)
          | Some name \<Rightarrow>
              if name = [] then (UsageError, db)
              else if fst passwords \<noteq> snd passwords then (CreationFailed ''The passwords do not match.'', db)
              else let d = \<lparr>uc_email = normalized_email, uc_full_name = name, uc_password = fst passwords\<rparr> in
                (case validate_user_create lib d of
                   None \<Rightarrow> (CreationFailed (validation_text d), db)
                 | Some d' \<Rightarrow> (case register_user lib env1 db d' of
                       (Inr user, db') \<Rightarrow> promote env2 env3 db' user
                     | (Inl (EmailAlreadyRegisteredError m), db') \<Rightarrow>
                         (CreationFailed (cloud_error_text (EmailAlreadyRegisteredError m)), db')
                     | (Inl _, db') \<Rightarrow> (Crashed, db')))))"

end
