(* ===== verification/Cloud_Correct.thy ===== *)
theory Cloud_Correct
  imports Cloud_Api
begin

text \<open>
  What the audit history promises: read from its start it rebuilds every incident and every user's role
  and status. The replay of a history is defined here, independently of the code; an event whose
  \<open>from\<close> values are not the current ones makes it fail. The lemmas show that every operation that
  changes the tables appends the one event that the replay needs, and keeps the tables well formed.
\<close>

section \<open>Replaying a history\<close>

type_synonym audited = "audit_resource_type \<times> uuid \<Rightarrow> (string \<Rightarrow> json option) option"

definition user_values :: "cloud_user \<Rightarrow> (string \<times> json) list" where
  "user_values u = [(''role'', JStr (role_value (us_role u))), (''is_active'', JBool (us_is_active u))]"

definition registered_values :: "(string \<times> json) list" where
  "registered_values = [(''role'', JStr (role_value VIEWER)), (''is_active'', JBool True)]"

text \<open>Registration is not in the history: every account starts as an active viewer.\<close>

definition audit_start :: audited where
  "audit_start k = (case fst k of INCIDENT \<Rightarrow> None | USER \<Rightarrow> Some (map_of registered_values))"

definition new_values :: "change_set \<Rightarrow> (string \<times> json) list" where
  "new_values cs = map (\<lambda>(k, a, b). (k, b)) cs"

definition apply_changes :: "change_set \<Rightarrow> (string \<Rightarrow> json option) \<Rightarrow> (string \<Rightarrow> json option) option" where
  "apply_changes cs v = (if list_all (\<lambda>(k, a, b). v k = Some a) cs then Some (v ++ map_of (new_values cs)) else None)"

definition replay_event :: "audited \<Rightarrow> audit_event \<Rightarrow> audited option" where
  "replay_event s e =
     (let k = (au_resource_type e, au_resource_id e) in
      case au_action e of
        INCIDENT_CREATED \<Rightarrow> if s k = None then Some (s(k \<mapsto> map_of (new_values (au_changes e)))) else None
      | INCIDENT_DELETED \<Rightarrow> if s k = None then None else Some (s(k := None))
      | _ \<Rightarrow> (case s k of None \<Rightarrow> None | Some v \<Rightarrow> map_option (\<lambda>v'. s(k \<mapsto> v')) (apply_changes (au_changes e) v)))"

fun replay :: "audited \<Rightarrow> audit_event list \<Rightarrow> audited option" where
  "replay s [] = Some s"
| "replay s (e # es) = (case replay_event s e of None \<Rightarrow> None | Some s' \<Rightarrow> replay s' es)"

lemma replay_snoc: "replay s es = Some s' \<Longrightarrow> replay s (es @ [e]) = replay_event s' e"
  by (induction s es rule: replay.induct) (auto split: option.splits)

text \<open>What the tables hold, in the terms of the history.\<close>

definition recorded_state :: "cloud_db \<Rightarrow> audited" where
  "recorded_state db k = (case fst k of
      INCIDENT \<Rightarrow> map_option (\<lambda>r. map_of (incident_values r)) (ops_incident_by_id db (snd k))
    | USER \<Rightarrow> Some (case user_by_id db (snd k) of
          None \<Rightarrow> map_of registered_values | Some u \<Rightarrow> map_of (user_values u)))"

section \<open>Change sets\<close>

lemma build_change_set_simps:
  "build_change_set old [] = []"
  "build_change_set old ((k, b) # req) =
     (let a = (case map_of old k of None \<Rightarrow> JNull | Some a \<Rightarrow> a)
      in if a = b then build_change_set old req else (k, a, b) # build_change_set old req)"
  by (simp_all add: build_change_set_def Let_def)

lemma changes_apply:
  assumes "distinct (map fst req)" and "fst ` set req \<subseteq> dom v" and "v = map_of old"
  shows "apply_changes (build_change_set old req) v = Some (v ++ map_of req)"
proof -
  have "list_all (\<lambda>(k, a, b). v k = Some a) (build_change_set old req)"
    using assms(2) unfolding assms(3)
    by (induction req) (auto simp: build_change_set_simps Let_def split: option.splits)
  moreover have "v ++ map_of (new_values (build_change_set old req)) = v ++ map_of req"
    using assms unfolding assms(3)
  proof (induction req)
    case (Cons p req)
    obtain k b where p: "p = (k, b)" by (cases p)
    obtain a where a: "map_of old k = Some a" using Cons.prems(2) p by (auto simp: dom_def)
    have fresh: "map_of req k = None"
      using Cons.prems(1) p by (auto simp: map_of_eq_None_iff)
    have IH: "map_of old ++ map_of (new_values (build_change_set old req)) = map_of old ++ map_of req"
      using Cons by simp
    show ?case
    proof (cases "a = b")
      case True
      then have "map_of old ++ map_of (p # req) = map_of old ++ map_of req"
        using a fresh p by (intro ext) (auto simp: map_add_def split: option.splits)
      then show ?thesis using p IH a True by (simp add: build_change_set_simps del: map_of.simps)
    next
      case False
      show ?thesis
      proof (rule ext)
        fix x
        show "(map_of old ++ map_of (new_values (build_change_set old (p # req)))) x = (map_of old ++ map_of (p # req)) x"
          using fun_cong [OF IH, of x] p a False
          by (simp add: build_change_set_simps new_values_def map_add_def)
      qed
    qed
  qed (simp add: build_change_set_simps new_values_def)
  ultimately show ?thesis by (simp add: apply_changes_def)
qed

lemma requested_values_keys:
  "distinct (map fst (requested_values d))"
  "fst ` set (requested_values d) \<subseteq> {''title'', ''description'', ''service_name'', ''severity'', ''status''}"
  by (cases "iu_title d"; cases "iu_description d"; cases "iu_service_name d"; cases "iu_severity d";
      cases "iu_status d"; simp add: requested_values_def List.map_filter_def)+

lemma incident_values_keys:
  "dom (map_of (incident_values r)) = {''title'', ''description'', ''service_name'', ''severity'', ''status''}"
  by (simp add: incident_values_def dom_map_of_conv_image_fst)

lemma updated_values:
  "map_of (incident_values (apply_incident_update d r)) = map_of (incident_values r) ++ map_of (requested_values d)"
  by (cases "iu_title d"; cases "iu_description d"; cases "iu_service_name d"; cases "iu_severity d";
      cases "iu_status d")
    (simp_all add: fun_eq_iff requested_values_def List.map_filter_def incident_values_def apply_incident_update_def or_else_def)

lemma incident_values_updated_at [simp]: "incident_values (r\<lparr>oi_updated_at := t\<rparr>) = incident_values r"
  by (simp add: incident_values_def)

lemma created_values:
  "new_values (build_change_set (map (\<lambda>(k, v). (k, JNull)) (incident_values r)) (incident_values r)) = incident_values r"
  by (simp add: new_values_def build_change_set_def incident_values_def)

section \<open>Well-formed tables\<close>

definition cloud_tables_ok :: "cloud_db \<Rightarrow> bool" where
  "cloud_tables_ok db \<longleftrightarrow> distinct (map us_id (users db)) \<and> distinct (map us_email (users db))
     \<and> distinct (map oi_id (ops_incidents db)) \<and> list_all incident_response (ops_incidents db)"

lemma cloud_tablesD:
  assumes "cloud_tables_ok db"
  shows "distinct (map us_id (users db))" "distinct (map us_email (users db))"
    "distinct (map oi_id (ops_incidents db))" "list_all incident_response (ops_incidents db)"
  using assms by (simp_all add: cloud_tables_ok_def)

text \<open>One event more in the history, and the tables are what the replay of it gives.\<close>

definition logged :: "cloud_db \<Rightarrow> cloud_db \<Rightarrow> audit_event \<Rightarrow> bool" where
  "logged db db' e \<longleftrightarrow> cloud_tables_ok db' \<and> audit_events db' = audit_events db @ [e]
     \<and> replay_event (recorded_state db) e = Some (recorded_state db')"

lemma user_by_idD: "user_by_id db i = Some u \<Longrightarrow> u \<in> set (users db) \<and> us_id u = i"
  by (auto simp: user_by_id_def dest: find_row_SomeD)

lemma ops_incident_by_idD: "ops_incident_by_id db i = Some r \<Longrightarrow> r \<in> set (ops_incidents db) \<and> oi_id r = i"
  by (auto simp: ops_incident_by_id_def dest: find_row_SomeD)

lemma find_snoc: "find P (xs @ [x]) = (case find P xs of Some y \<Rightarrow> Some y | None \<Rightarrow> if P x then Some x else None)"
  by (induction xs) auto

lemma find_filter_key: "find (\<lambda>q. key q = k) (filter (\<lambda>q. key q \<noteq> i) xs) = (if k = i then None else find (\<lambda>q. key q = k) xs)"
  by (induction xs) auto

lemma find_replaced:
  "key x = k \<Longrightarrow> find (\<lambda>q. key q = k') (update_row key k (\<lambda>_. x) rows) =
    (if k' = k then map_option (\<lambda>_. x) (find (\<lambda>q. key q = k) rows) else find (\<lambda>q. key q = k') rows)"
  by (induction rows) (auto simp: update_row_def)

lemma map_replaced:
  assumes "distinct (map key rows)" and "r \<in> set rows" and "key r = k" and "f x = f r"
  shows "map f (update_row key k (\<lambda>_. x) rows) = map f rows"
  using assms by (auto simp: update_row_def inj_on_def distinct_map)

lemma audit_row_simps [simp]:
  "au_action (audit_row i now u a t k l cs) = a" "au_resource_type (audit_row i now u a t k l cs) = t"
  "au_resource_id (audit_row i now u a t k l cs) = k" "au_changes (audit_row i now u a t k l cs) = cs"
  "au_actor_user_id (audit_row i now u a t k l cs) = us_id u" "au_actor_role (audit_row i now u a t k l cs) = us_role u"
  "au_created_at (audit_row i now u a t k l cs) = now" "au_actor_email (audit_row i now u a t k l cs) = us_email u"
  by (simp_all add: audit_row_def)

lemma record_audit_event_eq [result_simps]:
  "record_audit_event env db e = Inr db' \<longleftrightarrow>
     flush_fault env = Inr () \<and> au_actor_user_id e \<in> us_id ` set (users db) \<and> db' = db\<lparr>audit_events := audit_events db @ [e]\<rparr>"
  by (auto simp: record_audit_event_def result_simps)

lemma db_result_Inr: "db_result (Inr x) = Inr x"
  by (simp add: db_result_def)

text \<open>A transaction that fails leaves the tables; one that succeeds is its body.\<close>

lemma db_transaction:
  assumes "transaction db (db_result r) = (res, db')"
  shows "db' = db \<and> (\<exists>e. res = Inl (CloudDatabaseError e)) \<or> (\<exists>a. r = Inr (a, db') \<and> res = Inr a)"
  using assms by (cases r) (auto simp: db_result_def transaction_def)

section \<open>Users\<close>

lemma create_user_ok:
  assumes "create_user env db email name hash role = Inr (u, db')" and "cloud_tables_ok db"
    and "env_ids env 0 \<notin> us_id ` set (users db)"
  shows "users db' = users db @ [u]" "ops_incidents db' = ops_incidents db" "audit_events db' = audit_events db"
    "us_id u = env_ids env 0" "us_email u = lower (strip email)" "us_full_name u = strip name"
    "us_password_hash u = hash" "us_role u = role" "us_is_active u" "cloud_tables_ok db'"
    "us_email u \<notin> us_email ` set (users db)"
  using assms by (auto simp: create_user_def Let_def result_simps cloud_tables_ok_def)

lemma register_user_cases:
  assumes "register_user lib env db d = (r, db')"
  shows "db' = db \<and> (\<exists>e. r = Inl e) \<or> (\<exists>u. r = Inr u \<and>
    create_user env db (lower (strip (uc_email d))) (uc_full_name d) (al_hash lib (env_ids env 1) (uc_password d)) VIEWER
      = Inr (u, db'))"
proof (cases "get_user_by_email db (lower (strip (uc_email d))) = None")
  case True
  show ?thesis
  proof (cases "rbind (create_user env db (lower (strip (uc_email d))) (uc_full_name d)
      (al_hash lib (env_ids env 1) (uc_password d)) VIEWER) (\<lambda>x. rbind (commit_fault env) (\<lambda>_. Inr x))")
    case (Inl e)
    then show ?thesis using assms True
      by (cases e) (auto simp: register_user_def Let_def)
  next
    case (Inr x)
    then show ?thesis using assms True
      by (cases x) (auto simp: register_user_def Let_def result_simps)
  qed
qed (use assms in \<open>auto simp: register_user_def Let_def\<close>)

lemma recorded_register:
  assumes "users db' = users db @ [u]" "ops_incidents db' = ops_incidents db"
    "us_id u \<notin> us_id ` set (users db)" "us_role u = VIEWER" "us_is_active u"
  shows "recorded_state db' = recorded_state db"
proof (rule ext)
  fix k
  have "find (\<lambda>q. us_id q = us_id u) (users db) = None"
    using assms(3) unfolding find_None_iff image_iff by metis
  then show "recorded_state db' k = recorded_state db k"
    using assms
    by (auto simp: recorded_state_def user_by_id_def ops_incident_by_id_def find_snoc registered_values_def
        user_values_def split: audit_resource_type.splits option.splits)
qed

text \<open>What a change of a user stores: the row with its new values.\<close>

definition changed_user :: "env \<Rightarrow> (cloud_user \<Rightarrow> cloud_user) \<Rightarrow> cloud_user \<Rightarrow> cloud_user" where
  "changed_user env f u = (f u)\<lparr>us_updated_at := env_now env\<rparr>"

definition keeps_identity :: "(cloud_user \<Rightarrow> cloud_user) \<Rightarrow> bool" where
  "keeps_identity f \<longleftrightarrow> (\<forall>u. us_id (f u) = us_id u \<and> us_email (f u) = us_email u \<and> us_full_name (f u) = us_full_name u
     \<and> us_password_hash (f u) = us_password_hash u)"

definition user_changed :: "env \<Rightarrow> cloud_db \<Rightarrow> uuid \<Rightarrow> (cloud_user \<Rightarrow> change_set) \<Rightarrow> (cloud_user \<Rightarrow> cloud_user) \<Rightarrow>
    audit_action \<Rightarrow> cloud_user \<Rightarrow> cloud_user \<Rightarrow> cloud_db" where
  "user_changed env db i cs f action actor u =
     db\<lparr>users := update_row us_id i (\<lambda>_. changed_user env f u) (users db),
        audit_events := audit_events db @ [audit_row (env_ids env 0) (env_now env)
          (if i = us_id actor then changed_user env f u else actor) action USER i (us_email (f u)) (cs u)]\<rparr>"

lemma change_user_cases:
  assumes "change_user env db i cs f action actor = (r, db')" and "user_by_id db (us_id actor) = Some actor"
  shows "db' = db \<and> (\<exists>e. r = Inl e)
    \<or> db' = db \<and> (\<exists>u. user_by_id db i = Some u \<and> cs u = [] \<and> r = Inr u)
    \<or> (\<exists>u. user_by_id db i = Some u \<and> cs u \<noteq> [] \<and> r = Inr (changed_user env f u)
        \<and> db' = user_changed env db i cs f action actor u)"
proof (cases "user_by_id db i")
  case None
  then have "i \<noteq> us_id actor" using assms(2) by auto
  then show ?thesis using assms None by (auto simp: change_user_def get_user_def)
next
  case (Some u)
  then have loaded: "(if i = us_id actor then Inr actor else get_user db i) = Inr u"
    using assms(2) by (auto simp: get_user_def)
  show ?thesis
  proof (cases "cs u = []")
    case True
    then show ?thesis using assms(1) Some loaded by (simp add: change_user_def)
  next
    case False
    then have "transaction db (db_result (rbind (flush_fault env) (\<lambda>_.
        rbind (record_audit_event env (db\<lparr>users := update_row us_id i (\<lambda>_. changed_user env f u) (users db)\<rparr>)
          (audit_row (env_ids env 0) (env_now env) (if i = us_id actor then changed_user env f u else actor) action USER i
             (us_email (changed_user env f u)) (cs u))) (\<lambda>db'.
        rbind (commit_fault env) (\<lambda>_. Inr (changed_user env f u, db')))))) = (r, db')"
      using assms(1) loaded unfolding change_user_def changed_user_def by (simp add: Let_def)
    then show ?thesis
      by (rule disjE [OF db_transaction])
        (use Some False in \<open>auto simp: result_simps user_changed_def changed_user_def\<close>)
  qed
qed

lemma recorded_user_change:
  assumes "user_by_id db i = Some u" and "keeps_identity f"
  shows "recorded_state (user_changed env db i cs f action actor u) = (recorded_state db)((USER, i) \<mapsto> map_of (user_values (f u)))"
proof (rule ext)
  fix k
  have key: "us_id (changed_user env f u) = i"
    using assms user_by_idD by (auto simp: changed_user_def keeps_identity_def)
  show "recorded_state (user_changed env db i cs f action actor u) k = ((recorded_state db)((USER, i) \<mapsto> map_of (user_values (f u)))) k"
    using assms find_replaced [of us_id, OF key]
    by (cases k) (auto simp: recorded_state_def user_changed_def user_by_id_def ops_incident_by_id_def changed_user_def
        user_values_def split: audit_resource_type.splits)
qed

lemma logged_user_change:
  assumes "user_by_id db i = Some u" and "keeps_identity f" and "cloud_tables_ok db"
    and "action = USER_ROLE_CHANGED \<or> action = USER_STATUS_CHANGED"
    and "apply_changes (cs u) (map_of (user_values u)) = Some (map_of (user_values (f u)))"
  shows "logged db (user_changed env db i cs f action actor u)
    (audit_row (env_ids env 0) (env_now env) (if i = us_id actor then changed_user env f u else actor) action USER i
       (us_email (f u)) (cs u))"
proof -
  have u: "u \<in> set (users db)" "us_id u = i" using user_by_idD [OF assms(1)] by simp_all
  have keys: "us_id (changed_user env f u) = us_id u" "us_email (changed_user env f u) = us_email u"
    using assms(2) by (simp_all add: changed_user_def keeps_identity_def)
  have "map us_id (update_row us_id i (\<lambda>_. changed_user env f u) (users db)) = map us_id (users db)"
    "map us_email (update_row us_id i (\<lambda>_. changed_user env f u) (users db)) = map us_email (users db)"
    by (rule map_replaced [OF cloud_tablesD(1) [OF assms(3)] u], rule keys)+
  then have "cloud_tables_ok (user_changed env db i cs f action actor u)"
    using assms(3) by (simp add: cloud_tables_ok_def user_changed_def)
  moreover have "recorded_state db (USER, i) = Some (map_of (user_values u))"
    using assms(1) by (simp add: recorded_state_def)
  ultimately show ?thesis
    using assms(4,5) recorded_user_change [OF assms(1,2)]
    by (auto simp: logged_def replay_event_def user_changed_def)
qed

text \<open>The two changes of the code.\<close>

lemma user_change_sets:
  "apply_changes (role_changes role u) (map_of (user_values u)) = Some (map_of (user_values (u\<lparr>us_role := role\<rparr>)))"
  "apply_changes (status_changes a u) (map_of (user_values u)) = Some (map_of (user_values (u\<lparr>us_is_active := a\<rparr>)))"
  "keeps_identity (\<lambda>u. u\<lparr>us_role := role\<rparr>)" "keeps_identity (\<lambda>u. u\<lparr>us_is_active := a\<rparr>)"
  by (auto simp: apply_changes_def role_changes_def status_changes_def build_change_set_def user_values_def new_values_def
      keeps_identity_def fun_eq_iff map_add_def)

lemma no_change_iff:
  "role_changes role u = [] \<longleftrightarrow> us_role u = role"
  "status_changes a u = [] \<longleftrightarrow> us_is_active u = a"
  by (cases role; cases "us_role u"; simp add: role_changes_def build_change_set_def role_value_def)
    (simp add: status_changes_def build_change_set_def)

lemma change_user_role_cases:
  assumes "change_user_role env db i role actor = (r, db')" and "user_by_id db (us_id actor) = Some actor"
    and "cloud_tables_ok db"
  obtains "db' = db" "(\<exists>e. r = Inl e) \<or> (\<exists>u. user_by_id db i = Some u \<and> us_role u = role \<and> r = Inr u)"
  | u where "user_by_id db i = Some u" "us_role u \<noteq> role" "r = Inr (changed_user env (\<lambda>u. u\<lparr>us_role := role\<rparr>) u)"
      "db' = user_changed env db i (role_changes role) (\<lambda>u. u\<lparr>us_role := role\<rparr>) USER_ROLE_CHANGED actor u"
      "logged db db' (audit_row (env_ids env 0) (env_now env)
         (if i = us_id actor then changed_user env (\<lambda>u. u\<lparr>us_role := role\<rparr>) u else actor) USER_ROLE_CHANGED USER i
         (us_email u) (role_changes role u))"
  using change_user_cases [OF assms(1) [unfolded change_user_role_def] assms(2)]
    logged_user_change [OF _ user_change_sets(3) assms(3), of i _ USER_ROLE_CHANGED "role_changes role", OF _ _ user_change_sets(1)]
  by (elim disjE exE conjE) (auto simp: no_change_iff)

lemma change_user_status_cases:
  assumes "change_user_status env db i a actor = (r, db')" and "user_by_id db (us_id actor) = Some actor"
    and "cloud_tables_ok db"
  obtains "db' = db" "(\<exists>e. r = Inl e) \<or> (\<exists>u. user_by_id db i = Some u \<and> us_is_active u = a \<and> r = Inr u)"
  | u where "user_by_id db i = Some u" "us_is_active u \<noteq> a" "r = Inr (changed_user env (\<lambda>u. u\<lparr>us_is_active := a\<rparr>) u)"
      "db' = user_changed env db i (status_changes a) (\<lambda>u. u\<lparr>us_is_active := a\<rparr>) USER_STATUS_CHANGED actor u"
      "logged db db' (audit_row (env_ids env 0) (env_now env)
         (if i = us_id actor then changed_user env (\<lambda>u. u\<lparr>us_is_active := a\<rparr>) u else actor) USER_STATUS_CHANGED USER i
         (us_email u) (status_changes a u))"
  using change_user_cases [OF assms(1) [unfolded change_user_status_def] assms(2)]
    logged_user_change [OF _ user_change_sets(4) assms(3), of i _ USER_STATUS_CHANGED "status_changes a", OF _ _ user_change_sets(2)]
  by (elim disjE exE conjE) (auto simp: no_change_iff)

section \<open>Incidents\<close>

text \<open>The actor is a stored user, so the foreign key of the event holds.\<close>

lemma recorded_incident_tables:
  assumes "users db' = users db"
    and "\<And>j. find (\<lambda>q. oi_id q = j) (ops_incidents db') = (if j = i then x else ops_incident_by_id db j)"
  shows "recorded_state db' = (recorded_state db)((INCIDENT, i) := map_option (\<lambda>r. map_of (incident_values r)) x)"
proof (rule ext)
  fix k
  show "recorded_state db' k = ((recorded_state db)((INCIDENT, i) := map_option (\<lambda>r. map_of (incident_values r)) x)) k"
    using assms by (cases k) (auto simp: recorded_state_def user_by_id_def ops_incident_by_id_def split: audit_resource_type.splits)
qed

definition created_db :: "env \<Rightarrow> cloud_db \<Rightarrow> incident_create \<Rightarrow> cloud_user \<Rightarrow> cloud_db" where
  "created_db env db d actor = db\<lparr>ops_incidents := ops_incidents db @ [new_incident env d],
     audit_events := audit_events db @ [audit_row (env_ids env 1) (env_now env) actor INCIDENT_CREATED INCIDENT
       (env_ids env 0) (ic_title d)
       (build_change_set (map (\<lambda>(k, v). (k, JNull)) (incident_values (new_incident env d))) (incident_values (new_incident env d)))]\<rparr>"

lemma create_ops_incident_cases:
  assumes "create_ops_incident env db d actor = (r, db')" and "cloud_tables_ok db"
    and "env_ids env 0 \<notin> oi_id ` set (ops_incidents db)" and "incident_response (new_incident env d)"
  obtains "db' = db" "\<exists>e. r = Inl e"
  | e where "r = Inr (new_incident env d)" "db' = created_db env db d actor" "logged db db' e"
      "e = audit_row (env_ids env 1) (env_now env) actor INCIDENT_CREATED INCIDENT (env_ids env 0) (ic_title d) (au_changes e)"
proof (rule disjE [OF db_transaction [OF assms(1) [unfolded create_ops_incident_def Let_def]]], goal_cases)
  case 1
  then show ?case using that(1) by auto
next
  case 2
  then have r: "r = Inr (new_incident env d)" and db': "db' = created_db env db d actor"
    by (auto simp: result_simps created_db_def new_incident_def)
  have id: "oi_id (new_incident env d) = env_ids env 0" by (simp add: new_incident_def)
  have none: "ops_incident_by_id db (env_ids env 0) = None"
    using assms(3) unfolding ops_incident_by_id_def find_None_iff image_iff by metis
  have ok: "cloud_tables_ok db'"
    using assms(2-4) unfolding db' by (auto simp: cloud_tables_ok_def created_db_def id)
  have rec: "recorded_state db' = (recorded_state db)((INCIDENT, env_ids env 0) := map_option (\<lambda>r. map_of (incident_values r)) (Some (new_incident env d)))"
    by (rule recorded_incident_tables)
      (use none in \<open>auto simp: db' created_db_def find_snoc id ops_incident_by_id_def split: option.splits\<close>)
  have start: "recorded_state db (INCIDENT, env_ids env 0) = None"
    using none by (simp add: recorded_state_def)
  show ?case
    by (rule that(2) [OF r db'])
      (use ok rec start in \<open>auto simp: logged_def db' created_db_def replay_event_def created_values Let_def\<close>)
qed

definition updated_incident :: "env \<Rightarrow> incident_update \<Rightarrow> ops_incident \<Rightarrow> ops_incident" where
  "updated_incident env d r = (apply_incident_update d r)\<lparr>oi_updated_at := env_now env\<rparr>"

definition updated_db :: "env \<Rightarrow> cloud_db \<Rightarrow> uuid \<Rightarrow> incident_update \<Rightarrow> cloud_user \<Rightarrow> ops_incident \<Rightarrow> cloud_db" where
  "updated_db env db i d actor r = db\<lparr>ops_incidents := update_row oi_id i (\<lambda>_. updated_incident env d r) (ops_incidents db),
     audit_events := audit_events db @ [audit_row (env_ids env 0) (env_now env) actor INCIDENT_UPDATED INCIDENT i
       (oi_title (updated_incident env d r)) (build_change_set (incident_values r) (requested_values d))]\<rparr>"

lemma update_ops_incident_cases:
  assumes "update_ops_incident env db i d actor = (res, db')" and "cloud_tables_ok db"
    and "\<forall>r\<in>set (ops_incidents db). incident_response (apply_incident_update d r)"
  obtains "db' = db"
  | r e where "ops_incident_by_id db i = Some r" "res = Inr (updated_incident env d r)" "db' = updated_db env db i d actor r"
      "logged db db' e"
      "e = audit_row (env_ids env 0) (env_now env) actor INCIDENT_UPDATED INCIDENT i (oi_title (updated_incident env d r)) (au_changes e)"
proof (cases "ops_incident_by_id db i")
  case None
  then show ?thesis using assms(1) that(1) by (auto simp: update_ops_incident_def get_ops_incident_def)
next
  case (Some r)
  note r = ops_incident_by_idD [OF Some]
  define e where "e = audit_row (env_ids env 0) (env_now env) actor INCIDENT_UPDATED INCIDENT i
    (oi_title (updated_incident env d r)) (build_change_set (incident_values r) (requested_values d))"
  show ?thesis
  proof (cases "db' = db")
    case False
    then have "transaction db (db_result (rbind (flush_fault env) (\<lambda>_.
        rbind (record_audit_event env (db\<lparr>ops_incidents := update_row oi_id i (\<lambda>_. updated_incident env d r) (ops_incidents db)\<rparr>) e) (\<lambda>db'.
        rbind (commit_fault env) (\<lambda>_. Inr (updated_incident env d r, db')))))) = (res, db')"
      using assms(1) Some by (auto simp: update_ops_incident_def get_ops_incident_def Let_def updated_incident_def e_def
          split: if_splits)
    then have res: "res = Inr (updated_incident env d r)" and db': "db' = updated_db env db i d actor r"
      using db_transaction False by (fastforce simp: result_simps updated_db_def e_def)+
    have id: "oi_id (updated_incident env d r) = i"
      using r by (simp add: updated_incident_def apply_incident_update_def)
    have "incident_response (updated_incident env d r)"
      using assms(3) r by (auto simp: updated_incident_def incident_response_def)
    moreover have "map oi_id (update_row oi_id i (\<lambda>_. updated_incident env d r) (ops_incidents db)) = map oi_id (ops_incidents db)"
      using map_replaced [OF cloud_tablesD(3) [OF assms(2)], of r i oi_id] r id by simp
    ultimately have ok: "cloud_tables_ok db'"
      using assms(2) by (auto simp: cloud_tables_ok_def db' updated_db_def list_all_iff set_update_row split: if_splits)
    have rec: "recorded_state db' = (recorded_state db)((INCIDENT, i) := map_option (\<lambda>r. map_of (incident_values r)) (Some (updated_incident env d r)))"
      by (rule recorded_incident_tables)
        (use Some id in \<open>auto simp: db' updated_db_def ops_incident_by_id_def find_replaced\<close>)
    have "apply_changes (au_changes e) (map_of (incident_values r)) = Some (map_of (incident_values (updated_incident env d r)))"
      unfolding e_def audit_row_simps
      by (subst changes_apply [OF requested_values_keys(1) _ refl])
        (use requested_values_keys(2) [of d] in \<open>auto simp: incident_values_keys updated_incident_def updated_values\<close>)
    moreover have "recorded_state db (INCIDENT, i) = Some (map_of (incident_values r))"
      using Some by (simp add: recorded_state_def)
    ultimately have "replay_event (recorded_state db) e = Some (recorded_state db')"
      using rec by (simp add: replay_event_def Let_def e_def)
    then have "logged db db' e" using ok by (simp add: logged_def) (simp add: db' updated_db_def e_def)
    then show ?thesis using that(2) [OF Some res db'] by (simp add: e_def)
  qed (rule that(1))
qed

definition deleted_db :: "env \<Rightarrow> cloud_db \<Rightarrow> uuid \<Rightarrow> cloud_user \<Rightarrow> ops_incident \<Rightarrow> cloud_db" where
  "deleted_db env db i actor r = db\<lparr>ops_incidents := filter (\<lambda>q. oi_id q \<noteq> i) (ops_incidents db),
     audit_events := audit_events db @ [audit_row (env_ids env 0) (env_now env) actor INCIDENT_DELETED INCIDENT i
       (oi_title r) [(''deleted'', JBool False, JBool True)]]\<rparr>"

lemma delete_ops_incident_cases:
  assumes "delete_ops_incident env db i actor = (res, db')" and "cloud_tables_ok db"
  obtains "db' = db"
  | r e where "ops_incident_by_id db i = Some r" "res = Inr ()" "db' = deleted_db env db i actor r" "logged db db' e"
      "e = audit_row (env_ids env 0) (env_now env) actor INCIDENT_DELETED INCIDENT i (oi_title r) (au_changes e)"
proof (cases "ops_incident_by_id db i")
  case None
  then show ?thesis using assms(1) that(1) by (auto simp: delete_ops_incident_def get_ops_incident_def)
next
  case (Some r)
  define e where "e = audit_row (env_ids env 0) (env_now env) actor INCIDENT_DELETED INCIDENT i
    (oi_title r) [(''deleted'', JBool False, JBool True)]"
  show ?thesis
  proof (cases "db' = db")
    case False
    have "transaction db (db_result (rbind (flush_fault env) (\<lambda>_.
        rbind (record_audit_event env (db\<lparr>ops_incidents := filter (\<lambda>q. oi_id q \<noteq> i) (ops_incidents db)\<rparr>) e) (\<lambda>db'.
        rbind (commit_fault env) (\<lambda>_. Inr ((), db')))))) = (res, db')"
      using assms(1) Some by (simp add: delete_ops_incident_def get_ops_incident_def e_def)
    then have res: "res = Inr ()" and db': "db' = deleted_db env db i actor r"
      using db_transaction False by (fastforce simp: result_simps deleted_db_def e_def)+
    have ok: "cloud_tables_ok db'"
      using assms(2) by (auto simp: cloud_tables_ok_def db' deleted_db_def list_all_iff distinct_map_filter)
    have rec: "recorded_state db' = (recorded_state db)((INCIDENT, i) := map_option (\<lambda>r. map_of (incident_values r)) None)"
      by (rule recorded_incident_tables) (auto simp: db' deleted_db_def ops_incident_by_id_def find_filter_key)
    moreover have "recorded_state db (INCIDENT, i) \<noteq> None"
      using Some by (simp add: recorded_state_def)
    ultimately have "replay_event (recorded_state db) e = Some (recorded_state db')"
      by (simp add: replay_event_def e_def Let_def)
    then have "logged db db' e" using ok by (simp add: logged_def) (simp add: db' deleted_db_def e_def)
    then show ?thesis using that(2) [OF Some res db'] by (simp add: e_def)
  qed (rule that(1))
qed

section \<open>Requests\<close>

text \<open>What the event of an action is about.\<close>

definition action_target :: "env \<Rightarrow> cloud_action \<Rightarrow> audit_action \<times> audit_resource_type \<times> uuid" where
  "action_target env a = (case a of
      CreateIncident _ \<Rightarrow> (INCIDENT_CREATED, INCIDENT, env_ids env 0)
    | UpdateIncident i _ \<Rightarrow> (INCIDENT_UPDATED, INCIDENT, i)
    | DeleteIncident i \<Rightarrow> (INCIDENT_DELETED, INCIDENT, i)
    | SetRole i _ \<Rightarrow> (USER_ROLE_CHANGED, USER, i)
    | SetStatus i _ \<Rightarrow> (USER_STATUS_CHANGED, USER, i))"

definition performed :: "env \<Rightarrow> cloud_action \<Rightarrow> cloud_user \<Rightarrow> audit_event \<Rightarrow> bool" where
  "performed env a actor e \<longleftrightarrow> au_actor_user_id e = us_id actor \<and> au_actor_role e = us_role actor
     \<and> au_actor_email e = us_email actor \<and> au_created_at e = env_now env
     \<and> (au_action e, au_resource_type e, au_resource_id e) = action_target env a"

lemma cloud_result_db: "snd (cloud_result code P x) = snd x"
  by (cases x) (auto simp: cloud_result_def split: sum.splits cloud_error.splits)

lemma wrap_db: "snd (wrap f x) = snd x"
  by (cases x) (auto simp: wrap_def split: endpoint_result.splits)

lemma created_response: "validate_incident_create body = Some d \<Longrightarrow> incident_response (new_incident env d)"
  by (auto simp: validate_incident_create_def Let_def incident_response_def new_incident_def split: if_splits)

lemma updated_response:
  "validate_incident_update body = Some d \<Longrightarrow> incident_response r \<Longrightarrow> incident_response (apply_incident_update d r)"
  by (auto simp: validate_incident_update_def Let_def incident_response_def apply_incident_update_def or_else_def
      valid_incident_text_def given_def split: if_splits option.splits)

lemma performed_row:
  "e = audit_row n (env_now env) actor act t k l cs \<Longrightarrow> action_target env a = (act, t, k) \<Longrightarrow> performed env a actor e"
  by (simp add: performed_def)

lemma run_action_logged:
  assumes ok: "cloud_tables_ok db" and actor: "user_by_id db (us_id actor) = Some actor" "us_is_active actor"
    and role: "us_role actor \<in> set (allowed_roles a)"
    and fresh: "env_ids env 0 \<notin> oi_id ` set (ops_incidents db)" and run: "run_action lib env db a actor = (res, db')"
  shows "db' = db \<or> (\<exists>e. logged db db' e \<and> performed env a actor e)"
proof (cases a)
  case (CreateIncident body)
  show ?thesis
  proof (cases "validate_incident_create body")
    case (Some d)
    obtain r db1 where step: "create_ops_incident env db d actor = (r, db1)" by fastforce
    have "db1 = db'"
      using arg_cong [OF run, of snd] CreateIncident Some step by (simp add: wrap_db create_incident_endpoint_def cloud_result_db)
    from create_ops_incident_cases [OF step [unfolded this] ok fresh created_response [OF Some]]
    show ?thesis
    proof cases
      case (2 e)
      then show ?thesis using performed_row [OF 2(4), of a] CreateIncident by (auto simp: action_target_def)
    qed simp
  qed (use arg_cong [OF run, of snd] CreateIncident in \<open>simp add: create_incident_endpoint_def wrap_db unprocessable_def\<close>)
next
  case (UpdateIncident i body)
  show ?thesis
  proof (cases "validate_incident_update body")
    case (Some d)
    obtain r db1 where step: "update_ops_incident env db i d actor = (r, db1)" by fastforce
    have "db1 = db'"
      using arg_cong [OF run, of snd] UpdateIncident Some step by (simp add: wrap_db update_incident_endpoint_def cloud_result_db)
    note upd = step [unfolded this]
    have keep: "\<forall>r\<in>set (ops_incidents db). incident_response (apply_incident_update d r)"
      using updated_response [OF Some] cloud_tablesD(4) [OF ok] by (simp add: list_all_iff)
    from update_ops_incident_cases [OF upd ok keep]
    show ?thesis
    proof cases
      case (2 r e)
      then show ?thesis using performed_row [OF 2(5), of a] UpdateIncident by (auto simp: action_target_def)
    qed simp
  qed (use arg_cong [OF run, of snd] UpdateIncident in \<open>simp add: update_incident_endpoint_def wrap_db unprocessable_def\<close>)
next
  case (DeleteIncident i)
  obtain r db1 where step: "delete_ops_incident env db i actor = (r, db1)" by fastforce
  have "db1 = db'"
    using arg_cong [OF run, of snd] DeleteIncident step by (simp add: wrap_db delete_incident_endpoint_def cloud_result_db)
  from delete_ops_incident_cases [OF step [unfolded this] ok]
  show ?thesis
  proof cases
    case (2 r e)
    then show ?thesis using performed_row [OF 2(5), of a] DeleteIncident by (auto simp: action_target_def)
  qed simp
next
  case (SetRole i role)
  have admin: "us_role actor = ADMIN" using assms(4) SetRole by (simp add: allowed_roles_def)
  show ?thesis
  proof (cases "i = us_id actor \<and> role \<noteq> ADMIN")
    case False
    obtain r db1 where step: "change_user_role env db i role actor = (r, db1)" by fastforce
    have "db1 = db'"
      using arg_cong [OF run, of snd] SetRole False step by (auto simp: wrap_db update_user_role_def cloud_result_db)
    from change_user_role_cases [OF step [unfolded this] actor(1) ok]
    show ?thesis
    proof cases
      case (2 u)
      then have "i \<noteq> us_id actor" using False admin actor(1) by auto
      then show ?thesis using 2(5) SetRole by (auto simp: action_target_def performed_def)
    qed simp
  qed (use arg_cong [OF run, of snd] SetRole in \<open>simp add: update_user_role_def wrap_db fail_def\<close>)
next
  case (SetStatus i is_active)
  show ?thesis
  proof (cases "i = us_id actor \<and> \<not> is_active")
    case False
    obtain r db1 where step: "change_user_status env db i is_active actor = (r, db1)" by fastforce
    have "db1 = db'"
      using arg_cong [OF run, of snd] SetStatus False step by (auto simp: wrap_db update_user_status_def cloud_result_db)
    from change_user_status_cases [OF step [unfolded this] actor(1) ok]
    show ?thesis
    proof cases
      case (2 u)
      then have "i \<noteq> us_id actor" using False actor by auto
      then show ?thesis using 2(5) SetStatus by (auto simp: action_target_def performed_def)
    qed simp
  qed (use arg_cong [OF run, of snd] SetStatus in \<open>simp add: update_user_status_def wrap_db fail_def\<close>)
qed

text \<open>Who the request is made by.\<close>

lemma authorizedD:
  assumes "authorize lib c now db roles token = Inr u"
  shows "user_by_id db (us_id u) = Some u" "us_is_active u" "us_role u \<in> set roles"
    "\<exists>t. token = Some t \<and> decode_access_token lib c now t \<noteq> None"
  using assms
  by (auto simp: authorize_def get_current_user_def require_roles_def get_user_def result_simps
      split: option.splits sum.splits if_splits dest: user_by_idD)

lemma cloud_request_logged:
  assumes "cloud_tables_ok db" and "env_ids env 0 \<notin> oi_id ` set (ops_incidents db)"
    and "cloud_request lib c env db token a = (res, db')"
  shows "db' = db \<or> (\<exists>u e. authorize lib c (env_now env) db (allowed_roles a) token = Inr u
    \<and> logged db db' e \<and> performed env a u e)"
proof (cases "authorize lib c (env_now env) db (allowed_roles a) token")
  case (Inr u)
  note u = authorizedD [OF Inr]
  show ?thesis
    using run_action_logged [OF assms(1) u(1-3) assms(2), of lib res db'] assms(3) Inr
    by (auto simp: cloud_request_def)
qed (use assms(3) in \<open>simp add: cloud_request_def\<close>)

section \<open>The history\<close>

text \<open>The roles whose actions the history may show.\<close>

definition permitted_roles :: "audit_action \<Rightarrow> user_role list" where
  "permitted_roles a = (if a = INCIDENT_CREATED \<or> a = INCIDENT_UPDATED then [OPERATOR, ADMIN] else [ADMIN])"

definition history_ok :: "cloud_db \<Rightarrow> bool" where
  "history_ok db \<longleftrightarrow> cloud_tables_ok db \<and> replay audit_start (audit_events db) = Some (recorded_state db)
     \<and> (\<forall>e\<in>set (audit_events db). au_actor_role e \<in> set (permitted_roles (au_action e)))"

lemma history_okD:
  "history_ok db \<Longrightarrow> cloud_tables_ok db"
  "history_ok db \<Longrightarrow> replay audit_start (audit_events db) = Some (recorded_state db)"
  by (simp_all add: history_ok_def)

lemma history_empty: "history_ok empty_cloud_db"
proof -
  have "recorded_state empty_cloud_db = audit_start"
    by (rule ext)
      (auto simp: recorded_state_def audit_start_def empty_cloud_db_def user_by_id_def ops_incident_by_id_def
        split: audit_resource_type.splits)
  then show ?thesis by (simp add: history_ok_def cloud_tables_ok_def) (simp add: empty_cloud_db_def)
qed

lemma history_logged:
  assumes "history_ok db" and "logged db db' e" and "au_actor_role e \<in> set (permitted_roles (au_action e))"
  shows "history_ok db'"
  using assms replay_snoc [OF history_okD(2) [OF assms(1)], of e]
  by (auto simp: history_ok_def logged_def)

lemma performed_permitted:
  assumes "performed env a u e" and "us_role u \<in> set (allowed_roles a)"
  shows "au_actor_role e \<in> set (permitted_roles (au_action e))"
  using assms by (cases a) (auto simp: performed_def action_target_def allowed_roles_def permitted_roles_def)

lemma history_request:
  assumes "history_ok db" and "env_ids env 0 \<notin> oi_id ` set (ops_incidents db)"
    and "cloud_request lib c env db token a = (res, db')"
  shows "history_ok db'"
  using cloud_request_logged [OF history_okD(1) [OF assms(1)] assms(2,3)] assms(1)
    history_logged performed_permitted authorizedD(3) by metis

lemma history_register:
  assumes "history_ok db" and "register_user lib env db d = (r, db')" and "env_ids env 0 \<notin> us_id ` set (users db)"
  shows "history_ok db'"
proof (rule disjE [OF register_user_cases [OF assms(2)]])
  assume "\<exists>u. r = Inr u \<and> create_user env db (lower (strip (uc_email d))) (uc_full_name d)
    (al_hash lib (env_ids env 1) (uc_password d)) VIEWER = Inr (u, db')"
  then obtain u where "create_user env db (lower (strip (uc_email d))) (uc_full_name d)
    (al_hash lib (env_ids env 1) (uc_password d)) VIEWER = Inr (u, db')" by blast
  note new = create_user_ok [OF this history_okD(1) [OF assms(1)] assms(3)]
  have "recorded_state db' = recorded_state db"
    by (rule recorded_register [OF new(1,2)]) (use new(4,8,9) assms(3) in simp_all)
  then show ?thesis using assms(1) new(3,10) by (simp add: history_ok_def)
qed (use assms(1) in blast)

lemma find_changed_user:
  assumes "user_by_id db i = Some u" and "keeps_identity f"
  shows "user_by_id (user_changed env db i cs f act actor u) i = Some (changed_user env f u)"
proof -
  have "us_id (changed_user env f u) = i"
    using assms user_by_idD by (auto simp: changed_user_def keeps_identity_def)
  from find_replaced [of us_id, OF this] assms(1) show ?thesis
    by (simp add: user_by_id_def user_changed_def)
qed

lemma keeps_identityD: "keeps_identity f \<Longrightarrow> us_id (changed_user env f u) = us_id u"
  "keeps_identity f \<Longrightarrow> us_email (changed_user env f u) = us_email u"
  by (simp_all add: keeps_identity_def changed_user_def)

lemma promote_ok:
  assumes ok: "history_ok db" and user: "user_by_id db (us_id user) = Some user"
    and run: "promote env2 env3 db user = (res, db')"
  shows "history_ok db'" and "res = AdministratorReady u \<Longrightarrow> user_by_id db' (us_id user) = Some u
    \<and> us_id u = us_id user \<and> us_email u = us_email user \<and> us_role u = ADMIN \<and> us_is_active u"
proof -
  obtain r1 db1 where step1: "(if us_role user = ADMIN then (Inr user, db) else change_user_role env2 db (us_id user) ADMIN user) = (r1, db1)"
    by fastforce
  have first: "history_ok db1 \<and> (\<forall>v. r1 = Inr v \<longrightarrow> user_by_id db1 (us_id user) = Some v \<and> us_id v = us_id user
      \<and> us_email v = us_email user \<and> us_role v = ADMIN)"
  proof (cases "us_role user = ADMIN")
    case True
    then show ?thesis using step1 ok user by auto
  next
    case False
    then have "change_user_role env2 db (us_id user) ADMIN user = (r1, db1)" using step1 by simp
    from change_user_role_cases [OF this user history_okD(1) [OF ok]] show ?thesis
    proof cases
      case 1
      then show ?thesis using ok user by auto
    next
      case (2 v)
      have v: "v = user" using 2(1) user by simp
      have "history_ok db1"
        by (rule history_logged [OF ok 2(5)]) (simp add: permitted_roles_def changed_user_def)
      then show ?thesis
        using 2 v find_changed_user [OF user user_change_sets(3)] keeps_identityD [OF user_change_sets(3)]
        by (auto simp: changed_user_def)
    qed
  qed
  have "history_ok db' \<and> (\<forall>u. res = AdministratorReady u \<longrightarrow> user_by_id db' (us_id user) = Some u
    \<and> us_id u = us_id user \<and> us_email u = us_email user \<and> us_role u = ADMIN \<and> us_is_active u)"
  proof (cases r1)
    case (Inl e)
    then show ?thesis using first run step1 by (simp add: promote_def)
  next
    case (Inr v)
    with first have v: "user_by_id db1 (us_id v) = Some v" "us_id v = us_id user" "us_email v = us_email user"
      "us_role v = ADMIN" "history_ok db1" by auto
    show ?thesis
    proof (cases "us_is_active v")
      case True
      then show ?thesis using run step1 Inr v by (auto simp: promote_def)
    next
      case False
      obtain r2 db2 where step2: "change_user_status env3 db1 (us_id v) True v = (r2, db2)" by fastforce
      then have res: "(res, db') = (case r2 of Inl _ \<Rightarrow> (Crashed, db2) | Inr w \<Rightarrow> (AdministratorReady w, db2))"
        using run step1 Inr False v(2) by (simp add: promote_def)
      from change_user_status_cases [OF step2 v(1) history_okD(1) [OF v(5)]] show ?thesis
      proof cases
        case 1
        then show ?thesis using res v False by auto
      next
        case (2 w)
        have w: "w = v" using 2(1) v(1) by simp
        have "history_ok db2"
          by (rule history_logged [OF v(5) 2(5)]) (simp add: permitted_roles_def changed_user_def v(4) w)
        then show ?thesis
          using 2 w v res find_changed_user [OF v(1) user_change_sets(4)] keeps_identityD [OF user_change_sets(4)]
          by (auto simp: changed_user_def)
      qed
    qed
  qed
  then show "history_ok db'" and "res = AdministratorReady u \<Longrightarrow> user_by_id db' (us_id user) = Some u
    \<and> us_id u = us_id user \<and> us_email u = us_email user \<and> us_role u = ADMIN \<and> us_is_active u" by simp_all
qed

text \<open>The command that creates the first administrator: what it stores, and whom it reports.\<close>

lemma get_user_by_emailD:
  "get_user_by_email db m = Some u \<Longrightarrow> u \<in> set (users db) \<and> us_email u = lower (strip m)"
  by (auto simp: get_user_by_email_def dest: find_row_SomeD)

lemma stored_user_by_id: "cloud_tables_ok db \<Longrightarrow> u \<in> set (users db) \<Longrightarrow> user_by_id db (us_id u) = Some u"
  unfolding user_by_id_def by (rule find_key_distinct [OF cloud_tablesD(1)])

lemma bootstrap_cases:
  assumes "bootstrap_admin lib env1 env2 env3 db email full_name passwords msg = (res, db')"
  obtains (stopped) "db' = db" "\<And>u. res \<noteq> AdministratorReady u"
  | (existing) user where "get_user_by_email db (lower (strip email)) = Some user" "promote env2 env3 db user = (res, db')"
  | (registered) d user db1 where "register_user lib env1 db d = (Inr user, db1)" "promote env2 env3 db1 user = (res, db')"
      "validate_user_create lib \<lparr>uc_email = lower (strip email), uc_full_name = uc_full_name d, uc_password = uc_password d\<rparr> = Some d"
  | (failed) d e where "register_user lib env1 db d = (Inl e, db')" "\<And>u. res \<noteq> AdministratorReady u"
proof (cases "get_user_by_email db (lower (strip email))")
  case (Some user)
  then show ?thesis using assms existing by (simp add: bootstrap_admin_def Let_def)
next
  case None
  note run = assms [unfolded bootstrap_admin_def Let_def None option.case]
  show ?thesis
  proof (cases full_name)
    case None
    then show ?thesis using run stopped by auto
  next
    case (Some name)
    show ?thesis
    proof (cases "name = [] \<or> fst passwords \<noteq> snd passwords")
      case True
      then show ?thesis using run Some stopped by (auto split: if_splits)
    next
      case False
      let ?body = "\<lparr>uc_email = lower (strip email), uc_full_name = name, uc_password = fst passwords\<rparr>"
      show ?thesis
      proof (cases "validate_user_create lib ?body")
        case None
        then show ?thesis using run Some False stopped by auto
      next
        case valid: (Some d)
        obtain r1 db1 where reg: "register_user lib env1 db d = (r1, db1)" by fastforce
        have same: "uc_full_name d = name" "uc_password d = fst passwords"
          using valid by (auto simp: validate_user_create_def split: option.splits if_splits)
        show ?thesis
        proof (cases r1)
          case (Inr user)
          then show ?thesis using run Some False valid reg same registered [of d user db1] by simp
        next
          case (Inl e)
          have "db1 = db' \<and> (\<forall>u. res \<noteq> AdministratorReady u)"
            using run Some False valid reg Inl by (cases e) auto
          with reg Inl show ?thesis by (intro failed [of d e]) auto
        qed
      qed
    qed
  qed
qed

lemma bootstrap_ok:
  assumes ok: "history_ok db" and fresh: "env_ids env1 0 \<notin> us_id ` set (users db)"
    and run: "bootstrap_admin lib env1 env2 env3 db email full_name passwords msg = (res, db')"
  shows "history_ok db'" and "res = AdministratorReady u \<Longrightarrow> user_by_id db' (us_id u) = Some u
    \<and> us_role u = ADMIN \<and> us_is_active u"
proof -
  have promoted: "history_ok db' \<and> (\<forall>u. res = AdministratorReady u \<longrightarrow> user_by_id db' (us_id u) = Some u
      \<and> us_role u = ADMIN \<and> us_is_active u)"
    if "history_ok db1" "user_by_id db1 (us_id user) = Some user" "promote env2 env3 db1 user = (res, db')" for db1 user
    using promote_ok(1) [OF that] promote_ok(2) [OF that] by metis
  from run have "history_ok db' \<and> (\<forall>u. res = AdministratorReady u \<longrightarrow> user_by_id db' (us_id u) = Some u
      \<and> us_role u = ADMIN \<and> us_is_active u)"
  proof (cases rule: bootstrap_cases)
    case stopped
    then show ?thesis using ok by simp
  next
    case (existing user)
    show ?thesis
      by (rule promoted [OF ok _ existing(2)])
        (use get_user_by_emailD [OF existing(1)] stored_user_by_id [OF history_okD(1) [OF ok]] in blast)
  next
    case (registered d user db1)
    have ok1: "history_ok db1" by (rule history_register [OF ok registered(1) fresh])
    have "user \<in> set (users db1)"
      using register_user_cases [OF registered(1)] create_user_ok(1) [OF _ history_okD(1) [OF ok] fresh] by auto
    from stored_user_by_id [OF history_okD(1) [OF ok1] this] show ?thesis
      by (rule promoted [OF ok1 _ registered(2)])
  next
    case (failed d e)
    then show ?thesis using history_register [OF ok failed(1) fresh] by simp
  qed
  then show "history_ok db'" and "res = AdministratorReady u \<Longrightarrow> user_by_id db' (us_id u) = Some u
    \<and> us_role u = ADMIN \<and> us_is_active u" by simp_all
qed

section \<open>Served requests\<close>

text \<open>The tables a sequence of served requests and command runs can reach, one finished before the next
  begins; the identifiers that \<open>uuid4\<close> draws are new. Requests that overlap, of which the code
  locks no row, are treated in \<open>Cloud_Claims\<close>.\<close>

inductive cloud_served :: "'t auth_library \<Rightarrow> cloud_settings \<Rightarrow> cloud_db \<Rightarrow> bool" for lib c where
  migrated: "cloud_served lib c empty_cloud_db"
| registration: "cloud_served lib c db \<Longrightarrow> env_ids env 0 \<notin> us_id ` set (users db) \<Longrightarrow>
    cloud_served lib c (snd (register_user_endpoint lib env db body))"
| requested: "cloud_served lib c db \<Longrightarrow> env_ids env 0 \<notin> oi_id ` set (ops_incidents db) \<Longrightarrow>
    cloud_served lib c (snd (cloud_request lib c env db token a))"
| bootstrapped: "cloud_served lib c db \<Longrightarrow> env_ids env1 0 \<notin> us_id ` set (users db) \<Longrightarrow>
    cloud_served lib c (snd (bootstrap_admin lib env1 env2 env3 db email full_name passwords msg))"

lemma register_user_endpoint_db:
  "snd (register_user_endpoint lib env db body) = (case validate_user_create lib body of
     None \<Rightarrow> db | Some d \<Rightarrow> snd (register_user lib env db d))"
  by (simp add: register_user_endpoint_def cloud_result_db split: option.split)

lemma served_history: "cloud_served lib c db \<Longrightarrow> history_ok db"
proof (induction rule: cloud_served.induct)
  case (registration db env body)
  show ?case
  proof (cases "validate_user_create lib body")
    case (Some d)
    have "register_user lib env db d = (fst (register_user lib env db d), snd (register_user lib env db d))" by simp
    from history_register [OF registration.IH this registration.hyps(2)] show ?thesis
      using Some by (simp add: register_user_endpoint_db)
  qed (use registration in \<open>simp add: register_user_endpoint_db\<close>)
next
  case (requested db env token a)
  then show ?case using history_request [OF requested.IH requested.hyps(2)] by (metis surjective_pairing)
next
  case (bootstrapped db env1 env2 env3 email full_name passwords msg)
  then show ?case using bootstrap_ok(1) [OF bootstrapped.IH bootstrapped.hyps(2)] by (metis surjective_pairing)
qed (rule history_empty)

end
