(* ===== verification/Cloud_Claims.thy ===== *)
theory Cloud_Claims
  imports Cloud_Correct
begin

text \<open>
  The properties of the cloud operations API: the audit history rebuilds the tables when requests are served one
  after the other (two overlapping updates break it), every change is made
  by an authorized user and recorded, the last administrator cannot be lost by requests served one after the
  other (but by two that overlap), the incident search is plain containment, and what a registered user
  can do with a token.
\<close>

section \<open>The history\<close>

text \<open>C23: the audit history is complete for requests served one after the other. In every state that a
  sequence of requests, registrations and bootstrap runs reaches, each of them finished before the next
  begins, the replay of the history from the start succeeds (every \<open>from\<close> value was the current one) and
  gives exactly the stored incidents with their fields and every user's role and status; and each event
  was caused by a role that may do it. Requests that overlap are not covered: no row is locked, and two
  overlapping updates of an incident break the replay (\<open>overlapping_updates_break_history\<close>).\<close>

theorem audit_replays_to_state:
  assumes "cloud_served lib c db"
  shows "replay audit_start (audit_events db) = Some (recorded_state db)
    \<and> (\<forall>e\<in>set (audit_events db). au_actor_role e \<in> set (permitted_roles (au_action e)))"
  using served_history [OF assms] by (simp add: history_ok_def)

text \<open>C24: every change is authorized and recorded. A request leaves the tables as they are, or its token
  names a stored, active user with a role that the route allows, and exactly one event was appended: by that
  user with that role, at the time of the request, about the resource of the request. A request that is not
  authorized is refused and changes nothing.\<close>

theorem every_change_is_audited:
  assumes "cloud_served lib c db" and "env_ids env 0 \<notin> oi_id ` set (ops_incidents db)"
    and "cloud_request lib c env db token a = (res, db')"
  shows "case authorize lib c (env_now env) db (allowed_roles a) token of
      Inl e \<Rightarrow> res = fail e \<and> db' = db
    | Inr u \<Rightarrow> u \<in> set (users db) \<and> us_is_active u \<and> us_role u \<in> set (allowed_roles a)
        \<and> (db' = db \<or> (\<exists>e. audit_events db' = audit_events db @ [e] \<and> performed env a u e
             \<and> replay_event (recorded_state db) e = Some (recorded_state db')))"
proof (cases "authorize lib c (env_now env) db (allowed_roles a) token")
  case (Inr u)
  then show ?thesis
    using cloud_request_logged [OF history_okD(1) [OF served_history [OF assms(1)]] assms(2,3)]
      authorizedD(2,3) [OF Inr] user_by_idD [OF authorizedD(1) [OF Inr]] unfolding logged_def Inr by simp blast
qed (use assms(3) in \<open>simp add: cloud_request_def\<close>)

section \<open>Administrators\<close>

definition active_admin :: "cloud_db \<Rightarrow> bool" where
  "active_admin db \<longleftrightarrow> (\<exists>u\<in>set (users db). us_role u = ADMIN \<and> us_is_active u)"

lemma incident_actions_users:
  "users (snd (create_ops_incident env db d actor)) = users db"
  "users (snd (update_ops_incident env db i u actor)) = users db"
  "users (snd (delete_ops_incident env db i actor)) = users db"
proof -
  have keep: "users (snd (transaction db (db_result r))) = users db"
    if "\<And>x db'. r = Inr (x, db') \<Longrightarrow> users db' = users db" for r :: "db_error + 'a \<times> cloud_db"
    using that by (cases r) (auto simp: db_result_def)
  show "users (snd (create_ops_incident env db d actor)) = users db"
    by (auto simp: create_ops_incident_def Let_def result_simps intro!: keep)
  show "users (snd (update_ops_incident env db i u actor)) = users db"
    by (auto simp: update_ops_incident_def Let_def result_simps split: sum.splits intro!: keep)
  show "users (snd (delete_ops_incident env db i actor)) = users db"
    by (auto simp: delete_ops_incident_def result_simps split: sum.splits intro!: keep)
qed

lemma user_changed_others:
  "v \<in> set (users db) \<Longrightarrow> us_id v \<noteq> i \<Longrightarrow> v \<in> set (users (user_changed env db i cs f act actor u))"
  by (auto simp: user_changed_def set_update_row)

lemma run_action_keeps_actor:
  assumes ok: "cloud_tables_ok db" and actor: "user_by_id db (us_id actor) = Some actor" "us_is_active actor"
    and admin: "us_role actor = ADMIN"
  shows "actor \<in> set (users (snd (run_action lib env db a actor)))"
proof -
  have stored: "actor \<in> set (users db)" using user_by_idD [OF actor(1)] by simp
  show ?thesis
  proof (cases a)
    case (SetRole i role)
    show ?thesis
    proof (cases "i = us_id actor \<and> role \<noteq> ADMIN")
      case False
      obtain r db' where run: "change_user_role env db i role actor = (r, db')" by fastforce
      have "actor \<in> set (users db')"
        using change_user_role_cases [OF run actor(1) ok]
      proof cases
        case (2 u)
        then have "us_id actor \<noteq> i" using False admin actor(1) by auto
        then show ?thesis using user_changed_others [OF stored] 2(4) by simp
      qed (use stored in simp)
      then show ?thesis using False run SetRole by (auto simp: update_user_role_def wrap_db cloud_result_db)
    qed (use SetRole stored in \<open>simp add: update_user_role_def wrap_db\<close>)
  next
    case (SetStatus i s)
    show ?thesis
    proof (cases "i = us_id actor \<and> \<not> s")
      case False
      obtain r db' where run: "change_user_status env db i s actor = (r, db')" by fastforce
      have "actor \<in> set (users db')"
        using change_user_status_cases [OF run actor(1) ok]
      proof cases
        case (2 u)
        then have "us_id actor \<noteq> i" using False actor by auto
        then show ?thesis using user_changed_others [OF stored] 2(4) by simp
      qed (use stored in simp)
      then show ?thesis using False run SetStatus by (auto simp: update_user_status_def wrap_db cloud_result_db)
    qed (use SetStatus stored in \<open>simp add: update_user_status_def wrap_db\<close>)
  qed (simp_all add: wrap_db create_incident_endpoint_def update_incident_endpoint_def delete_incident_endpoint_def
      cloud_result_db incident_actions_users stored split: option.splits)
qed

lemma run_action_users:
  "us_role actor \<noteq> ADMIN \<Longrightarrow> us_role actor \<in> set (allowed_roles a) \<Longrightarrow> users (snd (run_action lib env db a actor)) = users db"
  by (cases a) (auto simp: allowed_roles_def wrap_db create_incident_endpoint_def update_incident_endpoint_def
      cloud_result_db incident_actions_users split: option.splits)

text \<open>C25: an administrator remains. No request, served on its own, takes the last active administrator
  away: not by a role, not by a status, whoever sends it.\<close>

theorem an_admin_remains:
  assumes "cloud_served lib c db" and "cloud_request lib c env db token a = (res, db')" and "active_admin db"
  shows "active_admin db'"
proof (cases "authorize lib c (env_now env) db (allowed_roles a) token")
  case (Inr u)
  note u = authorizedD [OF Inr]
  have db': "db' = snd (run_action lib env db a u)"
    using assms(2) Inr by (simp add: cloud_request_def)
  show ?thesis
  proof (cases "us_role u = ADMIN")
    case True
    then show ?thesis
      using run_action_keeps_actor [OF history_okD(1) [OF served_history [OF assms(1)]] u(1,2)] u(2) db'
      by (auto simp: active_admin_def)
  next
    case False
    then show ?thesis using assms(3) unfolding db' active_admin_def run_action_users [OF False u(3)] by simp
  qed
qed (use assms(2,3) in \<open>simp add: cloud_request_def\<close>)

text \<open>Two requests overlap when both load and check their user before either runs: then each of the two
  administrators can demote the other.\<close>

definition overlapping_demotions :: "'t auth_library \<Rightarrow> env \<Rightarrow> env \<Rightarrow> cloud_db \<Rightarrow> cloud_user \<Rightarrow> cloud_user \<Rightarrow> cloud_db" where
  "overlapping_demotions lib env1 env2 db u v =
     snd (run_action lib env2 (snd (run_action lib env1 db (SetRole (us_id v) VIEWER) u)) (SetRole (us_id u) VIEWER) v)"

lemma replaced_keys: "key x = k \<Longrightarrow> key ` set (update_row key k (\<lambda>_. x) rows) = key ` set rows"
  by (induction rows) (auto simp: update_row_def)

lemma change_user_role_runs:
  assumes "user_by_id db i = Some u" and "us_role u \<noteq> role" and "i \<noteq> us_id actor" and "us_id actor \<in> us_id ` set (users db)"
    and "flush_fault env = Inr ()" and "commit_fault env = Inr ()"
  shows "snd (change_user_role env db i role actor) =
    user_changed env db i (role_changes role) (\<lambda>u. u\<lparr>us_role := role\<rparr>) USER_ROLE_CHANGED actor u"
proof -
  have u: "us_id u = i" "u \<in> set (users db)" using user_by_idD [OF assms(1)] by simp_all
  have "us_id actor \<in> us_id ` set (update_row us_id i (\<lambda>_. changed_user env (\<lambda>u. u\<lparr>us_role := role\<rparr>) u) (users db))"
    using assms(4) replaced_keys [of us_id "changed_user env (\<lambda>u. u\<lparr>us_role := role\<rparr>) u" i] u by (simp add: changed_user_def)
  then show ?thesis
    using assms u by (simp add: change_user_role_def change_user_def get_user_def no_change_iff user_changed_def changed_user_def
        record_audit_event_def db_result_Inr Let_def)
qed

text \<open>C26: two administrators who demote each other at the same time leave none. When both requests were
  authorized before either ran, both succeed, and no active administrator is left: the guard against
  removing one's own role does not protect the last one.\<close>

theorem mutual_demotion_leaves_no_administrator:
  assumes "cloud_served lib c db"
    and "authorize lib c now db [ADMIN] token1 = Inr u" and "authorize lib c now db [ADMIN] token2 = Inr v"
    and "us_id u \<noteq> us_id v"
    and "\<forall>w\<in>set (users db). us_role w = ADMIN \<longrightarrow> us_id w = us_id u \<or> us_id w = us_id v"
    and "flush_fault env1 = Inr ()" "commit_fault env1 = Inr ()" "flush_fault env2 = Inr ()" "commit_fault env2 = Inr ()"
  shows "\<not> active_admin (overlapping_demotions lib env1 env2 db u v)"
proof -
  note u = authorizedD [OF assms(2)] and v = authorizedD [OF assms(3)]
  let ?f = "\<lambda>u::cloud_user. u\<lparr>us_role := VIEWER\<rparr>"
  let ?db1 = "user_changed env1 db (us_id v) (role_changes VIEWER) ?f USER_ROLE_CHANGED u v"
  have db1: "snd (run_action lib env1 db (SetRole (us_id v) VIEWER) u) = ?db1"
    using change_user_role_runs [OF v(1), of VIEWER u env1] u v assms(4,6,7) user_by_idD [OF u(1)]
    by (auto simp: wrap_db update_user_role_def cloud_result_db)
  have "find (\<lambda>q. us_id q = us_id u) (users ?db1) = Some u"
    using find_replaced [of us_id "changed_user env1 ?f v" "us_id v" "us_id u" "users db"] u(1) assms(4)
    by (simp add: user_changed_def user_by_id_def changed_user_def)
  then have u1: "user_by_id ?db1 (us_id u) = Some u" by (simp add: user_by_id_def)
  have v1: "us_id v \<in> us_id ` set (users ?db1)"
    using user_by_idD [OF v(1)] replaced_keys [of us_id "changed_user env1 ?f v" "us_id v" "users db"]
    by (simp add: user_changed_def changed_user_def)
  have "snd (run_action lib env2 ?db1 (SetRole (us_id u) VIEWER) v) =
      user_changed env2 ?db1 (us_id u) (role_changes VIEWER) ?f USER_ROLE_CHANGED v u"
    using change_user_role_runs [OF u1, of VIEWER v env2] u(3) v1 assms(4,8,9)
    by (auto simp: wrap_db update_user_role_def cloud_result_db)
  then have users: "users (overlapping_demotions lib env1 env2 db u v) = update_row us_id (us_id u) (\<lambda>_. changed_user env2 ?f u)
      (update_row us_id (us_id v) (\<lambda>_. changed_user env1 ?f v) (users db))"
    unfolding overlapping_demotions_def db1 by (simp add: user_changed_def)
  have demoted: "us_role (changed_user env1 ?f v) = VIEWER" "us_role (changed_user env2 ?f u) = VIEWER"
    by (simp_all add: changed_user_def)
  have "us_role w \<noteq> ADMIN" if row: "w \<in> set (users (overlapping_demotions lib env1 env2 db u v))" for w
  proof
    assume admin: "us_role w = ADMIN"
    obtain p where p: "p \<in> set (update_row us_id (us_id v) (\<lambda>_. changed_user env1 ?f v) (users db))"
      "w = (if us_id p = us_id u then changed_user env2 ?f u else p)"
      using iffD1 [OF set_update_row row [unfolded users]] by (elim bexE) (rule that)
    then have w: "w = p" "us_id w \<noteq> us_id u" using admin demoted(2) by (auto split: if_splits)
    obtain q where q: "q \<in> set (users db)" "p = (if us_id q = us_id v then changed_user env1 ?f v else q)"
      using iffD1 [OF set_update_row p(1)] by (elim bexE) (rule that)
    then have "w = q" "us_id w \<noteq> us_id v" using w admin demoted(1) by (auto split: if_splits)
    with assms(5) admin w q(1) show False by metis
  qed
  then show ?thesis by (auto simp: active_admin_def)
qed

section \<open>The search\<close>

text \<open>C27: the incident search is literal. Whatever characters the search text has (the wildcards of the database
  and the escape character included), the listing never fails and returns the page of the incidents that contain
  the text, without regard to case, in the title, the description or the service name, and that pass the other
  filters, newest first. (Letters are folded as in ASCII, and the character NUL, which the driver refuses, is not
  singled out.)\<close>

theorem incident_search_is_literal:
  assumes "cloud_served lib c db" and "paged offset limit" and "length_between 1 200 s"
  shows "list_incidents_endpoint db (Some s) status severity None offset limit = Reply 200
    (page (nat offset) (nat limit) (sort_key newest_key
      (filter (\<lambda>r. (\<exists>t\<in>{oi_title r, oi_description r, oi_service_name r}. sublist (lower (strip s)) (lower t))
         \<and> matches status (oi_status r) \<and> matches severity (oi_severity r)) (ops_incidents db))))"
proof -
  have literal: "search_matches (Some s) r =
      Some (\<exists>t\<in>{oi_title r, oi_description r, oi_service_name r}. sublist (lower (strip s)) (lower t))" for r
    by (simp add: search_matches_def Let_def ilike_search) (auto simp: lower_def)
  have "list_all incident_response (ops_incidents db)"
    using cloud_tablesD(4) [OF history_okD(1) [OF served_history [OF assms(1)]]] .
  then have "list_all incident_response (page (nat offset) (nat limit) (sort_key newest_key (filter P (ops_incidents db))))" for P
    using set_page [of "nat offset" "nat limit" "sort_key newest_key (filter P (ops_incidents db))"]
    by (auto simp: list_all_iff)
  then show ?thesis
    using assms(2,3) by (simp add: list_incidents_endpoint_def given_def list_ops_incidents_def literal service_matches_def
        cloud_result_def)
qed

section \<open>Accounts and tokens\<close>

text \<open>What the code relies on in the libraries: a hash verifies exactly its own password, and a token decodes to
  its claims with the right key, issuer and audience, from the second it is issued to the second it expires.\<close>

definition password_law :: "'t auth_library \<Rightarrow> bool" where
  "password_law lib \<longleftrightarrow> (\<forall>s p q. al_verify lib p (al_hash lib s q) \<longleftrightarrow> p = q)"

definition token_law :: "'t auth_library \<Rightarrow> bool" where
  "token_law lib \<longleftrightarrow> (\<forall>claims key iss aud iat ex now.
     json_get ''iss'' claims = Some (JStr iss) \<longrightarrow> json_get ''aud'' claims = Some (JStr aud) \<longrightarrow>
     json_get ''iat'' claims = Some (JInt iat) \<longrightarrow> json_get ''exp'' claims = Some (JInt ex) \<longrightarrow>
     al_decode lib (al_encode lib claims key) key iss aud now =
       (if iat * 1000000 \<le> now \<and> now < ex * 1000000 then Some claims else None))"

lemma find_email:
  "distinct (map us_email rows) \<Longrightarrow> u \<in> set rows \<Longrightarrow> find (\<lambda>q. us_email q = us_email u) rows = Some u"
  by (rule find_key_distinct)

lemma token_decodes:
  assumes "token_law lib" and "s \<noteq> []"
  shows "decode_access_token lib c later (create_access_token lib c now s) =
    (if epoch_seconds now * 1000000 \<le> later
       \<and> later < epoch_seconds (now + cs_access_token_expire_minutes c * 60000000) * 1000000 then Some s else None)"
  using assms(1)[unfolded token_law_def, rule_format, of "JObj
     [(''sub'', JStr s), (''type'', JStr ''access''), (''iat'', JInt (epoch_seconds now)),
      (''exp'', JInt (epoch_seconds (now + cs_access_token_expire_minutes c * 60000000))),
      (''iss'', JStr (cs_jwt_issuer c)), (''aud'', JStr (cs_jwt_audience c))]" "cs_jwt_issuer c" "cs_jwt_audience c"] assms(2)
  by (simp add: decode_access_token_def create_access_token_def json_get_def)

text \<open>a registered user can log in and act until the token expires. After a registration that was answered 201
  the user logs in with the e-mail address, in any case and with spaces around it, exactly with the password of the
  registration; a wrong password is answered like an unknown address. The token then names that user in every request
  from the second of the login until the configured number of minutes later, and nobody after that.\<close>

theorem registered_user_session:
  assumes "cloud_served lib c db" and "password_law lib" and "token_law lib"
    and "env_ids env 0 \<notin> us_id ` set (users db)"
    and "register_user_endpoint lib env db body = (Reply 201 u, db')"
    and "lower (strip username) = us_email u"
  shows "login_for_access_token lib c now db' username password =
      (if password = uc_password body
       then Reply 200 (create_access_token lib c now (str_uuid (us_id u)), cs_access_token_expire_minutes c * 60)
       else fail (401, ''Incorrect email or password.''))
    \<and> get_current_user lib c later db' (Some (create_access_token lib c now (str_uuid (us_id u)))) =
      (if epoch_seconds now * 1000000 \<le> later
         \<and> later < epoch_seconds (now + cs_access_token_expire_minutes c * 60000000) * 1000000
       then Inr u else Inl credentials_exception)"
proof -
  obtain d where d: "validate_user_create lib body = Some d"
    using assms(5) by (cases "validate_user_create lib body") (simp_all add: register_user_endpoint_def unprocessable_def)
  have password: "uc_password d = uc_password body"
    using d by (auto simp: validate_user_create_def split: option.splits if_splits)
  obtain r where reg: "register_user lib env db d = (r, db')" and r: "r = Inr u"
    using assms(5) d
    by (cases "register_user lib env db d"; cases "fst (register_user lib env db d)")
      (auto simp: register_user_endpoint_def cloud_result_def fail_def internal_error_def split: cloud_error.splits if_splits)
  note ok = history_okD(1) [OF served_history [OF assms(1)]]
  from register_user_cases [OF reg] r obtain "create_user env db (lower (strip (uc_email d))) (uc_full_name d)
      (al_hash lib (env_ids env 1) (uc_password d)) VIEWER = Inr (u, db')" by auto
  note new = create_user_ok [OF this ok assms(4)]
  have stored: "u \<in> set (users db')" by (simp add: new(1))
  have by_email: "get_user_by_email db' username = Some u"
    unfolding get_user_by_email_def assms(6) by (rule find_email [OF cloud_tablesD(2) [OF new(10)] stored])
  have by_id: "get_user db' (us_id u) = Inr u"
    using stored_user_by_id [OF new(10) stored] by (simp add: get_user_def)
  have nonempty: "str_uuid (us_id u) \<noteq> []" by (simp add: str_uuid_def Let_def)
  have "login_for_access_token lib c now db' username password =
      (if password = uc_password body
       then Reply 200 (create_access_token lib c now (str_uuid (us_id u)), cs_access_token_expire_minutes c * 60)
       else fail (401, ''Incorrect email or password.''))"
    using assms(2) by_email new(7,9) password
    by (simp add: login_for_access_token_def authenticate_user_def password_law_def cloud_result_def cloud_error_text_def)
  moreover have "get_current_user lib c later db' (Some (create_access_token lib c now (str_uuid (us_id u)))) =
      (if epoch_seconds now * 1000000 \<le> later
         \<and> later < epoch_seconds (now + cs_access_token_expire_minutes c * 60000000) * 1000000
       then Inr u else Inl credentials_exception)"
    using by_id new(9) by (simp add: get_current_user_def token_decodes [OF assms(3) nonempty])
  ultimately show ?thesis ..
qed

section \<open>A blank name\<close>

lemma lower_char_space: "is_space (lower_char c) = is_space c"
  by (auto simp: is_space_def lower_char_def Let_def)

lemma dropWhile_map_lower: "dropWhile is_space (map lower_char s) = map lower_char (dropWhile is_space s)"
  by (induction s) (simp_all add: lower_char_space)

lemma strip_lower: "strip (lower s) = lower (strip s)"
  by (simp add: strip_def lstrip_def rstrip_def lower_def dropWhile_map_lower rev_map)

lemma normalized_email: "lower (strip (lower (strip m))) = lower (strip m)"
  unfolding strip_lower strip_idem by (auto simp: lower_def lower_char_def Let_def)

text \<open>a registration with a blank name breaks the list of users. A full name of spaces passes the validation of
  the public registration; the account is stored with an empty name and the reply is a server error, and from then on
  so is every page of the administrators' user list that includes the account, and the account itself.\<close>

theorem blank_name_breaks_user_list:
  assumes "al_email lib (uc_email body) = Some m" and "strip (uc_full_name body) = []"
    and "length_between 1 120 (uc_full_name body)" and "length_between 12 128 (uc_password body)"
    and "get_user_by_email db m = None" and "flush_fault env = Inr ()" and "commit_fault env = Inr ()"
    and "cloud_served lib c db" and "env_ids env 0 \<notin> us_id ` set (users db)"
  shows "\<exists>u db'. register_user_endpoint lib env db body = (internal_error, db')
    \<and> users db' = users db @ [u] \<and> us_full_name u = []
    \<and> get_user_endpoint lib db' (us_id u) = internal_error
    \<and> (\<forall>offset limit. paged offset limit \<longrightarrow> u \<in> set (list_users db' (nat offset) (nat limit)) \<longrightarrow>
         list_users_endpoint lib db' offset limit = internal_error)"
proof -
  let ?d = "body\<lparr>uc_email := m\<rparr>"
  let ?u = "\<lparr>us_id = env_ids env 0, us_email = lower (strip (lower (strip m))), us_full_name = [],
    us_password_hash = al_hash lib (env_ids env 1) (uc_password body), us_role = VIEWER, us_is_active = True,
    us_created_at = env_now env, us_updated_at = env_now env\<rparr>"
  let ?db = "db\<lparr>users := users db @ [?u]\<rparr>"
  have d: "validate_user_create lib body = Some ?d"
    using assms(1,3,4) by (simp add: validate_user_create_def)
  note email = normalized_email [of m]
  have unused: "lower (strip m) \<notin> us_email ` set (users db)"
    using assms(5) unfolding get_user_by_email_def find_None_iff image_iff by metis
  have created: "create_user env db (lower (strip m)) (uc_full_name body) (al_hash lib (env_ids env 1) (uc_password body)) VIEWER
      = Inr (?u, ?db)"
    using assms(2,6) unused by (simp add: create_user_def Let_def email)
  have reg: "register_user lib env db ?d = (Inr ?u, ?db)"
    using assms(5,7) created by (simp add: register_user_def Let_def get_user_by_email_def email)
  have bad: "\<not> user_response lib ?u" by (simp add: user_response_def length_between_def)
  have "create_user env db (lower (strip m)) (uc_full_name body) (al_hash lib (env_ids env 1) (uc_password body)) VIEWER
      = Inr (?u, ?db)" by (rule created)
  note ok = create_user_ok(10) [OF this history_okD(1) [OF served_history [OF assms(8)]] assms(9)]
  have "get_user ?db (us_id ?u) = Inr ?u"
    using stored_user_by_id [OF ok, of ?u] by (simp add: get_user_def)
  then show ?thesis
    using bad by (intro exI [of _ ?u] exI [of _ ?db])
      (auto simp: register_user_endpoint_def d reg cloud_result_def get_user_endpoint_def list_users_endpoint_def Let_def
        list_all_iff internal_error_def)
qed

section \<open>Concrete runs\<close>

text \<open>A library for the witnesses: a hash is its salt and the password, a token its payload and key.\<close>

definition demo_hash :: "uuid \<Rightarrow> string \<Rightarrow> string" where
  "demo_hash s p = uuid_hex s @ p"

definition demo_verify :: "string \<Rightarrow> string \<Rightarrow> bool" where
  "demo_verify p h = (drop 32 h = p)"

definition demo_decode :: "json \<times> string \<Rightarrow> string \<Rightarrow> string \<Rightarrow> string \<Rightarrow> time \<Rightarrow> json option" where
  "demo_decode t key iss aud now =
     (if snd t = key \<and> json_get ''iss'' (fst t) = Some (JStr iss) \<and> json_get ''aud'' (fst t) = Some (JStr aud)
      then (case (json_get ''iat'' (fst t), json_get ''exp'' (fst t)) of
          (Some (JInt i), Some (JInt e)) \<Rightarrow> if i * 1000000 \<le> now \<and> now < e * 1000000 then Some (fst t) else None
        | _ \<Rightarrow> None)
      else None)"

definition demo_email :: "string \<Rightarrow> string option" where
  "demo_email s = (if CHR ''@'' \<in> set s then Some s else None)"

definition demo_auth :: "(json \<times> string) auth_library" where
  "demo_auth = \<lparr>al_hash = demo_hash, al_verify = demo_verify, al_encode = Pair, al_decode = demo_decode,
     al_email = demo_email, al_dummy_salt = 0\<rparr>"

lemma demo_laws: "password_law demo_auth" "token_law demo_auth"
  by (auto simp: password_law_def token_law_def demo_auth_def demo_hash_def demo_verify_def demo_decode_def)

definition demo_cloud :: cloud_settings where
  "demo_cloud = \<lparr>cs_jwt_secret_key = ''a-secret-key-of-32-characters-xxx'', cs_access_token_expire_minutes = 30,
     cs_jwt_issuer = ''cloud-ops'', cs_jwt_audience = ''cloud-ops-users''\<rparr>"

definition cloud_env :: "nat \<Rightarrow> env" where
  "cloud_env n = \<lparr>env_now = 1000000 * int n, env_ids = (\<lambda>k. of_nat (10 * n + k)), env_flush_fault = None, env_fault = None\<rparr>"

definition demo_token :: "nat \<Rightarrow> uuid \<Rightarrow> json \<times> string" where
  "demo_token n i = create_access_token demo_auth demo_cloud (1000000 * int n) (str_uuid i)"

definition bob_body :: user_create where
  "bob_body = \<lparr>uc_email = ''bob@x'', uc_full_name = ''Bob'', uc_password = ''correct horse''\<rparr>"

definition blank_body :: user_create where
  "blank_body = \<lparr>uc_email = ''eve@x'', uc_full_name = '' '', uc_password = ''correct horse''\<rparr>"

definition alice :: cloud_user where
  "alice = \<lparr>us_id = 10, us_email = ''alice@x'', us_full_name = ''Alice'',
     us_password_hash = ''0000000000000000000000000000000bbattery staple'', us_role = ADMIN, us_is_active = True,
     us_created_at = 1000000, us_updated_at = 2000000\<rparr>"

definition bob :: cloud_user where
  "bob = \<lparr>us_id = 40, us_email = ''bob@x'', us_full_name = ''Bob'',
     us_password_hash = ''00000000000000000000000000000029correct horse'', us_role = VIEWER, us_is_active = True,
     us_created_at = 4000000, us_updated_at = 4000000\<rparr>"

definition bob_admin :: cloud_user where
  "bob_admin = bob\<lparr>us_role := ADMIN, us_updated_at := 5000000\<rparr>"

definition promotion :: "nat \<Rightarrow> cloud_user \<Rightarrow> audit_event" where
  "promotion n u = audit_row (of_nat (10 * n)) (1000000 * int n) alice USER_ROLE_CHANGED USER (us_id u) (us_email u)
     [(''role'', JStr ''viewer'', JStr ''admin'')]"

definition with_admin :: cloud_db where
  "with_admin = \<lparr>users = [alice], ops_incidents = [], audit_events = [promotion 2 alice]\<rparr>"

definition with_bob :: cloud_db where
  "with_bob = with_admin\<lparr>users := [alice, bob]\<rparr>"

definition two_admins :: cloud_db where
  "two_admins = \<lparr>users = [alice, bob_admin], ops_incidents = [], audit_events = [promotion 2 alice, promotion 5 bob]\<rparr>"

definition disk_body :: incident_create where
  "disk_body = \<lparr>ic_title = ''Disk 90% full'', ic_description = ''on node 7'', ic_service_name = ''store'', ic_severity = SEV_HIGH\<rparr>"

definition with_incident :: cloud_db where
  "with_incident = created_db (cloud_env 6) two_admins disk_body bob_admin"

lemma demo_run:
  "bootstrap_admin demo_auth (cloud_env 1) (cloud_env 2) (cloud_env 3) empty_cloud_db
     ''alice@x'' (Some ''Alice'') (''battery staple'', ''battery staple'') (\<lambda>_. []) = (AdministratorReady alice, with_admin)"
  "register_user_endpoint demo_auth (cloud_env 4) with_admin bob_body = (Reply 201 bob, with_bob)"
  "cloud_request demo_auth demo_cloud (cloud_env 5) with_bob (Some (demo_token 4 10)) (SetRole 40 ADMIN)
     = (Reply 200 (UserReply bob_admin), two_admins)"
  "cloud_request demo_auth demo_cloud (cloud_env 6) two_admins (Some (demo_token 5 40)) (CreateIncident disk_body)
     = (Reply 201 (IncidentReply (new_incident (cloud_env 6) disk_body)), with_incident)"
  by code_simp+

lemma demo_served:
  "cloud_served demo_auth demo_cloud with_admin" "cloud_served demo_auth demo_cloud with_bob"
  "cloud_served demo_auth demo_cloud two_admins" "cloud_served demo_auth demo_cloud with_incident"
proof -
  have snds: "with_admin = snd (bootstrap_admin demo_auth (cloud_env 1) (cloud_env 2) (cloud_env 3) empty_cloud_db
     ''alice@x'' (Some ''Alice'') (''battery staple'', ''battery staple'') (\<lambda>_. []))"
    "with_bob = snd (register_user_endpoint demo_auth (cloud_env 4) with_admin bob_body)"
    "two_admins = snd (cloud_request demo_auth demo_cloud (cloud_env 5) with_bob (Some (demo_token 4 10)) (SetRole 40 ADMIN))"
    "with_incident = snd (cloud_request demo_auth demo_cloud (cloud_env 6) two_admins (Some (demo_token 5 40)) (CreateIncident disk_body))"
    unfolding demo_run by simp_all
  show admin: "cloud_served demo_auth demo_cloud with_admin"
    by (subst snds(1), intro cloud_served.bootstrapped cloud_served.migrated) (simp add: empty_cloud_db_def)
  have "env_ids (cloud_env 4) 0 \<notin> us_id ` set (users with_admin)" by code_simp
  then show bob: "cloud_served demo_auth demo_cloud with_bob"
    by (subst snds(2)) (rule cloud_served.registration [OF admin])
  have "env_ids (cloud_env 5) 0 \<notin> oi_id ` set (ops_incidents with_bob)" by code_simp
  then show two: "cloud_served demo_auth demo_cloud two_admins"
    by (subst snds(3)) (rule cloud_served.requested [OF bob])
  have "env_ids (cloud_env 6) 0 \<notin> oi_id ` set (ops_incidents two_admins)" by code_simp
  then show "cloud_served demo_auth demo_cloud with_incident"
    by (subst snds(4)) (rule cloud_served.requested [OF two])
qed

theorem audit_replays_to_state_witness:
  "length (audit_events with_incident) = 3
   \<and> replay audit_start (audit_events with_incident) = Some (recorded_state with_incident)"
proof
  show "length (audit_events with_incident) = 3" by code_simp
  show "replay audit_start (audit_events with_incident) = Some (recorded_state with_incident)"
    using audit_replays_to_state [OF demo_served(4)] ..
qed

definition deletion :: "cloud_reply endpoint_result \<times> cloud_db" where
  "deletion = cloud_request demo_auth demo_cloud (cloud_env 7) with_incident (Some (demo_token 5 40)) (DeleteIncident 60)"

theorem every_change_is_audited_witness:
  "\<exists>u e. authorize demo_auth demo_cloud 7000000 with_incident [ADMIN] (Some (demo_token 5 40)) = Inr u
    \<and> audit_events (snd deletion) = audit_events with_incident @ [e] \<and> performed (cloud_env 7) (DeleteIncident 60) u e"
proof -
  have fresh: "env_ids (cloud_env 7) 0 \<notin> oi_id ` set (ops_incidents with_incident)" by code_simp
  have run: "cloud_request demo_auth demo_cloud (cloud_env 7) with_incident (Some (demo_token 5 40)) (DeleteIncident 60)
      = (fst deletion, snd deletion)" by (simp add: deletion_def)
  have now: "env_now (cloud_env 7) = 7000000" "allowed_roles (DeleteIncident 60) = [ADMIN]" by code_simp+
  have changed: "length (audit_events (snd deletion)) \<noteq> length (audit_events with_incident)" by code_simp
  have user: "case authorize demo_auth demo_cloud 7000000 with_incident [ADMIN] (Some (demo_token 5 40)) of
      Inl _ \<Rightarrow> False | Inr _ \<Rightarrow> True" by code_simp
  from every_change_is_audited [OF demo_served(4) fresh run] changed user show ?thesis
    unfolding now by (auto split: sum.splits)
qed

theorem an_admin_remains_witness:
  "active_admin (snd (cloud_request demo_auth demo_cloud (cloud_env 7) two_admins (Some (demo_token 5 40)) (SetRole 10 VIEWER)))
   \<and> map us_role (users (snd (cloud_request demo_auth demo_cloud (cloud_env 7) two_admins (Some (demo_token 5 40))
       (SetRole 10 VIEWER)))) = [VIEWER, ADMIN]"
proof
  have "active_admin two_admins" by code_simp
  then show "active_admin (snd (cloud_request demo_auth demo_cloud (cloud_env 7) two_admins (Some (demo_token 5 40)) (SetRole 10 VIEWER)))"
    by (rule an_admin_remains [OF demo_served(3) prod.collapse [symmetric]])
  show "map us_role (users (snd (cloud_request demo_auth demo_cloud (cloud_env 7) two_admins (Some (demo_token 5 40))
       (SetRole 10 VIEWER)))) = [VIEWER, ADMIN]" by code_simp
qed

theorem mutual_demotion_leaves_no_administrator_witness:
  "active_admin two_admins \<and> \<not> active_admin (overlapping_demotions demo_auth (cloud_env 7) (cloud_env 8) two_admins alice bob_admin)"
proof
  show "active_admin two_admins" by code_simp
  have loaded: "authorize demo_auth demo_cloud 6000000 two_admins [ADMIN] (Some (demo_token 5 10)) = Inr alice"
    "authorize demo_auth demo_cloud 6000000 two_admins [ADMIN] (Some (demo_token 5 40)) = Inr bob_admin"
    "us_id alice \<noteq> us_id bob_admin"
    "\<forall>w\<in>set (users two_admins). us_role w = ADMIN \<longrightarrow> us_id w = us_id alice \<or> us_id w = us_id bob_admin"
    "flush_fault (cloud_env 7) = Inr ()" "commit_fault (cloud_env 7) = Inr ()"
    "flush_fault (cloud_env 8) = Inr ()" "commit_fault (cloud_env 8) = Inr ()" by code_simp+
  show "\<not> active_admin (overlapping_demotions demo_auth (cloud_env 7) (cloud_env 8) two_admins alice bob_admin)"
    by (rule mutual_demotion_leaves_no_administrator [OF demo_served(3) loaded])
qed

theorem incident_search_is_literal_witness:
  "list_incidents_endpoint with_incident (Some '' 0% F'') None None None 0 10 = Reply 200 (ops_incidents with_incident)
   \<and> list_incidents_endpoint with_incident (Some ''D%F'') None None None 0 10 = Reply 200 []"
proof -
  have bounds: "paged 0 10" "length_between 1 200 '' 0% F''" "length_between 1 200 ''D%F''" by code_simp+
  show ?thesis
    unfolding incident_search_is_literal [OF demo_served(4) bounds(1,2)] incident_search_is_literal [OF demo_served(4) bounds(1,3)]
    by code_simp
qed

theorem registered_user_session_witness:
  "login_for_access_token demo_auth demo_cloud 5000000 with_bob '' BOB@x'' ''correct horse'' = Reply 200 (demo_token 5 40, 1800)
   \<and> login_for_access_token demo_auth demo_cloud 5000000 with_bob '' BOB@x'' ''wrong'' = fail (401, ''Incorrect email or password.'')
   \<and> get_current_user demo_auth demo_cloud 1804999999 with_bob (Some (demo_token 5 40)) = Inr bob
   \<and> get_current_user demo_auth demo_cloud 1805000000 with_bob (Some (demo_token 5 40)) = Inl credentials_exception"
proof -
  have fresh: "env_ids (cloud_env 4) 0 \<notin> us_id ` set (users with_admin)"
    and name: "lower (strip '' BOB@x'') = us_email bob" by code_simp+
  note session = registered_user_session [OF demo_served(1) demo_laws fresh demo_run(2) name, of 5000000]
  have bobs: "us_id bob = 40" "uc_password bob_body = ''correct horse''" "cs_access_token_expire_minutes demo_cloud = 30"
    by code_simp+
  show ?thesis
    using session [of "''correct horse''" 1804999999] session [of "''wrong''" 1805000000]
    by (simp add: bobs demo_token_def epoch_seconds_def)
qed

theorem blank_name_breaks_user_list_witness:
  "\<exists>(u :: cloud_user) db'. register_user_endpoint demo_auth (cloud_env 7) two_admins blank_body = (internal_error, db') \<and> us_full_name u = []
    \<and> get_user_endpoint demo_auth db' (us_id u) = internal_error"
proof -
  have h: "al_email demo_auth (uc_email blank_body) = Some ''eve@x''" "strip (uc_full_name blank_body) = []"
    "length_between 1 120 (uc_full_name blank_body)" "length_between 12 128 (uc_password blank_body)"
    "get_user_by_email two_admins ''eve@x'' = None" "flush_fault (cloud_env 7) = Inr ()" "commit_fault (cloud_env 7) = Inr ()"
    by code_simp+
  have "env_ids (cloud_env 7) 0 \<notin> us_id ` set (users two_admins)" by code_simp
  from blank_name_breaks_user_list [OF h demo_served(3) this] show ?thesis by blast
qed

section \<open>Request identifiers\<close>

lemma uuid_hex_digits: "set (uuid_hex u) \<subseteq> hex_char ` {..<16}"
proof -
  have "set (hex_fixed w n) \<subseteq> hex_char ` {..<16}" for w n
    by (induction w n rule: hex_fixed.induct) auto
  then show ?thesis by (simp add: uuid_hex_def)
qed

lemma hex_char_safe: "d < 16 \<Longrightarrow> safe_id_char (hex_char d)"
  by (auto simp: safe_id_char_def hex_char_def Let_def)

text \<open>the identifier of a request is always safe to log and to send back. Whatever the client puts into the
  header, the recorded identifier has 1 to 128 characters, all of them letters, digits, dots, underscores or dashes;
  it is the client's own exactly when that has this form.\<close>

theorem request_identifier_is_safe:
  "length_between 1 128 (re_request_id (record_request fresh header http_method path outcome))
   \<and> list_all safe_id_char (re_request_id (record_request fresh header http_method path outcome))
   \<and> (re_request_id (record_request fresh (Some c) http_method path outcome) = c \<longleftrightarrow>
        length_between 1 128 c \<and> list_all safe_id_char c \<or> c = uuid_hex fresh)"
proof -
  have hex: "length_between 1 128 (uuid_hex fresh) \<and> list_all safe_id_char (uuid_hex fresh)"
    using uuid_hex_digits [of fresh] hex_char_safe by (auto simp: length_between_def list_all_iff)
  then show ?thesis
    by (auto simp: record_request_def resolve_request_id_def split: option.splits)
qed

section \<open>The dashboard\<close>

lemma all_values: "set all_statuses = UNIV" "distinct all_statuses" "set all_severities = UNIV" "distinct all_severities"
  by (auto simp: all_statuses_def all_severities_def intro: ops_status.exhaust ops_severity.exhaust)

text \<open>the dashboard counts what is stored. The totals of the summary are the number of stored incidents, by
  status and by severity; the active ones are the open and the investigated, and the affected services are the distinct
  services of those.\<close>

theorem dashboard_counts_incidents:
  "ds_total_incidents (get_dashboard_summary db) = length (ops_incidents db)
   \<and> sum_list (map snd (ds_status_counts (get_dashboard_summary db))) = length (ops_incidents db)
   \<and> sum_list (map snd (ds_severity_counts (get_dashboard_summary db))) = length (ops_incidents db)
   \<and> ds_active_incidents (get_dashboard_summary db) = length (filter (\<lambda>r. active_status (oi_status r)) (ops_incidents db))
   \<and> ds_affected_services (get_dashboard_summary db) =
       card {oi_service_name r |r. r \<in> set (ops_incidents db) \<and> active_status (oi_status r)}"
proof -
  have "length (filter (\<lambda>r. oi_status r = OPS_OPEN) rows) + length (filter (\<lambda>r. oi_status r = OPS_INVESTIGATING) rows)
      = length (filter (\<lambda>r. active_status (oi_status r)) rows)" for rows :: "ops_incident list"
    by (induction rows) (auto simp: active_status_def)
  moreover have "length (remdups (map oi_service_name (filter (\<lambda>r. active_status (oi_status r)) rows)))
      = card {oi_service_name r |r. r \<in> set rows \<and> active_status (oi_status r)}" for rows :: "ops_incident list"
    by (auto simp: length_remdups_card_conv intro: arg_cong [where f = card])
  moreover have "count_incidents_by_status db = (\<lambda>s. length (filter (\<lambda>r. oi_status r = s) (ops_incidents db)))"
    "count_incidents_by_severity db = (\<lambda>s. length (filter (\<lambda>r. oi_severity r = s) (ops_incidents db)))"
    by (simp_all add: fun_eq_iff count_incidents_by_status_def count_incidents_by_severity_def)
  ultimately show ?thesis
    using count_values [OF all_values(2), of oi_status "ops_incidents db"] all_values(1)
      count_values [OF all_values(4), of oi_severity "ops_incidents db"] all_values(3)
    by (simp add: get_dashboard_summary_def Let_def count_affected_services_def comp_def)
qed

section \<open>Overlapping updates\<close>

text \<open>Two updates of one incident overlap when both read the row before either writes, which nothing
  prevents, since no row is locked. The second then records the values of the row it has read as the
  old ones, and writes the requested fields that differ from them to the row as it is now.\<close>

definition differing :: "incident_update \<Rightarrow> ops_incident \<Rightarrow> incident_update" where
  "differing d r = \<lparr>iu_title = (if iu_title d = Some (oi_title r) then None else iu_title d),
     iu_description = (if iu_description d = Some (oi_description r) then None else iu_description d),
     iu_service_name = (if iu_service_name d = Some (oi_service_name r) then None else iu_service_name d),
     iu_severity = (if iu_severity d = Some (oi_severity r) then None else iu_severity d),
     iu_status = (if iu_status d = Some (oi_status r) then None else iu_status d)\<rparr>"

definition write_update :: "env \<Rightarrow> ops_incident \<Rightarrow> cloud_db \<Rightarrow> incident_update \<Rightarrow> cloud_user \<Rightarrow> cloud_db" where
  "write_update env r db d actor =
     (let changes = build_change_set (incident_values r) (requested_values d);
          write = (\<lambda>q. (apply_incident_update (differing d r) q)\<lparr>oi_updated_at := env_now env\<rparr>)
      in if changes = [] then db
         else snd (transaction db (db_result (rbind (flush_fault env) (\<lambda>_.
           rbind (record_audit_event env (db\<lparr>ops_incidents := update_row oi_id (oi_id r) write (ops_incidents db)\<rparr>)
             (audit_row (env_ids env 0) (env_now env) actor INCIDENT_UPDATED INCIDENT (oi_id r) (oi_title (write r)) changes))
           (\<lambda>db'. rbind (commit_fault env) (\<lambda>_. Inr ((), db'))))))))"

text \<open>On the tables it was read from, the write is the update of the service.\<close>

lemma write_update_now:
  assumes "get_ops_incident db i = Inr r" and "distinct (map oi_id (ops_incidents db))"
  shows "write_update env r db d actor = snd (update_ops_incident env db i d actor)"
proof -
  have r: "r \<in> set (ops_incidents db)" "oi_id r = i"
    using assms(1) by (auto simp: get_ops_incident_def ops_incident_by_id_def of_option_eq dest: find_row_SomeD)
  have same: "apply_incident_update (differing d r) r = apply_incident_update d r"
    by (simp add: apply_incident_update_def differing_def or_else_def split: option.splits)
  have row: "apply_incident_update (differing d r) q = apply_incident_update d r"
    if "q \<in> set (ops_incidents db)" "oi_id q = i" for q
  proof -
    have "q = r" using that r assms(2) by (auto simp: distinct_map dest: inj_onD)
    then show ?thesis by (simp add: same)
  qed
  let ?rows = "update_row oi_id i (\<lambda>_. (apply_incident_update d r)\<lparr>oi_updated_at := env_now env\<rparr>) (ops_incidents db)"
  let ?e = "audit_row (env_ids env 0) (env_now env) actor INCIDENT_UPDATED INCIDENT i
    (oi_title ((apply_incident_update d r)\<lparr>oi_updated_at := env_now env\<rparr>))
    (build_change_set (incident_values r) (requested_values d))"
  have rows: "update_row oi_id i (\<lambda>q. (apply_incident_update (differing d r) q)\<lparr>oi_updated_at := env_now env\<rparr>)
      (ops_incidents db) = ?rows"
    by (auto simp: update_row_def row)
  show ?thesis
    unfolding write_update_def update_ops_incident_def Let_def assms(1) sum.case same r(2) rows
    by (cases "flush_fault env"; cases "record_audit_event env (db\<lparr>ops_incidents := ?rows\<rparr>) ?e";
        cases "commit_fault env") (auto simp: transaction_def db_result_def)
qed

definition overlapping_updates :: "env \<Rightarrow> env \<Rightarrow> cloud_db \<Rightarrow> uuid \<Rightarrow> incident_update \<Rightarrow> incident_update \<Rightarrow>
    cloud_user \<Rightarrow> cloud_db" where
  "overlapping_updates env1 env2 db i d1 d2 actor = (case get_ops_incident db i of
      Inl e \<Rightarrow> db
    | Inr r \<Rightarrow> write_update env2 r (write_update env1 r db d1 actor) d2 actor)"

definition set_status_to :: "ops_status \<Rightarrow> incident_update" where
  "set_status_to s = \<lparr>iu_title = None, iu_description = None, iu_service_name = None, iu_severity = None,
     iu_status = Some s\<rparr>"

text \<open>Then the history no longer explains the tables: both events claim to have changed the status from
  \<open>open\<close>, so it cannot be replayed.\<close>

theorem overlapping_updates_break_history:
  "let db = overlapping_updates (cloud_env 7) (cloud_env 8) with_incident 60
         (set_status_to OPS_INVESTIGATING) (set_status_to OPS_RESOLVED) bob_admin
   in map oi_status (ops_incidents db) = [OPS_RESOLVED] \<and> length (audit_events db) = 5
      \<and> replay audit_start (audit_events db) = None"
  by code_simp

end
