(* ===== verification/Sensor_Model.thy ===== *)
theory Sensor_Model
  imports Floats "HOL-Library.List_Lexorder" "HOL-Library.Char_ord"
begin

text \<open>
  The sensor logging platform (sensor-data-logging-test-platform/src/sensor_platform): readings
  (models.py), their table and its repository (db_models.py, repository.py), the simulator of sensors
  (simulator.py) and the fault detector (analysis.py). The numbers of a seeded generator and the times the
  clock shows are functions, so that a run is a function of them.
\<close>

section \<open>Readings\<close>

datatype sensor_type = TEMPERATURE | VOLTAGE | CURRENT | VIBRATION
datatype sensor_status = ST_NORMAL | ST_WARNING | ST_FAULT

definition sensor_type_value :: "sensor_type \<Rightarrow> string" where
  "sensor_type_value t = (case t of TEMPERATURE \<Rightarrow> ''temperature'' | VOLTAGE \<Rightarrow> ''voltage''
     | CURRENT \<Rightarrow> ''current'' | VIBRATION \<Rightarrow> ''vibration'')"

definition sensor_status_value :: "sensor_status \<Rightarrow> string" where
  "sensor_status_value s = (case s of ST_NORMAL \<Rightarrow> ''normal'' | ST_WARNING \<Rightarrow> ''warning'' | ST_FAULT \<Rightarrow> ''fault'')"

definition all_sensor_types :: "sensor_type list" where
  "all_sensor_types = [TEMPERATURE, VOLTAGE, CURRENT, VIBRATION]"

text \<open>\<open>SensorType(text)\<close> and \<open>SensorStatus(text)\<close>: the member with that value.\<close>

definition sensor_type_of :: "string \<Rightarrow> sensor_type option" where
  "sensor_type_of s = find (\<lambda>t. sensor_type_value t = s) all_sensor_types"

definition sensor_status_of :: "string \<Rightarrow> sensor_status option" where
  "sensor_status_of s = find (\<lambda>t. sensor_status_value t = s) [ST_NORMAL, ST_WARNING, ST_FAULT]"

text \<open>A \<open>datetime\<close>: its fields, counted in microseconds as if they were UTC, and its offset, if it has one.\<close>

record py_datetime =
  dt_fields :: int
  dt_offset :: "int option"

definition utc :: "time \<Rightarrow> py_datetime" where
  "utc t = \<lparr>dt_fields = t, dt_offset = Some 0\<rparr>"

record sensor_reading =
  sr_sensor_id :: string
  sr_sensor_type :: sensor_type
  sr_value :: rat
  sr_unit :: string
  sr_timestamp :: py_datetime
  sr_status :: sensor_status

datatype sensor_error = SensorValueError string | SensorKeyError | SensorDatabaseError db_error

section \<open>The table\<close>

text \<open>SQLite keeps the fields of a timestamp without the offset.\<close>

record reading_row =
  rr_id :: int
  rr_sensor_id :: string
  rr_sensor_type :: string
  rr_value :: rat
  rr_unit :: string
  rr_timestamp :: int
  rr_status :: string

definition from_domain :: "int \<Rightarrow> sensor_reading \<Rightarrow> reading_row" where
  "from_domain i r = \<lparr>rr_id = i, rr_sensor_id = sr_sensor_id r, rr_sensor_type = sensor_type_value (sr_sensor_type r),
     rr_value = sr_value r, rr_unit = sr_unit r, rr_timestamp = dt_fields (sr_timestamp r),
     rr_status = sensor_status_value (sr_status r)\<rparr>"

definition to_domain :: "reading_row \<Rightarrow> sensor_error + sensor_reading" where
  "to_domain q = (case (sensor_type_of (rr_sensor_type q), sensor_status_of (rr_status q)) of
      (Some t, Some s) \<Rightarrow> Inr \<lparr>sr_sensor_id = rr_sensor_id q, sr_sensor_type = t, sr_value = rr_value q,
         sr_unit = rr_unit q, sr_timestamp = utc (rr_timestamp q), sr_status = s\<rparr>
    | _ \<Rightarrow> Inl (SensorValueError ''not a valid value''))"

fun collect :: "('e + 'a) list \<Rightarrow> 'e + 'a list" where
  "collect [] = Inr []"
| "collect (x # xs) = rbind x (\<lambda>a. rbind (collect xs) (\<lambda>as. Inr (a # as)))"

text \<open>SQLite gives a new row the largest identifier plus one.\<close>

definition next_row_id :: "reading_row list \<Rightarrow> int" where
  "next_row_id rows = foldr max (map rr_id rows) 0 + 1"

definition new_rows :: "reading_row list \<Rightarrow> sensor_reading list \<Rightarrow> reading_row list" where
  "new_rows rows rs = map (\<lambda>(k, r). from_domain (next_row_id rows + int k) r) (enumerate 0 rs)"

definition save_many :: "db_error option \<Rightarrow> reading_row list \<Rightarrow> sensor_reading list \<Rightarrow>
    (sensor_error + int list) \<times> reading_row list" where
  "save_many fault rows readings =
     (if readings = [] then (Inr [], rows)
      else case fault of
          Some e \<Rightarrow> (Inl (SensorDatabaseError e), rows)
        | None \<Rightarrow> (Inr (map rr_id (new_rows rows readings)), rows @ new_rows rows readings))"

definition save :: "db_error option \<Rightarrow> reading_row list \<Rightarrow> sensor_reading \<Rightarrow> (sensor_error + int) \<times> reading_row list" where
  "save fault rows r = (case fault of
      Some e \<Rightarrow> (Inl (SensorDatabaseError e), rows)
    | None \<Rightarrow> (Inr (next_row_id rows), rows @ [from_domain (next_row_id rows) r]))"

definition list_all_readings :: "reading_row list \<Rightarrow> int option \<Rightarrow> sensor_error + sensor_reading list" where
  "list_all_readings rows limit =
     (let statement = sort_key (\<lambda>q. (rr_timestamp q, rr_id q)) rows in
      case limit of
        Some l \<Rightarrow> if l \<le> 0 then Inl (SensorValueError ''limit must be greater than zero'')
          else collect (map to_domain (take (nat l) statement))
      | None \<Rightarrow> collect (map to_domain statement))"

definition count_readings :: "reading_row list \<Rightarrow> nat" where
  "count_readings rows = length rows"

section \<open>The simulator\<close>

datatype simulation_mode = MODE_NORMAL | MODE_WARNING | MODE_FAULT

record sensor_config =
  sc_minimum :: rat
  sc_maximum :: rat
  sc_unit :: string

definition config :: "int \<Rightarrow> int \<Rightarrow> string \<Rightarrow> sensor_config" where
  "config a b u = \<lparr>sc_minimum = decimal_literal 1 a, sc_maximum = decimal_literal 1 b, sc_unit = u\<rparr>"

definition NORMAL_CONFIGS :: "sensor_type \<Rightarrow> sensor_config" where
  "NORMAL_CONFIGS t = (case t of TEMPERATURE \<Rightarrow> config 200 300 ''C'' | VOLTAGE \<Rightarrow> config 115 125 ''V''
     | CURRENT \<Rightarrow> config 5 50 ''A'' | VIBRATION \<Rightarrow> config 0 40 ''mm/s'')"

definition WARNING_CONFIGS :: "sensor_type \<Rightarrow> sensor_config" where
  "WARNING_CONFIGS t = (case t of TEMPERATURE \<Rightarrow> config 301 349 ''C'' | VOLTAGE \<Rightarrow> config 126 134 ''V''
     | CURRENT \<Rightarrow> config 51 69 ''A'' | VIBRATION \<Rightarrow> config 41 69 ''mm/s'')"

definition FAULT_CONFIGS :: "sensor_type \<Rightarrow> sensor_config" where
  "FAULT_CONFIGS t = (case t of TEMPERATURE \<Rightarrow> config 351 450 ''C'' | VOLTAGE \<Rightarrow> config 136 150 ''V''
     | CURRENT \<Rightarrow> config 71 100 ''A'' | VIBRATION \<Rightarrow> config 71 120 ''mm/s'')"

definition MODE_CONFIGS :: "simulation_mode \<Rightarrow> sensor_type \<Rightarrow> sensor_config" where
  "MODE_CONFIGS m = (case m of MODE_NORMAL \<Rightarrow> NORMAL_CONFIGS | MODE_WARNING \<Rightarrow> WARNING_CONFIGS
     | MODE_FAULT \<Rightarrow> FAULT_CONFIGS)"

text \<open>A generator with the numbers of its seed: \<open>random()\<close> is the next one, and \<open>uniform(a, b)\<close> is
  \<open>a + (b - a) * random()\<close>.\<close>

record simulator =
  sm_sensor_id :: string
  sm_sensor_type :: sensor_type
  sm_draws :: "nat \<Rightarrow> rat"
  sm_next :: nat

definition make_simulator :: "string \<Rightarrow> sensor_type \<Rightarrow> (nat \<Rightarrow> rat) \<Rightarrow> sensor_error + simulator" where
  "make_simulator i t draws =
     (if strip i = [] then Inl (SensorValueError ''sensor_id cannot be empty'')
      else Inr \<lparr>sm_sensor_id = i, sm_sensor_type = t, sm_draws = draws, sm_next = 0\<rparr>)"

definition uniform :: "rat \<Rightarrow> rat \<Rightarrow> rat \<Rightarrow> rat" where
  "uniform a b u = fadd a (fmul (fsub b a) u)"

text \<open>The clock is read once per reading; the number of draws tells which time that is.\<close>

definition generate_reading :: "(nat \<Rightarrow> time) \<Rightarrow> simulation_mode \<Rightarrow> simulator \<Rightarrow> sensor_reading \<times> simulator" where
  "generate_reading clock m s =
     (let c = MODE_CONFIGS m (sm_sensor_type s);
          value = py_round 3 (uniform (sc_minimum c) (sc_maximum c) (sm_draws s (sm_next s)))
      in (\<lparr>sr_sensor_id = sm_sensor_id s, sr_sensor_type = sm_sensor_type s, sr_value = value, sr_unit = sc_unit c,
           sr_timestamp = utc (clock (sm_next s)), sr_status = ST_NORMAL\<rparr>, s\<lparr>sm_next := sm_next s + 1\<rparr>))"

definition validate_rate :: "string \<Rightarrow> rat \<Rightarrow> sensor_error + unit" where
  "validate_rate n rate = ensure (0 \<le> rate \<and> rate \<le> 1) (SensorValueError (n @ '' must be between 0 and 1''))"

definition choose_mode :: "rat \<Rightarrow> rat \<Rightarrow> rat \<Rightarrow> simulation_mode" where
  "choose_mode warning_rate fault_rate probability =
     (if probability < fault_rate then MODE_FAULT
      else if probability < fadd fault_rate warning_rate then MODE_WARNING else MODE_NORMAL)"

fun generate_readings :: "(nat \<Rightarrow> time) \<Rightarrow> rat \<Rightarrow> rat \<Rightarrow> nat \<Rightarrow> simulator \<Rightarrow> sensor_reading list \<times> simulator" where
  "generate_readings clock warning_rate fault_rate 0 s = ([], s)"
| "generate_readings clock warning_rate fault_rate (Suc n) s =
     (let (r, s1) = generate_reading clock (choose_mode warning_rate fault_rate (sm_draws s (sm_next s)))
                      (s\<lparr>sm_next := sm_next s + 1\<rparr>);
          (rs, s2) = generate_readings clock warning_rate fault_rate n s1
      in (r # rs, s2))"

definition generate_batch :: "(nat \<Rightarrow> time) \<Rightarrow> int \<Rightarrow> rat \<Rightarrow> rat \<Rightarrow> simulator \<Rightarrow>
    sensor_error + sensor_reading list \<times> simulator" where
  "generate_batch clock how_many warning_rate fault_rate s =
     rbind (ensure (0 < how_many) (SensorValueError ''count must be greater than zero'')) (\<lambda>_.
     rbind (validate_rate ''warning_rate'' warning_rate) (\<lambda>_.
     rbind (validate_rate ''fault_rate'' fault_rate) (\<lambda>_.
     rbind (ensure (fadd warning_rate fault_rate \<le> 1)
              (SensorValueError ''warning_rate and fault_rate cannot total more than 1'')) (\<lambda>_.
     Inr (generate_readings clock warning_rate fault_rate (nat how_many) s)))))"

section \<open>The fault detector\<close>

record sensor_threshold =
  th_critical_minimum :: rat
  th_normal_minimum :: rat
  th_normal_maximum :: rat
  th_critical_maximum :: rat

definition make_threshold :: "rat \<Rightarrow> rat \<Rightarrow> rat \<Rightarrow> rat \<Rightarrow> sensor_error + sensor_threshold" where
  "make_threshold a b c d =
     (if [a, b, c, d] = sort [a, b, c, d]
      then Inr \<lparr>th_critical_minimum = a, th_normal_minimum = b, th_normal_maximum = c, th_critical_maximum = d\<rparr>
      else Inl (SensorValueError ''Thresholds must be ordered from critical minimum to critical maximum''))"

definition threshold :: "int \<Rightarrow> int \<Rightarrow> int \<Rightarrow> int \<Rightarrow> sensor_threshold" where
  "threshold a b c d = \<lparr>th_critical_minimum = decimal_literal 1 a, th_normal_minimum = decimal_literal 1 b,
     th_normal_maximum = decimal_literal 1 c, th_critical_maximum = decimal_literal 1 d\<rparr>"

definition DEFAULT_THRESHOLDS :: "(sensor_type \<times> sensor_threshold) list" where
  "DEFAULT_THRESHOLDS = [(TEMPERATURE, threshold 150 200 300 350), (VOLTAGE, threshold 105 115 125 135),
     (CURRENT, threshold 1 5 50 70), (VIBRATION, threshold 0 0 40 70)]"

text \<open>\<open>dict(thresholds or DEFAULT_THRESHOLDS)\<close>: an empty mapping counts as none.\<close>

type_synonym detector = "(sensor_type \<times> sensor_threshold) list"

definition fault_detector :: "(sensor_type \<times> sensor_threshold) list option \<Rightarrow> detector" where
  "fault_detector thresholds = (case thresholds of None \<Rightarrow> DEFAULT_THRESHOLDS
     | Some m \<Rightarrow> if m = [] then DEFAULT_THRESHOLDS else m)"

record analysis_result =
  ar_reading :: sensor_reading
  ar_reason :: string
  ar_deviation_from_normal :: rat

definition deviation_from_normal :: "rat \<Rightarrow> sensor_threshold \<Rightarrow> rat" where
  "deviation_from_normal v t =
     (let boundary = (if v < th_normal_minimum t then th_normal_minimum t else th_normal_maximum t)
      in py_round 3 \<bar>fsub v boundary\<bar>)"

definition classify :: "sensor_threshold \<Rightarrow> rat \<Rightarrow> sensor_status \<times> string \<times> rat" where
  "classify t v =
     (if th_normal_minimum t \<le> v \<and> v \<le> th_normal_maximum t
      then (ST_NORMAL, ''Value is within the normal operating range.'', 0)
      else if th_critical_minimum t \<le> v \<and> v \<le> th_critical_maximum t
      then (ST_WARNING, ''Value is '' @ (if v < th_normal_minimum t then ''below'' else ''above'') @
              '' the normal operating range.'', deviation_from_normal v t)
      else (ST_FAULT, ''Value is '' @ (if v < th_critical_minimum t then ''below'' else ''above'') @
              '' the critical safety limit.'', deviation_from_normal v t))"

definition analyze_reading :: "detector \<Rightarrow> sensor_reading \<Rightarrow> sensor_error + analysis_result" where
  "analyze_reading det r = (case map_of det (sr_sensor_type r) of
      None \<Rightarrow> Inl SensorKeyError
    | Some t \<Rightarrow> (case classify t (sr_value r) of (status, reason, deviation) \<Rightarrow>
        Inr \<lparr>ar_reading = r\<lparr>sr_status := status\<rparr>, ar_reason = reason, ar_deviation_from_normal = deviation\<rparr>))"

definition analyze_many :: "detector \<Rightarrow> sensor_reading list \<Rightarrow> sensor_error + analysis_result list" where
  "analyze_many det rs = collect (map (analyze_reading det) rs)"

record health_summary =
  hs_total_readings :: nat
  hs_normal_count :: nat
  hs_warning_count :: nat
  hs_fault_count :: nat
  hs_health_score :: rat

definition count_status :: "sensor_status \<Rightarrow> analysis_result list \<Rightarrow> nat" where
  "count_status s rs = length (filter (\<lambda>r. sr_status (ar_reading r) = s) rs)"

text \<open>\<open>round(((normal + warning * 0.5) / total) * 100, 2)\<close> on floats; an integer that takes part becomes one.\<close>

definition health_score :: "nat \<Rightarrow> nat \<Rightarrow> nat \<Rightarrow> rat" where
  "health_score normal warning readings =
     (if readings = 0 then 0
      else py_round 2 (fmul (fdiv (fadd (of_integer (int normal)) (fmul (of_integer (int warning)) (1 / 2)))
                               (of_integer (int readings))) 100))"

definition summarize_results :: "analysis_result list \<Rightarrow> health_summary" where
  "summarize_results rs =
     (let normal = count_status ST_NORMAL rs; warning = count_status ST_WARNING rs; fault = count_status ST_FAULT rs
      in \<lparr>hs_total_readings = length rs, hs_normal_count = normal, hs_warning_count = warning, hs_fault_count = fault,
          hs_health_score = health_score normal warning (length rs)\<rparr>)"

end
