(* ===== verification/Sensor_Testing.thy ===== *)
theory Sensor_Testing
  imports Sensor_Model Http_Types
begin

text \<open>
  What the sensor logging platform does with readings: the pass/fail test of hardware (hardware_testing.py)
  and its rows for export (reporting.py), the endpoints (api.py), the numbers of the dashboard (dashboard.py) and the
  two commands (cli.py, hardware_cli.py).
\<close>

section \<open>Hardware tests\<close>

datatype test_outcome = PASS | FAIL

definition test_outcome_value :: "test_outcome \<Rightarrow> string" where
  "test_outcome_value r = (case r of PASS \<Rightarrow> ''pass'' | FAIL \<Rightarrow> ''fail'')"

record test_criteria =
  hc_minimum_readings :: int
  hc_maximum_fault_count :: int
  hc_maximum_warning_rate :: rat
  hc_minimum_health_score :: rat

definition make_criteria :: "int \<Rightarrow> int \<Rightarrow> rat \<Rightarrow> rat \<Rightarrow> sensor_error + test_criteria" where
  "make_criteria a b c d =
     rbind (ensure (0 < a) (SensorValueError ''minimum_readings must be greater than zero'')) (\<lambda>_.
     rbind (ensure (0 \<le> b) (SensorValueError ''maximum_fault_count cannot be negative'')) (\<lambda>_.
     rbind (ensure (0 \<le> c \<and> c \<le> 1) (SensorValueError ''maximum_warning_rate must be between 0 and 1'')) (\<lambda>_.
     rbind (ensure (0 \<le> d \<and> d \<le> 100) (SensorValueError ''minimum_health_score must be between 0 and 100'')) (\<lambda>_.
     Inr \<lparr>hc_minimum_readings = a, hc_maximum_fault_count = b, hc_maximum_warning_rate = c, hc_minimum_health_score = d\<rparr>))))"

definition default_criteria :: test_criteria where
  "default_criteria = \<lparr>hc_minimum_readings = 5, hc_maximum_fault_count = 0,
     hc_maximum_warning_rate = decimal_literal 2 20, hc_minimum_health_score = 80\<rparr>"

record test_result =
  ht_sensor_id :: string
  ht_sensor_type :: sensor_type
  ht_outcome :: test_outcome
  ht_total_readings :: nat
  ht_normal_count :: nat
  ht_warning_count :: nat
  ht_fault_count :: nat
  ht_warning_rate :: rat
  ht_health_score :: rat
  ht_failure_reasons :: "string list"

record test_report =
  hr_overall_outcome :: test_outcome
  hr_total_sensors :: nat
  hr_passed_sensors :: nat
  hr_failed_sensors :: nat
  hr_results :: "test_result list"

text \<open>\<open>f"{x:.2f}"\<close> and \<open>f"{x:.2%}"\<close>, which multiplies the float by 100 first.\<close>

definition fixed_2 :: "rat \<Rightarrow> string" where
  "fixed_2 x = cents_text (round_even (x * 100))"

definition percent_2 :: "rat \<Rightarrow> string" where
  "percent_2 x = fixed_2 (fmul x 100) @ ''%''"

definition failure_reasons :: "test_criteria \<Rightarrow> health_summary \<Rightarrow> rat \<Rightarrow> string list" where
  "failure_reasons c s warning_rate =
     (if int (hs_total_readings s) < hc_minimum_readings c
      then [''Insufficient readings: expected at least '' @ str_int (hc_minimum_readings c)] else [])
   @ (if hc_maximum_fault_count c < int (hs_fault_count s)
      then [''Fault count '' @ str_nat (hs_fault_count s) @ '' exceeds maximum '' @ str_int (hc_maximum_fault_count c)] else [])
   @ (if hc_maximum_warning_rate c < warning_rate
      then [''Warning rate '' @ percent_2 warning_rate @ '' exceeds maximum '' @ percent_2 (hc_maximum_warning_rate c)] else [])
   @ (if hs_health_score s < hc_minimum_health_score c
      then [''Health score '' @ fixed_2 (hs_health_score s) @ '' is below minimum '' @ fixed_2 (hc_minimum_health_score c)] else [])"

definition evaluate_sensor :: "detector \<Rightarrow> test_criteria \<Rightarrow> (string \<times> sensor_type) \<times> sensor_reading list \<Rightarrow>
    sensor_error + test_result" where
  "evaluate_sensor det c x = (case x of ((i, t), readings) \<Rightarrow>
     rbind (analyze_many det readings) (\<lambda>analysis_results.
     let s = summarize_results analysis_results;
         warning_rate = double (of_nat (hs_warning_count s) / of_nat (hs_total_readings s));
         reasons = failure_reasons c s warning_rate
     in Inr \<lparr>ht_sensor_id = i, ht_sensor_type = t, ht_outcome = (if reasons = [] then PASS else FAIL),
          ht_total_readings = hs_total_readings s, ht_normal_count = hs_normal_count s,
          ht_warning_count = hs_warning_count s, ht_fault_count = hs_fault_count s,
          ht_warning_rate = py_round 4 warning_rate, ht_health_score = hs_health_score s,
          ht_failure_reasons = reasons\<rparr>))"

text \<open>\<open>grouped_readings[key].append(reading)\<close>: the groups in the order in which their keys appear.\<close>

definition device :: "sensor_reading \<Rightarrow> string \<times> sensor_type" where
  "device r = (sr_sensor_id r, sr_sensor_type r)"

fun append_to_group :: "'k \<Rightarrow> 'a \<Rightarrow> ('k \<times> 'a list) list \<Rightarrow> ('k \<times> 'a list) list" where
  "append_to_group k x [] = [(k, [x])]"
| "append_to_group k x ((k', xs) # gs) = (if k' = k then (k', xs @ [x]) # gs else (k', xs) # append_to_group k x gs)"

definition group_readings :: "sensor_reading list \<Rightarrow> ((string \<times> sensor_type) \<times> sensor_reading list) list" where
  "group_readings rs = foldl (\<lambda>gs r. append_to_group (device r) r gs) [] rs"

definition group_key :: "(string \<times> sensor_type) \<times> sensor_reading list \<Rightarrow> string \<times> string" where
  "group_key g = (sensor_type_value (snd (fst g)), fst (fst g))"

definition run_tests :: "detector \<Rightarrow> test_criteria \<Rightarrow> sensor_reading list \<Rightarrow> sensor_error + test_report" where
  "run_tests det c readings =
     (if readings = [] then Inl (SensorValueError ''At least one sensor reading is required'')
      else rbind (collect (map (evaluate_sensor det c) (sort_key group_key (group_readings readings)))) (\<lambda>results.
        let passed = length (filter (\<lambda>r. ht_outcome r = PASS) results);
            failed = length results - passed
        in Inr \<lparr>hr_overall_outcome = (if failed = 0 then PASS else FAIL), hr_total_sensors = length results,
             hr_passed_sensors = passed, hr_failed_sensors = failed, hr_results = results\<rparr>))"

text \<open>The rows of the CSV export; the reasons go into one cell.\<close>

definition csv_rows :: "test_report \<Rightarrow> (string \<times> test_result \<times> string) list" where
  "csv_rows report = map (\<lambda>r. (test_outcome_value (hr_overall_outcome report), r, join '' | '' (ht_failure_reasons r)))
     (hr_results report)"

section \<open>Endpoints\<close>

record simulation_request =
  sq_count :: int
  sq_warning_rate :: rat
  sq_fault_rate :: rat
  sq_seed :: int

definition valid_simulation :: "simulation_request \<Rightarrow> bool" where
  "valid_simulation q \<longleftrightarrow> 1 \<le> sq_count q \<and> sq_count q \<le> 1000 \<and> 0 \<le> sq_warning_rate q \<and> sq_warning_rate q \<le> 1
     \<and> 0 \<le> sq_fault_rate q \<and> sq_fault_rate q \<le> 1"

text \<open>The numbers of each seed, and the times the clock shows to each of the four simulators.\<close>

type_synonym generator = "int \<Rightarrow> nat \<Rightarrow> rat"
type_synonym clocks = "nat \<Rightarrow> nat \<Rightarrow> time"

definition simulate_type :: "generator \<Rightarrow> clocks \<Rightarrow> simulation_request \<Rightarrow> nat \<times> sensor_type \<Rightarrow>
    sensor_error + sensor_reading list" where
  "simulate_type rng clocks q x = (case x of (k, t) \<Rightarrow>
     rbind (make_simulator (sensor_type_value t @ ''-001'') t (rng (sq_seed q + int k))) (\<lambda>s.
     rbind (generate_batch (clocks k) (sq_count q) (sq_warning_rate q) (sq_fault_rate q) s) (\<lambda>r. Inr (fst r))))"

definition simulate_all :: "generator \<Rightarrow> clocks \<Rightarrow> simulation_request \<Rightarrow> sensor_error + sensor_reading list" where
  "simulate_all rng clocks q =
     rbind (collect (map (simulate_type rng clocks q) (enumerate 0 all_sensor_types))) (\<lambda>batches. Inr (concat batches))"

definition analyzed :: "sensor_reading list \<Rightarrow> sensor_error + sensor_reading list \<times> health_summary" where
  "analyzed readings = rbind (analyze_many (fault_detector None) readings) (\<lambda>results.
     Inr (map ar_reading results, summarize_results results))"

definition validate_rates :: "simulation_request \<Rightarrow> bool" where
  "validate_rates q \<longleftrightarrow> fadd (sq_warning_rate q) (sq_fault_rate q) \<le> 1"

definition generate_analyzed_readings :: "generator \<Rightarrow> clocks \<Rightarrow> simulation_request \<Rightarrow>
    (sensor_reading list \<times> health_summary) endpoint_result" where
  "generate_analyzed_readings rng clocks q =
     (if \<not> validate_rates q then HTTPException 422 (JStr ''warning_rate and fault_rate cannot total more than 1'')
      else case rbind (simulate_all rng clocks q) analyzed of
          Inl _ \<Rightarrow> server_error
        | Inr x \<Rightarrow> Reply 200 x)"

definition create_simulation :: "generator \<Rightarrow> clocks \<Rightarrow> db_error option \<Rightarrow> reading_row list \<Rightarrow> simulation_request \<Rightarrow>
    (nat \<times> health_summary \<times> sensor_reading list) endpoint_result \<times> reading_row list" where
  "create_simulation rng clocks fault rows q =
     (if \<not> valid_simulation q then (unprocessable, rows)
      else case generate_analyzed_readings rng clocks q of
          HTTPException code d \<Rightarrow> (HTTPException code d, rows)
        | Reply _ (readings, summary) \<Rightarrow> (case save_many fault rows readings of
              (Inl _, rows') \<Rightarrow> (server_error, rows')
            | (Inr _, rows') \<Rightarrow> (Reply 201 (length readings, summary, readings), rows')))"

definition list_readings :: "reading_row list \<Rightarrow> int \<Rightarrow> sensor_reading list endpoint_result" where
  "list_readings rows limit =
     (if 1 \<le> limit \<and> limit \<le> 1000
      then (case list_all_readings rows (Some limit) of Inl _ \<Rightarrow> server_error | Inr rs \<Rightarrow> Reply 200 rs)
      else unprocessable)"

definition get_summary :: "reading_row list \<Rightarrow> health_summary endpoint_result" where
  "get_summary rows = (case rbind (list_all_readings rows None) analyzed of
      Inl _ \<Rightarrow> server_error | Inr x \<Rightarrow> Reply 200 (snd x))"

definition run_hardware_test :: "generator \<Rightarrow> clocks \<Rightarrow> simulation_request \<Rightarrow> test_report endpoint_result" where
  "run_hardware_test rng clocks q =
     (if \<not> valid_simulation q then unprocessable
      else case generate_analyzed_readings rng clocks q of
          HTTPException code d \<Rightarrow> HTTPException code d
        | Reply _ (readings, _) \<Rightarrow> (case run_tests (fault_detector None) default_criteria readings of
              Inl _ \<Rightarrow> server_error | Inr report \<Rightarrow> Reply 200 report))"

section \<open>The dashboard\<close>

text \<open>The frame has one row per reading; a database file that does not exist gives no rows.\<close>

definition load_readings :: "reading_row list option \<Rightarrow> sensor_error + sensor_reading list" where
  "load_readings file = (case file of None \<Rightarrow> Inr [] | Some rows \<Rightarrow> list_all_readings rows None)"

record frame_row =
  fr_timestamp :: int
  fr_sensor_id :: string
  fr_sensor_type :: string
  fr_value :: rat
  fr_unit :: string
  fr_status :: string

text \<open>\<open>pd.to_datetime(..., utc=True)\<close>: an offset is taken off the fields, a naive time counts as UTC.\<close>

definition to_utc :: "py_datetime \<Rightarrow> int" where
  "to_utc d = dt_fields d - (case dt_offset d of None \<Rightarrow> 0 | Some x \<Rightarrow> x)"

definition readings_to_dataframe :: "sensor_reading list \<Rightarrow> frame_row list" where
  "readings_to_dataframe rs = map (\<lambda>r. \<lparr>fr_timestamp = to_utc (sr_timestamp r), fr_sensor_id = sr_sensor_id r,
     fr_sensor_type = sensor_type_value (sr_sensor_type r), fr_value = sr_value r, fr_unit = sr_unit r,
     fr_status = sensor_status_value (sr_status r)\<rparr>) rs"

definition selected_rows :: "string list \<Rightarrow> string list \<Rightarrow> frame_row list \<Rightarrow> frame_row list" where
  "selected_rows sensors statuses frame = filter (\<lambda>r. fr_sensor_id r \<in> set sensors \<and> fr_status r \<in> set statuses) frame"

definition count_value :: "string \<Rightarrow> frame_row list \<Rightarrow> nat" where
  "count_value s frame = length (filter (\<lambda>r. fr_status r = s) frame)"

definition calculate_dashboard_metrics :: "frame_row list \<Rightarrow> health_summary" where
  "calculate_dashboard_metrics frame =
     (if frame = [] then \<lparr>hs_total_readings = 0, hs_normal_count = 0, hs_warning_count = 0, hs_fault_count = 0, hs_health_score = 0\<rparr>
      else let normal = count_value ''normal'' frame; warning = count_value ''warning'' frame; fault = count_value ''fault'' frame
        in \<lparr>hs_total_readings = length frame, hs_normal_count = normal, hs_warning_count = warning, hs_fault_count = fault,
            hs_health_score = health_score normal warning (length frame)\<rparr>)"

text \<open>What the page shows: the metrics and the rows that the two filters of the sidebar leave. The filters start with
  every sensor and every status of the frame.\<close>

definition sensor_options :: "frame_row list \<Rightarrow> string list" where
  "sensor_options frame = sort (remdups (map fr_sensor_id frame))"

definition status_options :: "frame_row list \<Rightarrow> string list" where
  "status_options frame = sort (remdups (map fr_status frame))"

datatype dashboard_page = NoSensorData | NoMatchingReadings | DashboardPage health_summary "frame_row list"

definition dashboard_main :: "reading_row list option \<Rightarrow> (frame_row list \<Rightarrow> string list) \<Rightarrow> (frame_row list \<Rightarrow> string list) \<Rightarrow>
    sensor_error + dashboard_page" where
  "dashboard_main file sensors statuses = rbind (load_readings file) (\<lambda>readings.
     let frame = readings_to_dataframe readings;
         filtered = selected_rows (sensors frame) (statuses frame) frame
     in Inr (if frame = [] then NoSensorData else if filtered = [] then NoMatchingReadings
          else DashboardPage (calculate_dashboard_metrics filtered) filtered))"

section \<open>Commands\<close>

text \<open>A command ends with a usage error (status 2), with an uncaught exception, or having printed its result.\<close>

datatype 'a command_result = CommandUsage string | CommandCrash | CommandPrinted 'a

definition sensor_cli :: "generator \<Rightarrow> clocks \<Rightarrow> db_error option \<Rightarrow> simulation_request \<Rightarrow> reading_row list option \<Rightarrow>
    (sensor_reading list \<times> health_summary) command_result \<times> reading_row list option" where
  "sensor_cli rng clocks fault args database =
     (if sq_count args \<le> 0 then (CommandUsage ''--count must be greater than zero'', database)
      else if \<not> (0 \<le> sq_warning_rate args \<and> sq_warning_rate args \<le> 1)
      then (CommandUsage ''--warning-rate must be between 0 and 1'', database)
      else if \<not> (0 \<le> sq_fault_rate args \<and> sq_fault_rate args \<le> 1)
      then (CommandUsage ''--fault-rate must be between 0 and 1'', database)
      else if 1 < fadd (sq_warning_rate args) (sq_fault_rate args)
      then (CommandUsage ''--warning-rate and --fault-rate cannot total more than 1'', database)
      else case rbind (simulate_all rng clocks args) analyzed of
          Inl _ \<Rightarrow> (CommandCrash, database)
        | Inr (readings, summary) \<Rightarrow> (case database of
              None \<Rightarrow> (CommandPrinted (readings, summary), None)
            | Some rows \<Rightarrow> (case save_many fault rows readings of
                  (Inl _, rows') \<Rightarrow> (CommandCrash, Some rows')
                | (Inr _, rows') \<Rightarrow> (CommandPrinted (readings, summary), Some rows'))))"

definition hardware_cli :: "generator \<Rightarrow> clocks \<Rightarrow> simulation_request \<Rightarrow> int \<Rightarrow> int \<Rightarrow> rat \<Rightarrow> rat \<Rightarrow>
    test_report command_result" where
  "hardware_cli rng clocks args minimum_readings maximum_fault_count maximum_warning_rate minimum_health_score =
     (case rbind (ensure (0 < sq_count args) (SensorValueError ''--count must be greater than zero'')) (\<lambda>_.
           rbind (simulate_all rng clocks args) (\<lambda>readings.
           rbind (make_criteria minimum_readings maximum_fault_count maximum_warning_rate minimum_health_score) (\<lambda>c.
           run_tests (fault_detector None) c readings))) of
        Inl _ \<Rightarrow> CommandCrash
      | Inr report \<Rightarrow> CommandPrinted report)"

end
