(* ===== verification/Sensor_Claims.thy ===== *)
theory Sensor_Claims
  imports Sensor_Testing
begin

text \<open>
  The properties of the sensor logging platform: what is simulated is diagnosed, the hardware report accounts for
  every reading, stored readings are read back, and the dashboard agrees with the summary of the API.
\<close>

section \<open>Literals of one digit\<close>

lemma literal_error:
  assumes "0 \<le> c" and "c \<le> 1000"
  shows "\<bar>decimal_literal 1 c - of_int c / 10\<bar> \<le> 1 / 2 ^ 47"
proof -
  have "\<bar>of_int c / 10\<bar> < (2 :: rat) powi 7" using assms by simp
  from double_error [OF this] show ?thesis by (simp add: decimal_literal_def power_int_minus_divide)
qed

lemma literal_less: "0 \<le> a \<Longrightarrow> a < b \<Longrightarrow> b \<le> 1000 \<Longrightarrow> decimal_literal 1 a < decimal_literal 1 b"
proof -
  assume h: "0 \<le> a" "a < b" "b \<le> 1000"
  then have "(of_int a :: rat) + 1 \<le> of_int b" by (metis of_int_1 of_int_add of_int_le_iff zless_imp_add1_zle)
  moreover have "(1 :: rat) / 2 ^ 47 < 1 / 40" by simp
  ultimately show ?thesis using literal_error [of a] literal_error [of b] h by linarith
qed

lemma literal_tenths: "decimal_literal 3 (100 * c) = decimal_literal 1 c"
proof -
  have "(of_int (100 * c) :: rat) / 10 ^ 3 = of_int c / 10 ^ 1" by simp
  then show ?thesis unfolding decimal_literal_def by (rule arg_cong)
qed

section \<open>What is simulated is diagnosed\<close>

lemma uniform_bounds:
  assumes "0 \<le> A" and "A \<le> B" and "B \<le> 1000" and "0 \<le> u" and "u \<le> 1"
  shows "decimal_literal 1 A \<le> py_round 3 (uniform (decimal_literal 1 A) (decimal_literal 1 B) u)
    \<and> py_round 3 (uniform (decimal_literal 1 A) (decimal_literal 1 B) u) \<le> decimal_literal 1 B"
proof -
  define a where "a = decimal_literal 1 A"
  define b where "b = decimal_literal 1 B"
  define d where "d = fsub b a"
  have lit: "\<bar>a - of_int A / 10\<bar> \<le> 1 / 2 ^ 47" "\<bar>b - of_int B / 10\<bar> \<le> 1 / 2 ^ 47"
    unfolding a_def b_def using assms by (intro literal_error; simp)+
  have ab: "a \<le> b" unfolding a_def b_def by (rule decimal_literal_mono [OF assms(2)])
  have a0: "0 \<le> a" using assms(1) by (simp add: a_def decimal_literal_def double_nonneg)
  have tiny: "(1 :: rat) / 2 ^ 47 < 1 / 10000" by simp
  have "(of_int B :: rat) \<le> of_int 1000" using assms(3) by (simp only: of_int_le_iff)
  then have b1: "b < 101" using lit(2) tiny unfolding of_int_numeral by linarith
  have d: "\<bar>d - (b - a)\<bar> \<le> 1 / 2 ^ 47"
    using double_error [of "b - a" 7] a0 ab b1 by (simp add: d_def fsub_def power_int_minus_divide)
  have d0: "0 \<le> d" using ab by (simp add: d_def fsub_def double_nonneg)
  have "double (d * u) \<le> double d"
    using assms(4,5) d0 by (intro double_mono mult_left_le)
  then have e: "0 \<le> fmul d u" "fmul d u \<le> d"
    using assms(4) d0 by (simp_all add: fmul_def double_nonneg d_def fsub_def)
  have "a = double a" by (simp add: a_def decimal_literal_def)
  also have "double a \<le> double (a + fmul d u)" using e by (intro double_mono) simp
  finally have lower: "a \<le> uniform a b u" by (simp add: uniform_def fadd_def d_def)
  have "uniform a b u \<le> double (a + d)"
    unfolding uniform_def fadd_def d_def [symmetric] using e by (intro double_mono) simp
  moreover have "a + d < 128" using d b1 tiny by linarith
  then have "\<bar>double (a + d) - (a + d)\<bar> \<le> 1 / 2 ^ 47"
    using double_error [of "a + d" 7] a0 d0 by (simp add: power_int_minus_divide)
  ultimately have upper: "uniform a b u \<le> b + 2 / 2 ^ 47" using d by linarith
  have scaled: "(of_int (100 * c) - 1 / 2) / 10 ^ 3 = (of_int c / 10 - 1 / 2000 :: rat)"
    "(of_int (100 * c) + 1 / 2) / 10 ^ 3 = (of_int c / 10 + 1 / 2000 :: rat)" for c
    by (simp_all add: field_simps)
  have "of_int A / 10 - 1 / 2000 < uniform a b u" using lower lit tiny by linarith
  moreover have "uniform a b u < of_int B / 10 + 1 / 2000" using upper lit tiny by linarith
  ultimately have "(of_int (100 * A) - 1 / 2) / 10 ^ 3 < uniform a b u" "uniform a b u < (of_int (100 * B) + 1 / 2) / 10 ^ 3"
    unfolding scaled by blast+
  from py_round_between [OF this] show ?thesis by (simp add: literal_tenths a_def b_def)
qed

definition mode_status :: "simulation_mode \<Rightarrow> sensor_status" where
  "mode_status m = (case m of MODE_NORMAL \<Rightarrow> ST_NORMAL | MODE_WARNING \<Rightarrow> ST_WARNING | MODE_FAULT \<Rightarrow> ST_FAULT)"

lemma classify_normal:
  "decimal_literal 1 n1 \<le> v \<Longrightarrow> v \<le> decimal_literal 1 n2 \<Longrightarrow> fst (classify (threshold c1 n1 n2 c2) v) = ST_NORMAL"
  by (simp add: classify_def threshold_def)

lemma classify_warning:
  assumes "decimal_literal 1 lo \<le> v" and "v \<le> decimal_literal 1 hi"
    and "0 \<le> n2" "n2 < lo" "lo \<le> 1000" "c1 \<le> lo" "hi \<le> c2"
  shows "fst (classify (threshold c1 n1 n2 c2) v) = ST_WARNING"
  using assms literal_less [of n2 lo] decimal_literal_mono [of c1 lo 1] decimal_literal_mono [of hi c2 1]
  by (simp add: classify_def threshold_def)

lemma classify_fault:
  assumes "decimal_literal 1 lo \<le> v" and "0 \<le> c2" "c2 < lo" "lo \<le> 1000" "n2 \<le> c2"
  shows "fst (classify (threshold c1 n1 n2 c2) v) = ST_FAULT"
  using assms literal_less [of c2 lo] decimal_literal_mono [of n2 c2 1]
  by (simp add: classify_def threshold_def)

definition default_threshold :: "sensor_type \<Rightarrow> sensor_threshold" where
  "default_threshold t = the (map_of DEFAULT_THRESHOLDS t)"

lemma default_lookup: "map_of (fault_detector None) t = Some (default_threshold t)"
  by (cases t) (simp_all add: default_threshold_def fault_detector_def DEFAULT_THRESHOLDS_def)

lemma simulated_status:
  assumes "0 \<le> u" and "u \<le> 1" and "c = MODE_CONFIGS m t"
  shows "fst (classify (default_threshold t) (py_round 3 (uniform (sc_minimum c) (sc_maximum c) u))) = mode_status m"
proof -
  note configs = MODE_CONFIGS_def NORMAL_CONFIGS_def WARNING_CONFIGS_def FAULT_CONFIGS_def config_def
  let ?v = "\<lambda>A B. py_round 3 (uniform (decimal_literal 1 A) (decimal_literal 1 B) u)"
  have within: "decimal_literal 1 A \<le> ?v A B \<and> ?v A B \<le> decimal_literal 1 B" if "0 \<le> A" "A \<le> B" "B \<le> 1000" for A B
    by (rule uniform_bounds [OF that assms(1,2)])
  have n: "fst (classify (threshold c1 A B c2) (?v A B)) = ST_NORMAL" if "0 \<le> A" "A \<le> B" "B \<le> 1000" for A B c1 c2
    using classify_normal within [OF that] by blast
  have w: "fst (classify (threshold c1 n1 n2 c2) (?v A B)) = ST_WARNING"
    if "0 \<le> n2" "n2 < A" "A \<le> B" "B \<le> 1000" "c1 \<le> A" "B \<le> c2" for A B c1 n1 n2 c2
    by (rule classify_warning [of A _ B]) (use within [of A B] that in simp_all)
  have f: "fst (classify (threshold c1 n1 n2 c2) (?v A B)) = ST_FAULT"
    if "0 \<le> c2" "c2 < A" "A \<le> B" "B \<le> 1000" "n2 \<le> c2" for A B c1 n1 n2 c2
    by (rule classify_fault [of A]) (use within [of A B] that in simp_all)
  show ?thesis
    unfolding assms(3)
    by (cases m; cases t)
      (simp_all add: configs default_threshold_def DEFAULT_THRESHOLDS_def mode_status_def n w f del: One_nat_def)
qed

text \<open>The numbers a generator draws lie in the unit interval.\<close>

definition unit_draws :: "(nat \<Rightarrow> rat) \<Rightarrow> bool" where
  "unit_draws d \<longleftrightarrow> (\<forall>k. 0 \<le> d k \<and> d k < 1)"

lemma analyze_simulated:
  assumes "unit_draws (sm_draws s)"
  shows "\<exists>res. analyze_reading (fault_detector None) (fst (generate_reading clock m s)) = Inr res
    \<and> ar_reading res = (fst (generate_reading clock m s))\<lparr>sr_status := mode_status m\<rparr>"
proof -
  have u: "0 \<le> sm_draws s (sm_next s)" "sm_draws s (sm_next s) \<le> 1"
    using assms by (simp_all add: unit_draws_def less_imp_le)
  show ?thesis
    using simulated_status [OF u refl, where m = m and t = "sm_sensor_type s"]
    by (auto simp: analyze_reading_def generate_reading_def Let_def default_lookup split: prod.splits)
qed

lemma configs_in_tenths: "\<exists>A B unit. MODE_CONFIGS m t = config A B unit \<and> 0 \<le> A \<and> A \<le> B \<and> B \<le> 1000"
  by (cases m; cases t; simp add: MODE_CONFIGS_def NORMAL_CONFIGS_def WARNING_CONFIGS_def FAULT_CONFIGS_def; intro exI conjI; (rule refl)?; simp)

text \<open>C28: what the simulator produces for a condition is diagnosed as that condition. Whatever number the generator
  draws, the value of a normal, warning or fault reading of any sensor, computed and rounded in floating point, is
  classified by the default thresholds as normal, warning or fault, and the analysis changes nothing but the status;
  the value lies between the limits configured for the condition.\<close>

theorem simulated_condition_is_diagnosed:
  assumes "unit_draws (sm_draws s)"
  shows "\<exists>res. analyze_reading (fault_detector None) (fst (generate_reading clock m s)) = Inr res
    \<and> ar_reading res = (fst (generate_reading clock m s))\<lparr>sr_status := mode_status m\<rparr>
    \<and> sc_minimum (MODE_CONFIGS m (sm_sensor_type s)) \<le> sr_value (ar_reading res)
    \<and> sr_value (ar_reading res) \<le> sc_maximum (MODE_CONFIGS m (sm_sensor_type s))"
proof -
  have u: "0 \<le> sm_draws s (sm_next s)" "sm_draws s (sm_next s) \<le> 1"
    using assms by (simp_all add: unit_draws_def less_imp_le)
  obtain A B unit where c: "MODE_CONFIGS m (sm_sensor_type s) = config A B unit" "0 \<le> A" "A \<le> B" "B \<le> 1000"
    using configs_in_tenths by blast
  show ?thesis
    using analyze_simulated [OF assms, of clock m] uniform_bounds [OF c(2-4) u]
    by (auto simp: generate_reading_def Let_def c(1) config_def)
qed

section \<open>A batch\<close>

definition undiagnosed :: "sensor_reading \<Rightarrow> sensor_status \<Rightarrow> bool" where
  "undiagnosed r s \<longleftrightarrow> (\<exists>res. analyze_reading (fault_detector None) r = Inr res \<and> ar_reading res = r\<lparr>sr_status := s\<rparr>)"

lemma generate_readings_spec:
  assumes "unit_draws (sm_draws s)"
  shows "length (fst (generate_readings clock w f n s)) = n
    \<and> (\<forall>r\<in>set (fst (generate_readings clock w f n s)). device r = (sm_sensor_id s, sm_sensor_type s)
         \<and> dt_offset (sr_timestamp r) = Some 0
         \<and> (\<exists>p. 0 \<le> p \<and> p < 1 \<and> undiagnosed r (mode_status (choose_mode w f p))))"
  using assms
proof (induction n arbitrary: s)
  case (Suc n)
  let ?p = "sm_draws s (sm_next s)"
  let ?s1 = "s\<lparr>sm_next := sm_next s + 1\<rparr>"
  obtain r s2 where gen: "generate_reading clock (choose_mode w f ?p) ?s1 = (r, s2)" by fastforce
  have p: "0 \<le> ?p" "?p < 1" using Suc.prems by (simp_all add: unit_draws_def)
  have s2: "sm_draws s2 = sm_draws s" "sm_sensor_id s2 = sm_sensor_id s" "sm_sensor_type s2 = sm_sensor_type s"
    and r: "device r = (sm_sensor_id s, sm_sensor_type s)" "dt_offset (sr_timestamp r) = Some 0"
    using gen by (auto simp: generate_reading_def Let_def device_def utc_def)
  have "undiagnosed r (mode_status (choose_mode w f ?p))"
    using analyze_simulated [of ?s1 clock "choose_mode w f ?p"] Suc.prems gen by (simp add: undiagnosed_def)
  then show ?case
    using Suc.IH [of s2] Suc.prems s2 r p gen by (auto simp: Let_def split: prod.splits)
qed simp

section \<open>Groups\<close>

lemma append_to_group_keys:
  "map fst (append_to_group k x gs) = (if k \<in> set (map fst gs) then map fst gs else map fst gs @ [k])"
  by (induction k x gs rule: append_to_group.induct) simp_all

lemma append_to_group_lookup:
  "map_of (append_to_group k x gs) k' =
    (if k' = k then Some ((case map_of gs k of None \<Rightarrow> [] | Some xs \<Rightarrow> xs) @ [x]) else map_of gs k')"
  by (induction k x gs rule: append_to_group.induct) auto

lemma group_readings_lookup:
  "distinct (map fst (group_readings rs)) \<and> set (map fst (group_readings rs)) = device ` set rs
   \<and> (\<forall>k. map_of (group_readings rs) k =
        (if k \<in> device ` set rs then Some (filter (\<lambda>r. device r = k) rs) else None))"
proof (induction rs rule: rev_induct)
  case (snoc r rs)
  have step: "group_readings (rs @ [r]) = append_to_group (device r) r (group_readings rs)"
    by (simp add: group_readings_def)
  have none: "filter (\<lambda>q. device q = device r) rs = []" if "device r \<notin> device ` set rs"
    using that unfolding filter_empty_conv image_iff by metis
  have old: "distinct (map fst (group_readings rs))" "set (map fst (group_readings rs)) = device ` set rs"
    "map_of (group_readings rs) k = (if k \<in> device ` set rs then Some (filter (\<lambda>r. device r = k) rs) else None)" for k
    using snoc by blast+
  have devices: "device ` set (rs @ [r]) = insert (device r) (device ` set rs)" by simp
  show ?case
  proof (intro conjI allI)
    show "distinct (map fst (group_readings (rs @ [r])))"
      using old(1) by (simp add: step append_to_group_keys del: set_map)
    show "set (map fst (group_readings (rs @ [r]))) = device ` set (rs @ [r])"
      unfolding devices using old(2) by (auto simp: step append_to_group_keys simp del: set_map)
    show "map_of (group_readings (rs @ [r])) k =
        (if k \<in> device ` set (rs @ [r]) then Some (filter (\<lambda>r. device r = k) (rs @ [r])) else None)" for k
      unfolding devices step append_to_group_lookup old(3) using none by (cases "k = device r") simp_all
  qed
qed (simp add: group_readings_def)

lemma group_readings_spec:
  "distinct (map fst (group_readings rs))"
  "set (map fst (group_readings rs)) = device ` set rs"
  "(k, xs) \<in> set (group_readings rs) \<Longrightarrow> xs = filter (\<lambda>r. device r = k) rs"
proof -
  show keys: "distinct (map fst (group_readings rs))" and "set (map fst (group_readings rs)) = device ` set rs"
    using group_readings_lookup [of rs] by blast+
  show "xs = filter (\<lambda>r. device r = k) rs" if "(k, xs) \<in> set (group_readings rs)"
  proof -
    have "map_of (group_readings rs) k = Some xs" using keys that by simp
    moreover have "map_of (group_readings rs) k =
        (if k \<in> device ` set rs then Some (filter (\<lambda>r. device r = k) rs) else None)"
      using group_readings_lookup [of rs] by blast
    ultimately show ?thesis by (simp split: if_splits)
  qed
qed

lemma collect_map: "collect (map f xs) = Inr ys \<Longrightarrow> length ys = length xs \<and> (\<forall>k<length xs. f (xs ! k) = Inr (ys ! k))"
proof (induction xs arbitrary: ys)
  case (Cons x xs)
  then obtain b bs where b: "f x = Inr b" "collect (map f xs) = Inr bs" "ys = b # bs"
    by (auto simp: result_simps)
  then show ?case using Cons.IH [OF b(2)] by (auto simp: less_Suc_eq_0_disj)
qed simp

lemma collect_map_simp: "(\<And>x. x \<in> set xs \<Longrightarrow> f x = Inr (g x)) \<Longrightarrow> collect (map f xs) = Inr (map g xs)"
  by (induction xs) simp_all

text \<open>With a total detector the analysis is a plain function of the reading.\<close>

definition total_detector :: "detector \<Rightarrow> bool" where
  "total_detector det \<longleftrightarrow> (\<forall>t. map_of det t \<noteq> None)"

definition analysis :: "detector \<Rightarrow> sensor_reading \<Rightarrow> analysis_result" where
  "analysis det r = (case analyze_reading det r of Inr x \<Rightarrow> x | Inl _ \<Rightarrow> \<lparr>ar_reading = r, ar_reason = [], ar_deviation_from_normal = 0\<rparr>)"

lemma analyze_total: "total_detector det \<Longrightarrow> analyze_reading det r = Inr (analysis det r)"
  by (auto simp: analysis_def analyze_reading_def total_detector_def split: option.splits prod.splits)

lemma analyze_many_total: "total_detector det \<Longrightarrow> analyze_many det rs = Inr (map (analysis det) rs)"
  unfolding analyze_many_def by (rule collect_map_simp) (rule analyze_total)

lemma default_total: "total_detector (fault_detector None)"
  by (simp add: total_detector_def default_lookup)

definition diagnosed :: "detector \<Rightarrow> sensor_reading \<Rightarrow> sensor_status" where
  "diagnosed det r = sr_status (ar_reading (analysis det r))"

definition diagnosed_count :: "detector \<Rightarrow> sensor_status \<Rightarrow> sensor_reading list \<Rightarrow> nat" where
  "diagnosed_count det s rs = length (filter (\<lambda>r. diagnosed det r = s) rs)"

lemma count_status_analysis: "count_status s (map (analysis det) rs) = diagnosed_count det s rs"
  by (simp add: count_status_def diagnosed_count_def diagnosed_def filter_map comp_def)

lemma diagnosed_partition:
  "diagnosed_count det ST_NORMAL rs + diagnosed_count det ST_WARNING rs + diagnosed_count det ST_FAULT rs = length rs"
proof (induction rs)
  case (Cons r rs)
  then show ?case by (cases "diagnosed det r") (simp_all add: diagnosed_count_def)
qed (simp add: diagnosed_count_def)

text \<open>The result of one sensor, written out.\<close>

definition sensor_verdict :: "detector \<Rightarrow> test_criteria \<Rightarrow> (string \<times> sensor_type) \<times> sensor_reading list \<Rightarrow> test_result" where
  "sensor_verdict det c g = (case evaluate_sensor det c g of Inr r \<Rightarrow> r | Inl _ \<Rightarrow> undefined)"

lemma evaluate_total:
  assumes "total_detector det"
  shows "evaluate_sensor det c g = Inr (sensor_verdict det c g)"
    and "ht_sensor_id (sensor_verdict det c g) = fst (fst g)" "ht_sensor_type (sensor_verdict det c g) = snd (fst g)"
    and "ht_total_readings (sensor_verdict det c g) = length (snd g)"
    and "ht_normal_count (sensor_verdict det c g) = diagnosed_count det ST_NORMAL (snd g)"
    and "ht_warning_count (sensor_verdict det c g) = diagnosed_count det ST_WARNING (snd g)"
    and "ht_fault_count (sensor_verdict det c g) = diagnosed_count det ST_FAULT (snd g)"
    and "ht_health_score (sensor_verdict det c g) =
      health_score (diagnosed_count det ST_NORMAL (snd g)) (diagnosed_count det ST_WARNING (snd g)) (length (snd g))"
    and "ht_outcome (sensor_verdict det c g) = PASS \<longleftrightarrow>
      hc_minimum_readings c \<le> int (length (snd g)) \<and> int (diagnosed_count det ST_FAULT (snd g)) \<le> hc_maximum_fault_count c
      \<and> double (of_nat (diagnosed_count det ST_WARNING (snd g)) / of_nat (length (snd g))) \<le> hc_maximum_warning_rate c
      \<and> hc_minimum_health_score c \<le>
        health_score (diagnosed_count det ST_NORMAL (snd g)) (diagnosed_count det ST_WARNING (snd g)) (length (snd g))"
  by (cases g; cases "fst g";
      auto simp: sensor_verdict_def evaluate_sensor_def analyze_many_total [OF assms] summarize_results_def Let_def
        count_status_analysis failure_reasons_def)+

section \<open>The hardware report\<close>

lemma run_tests_total:
  assumes "total_detector det" and "run_tests det c readings = Inr report"
  shows "hr_results report = map (sensor_verdict det c) (sort_key group_key (group_readings readings))"
    and "hr_total_sensors report = length (hr_results report)"
    and "hr_passed_sensors report = length (filter (\<lambda>r. ht_outcome r = PASS) (hr_results report))"
    and "hr_passed_sensors report + hr_failed_sensors report = hr_total_sensors report"
    and "hr_overall_outcome report = (if hr_failed_sensors report = 0 then PASS else FAIL)"
proof -
  have results: "collect (map (evaluate_sensor det c) (sort_key group_key (group_readings readings))) =
      Inr (map (sensor_verdict det c) (sort_key group_key (group_readings readings)))"
    by (rule collect_map_simp) (rule evaluate_total(1) [OF assms(1)])
  show "hr_results report = map (sensor_verdict det c) (sort_key group_key (group_readings readings))"
    "hr_total_sensors report = length (hr_results report)"
    "hr_passed_sensors report = length (filter (\<lambda>r. ht_outcome r = PASS) (hr_results report))"
    "hr_passed_sensors report + hr_failed_sensors report = hr_total_sensors report"
    "hr_overall_outcome report = (if hr_failed_sensors report = 0 then PASS else FAIL)"
    using assms(2) length_filter_le [of "\<lambda>r. ht_outcome r = PASS" "map (sensor_verdict det c) (sort_key group_key (group_readings readings))"]
    by (auto simp: run_tests_def results Let_def split: if_splits)
qed

lemma run_tests_runs: "total_detector det \<Longrightarrow> readings \<noteq> [] \<Longrightarrow> \<exists>report. run_tests det c readings = Inr report"
  using collect_map_simp [of "sort_key group_key (group_readings readings)" "evaluate_sensor det c" "sensor_verdict det c"]
    evaluate_total(1) [of det c] by (simp add: run_tests_def Let_def)

lemma all_passed: "length (filter P xs) + f = length xs \<Longrightarrow> f = 0 \<longleftrightarrow> list_all P xs"
proof -
  assume h: "length (filter P xs) + f = length xs"
  have "length (filter P xs) = length xs \<longleftrightarrow> list_all P xs"
  proof (induction xs)
    case (Cons x xs)
    then show ?case by (cases "P x") (simp_all, metis Suc_n_not_le_n length_filter_le)
  qed simp
  with h show ?thesis by linarith
qed

definition result_device :: "test_result \<Rightarrow> string \<times> sensor_type" where
  "result_device r = (ht_sensor_id r, ht_sensor_type r)"

text \<open>the hardware report accounts for every reading. It has one result per device that occurs in the readings,
  in the order of type and identifier; the readings of each device are counted by the diagnosis of the detector, and the
  totals of all results add up to the number of readings. A device passes exactly when it meets all four criteria, and
  the test passes exactly when every device does.\<close>

theorem hardware_report_accounts:
  assumes "total_detector det" and "run_tests det c readings = Inr report"
  shows "distinct (map result_device (hr_results report))
    \<and> set (map result_device (hr_results report)) = device ` set readings
    \<and> sorted (map (\<lambda>r. (sensor_type_value (ht_sensor_type r), ht_sensor_id r)) (hr_results report))
    \<and> sum_list (map ht_total_readings (hr_results report)) = length readings
    \<and> (\<forall>r\<in>set (hr_results report).
         let own = filter (\<lambda>q. device q = result_device r) readings;
             normal = diagnosed_count det ST_NORMAL own; warning = diagnosed_count det ST_WARNING own;
             fault = diagnosed_count det ST_FAULT own
         in ht_total_readings r = length own \<and> normal + warning + fault = length own
           \<and> ht_normal_count r = normal \<and> ht_warning_count r = warning \<and> ht_fault_count r = fault
           \<and> (ht_outcome r = PASS \<longleftrightarrow> hc_minimum_readings c \<le> int (length own)
                \<and> int fault \<le> hc_maximum_fault_count c
                \<and> double (of_nat warning / of_nat (length own)) \<le> hc_maximum_warning_rate c
                \<and> hc_minimum_health_score c \<le> health_score normal warning (length own)))
    \<and> (hr_overall_outcome report = PASS \<longleftrightarrow> list_all (\<lambda>r. ht_outcome r = PASS) (hr_results report))"
proof -
  note rep = run_tests_total [OF assms] and ev = evaluate_total [OF assms(1)] and gr = group_readings_spec
  let ?gs = "sort_key group_key (group_readings readings)"
  have devices: "map result_device (hr_results report) = map fst ?gs"
    by (simp add: rep(1) result_device_def ev(2,3))
  have "distinct (map fst ?gs)" using gr(1) [of readings] by (simp add: distinct_map)
  moreover have keys: "set (map fst ?gs) = device ` set readings" using gr(2) [of readings] by simp
  moreover have "sorted (map (\<lambda>r. (sensor_type_value (ht_sensor_type r), ht_sensor_id r)) (hr_results report))"
    using sorted_sort_key [of group_key "group_readings readings"] by (simp add: rep(1) ev(2,3) comp_def group_key_def [abs_def])
  moreover have own: "snd g = filter (\<lambda>q. device q = fst g) readings" if "g \<in> set ?gs" for g
    using gr(3) [of "fst g" "snd g" readings] that by simp
  moreover have "sum_list (map ht_total_readings (hr_results report)) = length readings"
  proof -
    have "map ht_total_readings (hr_results report) = map (\<lambda>k. length (filter (\<lambda>q. device q = k) readings)) (map fst ?gs)"
      by (simp add: rep(1) ev(4) own cong: map_cong)
    then show ?thesis using count_values [of "map fst ?gs" device readings] calculation(1) keys by simp
  qed
  moreover have "hr_overall_outcome report = PASS \<longleftrightarrow> list_all (\<lambda>r. ht_outcome r = PASS) (hr_results report)"
    using all_passed [of "\<lambda>r. ht_outcome r = PASS" "hr_results report" "hr_failed_sensors report"] rep(2-5) by simp
  ultimately show ?thesis
    unfolding devices
    by (simp add: rep(1) result_device_def ev(2-7,9) own [symmetric] Let_def diagnosed_partition)
qed

section \<open>The health score\<close>

lemma py_round_int: "\<bar>n\<bar> \<le> 2 ^ 53 \<Longrightarrow> py_round 2 (of_int n) = of_int n"
proof -
  assume "\<bar>n\<bar> \<le> 2 ^ 53"
  have "of_int n * 10 ^ 2 = (of_int (n * 100) :: rat)" by simp
  then have "py_round 2 (of_int n) = double (of_int (n * 100) / 10 ^ 2)"
    unfolding py_round_def by (simp only: round_even_of_int)
  also have "of_int (n * 100) / 10 ^ 2 = (of_int n :: rat)" by simp
  finally show ?thesis using double_of_int [OF \<open>\<bar>n\<bar> \<le> 2 ^ 53\<close>] by simp
qed

lemma of_integer_exact: "n \<le> 2 ^ 53 \<Longrightarrow> of_integer (int n) = of_nat n"
  using double_of_int [of "int n"] by (simp add: of_integer_def)

lemma score_numerator:
  assumes "normal + warning \<le> 2 ^ 52"
  shows "fadd (of_integer (int normal)) (fmul (of_integer (int warning)) (1 / 2)) = of_nat normal + of_nat warning / 2"
proof -
  have half: "double (of_nat m / 2) = of_nat m / 2" if "m \<le> 2 ^ 53" for m
    using double_representable [of "int m" "- 1"] that by (simp add: power_int_minus_divide)
  have "fmul (of_integer (int warning)) (1 / 2) = of_nat warning / 2"
    using half [of warning] of_integer_exact [of warning] assms by (simp add: fmul_def)
  moreover have "double (of_nat normal + of_nat warning / 2) = of_nat normal + of_nat warning / 2"
    using half [of "2 * normal + warning"] assms by (simp add: add_divide_distrib)
  moreover have "of_integer (int normal) = of_nat normal" using of_integer_exact [of normal] assms by simp
  ultimately show ?thesis unfolding fadd_def by (simp only:)
qed

lemma double_100: "double 100 = 100" "py_round 2 100 = 100" "py_round 2 0 = 0"
  using double_of_int [of 100] py_round_int [of 100] py_round_int [of 0] by simp_all

lemma health_score_limits:
  assumes "normal + warning \<le> total_readings" and "total_readings \<le> 2 ^ 52"
  shows "0 \<le> health_score normal warning total_readings \<and> health_score normal warning total_readings \<le> 100"
proof (cases "total_readings = 0")
  case False
  let ?x = "(of_nat normal + of_nat warning / 2 :: rat)"
  have "(of_nat (normal + warning) :: rat) \<le> of_nat total_readings" using assms(1) by (simp only: of_nat_le_iff)
  then have "?x \<le> of_nat total_readings" by simp
  then have ratio: "0 \<le> ?x / of_nat total_readings" "?x / of_nat total_readings \<le> 1" using False by simp_all
  have q: "0 \<le> double (?x / of_nat total_readings)" "double (?x / of_nat total_readings) \<le> 1"
    using double_nonneg [OF ratio(1)] double_mono [OF ratio(2)] by simp_all
  then have p: "0 \<le> double (double (?x / of_nat total_readings) * 100)" "double (double (?x / of_nat total_readings) * 100) \<le> 100"
    using double_nonneg [of "double (?x / of_nat total_readings) * 100"]
      double_mono [of "double (?x / of_nat total_readings) * 100" 100] by (simp_all add: double_100)
  have "normal + warning \<le> 2 ^ 52" using assms by linarith
  from score_numerator [OF this]
  have "health_score normal warning total_readings = py_round 2 (double (double (?x / of_nat total_readings) * 100))"
    using False of_integer_exact [of total_readings] assms(2) by (simp add: health_score_def fdiv_def fmul_def)
  then show ?thesis using py_round_mono [OF p(1), of 2] py_round_mono [OF p(2), of 2] by (simp add: double_100)
qed (simp add: health_score_def)

lemma health_score_all:
  assumes "0 < n" and "n \<le> 2 ^ 52"
  shows "health_score n 0 n = 100" and "health_score 0 n n = 50" and "health_score 0 0 n = 0"
proof -
  have "double (1 / 2) = 1 / 2" using double_representable [of 1 "- 1"] by (simp add: power_int_minus_divide)
  then have "fdiv (of_nat n / 2) (of_nat n) = 1 / 2" using assms(1) by (simp add: fdiv_def)
  moreover have "double 50 = 50" "py_round 2 50 = 50" using double_of_int [of 50] py_round_int [of 50] by simp_all
  moreover have "fadd (of_integer (int 0)) (fmul (of_integer (int n)) (1 / 2)) = of_nat n / 2"
    using score_numerator [of 0 n] assms(2) by simp
  moreover have "of_integer (int n) = of_nat n" using of_integer_exact [of n] assms(2) by simp
  ultimately have "health_score 0 n n = py_round 2 (fmul (1 / 2) 100)" using assms(1)
    by (simp only: health_score_def neq0_conv [symmetric] if_False)
  then show "health_score 0 n n = 50" by (simp add: fmul_def \<open>double 50 = 50\<close> \<open>py_round 2 50 = 50\<close>)
  have "fdiv (of_nat n) (of_nat n) = 1" using assms(1) by (simp add: fdiv_def)
  then show "health_score n 0 n = 100"
    using assms score_numerator [of n 0] of_integer_exact [of n] by (simp add: health_score_def fmul_def double_100)
  show "health_score 0 0 n = 0"
    using assms score_numerator [of 0 0] by (simp add: health_score_def fmul_def fdiv_def double_100)
qed

text \<open>the health score is a percentage. For any counts that fit into the number of readings the score, computed in
  floating point and rounded to two digits, lies between 0 and 100; it is 100 when all readings are normal and 0 when none
  is normal or a warning.\<close>

theorem health_score_is_percentage:
  assumes "normal + warning \<le> n" and "n \<le> 2 ^ 52"
  shows "0 \<le> health_score normal warning n \<and> health_score normal warning n \<le> 100
    \<and> (normal = n \<and> 0 < n \<longrightarrow> health_score normal warning n = 100)
    \<and> (normal = 0 \<and> warning = 0 \<longrightarrow> health_score normal warning n = 0)"
  using health_score_limits [OF assms] health_score_all [of n] assms by (auto simp: health_score_def)

section \<open>Clean and faulty simulations\<close>

lemma type_values: "sensor_type_value t = sensor_type_value t' \<longleftrightarrow> t = t'"
  by (cases t; cases t') (simp_all add: sensor_type_value_def)

definition sensor_name :: "sensor_type \<Rightarrow> string" where
  "sensor_name t = sensor_type_value t @ ''-001''"

lemma simulate_type_runs:
  assumes "valid_simulation q" and "validate_rates q" and "unit_draws (rng (sq_seed q + int k))"
  shows "\<exists>rs. simulate_type rng clocks q (k, t) = Inr rs \<and> length rs = nat (sq_count q)
    \<and> (\<forall>r\<in>set rs. device r = (sensor_name t, t) \<and> dt_offset (sr_timestamp r) = Some 0
        \<and> (\<exists>p. 0 \<le> p \<and> p < 1 \<and> undiagnosed r (mode_status (choose_mode (sq_warning_rate q) (sq_fault_rate q) p))))"
proof -
  let ?s = "\<lparr>sm_sensor_id = sensor_name t, sm_sensor_type = t, sm_draws = rng (sq_seed q + int k), sm_next = 0\<rparr>"
  have "strip (sensor_name t) \<noteq> []" by (cases t) (simp_all add: sensor_name_def sensor_type_value_def strip_def lstrip_def rstrip_def is_space_def)
  then have make: "make_simulator (sensor_name t) t (rng (sq_seed q + int k)) = Inr ?s" by (simp add: make_simulator_def)
  have batch: "generate_batch (clocks k) (sq_count q) (sq_warning_rate q) (sq_fault_rate q) ?s =
      Inr (generate_readings (clocks k) (sq_warning_rate q) (sq_fault_rate q) (nat (sq_count q)) ?s)"
    using assms(1,2) by (simp add: generate_batch_def validate_rate_def valid_simulation_def validate_rates_def)
  show ?thesis
    using generate_readings_spec [of ?s "clocks k" "sq_warning_rate q" "sq_fault_rate q" "nat (sq_count q)"] assms(3)
    by (auto simp: simulate_type_def sensor_name_def [symmetric] make batch)
qed

lemma simulate_all_runs:
  assumes "valid_simulation q" and "validate_rates q" and "\<And>seed. unit_draws (rng seed)"
  shows "\<exists>readings. simulate_all rng clocks q = Inr readings \<and> length readings = 4 * nat (sq_count q)
    \<and> (\<forall>t. length (filter (\<lambda>r. device r = (sensor_name t, t)) readings) = nat (sq_count q))
    \<and> (\<forall>r\<in>set readings. device r \<in> (\<lambda>t. (sensor_name t, t)) ` set all_sensor_types \<and> dt_offset (sr_timestamp r) = Some 0
        \<and> (\<exists>p. 0 \<le> p \<and> p < 1 \<and> undiagnosed r (mode_status (choose_mode (sq_warning_rate q) (sq_fault_rate q) p))))"
proof -
  define good where "good t rs \<longleftrightarrow> length rs = nat (sq_count q)
    \<and> (\<forall>r\<in>set rs. device r = (sensor_name t, t) \<and> dt_offset (sr_timestamp r) = Some 0
        \<and> (\<exists>p. 0 \<le> p \<and> p < 1 \<and> undiagnosed r (mode_status (choose_mode (sq_warning_rate q) (sq_fault_rate q) p))))" for t rs
  have "\<exists>rs. simulate_type rng clocks q (k, t) = Inr rs \<and> good t rs" for k t
    unfolding good_def by (rule simulate_type_runs [OF assms(1,2)]) (rule assms(3))
  then obtain a b c d where runs: "simulate_type rng clocks q (0, TEMPERATURE) = Inr a" "good TEMPERATURE a"
      "simulate_type rng clocks q (1, VOLTAGE) = Inr b" "good VOLTAGE b"
      "simulate_type rng clocks q (2, CURRENT) = Inr c" "good CURRENT c"
      "simulate_type rng clocks q (3, VIBRATION) = Inr d" "good VIBRATION d" by metis
  have all: "simulate_all rng clocks q = Inr (a @ b @ c @ d)"
    using runs by (simp add: simulate_all_def all_sensor_types_def numeral_2_eq_2 numeral_3_eq_3)
  have "filter (\<lambda>r. device r = (sensor_name t', t')) rs = (if t' = t then rs else [])" if "good t rs" for t t' rs
    using that unfolding good_def by (induction rs) (auto simp: filter_empty_conv filter_id_conv)
  then have own: "length (filter (\<lambda>r. device r = (sensor_name t, t)) (a @ b @ c @ d)) = nat (sq_count q)" for t
    using runs by (cases t) (simp_all add: good_def)
  show ?thesis
    using all own runs by (intro exI [of _ "a @ b @ c @ d"]) (auto simp: good_def all_sensor_types_def)
qed

lemma undiagnosed_status: "undiagnosed r s \<Longrightarrow> diagnosed (fault_detector None) r = s"
  by (auto simp: undiagnosed_def diagnosed_def analysis_def)

lemma analyzed_status:
  assumes "total_detector det"
  shows "diagnosed det (r\<lparr>sr_status := x\<rparr>) = diagnosed det r"
proof -
  obtain th where "map_of det (sr_sensor_type r) = Some th" using assms by (auto simp: total_detector_def)
  then show ?thesis by (simp add: diagnosed_def analysis_def analyze_reading_def split: prod.splits)
qed

lemma analysis_reading:
  "total_detector det \<Longrightarrow> ar_reading (analysis det r) = r\<lparr>sr_status := diagnosed det r\<rparr>"
  by (auto simp: analysis_def diagnosed_def analyze_reading_def total_detector_def split: option.splits prod.splits)

lemma analyzed_total:
  "analyzed rs = Inr (map (\<lambda>r. r\<lparr>sr_status := diagnosed (fault_detector None) r\<rparr>) rs,
     summarize_results (map (analysis (fault_detector None)) rs))"
  by (simp add: analyzed_def analyze_many_total [OF default_total] analysis_reading [OF default_total] comp_def)

lemma diagnosed_count_all: "(\<And>r. r \<in> set rs \<Longrightarrow> diagnosed det r = s) \<Longrightarrow>
    diagnosed_count det s' rs = (if s' = s then length rs else 0)"
  by (auto simp: diagnosed_count_def filter_id_conv filter_empty_conv)

text \<open>A simulation whose readings all have one status: four devices with as many readings each.\<close>

lemma uniform_report:
  assumes readings: "\<And>t. length (filter (\<lambda>r. device r = (sensor_name t, t)) readings) = n"
      "\<forall>r\<in>set readings. device r \<in> (\<lambda>t. (sensor_name t, t)) ` set all_sensor_types \<and> diagnosed det r = s"
    and "0 < n" and det: "total_detector det"
  shows "\<exists>report. run_tests det c readings = Inr report \<and> hr_total_sensors report = 4
    \<and> (\<forall>r\<in>set (hr_results report). ht_total_readings r = n
        \<and> ht_normal_count r = (if s = ST_NORMAL then n else 0) \<and> ht_warning_count r = (if s = ST_WARNING then n else 0)
        \<and> ht_fault_count r = (if s = ST_FAULT then n else 0)
        \<and> ht_health_score r = health_score (if s = ST_NORMAL then n else 0) (if s = ST_WARNING then n else 0) n
        \<and> (ht_outcome r = PASS \<longleftrightarrow> hc_minimum_readings c \<le> int n
            \<and> (if s = ST_FAULT then int n else 0) \<le> hc_maximum_fault_count c
            \<and> double ((if s = ST_WARNING then of_nat n else 0) / of_nat n) \<le> hc_maximum_warning_rate c
            \<and> hc_minimum_health_score c \<le> health_score (if s = ST_NORMAL then n else 0) (if s = ST_WARNING then n else 0) n))"
proof -
  have "length (filter (\<lambda>r. device r = (sensor_name TEMPERATURE, TEMPERATURE)) readings) \<noteq> 0" using assms(3) readings(1) by simp
  then have "readings \<noteq> []" by auto
  from run_tests_runs [OF det this]
  obtain report where report: "run_tests det c readings = Inr report" ..
  note rep = run_tests_total [OF det report] and ev = evaluate_total [OF det]
  have devices: "device ` set readings = (\<lambda>t. (sensor_name t, t)) ` set all_sensor_types"
  proof
    show "(\<lambda>t. (sensor_name t, t)) ` set all_sensor_types \<subseteq> device ` set readings"
    proof
      fix k assume "k \<in> (\<lambda>t. (sensor_name t, t)) ` set all_sensor_types"
      then obtain t where k: "k = (sensor_name t, t)" by blast
      then have "filter (\<lambda>r. device r = k) readings \<noteq> []" using readings(1) [of t] assms(3) by auto
      then show "k \<in> device ` set readings" by (auto simp: filter_empty_conv)
    qed
  qed (use readings(2) in blast)
  have "length (group_readings readings) = card (device ` set readings)"
    using group_readings_spec(1,2) [of readings] by (metis distinct_card length_map)
  also have "\<dots> = 4"
  proof -
    have "inj (\<lambda>t. (sensor_name t, t))" by (rule injI) simp
    then show ?thesis unfolding devices by (subst card_image) (auto simp: all_sensor_types_def inj_on_def)
  qed
  finally have four: "length (group_readings readings) = 4" .
  have group: "length (snd g) = n \<and> (\<forall>r\<in>set (snd g). diagnosed det r = s)" if "g \<in> set (group_readings readings)" for g
  proof -
    have own: "snd g = filter (\<lambda>r. device r = fst g) readings"
      using group_readings_spec(3) [of "fst g" "snd g" readings] that by simp
    have "fst g \<in> device ` set readings" using group_readings_spec(2) [of readings] that by auto
    then obtain t where "fst g = (sensor_name t, t)" unfolding devices by blast
    then show ?thesis using own readings(1) [of t] readings(2) by auto
  qed
  have counts: "diagnosed_count det s' (snd g) = (if s' = s then n else 0)" if "g \<in> set (group_readings readings)" for g s'
    using group [OF that] diagnosed_count_all [of "snd g" det s s'] by simp
  show ?thesis
    using report rep(1,2) four group counts by (intro exI [of _ report]) (auto simp: ev(4-9))
qed

text \<open>The rates that ask for one condition only.\<close>

definition only_condition :: "sensor_status \<Rightarrow> simulation_request \<Rightarrow> bool" where
  "only_condition s q \<longleftrightarrow> sq_warning_rate q = (if s = ST_WARNING then 1 else 0) \<and> sq_fault_rate q = (if s = ST_FAULT then 1 else 0)"

lemma only_condition_mode:
  assumes "only_condition s q"
  shows "validate_rates q" and "0 \<le> p \<Longrightarrow> p < 1 \<Longrightarrow> mode_status (choose_mode (sq_warning_rate q) (sq_fault_rate q) p) = s"
  using assms by (cases s; simp add: only_condition_def validate_rates_def choose_mode_def mode_status_def fadd_def)+

lemma default_outcome:
  assumes "5 \<le> int n" and "n \<le> 2 ^ 52"
  shows "(hc_minimum_readings default_criteria \<le> int n
      \<and> (if s = ST_FAULT then int n else 0) \<le> hc_maximum_fault_count default_criteria
      \<and> double ((if s = ST_WARNING then of_nat n else 0) / of_nat n) \<le> hc_maximum_warning_rate default_criteria
      \<and> hc_minimum_health_score default_criteria \<le>
          health_score (if s = ST_NORMAL then n else 0) (if s = ST_WARNING then n else 0) n) \<longleftrightarrow> s = ST_NORMAL"
proof -
  have "0 \<le> decimal_literal 2 20" by (simp add: decimal_literal_def double_nonneg)
  moreover have "0 < n" using assms(1) by linarith
  note health_score_all [OF this assms(2)]
  ultimately show ?thesis using assms(1) by (cases s) (simp_all add: default_criteria_def)
qed

lemma one_condition_stored:
  assumes "\<And>seed. unit_draws (rng seed)" and "valid_simulation q" and "only_condition s q"
  shows "\<exists>stored summary. generate_analyzed_readings rng clocks q = Reply 200 (stored, summary)
    \<and> (\<forall>t. length (filter (\<lambda>r. device r = (sensor_name t, t)) stored) = nat (sq_count q))
    \<and> (\<forall>r\<in>set stored. device r \<in> (\<lambda>t. (sensor_name t, t)) ` set all_sensor_types
         \<and> diagnosed (fault_detector None) r = s)"
proof -
  let ?det = "fault_detector None" and ?n = "nat (sq_count q)"
  obtain raw where raw: "simulate_all rng clocks q = Inr raw"
      "\<And>t. length (filter (\<lambda>r. device r = (sensor_name t, t)) raw) = ?n"
      "\<And>r. r \<in> set raw \<Longrightarrow> device r \<in> (\<lambda>t. (sensor_name t, t)) ` set all_sensor_types
        \<and> (\<exists>p. 0 \<le> p \<and> p < 1 \<and> undiagnosed r (mode_status (choose_mode (sq_warning_rate q) (sq_fault_rate q) p)))"
    using simulate_all_runs [of q rng clocks, OF assms(2) only_condition_mode(1) [OF assms(3)] assms(1)]
    by (elim exE conjE) (rule that; blast)
  let ?stored = "map (\<lambda>r. r\<lparr>sr_status := diagnosed ?det r\<rparr>) raw"
  have dev: "device (r\<lparr>sr_status := x\<rparr>) = device r" for r x by (simp add: device_def)
  have own: "length (filter (\<lambda>r. device r = (sensor_name t, t)) ?stored) = ?n" for t
    using raw(2) by (simp add: filter_map comp_def dev)
  have status: "device r \<in> (\<lambda>t. (sensor_name t, t)) ` set all_sensor_types \<and> diagnosed ?det r = s" if mem: "r \<in> set ?stored" for r
  proof -
    obtain r' where r: "r = r'\<lparr>sr_status := diagnosed ?det r'\<rparr>" "r' \<in> set raw" using mem by auto
    then have "diagnosed ?det r' = s"
      using raw(3) [of r'] undiagnosed_status only_condition_mode(2) [OF assms(3)] by metis
    then show ?thesis using raw(3) r by (simp add: dev analyzed_status [OF default_total])
  qed
  then have all_status: "\<forall>r\<in>set ?stored. device r \<in> (\<lambda>t. (sensor_name t, t)) ` set all_sensor_types \<and> diagnosed ?det r = s"
    by blast
  have "generate_analyzed_readings rng clocks q = Reply 200 (?stored, summarize_results (map (analysis ?det) raw))"
    using only_condition_mode(1) [OF assms(3)] by (simp add: generate_analyzed_readings_def raw(1) analyzed_total)
  with own all_status show ?thesis by blast
qed

text \<open>the hardware test of a simulation with one condition. With five readings or more per sensor a simulation that
  asks for normal readings only passes with a score of 100 for each of the four sensors; one that asks for warnings only,
  or for faults only, fails with all readings counted as such and scores of 50 or 0. This holds for every seed.\<close>

theorem hardware_test_of_one_condition:
  assumes "\<And>seed. unit_draws (rng seed)" and "valid_simulation q" and "only_condition s q" and "5 \<le> sq_count q"
  shows "\<exists>report. run_hardware_test rng clocks q = Reply 200 report \<and> hr_total_sensors report = 4
    \<and> (hr_overall_outcome report = PASS \<longleftrightarrow> s = ST_NORMAL)
    \<and> (\<forall>r\<in>set (hr_results report). int (ht_total_readings r) = sq_count q
        \<and> int (ht_normal_count r) = (if s = ST_NORMAL then sq_count q else 0)
        \<and> int (ht_warning_count r) = (if s = ST_WARNING then sq_count q else 0)
        \<and> int (ht_fault_count r) = (if s = ST_FAULT then sq_count q else 0)
        \<and> ht_health_score r = (case s of ST_NORMAL \<Rightarrow> 100 | ST_WARNING \<Rightarrow> 50 | ST_FAULT \<Rightarrow> 0))"
proof -
  let ?det = "fault_detector None" and ?n = "nat (sq_count q)"
  have bounds: "0 < ?n" "?n \<le> 2 ^ 52" "5 \<le> int ?n" "int ?n = sq_count q"
    using assms(2,4) by (auto simp: valid_simulation_def)
  obtain stored summary where stored: "generate_analyzed_readings rng clocks q = Reply 200 (stored, summary)"
      "\<And>t. length (filter (\<lambda>r. device r = (sensor_name t, t)) stored) = ?n"
      "\<forall>r\<in>set stored. device r \<in> (\<lambda>t. (sensor_name t, t)) ` set all_sensor_types \<and> diagnosed ?det r = s"
    using one_condition_stored [of rng q s clocks, OF assms(1-3)] by (elim exE conjE) (rule that; blast)
  obtain report where report: "run_tests ?det default_criteria stored = Inr report" "hr_total_sensors report = 4"
    and results: "\<forall>r\<in>set (hr_results report). ht_total_readings r = ?n
        \<and> ht_normal_count r = (if s = ST_NORMAL then ?n else 0) \<and> ht_warning_count r = (if s = ST_WARNING then ?n else 0)
        \<and> ht_fault_count r = (if s = ST_FAULT then ?n else 0)
        \<and> ht_health_score r = health_score (if s = ST_NORMAL then ?n else 0) (if s = ST_WARNING then ?n else 0) ?n
        \<and> (ht_outcome r = PASS \<longleftrightarrow> hc_minimum_readings default_criteria \<le> int ?n
            \<and> (if s = ST_FAULT then int ?n else 0) \<le> hc_maximum_fault_count default_criteria
            \<and> double ((if s = ST_WARNING then of_nat ?n else 0) / of_nat ?n) \<le> hc_maximum_warning_rate default_criteria
            \<and> hc_minimum_health_score default_criteria \<le>
                health_score (if s = ST_NORMAL then ?n else 0) (if s = ST_WARNING then ?n else 0) ?n)"
    using uniform_report [OF stored(2,3) bounds(1) default_total, where c = default_criteria]
    by (elim exE conjE) (rule that)
  note scores = health_score_all [OF bounds(1,2)]
  have outcome: "ht_outcome r = PASS \<longleftrightarrow> s = ST_NORMAL" if "r \<in> set (hr_results report)" for r
    using bspec [OF results that] unfolding default_outcome [OF bounds(3,2)] by (elim conjE)
  have "hr_results report \<noteq> []" using report(2) run_tests_total(2) [OF default_total report(1)] by auto
  then have "list_all (\<lambda>r. ht_outcome r = PASS) (hr_results report) \<longleftrightarrow> s = ST_NORMAL"
    using outcome unfolding list_all_iff by (metis last_in_set)
  then have "hr_overall_outcome report = PASS \<longleftrightarrow> s = ST_NORMAL"
    using all_passed [of "\<lambda>r. ht_outcome r = PASS" "hr_results report" "hr_failed_sensors report"]
      run_tests_total(2-5) [OF default_total report(1)] by simp
  moreover have "run_hardware_test rng clocks q = Reply 200 report"
    using assms(2) stored(1) report(1) by (simp add: run_hardware_test_def)
  ultimately show ?thesis using report(2) results scores bounds(4) by (cases s) auto
qed

end
