(* ===== verification/Sensor_Stored.thy ===== *)
theory Sensor_Stored
  imports Sensor_Claims "HOL-Library.Multiset"
begin

text \<open>
  The database of the sensor logging platform over time: the API and the command line fill it, the API and the
  dashboard read it. The invariant says what every row holds; reading back and the agreement of the two summaries
  follow from it.
\<close>

section \<open>The database the service fills\<close>

inductive sensor_served :: "generator \<Rightarrow> reading_row list \<Rightarrow> bool" for rng where
  served_empty: "sensor_served rng []"
| served_api: "sensor_served rng rows \<Longrightarrow> create_simulation rng clocks fault rows q = (reply, rows') \<Longrightarrow> sensor_served rng rows'"
| served_cli: "sensor_served rng rows \<Longrightarrow> sensor_cli rng clocks fault q (Some rows) = (result, Some rows') \<Longrightarrow>
    sensor_served rng rows'"

definition faithful_row :: "reading_row \<Rightarrow> bool" where
  "faithful_row row \<longleftrightarrow> (\<exists>r. row = from_domain (rr_id row) r \<and> dt_offset (sr_timestamp r) = Some 0
     \<and> diagnosed (fault_detector None) r = sr_status r)"

definition stored_ok :: "reading_row list \<Rightarrow> bool" where
  "stored_ok rows \<longleftrightarrow> distinct (map rr_id rows) \<and> list_all faithful_row rows"

lemma row_id_from_domain [simp]: "rr_id (from_domain i r) = i"
  by (simp add: from_domain_def)

lemma next_row_id_greater: "row \<in> set rows \<Longrightarrow> rr_id row < next_row_id rows"
proof -
  have "i \<in> set ids \<Longrightarrow> i \<le> foldr max ids 0" for i :: int and ids
    by (induction ids) auto
  then show "row \<in> set rows \<Longrightarrow> rr_id row < next_row_id rows" by (simp add: next_row_id_def)
qed

lemma new_row_ids: "map rr_id (new_rows rows rs) = map (\<lambda>k. next_row_id rows + int k) [0..<length rs]"
  by (rule nth_equalityI) (simp_all add: new_rows_def nth_enumerate_eq)

lemma set_new_rows: "row \<in> set (new_rows rows rs) \<Longrightarrow> \<exists>r\<in>set rs. row = from_domain (rr_id row) r"
  by (auto simp: new_rows_def in_set_enumerate_eq)

lemma stored_ok_append:
  assumes "stored_ok rows"
    and "\<And>r. r \<in> set rs \<Longrightarrow> dt_offset (sr_timestamp r) = Some 0 \<and> diagnosed (fault_detector None) r = sr_status r"
  shows "stored_ok (rows @ new_rows rows rs)"
proof -
  have "rr_id row < i" if "row \<in> set rows" "i \<in> set (map rr_id (new_rows rows rs))" for row i
    using next_row_id_greater [OF that(1)] that(2) by (auto simp: new_row_ids)
  then have "set (map rr_id rows) \<inter> set (map rr_id (new_rows rows rs)) = {}" by fastforce
  moreover have "distinct (map rr_id (new_rows rows rs))"
    unfolding new_row_ids distinct_map by (simp add: inj_on_def)
  moreover have "list_all faithful_row (new_rows rows rs)"
    using assms(2) set_new_rows unfolding list_all_iff faithful_row_def by blast
  ultimately show ?thesis using assms(1) by (simp add: stored_ok_def)
qed

text \<open>What reaches the table carries the time of the UTC clock and the diagnosis of the detector.\<close>

lemma generate_readings_utc: "r \<in> set (fst (generate_readings clock w f n s)) \<Longrightarrow> dt_offset (sr_timestamp r) = Some 0"
proof (induction n arbitrary: s)
  case (Suc n)
  then show ?case
    by (auto simp: generate_reading_def Let_def utc_def split: prod.splits) (metis fst_conv)
qed simp

lemma collect_members: "collect xs = Inr ys \<Longrightarrow> y \<in> set ys \<Longrightarrow> Inr y \<in> set xs"
  by (induction xs arbitrary: ys) (auto simp: result_simps)

lemma simulate_all_utc:
  assumes "simulate_all rng clocks q = Inr rs" and "r \<in> set rs"
  shows "dt_offset (sr_timestamp r) = Some 0"
proof -
  obtain batches where b: "collect (map (simulate_type rng clocks q) (enumerate 0 all_sensor_types)) = Inr batches"
      "rs = concat batches"
    using assms(1) by (auto simp: simulate_all_def result_simps)
  then obtain batch where "batch \<in> set batches" "r \<in> set batch" using assms(2) by auto
  with collect_members [OF b(1)] obtain x where "simulate_type rng clocks q x = Inr batch"
    unfolding set_map image_iff by metis
  then show ?thesis
    using \<open>r \<in> set batch\<close> generate_readings_utc
    by (cases x) (auto simp: simulate_type_def generate_batch_def result_simps)
qed

lemma analyzed_simulation:
  assumes "rbind (simulate_all rng clocks q) analyzed = Inr (readings, summary)" and "r \<in> set readings"
  shows "dt_offset (sr_timestamp r) = Some 0 \<and> diagnosed (fault_detector None) r = sr_status r"
proof -
  obtain raw where raw: "simulate_all rng clocks q = Inr raw" using assms(1) by (auto simp: result_simps)
  then obtain r' where r: "r = r'\<lparr>sr_status := diagnosed (fault_detector None) r'\<rparr>" "r' \<in> set raw"
    using assms by (auto simp: analyzed_total)
  then show ?thesis using simulate_all_utc [OF raw r(2)] analyzed_status [OF default_total] by simp
qed

lemma saved:
  "save_many fault rows rs = (res, rows') \<Longrightarrow> rows' = rows \<or> rows' = rows @ new_rows rows rs"
  by (auto simp: save_many_def split: if_splits option.splits)

lemma create_simulation_rows:
  assumes "create_simulation rng clocks fault rows q = (reply, rows')"
  shows "rows' = rows \<or> (\<exists>readings summary. rbind (simulate_all rng clocks q) analyzed = Inr (readings, summary)
    \<and> rows' = rows @ new_rows rows readings)"
  using assms saved [of fault rows]
  by (auto simp: create_simulation_def generate_analyzed_readings_def server_error_def
      split: if_splits endpoint_result.splits prod.splits sum.splits)

lemma sensor_cli_rows:
  assumes "sensor_cli rng clocks fault q (Some rows) = (reply, Some rows')"
  shows "rows' = rows \<or> (\<exists>readings summary. rbind (simulate_all rng clocks q) analyzed = Inr (readings, summary)
    \<and> rows' = rows @ new_rows rows readings)"
  using assms saved [of fault rows] by (auto simp: sensor_cli_def split: if_splits prod.splits sum.splits)

lemma served_stored: "sensor_served rng rows \<Longrightarrow> stored_ok rows"
proof (induction rule: sensor_served.induct)
  case (served_api rows clocks fault q reply rows')
  then show ?case using create_simulation_rows [OF served_api(2)] stored_ok_append analyzed_simulation by metis
next
  case (served_cli rows clocks fault q result rows')
  then show ?case using sensor_cli_rows [OF served_cli(2)] stored_ok_append analyzed_simulation by metis
qed (simp add: stored_ok_def)

section \<open>Reading back\<close>

lemma to_domain_from_domain: "dt_offset (sr_timestamp r) = Some 0 \<Longrightarrow> to_domain (from_domain i r) = Inr r"
  by (cases "sr_sensor_type r"; cases "sr_status r")
    (simp_all add: to_domain_def from_domain_def sensor_type_of_def sensor_status_of_def all_sensor_types_def
      sensor_type_value_def sensor_status_value_def utc_def)

definition reading_of :: "reading_row \<Rightarrow> sensor_reading" where
  "reading_of row = (case to_domain row of Inr r \<Rightarrow> r | Inl _ \<Rightarrow> undefined)"

lemma faithful_reading: "faithful_row row \<Longrightarrow> to_domain row = Inr (reading_of row)
    \<and> dt_fields (sr_timestamp (reading_of row)) = rr_timestamp row \<and> dt_offset (sr_timestamp (reading_of row)) = Some 0
    \<and> diagnosed (fault_detector None) (reading_of row) = sr_status (reading_of row)"
proof -
  assume "faithful_row row"
  then obtain r where r: "row = from_domain (rr_id row) r" "dt_offset (sr_timestamp r) = Some 0"
    "diagnosed (fault_detector None) r = sr_status r" by (auto simp: faithful_row_def)
  have "to_domain row = Inr r" using to_domain_from_domain [OF r(2)] r(1) by metis
  moreover have "rr_timestamp row = dt_fields (sr_timestamp r)" using r(1) by (metis from_domain_def reading_row.select_convs(6))
  ultimately show ?thesis using r(2,3) by (simp add: reading_of_def)
qed

abbreviation row_order :: "reading_row \<Rightarrow> int \<times> int" where
  "row_order row \<equiv> (rr_timestamp row, rr_id row)"

lemma list_all_stored:
  assumes "stored_ok rows"
  shows "list_all_readings rows None = Inr (map reading_of (sort_key row_order rows))"
    and "0 < l \<Longrightarrow> list_all_readings rows (Some l) = Inr (take (nat l) (map reading_of (sort_key row_order rows)))"
proof -
  have each: "to_domain row = Inr (reading_of row)" if "row \<in> set rows" for row
    using assms that faithful_reading by (auto simp: stored_ok_def list_all_iff)
  show "list_all_readings rows None = Inr (map reading_of (sort_key row_order rows))"
    using each collect_map_simp [of "sort_key row_order rows" to_domain reading_of] by (simp add: list_all_readings_def)
  show "list_all_readings rows (Some l) = Inr (take (nat l) (map reading_of (sort_key row_order rows)))" if "0 < l"
  proof -
    have "collect (map to_domain (take (nat l) (sort_key row_order rows))) =
        Inr (map reading_of (take (nat l) (sort_key row_order rows)))"
      by (rule collect_map_simp) (metis each in_set_takeD set_sort)
    then show ?thesis using that by (simp add: list_all_readings_def take_map)
  qed
qed

lemma sorted_readings:
  assumes "stored_ok rows"
  shows "sorted (map (\<lambda>r. dt_fields (sr_timestamp r)) (map reading_of (sort_key row_order rows)))"
proof -
  have "sorted_wrt (\<lambda>a b. row_order a \<le> row_order b) (sort_key row_order rows)"
    using sorted_sort_key [of row_order rows] unfolding sorted_map .
  then have "sorted (map rr_timestamp (sort_key row_order rows))"
    unfolding sorted_map by (rule sorted_wrt_mono_rel [rotated]) (auto simp: less_eq_prod_def)
  moreover have "map rr_timestamp (sort_key row_order rows) =
      map (\<lambda>r. dt_fields (sr_timestamp r)) (map reading_of (sort_key row_order rows))"
    using assms faithful_reading by (auto simp: stored_ok_def list_all_iff)
  ultimately show ?thesis by simp
qed

lemma stored_new_rows:
  assumes "\<And>r. r \<in> set rs \<Longrightarrow> dt_offset (sr_timestamp r) = Some 0"
  shows "map reading_of (new_rows rows rs) = rs"
  using assms by (intro nth_equalityI) (simp_all add: new_rows_def nth_enumerate_eq reading_of_def to_domain_from_domain)

lemma created:
  assumes "create_simulation rng clocks fault rows q = (Reply code (n, summary, readings), rows')"
  shows "rbind (simulate_all rng clocks q) analyzed = Inr (readings, summary)"
    and "rows' = rows @ new_rows rows readings" and "code = 201" and "n = length readings"
  using assms by (auto simp: create_simulation_def generate_analyzed_readings_def server_error_def unprocessable_def save_many_def
      new_rows_def
      split: if_splits endpoint_result.splits prod.splits sum.splits option.splits)

text \<open>C29: what a simulation stores is what is read. For every database the service has filled, a simulation that
  answers 201 is read back afterwards: the list of all readings is the old list together with exactly the readings of
  the answer, unchanged in value, unit, status and time, in the order of their timestamps; a limit gives the first ones of
  that list; and the identifiers of all rows differ.\<close>

theorem simulation_is_read_back:
  assumes "sensor_served rng rows"
    and "create_simulation rng clocks fault rows q = (Reply code (n, summary, readings), rows')"
  shows "code = 201 \<and> n = length readings \<and> distinct (map rr_id rows')
    \<and> (\<exists>old new. list_all_readings rows None = Inr old \<and> list_all_readings rows' None = Inr new
        \<and> mset new = mset old + mset readings
        \<and> sorted (map (\<lambda>r. dt_fields (sr_timestamp r)) new)
        \<and> (\<forall>limit. 1 \<le> limit \<and> limit \<le> 1000 \<longrightarrow> list_readings rows' limit = Reply 200 (take (nat limit) new)))"
proof -
  note made = created [OF assms(2)]
  have ok: "stored_ok rows" "stored_ok rows'"
    using served_stored assms served_api by metis+
  have "map reading_of (new_rows rows readings) = readings"
    using analyzed_simulation [OF made(1)] by (intro stored_new_rows) blast
  then have "mset (map reading_of rows') = mset (map reading_of rows) + mset readings"
    unfolding made(2) map_append mset_append by simp
  then have "mset (map reading_of (sort_key row_order rows')) = mset (map reading_of (sort_key row_order rows)) + mset readings"
    by simp
  then show ?thesis
    using list_all_stored [OF ok(1)] list_all_stored [OF ok(2)] sorted_readings [OF ok(2)] made(3,4) ok(2)
    by (auto simp: stored_ok_def list_readings_def)
qed

section \<open>Two summaries\<close>

lemma frame_count:
  "count_value (sensor_status_value s) (readings_to_dataframe rs) = length (filter (\<lambda>r. sr_status r = s) rs)"
proof -
  have "sensor_status_value a = sensor_status_value s \<longleftrightarrow> a = s" for a
    by (cases a; cases s) (simp_all add: sensor_status_value_def)
  then show ?thesis by (simp add: count_value_def readings_to_dataframe_def filter_map comp_def)
qed

lemma dashboard_metrics:
  "calculate_dashboard_metrics (readings_to_dataframe rs) =
    \<lparr>hs_total_readings = length rs, hs_normal_count = count_value ''normal'' (readings_to_dataframe rs),
     hs_warning_count = count_value ''warning'' (readings_to_dataframe rs),
     hs_fault_count = count_value ''fault'' (readings_to_dataframe rs),
     hs_health_score = health_score (count_value ''normal'' (readings_to_dataframe rs))
       (count_value ''warning'' (readings_to_dataframe rs)) (length rs)\<rparr>"
  by (cases rs) (simp_all add: calculate_dashboard_metrics_def readings_to_dataframe_def count_value_def health_score_def Let_def)

lemma all_selected: "selected_rows (sensor_options frame) (status_options frame) frame = frame"
  by (auto simp: selected_rows_def sensor_options_def status_options_def filter_id_conv)

text \<open>C30: the dashboard and the API agree. The API summarises the stored readings by analysing them again; the dashboard
  counts the stored states in its own data frame and computes the score with code of its own. For every database the
  service has filled the two give the same five numbers, and the page shows them, with every reading, until a filter is
  changed.\<close>

theorem dashboard_agrees_with_summary:
  assumes "sensor_served rng rows"
  shows "\<exists>readings. load_readings (Some rows) = Inr readings
    \<and> get_summary rows = Reply 200 (calculate_dashboard_metrics (readings_to_dataframe readings))
    \<and> dashboard_main (Some rows) sensor_options status_options = Inr (if rows = [] then NoSensorData
         else DashboardPage (calculate_dashboard_metrics (readings_to_dataframe readings)) (readings_to_dataframe readings))"
proof -
  let ?det = "fault_detector None"
  have ok: "stored_ok rows" using served_stored [OF assms] .
  let ?rs = "map reading_of (sort_key row_order rows)"
  have "diagnosed ?det r = sr_status r" if "r \<in> set ?rs" for r
    using that ok faithful_reading by (auto simp: stored_ok_def list_all_iff)
  then have counts: "diagnosed_count ?det s ?rs = count_value (sensor_status_value s) (readings_to_dataframe ?rs)" for s
    unfolding frame_count diagnosed_count_def by (intro arg_cong [where f = length] filter_cong) auto
  have "summarize_results (map (analysis ?det) ?rs) = calculate_dashboard_metrics (readings_to_dataframe ?rs)"
    using counts [of ST_NORMAL] counts [of ST_WARNING] counts [of ST_FAULT]
    unfolding summarize_results_def count_status_analysis Let_def dashboard_metrics by (simp add: sensor_status_value_def)
  moreover have empty: "readings_to_dataframe ?rs = [] \<longleftrightarrow> rows = []"
    by (simp add: readings_to_dataframe_def) (metis length_0_conv length_sort)
  ultimately show ?thesis
    using list_all_stored(1) [OF ok] empty
    by (intro exI [of _ ?rs]) (simp add: load_readings_def get_summary_def analyzed_total dashboard_main_def all_selected Let_def)
qed

section \<open>A run\<close>

definition demo_simulation :: simulation_request where
  "demo_simulation = \<lparr>sq_count = 5, sq_warning_rate = 0, sq_fault_rate = 1, sq_seed = 7\<rparr>"

definition demo_generator :: generator where
  "demo_generator seed k = 1 / 2"

lemma demo_draws: "unit_draws (demo_generator seed)"
  by (simp add: unit_draws_def demo_generator_def)

lemma simulation_valid: "valid_simulation demo_simulation" "only_condition ST_FAULT demo_simulation" "5 \<le> sq_count demo_simulation"
  by (simp_all add: demo_simulation_def valid_simulation_def only_condition_def)

lemma simulation_created:
  "\<exists>summary readings rows'. create_simulation demo_generator (\<lambda>_ _. 0) None [] demo_simulation = (Reply 201 (20, summary, readings), rows')"
proof -
  obtain readings where "simulate_all demo_generator (\<lambda>_ _. 0) demo_simulation = Inr readings" "length readings = 20"
    using simulate_all_runs [of demo_simulation demo_generator "\<lambda>_ _. 0", OF simulation_valid(1) only_condition_mode(1) [OF simulation_valid(2)] demo_draws]
    by (auto simp: demo_simulation_def)
  then show ?thesis
    using simulation_valid(1) only_condition_mode(1) [OF simulation_valid(2)]
    by (simp add: create_simulation_def generate_analyzed_readings_def analyzed_total save_many_def) auto
qed

theorem simulated_condition_is_diagnosed_witness:
  "\<exists>res. analyze_reading (fault_detector None) (fst (generate_reading (\<lambda>_. 0) MODE_WARNING
      \<lparr>sm_sensor_id = ''voltage-001'', sm_sensor_type = VOLTAGE, sm_draws = demo_generator 3, sm_next = 1\<rparr>)) = Inr res
    \<and> sr_status (ar_reading res) = ST_WARNING \<and> sr_value (ar_reading res) \<le> decimal_literal 1 134"
  using simulated_condition_is_diagnosed [where clock = "\<lambda>_. 0" and m = MODE_WARNING
      and s = "\<lparr>sm_sensor_id = ''voltage-001'', sm_sensor_type = VOLTAGE, sm_draws = demo_generator 3, sm_next = 1\<rparr>"] demo_draws
  by (auto simp: mode_status_def MODE_CONFIGS_def WARNING_CONFIGS_def config_def)

theorem hardware_test_of_one_condition_witness:
  "\<exists>report. run_hardware_test demo_generator (\<lambda>_ _. 0) demo_simulation = Reply 200 report \<and> hr_overall_outcome report = FAIL"
  using hardware_test_of_one_condition [of demo_generator demo_simulation ST_FAULT "\<lambda>_ _. 0", OF demo_draws simulation_valid]
  by (elim exE conjE) (metis sensor_status.distinct(3) test_outcome.exhaust)

theorem health_score_is_percentage_witness: "0 \<le> health_score 3 4 9 \<and> health_score 3 4 9 \<le> 100"
  using health_score_is_percentage [of 3 4 9] by simp

definition demo_reading :: "sensor_type \<Rightarrow> rat \<Rightarrow> sensor_reading" where
  "demo_reading t v = \<lparr>sr_sensor_id = sensor_name t, sr_sensor_type = t, sr_value = v, sr_unit = ''V'', sr_timestamp = utc 0, sr_status = ST_NORMAL\<rparr>"

theorem hardware_report_accounts_witness:
  "\<exists>report. run_tests (fault_detector None) default_criteria [demo_reading VOLTAGE 12, demo_reading CURRENT 99, demo_reading VOLTAGE 13] = Inr report
    \<and> sum_list (map ht_total_readings (hr_results report)) = 3"
proof -
  obtain report where "run_tests (fault_detector None) default_criteria
      [demo_reading VOLTAGE 12, demo_reading CURRENT 99, demo_reading VOLTAGE 13] = Inr report"
    using run_tests_runs [OF default_total, of "[demo_reading VOLTAGE 12, demo_reading CURRENT 99, demo_reading VOLTAGE 13]" default_criteria] by auto
  then show ?thesis using hardware_report_accounts [OF default_total] by fastforce
qed

theorem simulation_is_read_back_witness:
  "\<exists>summary readings rows' new. create_simulation demo_generator (\<lambda>_ _. 0) None [] demo_simulation = (Reply 201 (20, summary, readings), rows')
    \<and> list_all_readings rows' None = Inr new \<and> mset new = mset readings"
proof -
  obtain summary readings rows' where run: "create_simulation demo_generator (\<lambda>_ _. 0) None [] demo_simulation =
      (Reply 201 (20, summary, readings), rows')" using simulation_created by blast
  have "list_all_readings [] None = Inr []" by (simp add: list_all_readings_def)
  then show ?thesis using simulation_is_read_back [OF served_empty run] run by auto
qed

theorem dashboard_agrees_with_summary_witness:
  "\<exists>rows readings. 20 \<le> length rows \<and> load_readings (Some rows) = Inr readings
    \<and> get_summary rows = Reply 200 (calculate_dashboard_metrics (readings_to_dataframe readings))"
proof -
  obtain summary readings rows' where run: "create_simulation demo_generator (\<lambda>_ _. 0) None [] demo_simulation =
      (Reply 201 (20, summary, readings), rows')" using simulation_created by blast
  have "length rows' = 20" using created(2,4) [OF run] by (simp add: new_rows_def)
  then show ?thesis using dashboard_agrees_with_summary [OF served_api [OF served_empty run]] by (intro exI [of _ rows']) auto
qed

end
