(* ===== verification/Gateway.thy ===== *)
theory Gateway
  imports Http_Types
begin

text \<open>
  The API Gateway of the warehouse platform (services/api-gateway/app: services/proxy.py, api/routes/gateway.py,
  main.py) and the request logging that all four services share (core/observability.py). The HTTP client is a function
  from a call to its outcome; what Starlette answers when no route of the code matches is a function too.
\<close>

section \<open>Requests and headers\<close>

type_synonym header_list = "(string \<times> string) list"

datatype body_content = BodyBytes string | BodyJson json

record gateway_request =
  gr_method :: string
  gr_path :: string \<comment> \<open>percent-decoded, as ASGI gives it\<close>
  gr_query :: "(string \<times> string) list"
  gr_headers :: header_list
  gr_body :: string
  gr_client :: "string option"

record gateway_response =
  gs_status :: nat
  gs_headers :: header_list
  gs_content :: body_content

text \<open>An application answers, or an exception that is no \<open>HTTPException\<close> leaves it.\<close>

datatype app_result = AppRaises string | AppResponds gateway_response

definition json_reply :: "nat \<Rightarrow> json \<Rightarrow> gateway_response" where
  "json_reply code x = \<lparr>gs_status = code, gs_headers = [(''content-type'', ''application/json'')], gs_content = BodyJson x\<rparr>"

definition http_exception :: "nat \<Rightarrow> json \<Rightarrow> app_result" where
  "http_exception code detail = AppResponds (json_reply code (JObj [(''detail'', detail)]))"

text \<open>Starlette's \<open>Headers\<close>: \<open>get\<close> finds the first value; assignment keeps one entry of the name.\<close>

definition header_get :: "string \<Rightarrow> header_list \<Rightarrow> string option" where
  "header_get k hs = map_of hs k"

fun header_set :: "string \<Rightarrow> string \<Rightarrow> header_list \<Rightarrow> header_list" where
  "header_set k v [] = [(k, v)]"
| "header_set k v ((k', v') # hs) =
     (if k' = k then (k, v) # filter (\<lambda>h. fst h \<noteq> k) hs else (k', v') # header_set k v hs)"

text \<open>A dict comprehension: a repeated key keeps its first place and its last value.\<close>

fun dict_put :: "'k \<Rightarrow> 'v \<Rightarrow> ('k \<times> 'v) list \<Rightarrow> ('k \<times> 'v) list" where
  "dict_put k v [] = [(k, v)]"
| "dict_put k v ((k', v') # d) = (if k' = k then (k, v) # d else (k', v') # dict_put k v d)"

definition dict_of :: "('k \<times> 'v) list \<Rightarrow> ('k \<times> 'v) list" where
  "dict_of xs = foldl (\<lambda>d kv. dict_put (fst kv) (snd kv) d) [] xs"

section \<open>The proxy\<close>

definition HOP_BY_HOP_HEADERS :: "string list" where
  "HOP_BY_HOP_HEADERS = [''connection'', ''content-length'', ''host'', ''keep-alive'', ''proxy-authenticate'',
     ''proxy-authorization'', ''te'', ''trailer'', ''transfer-encoding'', ''upgrade'']"

record downstream_service =
  dn_name :: string
  dn_base_url :: string

definition make_downstream :: "string \<Rightarrow> string \<Rightarrow> downstream_service" where
  "make_downstream name url = \<lparr>dn_name = name, dn_base_url = rstrip (\<lambda>c. c = CHR ''/'') url\<rparr>"

record gateway_settings =
  gw_service_name :: string
  gw_inventory_url :: string
  gw_warehouse_url :: string
  gw_order_url :: string

definition downstream_services :: "gateway_settings \<Rightarrow> (string \<times> downstream_service) list" where
  "downstream_services cfg =
     [(''inventory'', make_downstream ''inventory-service'' (gw_inventory_url cfg)),
      (''warehouse'', make_downstream ''warehouse-service'' (gw_warehouse_url cfg)),
      (''order'', make_downstream ''order-service'' (gw_order_url cfg))]"

text \<open>What \<open>httpx\<close> is asked for, and what comes of it; \<open>InvalidURL\<close> is no \<open>RequestError\<close>.\<close>

record proxy_call =
  pc_method :: string
  pc_url :: string
  pc_params :: "(string \<times> string) list"
  pc_headers :: header_list
  pc_content :: "string option"

text \<open>Where a call goes: the origin, and the path and the query parameters that arrive there, decoded. How
  \<open>httpx\<close> makes them from the text of the URL and the parameters it is given is a function \<open>url\<close> (its
  quoting, its treatment of the delimiters and of a query that the text already has are not in the
  repository), \<open>None\<close> standing for \<open>InvalidURL\<close>; what comes of the call is a function \<open>send\<close>.\<close>

record http_target =
  ht_origin :: string
  ht_path :: string
  ht_query :: "(string \<times> string) list"

datatype client_outcome = ClientTimeout | ClientRequestError | ClientRaises string | ClientAnswers gateway_response

definition httpx_client :: "(string \<Rightarrow> (string \<times> string) list \<Rightarrow> http_target option) \<Rightarrow>
    (http_target \<Rightarrow> string \<Rightarrow> header_list \<Rightarrow> string option \<Rightarrow> client_outcome) \<Rightarrow> proxy_call \<Rightarrow> client_outcome" where
  "httpx_client url send c = (case url (pc_url c) (pc_params c) of
      None \<Rightarrow> ClientRaises ''InvalidURL''
    | Some t \<Rightarrow> send t (pc_method c) (pc_headers c) (pc_content c))"

definition forwarded_headers :: "header_list \<Rightarrow> header_list" where
  "forwarded_headers hs = dict_of (filter (\<lambda>h. lower (fst h) \<notin> set HOP_BY_HOP_HEADERS) hs)"

text \<open>The path is decoded, and goes into the text of the URL as it is.\<close>

definition target_url :: "downstream_service \<Rightarrow> string \<Rightarrow> string" where
  "target_url service downstream_path = dn_base_url service @ ''/'' @ lstrip (\<lambda>c. c = CHR ''/'') downstream_path"

definition make_call :: "downstream_service \<Rightarrow> gateway_request \<Rightarrow> string \<Rightarrow> proxy_call" where
  "make_call service q downstream_path =
     \<lparr>pc_method = gr_method q, pc_url = target_url service downstream_path, pc_params = gr_query q,
      pc_headers = forwarded_headers (gr_headers q), pc_content = (if gr_body q = [] then None else Some (gr_body q))\<rparr>"

text \<open>\<open>downstream_response.headers[name]\<close> joins repeated values.\<close>

definition response_headers :: "header_list \<Rightarrow> header_list" where
  "response_headers hs = map (\<lambda>n. (n, join '', '' (map snd (filter (\<lambda>h. fst h = n) hs))))
     (filter (\<lambda>n. n \<in> fst ` set hs) [''content-type'', ''location'', ''x-request-id''])"

definition outage :: "string \<Rightarrow> downstream_service \<Rightarrow> json" where
  "outage message service = JObj [(''message'', JStr message), (''service'', JStr (dn_name service))]"

definition relay :: "downstream_service \<Rightarrow> client_outcome \<Rightarrow> app_result" where
  "relay service result = (case result of
      ClientTimeout \<Rightarrow> http_exception 504 (outage ''The downstream service timed out'' service)
    | ClientRequestError \<Rightarrow> http_exception 503 (outage ''The downstream service is unavailable'' service)
    | ClientRaises e \<Rightarrow> AppRaises e
    | ClientAnswers r \<Rightarrow> AppResponds \<lparr>gs_status = gs_status r, gs_headers = response_headers (gs_headers r), gs_content = gs_content r\<rparr>)"

definition forward :: "gateway_settings \<Rightarrow> (proxy_call \<Rightarrow> client_outcome) \<Rightarrow> gateway_request \<Rightarrow> string \<Rightarrow> string \<Rightarrow> app_result" where
  "forward cfg client q service_key downstream_path = (case map_of (downstream_services cfg) service_key of
      None \<Rightarrow> AppRaises ''KeyError''
    | Some service \<Rightarrow> relay service (client (make_call service q downstream_path)))"

section \<open>Health of the services\<close>

datatype service_health = HealthStatus bool nat | HealthError string

definition health_is_good :: "service_health \<Rightarrow> bool" where
  "health_is_good h = (case h of HealthStatus good _ \<Rightarrow> good | HealthError _ \<Rightarrow> False)"

definition check_one_service :: "(proxy_call \<Rightarrow> client_outcome) \<Rightarrow> downstream_service \<Rightarrow> string + service_health" where
  "check_one_service client service =
     (case client \<lparr>pc_method = ''GET'', pc_url = dn_base_url service @ ''/health'', pc_params = [], pc_headers = [], pc_content = None\<rparr> of
        ClientTimeout \<Rightarrow> Inr (HealthError ''timeout'')
      | ClientRequestError \<Rightarrow> Inr (HealthError ''unavailable'')
      | ClientRaises e \<Rightarrow> Inl e
      | ClientAnswers r \<Rightarrow> Inr (HealthStatus (gs_status r = 200) (gs_status r)))"

definition check_health :: "gateway_settings \<Rightarrow> (proxy_call \<Rightarrow> client_outcome) \<Rightarrow> string + (string \<times> service_health) list" where
  "check_health cfg client =
     foldr (\<lambda>(k, s) rest. rbind (check_one_service client s) (\<lambda>h. rbind rest (\<lambda>hs. Inr ((dn_name s, h) # hs))))
       (downstream_services cfg) (Inr [])"

definition health_json :: "service_health \<Rightarrow> json" where
  "health_json h = (case h of
      HealthStatus good code \<Rightarrow> JObj [(''status'', JStr (if good then ''healthy'' else ''unhealthy'')), (''status_code'', JInt (int code))]
    | HealthError e \<Rightarrow> JObj [(''status'', JStr ''unhealthy''), (''error'', JStr e)])"

definition downstream_health_check :: "gateway_settings \<Rightarrow> (proxy_call \<Rightarrow> client_outcome) \<Rightarrow> app_result" where
  "downstream_health_check cfg client = (case check_health cfg client of
      Inl e \<Rightarrow> AppRaises e
    | Inr hs \<Rightarrow> (let good = list_all (health_is_good \<circ> snd) hs
        in AppResponds (json_reply (if good then 200 else 503)
             (JObj [(''status'', JStr (if good then ''healthy'' else ''degraded'')),
                    (''services'', JObj (map (\<lambda>(n, h). (n, health_json h)) hs))]))))"

section \<open>Routes\<close>

definition PROXY_METHODS :: "string list" where
  "PROXY_METHODS = [''GET'', ''POST'', ''PUT'', ''PATCH'', ''DELETE'', ''OPTIONS'', ''HEAD'']"

definition build_downstream_path :: "string \<Rightarrow> string \<Rightarrow> string" where
  "build_downstream_path root_path remaining_path =
     (if remaining_path = [] then root_path else root_path @ ''/'' @ remaining_path)"

definition proxy_roots :: "(string \<times> string) list" where
  "proxy_roots = [(''/products'', ''inventory''), (''/stock'', ''inventory''), (''/warehouses'', ''warehouse''), (''/orders'', ''order'')]"

text \<open>A route is a regular expression \<open>^...$\<close>: its dot matches no line feed, and its end may stand before one.\<close>

definition matched_line :: "string \<Rightarrow> string option" where
  "matched_line s = (let t = (if s \<noteq> [] \<and> last s = CHR 10 then butlast s else s) in if CHR 10 \<in> set t then None else Some t)"

definition remaining_path :: "string \<Rightarrow> string \<Rightarrow> string option" where
  "remaining_path root path = (case matched_line path of None \<Rightarrow> None
    | Some p \<Rightarrow> if p = root then Some [] else if take (length root + 1) p = root @ ''/'' then Some (drop (length root + 1) p) else None)"

fun proxy_route :: "(string \<times> string) list \<Rightarrow> string \<Rightarrow> (string \<times> string \<times> string) option" where
  "proxy_route [] path = None"
| "proxy_route ((root, key) # routes) path = (case remaining_path root path of
      Some rest \<Rightarrow> Some (root, key, rest) | None \<Rightarrow> proxy_route routes path)"

definition gateway_app :: "gateway_settings \<Rightarrow> (proxy_call \<Rightarrow> client_outcome) \<Rightarrow> (gateway_request \<Rightarrow> app_result) \<Rightarrow>
    gateway_request \<Rightarrow> app_result" where
  "gateway_app cfg client other q =
     (if gr_method q = ''GET'' \<and> matched_line (gr_path q) = Some ''/health/services'' then downstream_health_check cfg client
      else if gr_method q = ''GET'' \<and> matched_line (gr_path q) = Some ''/''
      then AppResponds (json_reply 200 (JObj [(''service'', JStr (gw_service_name cfg)),
             (''message'', JStr ''Warehouse platform API Gateway is running'')]))
      else if gr_method q = ''GET'' \<and> matched_line (gr_path q) = Some ''/health''
      then AppResponds (json_reply 200 (JObj [(''status'', JStr ''healthy''), (''service'', JStr (gw_service_name cfg))]))
      else if gr_method q \<in> set PROXY_METHODS
      then (case proxy_route proxy_roots (gr_path q) of
          None \<Rightarrow> other q
        | Some (root, key, rest) \<Rightarrow> forward cfg client q key (build_downstream_path root rest))
      else other q)"

section \<open>Request logging\<close>

datatype event_level = LevelDebug | LevelInfo | LevelWarning | LevelError

record request_log =
  rl_level :: event_level
  rl_event :: string
  rl_request_id :: string
  rl_method :: string
  rl_path :: string
  rl_status :: nat
  rl_client :: "string option"

definition request_identifier :: "string \<Rightarrow> gateway_request \<Rightarrow> string" where
  "request_identifier fresh q = (case header_get ''x-request-id'' (gr_headers q) of
      Some v \<Rightarrow> if v = [] then fresh else v | None \<Rightarrow> fresh)"

definition completed_level :: "nat \<Rightarrow> string \<Rightarrow> event_level" where
  "completed_level code path =
     (if 500 \<le> code then LevelError else if 400 \<le> code then LevelWarning
      else if path = ''/health'' then LevelDebug else LevelInfo)"

definition request_logging :: "string \<Rightarrow> (gateway_request \<Rightarrow> app_result) \<Rightarrow> gateway_request \<Rightarrow> app_result \<times> request_log" where
  "request_logging fresh application q =
     (let request_id = request_identifier fresh q;
          q' = q\<lparr>gr_headers := header_set ''x-request-id'' request_id (gr_headers q)\<rparr>
      in case application q' of
          AppRaises e \<Rightarrow> (AppRaises e,
            \<lparr>rl_level = LevelError, rl_event = ''http_request_failed'', rl_request_id = request_id, rl_method = gr_method q,
             rl_path = gr_path q, rl_status = 500, rl_client = gr_client q\<rparr>)
        | AppResponds r \<Rightarrow> (AppResponds (r\<lparr>gs_headers := header_set ''x-request-id'' request_id (gs_headers r)\<rparr>),
            \<lparr>rl_level = completed_level (gs_status r) (gr_path q), rl_event = ''http_request_completed'', rl_request_id = request_id,
             rl_method = gr_method q, rl_path = gr_path q, rl_status = gs_status r, rl_client = gr_client q\<rparr>))"

text \<open>\<open>JsonFormatter.format\<close>: the fields that are set, in their order.\<close>

definition level_name :: "event_level \<Rightarrow> string" where
  "level_name l = (case l of LevelDebug \<Rightarrow> ''DEBUG'' | LevelInfo \<Rightarrow> ''INFO'' | LevelWarning \<Rightarrow> ''WARNING'' | LevelError \<Rightarrow> ''ERROR'')"

definition log_line :: "string \<Rightarrow> string \<Rightarrow> string \<Rightarrow> string option \<Rightarrow> request_log \<Rightarrow> json" where
  "log_line service timestamp duration_ms trace l =
     JObj ([(''timestamp'', JStr timestamp), (''level'', JStr (level_name (rl_level l))), (''service'', JStr service),
            (''logger'', JStr ''warehouse_platform.requests''), (''event'', JStr (rl_event l)),
            (''request_id'', JStr (rl_request_id l)), (''http_method'', JStr (rl_method l)), (''http_path'', JStr (rl_path l)),
            (''status_code'', JInt (int (rl_status l))), (''duration_ms'', JFloat duration_ms)]
       @ (case rl_client l of None \<Rightarrow> [] | Some ip \<Rightarrow> [(''client_ip'', JStr ip)])
       @ (case trace of None \<Rightarrow> [] | Some t \<Rightarrow> [(''exception'', JStr t)]))"

text \<open>Starlette answers an exception that leaves the application with a plain 500.\<close>

definition served_response :: "app_result \<Rightarrow> gateway_response" where
  "served_response r = (case r of AppResponds x \<Rightarrow> x
    | AppRaises _ \<Rightarrow> \<lparr>gs_status = 500, gs_headers = [(''content-type'', ''text/plain; charset=utf-8'')],
        gs_content = BodyBytes ''Internal Server Error''\<rparr>)"

end
