(* ===== verification/Gateway_Claims.thy ===== *)
theory Gateway_Claims
  imports Gateway
begin

text \<open>
  The properties of the API Gateway: requests with plain paths are forwarded as they came, outages are reported, and one request
  identifier accompanies a request through the gateway and the service.
\<close>

section \<open>Headers\<close>

lemma header_get_set: "header_get n (header_set k v hs) = (if n = k then Some v else header_get n hs)"
proof -
  have "map_of (filter (\<lambda>h. fst h \<noteq> k) hs) n = (if n = k then None else map_of hs n)" for hs :: header_list
    by (induction hs) auto
  then show ?thesis
    unfolding header_get_def by (induction k v hs rule: header_set.induct) auto
qed

lemma dict_put_keys: "k \<notin> fst ` set d \<Longrightarrow> dict_put k v d = d @ [(k, v)]"
  by (induction k v d rule: dict_put.induct) auto

lemma dict_of_distinct: "distinct (map fst xs) \<Longrightarrow> dict_of xs = xs"
proof (induction xs rule: rev_induct)
  case (snoc x xs)
  then show ?case using dict_put_keys [of "fst x" xs "snd x"] by (simp add: dict_of_def)
qed (simp add: dict_of_def)

lemma dict_put_lookup: "map_of (dict_put k v d) n = (if n = k then Some v else map_of d n)"
  by (induction k v d rule: dict_put.induct) auto

lemma dict_of_lookup: "map_of (dict_of xs) n = map_of (rev xs) n"
  by (induction xs rule: rev_induct) (auto simp: dict_of_def dict_put_lookup)

lemma header_set_filter: "filter (\<lambda>h. fst h = k) (header_set k v hs) = [(k, v)]"
  by (induction k v hs rule: header_set.induct) (simp_all add: conj_commute)

lemma forwarded_lookup:
  assumes "lower k \<notin> set HOP_BY_HOP_HEADERS"
  shows "map_of (forwarded_headers (header_set k v hs)) k = Some v"
proof -
  let ?keep = "\<lambda>h. lower (fst h) \<notin> set HOP_BY_HOP_HEADERS"
  have own: "map_of xs k = map_of (filter (\<lambda>h. fst h = k) xs) k" for xs :: header_list
    by (induction xs) auto
  have "filter (\<lambda>h. fst h = k) (filter ?keep (header_set k v hs)) = filter ?keep (filter (\<lambda>h. fst h = k) (header_set k v hs))"
    by (simp add: conj_commute)
  also have "\<dots> = [(k, v)]" using assms by (simp add: header_set_filter)
  finally have "filter (\<lambda>h. fst h = k) (rev (filter ?keep (header_set k v hs))) = [(k, v)]"
    unfolding rev_filter [symmetric] by simp
  then show ?thesis
    unfolding forwarded_headers_def dict_of_lookup using own [of "rev (filter ?keep (header_set k v hs))"] by simp
qed

section \<open>Routes\<close>

text \<open>The service that owns a path, and the path it is asked for.\<close>

definition owner :: "gateway_settings \<Rightarrow> string \<Rightarrow> downstream_service" where
  "owner cfg key = the (map_of (downstream_services cfg) key)"

lemma proxy_route_root:
  "proxy_route routes path = Some (root, key, rest) \<Longrightarrow> (root, key) \<in> set routes \<and> remaining_path root path = Some rest"
  by (induction routes path rule: proxy_route.induct) (auto split: option.splits)

lemma remaining_path_join:
  assumes "remaining_path root path = Some rest" and "CHR 10 \<notin> set path"
  shows "build_downstream_path root rest = (if path = root @ ''/'' then root else path)"
proof -
  have "matched_line path = Some path" using assms(2) last_in_set by (force simp: matched_line_def Let_def)
  then consider "path = root" "rest = []" | "take (length root + 1) path = root @ ''/''" "rest = drop (length root + 1) path" "path \<noteq> root"
    using assms(1) by (auto simp: remaining_path_def split: if_splits)
  then show ?thesis
  proof cases
    case 2
    then have "path = root @ ''/'' @ rest" using append_take_drop_id [of "length root + 1" path] by simp
    then show ?thesis by (simp add: build_downstream_path_def)
  qed (simp add: build_downstream_path_def)
qed

lemma routed:
  assumes "proxy_route proxy_roots path = Some (root, key, rest)"
  shows "\<exists>a s. root = CHR ''/'' # a # s \<and> a \<noteq> CHR ''/''"
    and "map_of (downstream_services cfg) key = Some (owner cfg key)"
    and "matched_line path \<noteq> Some ''/health/services''" "matched_line path \<noteq> Some ''/''" "matched_line path \<noteq> Some ''/health''"
proof -
  have mem: "(root, key) \<in> set proxy_roots" "remaining_path root path = Some rest"
    using proxy_route_root [OF assms] by blast+
  then show "\<exists>a s. root = CHR ''/'' # a # s \<and> a \<noteq> CHR ''/''" "map_of (downstream_services cfg) key = Some (owner cfg key)"
    by (auto simp: proxy_roots_def downstream_services_def owner_def)
  show "matched_line path \<noteq> Some ''/health/services''" "matched_line path \<noteq> Some ''/''" "matched_line path \<noteq> Some ''/health''"
    using mem by (auto simp: proxy_roots_def remaining_path_def)
qed

definition proxied :: "gateway_request \<Rightarrow> string \<Rightarrow> string \<Rightarrow> string \<Rightarrow> bool" where
  "proxied q root key rest \<longleftrightarrow> gr_method q \<in> set PROXY_METHODS \<and> proxy_route proxy_roots (gr_path q) = Some (root, key, rest)"

lemma proxied_app:
  assumes "proxied q root key rest"
  shows "gateway_app cfg client other q =
    relay (owner cfg key) (client (make_call (owner cfg key) q (build_downstream_path root rest)))"
proof -
  have route: "proxy_route proxy_roots (gr_path q) = Some (root, key, rest)" using assms by (simp add: proxied_def)
  show ?thesis
    using assms route routed(2-5) [OF route] by (simp add: proxied_def gateway_app_def forward_def)
qed

section \<open>Paths that reach the service\<close>

text \<open>The characters that stand for themselves in the path of a URL (RFC 3986: \<open>pchar\<close> without the percent
  sign, and the slash), and the paths made of them without the segments that are resolved away.\<close>

definition plain_char :: "char \<Rightarrow> bool" where
  "plain_char c = (let n = (of_char c :: nat) in
     65 \<le> n \<and> n \<le> 90 \<or> 97 \<le> n \<and> n \<le> 122 \<or> 48 \<le> n \<and> n \<le> 57
     \<or> n \<in> {33, 36, 38, 39, 40, 41, 42, 43, 44, 45, 46, 47, 58, 59, 61, 64, 95, 126})"

fun path_segments :: "string \<Rightarrow> string list" where
  "path_segments [] = [[]]"
| "path_segments (c # s) = (if c = CHR ''/'' then [] # path_segments s
     else case path_segments s of [] \<Rightarrow> [[c]] | t # ts \<Rightarrow> (c # t) # ts)"

definition plain_path :: "string \<Rightarrow> bool" where
  "plain_path p \<longleftrightarrow> list_all plain_char p \<and> ''.'' \<notin> set (path_segments p) \<and> ''..'' \<notin> set (path_segments p)"

definition values_of :: "string \<Rightarrow> (string \<times> string) list \<Rightarrow> string list" where
  "values_of name ps = map snd (filter (\<lambda>kv. fst kv = name) ps)"

text \<open>What is relied on of \<open>httpx\<close>: behind the origin of a service a plain path is sent as it is, and the
  parameters arrive with the values of each name in their order (those of different names may be
  regrouped).\<close>

definition sends_plain_paths :: "(string \<Rightarrow> (string \<times> string) list \<Rightarrow> http_target option) \<Rightarrow> string \<Rightarrow> bool" where
  "sends_plain_paths url origin \<longleftrightarrow> (\<forall>p ps. plain_path p \<and> take 1 p = ''/'' \<longrightarrow>
     (\<exists>query. url (origin @ p) ps = Some \<lparr>ht_origin = origin, ht_path = p, ht_query = query\<rparr>
       \<and> (\<forall>name. values_of name query = values_of name ps)))"

lemma plain_path_line: "plain_path p \<Longrightarrow> CHR 10 \<notin> set p"
  by (auto simp: plain_path_def list_all_iff plain_char_def)

lemma plain_roots: "(root, key) \<in> set proxy_roots \<Longrightarrow> plain_path root \<and> take 1 root = ''/''"
proof -
  have "list_all (\<lambda>(root, key). plain_path root \<and> take 1 root = ''/'') proxy_roots" by code_simp
  then show "(root, key) \<in> set proxy_roots \<Longrightarrow> plain_path root \<and> take 1 root = ''/''"
    by (auto simp: list_all_iff)
qed

lemma proxied_call:
  assumes "proxied q root key rest" and "CHR 10 \<notin> set (gr_path q)"
  shows "make_call (owner cfg key) q (build_downstream_path root rest) = \<lparr>pc_method = gr_method q,
      pc_url = dn_base_url (owner cfg key) @ (if gr_path q = root @ ''/'' then root else gr_path q), pc_params = gr_query q,
      pc_headers = forwarded_headers (gr_headers q),
      pc_content = (if gr_body q = [] then None else Some (gr_body q))\<rparr>"
    and "(root, key) \<in> set proxy_roots" and "take 1 (gr_path q) = ''/''"
proof -
  have route: "proxy_route proxy_roots (gr_path q) = Some (root, key, rest)" using assms(1) by (simp add: proxied_def)
  have mem: "(root, key) \<in> set proxy_roots" "remaining_path root (gr_path q) = Some rest"
    using proxy_route_root [OF route] by blast+
  then show "(root, key) \<in> set proxy_roots" by simp
  obtain a s where root: "root = CHR ''/'' # a # s" "a \<noteq> CHR ''/''" using routed(1) [OF route] by blast
  have path: "build_downstream_path root rest = (if gr_path q = root @ ''/'' then root else gr_path q)"
    by (rule remaining_path_join [OF mem(2) assms(2)])
  have "target_url (owner cfg key) (build_downstream_path root rest) = dn_base_url (owner cfg key) @ build_downstream_path root rest"
    using root(2) unfolding root(1) by (simp add: build_downstream_path_def target_url_def lstrip_def)
  then show "make_call (owner cfg key) q (build_downstream_path root rest) = \<lparr>pc_method = gr_method q,
      pc_url = dn_base_url (owner cfg key) @ (if gr_path q = root @ ''/'' then root else gr_path q), pc_params = gr_query q,
      pc_headers = forwarded_headers (gr_headers q),
      pc_content = (if gr_body q = [] then None else Some (gr_body q))\<rparr>"
    unfolding make_call_def path by simp
  have "\<exists>t. gr_path q = root @ t"
    using path by (cases "gr_path q = root @ ''/''") (auto simp: build_downstream_path_def split: if_splits dest: sym)
  then show "take 1 (gr_path q) = ''/''" using root(1) by auto
qed

text \<open>C36: the gateway forwards a request with a plain path as it came. Let the request have one of the seven
  methods, a path under a public root that is made of characters which need no quoting in a URL and has no dot
  segments, and headers with distinct names; and let the HTTP client send a plain path behind the origin of the
  service as it is, and the parameters with the values of each name in their order. Then there is exactly one call,
  to the service that owns the root: the same method, path (save that a root with a closing slash loses it) and body,
  the same values of every query parameter, and the headers without those of the connection. What the service answers
  comes back with its status and content and with three of its headers; a timeout is answered 504 and a failed
  connection 503, both naming the service. (A path with a quoted delimiter is another matter:
  \<open>quoted_delimiter_is_lost\<close>.)\<close>

theorem gateway_forwards_request:
  assumes "proxied q root key rest" and "plain_path (gr_path q)" and "distinct (map fst (gr_headers q))"
    and "sends_plain_paths url (dn_base_url (owner cfg key))"
  shows "(root, key) \<in> set [(''/products'', ''inventory''), (''/stock'', ''inventory''), (''/warehouses'', ''warehouse''), (''/orders'', ''order'')]
    \<and> (\<exists>query. (\<forall>name. values_of name query = values_of name (gr_query q))
      \<and> gateway_app cfg (httpx_client url send) other q =
        (case send \<lparr>ht_origin = dn_base_url (owner cfg key),
             ht_path = (if gr_path q = root @ ''/'' then root else gr_path q), ht_query = query\<rparr>
           (gr_method q) (filter (\<lambda>h. lower (fst h) \<notin> set HOP_BY_HOP_HEADERS) (gr_headers q))
           (if gr_body q = [] then None else Some (gr_body q)) of
          ClientTimeout \<Rightarrow> http_exception 504 (outage ''The downstream service timed out'' (owner cfg key))
        | ClientRequestError \<Rightarrow> http_exception 503 (outage ''The downstream service is unavailable'' (owner cfg key))
        | ClientRaises e \<Rightarrow> AppRaises e
        | ClientAnswers r \<Rightarrow> AppResponds \<lparr>gs_status = gs_status r, gs_headers = response_headers (gs_headers r), gs_content = gs_content r\<rparr>))"
proof -
  note call = proxied_call [OF assms(1) plain_path_line [OF assms(2)]]
  let ?path = "if gr_path q = root @ ''/'' then root else gr_path q"
  have "plain_path ?path \<and> take 1 ?path = ''/''" using plain_roots [OF call(2)] assms(2) call(3) by simp
  then obtain query where query: "url (dn_base_url (owner cfg key) @ ?path) (gr_query q) =
      Some \<lparr>ht_origin = dn_base_url (owner cfg key), ht_path = ?path, ht_query = query\<rparr>"
    "\<forall>name. values_of name query = values_of name (gr_query q)"
    using assms(4) unfolding sends_plain_paths_def by blast
  have headers: "forwarded_headers (gr_headers q) = filter (\<lambda>h. lower (fst h) \<notin> set HOP_BY_HOP_HEADERS) (gr_headers q)"
    using assms(3) unfolding forwarded_headers_def by (intro dict_of_distinct) (simp add: distinct_map_filter)
  have "gateway_app cfg (httpx_client url send) other q = relay (owner cfg key)
      (send \<lparr>ht_origin = dn_base_url (owner cfg key), ht_path = ?path, ht_query = query\<rparr> (gr_method q)
        (filter (\<lambda>h. lower (fst h) \<notin> set HOP_BY_HOP_HEADERS) (gr_headers q))
        (if gr_body q = [] then None else Some (gr_body q)))"
    unfolding proxied_app [OF assms(1)] call(1) by (simp add: httpx_client_def query(1) headers)
  then show ?thesis
    using call(2) query(2) unfolding proxy_roots_def relay_def by blast
qed

text \<open>The decoded path is not quoted again. When the HTTP client takes what follows a question mark in the text of
  a URL as its query, and replaces that by the parameters it is given, a request whose path holds a quoted question
  mark is forwarded like the request for the path before it: the service is asked for another resource.\<close>

theorem quoted_delimiter_is_lost:
  assumes "proxied q root key rest" and "proxied (q\<lparr>gr_path := p\<rparr>) root key rest'"
    and "gr_path q = p @ ''?'' @ x" and "CHR 10 \<notin> set (gr_path q)" and "p \<noteq> root @ ''/''"
    and "\<forall>s x ps. url (s @ ''?'' @ x) ps = url s ps"
  shows "gateway_app cfg (httpx_client url send) other q = gateway_app cfg (httpx_client url send) other (q\<lparr>gr_path := p\<rparr>)"
proof -
  have line: "CHR 10 \<notin> set (gr_path (q\<lparr>gr_path := p\<rparr>))" using assms(3,4) by simp
  have "gr_path q \<noteq> root @ ''/''"
  proof
    assume eq: "gr_path q = root @ ''/''"
    have "plain_path root" using plain_roots [OF proxied_call(2) [OF assms(1,4)]] by simp
    then have "CHR ''?'' \<notin> set (gr_path q)" unfolding eq by (auto simp: plain_path_def list_all_iff plain_char_def)
    with assms(3) show False by simp
  qed
  moreover have "url (dn_base_url (owner cfg key) @ gr_path q) ps = url (dn_base_url (owner cfg key) @ p) ps" for ps
    using assms(6) unfolding assms(3) append.assoc [symmetric] by blast
  ultimately show ?thesis
    using assms(5)
    unfolding proxied_app [OF assms(1)] proxied_app [OF assms(2)] proxied_call(1) [OF assms(1,4)]
      proxied_call(1) [OF assms(2) line]
    by (simp add: httpx_client_def split: option.split)
qed

section \<open>One identifier\<close>

text \<open>one request identifier accompanies a request. When the gateway and the service it forwards to both log their
  requests, and the client delivers the header it is given, the identifier of the caller, or a fresh one when there is none,
  is what the gateway logs, what the service logs, and what the answer to the caller carries, even if the service fails;
  the gateway logs the status it answers, which is the status of the service.\<close>

theorem request_identifier_end_to_end:
  assumes "proxied q root key rest" and "fresh \<noteq> []"
    and wire: "\<forall>c. header_get ''x-request-id'' (gr_headers (wire c)) = map_of (pc_headers c) ''x-request-id''"
    and client: "\<forall>c. client c = ClientAnswers (served_response (fst (request_logging own service (wire c))))"
  shows "let request_id = request_identifier fresh q;
      (result, event) = request_logging fresh (gateway_app cfg client other) q;
      call = make_call (owner cfg key) (q\<lparr>gr_headers := header_set ''x-request-id'' request_id (gr_headers q)\<rparr>)
        (build_downstream_path root rest);
      (inner, inner_event) = request_logging own service (wire call)
    in rl_request_id event = request_id \<and> rl_request_id inner_event = request_id
      \<and> (\<exists>r. result = AppResponds r \<and> header_get ''x-request-id'' (gs_headers r) = Some request_id
          \<and> gs_status r = gs_status (served_response inner) \<and> rl_status event = gs_status r)"
proof -
  let ?id = "request_identifier fresh q"
  let ?q = "q\<lparr>gr_headers := header_set ''x-request-id'' ?id (gr_headers q)\<rparr>"
  let ?call = "make_call (owner cfg key) ?q (build_downstream_path root rest)"
  have id: "?id \<noteq> []" using assms(2) by (auto simp: request_identifier_def split: option.splits)
  have "lower ''x-request-id'' = ''x-request-id''" by code_simp
  then have "map_of (pc_headers ?call) ''x-request-id'' = Some ?id"
    by (simp add: make_call_def forwarded_lookup HOP_BY_HOP_HEADERS_def)
  then have inner: "request_identifier own (wire ?call) = ?id"
    using wire id by (simp add: request_identifier_def)
  have "proxied ?q root key rest" using assms(1) by (simp add: proxied_def)
  from proxied_app [OF this, of cfg client other]
  have app: "gateway_app cfg client other ?q = relay (owner cfg key) (client ?call)" .
  have "rl_request_id (snd (request_logging own service (wire ?call))) = ?id"
    by (simp add: request_logging_def inner Let_def split: app_result.splits)
  moreover have "rl_request_id (snd (request_logging fresh (gateway_app cfg client other) q)) = ?id"
    by (simp add: request_logging_def Let_def split: app_result.splits)
  moreover have "\<exists>r. fst (request_logging fresh (gateway_app cfg client other) q) = AppResponds r
      \<and> header_get ''x-request-id'' (gs_headers r) = Some ?id
      \<and> gs_status r = gs_status (served_response (fst (request_logging own service (wire ?call))))
      \<and> rl_status (snd (request_logging fresh (gateway_app cfg client other) q)) = gs_status r"
    unfolding request_logging_def [of fresh] Let_def app client [rule_format] relay_def
    by (simp add: header_get_set)
  ultimately show ?thesis by (simp add: Let_def split_beta)
qed

section \<open>A run\<close>

definition demo_gateway :: gateway_settings where
  "demo_gateway = \<lparr>gw_service_name = ''api-gateway'', gw_inventory_url = ''http://inventory:8001/'',
     gw_warehouse_url = ''http://warehouse:8002'', gw_order_url = ''http://order:8003''\<rparr>"

definition demo_get :: gateway_request where
  "demo_get = \<lparr>gr_method = ''GET'', gr_path = ''/products/7'', gr_query = [], gr_headers = [(''host'', ''shop''), (''accept'', ''*/*'')],
     gr_body = [], gr_client = None\<rparr>"

definition demo_inventory :: "gateway_request \<Rightarrow> app_result" where
  "demo_inventory q = AppResponds (json_reply 200 (JInt 7))"

definition demo_wire :: "proxy_call \<Rightarrow> gateway_request" where
  "demo_wire c = \<lparr>gr_method = pc_method c, gr_path = ''/products/7'', gr_query = pc_params c, gr_headers = pc_headers c,
     gr_body = [], gr_client = None\<rparr>"

definition demo_proxy_client :: "proxy_call \<Rightarrow> client_outcome" where
  "demo_proxy_client c = ClientAnswers (served_response (fst (request_logging ''other'' demo_inventory (demo_wire c))))"

lemma demo_proxied: "proxied demo_get ''/products'' ''inventory'' ''7''"
  unfolding proxied_def by code_simp

definition demo_url :: "string \<Rightarrow> (string \<times> string) list \<Rightarrow> http_target option" where
  "demo_url s ps = (let origin = ''http://inventory:8001'' in if take (length origin) s = origin
     then Some \<lparr>ht_origin = origin, ht_path = drop (length origin) s, ht_query = ps\<rparr> else None)"

definition demo_send :: "http_target \<Rightarrow> string \<Rightarrow> header_list \<Rightarrow> string option \<Rightarrow> client_outcome" where
  "demo_send t method headers content = (if ht_path t = ''/products/7'' \<and> headers = [(''accept'', ''*/*'')] \<and> content = None
     then ClientTimeout else ClientRequestError)"

theorem gateway_forwards_request_witness:
  "gateway_app demo_gateway (httpx_client demo_url demo_send) (\<lambda>_. AppRaises []) demo_get
    = http_exception 504 (outage ''The downstream service timed out'' (owner demo_gateway ''inventory''))"
proof -
  have h: "plain_path (gr_path demo_get)" "distinct (map fst (gr_headers demo_get))"
    "dn_base_url (owner demo_gateway ''inventory'') = ''http://inventory:8001''"
    "filter (\<lambda>h. lower (fst h) \<notin> set HOP_BY_HOP_HEADERS) (gr_headers demo_get) = [(''accept'', ''*/*'')]"
    by code_simp+
  have law: "sends_plain_paths demo_url (dn_base_url (owner demo_gateway ''inventory''))"
    unfolding h(3) sends_plain_paths_def by (simp add: demo_url_def)
  have path: "gr_path demo_get = ''/products/7''" "gr_body demo_get = []" by (simp_all add: demo_get_def)
  show ?thesis
    using gateway_forwards_request [OF demo_proxied h(1,2) law, of demo_send] h(4) path
    by (auto simp: demo_send_def)
qed

theorem request_identifier_end_to_end_witness:
  "\<exists>r. fst (request_logging ''fresh-1'' (gateway_app demo_gateway demo_proxy_client (\<lambda>_. AppRaises [])) demo_get) = AppResponds r
    \<and> header_get ''x-request-id'' (gs_headers r) = Some ''fresh-1''"
proof -
  have "\<forall>c. header_get ''x-request-id'' (gr_headers (demo_wire c)) = map_of (pc_headers c) ''x-request-id''"
    by (simp add: demo_wire_def header_get_def)
  moreover have "\<forall>c. demo_proxy_client c = ClientAnswers (served_response (fst (request_logging ''other'' demo_inventory (demo_wire c))))"
    by (simp add: demo_proxy_client_def)
  moreover have "request_identifier ''fresh-1'' demo_get = ''fresh-1''" by code_simp
  ultimately show ?thesis
    using request_identifier_end_to_end [OF demo_proxied, of "''fresh-1''" demo_wire demo_proxy_client "''other''" demo_inventory demo_gateway]
    by (simp add: Let_def split_beta) blast
qed

end
