(* ===== verification/Control_Station.thy ===== *)
theory Control_Station
  imports Json_Decimal "HOL-Library.List_Lexorder" "HOL-Library.Char_ord"
begin

text \<open>
  The control station of the command simulator (secure-command-control-simulator/control_station/
  control_station_client.py): signed commands, and their delivery with a bounded number of attempts. The network is a
  function of its own state and of the line that is sent; HMAC-SHA256 is a function of secret and message.
\<close>

section \<open>Time as text\<close>

text \<open>\<open>isoformat\<close> of a UTC time in microseconds; the date is found by counting days in eras of 400 years that start in March.\<close>

fun pad_digits :: "nat \<Rightarrow> nat \<Rightarrow> string" where
  "pad_digits 0 n = []"
| "pad_digits (Suc w) n = pad_digits w (n div 10) @ [digit_char (n mod 10)]"

definition civil_date :: "int \<Rightarrow> int \<times> int \<times> int" where
  "civil_date days =
     (let z = days + 719468; era = z div 146097; doe = z mod 146097;
          yoe = (doe - doe div 1460 + doe div 36524 - doe div 146096) div 365;
          doy = doe - (365 * yoe + yoe div 4 - yoe div 100);
          mp = (5 * doy + 2) div 153;
          d = doy - (153 * mp + 2) div 5 + 1;
          m = (if mp < 10 then mp + 3 else mp - 9)
      in (yoe + era * 400 + (if m \<le> 2 then 1 else 0), m, d))"

definition date_text :: "int \<Rightarrow> string" where
  "date_text seconds =
     (let s = nat (seconds mod 86400)
      in case civil_date (seconds div 86400) of (y, m, d) \<Rightarrow>
        pad_digits 4 (nat y) @ ''-'' @ pad_digits 2 (nat m) @ ''-'' @ pad_digits 2 (nat d) @ ''T'' @
        pad_digits 2 (s div 3600) @ '':'' @ pad_digits 2 (s div 60 mod 60) @ '':'' @ pad_digits 2 (s mod 60))"

definition microseconds :: "time \<Rightarrow> nat" where
  "microseconds t = nat (t mod 1000000)"

definition isoformat :: "time \<Rightarrow> string" where
  "isoformat t = date_text (t div 1000000) @
     (if microseconds t = 0 then [] else ''.'' @ pad_digits 6 (microseconds t)) @ ''+00:00''"

text \<open>\<open>str.replace\<close> for a text \<open>old\<close> that is not empty.\<close>

function str_replace :: "string \<Rightarrow> string \<Rightarrow> string \<Rightarrow> string" where
  "str_replace old new s =
     (if s = [] \<or> old = [] then s
      else if take (length old) s = old then new @ str_replace old new (drop (length old) s)
      else hd s # str_replace old new (tl s))"
  by pat_completeness auto
termination by (relation "measure (\<lambda>(old, new, s). length s)") (auto simp: neq_Nil_conv)

declare str_replace.simps [simp del]

definition utc_timestamp :: "time \<Rightarrow> string" where
  "utc_timestamp t = str_replace ''+00:00'' ''Z'' (isoformat t)"

section \<open>JSON of a payload\<close>

text \<open>\<open>json.dumps\<close> of a text: everything outside printable ASCII is escaped.\<close>

definition json_char :: "char \<Rightarrow> string" where
  "json_char c = (let n = (of_char c :: nat); slash = char_of (92::nat) in
     if n = 34 \<or> n = 92 then [slash, c]
     else if n = 10 then [slash, CHR ''n''] else if n = 13 then [slash, CHR ''r'']
     else if n = 9 then [slash, CHR ''t''] else if n = 12 then [slash, CHR ''f'']
     else if n = 8 then [slash, CHR ''b'']
     else if n < 32 \<or> 126 < n then [slash, CHR ''u'', CHR ''0'', CHR ''0'', hex_char (n div 16), hex_char (n mod 16)]
     else [c])"

definition json_text :: "string \<Rightarrow> string" where
  "json_text s = char_of (34::nat) # concat (map json_char s) @ [char_of (34::nat)]"

type_synonym payload = "(string \<times> string) list"

definition json_member :: "string \<times> string \<Rightarrow> string" where
  "json_member kv = json_text (fst kv) @ '':'' @ json_text (snd kv)"

definition json_dict :: "payload \<Rightarrow> string" where
  "json_dict d = ''{'' @ join '','' (map json_member d) @ ''}''"

section \<open>Commands\<close>

definition TARGET_ID :: string where
  "TARGET_ID = ''UNIT-01''"

record station_command =
  cm_message_id :: string
  cm_command_type :: string
  cm_target_id :: string
  cm_sequence_number :: int
  cm_timestamp :: string
  cm_payload :: payload
  cm_signature :: string

text \<open>\<open>sort_keys\<close> orders the members by their keys.\<close>

definition create_canonical_message :: "station_command \<Rightarrow> string" where
  "create_canonical_message c = join [CHR 10]
     [cm_message_id c, cm_command_type c, cm_target_id c, str_int (cm_sequence_number c), cm_timestamp c,
      json_dict (sort_key fst (cm_payload c))]"

definition calculate_signature :: "(string \<Rightarrow> string \<Rightarrow> string) \<Rightarrow> station_command \<Rightarrow> string \<Rightarrow> string" where
  "calculate_signature hmac c secret = hmac secret (create_canonical_message c)"

definition create_command :: "(string \<Rightarrow> string \<Rightarrow> string) \<Rightarrow> time \<Rightarrow> string \<Rightarrow> string \<Rightarrow> int \<Rightarrow> string \<Rightarrow> payload \<Rightarrow> station_command" where
  "create_command hmac now message_id command_type sequence_number shared_secret payload =
     (let c = \<lparr>cm_message_id = message_id, cm_command_type = command_type, cm_target_id = TARGET_ID,
            cm_sequence_number = sequence_number, cm_timestamp = utc_timestamp now, cm_payload = payload, cm_signature = []\<rparr>
      in c\<lparr>cm_signature := calculate_signature hmac c shared_secret\<rparr>)"

definition get_shared_secret :: "string option \<Rightarrow> string + string" where
  "get_shared_secret env = (case env of
      None \<Rightarrow> Inl ''Environment variable COMMAND_CONTROL_SHARED_SECRET is not configured.''
    | Some s \<Rightarrow> if s = [] then Inl ''Environment variable COMMAND_CONTROL_SHARED_SECRET is not configured.''
        else if length s < 16 then Inl ''The shared secret must contain at least 16 characters.'' else Inr s)"

text \<open>The line that is sent: the command as JSON, its keys in the order in which they were put in.\<close>

definition command_line :: "station_command \<Rightarrow> string" where
  "command_line c = ''{'' @ join '',''
     [json_member (''message_id'', cm_message_id c), json_member (''command_type'', cm_command_type c),
      json_member (''target_id'', cm_target_id c), json_text ''sequence_number'' @ '':'' @ str_int (cm_sequence_number c),
      json_member (''timestamp'', cm_timestamp c), json_text ''payload'' @ '':'' @ json_dict (cm_payload c),
      json_member (''signature'', cm_signature c)] @ ''}''"

section \<open>Delivery\<close>

text \<open>An attempt ends with an \<open>OSError\<close>, with the end of the stream before a line, with a line, which is JSON or not, or
  with an exception of another kind, such as the one for bytes that are not UTF-8.\<close>

datatype attempt_outcome = SocketError string | StreamEnded | LineReceived "json option" | OtherFailure string

datatype station_exception = ConnectionRefused | ConnectionError string | OtherException string

definition MAX_ACK_ATTEMPTS :: nat where
  "MAX_ACK_ATTEMPTS = 3"

text \<open>What \<open>send_one_attempt\<close> returns, or the exception it raises, which its caller catches or not.\<close>

datatype attempt_result = Answered json | Caught string | Uncaught string

definition send_one_attempt :: "('s \<Rightarrow> string \<Rightarrow> attempt_outcome \<times> 's) \<Rightarrow> station_command \<Rightarrow> 's \<Rightarrow> attempt_result \<times> 's" where
  "send_one_attempt net c s = (case net s (command_line c) of
      (SocketError e, s') \<Rightarrow> (Caught e, s')
    | (StreamEnded, s') \<Rightarrow> (Caught ''The connection closed before an ACK was received.'', s')
    | (LineReceived None, s') \<Rightarrow> (Caught ''JSONDecodeError'', s')
    | (LineReceived (Some j), s') \<Rightarrow> (Answered j, s')
    | (OtherFailure e, s') \<Rightarrow> (Uncaught e, s'))"

text \<open>The acknowledgement is printed before it is returned: a value that is no object, or lacks a key, raises there.\<close>

definition printable_ack :: "json \<Rightarrow> bool" where
  "printable_ack j = (case j of
      JObj kvs \<Rightarrow> list_all (\<lambda>k. map_of kvs k \<noteq> None) [''status'', ''commandType'', ''previousState'', ''currentState'', ''message'']
    | _ \<Rightarrow> False)"

datatype station_event = Attempted string | Slept

fun retry_from :: "('s \<Rightarrow> string \<Rightarrow> attempt_outcome \<times> 's) \<Rightarrow> station_command \<Rightarrow> nat \<Rightarrow> string \<Rightarrow> 's \<Rightarrow>
    (station_exception + json) \<times> station_event list \<times> 's" where
  "retry_from net c 0 last_error s = (Inl (ConnectionError last_error), [], s)"
| "retry_from net c (Suc left) last_error s = (case send_one_attempt net c s of
      (Answered j, s') \<Rightarrow> (if printable_ack j then Inr j else Inl (OtherException ''KeyError''), [Attempted (command_line c)], s')
    | (Uncaught e, s') \<Rightarrow> (Inl (OtherException e), [Attempted (command_line c)], s')
    | (Caught e, s') \<Rightarrow> (case retry_from net c left e s' of
        (res, events, s'') \<Rightarrow> (res, Attempted (command_line c) # (if 0 < left then [Slept] else []) @ events, s'')))"

definition send_command_with_retry :: "('s \<Rightarrow> string \<Rightarrow> attempt_outcome \<times> 's) \<Rightarrow> station_command \<Rightarrow> 's \<Rightarrow>
    (station_exception + json) \<times> station_event list \<times> 's" where
  "send_command_with_retry net c s = retry_from net c MAX_ACK_ATTEMPTS ''None'' s"

section \<open>The program\<close>

fun send_all :: "('s \<Rightarrow> string \<Rightarrow> attempt_outcome \<times> 's) \<Rightarrow> station_command list \<Rightarrow> 's \<Rightarrow> (station_exception + json list) \<times> 's" where
  "send_all net [] s = (Inr [], s)"
| "send_all net (c # cs) s = (case send_command_with_retry net c s of
      (Inl e, _, s') \<Rightarrow> (Inl e, s')
    | (Inr j, _, s') \<Rightarrow> (case send_all net cs s' of (Inl e, s'') \<Rightarrow> (Inl e, s'') | (Inr js, s'') \<Rightarrow> (Inr (j # js), s'')))"

definition station_commands :: "(string \<Rightarrow> string \<Rightarrow> string) \<Rightarrow> (nat \<Rightarrow> time) \<Rightarrow> string \<Rightarrow> station_command list" where
  "station_commands hmac clock secret =
     [create_command hmac (clock 0) ''CMD-000001'' ''START_SYSTEM'' 1 secret [],
      create_command hmac (clock 1) ''CMD-000002'' ''ACTIVATE_SYSTEM'' 2 secret [(''operation'', ''PRIMARY_SENSOR_SCAN'')],
      create_command hmac (clock 2) ''CMD-000003'' ''SHUTDOWN_SYSTEM'' 3 secret []]"

text \<open>How \<open>main\<close> ends: the message it prints, or the exception it does not catch.\<close>

datatype station_exit = ConfigurationError string | StartServerFirst | DeliveryFailed string | AllDelivered "json list" | StationCrash string

definition station_main :: "(string \<Rightarrow> string \<Rightarrow> string) \<Rightarrow> (nat \<Rightarrow> time) \<Rightarrow> string option \<Rightarrow>
    ('s \<Rightarrow> string \<Rightarrow> attempt_outcome \<times> 's) \<Rightarrow> 's \<Rightarrow> station_exit \<times> 's" where
  "station_main hmac clock env net s = (case get_shared_secret env of
      Inl e \<Rightarrow> (ConfigurationError e, s)
    | Inr secret \<Rightarrow> (case send_all net (station_commands hmac clock secret) s of
          (Inr js, s') \<Rightarrow> (AllDelivered js, s')
        | (Inl ConnectionRefused, s') \<Rightarrow> (StartServerFirst, s')
        | (Inl (ConnectionError e), s') \<Rightarrow> (DeliveryFailed e, s')
        | (Inl (OtherException e), s') \<Rightarrow> (StationCrash e, s')))"

end
