(* ===== verification/Command_Server.thy ===== *)
theory Command_Server
  imports Control_Station "HOL-Library.AList"
begin

text \<open>
  The remote unit that receives the commands (secure-command-control-simulator/src/main/java/.../commandcontrol):
  parsing (CommandMessageParser), authentication (MessageAuthenticator), replay protection (ReplayProtectionService),
  the state machine (CommandProcessor), the cache of acknowledgements (AcknowledgementCache) and the server that
  puts them together (CommandServer). HMAC, the JSON that Jackson writes for a payload and \<open>Instant.parse\<close> are
  functions. One connection is served at a time, so every message is one step.
\<close>

section \<open>Messages\<close>

datatype unit_state = UNIT_OFFLINE | UNIT_STANDBY | UNIT_ACTIVE | UNIT_SAFE_MODE

definition unit_state_name :: "unit_state \<Rightarrow> string" where
  "unit_state_name s = (case s of UNIT_OFFLINE \<Rightarrow> ''OFFLINE'' | UNIT_STANDBY \<Rightarrow> ''STANDBY'' | UNIT_ACTIVE \<Rightarrow> ''ACTIVE''
     | UNIT_SAFE_MODE \<Rightarrow> ''SAFE_MODE'')"

datatype unit_command = START_SYSTEM | ACTIVATE_SYSTEM | STOP_SYSTEM | ENTER_SAFE_MODE | RESET_SYSTEM | SHUTDOWN_SYSTEM

definition unit_command_name :: "unit_command \<Rightarrow> string" where
  "unit_command_name c = (case c of START_SYSTEM \<Rightarrow> ''START_SYSTEM'' | ACTIVATE_SYSTEM \<Rightarrow> ''ACTIVATE_SYSTEM''
     | STOP_SYSTEM \<Rightarrow> ''STOP_SYSTEM'' | ENTER_SAFE_MODE \<Rightarrow> ''ENTER_SAFE_MODE'' | RESET_SYSTEM \<Rightarrow> ''RESET_SYSTEM''
     | SHUTDOWN_SYSTEM \<Rightarrow> ''SHUTDOWN_SYSTEM'')"

definition unit_command_of :: "string \<Rightarrow> unit_command option" where
  "unit_command_of s = find (\<lambda>c. unit_command_name c = s)
     [START_SYSTEM, ACTIVATE_SYSTEM, STOP_SYSTEM, ENTER_SAFE_MODE, RESET_SYSTEM, SHUTDOWN_SYSTEM]"

record server_command =
  sc_message_id :: string
  sc_type :: unit_command
  sc_target :: string
  sc_sequence :: int
  sc_timestamp :: time
  sc_payload :: "(string \<times> json) list"
  sc_signature :: string

datatype ack_status = ACK_ACCEPTED | ACK_REJECTED | ACK_INVALID | ACK_UNAUTHORIZED | ACK_SECURITY_REJECTED

definition ack_status_name :: "ack_status \<Rightarrow> string" where
  "ack_status_name s = (case s of ACK_ACCEPTED \<Rightarrow> ''ACCEPTED'' | ACK_REJECTED \<Rightarrow> ''REJECTED'' | ACK_INVALID \<Rightarrow> ''INVALID''
     | ACK_UNAUTHORIZED \<Rightarrow> ''UNAUTHORIZED'' | ACK_SECURITY_REJECTED \<Rightarrow> ''SECURITY_REJECTED'')"

record command_ack =
  ak_message_id :: string
  ak_status :: ack_status
  ak_command_type :: string
  ak_previous_state :: string
  ak_current_state :: string
  ak_message :: string
  ak_processed_at :: time

definition make_ack :: "time \<Rightarrow> string \<Rightarrow> ack_status \<Rightarrow> string \<Rightarrow> unit_state \<Rightarrow> unit_state \<Rightarrow> string \<Rightarrow> command_ack" where
  "make_ack at i status ty previous current message = \<lparr>ak_message_id = i, ak_status = status, ak_command_type = ty,
     ak_previous_state = unit_state_name previous, ak_current_state = unit_state_name current, ak_message = message,
     ak_processed_at = at\<rparr>"

section \<open>Text of an instant\<close>

text \<open>\<open>Instant.toString\<close> prints no fraction, three, six or nine digits, as few as needed.\<close>

definition instant_text :: "time \<Rightarrow> string" where
  "instant_text t = date_text (t div 1000000) @
     (if microseconds t = 0 then []
      else if microseconds t mod 1000 = 0 then ''.'' @ pad_digits 3 (microseconds t div 1000)
      else ''.'' @ pad_digits 6 (microseconds t)) @ ''Z''"

section \<open>Parsing\<close>

record server_env =
  se_hmac :: "string \<Rightarrow> string \<Rightarrow> string"
  se_secret :: string
  se_payload_text :: "(string \<times> json) list \<Rightarrow> string"
  se_parse_instant :: "string \<Rightarrow> time option"

definition ALLOWED_FIELDS :: "string list" where
  "ALLOWED_FIELDS = [''message_id'', ''command_type'', ''target_id'', ''sequence_number'', ''timestamp'', ''payload'', ''signature'']"

text \<open>\<open>String.trim\<close> takes off characters up to the blank.\<close>

definition java_trim :: "string \<Rightarrow> string" where
  "java_trim s = rstrip (\<lambda>c. of_char c \<le> (32::nat)) (lstrip (\<lambda>c. of_char c \<le> (32::nat)) s)"

definition quoted_field :: "string \<Rightarrow> string" where
  "quoted_field field = ''Field '' @ [char_of (39::nat)] @ field @ [char_of (39::nat)]"

definition require_text :: "(string \<times> json) list \<Rightarrow> string \<Rightarrow> string + string" where
  "require_text kvs field = (case map_of kvs field of
      Some (JStr s) \<Rightarrow> if java_trim s = [] then Inl (quoted_field field @ '' cannot be blank.'') else Inr (java_trim s)
    | None \<Rightarrow> Inl (''Missing required field: '' @ field)
    | Some JNull \<Rightarrow> Inl (''Missing required field: '' @ field)
    | Some _ \<Rightarrow> Inl (quoted_field field @ '' must contain text.''))"

definition is_hex64 :: "string \<Rightarrow> bool" where
  "is_hex64 s \<longleftrightarrow> length s = 64 \<and> list_all (\<lambda>c. CHR ''0'' \<le> c \<and> c \<le> CHR ''9'' \<or> CHR ''a'' \<le> c \<and> c \<le> CHR ''f'') s"

definition require_signature :: "(string \<times> json) list \<Rightarrow> string + string" where
  "require_signature kvs = rbind (require_text kvs ''signature'') (\<lambda>s.
     if is_hex64 (lower s) then Inr (lower s) else Inl (quoted_field ''signature'' @ '' must contain exactly 64 hexadecimal characters.''))"

definition require_positive_long :: "(string \<times> json) list \<Rightarrow> string \<Rightarrow> string + int" where
  "require_positive_long kvs field = (case map_of kvs field of
      Some (JInt i) \<Rightarrow> if i < - (2 ^ 63) \<or> 2 ^ 63 \<le> i then Inl (quoted_field field @ '' exceeds the supported integer range.'')
        else if i < 1 then Inl (quoted_field field @ '' must be greater than zero.'') else Inr i
    | None \<Rightarrow> Inl (''Missing required field: '' @ field)
    | Some JNull \<Rightarrow> Inl (''Missing required field: '' @ field)
    | Some _ \<Rightarrow> Inl (quoted_field field @ '' must contain an integer.''))"

definition parse_payload :: "(string \<times> json) list \<Rightarrow> string + (string \<times> json) list" where
  "parse_payload kvs = (case map_of kvs ''payload'' of
      None \<Rightarrow> Inr [] | Some JNull \<Rightarrow> Inr [] | Some (JObj d) \<Rightarrow> Inr d
    | Some _ \<Rightarrow> Inl (quoted_field ''payload'' @ '' must contain a JSON object.''))"

text \<open>The argument is what Jackson reads: nothing for malformed text.\<close>

definition parse_message :: "server_env \<Rightarrow> json option \<Rightarrow> string + server_command" where
  "parse_message env msg = (case msg of
      None \<Rightarrow> Inl ''Malformed JSON command message.''
    | Some (JObj kvs) \<Rightarrow>
        rbind (case find (\<lambda>kv. fst kv \<notin> set ALLOWED_FIELDS) kvs of
            Some kv \<Rightarrow> Inl (''Unknown command field: '' @ fst kv) | None \<Rightarrow> Inr ()) (\<lambda>_.
        rbind (require_text kvs ''message_id'') (\<lambda>i.
        rbind (require_text kvs ''command_type'') (\<lambda>ty.
        rbind (require_text kvs ''target_id'') (\<lambda>target.
        rbind (require_positive_long kvs ''sequence_number'') (\<lambda>seq.
        rbind (require_text kvs ''timestamp'') (\<lambda>ts.
        rbind (require_signature kvs) (\<lambda>sig.
        rbind (case unit_command_of ty of None \<Rightarrow> Inl (''Unsupported command type: '' @ ty) | Some c \<Rightarrow> Inr c) (\<lambda>command.
        rbind (case se_parse_instant env ts of None \<Rightarrow> Inl (quoted_field ''timestamp'' @ '' must contain a valid ISO-8601 UTC timestamp.'')
                 | Some t \<Rightarrow> Inr t) (\<lambda>t.
        rbind (parse_payload kvs) (\<lambda>d.
        Inr \<lparr>sc_message_id = i, sc_type = command, sc_target = target, sc_sequence = seq, sc_timestamp = t,
          sc_payload = d, sc_signature = sig\<rparr>))))))))))
    | Some _ \<Rightarrow> Inl ''The command message must be a JSON object.'')"

section \<open>Authentication\<close>

definition server_canonical :: "server_env \<Rightarrow> server_command \<Rightarrow> string" where
  "server_canonical env c = join [CHR 10]
     [sc_message_id c, unit_command_name (sc_type c), sc_target c, str_int (sc_sequence c), instant_text (sc_timestamp c),
      se_payload_text env (sc_payload c)]"

definition verify_signature :: "server_env \<Rightarrow> server_command \<Rightarrow> bool" where
  "verify_signature env c \<longleftrightarrow> se_hmac env (se_secret env) (server_canonical env c) = sc_signature c"

section \<open>State of the unit\<close>

record command_server =
  sv_state :: unit_state
  sv_processed :: "string list"
  sv_highest :: "(string \<times> int) list"
  sv_cache :: "(string \<times> string \<times> command_ack) list"
  sv_drop_first :: "string option"
  sv_dropped :: "string list"

definition new_server :: "string option \<Rightarrow> command_server" where
  "new_server dropping = \<lparr>sv_state = UNIT_OFFLINE, sv_processed = [], sv_highest = [], sv_cache = [],
     sv_drop_first = (case dropping of None \<Rightarrow> None | Some s \<Rightarrow> if java_trim s = [] then None else Some (java_trim s)), sv_dropped = []\<rparr>"

text \<open>The two limits of 30 and 5 seconds, in microseconds.\<close>

definition timestamp_in_window :: "time \<Rightarrow> time \<Rightarrow> bool" where
  "timestamp_in_window now t \<longleftrightarrow> now - 30000000 \<le> t \<and> t \<le> now + 5000000"

definition highest_sequence :: "command_server \<Rightarrow> string \<Rightarrow> int" where
  "highest_sequence sv target = (case map_of (sv_highest sv) target of None \<Rightarrow> 0 | Some n \<Rightarrow> n)"

definition validate_and_record :: "time \<Rightarrow> server_command \<Rightarrow> command_server \<Rightarrow> (string \<times> string) option \<times> command_server" where
  "validate_and_record now c sv =
     (if sc_timestamp c < now - 30000000
      then (Some (''EXPIRED_TIMESTAMP'', ''Command timestamp is older than the permitted 30-second message lifetime.''), sv)
      else if now + 5000000 < sc_timestamp c
      then (Some (''FUTURE_TIMESTAMP'', ''Command timestamp exceeds the permitted 5-second future clock tolerance.''), sv)
      else if sc_message_id c \<in> set (sv_processed sv)
      then (Some (''DUPLICATE_MESSAGE_ID'', ''The command message ID has already been processed.''), sv)
      else if sc_sequence c \<le> highest_sequence sv (sc_target c)
      then (Some (''REPLAYED_SEQUENCE_NUMBER'', ''Sequence number '' @ str_int (sc_sequence c) @
              '' is not greater than the highest accepted sequence number '' @ str_int (highest_sequence sv (sc_target c)) @
              '' for target '' @ sc_target c @ ''.''), sv)
      else (None, sv\<lparr>sv_processed := sc_message_id c # sv_processed sv,
                     sv_highest := AList.update (sc_target c) (sc_sequence c) (sv_highest sv)\<rparr>))"

text \<open>The table of transitions: the next state, or the reason for which the command is rejected.\<close>

definition process_type :: "unit_command \<Rightarrow> unit_state \<Rightarrow> string + unit_state \<times> string" where
  "process_type c s = (case c of
      START_SYSTEM \<Rightarrow> if s = UNIT_OFFLINE then Inr (UNIT_STANDBY, ''Remote unit initialized and entered standby mode.'')
        else Inl ''START_SYSTEM is allowed only while OFFLINE.''
    | ACTIVATE_SYSTEM \<Rightarrow> if s = UNIT_STANDBY then Inr (UNIT_ACTIVE, ''Remote unit entered active operation.'')
        else Inl ''ACTIVATE_SYSTEM is allowed only while STANDBY.''
    | STOP_SYSTEM \<Rightarrow> if s = UNIT_ACTIVE then Inr (UNIT_STANDBY, ''Active operation stopped; remote unit returned to standby.'')
        else Inl ''STOP_SYSTEM is allowed only while ACTIVE.''
    | ENTER_SAFE_MODE \<Rightarrow> if s = UNIT_OFFLINE then Inl ''An offline remote unit cannot enter safe mode.''
        else if s = UNIT_SAFE_MODE then Inl ''Remote unit is already in safe mode.''
        else Inr (UNIT_SAFE_MODE, ''Remote unit entered safe mode.'')
    | RESET_SYSTEM \<Rightarrow> if s = UNIT_SAFE_MODE then Inr (UNIT_STANDBY, ''Safe-mode condition cleared; remote unit returned to standby.'')
        else Inl ''RESET_SYSTEM is allowed only while in SAFE_MODE.''
    | SHUTDOWN_SYSTEM \<Rightarrow> if s = UNIT_OFFLINE then Inl ''Remote unit is already offline.''
        else Inr (UNIT_OFFLINE, ''Remote unit shut down successfully.''))"

definition execute :: "time \<Rightarrow> server_command \<Rightarrow> command_server \<Rightarrow> command_ack \<times> command_server" where
  "execute at c sv = (case process_type (sc_type c) (sv_state sv) of
      Inl reason \<Rightarrow> (make_ack at (sc_message_id c) ACK_REJECTED (unit_command_name (sc_type c)) (sv_state sv) (sv_state sv) reason, sv)
    | Inr (s, message) \<Rightarrow> (make_ack at (sc_message_id c) ACK_ACCEPTED (unit_command_name (sc_type c)) (sv_state sv) s message,
        sv\<lparr>sv_state := s\<rparr>))"

text \<open>\<open>putIfAbsent\<close>.\<close>

definition cache_store :: "string \<Rightarrow> string \<Rightarrow> command_ack \<Rightarrow> command_server \<Rightarrow> command_server" where
  "cache_store i sig ack sv =
     (if map_of (sv_cache sv) i = None then sv\<lparr>sv_cache := (i, sig, ack) # sv_cache sv\<rparr> else sv)"

definition security_rejected :: "time \<Rightarrow> server_command \<Rightarrow> string \<times> string \<Rightarrow> command_server \<Rightarrow> command_ack" where
  "security_rejected at c reason sv =
     make_ack at (sc_message_id c) ACK_SECURITY_REJECTED (unit_command_name (sc_type c)) (sv_state sv) (sv_state sv)
       (fst reason @ '': '' @ snd reason)"

text \<open>The audit log cannot fail here, so the branch that catches a \<open>RuntimeException\<close> of it is left out.\<close>

definition process_command :: "server_env \<Rightarrow> time \<Rightarrow> time \<Rightarrow> json option \<Rightarrow> command_server \<Rightarrow> command_ack \<times> command_server" where
  "process_command env now at msg sv = (case parse_message env msg of
      Inl e \<Rightarrow> (make_ack at ''UNKNOWN'' ACK_INVALID ''UNKNOWN'' (sv_state sv) (sv_state sv) e, sv)
    | Inr c \<Rightarrow>
        if \<not> verify_signature env c
        then (make_ack at (sc_message_id c) ACK_UNAUTHORIZED (unit_command_name (sc_type c)) (sv_state sv) (sv_state sv)
                ''HMAC-SHA256 signature verification failed.'', sv)
        else (case map_of (sv_cache sv) (sc_message_id c) of
            Some (sig, ack) \<Rightarrow> if sig = sc_signature c then (ack, sv) 
              else (security_rejected at c (''MESSAGE_ID_COLLISION'', ''The message ID was previously used with different authenticated content.'') sv, sv)
          | None \<Rightarrow> (case validate_and_record now c sv of
                (Some reason, sv1) \<Rightarrow> (security_rejected at c reason sv1, sv1)
              | (None, sv1) \<Rightarrow> (case execute at c sv1 of
                    (ack, sv2) \<Rightarrow> (ack, cache_store (sc_message_id c) (sc_signature c) ack sv2)))))"

text \<open>One line of a connection: the acknowledgement, or nothing when the first one is dropped on purpose.\<close>

definition handle_line :: "server_env \<Rightarrow> time \<Rightarrow> time \<Rightarrow> json option \<Rightarrow> command_server \<Rightarrow> command_ack option \<times> command_server" where
  "handle_line env now at msg sv = (case process_command env now at msg sv of
      (ack, sv1) \<Rightarrow> if sv_drop_first sv1 = Some (ak_message_id ack) \<and> ak_message_id ack \<notin> set (sv_dropped sv1)
        then (None, sv1\<lparr>sv_dropped := ak_message_id ack # sv_dropped sv1\<rparr>)
        else (Some ack, sv1))"

definition ack_json :: "command_ack \<Rightarrow> json" where
  "ack_json a = JObj [(''messageId'', JStr (ak_message_id a)), (''status'', JStr (ack_status_name (ak_status a))),
     (''commandType'', JStr (ak_command_type a)), (''previousState'', JStr (ak_previous_state a)),
     (''currentState'', JStr (ak_current_state a)), (''message'', JStr (ak_message a)),
     (''processedAt'', JStr (instant_text (ak_processed_at a)))]"

section \<open>The station and the unit\<close>

text \<open>What the network does to one attempt, and the times the unit reads while it handles it.\<close>

datatype link = LinkDown | RequestLost | ReplyLost | LinkUp

type_synonym link_schedule = "(link \<times> time \<times> time) list"

definition command_json :: "station_command \<Rightarrow> json" where
  "command_json c = JObj [(''message_id'', JStr (cm_message_id c)), (''command_type'', JStr (cm_command_type c)),
     (''target_id'', JStr (cm_target_id c)), (''sequence_number'', JInt (cm_sequence_number c)),
     (''timestamp'', JStr (cm_timestamp c)), (''payload'', JObj (map (\<lambda>(k, v). (k, JStr v)) (cm_payload c))),
     (''signature'', JStr (cm_signature c))]"

fun station_net :: "server_env \<Rightarrow> (string \<Rightarrow> json option) \<Rightarrow> command_server \<times> link_schedule \<Rightarrow> string \<Rightarrow>
    attempt_outcome \<times> command_server \<times> link_schedule" where
  "station_net env decode (sv, []) line = (SocketError ''Connection refused'', sv, [])"
| "station_net env decode (sv, (LinkDown, now, at) # rest) line = (SocketError ''Connection refused'', sv, rest)"
| "station_net env decode (sv, (RequestLost, now, at) # rest) line = (SocketError ''timed out'', sv, rest)"
| "station_net env decode (sv, (ReplyLost, now, at) # rest) line =
     (SocketError ''timed out'', snd (handle_line env now at (decode line) sv), rest)"
| "station_net env decode (sv, (LinkUp, now, at) # rest) line = (case handle_line env now at (decode line) sv of
      (None, sv1) \<Rightarrow> (StreamEnded, sv1, rest)
    | (Some ack, sv1) \<Rightarrow> (LineReceived (Some (ack_json ack)), sv1, rest))"

end
