(* ===== verification/Station_Claims.thy ===== *)
theory Station_Claims
  imports Command_Server Wire
begin

text \<open>
  The properties of the command simulator: delivery ends after three attempts, a signature covers every field of a
  command, a command is executed once although acknowledgements are lost, and the history of the unit explains its
  state. Two clauses show where the station and the unit disagree.
\<close>

section \<open>Attempts\<close>

definition next_attempt :: "('s \<Rightarrow> string \<Rightarrow> attempt_outcome \<times> 's) \<Rightarrow> station_command \<Rightarrow> 's \<Rightarrow> 's" where
  "next_attempt net c s = snd (send_one_attempt net c s)"

definition nth_attempt :: "('s \<Rightarrow> string \<Rightarrow> attempt_outcome \<times> 's) \<Rightarrow> station_command \<Rightarrow> 's \<Rightarrow> nat \<Rightarrow> attempt_result" where
  "nth_attempt net c s k = fst (send_one_attempt net c ((next_attempt net c ^^ k) s))"

lemma nth_attempt_Suc: "nth_attempt net c s (Suc k) = nth_attempt net c (next_attempt net c s) k"
  by (simp add: nth_attempt_def funpow_swap1)

lemma retry_from_spec:
  assumes "retry_from net c (Suc left) e0 s = (res, events, s')"
  shows "\<exists>n\<le>left. (\<forall>k<n. \<exists>e. nth_attempt net c s k = Caught e)
    \<and> (case nth_attempt net c s n of
        Answered j \<Rightarrow> res = (if printable_ack j then Inr j else Inl (OtherException ''KeyError''))
      | Uncaught e \<Rightarrow> res = Inl (OtherException e)
      | Caught e \<Rightarrow> n = left \<and> res = Inl (ConnectionError e))
    \<and> events = Attempted (command_line c) # concat (replicate n [Slept, Attempted (command_line c)])
    \<and> s' = (next_attempt net c ^^ Suc n) s"
  using assms
proof (induction left arbitrary: e0 s events)
  case 0
  then show ?case
    by (auto simp: nth_attempt_def next_attempt_def split: prod.splits attempt_result.splits)
next
  case (Suc left)
  obtain r s1 where one: "send_one_attempt net c s = (r, s1)" by fastforce
  then have here: "nth_attempt net c s 0 = r" "next_attempt net c s = s1" by (simp_all add: nth_attempt_def next_attempt_def)
  show ?case
  proof (cases r)
    case (Caught e)
    obtain events1 where rest: "retry_from net c (Suc left) e s1 = (res, events1, s')"
      and events: "events = Attempted (command_line c) # Slept # events1"
      using Suc.prems one Caught by (auto simp del: retry_from.simps(2) simp: retry_from.simps(2) [of net c "Suc left"] split: prod.splits)
    obtain n where n: "n \<le> left" "\<forall>k<n. \<exists>e. nth_attempt net c s1 k = Caught e"
      "case nth_attempt net c s1 n of
        Answered j \<Rightarrow> res = (if printable_ack j then Inr j else Inl (OtherException ''KeyError''))
      | Uncaught e \<Rightarrow> res = Inl (OtherException e)
      | Caught e \<Rightarrow> n = left \<and> res = Inl (ConnectionError e)"
      "events1 = Attempted (command_line c) # concat (replicate n [Slept, Attempted (command_line c)])"
      "s' = (next_attempt net c ^^ Suc n) s1"
      using Suc.IH [OF rest] by blast
    have "\<forall>k<Suc n. \<exists>e. nth_attempt net c s k = Caught e"
      using n(2) here Caught by (auto simp: less_Suc_eq_0_disj nth_attempt_Suc)
    then show ?thesis
      using n here events by (intro exI [of _ "Suc n"]) (auto simp: nth_attempt_Suc funpow_swap1 split: attempt_result.splits)
  next
    case (Answered j)
    then show ?thesis using Suc.prems one here by (intro exI [of _ 0]) auto
  next
    case (Uncaught e)
    then show ?thesis using Suc.prems one here by (intro exI [of _ 0]) auto
  qed
qed

lemma send_spec:
  "\<exists>n<3. \<exists>res. send_command_with_retry net c s =
      (res, Attempted (command_line c) # concat (replicate n [Slept, Attempted (command_line c)]), (next_attempt net c ^^ Suc n) s)
    \<and> (\<forall>k<n. \<exists>e. nth_attempt net c s k = Caught e)
    \<and> (case nth_attempt net c s n of
        Answered j \<Rightarrow> res = (if printable_ack j then Inr j else Inl (OtherException ''KeyError''))
      | Uncaught e \<Rightarrow> res = Inl (OtherException e)
      | Caught e \<Rightarrow> n = 2 \<and> res = Inl (ConnectionError e))"
proof -
  obtain res events s' where run: "retry_from net c (Suc 2) ''None'' s = (res, events, s')" by (metis prod_cases3)
  then have "send_command_with_retry net c s = (res, events, s')"
    by (simp add: send_command_with_retry_def MAX_ACK_ATTEMPTS_def numeral_3_eq_3 numeral_2_eq_2)
  then show ?thesis
    using retry_from_spec [OF run] by (elim exE conjE) (rule exI, rule conjI [rotated], rule exI [of _ res], auto)
qed

text \<open>C32: delivery ends. Whatever the network does, sending a command returns after one to three attempts: every attempt
  but the last failed in a way that is retried, each sends the very same line, and the station waits once between two
  attempts. The last attempt decides: its answer is returned if it can be printed, an exception of another kind leaves the
  function, and three failures raise the connection error of the last one.\<close>

theorem delivery_ends:
  "\<exists>n<3. \<exists>res. send_command_with_retry net c s =
      (res, Attempted (command_line c) # concat (replicate n [Slept, Attempted (command_line c)]), (next_attempt net c ^^ Suc n) s)
    \<and> (\<forall>k<n. \<exists>e. nth_attempt net c s k = Caught e)
    \<and> (case nth_attempt net c s n of
        Answered j \<Rightarrow> res = (if printable_ack j then Inr j else Inl (OtherException ''KeyError''))
      | Uncaught e \<Rightarrow> res = Inl (OtherException e)
      | Caught e \<Rightarrow> n = 2 \<and> res = Inl (ConnectionError e))"
  by (rule send_spec)

definition silent_net :: "nat \<Rightarrow> string \<Rightarrow> attempt_outcome \<times> nat" where
  "silent_net n line = (SocketError ''timed out'', Suc n)"

definition unheard_command :: station_command where
  "unheard_command = create_command (\<lambda>_ _. []) 0 ''CMD-000001'' ''START_SYSTEM'' 1 ''0123456789abcdef'' []"

lemma silent_attempts:
  "nth_attempt silent_net c n k = Caught ''timed out''" "(next_attempt silent_net c ^^ k) n = n + k"
proof -
  have "send_one_attempt silent_net c m = (Caught ''timed out'', Suc m)" for m
    by (simp add: send_one_attempt_def silent_net_def)
  then show "nth_attempt silent_net c n k = Caught ''timed out''" "(next_attempt silent_net c ^^ k) n = n + k"
    by (simp_all add: nth_attempt_def) (induction k, simp_all add: next_attempt_def)
qed

theorem delivery_ends_witness:
  "\<exists>events. send_command_with_retry silent_net unheard_command 0 = (Inl (ConnectionError ''timed out''), events, 3)
    \<and> length events = 5"
proof -
  obtain n res where "n < 3" and run: "send_command_with_retry silent_net unheard_command 0 = (res,
      Attempted (command_line unheard_command) # concat (replicate n [Slept, Attempted (command_line unheard_command)]), 0 + Suc n)"
    and outcome: "n = 2 \<and> res = Inl (ConnectionError ''timed out'')"
    using delivery_ends [of silent_net unheard_command 0] unfolding silent_attempts by auto
  then show ?thesis by (simp add: numeral_2_eq_2)
qed

lemma refusal_is_wrapped:
  assumes "send_command_with_retry net c s = (res, events, s')"
  shows "res \<noteq> Inl ConnectionRefused"
proof -
  obtain n res' where "send_command_with_retry net c s = (res', Attempted (command_line c) # concat (replicate n [Slept, Attempted (command_line c)]), (next_attempt net c ^^ Suc n) s)"
    and outcome: "case nth_attempt net c s n of
        Answered j \<Rightarrow> res' = (if printable_ack j then Inr j else Inl (OtherException ''KeyError''))
      | Uncaught e \<Rightarrow> res' = Inl (OtherException e) | Caught e \<Rightarrow> n = 2 \<and> res' = Inl (ConnectionError e)"
    using send_spec [of net c s] by blast
  then have "res = res'" using assms by simp
  with outcome show ?thesis by (cases "nth_attempt net c s n") auto
qed

lemma send_all_no_refusal: "fst (send_all net cs s) \<noteq> Inl ConnectionRefused"
proof (induction net cs s rule: send_all.induct)
  case (2 net c cs s)
  obtain res events s' where run: "send_command_with_retry net c s = (res, events, s')" by (metis prod_cases3)
  have "fst (send_all net cs s') \<noteq> Inl ConnectionRefused" if "res = Inr j" for j
    by (rule 2 [OF run [symmetric] that refl])
  moreover obtain r s2 where "send_all net cs s' = (r, s2)" by fastforce
  ultimately show ?case
    using refusal_is_wrapped [OF run] run by (cases res; cases r) auto
qed simp

text \<open>The hint to start the server is never printed. A refused connection is an \<open>OSError\<close>, so the retry loop takes it
  and raises a plain connection error; the handler of \<open>main\<close> for a refused connection cannot be reached.\<close>

theorem start_server_hint_unreachable:
  "fst (station_main hmac clock env net s) \<noteq> StartServerFirst"
proof (cases "get_shared_secret env")
  case (Inr secret)
  obtain r s' where run: "send_all net (station_commands hmac clock secret) s = (r, s')" by fastforce
  then have "r \<noteq> Inl ConnectionRefused" using send_all_no_refusal by (metis fst_conv)
  then show ?thesis using Inr run by (auto simp: station_main_def split: sum.splits station_exception.splits)
qed (simp add: station_main_def)

section \<open>The history of the unit\<close>

text \<open>The command a message makes the unit execute, if it does: one that is parsed, signed, not answered from the cache
  and accepted by the replay protection.\<close>

definition executed :: "server_env \<Rightarrow> time \<Rightarrow> json option \<Rightarrow> command_server \<Rightarrow> server_command option" where
  "executed env now msg sv = (case parse_message env msg of
      Inl _ \<Rightarrow> None
    | Inr c \<Rightarrow> if verify_signature env c \<and> map_of (sv_cache sv) (sc_message_id c) = None \<and> fst (validate_and_record now c sv) = None
        then Some c else None)"

definition next_state :: "unit_state \<Rightarrow> server_command \<Rightarrow> unit_state" where
  "next_state s c = (case process_type (sc_type c) s of Inl _ \<Rightarrow> s | Inr (s', _) \<Rightarrow> s')"

lemma validate_accepts:
  "validate_and_record now c sv = (None, sv') \<longleftrightarrow> timestamp_in_window now (sc_timestamp c) \<and> sc_message_id c \<notin> set (sv_processed sv)
    \<and> highest_sequence sv (sc_target c) < sc_sequence c
    \<and> sv' = sv\<lparr>sv_processed := sc_message_id c # sv_processed sv,
        sv_highest := AList.update (sc_target c) (sc_sequence c) (sv_highest sv)\<rparr>"
  by (auto simp: validate_and_record_def timestamp_in_window_def)

lemma validate_rejects: "validate_and_record now c sv = (Some r, sv') \<Longrightarrow> sv' = sv"
  by (auto simp: validate_and_record_def split: if_splits)

lemma execute_result:
  "execute at c sv = (ack, sv') \<Longrightarrow> sv' = sv\<lparr>sv_state := next_state (sv_state sv) c\<rparr> \<and> ak_message_id ack = sc_message_id c
    \<and> ak_previous_state ack = unit_state_name (sv_state sv) \<and> ak_current_state ack = unit_state_name (sv_state sv')
    \<and> ak_status ack = (if isl (process_type (sc_type c) (sv_state sv)) then ACK_REJECTED else ACK_ACCEPTED)"
  by (auto simp: execute_def next_state_def make_ack_def split: sum.splits prod.splits)

lemma process_command_step:
  assumes "process_command env now at msg sv = (ack, sv')"
  shows "case executed env now msg sv of
      None \<Rightarrow> sv' = sv
    | Some c \<Rightarrow> verify_signature env c \<and> timestamp_in_window now (sc_timestamp c) \<and> sc_message_id c \<notin> set (sv_processed sv)
        \<and> highest_sequence sv (sc_target c) < sc_sequence c
        \<and> ak_message_id ack = sc_message_id c \<and> ak_previous_state ack = unit_state_name (sv_state sv)
        \<and> ak_current_state ack = unit_state_name (sv_state sv')
        \<and> ak_status ack = (if isl (process_type (sc_type c) (sv_state sv)) then ACK_REJECTED else ACK_ACCEPTED)
        \<and> sv' = sv\<lparr>sv_state := next_state (sv_state sv) c, sv_processed := sc_message_id c # sv_processed sv,
            sv_highest := AList.update (sc_target c) (sc_sequence c) (sv_highest sv),
            sv_cache := (sc_message_id c, sc_signature c, ack) # sv_cache sv\<rparr>"
proof (cases "executed env now msg sv")
  case None
  then show ?thesis
    using assms validate_rejects
    by (fastforce simp: process_command_def executed_def split: sum.splits if_splits option.splits prod.splits)
next
  case (Some c)
  then have parsed: "parse_message env msg = Inr c" "verify_signature env c" "map_of (sv_cache sv) (sc_message_id c) = None"
    "fst (validate_and_record now c sv) = None"
    by (auto simp: executed_def split: sum.splits if_splits)
  obtain sv1 where v: "validate_and_record now c sv = (None, sv1)" using parsed(4) by (metis prod.collapse)
  obtain sv2 where e: "execute at c sv1 = (ack, sv2)" "sv' = cache_store (sc_message_id c) (sc_signature c) ack sv2"
    using assms parsed v by (auto simp: process_command_def split: prod.splits)
  then show ?thesis
    using Some parsed(2,3) v [unfolded validate_accepts] execute_result [OF e(1)] by (simp add: cache_store_def)
qed

lemma handle_line_step:
  assumes "handle_line env now at msg sv = (reply, sv')"
  obtains ack sv1 where "process_command env now at msg sv = (ack, sv1)" and "\<exists>dropped. sv' = sv1\<lparr>sv_dropped := dropped\<rparr>"
    and "reply = None \<or> reply = Some ack"
    and "sv_drop_first sv \<noteq> Some (ak_message_id ack) \<Longrightarrow> reply = Some ack"
proof -
  obtain ack sv1 where run: "process_command env now at msg sv = (ack, sv1)" by fastforce
  have "sv_drop_first sv1 = sv_drop_first sv"
    using process_command_step [OF run] by (auto split: option.splits)
  moreover have "sv1\<lparr>sv_dropped := sv_dropped sv1\<rparr> = sv1" by simp
  ultimately show ?thesis
    using assms run by (intro that [of ack sv1]) (auto simp: handle_line_def split: if_splits intro: exI [of _ "sv_dropped sv1"])
qed

text \<open>The lines the unit reads, whoever sent them, and the commands it executed.\<close>

inductive unit_run :: "server_env \<Rightarrow> server_command list \<Rightarrow> command_server \<Rightarrow> bool" for env where
  unit_start: "unit_run env [] (new_server dropping)"
| unit_line: "unit_run env h sv \<Longrightarrow> handle_line env now at msg sv = (reply, sv') \<Longrightarrow>
    unit_run env (h @ (case executed env now msg sv of None \<Rightarrow> [] | Some c \<Rightarrow> [c])) sv'"

definition history_explains :: "server_env \<Rightarrow> server_command list \<Rightarrow> command_server \<Rightarrow> bool" where
  "history_explains env h sv \<longleftrightarrow>
     sv_state sv = foldl next_state UNIT_OFFLINE h \<and> list_all (verify_signature env) h
     \<and> distinct (map sc_message_id h) \<and> set (sv_processed sv) = sc_message_id ` set h
     \<and> sorted_wrt (\<lambda>a b. sc_target a = sc_target b \<longrightarrow> sc_sequence a < sc_sequence b) h
     \<and> (\<forall>c\<in>set h. sc_sequence c \<le> highest_sequence sv (sc_target c))
     \<and> fst ` set (sv_cache sv) = sc_message_id ` set h
     \<and> (\<forall>c\<in>set h. \<exists>ack. map_of (sv_cache sv) (sc_message_id c) = Some (sc_signature c, ack) \<and> ak_message_id ack = sc_message_id c)"

lemma history_step:
  assumes "history_explains env h sv" and "verify_signature env c" and "sc_message_id c \<notin> set (sv_processed sv)"
    and "highest_sequence sv (sc_target c) < sc_sequence c" and "ak_message_id ack = sc_message_id c"
  shows "history_explains env (h @ [c]) (sv\<lparr>sv_state := next_state (sv_state sv) c, sv_processed := sc_message_id c # sv_processed sv,
      sv_highest := AList.update (sc_target c) (sc_sequence c) (sv_highest sv),
      sv_cache := (sc_message_id c, sc_signature c, ack) # sv_cache sv\<rparr>)"
proof -
  have high: "highest_sequence (sv\<lparr>sv_state := next_state (sv_state sv) c, sv_processed := sc_message_id c # sv_processed sv,
      sv_highest := AList.update (sc_target c) (sc_sequence c) (sv_highest sv),
      sv_cache := (sc_message_id c, sc_signature c, ack) # sv_cache sv\<rparr>) t =
      (if t = sc_target c then sc_sequence c else highest_sequence sv t)" for t
    by (simp add: highest_sequence_def update_conv')
  have new: "sc_message_id d \<noteq> sc_message_id c" if "d \<in> set h" for d
    using assms(1,3) imageI [OF that, of sc_message_id] by (auto simp: history_explains_def)
  have less: "sc_sequence d < sc_sequence c" if "d \<in> set h" "sc_target d = sc_target c" for d
    using assms(1,4) that by (force simp: history_explains_def)
  show ?thesis
    using assms(1,2,5) new new [symmetric] less unfolding history_explains_def high
    by (auto simp: sorted_wrt_append image_iff dest: less_imp_le)
qed

text \<open>C35: the history of the unit explains its state. Whatever lines the unit has read, its state is what the table of
  transitions gives for the commands it executed, one after the other from \<open>OFFLINE\<close>; every one of them carries a
  valid signature, no message identifier was executed twice, the sequence numbers of a target increase, and for each the
  acknowledgement is cached under its identifier and signature.\<close>

theorem unit_history_explains_state:
  assumes "unit_run env h sv"
  shows "sv_state sv = foldl next_state UNIT_OFFLINE h \<and> list_all (verify_signature env) h
    \<and> distinct (map sc_message_id h)
    \<and> sorted_wrt (\<lambda>a b. sc_target a = sc_target b \<longrightarrow> sc_sequence a < sc_sequence b) h
    \<and> (\<forall>c\<in>set h. \<exists>ack. map_of (sv_cache sv) (sc_message_id c) = Some (sc_signature c, ack) \<and> ak_message_id ack = sc_message_id c)"
proof -
  have "history_explains env h sv"
    using assms
  proof (induction rule: unit_run.induct)
    case (unit_start dropping)
    then show ?case by (simp add: history_explains_def new_server_def)
  next
    case (unit_line h sv now at msg reply sv')
    obtain ack sv1 where one: "process_command env now at msg sv = (ack, sv1)" "\<exists>dropped. sv' = sv1\<lparr>sv_dropped := dropped\<rparr>"
      using handle_line_step [OF unit_line.hyps(2)] by metis
    have keep: "history_explains env k (sv1\<lparr>sv_dropped := dropped\<rparr>) = history_explains env k sv1" for k dropped
      by (simp add: history_explains_def highest_sequence_def)
    show ?case
      using process_command_step [OF one(1)] one(2) history_step [OF unit_line.IH] unit_line.IH keep
      by (cases "executed env now msg sv") auto
  qed
  then show ?thesis by (simp add: history_explains_def)
qed

end
