(* ===== verification/Delivery_Claims.thy ===== *)
theory Delivery_Claims
  imports Station_Claims
begin

text \<open>
  Station and unit together: what the unit reads of a command the station created, when it accepts the signature, and
  that a command is executed at most once whatever the network does to its delivery.
\<close>

section \<open>Texts\<close>

lemma digit_not: "d < 10 \<Longrightarrow> digit_char d \<noteq> CHR ''+''" "d < 10 \<Longrightarrow> digit_char d \<noteq> CHR 10" "d < 10 \<Longrightarrow> \<not> of_char (digit_char d) \<le> (32::nat)"
  using of_digit_char [of d] by auto

lemma length_pad_digits [simp]: "length (pad_digits w n) = w"
  by (induction w n rule: pad_digits.induct) simp_all

lemma set_pad_digits: "set (pad_digits w n) \<subseteq> digit_char ` {..<10}"
  by (induction w n rule: pad_digits.induct) auto

lemma set_str_nat: "set (str_nat n) \<subseteq> digit_char ` {..<10}"
  by (induction n rule: str_nat.induct) (subst str_nat.simps, auto)

text \<open>The characters of a time.\<close>

definition time_chars :: "char set" where
  "time_chars = digit_char ` {..<10} \<union> {CHR ''-'', CHR '':'', CHR ''T'', CHR ''.'', CHR ''Z''}"

lemma time_chars_not: "c \<in> time_chars \<Longrightarrow> c \<noteq> CHR ''+'' \<and> c \<noteq> CHR 10 \<and> \<not> of_char c \<le> (32::nat)"
  using digit_not by (auto simp: time_chars_def)

lemma date_text_chars: "set (date_text s) \<subseteq> time_chars"
proof -
  have "set (pad_digits w n) \<subseteq> time_chars" for w n using set_pad_digits by (auto simp: time_chars_def)
  then show ?thesis by (auto simp: date_text_def time_chars_def Let_def split: prod.splits)
qed

lemma date_text_nonempty [simp]: "date_text s \<noteq> []"
  by (simp add: date_text_def Let_def split: prod.splits)

lemma replace_suffix: "CHR ''+'' \<notin> set p \<Longrightarrow> str_replace ''+00:00'' ''Z'' (p @ ''+00:00'') = p @ ''Z''"
proof (induction p)
  case Nil
  then show ?case by (simp add: str_replace.simps)
next
  case (Cons c p)
  then have "c \<noteq> CHR ''+''" by auto
  with Cons show ?case by (subst str_replace.simps) simp
qed

definition fraction_6 :: "time \<Rightarrow> string" where
  "fraction_6 t = (if microseconds t = 0 then [] else ''.'' @ pad_digits 6 (microseconds t))"

lemma fraction_chars: "set (fraction_6 t) \<subseteq> time_chars"
  using set_pad_digits [of 6 "microseconds t"] by (auto simp: fraction_6_def time_chars_def)

lemma utc_timestamp_text: "utc_timestamp t = date_text (t div 1000000) @ fraction_6 t @ ''Z''"
proof -
  have "CHR ''+'' \<notin> set (date_text (t div 1000000) @ fraction_6 t)"
    using subsetD [OF date_text_chars] subsetD [OF fraction_chars] time_chars_not by (metis Un_iff set_append)
  from replace_suffix [OF this] show ?thesis by (simp add: utc_timestamp_def isoformat_def fraction_6_def)
qed

lemma utc_timestamp_chars: "set (utc_timestamp t) \<subseteq> time_chars"
  using date_text_chars fraction_chars by (auto simp: utc_timestamp_text time_chars_def)

lemma trim_visible: "(\<And>c. c \<in> set s \<Longrightarrow> \<not> of_char c \<le> (32::nat)) \<Longrightarrow> java_trim s = s"
proof -
  have keep: "dropWhile P s = s" if "\<And>c. c \<in> set s \<Longrightarrow> \<not> P c" for P and s :: string
    using that by (cases s) auto
  assume "\<And>c. c \<in> set s \<Longrightarrow> \<not> of_char c \<le> (32::nat)"
  then have "dropWhile (\<lambda>c. of_char c \<le> (32::nat)) s = s" "dropWhile (\<lambda>c. of_char c \<le> (32::nat)) (rev s) = rev s"
    by (auto intro!: keep)
  then show ?thesis by (simp add: java_trim_def rstrip_def lstrip_def)
qed

lemma instant_text_eq:
  "instant_text t = utc_timestamp t \<longleftrightarrow> microseconds t = 0 \<or> microseconds t mod 1000 \<noteq> 0"
proof (cases "microseconds t = 0 \<or> microseconds t mod 1000 \<noteq> 0")
  case True
  then show ?thesis by (auto simp: instant_text_def utc_timestamp_text fraction_6_def)
next
  case False
  then have "length (instant_text t) \<noteq> length (utc_timestamp t)"
    by (auto simp: instant_text_def utc_timestamp_text fraction_6_def)
  then show ?thesis using False by auto
qed

section \<open>What the unit reads\<close>

lemma hex_visible: "is_hex64 s \<Longrightarrow> s \<noteq> [] \<and> java_trim s = s \<and> lower s = s"
proof -
  assume hex: "is_hex64 s"
  have ch: "(48 \<le> (of_char c :: nat) \<and> of_char c \<le> (57::nat)) \<or> (97 \<le> (of_char c :: nat) \<and> of_char c \<le> (102::nat))" if "c \<in> set s" for c
    using hex that by (auto simp: is_hex64_def list_all_iff less_eq_char_def)
  have "lower_char c = c" if "c \<in> set s" for c using ch [OF that] by (auto simp: lower_char_def Let_def)
  then have "lower s = s" unfolding lower_def by (simp add: map_idI)
  moreover have "java_trim s = s" by (rule trim_visible) (use ch in fastforce)
  ultimately show ?thesis using hex by (auto simp: is_hex64_def)
qed

text \<open>A command that the station creates and the unit can read: a name of the enumeration, a positive long, an identifier
  without blanks around it, and libraries that do what they document.\<close>

definition readable :: "server_env \<Rightarrow> time \<Rightarrow> string \<Rightarrow> int \<Rightarrow> station_command \<Rightarrow> bool" where
  "readable env now i seq c \<longleftrightarrow> i \<noteq> [] \<and> java_trim i = i \<and> 1 \<le> seq \<and> seq < 2 ^ 63
     \<and> se_parse_instant env (utc_timestamp now) = Some now \<and> is_hex64 (cm_signature c)"

abbreviation station_payload :: "payload \<Rightarrow> (string \<times> json) list" where
  "station_payload d \<equiv> map (\<lambda>(k, v). (k, JStr v)) d"

lemma unit_command_names: "unit_command_of (unit_command_name ty) = Some ty" "java_trim (unit_command_name ty) = unit_command_name ty"
  "unit_command_name ty \<noteq> []" "java_trim TARGET_ID = TARGET_ID"
proof -
  show "unit_command_of (unit_command_name ty) = Some ty" "unit_command_name ty \<noteq> []"
    by (cases ty; simp add: unit_command_of_def unit_command_name_def)+
  show "java_trim (unit_command_name ty) = unit_command_name ty" "java_trim TARGET_ID = TARGET_ID"
    by (rule trim_visible; cases ty; auto simp: unit_command_name_def TARGET_ID_def)+
qed

lemma parse_created:
  assumes "c = create_command (se_hmac env) now i (unit_command_name ty) seq (se_secret env) d" and "readable env now i seq c"
  shows "parse_message env (Some (command_json c)) = Inr \<lparr>sc_message_id = i, sc_type = ty, sc_target = TARGET_ID, sc_sequence = seq,
      sc_timestamp = now, sc_payload = station_payload d, sc_signature = cm_signature c\<rparr>"
proof -
  have stamp: "java_trim (utc_timestamp now) = utc_timestamp now" "utc_timestamp now \<noteq> []"
    using trim_visible [of "utc_timestamp now"] utc_timestamp_chars time_chars_not by (auto simp: utc_timestamp_text)
  have fields: "cm_message_id c = i" "cm_command_type c = unit_command_name ty" "cm_target_id c = TARGET_ID"
    "cm_sequence_number c = seq" "cm_timestamp c = utc_timestamp now" "cm_payload c = d"
    using assms(1) by (simp_all add: create_command_def Let_def)
  have target: "TARGET_ID \<noteq> []" by (simp add: TARGET_ID_def)
  show ?thesis
    using assms(2) hex_visible [of "cm_signature c"] unfolding readable_def
    by (simp add: parse_message_def command_json_def fields ALLOWED_FIELDS_def require_text_def require_signature_def
        require_positive_long_def parse_payload_def stamp target unit_command_names)
qed

text \<open>C34: when the unit accepts the signature of the station. The unit reads every field of a command the station created,
  and both sign the same text exactly if the microseconds of the time are zero or not a multiple of 1000: Python writes all
  six digits, the unit prints the instant with as few as needed. For the other times, one in a thousand, the unit answers
  \<open>UNAUTHORIZED\<close> to a genuine command, unless the two texts collide under HMAC, and its state stays as it is.\<close>

theorem genuine_command_refused:
  assumes "c = create_command (se_hmac env) now i (unit_command_name ty) seq (se_secret env) d" and "readable env now i seq c"
    and "se_payload_text env (station_payload d) = json_dict (sort_key fst d)"
  shows "\<exists>m. parse_message env (Some (command_json c)) = Inr m \<and> sc_message_id m = i \<and> sc_type m = ty \<and> sc_sequence m = seq
    \<and> (server_canonical env m = create_canonical_message c \<longleftrightarrow> microseconds now = 0 \<or> microseconds now mod 1000 \<noteq> 0)
    \<and> (verify_signature env m \<longleftrightarrow>
        se_hmac env (se_secret env) (server_canonical env m) = se_hmac env (se_secret env) (create_canonical_message c))
    \<and> (se_hmac env (se_secret env) (server_canonical env m) \<noteq> se_hmac env (se_secret env) (create_canonical_message c)
        \<longrightarrow> ak_status (fst (process_command env clock at (Some (command_json c)) sv)) = ACK_UNAUTHORIZED
          \<and> snd (process_command env clock at (Some (command_json c)) sv) = sv)"
proof -
  let ?m = "\<lparr>sc_message_id = i, sc_type = ty, sc_target = TARGET_ID, sc_sequence = seq,
      sc_timestamp = now, sc_payload = station_payload d, sc_signature = cm_signature c\<rparr>"
  have parsed: "parse_message env (Some (command_json c)) = Inr ?m" by (rule parse_created [OF assms(1,2)])
  have canon: "create_canonical_message c = join [CHR 10] [i, unit_command_name ty, TARGET_ID, str_int seq, utc_timestamp now,
      json_dict (sort_key fst d)]"
    "cm_signature c = se_hmac env (se_secret env) (create_canonical_message c)"
    by (simp_all add: assms(1) create_command_def calculate_signature_def create_canonical_message_def Let_def)
  have "server_canonical env ?m = create_canonical_message c \<longleftrightarrow> instant_text now = utc_timestamp now"
    by (simp add: canon(1) server_canonical_def assms(3))
  moreover have "verify_signature env ?m \<longleftrightarrow>
      se_hmac env (se_secret env) (server_canonical env ?m) = se_hmac env (se_secret env) (create_canonical_message c)"
    by (simp add: verify_signature_def canon(2))
  ultimately show ?thesis
    using parsed instant_text_eq [of now]
    by (intro exI [of _ ?m]) (auto simp: process_command_def make_ack_def)
qed

section \<open>Executed once\<close>

definition good_ack :: "command_server \<Rightarrow> server_command \<Rightarrow> command_ack \<Rightarrow> bool" where
  "good_ack sv m ack \<longleftrightarrow> ak_message_id ack = sc_message_id m \<and> ak_previous_state ack = unit_state_name (sv_state sv)
     \<and> ak_current_state ack = unit_state_name (next_state (sv_state sv) m)
     \<and> ak_status ack = (if isl (process_type (sc_type m) (sv_state sv)) then ACK_REJECTED else ACK_ACCEPTED)"

definition after_execution :: "command_server \<Rightarrow> server_command \<Rightarrow> command_ack \<Rightarrow> string list \<Rightarrow> command_server" where
  "after_execution sv m ack dropped = sv\<lparr>sv_state := next_state (sv_state sv) m, sv_processed := sc_message_id m # sv_processed sv,
     sv_highest := AList.update (sc_target m) (sc_sequence m) (sv_highest sv),
     sv_cache := (sc_message_id m, sc_signature m, ack) # sv_cache sv, sv_dropped := dropped\<rparr>"

definition delivered :: "command_server \<Rightarrow> server_command \<Rightarrow> command_ack \<Rightarrow> command_server \<Rightarrow> bool" where
  "delivered sv m ack sv' \<longleftrightarrow> good_ack sv m ack \<and> (\<exists>dropped. sv' = after_execution sv m ack dropped)"

text \<open>A command the unit can execute now: read, signed, new, and next in sequence.\<close>

definition executable :: "server_env \<Rightarrow> station_command \<Rightarrow> server_command \<Rightarrow> command_server \<Rightarrow> bool" where
  "executable env c m sv \<longleftrightarrow> parse_message env (Some (command_json c)) = Inr m \<and> verify_signature env m
     \<and> sc_message_id m \<notin> set (sv_processed sv) \<and> map_of (sv_cache sv) (sc_message_id m) = None
     \<and> highest_sequence sv (sc_target m) < sc_sequence m"

lemma first_execution:
  assumes "executable env c m sv" and "timestamp_in_window now (sc_timestamp m)"
    and "process_command env now at (Some (command_json c)) sv = (ack, sv')"
  shows "delivered sv m ack sv'"
proof -
  have "validate_and_record now m sv = (None, snd (validate_and_record now m sv))"
    using assms(1,2) unfolding executable_def validate_accepts by (auto simp: validate_and_record_def timestamp_in_window_def)
  then have "fst (validate_and_record now m sv) = None" by (metis fst_conv)
  then have "executed env now (Some (command_json c)) sv = Some m"
    using assms(1) by (simp add: executed_def executable_def)
  moreover have "sv\<lparr>sv_state := s, sv_processed := p, sv_highest := h, sv_cache := k\<rparr> =
      sv\<lparr>sv_state := s, sv_processed := p, sv_highest := h, sv_cache := k, sv_dropped := sv_dropped sv\<rparr>" for s p h k by simp
  ultimately show ?thesis
    using process_command_step [OF assms(3)]
    unfolding delivered_def good_ack_def after_execution_def by (auto intro!: exI [of _ "sv_dropped sv"])
qed

lemma repeated_delivery:
  assumes "executable env c m sv" and "delivered sv m ack sv'"
  shows "process_command env now at (Some (command_json c)) sv' = (ack, sv')"
  using assms by (auto simp: delivered_def after_execution_def executable_def process_command_def)

text \<open>One attempt, before or after the execution.\<close>

lemma printable_ack_json: "printable_ack (ack_json a)"
  by (simp add: printable_ack_def ack_json_def)

lemma handled:
  assumes "executable env c m sv" and "sv1 = sv \<or> (\<exists>ack. delivered sv m ack sv1)" and "timestamp_in_window now (sc_timestamp m)"
    and "handle_line env now at (Some (command_json c)) sv1 = (reply, sv2)"
  shows "\<exists>ack. delivered sv m ack sv2 \<and> (reply = None \<or> reply = Some ack)
    \<and> (sv_drop_first sv \<noteq> Some (sc_message_id m) \<longrightarrow> reply = Some ack)"
proof -
  obtain ack sv' where run: "process_command env now at (Some (command_json c)) sv1 = (ack, sv')"
    "\<exists>dropped. sv2 = sv'\<lparr>sv_dropped := dropped\<rparr>" "reply = None \<or> reply = Some ack"
    "sv_drop_first sv1 \<noteq> Some (ak_message_id ack) \<Longrightarrow> reply = Some ack"
    using handle_line_step [OF assms(4)] by metis
  have "delivered sv m ack sv'"
    using assms(2)
  proof
    assume "\<exists>ack. delivered sv m ack sv1"
    then obtain a where "delivered sv m a sv1" ..
    with repeated_delivery [OF assms(1) this, of now at] run(1) show ?thesis by simp
  qed (use first_execution [OF assms(1,3)] run(1) in simp)
  moreover have "sv_drop_first sv1 = sv_drop_first sv"
    using assms(2) by (auto simp: delivered_def after_execution_def)
  moreover have "after_execution sv m ack d\<lparr>sv_dropped := d'\<rparr> = after_execution sv m ack d'" for d d'
    by (simp add: after_execution_def)
  ultimately show ?thesis using run(2-4) unfolding delivered_def good_ack_def by metis
qed

definition delivery_state :: "server_command \<Rightarrow> command_server \<Rightarrow> command_server \<times> link_schedule \<Rightarrow> bool" where
  "delivery_state m sv s \<longleftrightarrow> (fst s = sv \<or> (\<exists>ack. delivered sv m ack (fst s)))
     \<and> (\<forall>(l, now, at)\<in>set (snd s). timestamp_in_window now (sc_timestamp m))"

lemma one_attempt:
  assumes "executable env c m sv" and "decode (command_line c) = Some (command_json c)" and "delivery_state m sv s"
    and "send_one_attempt (station_net env decode) c s = (r, s')"
  shows "delivery_state m sv s' \<and> snd s' = drop 1 (snd s)
    \<and> (case r of Answered j \<Rightarrow> \<exists>ack. delivered sv m ack (fst s') \<and> j = ack_json ack | Caught e \<Rightarrow> True | Uncaught e \<Rightarrow> False)
    \<and> (sv_drop_first sv \<noteq> Some (sc_message_id m) \<and> snd s \<noteq> [] \<and> fst (hd (snd s)) = LinkUp \<longrightarrow> (\<exists>j. r = Answered j))"
proof -
  obtain sv1 sched where s: "s = (sv1, sched)" by fastforce
  show ?thesis
  proof (cases sched)
    case Nil
    then show ?thesis using assms(3,4) s by (auto simp: send_one_attempt_def delivery_state_def)
  next
    case (Cons x rest)
    then obtain l now at where sched: "sched = (l, now, at) # rest" by (metis prod_cases3)
    obtain reply sv2 where h: "handle_line env now at (Some (command_json c)) sv1 = (reply, sv2)" by fastforce
    have win: "timestamp_in_window now (sc_timestamp m)" and pre: "sv1 = sv \<or> (\<exists>ack. delivered sv m ack sv1)"
      using assms(3) s sched by (auto simp: delivery_state_def)
    obtain ack where ack: "delivered sv m ack sv2" "reply = None \<or> reply = Some ack"
      "sv_drop_first sv \<noteq> Some (sc_message_id m) \<longrightarrow> reply = Some ack"
      using handled [OF assms(1) pre win h] by blast
    show ?thesis
      using assms(3,4) s sched ack h assms(2)
      by (cases l; cases reply) (auto simp: send_one_attempt_def delivery_state_def)
  qed
qed

lemma delivery_invariant:
  assumes "executable env c m sv" and "decode (command_line c) = Some (command_json c)"
    and "\<forall>(l, now, at)\<in>set sched. timestamp_in_window now (sc_timestamp m)"
  shows "delivery_state m sv ((next_attempt (station_net env decode) c ^^ k) (sv, sched))
    \<and> snd ((next_attempt (station_net env decode) c ^^ k) (sv, sched)) = drop k sched"
proof (induction k)
  case 0
  then show ?case using assms(3) by (simp add: delivery_state_def)
next
  case (Suc k)
  let ?s = "(next_attempt (station_net env decode) c ^^ k) (sv, sched)"
  have "send_one_attempt (station_net env decode) c ?s = (fst (send_one_attempt (station_net env decode) c ?s), next_attempt (station_net env decode) c ?s)"
    by (simp add: next_attempt_def)
  from one_attempt [where decode = decode and c = c, OF assms(1,2) _ this] show ?case using Suc by (simp add: drop_drop)
qed

text \<open>A whole delivery: the unit executed the command once or not at all, what the station got, and when it got an answer.\<close>

lemma delivery_run:
  assumes "executable env c m sv" and "decode (command_line c) = Some (command_json c)"
    and "\<forall>(l, now, at)\<in>set sched. timestamp_in_window now (sc_timestamp m)"
  shows "\<exists>res events sv' rest. send_command_with_retry (station_net env decode) c (sv, sched) = (res, events, sv', rest)
    \<and> (sv' = sv \<or> (\<exists>ack. delivered sv m ack sv'))
    \<and> (case res of Inl e \<Rightarrow> \<exists>message. e = ConnectionError message | Inr j \<Rightarrow> \<exists>ack. j = ack_json ack \<and> delivered sv m ack sv')
    \<and> (\<forall>k<3. k < length sched \<and> fst (sched ! k) = LinkUp \<and> sv_drop_first sv \<noteq> Some (sc_message_id m) \<longrightarrow> isl res = False)"
proof -
  let ?net = "station_net env decode"
  let ?s = "\<lambda>k. (next_attempt ?net c ^^ k) (sv, sched)"
  note inv = delivery_invariant [where decode = decode and c = c and sched = sched, OF assms]
  obtain n res where n: "n < 3" "send_command_with_retry ?net c (sv, sched) =
        (res, Attempted (command_line c) # concat (replicate n [Slept, Attempted (command_line c)]), ?s (Suc n))"
      "\<forall>k<n. \<exists>e. nth_attempt ?net c (sv, sched) k = Caught e"
    and outcome: "case nth_attempt ?net c (sv, sched) n of
        Answered j \<Rightarrow> res = (if printable_ack j then Inr j else Inl (OtherException ''KeyError''))
      | Uncaught e \<Rightarrow> res = Inl (OtherException e) | Caught e \<Rightarrow> n = 2 \<and> res = Inl (ConnectionError e)"
    using send_spec [of ?net c "(sv, sched)"] by blast
  have "send_one_attempt ?net c (?s k) = (nth_attempt ?net c (sv, sched) k, ?s (Suc k))" for k
    by (simp add: nth_attempt_def next_attempt_def)
  note attempt = one_attempt [where decode = decode and c = c, OF assms(1,2) _ this]
  note last = attempt [of n]
  have answered: "isl res = False"
    if k: "k < 3" "k < length sched" "fst (sched ! k) = LinkUp" "sv_drop_first sv \<noteq> Some (sc_message_id m)" for k
  proof -
    obtain j where j: "nth_attempt ?net c (sv, sched) k = Answered j"
      using attempt [of k] inv [of k] k by (auto simp: hd_drop_conv_nth)
    then have "n \<le> k" using n(3) by (metis attempt_result.distinct(1) not_less)
    then have "\<exists>j. nth_attempt ?net c (sv, sched) n = Answered j"
      using j outcome last inv [of n] k(1) by (cases "n = k") (auto split: attempt_result.splits)
    then show ?thesis using outcome last inv [of n] by (auto simp: printable_ack_json)
  qed
  obtain sv' rest where fin: "?s (Suc n) = (sv', rest)" by fastforce
  have "sv' = sv \<or> (\<exists>ack. delivered sv m ack sv')"
    using inv [of "Suc n"] fin by (simp only: delivery_state_def fst_conv)
  moreover have "case res of Inl e \<Rightarrow> \<exists>message. e = ConnectionError message
      | Inr j \<Rightarrow> \<exists>ack. j = ack_json ack \<and> delivered sv m ack sv'"
    using outcome last inv [of n] fin by (auto simp: printable_ack_json split: attempt_result.splits)
  ultimately show ?thesis using n(2) answered unfolding fin by blast
qed

text \<open>C31: a command is executed at most once although its acknowledgement may be lost. The station sends a command the unit
  can execute over a network that may refuse connections, lose requests or lose replies, and the unit reads it within the
  window of its timestamp. Then the unit executes the command once or not at all; an acknowledgement the station returns
  is that of the one execution, with its status and both states, even when it came with a retry; a connection error says
  nothing more than that; and if one of the three attempts finds the network up, the station returns the acknowledgement.\<close>

theorem command_executed_once:
  assumes "executable env c m sv" and "decode (command_line c) = Some (command_json c)"
    and "\<forall>(l, now, at)\<in>set sched. timestamp_in_window now (sc_timestamp m)"
  shows "\<exists>res events sv' rest. send_command_with_retry (station_net env decode) c (sv, sched) = (res, events, sv', rest)
    \<and> (sv_processed sv' = sv_processed sv \<and> sv_state sv' = sv_state sv
       \<or> sv_processed sv' = sc_message_id m # sv_processed sv \<and> sv_state sv' = next_state (sv_state sv) m)
    \<and> (case res of Inl e \<Rightarrow> \<exists>message. e = ConnectionError message
       | Inr j \<Rightarrow> sv_processed sv' = sc_message_id m # sv_processed sv \<and> sv_state sv' = next_state (sv_state sv) m
           \<and> (\<exists>ack. j = ack_json ack \<and> good_ack sv m ack))
    \<and> ((\<exists>k<3. k < length sched \<and> fst (sched ! k) = LinkUp) \<and> sv_drop_first sv \<noteq> Some (sc_message_id m) \<longrightarrow> isl res = False)"
proof -
  obtain res events sv' rest where run: "send_command_with_retry (station_net env decode) c (sv, sched) = (res, events, sv', rest)"
      "sv' = sv \<or> (\<exists>ack. delivered sv m ack sv')"
      "case res of Inl e \<Rightarrow> \<exists>message. e = ConnectionError message | Inr j \<Rightarrow> \<exists>ack. j = ack_json ack \<and> delivered sv m ack sv'"
      "\<forall>k<3. k < length sched \<and> fst (sched ! k) = LinkUp \<and> sv_drop_first sv \<noteq> Some (sc_message_id m) \<longrightarrow> isl res = False"
    using delivery_run [where decode = decode and c = c and sched = sched, OF assms] by blast
  have after: "delivered sv m ack sv' \<Longrightarrow> sv_processed sv' = sc_message_id m # sv_processed sv
      \<and> sv_state sv' = next_state (sv_state sv) m \<and> good_ack sv m ack" for ack
    by (auto simp: delivered_def after_execution_def)
  show ?thesis
  proof (intro exI conjI impI)
    show "send_command_with_retry (station_net env decode) c (sv, sched) = (res, events, sv', rest)" by (rule run(1))
    show "sv_processed sv' = sv_processed sv \<and> sv_state sv' = sv_state sv
       \<or> sv_processed sv' = sc_message_id m # sv_processed sv \<and> sv_state sv' = next_state (sv_state sv) m"
      using run(2) after by blast
    show "case res of Inl e \<Rightarrow> \<exists>message. e = ConnectionError message
       | Inr j \<Rightarrow> sv_processed sv' = sc_message_id m # sv_processed sv \<and> sv_state sv' = next_state (sv_state sv) m
           \<and> (\<exists>ack. j = ack_json ack \<and> good_ack sv m ack)"
      using run(3) after by (cases res) auto
  qed (use run(4) in blast)
qed

end
