(* ===== verification/Signature_Claims.thy ===== *)
theory Signature_Claims
  imports Delivery_Claims "HOL-Library.Multiset"
begin

text \<open>
  The text that is signed determines the command: JSON texts are read back character by character, and the lines of
  the canonical message cannot be shifted into each other. The concrete runs of the command simulator follow.
\<close>

section \<open>JSON read back\<close>

definition unescape :: "string \<Rightarrow> (char \<times> string) option" where
  "unescape s = (case s of [] \<Rightarrow> None | c # r \<Rightarrow>
     if c \<noteq> char_of (92::nat) then Some (c, r)
     else (case r of [] \<Rightarrow> None | d # r' \<Rightarrow>
       if d = CHR ''n'' then Some (CHR 10, r') else if d = CHR ''r'' then Some (CHR 13, r')
       else if d = CHR ''t'' then Some (CHR 9, r') else if d = CHR ''f'' then Some (CHR 12, r')
       else if d = CHR ''b'' then Some (CHR 8, r')
       else if d = CHR ''u''
       then (case (hex_digit (r' ! 2), hex_digit (r' ! 3)) of
           (Some h, Some l) \<Rightarrow> Some (char_of (16 * h + l), drop 4 r') | _ \<Rightarrow> None)
       else Some (d, r')))"

lemma special_chars: "char_of (34::nat) = CHR 0x22" "char_of (92::nat) = CHR 0x5C" "char_of (10::nat) = CHR 0x0A"
    "char_of (13::nat) = CHR 0x0D" "char_of (9::nat) = CHR 0x09" "char_of (12::nat) = CHR 0x0C" "char_of (8::nat) = CHR 0x08"
  by code_simp+

lemma unescape_json_char: "unescape (json_char c @ r) = Some (c, r)"
proof -
  define n where "n = (of_char c :: nat)"
  have n: "n < 256" "c = char_of n" by (simp_all add: n_def)
  have small: "n div 16 < 16" "n mod 16 < 16" using n(1) by simp_all
  consider "n \<in> {34, 92, 10, 13, 9, 12, 8}" | "n \<notin> {34, 92, 10, 13, 9, 12, 8}" "n < 32 \<or> 126 < n"
    | "n \<notin> {34, 92, 10, 13, 9, 12, 8}" "\<not> (n < 32 \<or> 126 < n)" by blast
  then show ?thesis
  proof cases
    case 1
    then show ?thesis
      using n(2) by (elim insertE emptyE; simp add: json_char_def unescape_def special_chars Let_def)
  next
    case 2
    then have "json_char c = [char_of (92::nat), CHR ''u'', CHR ''0'', CHR ''0'', hex_char (n div 16), hex_char (n mod 16)]"
      by (simp add: json_char_def n_def [symmetric] Let_def)
    then show ?thesis using small n(2) by (simp add: unescape_def hex_digit_char)
  next
    case 3
    then have "c \<noteq> char_of (92::nat)" by (auto simp: n_def)
    with 3 show ?thesis by (simp add: json_char_def n_def [symmetric] unescape_def Let_def)
  qed
qed

lemma json_char_start: "\<exists>a as. json_char c = a # as \<and> a \<noteq> char_of (34::nat)"
proof (cases "of_char c = (34::nat)")
  case False
  then have "c \<noteq> char_of (34::nat)" by auto
  then show ?thesis by (auto simp: json_char_def Let_def)
qed (simp add: json_char_def)

lemma json_chars_peel:
  "concat (map json_char s) @ char_of (34::nat) # r = concat (map json_char s') @ char_of (34::nat) # r' \<Longrightarrow> s = s' \<and> r = r'"
proof (induction s arbitrary: s')
  case Nil
  then show ?case using json_char_start [of "hd s'"] by (cases s') auto
next
  case (Cons c s)
  show ?case
  proof (cases s')
    case Nil
    then show ?thesis using Cons.prems json_char_start [of c] by auto
  next
    case (Cons c' t)
    with Cons.prems have "json_char c @ (concat (map json_char s) @ char_of (34::nat) # r) =
        json_char c' @ (concat (map json_char t) @ char_of (34::nat) # r')" by simp
    then have "Some (c, concat (map json_char s) @ char_of (34::nat) # r) = Some (c', concat (map json_char t) @ char_of (34::nat) # r')"
      by (metis unescape_json_char)
    then show ?thesis using Cons.IH [of t] Cons by simp
  qed
qed

lemma json_text_peel: "json_text s @ r = json_text s' @ r' \<Longrightarrow> s = s' \<and> r = r'"
  using json_chars_peel [of s r s' r'] by (simp add: json_text_def)

lemma json_member_peel: "json_member m @ r = json_member m' @ r' \<Longrightarrow> m = m' \<and> r = r'"
proof -
  assume h: "json_member m @ r = json_member m' @ r'"
  have "fst m = fst m' \<and> CHR '':'' # json_text (snd m) @ r = CHR '':'' # json_text (snd m') @ r'"
    by (rule json_text_peel) (use h in \<open>simp add: json_member_def\<close>)
  then show ?thesis using json_text_peel [of "snd m" r "snd m'" r'] by (simp add: prod_eq_iff)
qed

lemma join_Cons: "join sep (x # xs) = x @ (if xs = [] then [] else sep @ join sep xs)"
  by (cases xs) simp_all

lemma json_member_start: "json_member m = char_of (34::nat) # tl (json_member m)"
  by (simp add: json_member_def json_text_def)

lemma json_members_peel: "join '','' (map json_member d) @ ''}'' = join '','' (map json_member d') @ ''}'' \<Longrightarrow> d = d'"
proof (induction d arbitrary: d')
  case Nil
  then show ?case using json_member_start [of "hd d'"] by (cases d') (auto simp: join_Cons)
next
  case (Cons m d)
  note prems = Cons.prems and IH = Cons.IH
  show ?case
  proof (cases d')
    case Nil
    then show ?thesis using prems json_member_start [of m] by (auto simp: join_Cons)
  next
    case (Cons m' e)
    define rest where "rest d = (if d = [] then ''}'' else '','' @ join '','' (map json_member d) @ ''}'')" for d
    have "json_member m @ rest d = json_member m' @ rest e"
      using prems unfolding Cons rest_def by (simp add: join_Cons split: if_splits)
    then have "m = m'" "rest d = rest e" using json_member_peel by blast+
    then show ?thesis using IH [of e] Cons by (simp add: rest_def split: if_splits)
  qed
qed

lemma json_dict_inj: "json_dict d = json_dict d' \<Longrightarrow> d = d'"
  using json_members_peel by (simp add: json_dict_def)

section \<open>Lines\<close>

lemma line_peel: "CHR 10 \<notin> set x \<Longrightarrow> CHR 10 \<notin> set x' \<Longrightarrow> x @ CHR 10 # r = x' @ CHR 10 # r' \<Longrightarrow> x = x' \<and> r = r'"
proof (induction x arbitrary: x')
  case Nil
  then show ?case by (cases x') auto
next
  case (Cons c x)
  then show ?case by (cases x') auto
qed

lemma str_nat_inj: "str_nat a = str_nat b \<Longrightarrow> a = b"
  by (metis digits_value_str_nat of_nat_eq_iff)

lemma str_int_inj: "str_int a = str_int b \<Longrightarrow> a = b"
proof -
  have no_minus: "str_nat n \<noteq> CHR ''-'' # s" for n s
    using digits_str_nat [of n] by (auto simp: is_digit_def)
  assume "str_int a = str_int b"
  then show ?thesis
    using no_minus no_minus [symmetric] str_nat_inj by (fastforce simp: str_int_def split: if_splits)
qed

lemma str_int_line: "CHR 10 \<notin> set (str_int n)"
proof -
  have "CHR 10 \<notin> set (str_nat k)" for k
  proof
    assume "CHR 10 \<in> set (str_nat k)"
    then obtain d where "d < 10" "CHR 10 = digit_char d" using set_str_nat [of k] by blast
    then show False using digit_not(2) [of d] by simp
  qed
  then show ?thesis by (simp add: str_int_def)
qed

text \<open>C33: a signature covers the whole command. If two commands of the station whose identifiers and types hold no line
  feed carry the same signature under one secret, then they agree in identifier, type, sequence number and time, and
  their payloads have the same members, whatever texts these hold; or two different messages collide under HMAC.\<close>

theorem signature_covers_command:
  assumes "c = create_command hmac t i ty n secret d" and "c' = create_command hmac t' i' ty' n' secret d'"
    and "CHR 10 \<notin> set i" "CHR 10 \<notin> set i'" "CHR 10 \<notin> set ty" "CHR 10 \<notin> set ty'"
    and "cm_signature c = cm_signature c'"
  shows "i = i' \<and> ty = ty' \<and> n = n' \<and> cm_timestamp c = cm_timestamp c' \<and> mset d = mset d'
    \<or> create_canonical_message c \<noteq> create_canonical_message c'
      \<and> hmac secret (create_canonical_message c) = hmac secret (create_canonical_message c')"
proof (cases "create_canonical_message c = create_canonical_message c'")
  case True
  have stamp: "CHR 10 \<notin> set (utc_timestamp t)" for t using utc_timestamp_chars time_chars_not by blast
  have target: "CHR 10 \<notin> set TARGET_ID" by (simp add: TARGET_ID_def)
  have canon: "create_canonical_message c = i @ CHR 10 # ty @ CHR 10 # TARGET_ID @ CHR 10 # str_int n @ CHR 10 # utc_timestamp t @
      CHR 10 # json_dict (sort_key fst d)"
    "create_canonical_message c' = i' @ CHR 10 # ty' @ CHR 10 # TARGET_ID @ CHR 10 # str_int n' @ CHR 10 # utc_timestamp t' @
      CHR 10 # json_dict (sort_key fst d')"
    by (simp_all add: assms(1,2) create_command_def create_canonical_message_def Let_def)
  note step1 = line_peel [OF assms(3,4) True [unfolded canon]]
  note step2 = line_peel [OF assms(5,6) conjunct2 [OF step1]]
  note step3 = line_peel [OF target target conjunct2 [OF step2]]
  note step4 = line_peel [OF str_int_line str_int_line conjunct2 [OF step3]]
  note step5 = line_peel [OF stamp stamp conjunct2 [OF step4]]
  have "sort_key fst d = sort_key fst d'" using json_dict_inj step5 by blast
  then have "mset d = mset d'" by (metis mset_sort)
  moreover have "cm_timestamp c = utc_timestamp t" "cm_timestamp c' = utc_timestamp t'"
    by (simp_all add: assms(1,2) create_command_def Let_def)
  ultimately show ?thesis using step1 step2 step4 step5 str_int_inj by simp
next
  case False
  then show ?thesis
    using assms(1,2,7) by (simp add: create_command_def calculate_signature_def create_canonical_message_def Let_def)
qed

section \<open>Runs\<close>

text \<open>A function in the place of HMAC that tells texts of even and odd length apart, and an environment that reads one time.\<close>

definition demo_hmac :: "string \<Rightarrow> string \<Rightarrow> string" where
  "demo_hmac secret m = replicate 63 (CHR ''0'') @ [if even (length m) then CHR ''a'' else CHR ''b'']"

definition demo_env :: "time \<Rightarrow> server_env" where
  "demo_env t = \<lparr>se_hmac = demo_hmac, se_secret = ''sixteen letters.'', se_payload_text = (\<lambda>_. ''{}''),
     se_parse_instant = (\<lambda>s. if s = utc_timestamp t then Some t else None)\<rparr>"

definition demo_command :: "time \<Rightarrow> station_command" where
  "demo_command t = create_command demo_hmac t ''CMD-000001'' ''START_SYSTEM'' 1 ''sixteen letters.'' []"

definition demo_message :: "time \<Rightarrow> server_command" where
  "demo_message t = \<lparr>sc_message_id = ''CMD-000001'', sc_type = START_SYSTEM, sc_target = TARGET_ID, sc_sequence = 1,
      sc_timestamp = t, sc_payload = [], sc_signature = cm_signature (demo_command t)\<rparr>"

lemma demo_command_eq: "demo_command t = create_command (se_hmac (demo_env t)) t ''CMD-000001'' (unit_command_name START_SYSTEM) 1
    (se_secret (demo_env t)) []"
  by (simp add: demo_command_def demo_env_def unit_command_name_def)

lemma demo_readable: "readable (demo_env t) t ''CMD-000001'' 1 (demo_command t)"
proof -
  have "java_trim ''CMD-000001'' = ''CMD-000001''" by (rule trim_visible) auto
  moreover have "is_hex64 (demo_hmac s m)" for s m by (simp add: is_hex64_def demo_hmac_def list_all_iff)
  ultimately show ?thesis
    by (simp add: readable_def demo_env_def demo_command_def create_command_def calculate_signature_def Let_def)
qed

lemma demo_payload: "se_payload_text (demo_env t) (station_payload []) = json_dict (sort_key fst [])"
  by (simp add: demo_env_def json_dict_def)

lemma demo_executable:
  assumes "microseconds t mod 1000 \<noteq> 0"
  shows "executable (demo_env t) (demo_command t) (demo_message t) (new_server None)"
proof -
  have parsed: "parse_message (demo_env t) (Some (command_json (demo_command t))) = Inr (demo_message t)"
    using parse_created [OF demo_command_eq demo_readable] by (simp add: demo_message_def)
  have "utc_timestamp t = instant_text t" using assms instant_text_eq [of t] by simp
  then have "server_canonical (demo_env t) (demo_message t) = create_canonical_message (demo_command t)"
    by (simp add: server_canonical_def demo_message_def demo_env_def create_canonical_message_def demo_command_def create_command_def
        unit_command_name_def json_dict_def Let_def)
  then have "verify_signature (demo_env t) (demo_message t)"
    by (simp add: verify_signature_def demo_message_def demo_env_def demo_command_def create_command_def calculate_signature_def
        create_canonical_message_def Let_def)
  then show ?thesis
    using parsed by (simp add: executable_def demo_message_def new_server_def highest_sequence_def)
qed

text \<open>The reply to the first attempt is lost; the retry gets the acknowledgement from the cache.\<close>

definition demo_decode :: "string \<Rightarrow> json option" where
  "demo_decode line = (if line = command_line (demo_command 1) then Some (command_json (demo_command 1)) else None)"

definition demo_links :: link_schedule where
  "demo_links = [(ReplyLost, 5, 6), (LinkUp, 7, 8)]"

theorem command_executed_once_witness:
  "\<exists>ack events sv' rest. send_command_with_retry (station_net (demo_env 1) demo_decode) (demo_command 1) (new_server None, demo_links) =
      (Inr (ack_json ack), events, sv', rest)
    \<and> sv_state sv' = UNIT_STANDBY \<and> sv_processed sv' = [''CMD-000001''] \<and> ak_status ack = ACK_ACCEPTED"
proof -
  have ex: "executable (demo_env 1) (demo_command 1) (demo_message 1) (new_server None)"
    by (rule demo_executable) (simp add: microseconds_def)
  have decode: "demo_decode (command_line (demo_command 1)) = Some (command_json (demo_command 1))" by (simp add: demo_decode_def)
  have win: "\<forall>(l, now, at)\<in>set demo_links. timestamp_in_window now (sc_timestamp (demo_message 1))"
    by (simp add: demo_links_def timestamp_in_window_def demo_message_def)
  have up: "\<exists>k<3. k < length demo_links \<and> fst (demo_links ! k) = LinkUp" by (intro exI [of _ 1]) (simp add: demo_links_def)
  have keep: "sv_drop_first (new_server None) \<noteq> Some (sc_message_id (demo_message 1))" by (simp add: new_server_def)
  obtain res events sv' rest where run: "send_command_with_retry (station_net (demo_env 1) demo_decode) (demo_command 1)
        (new_server None, demo_links) = (res, events, sv', rest)"
    and res: "case res of Inl e \<Rightarrow> \<exists>message. e = ConnectionError message
       | Inr j \<Rightarrow> sv_processed sv' = sc_message_id (demo_message 1) # sv_processed (new_server None)
           \<and> sv_state sv' = next_state (sv_state (new_server None)) (demo_message 1)
           \<and> (\<exists>ack. j = ack_json ack \<and> good_ack (new_server None) (demo_message 1) ack)"
    and "isl res = False"
    using command_executed_once [where decode = demo_decode, OF ex decode win] up keep by (elim exE conjE) (rule that, assumption+, blast)
  then obtain j where j: "res = Inr j" by (cases res) auto
  have "process_type START_SYSTEM UNIT_OFFLINE = Inr (UNIT_STANDBY, ''Remote unit initialized and entered standby mode.'')"
    by (simp add: process_type_def)
  then show ?thesis
    using run res unfolding j by (auto simp: new_server_def demo_message_def next_state_def good_ack_def)
qed

theorem genuine_command_refused_witness:
  "ak_status (fst (process_command (demo_env 123000) 200000 200001 (Some (command_json (demo_command 123000))) (new_server None)))
    = ACK_UNAUTHORIZED"
proof -
  have differ: "se_hmac (demo_env 123000) (se_secret (demo_env 123000)) (server_canonical (demo_env 123000) (demo_message 123000)) \<noteq>
      se_hmac (demo_env 123000) (se_secret (demo_env 123000)) (create_canonical_message (demo_command 123000))"
  proof -
    have "length (utc_timestamp 123000) = length (instant_text 123000) + 3"
      by (simp add: utc_timestamp_text instant_text_def fraction_6_def microseconds_def)
    then have "length (create_canonical_message (demo_command 123000)) = length (server_canonical (demo_env 123000) (demo_message 123000)) + 3"
      by (simp add: server_canonical_def demo_message_def demo_env_def create_canonical_message_def demo_command_def create_command_def
          unit_command_name_def json_dict_def Let_def)
    then have "even (length (create_canonical_message (demo_command 123000))) \<noteq>
        even (length (server_canonical (demo_env 123000) (demo_message 123000)))" by simp
    moreover have "demo_hmac k a \<noteq> demo_hmac k b" if "even (length a) \<noteq> even (length b)" for a b k
      using that by (auto simp: demo_hmac_def)
    ultimately show ?thesis by (simp add: demo_env_def)
  qed
  have parsed: "parse_message (demo_env 123000) (Some (command_json (demo_command 123000))) = Inr (demo_message 123000)"
    using parse_created [OF demo_command_eq demo_readable] by (simp add: demo_message_def)
  obtain m where "parse_message (demo_env 123000) (Some (command_json (demo_command 123000))) = Inr m"
    and refused: "se_hmac (demo_env 123000) (se_secret (demo_env 123000)) (server_canonical (demo_env 123000) m) \<noteq>
        se_hmac (demo_env 123000) (se_secret (demo_env 123000)) (create_canonical_message (demo_command 123000)) \<longrightarrow>
      ak_status (fst (process_command (demo_env 123000) 200000 200001 (Some (command_json (demo_command 123000))) (new_server None)))
        = ACK_UNAUTHORIZED"
    using genuine_command_refused [where clock = 200000 and at = 200001 and sv = "new_server None",
        OF demo_command_eq [of 123000] demo_readable demo_payload] by blast
  then have "m = demo_message 123000" using parsed by simp
  with refused differ show ?thesis by blast
qed

definition demo_payload_command :: "payload \<Rightarrow> station_command" where
  "demo_payload_command d = create_command demo_hmac 1 ''CMD-000002'' ''ACTIVATE_SYSTEM'' 2 ''sixteen letters.'' d"

theorem signature_covers_command_witness:
  "cm_signature (demo_payload_command [(''mode'', ''scan''), (''axis'', ''x'')]) = cm_signature (demo_payload_command [(''axis'', ''x''), (''mode'', ''scan'')])
    \<and> mset [(''mode'', ''scan''), (''axis'', ''x'')] = mset [(''axis'', ''x''), (''mode'', ''scan'')]"
proof -
  have sorted: "sort_key fst [(''mode'', ''scan''), (''axis'', ''x'')] = sort_key fst [(''axis'', ''x''), (''mode'', ''scan'')]" by code_simp
  then have same: "cm_signature (demo_payload_command [(''mode'', ''scan''), (''axis'', ''x'')]) =
      cm_signature (demo_payload_command [(''axis'', ''x''), (''mode'', ''scan'')])"
    unfolding demo_payload_command_def create_command_def calculate_signature_def create_canonical_message_def Let_def
    by (simp only: station_command.simps)
  have texts: "create_canonical_message (demo_payload_command [(''mode'', ''scan''), (''axis'', ''x'')]) =
      create_canonical_message (demo_payload_command [(''axis'', ''x''), (''mode'', ''scan'')])"
    using sorted unfolding demo_payload_command_def create_command_def create_canonical_message_def Let_def
    by (simp only: station_command.simps)
  have lines: "CHR 10 \<notin> set ''CMD-000002''" "CHR 10 \<notin> set ''ACTIVATE_SYSTEM''" by simp_all
  show ?thesis
    using signature_covers_command [OF demo_payload_command_def demo_payload_command_def lines(1,1,2,2) same] same texts by blast
qed

theorem unit_history_explains_state_witness:
  "\<exists>h sv. unit_run (demo_env 1) h sv \<and> map sc_type h = [START_SYSTEM] \<and> foldl next_state UNIT_OFFLINE h = UNIT_STANDBY
    \<and> sv_state sv = UNIT_STANDBY"
proof -
  let ?msg = "Some (command_json (demo_command 1))"
  have ex: "executable (demo_env 1) (demo_command 1) (demo_message 1) (new_server None)"
    by (rule demo_executable) (simp add: microseconds_def)
  then have "fst (validate_and_record 5 (demo_message 1) (new_server None)) = None"
    by (simp add: validate_and_record_def executable_def demo_message_def)
  then have one: "executed (demo_env 1) 5 ?msg (new_server None) = Some (demo_message 1)"
    using ex by (simp add: executed_def executable_def)
  obtain reply sv where line: "handle_line (demo_env 1) 5 6 ?msg (new_server None) = (reply, sv)" by fastforce
  have run: "unit_run (demo_env 1) [demo_message 1] sv"
    using unit_line [OF unit_start line] one by simp
  have "next_state UNIT_OFFLINE (demo_message 1) = UNIT_STANDBY" by (simp add: next_state_def demo_message_def process_type_def)
  then show ?thesis
    using unit_history_explains_state [OF run] run by (intro exI [of _ "[demo_message 1]"] exI [of _ sv]) (simp add: demo_message_def)
qed

end
