(* ===== verification/Sensor_Feed.thy ===== *)
theory Sensor_Feed
  imports Sensor_Model
begin

text \<open>
  The simulator that feeds the real-time monitor (real-time-sensor-monitoring-system/simulator/sensor_simulator.py):
  the values of the scenarios, the cycles of readings with their sequence numbers, and the loop that sends them until
  an exception ends it. The numbers of the generator, the clock and the outcome of every send and pause are functions; the
  loop, which has no end of its own, takes the number of cycles as fuel.
\<close>

section \<open>Readings\<close>

definition SUPPORTED_SCENARIOS :: "string list" where
  "SUPPORTED_SCENARIOS = [''normal'', ''temperature-warning'', ''temperature-critical'', ''voltage-warning'',
     ''voltage-critical'', ''multiple-faults'', ''invalid-motion'', ''sensor-timeout'']"

text \<open>\<open>argparse\<close> ends the program with a usage error for another word.\<close>

definition parse_scenario :: "string option \<Rightarrow> string option" where
  "parse_scenario arg = (case arg of None \<Rightarrow> Some ''normal'' | Some s \<Rightarrow> if s \<in> set SUPPORTED_SCENARIOS then Some s else None)"

record feed_reading =
  fd_sensor_id :: string
  fd_sensor_type :: string
  fd_timestamp :: time
  fd_value :: rat
  fd_unit :: string
  fd_sequence_number :: int

text \<open>What one cycle draws, in the order of the calls: \<open>random()\<close> for the three uniform values and the index that
  \<open>choice\<close> picks. A call the scenario does not make leaves its number unused.\<close>

record feed_source =
  fs_temperature :: rat
  fs_voltage :: rat
  fs_position :: rat
  fs_motion :: bool
  fs_clock :: "nat \<Rightarrow> time"

definition create_sensor_reading :: "time \<Rightarrow> string \<Rightarrow> string \<Rightarrow> rat \<Rightarrow> string \<Rightarrow> int \<Rightarrow> feed_reading" where
  "create_sensor_reading now sensor_id sensor_type value unit sequence_number =
     \<lparr>fd_sensor_id = sensor_id, fd_sensor_type = sensor_type, fd_timestamp = now, fd_value = py_round 2 value, fd_unit = unit,
      fd_sequence_number = sequence_number\<rparr>"

definition get_temperature_value :: "string \<Rightarrow> feed_source \<Rightarrow> rat" where
  "get_temperature_value scenario src =
     (if scenario = ''temperature-warning'' then 90 else if scenario = ''temperature-critical'' then 130
      else if scenario = ''multiple-faults'' then 90
      else uniform (decimal_literal 1 680) (decimal_literal 1 780) (fs_temperature src))"

definition get_voltage_value :: "string \<Rightarrow> feed_source \<Rightarrow> rat" where
  "get_voltage_value scenario src =
     (if scenario = ''voltage-warning'' then decimal_literal 1 132 else if scenario = ''voltage-critical'' then decimal_literal 1 152
      else if scenario = ''multiple-faults'' then decimal_literal 1 132
      else uniform (decimal_literal 1 118) (decimal_literal 1 126) (fs_voltage src))"

definition get_position_value :: "feed_source \<Rightarrow> rat" where
  "get_position_value src = uniform 0 (decimal_literal 1 1000) (fs_position src)"

definition get_motion_value :: "string \<Rightarrow> feed_source \<Rightarrow> rat" where
  "get_motion_value scenario src = (if scenario = ''invalid-motion'' then 2 else if fs_motion src then 1 else 0)"

definition generate_temperature_reading :: "int \<Rightarrow> string \<Rightarrow> feed_source \<Rightarrow> feed_reading" where
  "generate_temperature_reading sequence_number scenario src =
     create_sensor_reading (fs_clock src 0) ''TEMP-01'' ''TEMPERATURE'' (get_temperature_value scenario src) ''F'' sequence_number"

definition generate_voltage_reading :: "int \<Rightarrow> string \<Rightarrow> feed_source \<Rightarrow> feed_reading" where
  "generate_voltage_reading sequence_number scenario src =
     create_sensor_reading (fs_clock src 1) ''VOLT-01'' ''VOLTAGE'' (get_voltage_value scenario src) ''V'' sequence_number"

definition generate_position_reading :: "int \<Rightarrow> feed_source \<Rightarrow> feed_reading" where
  "generate_position_reading sequence_number src =
     create_sensor_reading (fs_clock src 2) ''POS-01'' ''POSITION'' (get_position_value src) ''unit'' sequence_number"

definition generate_motion_reading :: "int \<Rightarrow> string \<Rightarrow> feed_source \<Rightarrow> feed_reading" where
  "generate_motion_reading sequence_number scenario src =
     create_sensor_reading (fs_clock src 3) ''MOTION-01'' ''MOTION'' (get_motion_value scenario src) ''state'' sequence_number"

definition create_sensor_cycle :: "int \<Rightarrow> string \<Rightarrow> int \<Rightarrow> feed_source \<Rightarrow> feed_reading list" where
  "create_sensor_cycle sequence_number scenario cycle_number src =
     (if scenario \<noteq> ''sensor-timeout'' \<or> cycle_number \<le> 3
      then [generate_temperature_reading sequence_number scenario src] else [])
   @ [generate_voltage_reading (sequence_number + 1) scenario src,
      generate_position_reading (sequence_number + 2) src,
      generate_motion_reading (sequence_number + 3) scenario src]"

section \<open>The loop\<close>

datatype feed_exception = FeedRefused | FeedReset | FeedBrokenPipe | FeedInterrupt | FeedOSError string

text \<open>One cycle is sent reading by reading; \<open>net\<close> tells how the n-th send ends.\<close>

fun send_messages :: "(nat \<Rightarrow> feed_exception option) \<Rightarrow> nat \<Rightarrow> feed_reading list \<Rightarrow> feed_exception option \<times> feed_reading list" where
  "send_messages net k [] = (None, [])"
| "send_messages net k (r # rs) = (case net k of
      Some e \<Rightarrow> (Some e, [])
    | None \<Rightarrow> (case send_messages net (Suc k) rs of (e, sent) \<Rightarrow> (e, r # sent)))"

fun feed_loop :: "(nat \<Rightarrow> feed_exception option) \<Rightarrow> (int \<Rightarrow> feed_exception option) \<Rightarrow> (int \<Rightarrow> feed_source) \<Rightarrow> string \<Rightarrow>
    nat \<Rightarrow> int \<Rightarrow> int \<Rightarrow> nat \<Rightarrow> feed_exception option \<times> feed_reading list" where
  "feed_loop net pause source scenario 0 sequence_number cycle_number k = (None, [])"
| "feed_loop net pause source scenario (Suc fuel) sequence_number cycle_number k =
     (let readings = create_sensor_cycle sequence_number scenario cycle_number (source cycle_number)
      in case send_messages net k readings of
          (Some e, sent) \<Rightarrow> (Some e, sent)
        | (None, sent) \<Rightarrow> (case pause cycle_number of
              Some e \<Rightarrow> (Some e, sent)
            | None \<Rightarrow> (case feed_loop net pause source scenario fuel (sequence_number + int (length readings))
                          (cycle_number + 1) (k + length readings) of
                (e, rest) \<Rightarrow> (e, sent @ rest))))"

text \<open>What \<open>main\<close> prints at the end; nothing while the loop still runs.\<close>

definition exit_message :: "feed_exception \<Rightarrow> string" where
  "exit_message e = (case e of
      FeedRefused \<Rightarrow> ''Connection failed. Start the C++ sensor monitor before starting the Python simulator.''
    | FeedReset \<Rightarrow> ''The C++ sensor monitor closed the connection.''
    | FeedBrokenPipe \<Rightarrow> ''The network connection was closed while sending sensor data.''
    | FeedInterrupt \<Rightarrow> ''Multi-sensor TCP simulator stopped.''
    | FeedOSError m \<Rightarrow> ''Network error: '' @ m)"

definition feed_main :: "feed_exception option \<Rightarrow> (nat \<Rightarrow> feed_exception option) \<Rightarrow> (int \<Rightarrow> feed_exception option) \<Rightarrow>
    (int \<Rightarrow> feed_source) \<Rightarrow> string \<Rightarrow> nat \<Rightarrow> string option \<times> feed_reading list" where
  "feed_main connect net pause source scenario fuel = (case connect of
      Some e \<Rightarrow> (Some (exit_message e), [])
    | None \<Rightarrow> (case feed_loop net pause source scenario fuel 1 1 0 of (e, sent) \<Rightarrow> (map_option exit_message e, sent)))"

section \<open>Sequence numbers\<close>

text \<open>The readings of the cycles when nothing fails.\<close>

fun all_cycles :: "(int \<Rightarrow> feed_source) \<Rightarrow> string \<Rightarrow> nat \<Rightarrow> int \<Rightarrow> int \<Rightarrow> feed_reading list" where
  "all_cycles source scenario 0 s c = []"
| "all_cycles source scenario (Suc n) s c =
     create_sensor_cycle s scenario c (source c)
       @ all_cycles source scenario n (s + int (length (create_sensor_cycle s scenario c (source c)))) (c + 1)"

lemma send_messages_prefix:
  "send_messages net k rs = (e, sent) \<Longrightarrow> sent = take (length sent) rs \<and> (e = None \<longrightarrow> sent = rs)"
proof (induction rs arbitrary: k e sent)
  case (Cons r rs)
  obtain e1 sent1 where "send_messages net (Suc k) rs = (e1, sent1)" by fastforce
  then have rest: "sent1 = take (length sent1) rs \<and> (e1 = None \<longrightarrow> sent1 = rs)" "send_messages net (Suc k) rs = (e1, sent1)"
    using Cons.IH [of "Suc k" e1 sent1] by simp_all
  show ?case
  proof (cases "net k")
    case None
    then show ?thesis using Cons.prems rest by auto
  next
    case (Some a)
    then have "e = Some a" "sent = []" using Cons.prems by simp_all
    then show ?thesis by simp
  qed
qed simp

lemma feed_loop_prefix:
  "feed_loop net pause source scenario n s c k = (e, sent) \<Longrightarrow>
    sent = take (length sent) (all_cycles source scenario n s c) \<and> (e = None \<longrightarrow> sent = all_cycles source scenario n s c)"
proof (induction n arbitrary: s c k e sent)
  case (Suc n)
  let ?rs = "create_sensor_cycle s scenario c (source c)"
  obtain e1 sent1 where one: "send_messages net k ?rs = (e1, sent1)" by fastforce
  note prefix = send_messages_prefix [OF one]
  obtain e2 sent2 where two: "feed_loop net pause source scenario n (s + int (length ?rs)) (c + 1) (k + length ?rs) = (e2, sent2)"
    by fastforce
  have "length sent1 \<le> length ?rs" 
    using prefix by (metis length_take min.cobounded1)
  then show ?case
    using Suc.prems one two prefix Suc.IH [OF two] by (auto simp: Let_def split: option.splits)
qed simp

definition cycle_numbers :: "int \<Rightarrow> nat \<Rightarrow> int list" where
  "cycle_numbers s n = map (\<lambda>k. s + int k) [0..<n]"

lemma cycle_numbers_append: "cycle_numbers s (m + n) = cycle_numbers s m @ cycle_numbers (s + int m) n"
  by (rule nth_equalityI) (auto simp: cycle_numbers_def nth_append)

lemma cycle_numbers_few: "cycle_numbers s 3 = [s, s + 1, s + 2]" "cycle_numbers s 4 = [s, s + 1, s + 2, s + 3]"
  by (simp_all add: cycle_numbers_def upt_conv_Cons)

lemma full_cycles:
  assumes "scenario \<noteq> ''sensor-timeout'' \<or> c + int n \<le> 4"
  shows "map fd_sequence_number (all_cycles source scenario n s c) = cycle_numbers s (4 * n)"
  using assms
proof (induction n arbitrary: s c)
  case (Suc n)
  then have full: "scenario \<noteq> ''sensor-timeout'' \<or> c \<le> 3" "scenario \<noteq> ''sensor-timeout'' \<or> c + 1 + int n \<le> 4" by auto
  have "map fd_sequence_number (create_sensor_cycle s scenario c src) = [s, s + 1, s + 2, s + 3]" for src
    using full(1) by (auto simp: create_sensor_cycle_def generate_temperature_reading_def generate_voltage_reading_def
        generate_position_reading_def generate_motion_reading_def create_sensor_reading_def)
  moreover have "length (create_sensor_cycle s scenario c src) = 4" for src
    using full(1) by (auto simp: create_sensor_cycle_def)
  moreover have "cycle_numbers s (4 * Suc n) = [s, s + 1, s + 2, s + 3] @ cycle_numbers (s + 4) (4 * n)"
    using cycle_numbers_append [of s 4 "4 * n"] by (simp add: cycle_numbers_few)
  ultimately show ?case
    using Suc.IH [OF full(2), of "s + 4"] by simp
qed (simp add: cycle_numbers_def)

text \<open>Without the temperature sensor a cycle sends three readings and leaves out its first number.\<close>

lemma short_cycles:
  assumes "4 \<le> c"
  shows "map fd_sequence_number (all_cycles source ''sensor-timeout'' n s c) = cycle_numbers (s + 1) (3 * n)"
  using assms
proof (induction n arbitrary: s c)
  case (Suc n)
  have "map fd_sequence_number (create_sensor_cycle s ''sensor-timeout'' c src) = [s + 1, s + 2, s + 3]"
    "length (create_sensor_cycle s ''sensor-timeout'' c src) = 3" for src
    using Suc.prems by (auto simp: create_sensor_cycle_def generate_voltage_reading_def
        generate_position_reading_def generate_motion_reading_def create_sensor_reading_def)
  moreover have "cycle_numbers (s + 1) (3 * Suc n) = [s + 1, s + 2, s + 3] @ cycle_numbers (s + 4) (3 * n)"
    using cycle_numbers_append [of "s + 1" 3 "3 * n"] by (simp add: cycle_numbers_few add.commute)
  ultimately show ?case
    using Suc.IH [of "c + 1" "s + 3"] Suc.prems by (simp add: add.commute)
qed (simp add: cycle_numbers_def)

lemma all_cycles_append:
  "\<exists>s'. all_cycles source scenario (m + n) s c = all_cycles source scenario m s c @ all_cycles source scenario n s' (c + int m)
    \<and> s' = s + int (length (all_cycles source scenario m s c))"
proof (induction m arbitrary: s c)
  case (Suc m)
  let ?len = "int (length (create_sensor_cycle s scenario c (source c)))"
  have "c + 1 + int m = c + int (Suc m)" by simp
  then show ?case using Suc.IH [of "s + ?len" "c + 1"] by (simp add: add.assoc)
qed simp

definition expected_numbers :: "string \<Rightarrow> nat \<Rightarrow> int list" where
  "expected_numbers scenario n =
     (if scenario = ''sensor-timeout'' \<and> 3 < n then cycle_numbers 1 12 @ cycle_numbers 14 (3 * (n - 3))
      else cycle_numbers 1 (4 * n))"

lemma all_cycles_numbers: "map fd_sequence_number (all_cycles source scenario n 1 1) = expected_numbers scenario n"
proof (cases "scenario = ''sensor-timeout'' \<and> 3 < n")
  case True
  have first: "map fd_sequence_number (all_cycles source scenario 3 1 1) = cycle_numbers 1 12"
    using full_cycles [of scenario 1 3 source 1] by simp
  then have "length (all_cycles source scenario 3 1 1) = 12" by (metis length_map cycle_numbers_def length_upt diff_zero)
  then have "all_cycles source scenario (3 + (n - 3)) 1 1 = all_cycles source scenario 3 1 1 @ all_cycles source scenario (n - 3) 13 4"
    using all_cycles_append [of source scenario 3 "n - 3" 1 1] by simp
  moreover have "3 + (n - 3) = n" using True by simp
  ultimately show ?thesis using True first short_cycles [of 4 source "n - 3" 13] by (simp add: expected_numbers_def)
next
  case False
  then show ?thesis using full_cycles [of scenario 1 n source 1] by (auto simp: expected_numbers_def)
qed

lemma expected_increasing: "sorted_wrt (<) (expected_numbers scenario n)"
proof -
  have "sorted_wrt (<) (cycle_numbers s m)" for s m by (simp add: cycle_numbers_def sorted_wrt_map sorted_wrt_iff_nth_less)
  then show ?thesis by (auto simp: expected_numbers_def sorted_wrt_append cycle_numbers_def)
qed

text \<open>C40: the numbers of the messages increase. However the connection ends and however long the loop has run, the messages
  sent carry strictly increasing sequence numbers, a prefix of 1, 2, 3 and so on with nothing left out; only in the scenario
  in which the temperature sensor falls silent the number 13 is never used. A program that has not printed its last
  message has sent every reading of its cycles.\<close>

theorem sequence_numbers_increase:
  assumes "feed_main connect net pause source scenario fuel = (message, sent)"
  shows "sorted_wrt (<) (map fd_sequence_number sent)
    \<and> map fd_sequence_number sent = take (length sent) (expected_numbers scenario fuel)
    \<and> (message = None \<longrightarrow> length sent = length (expected_numbers scenario fuel))"
proof -
  have "sent = take (length sent) (all_cycles source scenario fuel 1 1) \<and> (message = None \<longrightarrow> sent = all_cycles source scenario fuel 1 1)"
    using assms feed_loop_prefix [of net pause source scenario fuel 1 1 0] by (auto simp: feed_main_def split: option.splits prod.splits)
  then have prefix: "map fd_sequence_number sent = take (length sent) (expected_numbers scenario fuel)"
    and complete: "message = None \<longrightarrow> length sent = length (expected_numbers scenario fuel)"
    unfolding all_cycles_numbers [of source, symmetric] by (metis take_map, metis length_map)
  moreover have "sorted_wrt (<) (take (length sent) (expected_numbers scenario fuel))"
    using expected_increasing by (rule sorted_wrt_take)
  ultimately show ?thesis by simp
qed

definition demo_source :: "int \<Rightarrow> feed_source" where
  "demo_source c = \<lparr>fs_temperature = 1 / 2, fs_voltage = 1 / 2, fs_position = 1 / 2, fs_motion = True, fs_clock = (\<lambda>_. 0)\<rparr>"

theorem sequence_numbers_increase_witness:
  "\<exists>message sent. feed_main None (\<lambda>k. if k = 14 then Some FeedBrokenPipe else None) (\<lambda>_. None) demo_source ''sensor-timeout'' 5 = (message, sent)
    \<and> map fd_sequence_number sent = take (length sent) ([1, 2, 3, 4, 5, 6, 7, 8, 9, 10, 11, 12] @ [14, 15, 16, 17, 18, 19])"
proof -
  obtain message sent where run: "feed_main None (\<lambda>k. if k = 14 then Some FeedBrokenPipe else None) (\<lambda>_. None) demo_source ''sensor-timeout'' 5 = (message, sent)"
    by fastforce
  have "expected_numbers ''sensor-timeout'' 5 = [1, 2, 3, 4, 5, 6, 7, 8, 9, 10, 11, 12] @ [14, 15, 16, 17, 18, 19]"
    by code_simp
  then show ?thesis using sequence_numbers_increase [OF run] run by auto
qed

end
