(* ===== verification/Schema_Model.thy ===== *)
theory Schema_Model
  imports Complex_Main Json_Decimal "HOL-Library.List_Lexorder" "HOL-Library.Char_ord"
begin

text \<open>
  What an Alembic migration does to a PostgreSQL database. A schema is a list of tables, the contents give every table
  its rows; an operation first changes the schema and then the rows, and fails when the database refuses it. Constraints
  and indexes are kept in the order of their names, so that a schema does not depend on the order in which they were made.
  All the pending migrations of an upgrade run in one transaction: when one operation fails, nothing has changed.
\<close>

section \<open>Columns, constraints, tables\<close>

text \<open>\<open>Enum(native_enum=False)\<close> is a string column.\<close>

datatype sql_type = SqlUuid | SqlString nat | SqlText | SqlInteger | SqlNumeric nat nat | SqlFloat | SqlBoolean
  | SqlTimestamp | SqlJson | SqlJsonb

datatype sql_value = VNull | VUuid uuid | VText string | VNum rat | VBool bool | VTime time | VJson json

type_synonym sql_row = "string \<Rightarrow> sql_value"

definition is_whole :: "rat \<Rightarrow> bool" where
  "is_whole x \<longleftrightarrow> snd (quotient_of x) = 1"

fun value_fits :: "sql_type \<Rightarrow> sql_value \<Rightarrow> bool" where
  "value_fits SqlUuid (VUuid i) = True"
| "value_fits (SqlString n) (VText s) = (length s \<le> n)"
| "value_fits SqlText (VText s) = True"
| "value_fits SqlInteger (VNum x) = (is_whole x \<and> - 2147483648 \<le> x \<and> x \<le> 2147483647)"
| "value_fits (SqlNumeric p s) (VNum x) = (is_whole (x * 10 ^ s) \<and> \<bar>x\<bar> * 10 ^ s < 10 ^ p)"
| "value_fits SqlFloat (VNum x) = True"
| "value_fits SqlBoolean (VBool b) = True"
| "value_fits SqlTimestamp (VTime t) = True"
| "value_fits SqlJson (VJson j) = True"
| "value_fits SqlJsonb (VJson j) = True"
| "value_fits _ _ = False"

text \<open>A literal default is given by the value that is stored for it; \<open>now()\<close> is the time of the transaction.\<close>

datatype sql_default = DefaultValue sql_value | DefaultNow

record sql_column =
  co_name :: string
  co_type :: sql_type
  co_nullable :: bool
  co_default :: "sql_default option"

definition default_of :: "time \<Rightarrow> sql_column \<Rightarrow> sql_value" where
  "default_of now c = (case co_default c of None \<Rightarrow> VNull | Some (DefaultValue v) \<Rightarrow> v | Some DefaultNow \<Rightarrow> VTime now)"

text \<open>The conditions of check constraints. A condition on a null is unknown, and an unknown check passes.\<close>

datatype sql_check = AtLeast string int | MoreThan string int | WithinInts string int int | NotAbove string string
  | NonZero string | OneOf string "string list" | EitherCheck sql_check sql_check

definition on_number :: "(rat \<Rightarrow> bool) \<Rightarrow> sql_value \<Rightarrow> bool option" where
  "on_number p v = (case v of VNum x \<Rightarrow> Some (p x) | _ \<Rightarrow> None)"

fun check_value :: "sql_check \<Rightarrow> sql_row \<Rightarrow> bool option" where
  "check_value (AtLeast c i) r = on_number (\<lambda>x. of_int i \<le> x) (r c)"
| "check_value (MoreThan c i) r = on_number (\<lambda>x. of_int i < x) (r c)"
| "check_value (WithinInts c i j) r = on_number (\<lambda>x. of_int i \<le> x \<and> x \<le> of_int j) (r c)"
| "check_value (NotAbove c d) r = (case (r c, r d) of (VNum x, VNum y) \<Rightarrow> Some (x \<le> y) | _ \<Rightarrow> None)"
| "check_value (NonZero c) r = on_number (\<lambda>x. x \<noteq> 0) (r c)"
| "check_value (OneOf c texts) r = (case r c of VText s \<Rightarrow> Some (s \<in> set texts) | _ \<Rightarrow> None)"
| "check_value (EitherCheck p q) r = (case (check_value p r, check_value q r) of
      (Some True, _) \<Rightarrow> Some True | (_, Some True) \<Rightarrow> Some True | (Some False, Some False) \<Rightarrow> Some False | _ \<Rightarrow> None)"

fun check_columns :: "sql_check \<Rightarrow> string list" where
  "check_columns (AtLeast c i) = [c]"
| "check_columns (MoreThan c i) = [c]"
| "check_columns (WithinInts c i j) = [c]"
| "check_columns (NotAbove c d) = [c, d]"
| "check_columns (NonZero c) = [c]"
| "check_columns (OneOf c texts) = [c]"
| "check_columns (EitherCheck p q) = check_columns p @ check_columns q"

definition check_passes :: "sql_check \<Rightarrow> sql_row \<Rightarrow> bool" where
  "check_passes chk r \<longleftrightarrow> check_value chk r \<noteq> Some False"

text \<open>A foreign key names its columns, the table and columns it refers to, and what a deletion there does.\<close>

datatype sql_constraint = PrimaryKey "string list" | UniqueKey "string list" | CheckThat sql_check
  | ForeignKey "string list" string "string list" string

fun constraint_columns :: "sql_constraint \<Rightarrow> string list" where
  "constraint_columns (PrimaryKey cs) = cs"
| "constraint_columns (UniqueKey cs) = cs"
| "constraint_columns (CheckThat chk) = check_columns chk"
| "constraint_columns (ForeignKey cs _ _ _) = cs"

record sql_table =
  tb_columns :: "sql_column list"
  tb_constraints :: "(string \<times> sql_constraint) list"
  tb_indexes :: "(string \<times> string list \<times> bool) list"

type_synonym sql_schema = "(string \<times> sql_table) list"

definition column_names :: "sql_table \<Rightarrow> string list" where
  "column_names t = map co_name (tb_columns t)"

text \<open>Tables, indexes and the indexes behind keys share one space of names.\<close>

fun key_name :: "string \<times> sql_constraint \<Rightarrow> string option" where
  "key_name (n, PrimaryKey _) = Some n"
| "key_name (n, UniqueKey _) = Some n"
| "key_name _ = None"

definition relation_names :: "sql_schema \<Rightarrow> string list" where
  "relation_names ts = map fst ts @ concat (map (\<lambda>(_, t). List.map_filter key_name (tb_constraints t) @ map fst (tb_indexes t)) ts)"

text \<open>Is a column of a table, or a key over some columns, the target of a foreign key?\<close>

definition foreign_keys :: "sql_table \<Rightarrow> (string list \<times> string \<times> string list) list" where
  "foreign_keys t = List.map_filter (\<lambda>(_, c). case c of ForeignKey cs n ds _ \<Rightarrow> Some (cs, n, ds) | _ \<Rightarrow> None) (tb_constraints t)"

definition foreign_references :: "sql_schema \<Rightarrow> string \<Rightarrow> (string \<times> string list) list" where
  "foreign_references ts n = concat (map (\<lambda>(m, t). map (\<lambda>(_, _, ds). (m, ds)) (filter (\<lambda>(_, k, _). k = n) (foreign_keys t))) ts)"

section \<open>Operations\<close>

datatype schema_op =
    CreateTable string "sql_column list" "(string \<times> sql_constraint) list"
  | DropTable string
  | AddColumn string sql_column
  | DropColumn string string
  | CreateIndex string string "string list" bool
  | DropIndex string string
  | CreateCheck string string sql_check
  | CreateUnique string string "string list"
  | DropConstraint string string

definition replace_table :: "string \<Rightarrow> sql_table \<Rightarrow> sql_schema \<Rightarrow> sql_schema" where
  "replace_table n t ts = map (\<lambda>(m, u). if m = n then (m, t) else (m, u)) ts"

definition target_exists :: "sql_schema \<Rightarrow> sql_constraint \<Rightarrow> bool" where
  "target_exists ts c = (case c of
      ForeignKey cs n ds _ \<Rightarrow> (case map_of ts n of None \<Rightarrow> False | Some t \<Rightarrow> set ds \<subseteq> set (column_names t))
    | _ \<Rightarrow> True)"

text \<open>A unique key or a check on an existing table.\<close>

definition add_constraint :: "string \<Rightarrow> string \<Rightarrow> sql_constraint \<Rightarrow> sql_schema \<Rightarrow> sql_schema option" where
  "add_constraint n k c ts = (case map_of ts n of
      None \<Rightarrow> None
    | Some t \<Rightarrow>
        if k \<in> fst ` set (tb_constraints t) \<or> \<not> set (constraint_columns c) \<subseteq> set (column_names t)
           \<or> key_name (k, c) \<noteq> None \<and> k \<in> set (relation_names ts) then None
        else Some (replace_table n (t\<lparr>tb_constraints := insort_key fst (k, c) (tb_constraints t)\<rparr>) ts))"

definition drop_column :: "string \<Rightarrow> sql_table \<Rightarrow> sql_table" where
  "drop_column c t = \<lparr>tb_columns = filter (\<lambda>d. co_name d \<noteq> c) (tb_columns t),
     tb_constraints = filter (\<lambda>(_, k). c \<notin> set (constraint_columns k)) (tb_constraints t),
     tb_indexes = filter (\<lambda>(_, cs, _). c \<notin> set cs) (tb_indexes t)\<rparr>"

fun alter :: "schema_op \<Rightarrow> sql_schema \<Rightarrow> sql_schema option" where
  "alter (CreateTable n cols cons) ts =
     (if n \<in> set (relation_names ts) \<or> \<not> distinct (map co_name cols) \<or> \<not> distinct (map fst cons)
         \<or> \<not> list_all (\<lambda>k. k \<notin> set (relation_names ts)) (List.map_filter key_name cons)
         \<or> \<not> list_all (\<lambda>(_, c). set (constraint_columns c) \<subseteq> co_name ` set cols \<and> target_exists ts c) cons then None
      else Some (ts @ [(n, \<lparr>tb_columns = cols, tb_constraints = sort_key fst cons, tb_indexes = []\<rparr>)]))"
| "alter (DropTable n) ts =
     (if map_of ts n = None \<or> list_ex (\<lambda>(m, _). m \<noteq> n) (foreign_references ts n) then None
      else Some (filter (\<lambda>(m, _). m \<noteq> n) ts))"
| "alter (AddColumn n c) ts = (case map_of ts n of
      None \<Rightarrow> None
    | Some t \<Rightarrow> if co_name c \<in> set (column_names t) then None
        else Some (replace_table n (t\<lparr>tb_columns := tb_columns t @ [c]\<rparr>) ts))"
| "alter (DropColumn n c) ts = (case map_of ts n of
      None \<Rightarrow> None
    | Some t \<Rightarrow> if c \<notin> set (column_names t) \<or> list_ex (\<lambda>(_, ds). c \<in> set ds) (foreign_references ts n) then None
        else Some (replace_table n (drop_column c t) ts))"
| "alter (CreateIndex k n cs uniq) ts = (case map_of ts n of
      None \<Rightarrow> None
    | Some t \<Rightarrow> if k \<in> set (relation_names ts) \<or> \<not> set cs \<subseteq> set (column_names t) then None
        else Some (replace_table n (t\<lparr>tb_indexes := insort_key fst (k, cs, uniq) (tb_indexes t)\<rparr>) ts))"
| "alter (DropIndex k n) ts = (case map_of ts n of
      None \<Rightarrow> None
    | Some t \<Rightarrow> if k \<notin> fst ` set (tb_indexes t) then None
        else Some (replace_table n (t\<lparr>tb_indexes := filter (\<lambda>(m, _). m \<noteq> k) (tb_indexes t)\<rparr>) ts))"
| "alter (CreateCheck k n chk) ts = add_constraint n k (CheckThat chk) ts"
| "alter (CreateUnique k n cs) ts = add_constraint n k (UniqueKey cs) ts"
| "alter (DropConstraint k n) ts = (case map_of ts n of
      None \<Rightarrow> None
    | Some t \<Rightarrow> (case map_of (tb_constraints t) k of
          None \<Rightarrow> None
        | Some c \<Rightarrow> if key_name (k, c) \<noteq> None \<and> list_ex (\<lambda>(_, ds). set ds = set (constraint_columns c)) (foreign_references ts n) then None
            else Some (replace_table n (t\<lparr>tb_constraints := filter (\<lambda>(m, _). m \<noteq> k) (tb_constraints t)\<rparr>) ts)))"

section \<open>Rows\<close>

text \<open>Rows that agree in the columns of a key without a null collide. A column that a row does not have reads as null.\<close>

definition no_duplicates :: "string list \<Rightarrow> sql_row list \<Rightarrow> bool" where
  "no_duplicates cs rows \<longleftrightarrow> distinct (filter (\<lambda>vs. VNull \<notin> set vs) (map (\<lambda>r. map r cs) rows))"

type_synonym contents = "string \<Rightarrow> sql_row list"

fun rewrite_rows :: "time \<Rightarrow> schema_op \<Rightarrow> contents \<Rightarrow> contents option" where
  "rewrite_rows now (CreateTable n cols cons) f = Some (f(n := []))"
| "rewrite_rows now (DropTable n) f = Some (f(n := []))"
| "rewrite_rows now (AddColumn n c) f =
     (if default_of now c = VNull \<and> \<not> co_nullable c \<and> f n \<noteq> [] then None
      else Some (f(n := map (\<lambda>r. r(co_name c := default_of now c)) (f n))))"
| "rewrite_rows now (DropColumn n c) f = Some (f(n := map (\<lambda>r. r(c := VNull)) (f n)))"
| "rewrite_rows now (CreateIndex k n cs uniq) f = (if uniq \<and> \<not> no_duplicates cs (f n) then None else Some f)"
| "rewrite_rows now (DropIndex k n) f = Some f"
| "rewrite_rows now (CreateCheck k n chk) f = (if list_all (check_passes chk) (f n) then Some f else None)"
| "rewrite_rows now (CreateUnique k n cs) f = (if no_duplicates cs (f n) then Some f else None)"
| "rewrite_rows now (DropConstraint k n) f = Some f"

record sql_database =
  db_schema :: sql_schema
  db_rows :: contents

definition apply_op :: "time \<Rightarrow> schema_op \<Rightarrow> sql_database \<Rightarrow> sql_database option" where
  "apply_op now oper db = (case alter oper (db_schema db) of
      None \<Rightarrow> None
    | Some ts \<Rightarrow> (case rewrite_rows now oper (db_rows db) of None \<Rightarrow> None | Some f \<Rightarrow> Some \<lparr>db_schema = ts, db_rows = f\<rparr>))"

fun run_ops :: "time \<Rightarrow> schema_op list \<Rightarrow> sql_database \<Rightarrow> sql_database option" where
  "run_ops now [] db = Some db"
| "run_ops now (oper # ops) db = (case apply_op now oper db of None \<Rightarrow> None | Some db' \<Rightarrow> run_ops now ops db')"

section \<open>Migrations\<close>

record migration =
  mg_revision :: string
  mg_down_revision :: "string option"
  mg_upgrade :: "schema_op list"
  mg_downgrade :: "schema_op list"

text \<open>Alembic orders the scripts of a directory by their links, starting at the one without a predecessor.\<close>

fun successors :: "nat \<Rightarrow> migration list \<Rightarrow> string option \<Rightarrow> migration list" where
  "successors 0 scripts current = []"
| "successors (Suc n) scripts current = (case find (\<lambda>m. mg_down_revision m = current) scripts of
      None \<Rightarrow> [] | Some m \<Rightarrow> m # successors n scripts (Some (mg_revision m)))"

definition pending :: "migration list \<Rightarrow> string option \<Rightarrow> migration list" where
  "pending scripts current = successors (length scripts) scripts current"

definition head_revision :: "migration list \<Rightarrow> string option" where
  "head_revision scripts = (case pending scripts None of [] \<Rightarrow> None | ms \<Rightarrow> Some (mg_revision (last ms)))"

text \<open>\<open>alembic upgrade head\<close> and \<open>alembic downgrade\<close>: the database with the revision stored in it.\<close>

definition alembic_upgrade :: "time \<Rightarrow> migration list \<Rightarrow> string option \<times> sql_database \<Rightarrow> (string option \<times> sql_database) option" where
  "alembic_upgrade now scripts x = (case x of (current, db) \<Rightarrow>
     (case run_ops now (concat (map mg_upgrade (pending scripts current))) db of
        None \<Rightarrow> None | Some db' \<Rightarrow> Some (head_revision scripts, db')))"

definition applied_since :: "migration list \<Rightarrow> string option \<Rightarrow> string option \<Rightarrow> migration list" where
  "applied_since scripts target current = takeWhile (\<lambda>m. mg_down_revision m \<noteq> current) (pending scripts target)"

definition alembic_downgrade :: "time \<Rightarrow> migration list \<Rightarrow> string option \<Rightarrow> string option \<times> sql_database \<Rightarrow>
    (string option \<times> sql_database) option" where
  "alembic_downgrade now scripts target x = (case x of (current, db) \<Rightarrow>
     (case run_ops now (concat (map mg_downgrade (rev (applied_since scripts target current)))) db of
        None \<Rightarrow> None | Some db' \<Rightarrow> Some (target, db')))"

end
