(* ===== verification/Migrations.thy ===== *)
theory Migrations
  imports Schema_Model
begin

text \<open>
  The migration scripts of the six services with a database (the files under migrations/versions), operation by operation.
  A constraint without a name has the name that PostgreSQL gives it.
\<close>

definition table_column :: "string \<Rightarrow> sql_type \<Rightarrow> bool \<Rightarrow> sql_default option \<Rightarrow> sql_column" where
  "table_column n ty nullable d = \<lparr>co_name = n, co_type = ty, co_nullable = nullable, co_default = d\<rparr>"

section \<open>distributed-job-processing-system\<close>

definition lease_fields_upgrade :: "schema_op list" where
  "lease_fields_upgrade =
    [AddColumn ''jobs'' (table_column ''lease_expires_at'' SqlTimestamp True None),
     AddColumn ''jobs'' (table_column ''heartbeat_at'' SqlTimestamp True None),
     CreateIndex ''ix_jobs_status_lease_expires_at'' ''jobs'' [''status'', ''lease_expires_at''] False]"

definition lease_fields_downgrade :: "schema_op list" where
  "lease_fields_downgrade =
    [DropIndex ''ix_jobs_status_lease_expires_at'' ''jobs'',
     DropColumn ''jobs'' ''heartbeat_at'',
     DropColumn ''jobs'' ''lease_expires_at'']"

definition lease_fields_migration :: migration where
  "lease_fields_migration = \<lparr>mg_revision = ''5bb6c4b76aca'', mg_down_revision = Some ''b5f3b0955c95'',
     mg_upgrade = lease_fields_upgrade, mg_downgrade = lease_fields_downgrade\<rparr>"

definition worker_fields_upgrade :: "schema_op list" where
  "worker_fields_upgrade =
    [AddColumn ''jobs'' (table_column ''attempt_count'' SqlInteger False (Some (DefaultValue (VNum 0)))),
     AddColumn ''jobs'' (table_column ''worker_id'' (SqlString 200) True None),
     AddColumn ''jobs'' (table_column ''result'' SqlJsonb True None),
     AddColumn ''jobs'' (table_column ''last_error'' SqlText True None),
     AddColumn ''jobs'' (table_column ''started_at'' SqlTimestamp True None),
     AddColumn ''jobs'' (table_column ''completed_at'' SqlTimestamp True None),
     CreateCheck ''ck_jobs_attempt_count_nonnegative'' ''jobs'' (AtLeast ''attempt_count'' 0)]"

definition worker_fields_downgrade :: "schema_op list" where
  "worker_fields_downgrade =
    [DropConstraint ''ck_jobs_attempt_count_nonnegative'' ''jobs'',
     DropColumn ''jobs'' ''completed_at'',
     DropColumn ''jobs'' ''started_at'',
     DropColumn ''jobs'' ''last_error'',
     DropColumn ''jobs'' ''result'',
     DropColumn ''jobs'' ''worker_id'',
     DropColumn ''jobs'' ''attempt_count'']"

definition worker_fields_migration :: migration where
  "worker_fields_migration = \<lparr>mg_revision = ''ab243a2532b3'', mg_down_revision = Some ''b63bc8dd8717'',
     mg_upgrade = worker_fields_upgrade, mg_downgrade = worker_fields_downgrade\<rparr>"

definition idempotency_key_upgrade :: "schema_op list" where
  "idempotency_key_upgrade =
    [AddColumn ''jobs'' (table_column ''idempotency_key'' (SqlString 200) True None),
     CreateUnique ''uq_jobs_idempotency_key'' ''jobs'' [''idempotency_key'']]"

definition idempotency_key_downgrade :: "schema_op list" where
  "idempotency_key_downgrade =
    [DropConstraint ''uq_jobs_idempotency_key'' ''jobs'',
     DropColumn ''jobs'' ''idempotency_key'']"

definition idempotency_key_migration :: migration where
  "idempotency_key_migration = \<lparr>mg_revision = ''b5f3b0955c95'', mg_down_revision = Some ''f233f5d3a0fd'',
     mg_upgrade = idempotency_key_upgrade, mg_downgrade = idempotency_key_downgrade\<rparr>"

definition jobs_table_upgrade :: "schema_op list" where
  "jobs_table_upgrade =
    [CreateTable ''jobs''
      [table_column ''id'' SqlUuid False None,
       table_column ''queue'' (SqlString 100) False None,
       table_column ''task_name'' (SqlString 200) False None,
       table_column ''payload'' SqlJsonb False None,
       table_column ''status'' (SqlString 15) False (Some (DefaultValue (VText ''queued''))),
       table_column ''priority'' SqlInteger False (Some (DefaultValue (VNum 0))),
       table_column ''created_at'' SqlTimestamp False (Some DefaultNow),
       table_column ''updated_at'' SqlTimestamp False (Some DefaultNow)]
      [(''job_status'', CheckThat (OneOf ''status'' [''queued'', ''running'', ''retry_scheduled'', ''succeeded'', ''dead_lettered'', ''cancelled''])),
       (''ck_jobs_priority_range'', CheckThat (WithinInts ''priority'' (-100) 100)),
       (''jobs_pkey'', PrimaryKey [''id''])],
     CreateIndex ''ix_jobs_queue_status_priority'' ''jobs'' [''queue'', ''status'', ''priority''] False]"

definition jobs_table_downgrade :: "schema_op list" where
  "jobs_table_downgrade =
    [DropIndex ''ix_jobs_queue_status_priority'' ''jobs'',
     DropTable ''jobs'']"

definition jobs_table_migration :: migration where
  "jobs_table_migration = \<lparr>mg_revision = ''b63bc8dd8717'', mg_down_revision = None,
     mg_upgrade = jobs_table_upgrade, mg_downgrade = jobs_table_downgrade\<rparr>"

definition retry_fields_upgrade :: "schema_op list" where
  "retry_fields_upgrade =
    [AddColumn ''jobs'' (table_column ''max_attempts'' SqlInteger False (Some (DefaultValue (VNum 3)))),
     AddColumn ''jobs'' (table_column ''available_at'' SqlTimestamp False (Some DefaultNow)),
     CreateCheck ''ck_jobs_max_attempts_range'' ''jobs'' (WithinInts ''max_attempts'' 1 100),
     CreateIndex ''ix_jobs_status_available_at'' ''jobs'' [''status'', ''available_at''] False]"

definition retry_fields_downgrade :: "schema_op list" where
  "retry_fields_downgrade =
    [DropIndex ''ix_jobs_status_available_at'' ''jobs'',
     DropConstraint ''ck_jobs_max_attempts_range'' ''jobs'',
     DropColumn ''jobs'' ''available_at'',
     DropColumn ''jobs'' ''max_attempts'']"

definition retry_fields_migration :: migration where
  "retry_fields_migration = \<lparr>mg_revision = ''f233f5d3a0fd'', mg_down_revision = Some ''ab243a2532b3'',
     mg_upgrade = retry_fields_upgrade, mg_downgrade = retry_fields_downgrade\<rparr>"

text \<open>The scripts in the order of their files.\<close>

definition job_scripts :: "migration list" where
  "job_scripts = [lease_fields_migration, worker_fields_migration, idempotency_key_migration, jobs_table_migration, retry_fields_migration]"

section \<open>observability-incident-detection-platform\<close>

definition incidents_upgrade :: "schema_op list" where
  "incidents_upgrade =
    [CreateTable ''incidents''
      [table_column ''id'' SqlUuid False None,
       table_column ''service_id'' SqlUuid False None,
       table_column ''trigger_anomaly_id'' SqlUuid False None,
       table_column ''status'' (SqlString 20) False None,
       table_column ''severity'' (SqlString 20) False None,
       table_column ''title'' (SqlString 200) False None,
       table_column ''description'' SqlText False None,
       table_column ''created_at'' SqlTimestamp False (Some DefaultNow),
       table_column ''acknowledged_at'' SqlTimestamp True None,
       table_column ''acknowledged_by'' (SqlString 100) True None,
       table_column ''resolved_at'' SqlTimestamp True None,
       table_column ''resolved_by'' (SqlString 100) True None,
       table_column ''resolution_summary'' SqlText True None]
      [(''incidents_service_id_fkey'', ForeignKey [''service_id''] ''monitored_services'' [''id''] ''CASCADE''),
       (''incidents_trigger_anomaly_id_fkey'', ForeignKey [''trigger_anomaly_id''] ''anomaly_records'' [''id''] ''CASCADE''),
       (''incidents_pkey'', PrimaryKey [''id'']),
       (''uq_incidents_trigger_anomaly_id'', UniqueKey [''trigger_anomaly_id''])],
     CreateIndex ''ix_incident_service_status'' ''incidents'' [''service_id'', ''status''] False,
     CreateIndex ''ix_incident_severity_created_at'' ''incidents'' [''severity'', ''created_at''] False,
     CreateIndex ''ix_incident_status_created_at'' ''incidents'' [''status'', ''created_at''] False]"

definition incidents_downgrade :: "schema_op list" where
  "incidents_downgrade =
    [DropIndex ''ix_incident_status_created_at'' ''incidents'',
     DropIndex ''ix_incident_severity_created_at'' ''incidents'',
     DropIndex ''ix_incident_service_status'' ''incidents'',
     DropTable ''incidents'']"

definition incidents_migration :: migration where
  "incidents_migration = \<lparr>mg_revision = ''429cf66dee96'', mg_down_revision = Some ''6f0b4cf1a0f3'',
     mg_upgrade = incidents_upgrade, mg_downgrade = incidents_downgrade\<rparr>"

definition anomaly_records_upgrade :: "schema_op list" where
  "anomaly_records_upgrade =
    [CreateTable ''anomaly_records''
      [table_column ''id'' SqlUuid False None,
       table_column ''telemetry_id'' SqlUuid False None,
       table_column ''rule_id'' (SqlString 100) False None,
       table_column ''category'' (SqlString 30) False None,
       table_column ''severity'' (SqlString 20) False None,
       table_column ''title'' (SqlString 200) False None,
       table_column ''description'' SqlText False None,
       table_column ''observed_value'' SqlJson False None,
       table_column ''threshold'' SqlJson True None,
       table_column ''detected_at'' SqlTimestamp False (Some DefaultNow)]
      [(''anomaly_records_telemetry_id_fkey'', ForeignKey [''telemetry_id''] ''telemetry_records'' [''id''] ''CASCADE''),
       (''anomaly_records_pkey'', PrimaryKey [''id''])],
     CreateIndex ''ix_anomaly_records_telemetry_id'' ''anomaly_records'' [''telemetry_id''] False,
     CreateIndex ''ix_anomaly_rule_detected_at'' ''anomaly_records'' [''rule_id'', ''detected_at''] False,
     CreateIndex ''ix_anomaly_severity_detected_at'' ''anomaly_records'' [''severity'', ''detected_at''] False]"

definition anomaly_records_downgrade :: "schema_op list" where
  "anomaly_records_downgrade =
    [DropIndex ''ix_anomaly_severity_detected_at'' ''anomaly_records'',
     DropIndex ''ix_anomaly_rule_detected_at'' ''anomaly_records'',
     DropIndex ''ix_anomaly_records_telemetry_id'' ''anomaly_records'',
     DropTable ''anomaly_records'']"

definition anomaly_records_migration :: migration where
  "anomaly_records_migration = \<lparr>mg_revision = ''6f0b4cf1a0f3'', mg_down_revision = Some ''fbdf46a4e529'',
     mg_upgrade = anomaly_records_upgrade, mg_downgrade = anomaly_records_downgrade\<rparr>"

definition trace_spans_upgrade :: "schema_op list" where
  "trace_spans_upgrade =
    [CreateTable ''trace_spans''
      [table_column ''id'' SqlUuid False None,
       table_column ''service_id'' SqlUuid False None,
       table_column ''trace_id'' (SqlString 32) False None,
       table_column ''span_id'' (SqlString 16) False None,
       table_column ''parent_span_id'' (SqlString 16) True None,
       table_column ''source'' (SqlString 200) False None,
       table_column ''operation'' (SqlString 200) False None,
       table_column ''status'' (SqlString 20) False None,
       table_column ''started_at'' SqlTimestamp False None,
       table_column ''ended_at'' SqlTimestamp False None,
       table_column ''duration_ms'' SqlFloat False None,
       table_column ''attributes'' SqlJson False None,
       table_column ''received_at'' SqlTimestamp False (Some DefaultNow)]
      [(''trace_spans_service_id_fkey'', ForeignKey [''service_id''] ''monitored_services'' [''id''] ''CASCADE''),
       (''trace_spans_pkey'', PrimaryKey [''id'']),
       (''uq_trace_spans_trace_id_span_id'', UniqueKey [''trace_id'', ''span_id''])],
     CreateIndex ''ix_trace_span_service_started_at'' ''trace_spans'' [''service_id'', ''started_at''] False,
     CreateIndex ''ix_trace_span_status_started_at'' ''trace_spans'' [''status'', ''started_at''] False,
     CreateIndex ''ix_trace_span_trace_started_at'' ''trace_spans'' [''trace_id'', ''started_at''] False,
     CreateIndex ''ix_trace_spans_parent_span_id'' ''trace_spans'' [''parent_span_id''] False]"

definition trace_spans_downgrade :: "schema_op list" where
  "trace_spans_downgrade =
    [DropIndex ''ix_trace_spans_parent_span_id'' ''trace_spans'',
     DropIndex ''ix_trace_span_trace_started_at'' ''trace_spans'',
     DropIndex ''ix_trace_span_status_started_at'' ''trace_spans'',
     DropIndex ''ix_trace_span_service_started_at'' ''trace_spans'',
     DropTable ''trace_spans'']"

definition trace_spans_migration :: migration where
  "trace_spans_migration = \<lparr>mg_revision = ''d9677d5c0bb5'', mg_down_revision = Some ''e819fb574bb1'',
     mg_upgrade = trace_spans_upgrade, mg_downgrade = trace_spans_downgrade\<rparr>"

definition correlations_upgrade :: "schema_op list" where
  "correlations_upgrade =
    [CreateTable ''correlations''
      [table_column ''id'' SqlUuid False None,
       table_column ''service_id'' SqlUuid False None,
       table_column ''status'' (SqlString 20) False None,
       table_column ''window_started_at'' SqlTimestamp False None,
       table_column ''window_ended_at'' SqlTimestamp False None,
       table_column ''root_cause_anomaly_id'' SqlUuid False None,
       table_column ''root_cause_incident_id'' SqlUuid False None,
       table_column ''root_cause_confidence'' SqlFloat False None,
       table_column ''root_cause_reasons'' SqlJson False None,
       table_column ''summary'' SqlText False None,
       table_column ''created_at'' SqlTimestamp False (Some DefaultNow),
       table_column ''updated_at'' SqlTimestamp False (Some DefaultNow)]
      [(''correlations_root_cause_anomaly_id_fkey'', ForeignKey [''root_cause_anomaly_id''] ''anomaly_records'' [''id''] ''CASCADE''),
       (''correlations_root_cause_incident_id_fkey'', ForeignKey [''root_cause_incident_id''] ''incidents'' [''id''] ''CASCADE''),
       (''correlations_service_id_fkey'', ForeignKey [''service_id''] ''monitored_services'' [''id''] ''CASCADE''),
       (''correlations_pkey'', PrimaryKey [''id''])],
     CreateIndex ''ix_correlation_created_at'' ''correlations'' [''created_at''] False,
     CreateIndex ''ix_correlation_service_status'' ''correlations'' [''service_id'', ''status''] False,
     CreateIndex ''ix_correlations_root_cause_anomaly_id'' ''correlations'' [''root_cause_anomaly_id''] False,
     CreateTable ''correlation_incidents''
      [table_column ''correlation_id'' SqlUuid False None,
       table_column ''incident_id'' SqlUuid False None,
       table_column ''added_at'' SqlTimestamp False (Some DefaultNow)]
      [(''correlation_incidents_correlation_id_fkey'', ForeignKey [''correlation_id''] ''correlations'' [''id''] ''CASCADE''),
       (''correlation_incidents_incident_id_fkey'', ForeignKey [''incident_id''] ''incidents'' [''id''] ''CASCADE''),
       (''correlation_incidents_pkey'', PrimaryKey [''correlation_id'', ''incident_id'']),
       (''uq_correlation_incidents_incident_id'', UniqueKey [''incident_id''])]]"

definition correlations_downgrade :: "schema_op list" where
  "correlations_downgrade =
    [DropTable ''correlation_incidents'',
     DropIndex ''ix_correlations_root_cause_anomaly_id'' ''correlations'',
     DropIndex ''ix_correlation_service_status'' ''correlations'',
     DropIndex ''ix_correlation_created_at'' ''correlations'',
     DropTable ''correlations'']"

definition correlations_migration :: migration where
  "correlations_migration = \<lparr>mg_revision = ''e819fb574bb1'', mg_down_revision = Some ''429cf66dee96'',
     mg_upgrade = correlations_upgrade, mg_downgrade = correlations_downgrade\<rparr>"

definition services_and_telemetry_upgrade :: "schema_op list" where
  "services_and_telemetry_upgrade =
    [CreateTable ''monitored_services''
      [table_column ''id'' SqlUuid False None,
       table_column ''name'' (SqlString 100) False None,
       table_column ''environment'' (SqlString 30) False None,
       table_column ''description'' SqlText True None,
       table_column ''created_at'' SqlTimestamp False (Some DefaultNow),
       table_column ''updated_at'' SqlTimestamp False (Some DefaultNow)]
      [(''monitored_services_pkey'', PrimaryKey [''id'']),
       (''uq_monitored_services_name_environment'', UniqueKey [''name'', ''environment''])],
     CreateTable ''telemetry_records''
      [table_column ''id'' SqlUuid False None,
       table_column ''service_id'' SqlUuid False None,
       table_column ''telemetry_type'' (SqlString 20) False None,
       table_column ''source'' (SqlString 200) False None,
       table_column ''observed_at'' SqlTimestamp False None,
       table_column ''received_at'' SqlTimestamp False (Some DefaultNow),
       table_column ''payload'' SqlJson False None]
      [(''telemetry_records_service_id_fkey'', ForeignKey [''service_id''] ''monitored_services'' [''id''] ''CASCADE''),
       (''telemetry_records_pkey'', PrimaryKey [''id''])],
     CreateIndex ''ix_telemetry_records_observed_at'' ''telemetry_records'' [''observed_at''] False,
     CreateIndex ''ix_telemetry_records_source'' ''telemetry_records'' [''source''] False,
     CreateIndex ''ix_telemetry_service_observed_at'' ''telemetry_records'' [''service_id'', ''observed_at''] False,
     CreateIndex ''ix_telemetry_type_observed_at'' ''telemetry_records'' [''telemetry_type'', ''observed_at''] False]"

definition services_and_telemetry_downgrade :: "schema_op list" where
  "services_and_telemetry_downgrade =
    [DropIndex ''ix_telemetry_type_observed_at'' ''telemetry_records'',
     DropIndex ''ix_telemetry_service_observed_at'' ''telemetry_records'',
     DropIndex ''ix_telemetry_records_source'' ''telemetry_records'',
     DropIndex ''ix_telemetry_records_observed_at'' ''telemetry_records'',
     DropTable ''telemetry_records'',
     DropTable ''monitored_services'']"

definition services_and_telemetry_migration :: migration where
  "services_and_telemetry_migration = \<lparr>mg_revision = ''fbdf46a4e529'', mg_down_revision = None,
     mg_upgrade = services_and_telemetry_upgrade, mg_downgrade = services_and_telemetry_downgrade\<rparr>"

text \<open>The scripts in the order of their files.\<close>

definition obs_scripts :: "migration list" where
  "obs_scripts = [incidents_migration, anomaly_records_migration, trace_spans_migration, correlations_migration, services_and_telemetry_migration]"

section \<open>cloud-deployed-full-stack-system/backend\<close>

definition cloud_incidents_upgrade :: "schema_op list" where
  "cloud_incidents_upgrade =
    [CreateTable ''incidents''
      [table_column ''id'' SqlUuid False None,
       table_column ''title'' (SqlString 200) False None,
       table_column ''description'' SqlText False None,
       table_column ''service_name'' (SqlString 120) False None,
       table_column ''severity'' (SqlString 8) False (Some (DefaultValue (VText ''medium''))),
       table_column ''status'' (SqlString 13) False (Some (DefaultValue (VText ''open''))),
       table_column ''created_at'' SqlTimestamp False (Some DefaultNow),
       table_column ''updated_at'' SqlTimestamp False (Some DefaultNow)]
      [(''incident_severity'', CheckThat (OneOf ''severity'' [''low'', ''medium'', ''high'', ''critical''])),
       (''incident_status'', CheckThat (OneOf ''status'' [''open'', ''investigating'', ''resolved'', ''closed''])),
       (''pk_incidents'', PrimaryKey [''id''])],
     CreateIndex ''ix_incidents_service_name'' ''incidents'' [''service_name''] False,
     CreateIndex ''ix_incidents_status'' ''incidents'' [''status''] False,
     CreateIndex ''ix_incidents_title'' ''incidents'' [''title''] False]"

definition cloud_incidents_downgrade :: "schema_op list" where
  "cloud_incidents_downgrade =
    [DropIndex ''ix_incidents_title'' ''incidents'',
     DropIndex ''ix_incidents_status'' ''incidents'',
     DropIndex ''ix_incidents_service_name'' ''incidents'',
     DropTable ''incidents'']"

definition cloud_incidents_migration :: migration where
  "cloud_incidents_migration = \<lparr>mg_revision = ''2ef9cb82e708'', mg_down_revision = None,
     mg_upgrade = cloud_incidents_upgrade, mg_downgrade = cloud_incidents_downgrade\<rparr>"

definition cloud_users_upgrade :: "schema_op list" where
  "cloud_users_upgrade =
    [CreateTable ''users''
      [table_column ''id'' SqlUuid False None,
       table_column ''email'' (SqlString 320) False None,
       table_column ''full_name'' (SqlString 120) False None,
       table_column ''password_hash'' (SqlString 255) False None,
       table_column ''role'' (SqlString 8) False (Some (DefaultValue (VText ''viewer''))),
       table_column ''is_active'' SqlBoolean False (Some (DefaultValue (VBool True))),
       table_column ''created_at'' SqlTimestamp False (Some DefaultNow),
       table_column ''updated_at'' SqlTimestamp False (Some DefaultNow)]
      [(''user_role'', CheckThat (OneOf ''role'' [''viewer'', ''operator'', ''admin''])),
       (''pk_users'', PrimaryKey [''id''])],
     CreateIndex ''ix_users_email'' ''users'' [''email''] True,
     CreateIndex ''ix_users_is_active'' ''users'' [''is_active''] False,
     CreateIndex ''ix_users_role'' ''users'' [''role''] False]"

definition cloud_users_downgrade :: "schema_op list" where
  "cloud_users_downgrade =
    [DropIndex ''ix_users_role'' ''users'',
     DropIndex ''ix_users_is_active'' ''users'',
     DropIndex ''ix_users_email'' ''users'',
     DropTable ''users'']"

definition cloud_users_migration :: migration where
  "cloud_users_migration = \<lparr>mg_revision = ''6b0140f7a01f'', mg_down_revision = Some ''2ef9cb82e708'',
     mg_upgrade = cloud_users_upgrade, mg_downgrade = cloud_users_downgrade\<rparr>"

definition audit_events_upgrade :: "schema_op list" where
  "audit_events_upgrade =
    [CreateTable ''audit_events''
      [table_column ''id'' SqlUuid False None,
       table_column ''actor_user_id'' SqlUuid False None,
       table_column ''actor_email'' (SqlString 320) False None,
       table_column ''actor_role'' (SqlString 8) False None,
       table_column ''action'' (SqlString 19) False None,
       table_column ''resource_type'' (SqlString 8) False None,
       table_column ''resource_id'' SqlUuid False None,
       table_column ''resource_label'' (SqlString 320) False None,
       table_column ''changes'' SqlJson False None,
       table_column ''created_at'' SqlTimestamp False (Some DefaultNow)]
      [(''audit_actor_role'', CheckThat (OneOf ''actor_role'' [''viewer'', ''operator'', ''admin''])),
       (''audit_action'', CheckThat (OneOf ''action'' [''incident.created'', ''incident.updated'', ''incident.deleted'', ''user.role_changed'', ''user.status_changed''])),
       (''audit_resource_type'', CheckThat (OneOf ''resource_type'' [''incident'', ''user''])),
       (''fk_audit_events_actor_user_id_users'', ForeignKey [''actor_user_id''] ''users'' [''id''] ''RESTRICT''),
       (''pk_audit_events'', PrimaryKey [''id''])],
     CreateIndex ''ix_audit_events_action'' ''audit_events'' [''action''] False,
     CreateIndex ''ix_audit_events_actor_user_id'' ''audit_events'' [''actor_user_id''] False,
     CreateIndex ''ix_audit_events_created_at'' ''audit_events'' [''created_at''] False,
     CreateIndex ''ix_audit_events_resource_id'' ''audit_events'' [''resource_id''] False,
     CreateIndex ''ix_audit_events_resource_type'' ''audit_events'' [''resource_type''] False]"

definition audit_events_downgrade :: "schema_op list" where
  "audit_events_downgrade =
    [DropIndex ''ix_audit_events_resource_type'' ''audit_events'',
     DropIndex ''ix_audit_events_resource_id'' ''audit_events'',
     DropIndex ''ix_audit_events_created_at'' ''audit_events'',
     DropIndex ''ix_audit_events_actor_user_id'' ''audit_events'',
     DropIndex ''ix_audit_events_action'' ''audit_events'',
     DropTable ''audit_events'']"

definition audit_events_migration :: migration where
  "audit_events_migration = \<lparr>mg_revision = ''7c9e4b2a6d10'', mg_down_revision = Some ''6b0140f7a01f'',
     mg_upgrade = audit_events_upgrade, mg_downgrade = audit_events_downgrade\<rparr>"

text \<open>The scripts in the order of their files.\<close>

definition cloud_scripts :: "migration list" where
  "cloud_scripts = [cloud_incidents_migration, cloud_users_migration, audit_events_migration]"

section \<open>production-warehouse-microservices/services/inventory-service\<close>

definition transfer_movements_upgrade :: "schema_op list" where
  "transfer_movements_upgrade =
    [AddColumn ''stock_movements'' (table_column ''transfer_id'' SqlUuid True None),
     CreateIndex ''ix_stock_movements_transfer_id'' ''stock_movements'' [''transfer_id''] False,
     DropConstraint ''ck_stock_movements_valid_type'' ''stock_movements'',
     CreateCheck ''ck_stock_movements_valid_type'' ''stock_movements'' (OneOf ''movement_type'' [''RECEIPT'', ''ISSUE'', ''ADJUSTMENT'', ''RESERVATION'', ''RELEASE'', ''TRANSFER_OUT'', ''TRANSFER_IN''])]"

definition transfer_movements_downgrade :: "schema_op list" where
  "transfer_movements_downgrade =
    [DropConstraint ''ck_stock_movements_valid_type'' ''stock_movements'',
     CreateCheck ''ck_stock_movements_valid_type'' ''stock_movements'' (OneOf ''movement_type'' [''RECEIPT'', ''ISSUE'', ''ADJUSTMENT'', ''RESERVATION'', ''RELEASE'']),
     DropIndex ''ix_stock_movements_transfer_id'' ''stock_movements'',
     DropColumn ''stock_movements'' ''transfer_id'']"

definition transfer_movements_migration :: migration where
  "transfer_movements_migration = \<lparr>mg_revision = ''be8514c2d2b9'', mg_down_revision = Some ''db993ddf412b'',
     mg_upgrade = transfer_movements_upgrade, mg_downgrade = transfer_movements_downgrade\<rparr>"

definition balances_and_movements_upgrade :: "schema_op list" where
  "balances_and_movements_upgrade =
    [CreateTable ''inventory_balances''
      [table_column ''id'' SqlUuid False None,
       table_column ''product_id'' SqlUuid False None,
       table_column ''warehouse_id'' SqlUuid False None,
       table_column ''quantity_on_hand'' SqlInteger False (Some (DefaultValue (VNum 0))),
       table_column ''quantity_reserved'' SqlInteger False (Some (DefaultValue (VNum 0))),
       table_column ''created_at'' SqlTimestamp False (Some DefaultNow),
       table_column ''updated_at'' SqlTimestamp False (Some DefaultNow)]
      [(''ck_inventory_balances_on_hand_non_negative'', CheckThat (AtLeast ''quantity_on_hand'' 0)),
       (''ck_inventory_balances_reserved_not_above_on_hand'', CheckThat (NotAbove ''quantity_reserved'' ''quantity_on_hand'')),
       (''ck_inventory_balances_reserved_non_negative'', CheckThat (AtLeast ''quantity_reserved'' 0)),
       (''inventory_balances_product_id_fkey'', ForeignKey [''product_id''] ''products'' [''id''] ''CASCADE''),
       (''inventory_balances_pkey'', PrimaryKey [''id'']),
       (''uq_inventory_balances_product_warehouse'', UniqueKey [''product_id'', ''warehouse_id''])],
     CreateIndex ''ix_inventory_balances_product_id'' ''inventory_balances'' [''product_id''] False,
     CreateIndex ''ix_inventory_balances_warehouse_id'' ''inventory_balances'' [''warehouse_id''] False,
     CreateTable ''stock_movements''
      [table_column ''id'' SqlUuid False None,
       table_column ''product_id'' SqlUuid False None,
       table_column ''warehouse_id'' SqlUuid False None,
       table_column ''movement_type'' (SqlString 20) False None,
       table_column ''on_hand_delta'' SqlInteger False None,
       table_column ''reserved_delta'' SqlInteger False None,
       table_column ''on_hand_balance_after'' SqlInteger False None,
       table_column ''reserved_balance_after'' SqlInteger False None,
       table_column ''reference_id'' (SqlString 100) True None,
       table_column ''reason'' (SqlString 500) True None,
       table_column ''created_at'' SqlTimestamp False (Some DefaultNow)]
      [(''ck_stock_movements_valid_type'', CheckThat (OneOf ''movement_type'' [''RECEIPT'', ''ISSUE'', ''ADJUSTMENT'', ''RESERVATION'', ''RELEASE''])),
       (''ck_stock_movements_on_hand_after_non_negative'', CheckThat (AtLeast ''on_hand_balance_after'' 0)),
       (''ck_stock_movements_non_zero_delta'', CheckThat (EitherCheck (NonZero ''on_hand_delta'') (NonZero ''reserved_delta''))),
       (''ck_stock_movements_reserved_after_non_negative'', CheckThat (AtLeast ''reserved_balance_after'' 0)),
       (''stock_movements_product_id_fkey'', ForeignKey [''product_id''] ''products'' [''id''] ''CASCADE''),
       (''stock_movements_pkey'', PrimaryKey [''id''])],
     CreateIndex ''ix_stock_movements_product_id'' ''stock_movements'' [''product_id''] False,
     CreateIndex ''ix_stock_movements_product_warehouse_created'' ''stock_movements'' [''product_id'', ''warehouse_id'', ''created_at''] False,
     CreateIndex ''ix_stock_movements_warehouse_id'' ''stock_movements'' [''warehouse_id''] False]"

definition balances_and_movements_downgrade :: "schema_op list" where
  "balances_and_movements_downgrade =
    [DropIndex ''ix_stock_movements_warehouse_id'' ''stock_movements'',
     DropIndex ''ix_stock_movements_product_warehouse_created'' ''stock_movements'',
     DropIndex ''ix_stock_movements_product_id'' ''stock_movements'',
     DropTable ''stock_movements'',
     DropIndex ''ix_inventory_balances_warehouse_id'' ''inventory_balances'',
     DropIndex ''ix_inventory_balances_product_id'' ''inventory_balances'',
     DropTable ''inventory_balances'']"

definition balances_and_movements_migration :: migration where
  "balances_and_movements_migration = \<lparr>mg_revision = ''db993ddf412b'', mg_down_revision = Some ''e360bc96b37e'',
     mg_upgrade = balances_and_movements_upgrade, mg_downgrade = balances_and_movements_downgrade\<rparr>"

definition products_upgrade :: "schema_op list" where
  "products_upgrade =
    [CreateTable ''products''
      [table_column ''id'' SqlUuid False None,
       table_column ''sku'' (SqlString 50) False None,
       table_column ''name'' (SqlString 200) False None,
       table_column ''description'' SqlText True None,
       table_column ''unit_price'' (SqlNumeric 12 2) False None,
       table_column ''reorder_level'' SqlInteger False (Some (DefaultValue (VNum 0))),
       table_column ''is_active'' SqlBoolean False (Some (DefaultValue (VBool True))),
       table_column ''created_at'' SqlTimestamp False (Some DefaultNow),
       table_column ''updated_at'' SqlTimestamp False (Some DefaultNow)]
      [(''ck_products_reorder_level_non_negative'', CheckThat (AtLeast ''reorder_level'' 0)),
       (''ck_products_unit_price_non_negative'', CheckThat (AtLeast ''unit_price'' 0)),
       (''products_pkey'', PrimaryKey [''id''])],
     CreateIndex ''ix_products_sku'' ''products'' [''sku''] True]"

definition products_downgrade :: "schema_op list" where
  "products_downgrade =
    [DropIndex ''ix_products_sku'' ''products'',
     DropTable ''products'']"

definition products_migration :: migration where
  "products_migration = \<lparr>mg_revision = ''e360bc96b37e'', mg_down_revision = None,
     mg_upgrade = products_upgrade, mg_downgrade = products_downgrade\<rparr>"

text \<open>The scripts in the order of their files.\<close>

definition inventory_scripts :: "migration list" where
  "inventory_scripts = [transfer_movements_migration, balances_and_movements_migration, products_migration]"

section \<open>production-warehouse-microservices/services/warehouse-service\<close>

definition warehouses_upgrade :: "schema_op list" where
  "warehouses_upgrade =
    [CreateTable ''warehouses''
      [table_column ''id'' SqlUuid False None,
       table_column ''code'' (SqlString 50) False None,
       table_column ''name'' (SqlString 150) False None,
       table_column ''address_line_1'' (SqlString 200) False None,
       table_column ''address_line_2'' (SqlString 200) True None,
       table_column ''city'' (SqlString 100) False None,
       table_column ''state'' (SqlString 100) False None,
       table_column ''postal_code'' (SqlString 20) False None,
       table_column ''country_code'' (SqlString 2) False (Some (DefaultValue (VText ''US''))),
       table_column ''is_active'' SqlBoolean False (Some (DefaultValue (VBool True))),
       table_column ''created_at'' SqlTimestamp False (Some DefaultNow),
       table_column ''updated_at'' SqlTimestamp False (Some DefaultNow)]
      [(''warehouses_pkey'', PrimaryKey [''id''])],
     CreateIndex ''ix_warehouses_code'' ''warehouses'' [''code''] True]"

definition warehouses_downgrade :: "schema_op list" where
  "warehouses_downgrade =
    [DropIndex ''ix_warehouses_code'' ''warehouses'',
     DropTable ''warehouses'']"

definition warehouses_migration :: migration where
  "warehouses_migration = \<lparr>mg_revision = ''dbaf7dc8730d'', mg_down_revision = None,
     mg_upgrade = warehouses_upgrade, mg_downgrade = warehouses_downgrade\<rparr>"

text \<open>The scripts in the order of their files.\<close>

definition warehouse_scripts :: "migration list" where
  "warehouse_scripts = [warehouses_migration]"

section \<open>production-warehouse-microservices/services/order-service\<close>

definition orders_upgrade :: "schema_op list" where
  "orders_upgrade =
    [CreateTable ''orders''
      [table_column ''id'' SqlUuid False None,
       table_column ''order_number'' (SqlString 50) False None,
       table_column ''customer_name'' (SqlString 150) False None,
       table_column ''customer_email'' (SqlString 320) False None,
       table_column ''warehouse_id'' SqlUuid False None,
       table_column ''status'' (SqlString 20) False (Some (DefaultValue (VText ''PENDING''))),
       table_column ''total_amount'' (SqlNumeric 12 2) False (Some (DefaultValue (VNum 0))),
       table_column ''created_at'' SqlTimestamp False (Some DefaultNow),
       table_column ''updated_at'' SqlTimestamp False (Some DefaultNow)]
      [(''order_status'', CheckThat (OneOf ''status'' [''PENDING'', ''RESERVED'', ''CONFIRMED'', ''CANCELLED''])),
       (''ck_orders_total_amount_non_negative'', CheckThat (AtLeast ''total_amount'' 0)),
       (''orders_pkey'', PrimaryKey [''id''])],
     CreateIndex ''ix_orders_order_number'' ''orders'' [''order_number''] True,
     CreateIndex ''ix_orders_status'' ''orders'' [''status''] False,
     CreateIndex ''ix_orders_warehouse_id'' ''orders'' [''warehouse_id''] False,
     CreateIndex ''ix_orders_warehouse_status'' ''orders'' [''warehouse_id'', ''status''] False,
     CreateTable ''order_items''
      [table_column ''id'' SqlUuid False None,
       table_column ''order_id'' SqlUuid False None,
       table_column ''product_id'' SqlUuid False None,
       table_column ''quantity'' SqlInteger False None,
       table_column ''unit_price'' (SqlNumeric 12 2) False None,
       table_column ''line_total'' (SqlNumeric 14 2) False None]
      [(''ck_order_items_line_total_non_negative'', CheckThat (AtLeast ''line_total'' 0)),
       (''ck_order_items_quantity_positive'', CheckThat (MoreThan ''quantity'' 0)),
       (''ck_order_items_unit_price_non_negative'', CheckThat (AtLeast ''unit_price'' 0)),
       (''order_items_order_id_fkey'', ForeignKey [''order_id''] ''orders'' [''id''] ''CASCADE''),
       (''order_items_pkey'', PrimaryKey [''id''])],
     CreateIndex ''ix_order_items_order_id'' ''order_items'' [''order_id''] False,
     CreateIndex ''ix_order_items_product_id'' ''order_items'' [''product_id''] False]"

definition orders_downgrade :: "schema_op list" where
  "orders_downgrade =
    [DropIndex ''ix_order_items_product_id'' ''order_items'',
     DropIndex ''ix_order_items_order_id'' ''order_items'',
     DropTable ''order_items'',
     DropIndex ''ix_orders_warehouse_status'' ''orders'',
     DropIndex ''ix_orders_warehouse_id'' ''orders'',
     DropIndex ''ix_orders_status'' ''orders'',
     DropIndex ''ix_orders_order_number'' ''orders'',
     DropTable ''orders'']"

definition orders_migration :: migration where
  "orders_migration = \<lparr>mg_revision = ''0f583f9c3e49'', mg_down_revision = None,
     mg_upgrade = orders_upgrade, mg_downgrade = orders_downgrade\<rparr>"

text \<open>The scripts in the order of their files.\<close>

definition order_scripts :: "migration list" where
  "order_scripts = [orders_migration]"

section \<open>All services\<close>

definition migration_scripts :: "(string \<times> migration list) list" where
  "migration_scripts = [(''job'', job_scripts), (''obs'', obs_scripts), (''cloud'', cloud_scripts), (''inventory'', inventory_scripts), (''warehouse'', warehouse_scripts), (''order'', order_scripts)]"

end
