(* ===== verification/Schema_Correct.thy ===== *)
theory Schema_Correct
  imports Migrations
begin

text \<open>
  When a database fits its schema, and what a migration does to such a database: the schema and the rows change apart from
  each other, a migration that only creates tables leaves the rows alone, and one that adds columns fills them with
  their defaults. A chain of safe migrations is safe.
\<close>

section \<open>Databases that fit\<close>

definition column_fits :: "sql_column \<Rightarrow> sql_value \<Rightarrow> bool" where
  "column_fits c v \<longleftrightarrow> (if v = VNull then co_nullable c else value_fits (co_type c) v)"

definition checks :: "sql_table \<Rightarrow> sql_check list" where
  "checks t = List.map_filter (\<lambda>(_, c). case c of CheckThat chk \<Rightarrow> Some chk | _ \<Rightarrow> None) (tb_constraints t)"

definition unique_keys :: "sql_table \<Rightarrow> string list list" where
  "unique_keys t = List.map_filter (\<lambda>(_, c). case c of PrimaryKey cs \<Rightarrow> Some cs | UniqueKey cs \<Rightarrow> Some cs | _ \<Rightarrow> None) (tb_constraints t)
     @ map (\<lambda>(_, cs, _). cs) (filter (\<lambda>(_, _, uniq). uniq) (tb_indexes t))"

definition row_fits :: "sql_table \<Rightarrow> sql_row \<Rightarrow> bool" where
  "row_fits t r \<longleftrightarrow> (\<forall>c\<in>set (tb_columns t). column_fits c (r (co_name c)))
     \<and> (\<forall>x. x \<notin> set (column_names t) \<longrightarrow> r x = VNull) \<and> (\<forall>chk\<in>set (checks t). check_passes chk r)"

definition links_fit :: "contents \<Rightarrow> string list \<times> string \<times> string list \<Rightarrow> sql_row list \<Rightarrow> bool" where
  "links_fit f k rows \<longleftrightarrow> (case k of (cs, m, ds) \<Rightarrow>
     \<forall>r\<in>set rows. VNull \<in> set (map r cs) \<or> (\<exists>q\<in>set (f m). map q ds = map r cs))"

definition table_fits :: "contents \<Rightarrow> sql_table \<Rightarrow> sql_row list \<Rightarrow> bool" where
  "table_fits f t rows \<longleftrightarrow> (\<forall>r\<in>set rows. row_fits t r) \<and> (\<forall>cs\<in>set (unique_keys t). no_duplicates cs rows)
     \<and> (\<forall>k\<in>set (foreign_keys t). links_fit f k rows)"

definition contents_fit :: "sql_schema \<Rightarrow> contents \<Rightarrow> bool" where
  "contents_fit ts f \<longleftrightarrow> (\<forall>(n, t)\<in>set ts. table_fits f t (f n)) \<and> (\<forall>n. n \<notin> fst ` set ts \<longrightarrow> f n = [])"

definition database_ok :: "sql_database \<Rightarrow> bool" where
  "database_ok db \<longleftrightarrow> contents_fit (db_schema db) (db_rows db)"

lemma table_fits_Nil [simp]: "table_fits f t []"
  by (auto simp: table_fits_def no_duplicates_def links_fit_def split: prod.splits)

section \<open>Schema and rows apart\<close>

fun alter_all :: "schema_op list \<Rightarrow> sql_schema \<Rightarrow> sql_schema option" where
  "alter_all [] ts = Some ts"
| "alter_all (oper # ops) ts = (case alter oper ts of None \<Rightarrow> None | Some ts' \<Rightarrow> alter_all ops ts')"

fun rewrite_all :: "time \<Rightarrow> schema_op list \<Rightarrow> contents \<Rightarrow> contents option" where
  "rewrite_all now [] f = Some f"
| "rewrite_all now (oper # ops) f = (case rewrite_rows now oper f of None \<Rightarrow> None | Some f' \<Rightarrow> rewrite_all now ops f')"

lemma run_ops_split:
  assumes "alter_all ops ts = Some ts'"
  shows "run_ops now ops \<lparr>db_schema = ts, db_rows = f\<rparr>
    = map_option (\<lambda>f'. \<lparr>db_schema = ts', db_rows = f'\<rparr>) (rewrite_all now ops f)"
  using assms
  by (induction ops arbitrary: ts f) (auto simp: apply_op_def split: option.splits)

lemma alter_all_append: "alter_all (ops @ rest) ts = (case alter_all ops ts of None \<Rightarrow> None | Some ts' \<Rightarrow> alter_all rest ts')"
  by (induction ops arbitrary: ts) (auto split: option.splits)

lemma rewrite_all_append:
  "rewrite_all now (ops @ rest) f = (case rewrite_all now ops f of None \<Rightarrow> None | Some f' \<Rightarrow> rewrite_all now rest f')"
  by (induction ops arbitrary: f) (auto split: option.splits)

section \<open>Safe migrations\<close>

definition keeps_rows :: "sql_schema \<Rightarrow> contents \<Rightarrow> contents \<Rightarrow> bool" where
  "keeps_rows ts f f' \<longleftrightarrow> (\<forall>(n, t)\<in>set ts. list_all2 (\<lambda>r r'. \<forall>c\<in>set (column_names t). r' c = r c) (f n) (f' n))"

definition wider :: "sql_schema \<Rightarrow> sql_schema \<Rightarrow> bool" where
  "wider ts ts' \<longleftrightarrow> list_all (\<lambda>(n, t). case map_of ts' n of None \<Rightarrow> False
     | Some t' \<Rightarrow> list_all (\<lambda>c. c \<in> set (column_names t')) (column_names t)) ts"

definition safe_migration :: "sql_schema \<Rightarrow> migration \<Rightarrow> sql_schema \<Rightarrow> bool" where
  "safe_migration ts m ts' \<longleftrightarrow> alter_all (mg_upgrade m) ts = Some ts' \<and> alter_all (mg_downgrade m) ts' = Some ts \<and> wider ts ts'
     \<and> (\<forall>now later f. contents_fit ts f \<longrightarrow> (\<exists>f'. rewrite_all now (mg_upgrade m) f = Some f' \<and> contents_fit ts' f'
          \<and> keeps_rows ts f f' \<and> rewrite_all later (mg_downgrade m) f' = Some f))"

fun safe_chain :: "sql_schema \<Rightarrow> migration list \<Rightarrow> bool" where
  "safe_chain ts [] = True"
| "safe_chain ts (m # ms) = (\<exists>ts'. safe_migration ts m ts' \<and> safe_chain ts' ms)"

lemma keeps_refl: "keeps_rows ts f f"
  by (auto simp: keeps_rows_def list.rel_refl)

lemma keeps_trans:
  assumes "keeps_rows ts f f'" "keeps_rows ts' f' f''" "wider ts ts'"
  shows "keeps_rows ts f f''"
  unfolding keeps_rows_def
proof clarify
  fix n t assume n: "(n, t) \<in> set ts"
  then obtain t' where t': "map_of ts' n = Some t'" "set (column_names t) \<subseteq> set (column_names t')"
    using assms(3) by (fastforce simp: wider_def list_all_iff split: option.splits)
  have "list_all2 (\<lambda>r r'. \<forall>c\<in>set (column_names t). r' c = r c) (f n) (f' n)"
    using assms(1) n by (auto simp: keeps_rows_def)
  moreover have "list_all2 (\<lambda>r r'. \<forall>c\<in>set (column_names t). r' c = r c) (f' n) (f'' n)"
    using assms(2) map_of_SomeD [OF t'(1)] t'(2) by (fastforce simp: keeps_rows_def elim: list_all2_mono)
  ultimately show "list_all2 (\<lambda>r r'. \<forall>c\<in>set (column_names t). r' c = r c) (f n) (f'' n)"
    by (rule list_all2_trans [rotated]) auto
qed

lemma safe_chain_run:
  assumes "safe_chain ts ms" and "contents_fit ts f"
  shows "\<exists>ts' f'. alter_all (concat (map mg_upgrade ms)) ts = Some ts' \<and> contents_fit ts' f' \<and> keeps_rows ts f f'
    \<and> run_ops now (concat (map mg_upgrade ms)) \<lparr>db_schema = ts, db_rows = f\<rparr> = Some \<lparr>db_schema = ts', db_rows = f'\<rparr>
    \<and> run_ops later (concat (map mg_downgrade (rev ms))) \<lparr>db_schema = ts', db_rows = f'\<rparr> = Some \<lparr>db_schema = ts, db_rows = f\<rparr>"
proof -
  have "\<exists>ts' f'. alter_all (concat (map mg_upgrade ms)) ts = Some ts' \<and> alter_all (concat (map mg_downgrade (rev ms))) ts' = Some ts
      \<and> contents_fit ts' f' \<and> keeps_rows ts f f'
      \<and> rewrite_all now (concat (map mg_upgrade ms)) f = Some f' \<and> rewrite_all later (concat (map mg_downgrade (rev ms))) f' = Some f"
    using assms
  proof (induction ms arbitrary: ts f)
    case Nil
    then show ?case using keeps_refl by auto
  next
    case (Cons m ms)
    obtain ts1 where m: "safe_migration ts m ts1" "safe_chain ts1 ms" using Cons.prems(1) by auto
    obtain f1 where f1: "rewrite_all now (mg_upgrade m) f = Some f1" "contents_fit ts1 f1" "keeps_rows ts f f1"
        "rewrite_all later (mg_downgrade m) f1 = Some f"
      using m(1) Cons.prems(2) unfolding safe_migration_def by blast
    obtain ts2 f2 where "alter_all (concat (map mg_upgrade ms)) ts1 = Some ts2"
        "alter_all (concat (map mg_downgrade (rev ms))) ts2 = Some ts1" "contents_fit ts2 f2" "keeps_rows ts1 f1 f2"
        "rewrite_all now (concat (map mg_upgrade ms)) f1 = Some f2"
        "rewrite_all later (concat (map mg_downgrade (rev ms))) f2 = Some f1"
      using Cons.IH [OF m(2) f1(2)] by blast
    with m(1) f1 show ?case
      unfolding safe_migration_def
      by (intro exI [of _ ts2] exI [of _ f2])
        (auto simp: alter_all_append rewrite_all_append intro: keeps_trans)
  qed
  then obtain ts' f' where *: "alter_all (concat (map mg_upgrade ms)) ts = Some ts'"
      "alter_all (concat (map mg_downgrade (rev ms))) ts' = Some ts" "contents_fit ts' f'" "keeps_rows ts f f'"
      "rewrite_all now (concat (map mg_upgrade ms)) f = Some f'" "rewrite_all later (concat (map mg_downgrade (rev ms))) f' = Some f"
    by blast
  show ?thesis using * by (intro exI [of _ ts'] exI [of _ f']) (simp add: run_ops_split)
qed

section \<open>Migrations that create tables\<close>

text \<open>The tables that are made in \<open>ops\<close>, if it does nothing but make tables and their indexes.\<close>

fun creates :: "string list \<Rightarrow> schema_op list \<Rightarrow> bool" where
  "creates made [] = True"
| "creates made (CreateTable n cols cons # ops) = (n \<in> set made \<and> creates made ops)"
| "creates made (CreateIndex k n cs uniq # ops) = (n \<in> set made \<and> creates made ops)"
| "creates made _ = False"

fun removes :: "string list \<Rightarrow> schema_op list \<Rightarrow> bool" where
  "removes made [] = True"
| "removes made (DropTable n # ops) = (n \<in> set made \<and> removes made ops)"
| "removes made (DropIndex k n # ops) = removes made ops"
| "removes made _ = False"

lemma creates_rows: "creates made ops \<Longrightarrow> (\<forall>n\<in>set made. f n = []) \<Longrightarrow> rewrite_all now ops f = Some f"
  by (induction made ops rule: creates.induct) (auto simp: no_duplicates_def fun_upd_idem)

lemma removes_rows: "removes made ops \<Longrightarrow> (\<forall>n\<in>set made. f n = []) \<Longrightarrow> rewrite_all now ops f = Some f"
  by (induction made ops rule: removes.induct) (auto simp: fun_upd_idem)

definition adds_tables :: "sql_schema \<Rightarrow> string list \<Rightarrow> sql_schema \<Rightarrow> bool" where
  "adds_tables ts made ts' \<longleftrightarrow> list_all (\<lambda>n. map_of ts n = None) made
     \<and> take (length ts) ts' = ts \<and> list_all (\<lambda>(n, _). map_of ts n = None) (drop (length ts) ts')"

lemma adds_tables_split:
  assumes "adds_tables ts made ts'"
  obtains new where "ts' = ts @ new" "\<forall>n\<in>fst ` set new \<union> set made. n \<notin> fst ` set ts"
proof
  show "ts' = ts @ drop (length ts) ts'"
    using assms append_take_drop_id [of "length ts" ts'] by (simp add: adds_tables_def)
  show "\<forall>n\<in>fst ` set (drop (length ts) ts') \<union> set made. n \<notin> fst ` set ts"
    using assms by (force simp: adds_tables_def list_all_iff map_of_eq_None_iff)
qed

lemma create_tables_safe:
  assumes "alter_all (mg_upgrade m) ts = Some ts'" "alter_all (mg_downgrade m) ts' = Some ts" "wider ts ts'"
    and "creates made (mg_upgrade m)" "removes made (mg_downgrade m)" "adds_tables ts made ts'"
  shows "safe_migration ts m ts'"
proof -
  obtain new where new: "ts' = ts @ new" "\<forall>n\<in>fst ` set new \<union> set made. n \<notin> fst ` set ts"
    using adds_tables_split [OF assms(6)] .
  have "rewrite_all now (mg_upgrade m) f = Some f \<and> contents_fit ts' f \<and> rewrite_all later (mg_downgrade m) f = Some f"
    if "contents_fit ts f" for now later f
  proof -
    have empty: "f n = []" if "n \<in> fst ` set new \<union> set made" for n
      using new(2) that \<open>contents_fit ts f\<close> by (auto simp: contents_fit_def)
    then have "contents_fit ts' f"
      using that unfolding contents_fit_def new(1) by (force simp: image_iff)
    then show ?thesis using empty creates_rows [OF assms(4)] removes_rows [OF assms(5)] by blast
  qed
  then show ?thesis using assms(1-3) keeps_refl unfolding safe_migration_def by blast
qed

section \<open>Migrations that add columns\<close>

definition fill_row :: "time \<Rightarrow> sql_column list \<Rightarrow> sql_row \<Rightarrow> sql_row" where
  "fill_row now cols r = foldl (\<lambda>r c. r(co_name c := default_of now c)) r cols"

definition clear_row :: "string list \<Rightarrow> sql_row \<Rightarrow> sql_row" where
  "clear_row cs r = (\<lambda>x. if x \<in> set cs then VNull else r x)"

lemma fill_row_simps [simp]:
  "fill_row now [] r = r"
  "fill_row now (c # cols) r = fill_row now cols (r(co_name c := default_of now c))"
  by (simp_all add: fill_row_def)

lemma fill_row_other: "x \<notin> co_name ` set cols \<Longrightarrow> fill_row now cols r x = r x"
  by (induction cols arbitrary: r) auto

lemma fill_row_new:
  "distinct (map co_name cols) \<Longrightarrow> c \<in> set cols \<Longrightarrow> fill_row now cols r (co_name c) = default_of now c"
  by (induction cols arbitrary: r) (auto simp: fill_row_other)

definition defaults_fit :: "sql_column list \<Rightarrow> bool" where
  "defaults_fit cols \<longleftrightarrow> list_all (\<lambda>c. case co_default c of None \<Rightarrow> co_nullable c
     | Some (DefaultValue v) \<Rightarrow> v \<noteq> VNull \<and> value_fits (co_type c) v
     | Some DefaultNow \<Rightarrow> co_type c = SqlTimestamp) cols"

lemma default_fits: "defaults_fit cols \<Longrightarrow> c \<in> set cols \<Longrightarrow> column_fits c (default_of now c)"
  by (auto simp: defaults_fit_def list_all_iff column_fits_def default_of_def split: option.splits sql_default.splits)

lemma add_columns_rows:
  "defaults_fit cols \<Longrightarrow>
    rewrite_all now (map (AddColumn n) cols @ ops) f = rewrite_all now ops (f(n := map (fill_row now cols) (f n)))"
proof (induction cols arbitrary: f)
  case (Cons c cols)
  have fits: "defaults_fit cols" and "\<not> (default_of now c = VNull \<and> \<not> co_nullable c)"
    using Cons.prems default_fits [OF Cons.prems, of c now] by (auto simp: defaults_fit_def column_fits_def)
  then have "rewrite_rows now (AddColumn n c) f = Some (f(n := map (\<lambda>r. r(co_name c := default_of now c)) (f n)))" by auto
  then show ?case
    by (simp only: list.map append_Cons rewrite_all.simps option.case Cons.IH [OF fits] fun_upd_same fun_upd_upd map_map comp_def
        fill_row_simps)
qed (simp add: fill_row_def [abs_def])

lemma check_value_cong: "(\<And>c. c \<in> set (check_columns chk) \<Longrightarrow> r c = r' c) \<Longrightarrow> check_value chk r = check_value chk r'"
  by (induction chk) auto

text \<open>A table to which columns and constraints are added, with rows that keep their old columns.\<close>

definition no_references :: "sql_schema \<Rightarrow> string \<Rightarrow> bool" where
  "no_references ts n \<longleftrightarrow> list_all (\<lambda>(_, t). list_all (\<lambda>(_, m, _). m \<noteq> n) (foreign_keys t)) ts"

lemma links_other: "m \<noteq> n \<Longrightarrow> links_fit (f(n := rows)) (cs, m, ds) qs = links_fit f (cs, m, ds) qs"
  by (simp add: links_fit_def)

lemma change_table:
  assumes fit: "contents_fit ts f" and n: "map_of ts n = Some t" "distinct (map fst ts)" "no_references ts n"
    and keys: "foreign_keys t' = foreign_keys t"
    and fks: "\<And>r cs m ds. r \<in> set (f n) \<Longrightarrow> (cs, m, ds) \<in> set (foreign_keys t) \<Longrightarrow> map (g r) cs = map r cs"
    and rows: "\<And>r. r \<in> set (f n) \<Longrightarrow> row_fits t' (g r)"
    and uniq: "\<And>cs. cs \<in> set (unique_keys t') \<Longrightarrow> no_duplicates cs (map g (f n))"
  shows "contents_fit (replace_table n t' ts) (f(n := map g (f n)))"
proof -
  have t: "(n, t) \<in> set ts" using n(1) by (rule map_of_SomeD)
  have noref: "k \<noteq> n" if "(m, u) \<in> set ts" "(cs, k, ds) \<in> set (foreign_keys u)" for m u cs k ds
    using n(3) that by (fastforce simp: no_references_def list_all_iff)
  have other: "table_fits (f(n := map g (f n))) u (f m)" if "(m, u) \<in> set ts" "m \<noteq> n" for m u
    using fit that noref [OF that(1)] unfolding contents_fit_def table_fits_def by (fastforce simp: links_other)
  have "links_fit f k (map g (f n))" if k: "k \<in> set (foreign_keys t)" for k
  proof -
    obtain cs m ds where kd: "k = (cs, m, ds)" by (cases k)
    have "links_fit f (cs, m, ds) (f n)" using fit t k kd by (auto simp: contents_fit_def table_fits_def)
    moreover have "map (g r) cs = map r cs" if "r \<in> set (f n)" for r using fks that k kd by blast
    ultimately have "\<forall>r\<in>set (f n). VNull \<in> set (map (g r) cs) \<or> (\<exists>q\<in>set (f m). map q ds = map (g r) cs)"
      unfolding links_fit_def by (simp del: map_eq_conv set_map list.set_map)
    then show ?thesis by (simp add: links_fit_def kd)
  qed
  then have "table_fits (f(n := map g (f n))) t' (map g (f n))"
    using rows uniq keys noref [OF t] unfolding table_fits_def by (auto simp: links_other)
  then have "table_fits (f(n := map g (f n))) u ((f(n := map g (f n))) m)" if "(m, u) \<in> set (replace_table n t' ts)" for m u
    using that other [of m u] by (cases "m = n") (auto simp: replace_table_def split: if_splits)
  moreover have "fst ` set (replace_table n t' ts) = fst ` set ts"
    by (force simp: replace_table_def image_iff)
  moreover have "(f(n := map g (f n))) m = []" if "m \<notin> fst ` set ts" for m
    using fit that t by (auto simp: contents_fit_def image_iff)
  ultimately show ?thesis unfolding contents_fit_def by auto
qed

text \<open>The facts about the two schemas on which the addition of columns rests, all of them decided by evaluation.\<close>

definition grows :: "string \<Rightarrow> sql_column list \<Rightarrow> sql_check list \<Rightarrow> string list list \<Rightarrow> sql_schema \<Rightarrow> sql_schema \<Rightarrow> bool" where
  "grows n cols newchecks newkeys ts ts' \<longleftrightarrow> (case (map_of ts n, map_of ts' n) of
      (Some t, Some t') \<Rightarrow> ts' = replace_table n t' ts \<and> tb_columns t' = tb_columns t @ cols
        \<and> distinct (column_names t') \<and> defaults_fit cols \<and> foreign_keys t' = foreign_keys t
        \<and> list_all (\<lambda>chk. chk \<in> set newchecks \<or> chk \<in> set (checks t) \<and> list_all (\<lambda>c. c \<in> set (column_names t)) (check_columns chk)) (checks t')
        \<and> list_all (\<lambda>cs. cs \<in> set newkeys \<or> cs \<in> set (unique_keys t) \<and> list_all (\<lambda>c. c \<in> set (column_names t)) cs) (unique_keys t')
        \<and> list_all (\<lambda>(cs, _). list_all (\<lambda>c. c \<in> set (column_names t)) cs) (foreign_keys t)
        \<and> no_references ts n \<and> distinct (map fst ts)
    | _ \<Rightarrow> False)"

lemma row_fits_fill:
  assumes r: "row_fits t r" and cols: "tb_columns t' = tb_columns t @ cols" "distinct (column_names t')" "defaults_fit cols"
    and chks: "list_all (\<lambda>chk. chk \<in> set newchecks \<or> chk \<in> set (checks t) \<and> list_all (\<lambda>c. c \<in> set (column_names t)) (check_columns chk)) (checks t')"
    and new: "\<forall>chk\<in>set newchecks. check_passes chk (fill_row now cols r)"
  shows "row_fits t' (fill_row now cols r)"
proof -
  have old: "fill_row now cols r c = r c" if "c \<in> set (column_names t)" for c
    using that cols(1,2) by (intro fill_row_other) (auto simp: column_names_def)
  have "column_fits c (fill_row now cols r (co_name c))" if "c \<in> set (tb_columns t')" for c
  proof (cases "c \<in> set (tb_columns t)")
    case True
    then show ?thesis using r old [of "co_name c"] by (simp add: row_fits_def column_names_def)
  next
    case False
    then have "c \<in> set cols" using that cols(1) by simp
    moreover have "distinct (map co_name cols)" using cols(1,2) by (simp add: column_names_def)
    ultimately show ?thesis using default_fits [OF cols(3)] by (simp add: fill_row_new)
  qed
  moreover have "fill_row now cols r x = VNull" if "x \<notin> set (column_names t')" for x
    using that r cols(1) by (subst fill_row_other) (auto simp: column_names_def row_fits_def)
  moreover have "check_passes chk (fill_row now cols r)" if chk: "chk \<in> set (checks t')" for chk
  proof -
    consider "chk \<in> set newchecks" | "chk \<in> set (checks t)" "\<forall>c\<in>set (check_columns chk). c \<in> set (column_names t)"
      using chks chk by (auto simp: list_all_iff)
    then show ?thesis
    proof cases
      case 1
      then show ?thesis using new by blast
    next
      case 2
      then have "check_value chk (fill_row now cols r) = check_value chk r" using old by (intro check_value_cong) blast
      then show ?thesis using r 2(1) by (simp add: row_fits_def check_passes_def)
    qed
  qed
  ultimately show ?thesis unfolding row_fits_def by blast
qed

lemma no_duplicates_cong:
  assumes "\<And>r. r \<in> set rows \<Longrightarrow> map (g r) cs = map r cs"
  shows "no_duplicates cs (map g rows) = no_duplicates cs rows"
proof -
  have "map (\<lambda>r. map r cs) (map g rows) = map (\<lambda>r. map r cs) rows" using assms by simp
  then show ?thesis by (simp add: no_duplicates_def del: map_map)
qed

lemma grows_fit:
  assumes "grows n cols newchecks newkeys ts ts'" and fit: "contents_fit ts f"
    and new: "\<forall>r\<in>set (f n). \<forall>chk\<in>set newchecks. check_passes chk (fill_row now cols r)"
      "\<forall>cs\<in>set newkeys. no_duplicates cs (map (fill_row now cols) (f n))"
  shows "contents_fit ts' (f(n := map (fill_row now cols) (f n))) \<and> keeps_rows ts f (f(n := map (fill_row now cols) (f n)))"
proof -
  let ?g = "fill_row now cols"
  obtain t t' where t: "map_of ts n = Some t" "ts' = replace_table n t' ts" "tb_columns t' = tb_columns t @ cols"
      "distinct (column_names t')" "defaults_fit cols" "foreign_keys t' = foreign_keys t"
      "list_all (\<lambda>chk. chk \<in> set newchecks \<or> chk \<in> set (checks t) \<and> list_all (\<lambda>c. c \<in> set (column_names t)) (check_columns chk)) (checks t')"
      "list_all (\<lambda>cs. cs \<in> set newkeys \<or> cs \<in> set (unique_keys t) \<and> list_all (\<lambda>c. c \<in> set (column_names t)) cs) (unique_keys t')"
      "list_all (\<lambda>(cs, _). list_all (\<lambda>c. c \<in> set (column_names t)) cs) (foreign_keys t)" "no_references ts n" "distinct (map fst ts)"
    using assms(1) unfolding grows_def by (auto split: option.splits)
  have old: "?g r c = r c" if "c \<in> set (column_names t)" for r c
    using that t(3,4) by (intro fill_row_other) (auto simp: column_names_def)
  have own: "table_fits f t (f n)" using fit map_of_SomeD [OF t(1)] by (auto simp: contents_fit_def)
  have "contents_fit ts' (f(n := map ?g (f n)))"
    unfolding t(2)
  proof (rule change_table [OF fit t(1,11,10,6)])
    show "map (?g r) cs = map r cs" if "(cs, m, ds) \<in> set (foreign_keys t)" for r cs m ds
      using t(9) that old by (fastforce simp: list_all_iff)
    show "row_fits t' (?g r)" if "r \<in> set (f n)" for r
      using own new(1) that by (intro row_fits_fill [OF _ t(3-5,7)]) (auto simp: table_fits_def)
    show "no_duplicates cs (map ?g (f n))" if cs: "cs \<in> set (unique_keys t')" for cs
    proof -
      consider "cs \<in> set newkeys" | "cs \<in> set (unique_keys t)" "\<forall>c\<in>set cs. c \<in> set (column_names t)"
        using t(8) cs by (auto simp: list_all_iff)
      then show ?thesis
      proof cases
        case 1
        then show ?thesis using new(2) by blast
      next
        case 2
        then have "no_duplicates cs (map ?g (f n)) = no_duplicates cs (f n)" using old by (intro no_duplicates_cong) simp
        then show ?thesis using own 2(1) by (simp add: table_fits_def)
      qed
    qed
  qed
  moreover have "keeps_rows ts f (f(n := map ?g (f n)))"
    unfolding keeps_rows_def
  proof clarify
    fix m u assume m: "(m, u) \<in> set ts"
    have "u = t" if "m = n" using m that t(1,11) by (metis map_of_eq_Some_iff option.inject)
    then show "list_all2 (\<lambda>r r'. \<forall>c\<in>set (column_names u). r' c = r c) (f m) ((f(n := map ?g (f n))) m)"
      using old by (auto simp: list.rel_map intro: list.rel_refl_strong)
  qed
  ultimately show ?thesis ..
qed

section \<open>Taking columns back\<close>

text \<open>The columns of a table that \<open>ops\<close> drops, if it does nothing else than drop.\<close>

fun dropped_columns :: "string \<Rightarrow> schema_op list \<Rightarrow> string list option" where
  "dropped_columns n [] = Some []"
| "dropped_columns n (DropColumn m c # ops) = (if m = n then map_option (Cons c) (dropped_columns n ops) else None)"
| "dropped_columns n (DropIndex k m # ops) = dropped_columns n ops"
| "dropped_columns n (DropConstraint k m # ops) = dropped_columns n ops"
| "dropped_columns n _ = None"

lemma clear_row_Cons: "clear_row cs (r(c := VNull)) = clear_row (c # cs) r"
  by (auto simp: clear_row_def)

lemma drop_columns_rows:
  "dropped_columns n ops = Some cs \<Longrightarrow> rewrite_all now ops f = Some (f(n := map (clear_row cs) (f n)))"
proof (induction n ops arbitrary: f cs rule: dropped_columns.induct)
  case (1 n)
  then show ?case by (auto simp: clear_row_def)
next
  case (2 n m c ops)
  then obtain ds where ds: "m = n" "dropped_columns n ops = Some ds" "cs = c # ds" by (auto split: if_splits)
  have "rewrite_all now ops (f(n := map (\<lambda>r. r(c := VNull)) (f n))) = Some (f(n := map (clear_row (c # ds)) (f n)))"
    unfolding "2.IH" [OF ds(1,2)] by (simp only: fun_upd_same fun_upd_upd map_map comp_def clear_row_Cons)
  then show ?case using ds by (simp add: fun_eq_iff)
qed auto

lemma clear_filled_row:
  assumes "row_fits t r" and "set cs = co_name ` set cols" and "\<forall>c\<in>set cols. co_name c \<notin> set (column_names t)"
  shows "clear_row cs (fill_row now cols r) = r"
proof
  fix x
  have "r x = VNull" if "x \<in> co_name ` set cols" using assms that by (auto simp: row_fits_def)
  then show "clear_row cs (fill_row now cols r) x = r x"
    using assms(2) fill_row_other [of x cols now r] by (auto simp: clear_row_def)
qed

lemma undo_fill:
  assumes "grows n cols newchecks newkeys ts ts'" and "contents_fit ts f" and "set cs = co_name ` set cols"
  shows "(f(n := map (fill_row now cols) (f n)))(n := map (clear_row cs) (map (fill_row now cols) (f n))) = f"
proof -
  obtain t t' where t: "map_of ts n = Some t" "tb_columns t' = tb_columns t @ cols" "distinct (column_names t')"
    using assms(1) unfolding grows_def by (auto split: option.splits)
  have "clear_row cs (fill_row now cols r) = r" if "r \<in> set (f n)" for r
    using assms(2) map_of_SomeD [OF t(1)] that t(2,3)
    by (intro clear_filled_row [OF _ assms(3)]) (auto simp: contents_fit_def table_fits_def column_names_def)
  then have "map (clear_row cs) (map (fill_row now cols) (f n)) = f n" by (simp add: map_idI)
  then show ?thesis by simp
qed

lemma add_columns_safe:
  assumes "alter_all (mg_upgrade m) ts = Some ts'" "alter_all (mg_downgrade m) ts' = Some ts" "wider ts ts'"
    and up: "mg_upgrade m = map (AddColumn n) cols @ ops" and grow: "grows n cols newchecks newkeys ts ts'"
    and ops: "\<And>now f. contents_fit ts f \<Longrightarrow> rewrite_all now ops (f(n := map (fill_row now cols) (f n))) = Some (f(n := map (fill_row now cols) (f n)))"
    and down: "\<And>now later f. contents_fit ts f \<Longrightarrow> rewrite_all later (mg_downgrade m) (f(n := map (fill_row now cols) (f n))) = Some f"
    and new: "\<And>now f r chk. contents_fit ts f \<Longrightarrow> r \<in> set (f n) \<Longrightarrow> chk \<in> set newchecks \<Longrightarrow> check_passes chk (fill_row now cols r)"
      "\<And>now rows key. key \<in> set newkeys \<Longrightarrow> no_duplicates key (map (fill_row now cols) rows)"
  shows "safe_migration ts m ts'"
proof -
  have fits: "defaults_fit cols" using grow unfolding grows_def by (auto split: option.splits)
  have "rewrite_all now (mg_upgrade m) f = Some (f(n := map (fill_row now cols) (f n)))
      \<and> rewrite_all later (mg_downgrade m) (f(n := map (fill_row now cols) (f n))) = Some f" if "contents_fit ts f" for now later f
    using ops [OF that] down [OF that] unfolding up add_columns_rows [OF fits] by blast
  moreover have "contents_fit ts' (f(n := map (fill_row now cols) (f n))) \<and> keeps_rows ts f (f(n := map (fill_row now cols) (f n)))"
    if "contents_fit ts f" for now f
    by (rule grows_fit [OF grow that]) (use new that in blast)+
  ultimately show ?thesis using assms(1-3) unfolding safe_migration_def by blast
qed

text \<open>The parts of such a migration, and the operations on the table that leave its rows as they are.\<close>

definition added_columns :: "migration \<Rightarrow> sql_column list" where
  "added_columns m = List.map_filter (\<lambda>x. case x of AddColumn _ c \<Rightarrow> Some c | _ \<Rightarrow> None) (mg_upgrade m)"

definition later_ops :: "migration \<Rightarrow> schema_op list" where
  "later_ops m = drop (length (added_columns m)) (mg_upgrade m)"

definition new_checks :: "migration \<Rightarrow> sql_check list" where
  "new_checks m = List.map_filter (\<lambda>x. case x of CreateCheck _ _ chk \<Rightarrow> Some chk | _ \<Rightarrow> None) (mg_upgrade m)"

definition new_keys :: "migration \<Rightarrow> string list list" where
  "new_keys m = List.map_filter (\<lambda>x. case x of CreateUnique _ _ cs \<Rightarrow> Some cs | _ \<Rightarrow> None) (mg_upgrade m)"

fun restrains :: "string \<Rightarrow> sql_check list \<Rightarrow> string list list \<Rightarrow> schema_op list \<Rightarrow> bool" where
  "restrains n chks ks [] = True"
| "restrains n chks ks (CreateIndex _ _ _ uniq # ops) = (\<not> uniq \<and> restrains n chks ks ops)"
| "restrains n chks ks (CreateCheck _ m chk # ops) = (m = n \<and> chk \<in> set chks \<and> restrains n chks ks ops)"
| "restrains n chks ks (CreateUnique _ m cs # ops) = (m = n \<and> cs \<in> set ks \<and> restrains n chks ks ops)"
| "restrains n chks ks (DropConstraint _ _ # ops) = restrains n chks ks ops"
| "restrains n chks ks _ = False"

lemma restrains_rows:
  assumes "restrains n chks ks ops" and "\<And>chk r. chk \<in> set chks \<Longrightarrow> r \<in> set (f n) \<Longrightarrow> check_passes chk r"
    and "\<And>cs. cs \<in> set ks \<Longrightarrow> no_duplicates cs (f n)"
  shows "rewrite_all now ops f = Some f"
  using assms by (induction n chks ks ops rule: restrains.induct) (auto simp: list_all_iff)

definition growing :: "string \<Rightarrow> sql_schema \<Rightarrow> migration \<Rightarrow> sql_schema \<Rightarrow> bool" where
  "growing n ts m ts' \<longleftrightarrow> alter_all (mg_upgrade m) ts = Some ts' \<and> alter_all (mg_downgrade m) ts' = Some ts \<and> wider ts ts'
     \<and> mg_upgrade m = map (AddColumn n) (added_columns m) @ later_ops m \<and> restrains n (new_checks m) (new_keys m) (later_ops m)
     \<and> grows n (added_columns m) (new_checks m) (new_keys m) ts ts'"

lemma growing_safe:
  assumes "growing n ts m ts'"
    and down: "\<And>now later f. contents_fit ts f \<Longrightarrow> rewrite_all later (mg_downgrade m) (f(n := map (fill_row now (added_columns m)) (f n))) = Some f"
    and new: "\<And>now f r chk. contents_fit ts f \<Longrightarrow> r \<in> set (f n) \<Longrightarrow> chk \<in> set (new_checks m) \<Longrightarrow> check_passes chk (fill_row now (added_columns m) r)"
      "\<And>now rows key. key \<in> set (new_keys m) \<Longrightarrow> no_duplicates key (map (fill_row now (added_columns m)) rows)"
  shows "safe_migration ts m ts'"
proof (rule add_columns_safe [where ops = "later_ops m"])
  show "rewrite_all now (later_ops m) (f(n := map (fill_row now (added_columns m)) (f n)))
      = Some (f(n := map (fill_row now (added_columns m)) (f n)))" if "contents_fit ts f" for now f
    using assms(1) new that unfolding growing_def by (intro restrains_rows) auto
qed (use assms in \<open>auto simp: growing_def\<close>)

lemma growing_undone:
  assumes "growing n ts m ts'" and "dropped_columns n (mg_downgrade m) = Some cs" "set cs = co_name ` set (added_columns m)"
    and "contents_fit ts f"
  shows "rewrite_all later (mg_downgrade m) (f(n := map (fill_row now (added_columns m)) (f n))) = Some f"
proof -
  have "grows n (added_columns m) (new_checks m) (new_keys m) ts ts'" using assms(1) by (simp add: growing_def)
  from undo_fill [OF this assms(4,3)] show ?thesis
    unfolding drop_columns_rows [OF assms(2)] by (simp only: fun_upd_same fun_upd_upd)
qed

end
