(* ===== verification/Schema_Chains.thy ===== *)
theory Schema_Chains
  imports Schema_Correct
begin

text \<open>
  Every migration of every service is safe on a database of its revision; hence so is every chain of them.
\<close>

section \<open>Chains that create tables\<close>

text \<open>The tables that a list of operations creates.\<close>

definition created_tables :: "schema_op list \<Rightarrow> string list" where
  "created_tables ops = List.map_filter (\<lambda>x. case x of CreateTable n _ _ \<Rightarrow> Some n | _ \<Rightarrow> None) ops"

text \<open>Decided by evaluation: every migration goes up and down between two schemas and creates new tables only.\<close>

fun creating_chain :: "sql_schema \<Rightarrow> migration list \<Rightarrow> bool" where
  "creating_chain ts [] = True"
| "creating_chain ts (m # ms) = (case alter_all (mg_upgrade m) ts of None \<Rightarrow> False
    | Some ts' \<Rightarrow> alter_all (mg_downgrade m) ts' = Some ts \<and> wider ts ts'
        \<and> creates (created_tables (mg_upgrade m)) (mg_upgrade m) \<and> removes (created_tables (mg_upgrade m)) (mg_downgrade m)
        \<and> adds_tables ts (created_tables (mg_upgrade m)) ts' \<and> creating_chain ts' ms)"

fun schema_after :: "sql_schema \<Rightarrow> migration list \<Rightarrow> sql_schema" where
  "schema_after ts [] = ts"
| "schema_after ts (m # ms) = (case alter_all (mg_upgrade m) ts of None \<Rightarrow> [] | Some ts' \<Rightarrow> schema_after ts' ms)"

lemma creating_chain_safe:
  "creating_chain ts ms \<Longrightarrow> safe_chain (schema_after ts ms) rest \<Longrightarrow> safe_chain ts (ms @ rest)"
proof (induction ts ms rule: creating_chain.induct)
  case (2 ts m ms)
  then obtain ts' where ts': "alter_all (mg_upgrade m) ts = Some ts'" by (auto split: option.splits)
  then show ?case
    using 2 create_tables_safe [of m ts ts' "created_tables (mg_upgrade m)"] by auto
qed simp

lemma obs_safe: "creating_chain [] [services_and_telemetry_migration, anomaly_records_migration, incidents_migration, correlations_migration, trace_spans_migration]"
  by code_simp

lemma cloud_safe: "creating_chain [] [cloud_incidents_migration, cloud_users_migration, audit_events_migration]"
  by code_simp

lemma inventory_safe: "creating_chain [] [products_migration, balances_and_movements_migration]"
  by code_simp

lemma warehouse_safe: "creating_chain [] [warehouses_migration]"
  by code_simp

lemma order_safe: "creating_chain [] [orders_migration]"
  by code_simp

section \<open>Chains that add columns\<close>

fun growing_chain :: "string \<Rightarrow> sql_schema \<Rightarrow> migration list \<Rightarrow> bool" where
  "growing_chain n ts [] = True"
| "growing_chain n ts (m # ms) = (case alter_all (mg_upgrade m) ts of None \<Rightarrow> False
    | Some ts' \<Rightarrow> growing n ts m ts' \<and> growing_chain n ts' ms)"

lemma jobs_safe: "creating_chain [] [jobs_table_migration]"
  by code_simp

lemma jobs_grow: "growing_chain ''jobs'' (schema_after [] [jobs_table_migration])
    [worker_fields_migration, retry_fields_migration, idempotency_key_migration, lease_fields_migration]"
  by code_simp

lemma movements_grow: "growing_chain ''stock_movements'' (schema_after [] [products_migration, balances_and_movements_migration])
    [transfer_movements_migration]"
  by code_simp

definition plainly_undone :: "string \<Rightarrow> migration \<Rightarrow> bool" where
  "plainly_undone n m \<longleftrightarrow> (case dropped_columns n (mg_downgrade m) of None \<Rightarrow> False
     | Some cs \<Rightarrow> set cs = set (map co_name (added_columns m)))"

definition harmless :: "migration \<Rightarrow> bool" where
  "harmless m \<longleftrightarrow> (\<forall>now r. \<forall>chk\<in>set (new_checks m). check_passes chk (fill_row now (added_columns m) r))
     \<and> (\<forall>now rows. \<forall>key\<in>set (new_keys m). no_duplicates key (map (fill_row now (added_columns m)) rows))"

lemma growing_chain_safe:
  "growing_chain n ts ms \<Longrightarrow> \<forall>m\<in>set ms. plainly_undone n m \<and> harmless m \<Longrightarrow> safe_chain ts ms"
proof (induction n ts ms rule: growing_chain.induct)
  case (2 n ts m ms)
  then obtain ts' where ts': "alter_all (mg_upgrade m) ts = Some ts'" "growing n ts m ts'" "growing_chain n ts' ms"
    by (auto split: option.splits)
  obtain cs where "dropped_columns n (mg_downgrade m) = Some cs" "set cs = co_name ` set (added_columns m)" and "harmless m"
    using 2(3) by (auto simp: plainly_undone_def split: option.splits)
  then have "safe_migration ts m ts'"
    by (intro growing_safe [OF ts'(2)] growing_undone [OF ts'(2)]) (auto simp: harmless_def)
  then show ?case using 2 ts' by auto
qed simp

lemma jobs_undone: "list_all (plainly_undone ''jobs'')
    [worker_fields_migration, retry_fields_migration, idempotency_key_migration, lease_fields_migration]"
  by code_simp

lemmas migration_parts = harmless_def new_checks_def new_keys_def added_columns_def map_filter_simps fill_row_def table_column_def
  default_of_def check_passes_def on_number_def

lemma jobs_harmless:
  "harmless worker_fields_migration" "harmless retry_fields_migration" "harmless idempotency_key_migration" "harmless lease_fields_migration"
proof -
  show "harmless worker_fields_migration"
    by (simp add: migration_parts worker_fields_migration_def worker_fields_upgrade_def)
  show "harmless retry_fields_migration"
    by (simp add: migration_parts retry_fields_migration_def retry_fields_upgrade_def)
  show "harmless idempotency_key_migration"
    by (simp add: migration_parts idempotency_key_migration_def idempotency_key_upgrade_def no_duplicates_def comp_def)
  show "harmless lease_fields_migration"
    by (simp add: migration_parts lease_fields_migration_def lease_fields_upgrade_def)
qed

lemma job_chain: "safe_chain [] [jobs_table_migration, worker_fields_migration, retry_fields_migration, idempotency_key_migration, lease_fields_migration]"
proof -
  have "safe_chain (schema_after [] [jobs_table_migration])
      [worker_fields_migration, retry_fields_migration, idempotency_key_migration, lease_fields_migration]"
    using jobs_undone jobs_harmless by (intro growing_chain_safe [OF jobs_grow]) simp
  from creating_chain_safe [OF jobs_safe this] show ?thesis by (simp only: append.simps)
qed

section \<open>Transfers\<close>

text \<open>The condition on the kinds of movements before and after the transfer migration.\<close>

definition plain_movements :: "string list" where
  "plain_movements = [''RECEIPT'', ''ISSUE'', ''ADJUSTMENT'', ''RESERVATION'', ''RELEASE'']"

definition transfer_movements :: "string list" where
  "transfer_movements = [''TRANSFER_OUT'', ''TRANSFER_IN'']"

lemma movement_table:
  "case map_of (schema_after [] [products_migration, balances_and_movements_migration]) ''stock_movements'' of None \<Rightarrow> False
   | Some t \<Rightarrow> OneOf ''movement_type'' plain_movements \<in> set (checks t) \<and> ''transfer_id'' \<notin> set (column_names t)"
  by code_simp

lemma old_movement:
  assumes "contents_fit (schema_after [] [products_migration, balances_and_movements_migration]) f" and "r \<in> set (f ''stock_movements'')"
  shows "check_passes (OneOf ''movement_type'' plain_movements) r" and "r ''transfer_id'' = VNull"
proof -
  obtain t where t: "map_of (schema_after [] [products_migration, balances_and_movements_migration]) ''stock_movements'' = Some t"
      "OneOf ''movement_type'' plain_movements \<in> set (checks t)" "''transfer_id'' \<notin> set (column_names t)"
    using movement_table by (auto split: option.splits)
  then have "row_fits t r" using assms map_of_SomeD [OF t(1)] by (auto simp: contents_fit_def table_fits_def)
  then show "check_passes (OneOf ''movement_type'' plain_movements) r" "r ''transfer_id'' = VNull"
    using t(2,3) by (auto simp: row_fits_def)
qed

lemma transfer_parts:
  "added_columns transfer_movements_migration = [table_column ''transfer_id'' SqlUuid True None]"
  "new_checks transfer_movements_migration = [OneOf ''movement_type'' (plain_movements @ transfer_movements)]"
  "new_keys transfer_movements_migration = []"
  by (simp_all add: added_columns_def new_checks_def new_keys_def map_filter_simps transfer_movements_migration_def
      transfer_movements_upgrade_def plain_movements_def transfer_movements_def)

lemma transfer_fill: "fill_row now (added_columns transfer_movements_migration) r = r(''transfer_id'' := VNull)"
  by (simp add: transfer_parts table_column_def default_of_def)

lemma transfer_down: "mg_downgrade transfer_movements_migration =
   [DropConstraint ''ck_stock_movements_valid_type'' ''stock_movements'',
    CreateCheck ''ck_stock_movements_valid_type'' ''stock_movements'' (OneOf ''movement_type'' plain_movements),
    DropIndex ''ix_stock_movements_transfer_id'' ''stock_movements'', DropColumn ''stock_movements'' ''transfer_id'']"
  by (simp add: transfer_movements_migration_def transfer_movements_downgrade_def plain_movements_def)

lemma transfer_safe:
  assumes "growing ''stock_movements'' (schema_after [] [products_migration, balances_and_movements_migration]) transfer_movements_migration ts'"
  shows "safe_migration (schema_after [] [products_migration, balances_and_movements_migration]) transfer_movements_migration ts'"
proof (rule growing_safe [OF assms])
  fix now later :: time and f
  assume fit: "contents_fit (schema_after [] [products_migration, balances_and_movements_migration]) f"
  note old = old_movement [OF fit]
  have "r(''transfer_id'' := VNull) = r" if "r \<in> set (f ''stock_movements'')" for r
    using old(2) [OF that] by (simp add: fun_upd_idem)
  then have "map (fill_row now (added_columns transfer_movements_migration)) (f ''stock_movements'') = f ''stock_movements''"
      "map (\<lambda>r. r(''transfer_id'' := VNull)) (f ''stock_movements'') = f ''stock_movements''"
    by (simp_all add: transfer_fill map_idI)
  then show "rewrite_all later (mg_downgrade transfer_movements_migration)
      (f(''stock_movements'' := map (fill_row now (added_columns transfer_movements_migration)) (f ''stock_movements''))) = Some f"
    using old(1) by (simp add: transfer_down list_all_iff)
  show "check_passes chk (fill_row now (added_columns transfer_movements_migration) r)"
    if "r \<in> set (f ''stock_movements'')" "chk \<in> set (new_checks transfer_movements_migration)" for r chk
    using old(1) [OF that(1)] that(2) by (auto simp: transfer_parts(2) transfer_fill check_passes_def split: sql_value.splits)
qed (simp add: transfer_parts)

lemma inventory_chain: "safe_chain [] [products_migration, balances_and_movements_migration, transfer_movements_migration]"
proof -
  have "safe_chain (schema_after [] [products_migration, balances_and_movements_migration]) [transfer_movements_migration]"
    using movements_grow transfer_safe by (auto split: option.splits simp del: schema_after.simps)
  from creating_chain_safe [OF inventory_safe this] show ?thesis by (simp only: append.simps)
qed

end
