(* ===== verification/Declared_Tables.thy ===== *)
theory Declared_Tables
  imports Migrations
begin

text \<open>
  The tables as the SQLAlchemy classes of the services declare them: what \<open>Base.metadata\<close> holds for each class. A column
  with \<open>index=True\<close> has the index \<open>ix_<table>_<column>\<close>, which is unique if the column is; the cloud service names its
  keys by the convention of app/db/base.py, the others leave them to PostgreSQL.
\<close>

definition declared_table :: "sql_column list \<Rightarrow> (string \<times> sql_constraint) list \<Rightarrow> (string \<times> string list \<times> bool) list \<Rightarrow> sql_table" where
  "declared_table cols cons indexes =
     \<lparr>tb_columns = cols, tb_constraints = sort_key fst cons, tb_indexes = sort_key fst indexes\<rparr>"

section \<open>job\<close>

definition declared_Job :: "string \<times> sql_table" where
  "declared_Job = (''jobs'', declared_table
      [table_column ''id'' SqlUuid False None,
       table_column ''queue'' (SqlString 100) False None,
       table_column ''task_name'' (SqlString 200) False None,
       table_column ''payload'' SqlJsonb False None,
       table_column ''status'' (SqlString 15) False (Some (DefaultValue (VText ''queued''))),
       table_column ''priority'' SqlInteger False (Some (DefaultValue (VNum 0))),
       table_column ''idempotency_key'' (SqlString 200) True None,
       table_column ''attempt_count'' SqlInteger False (Some (DefaultValue (VNum 0))),
       table_column ''max_attempts'' SqlInteger False (Some (DefaultValue (VNum 3))),
       table_column ''available_at'' SqlTimestamp False (Some DefaultNow),
       table_column ''worker_id'' (SqlString 200) True None,
       table_column ''result'' SqlJsonb True None,
       table_column ''last_error'' SqlText True None,
       table_column ''started_at'' SqlTimestamp True None,
       table_column ''completed_at'' SqlTimestamp True None,
       table_column ''lease_expires_at'' SqlTimestamp True None,
       table_column ''heartbeat_at'' SqlTimestamp True None,
       table_column ''created_at'' SqlTimestamp False (Some DefaultNow),
       table_column ''updated_at'' SqlTimestamp False (Some DefaultNow)]
      [(''ck_jobs_priority_range'', CheckThat (WithinInts ''priority'' (-100) 100)),
       (''ck_jobs_attempt_count_nonnegative'', CheckThat (AtLeast ''attempt_count'' 0)),
       (''ck_jobs_max_attempts_range'', CheckThat (WithinInts ''max_attempts'' 1 100)),
       (''uq_jobs_idempotency_key'', UniqueKey [''idempotency_key'']),
       (''job_status'', CheckThat (OneOf ''status'' [''queued'', ''running'', ''retry_scheduled'', ''succeeded'', ''dead_lettered'', ''cancelled''])),
       (''jobs_pkey'', PrimaryKey [''id''])]
      [(''ix_jobs_queue_status_priority'', [''queue'', ''status'', ''priority''], False),
       (''ix_jobs_status_available_at'', [''status'', ''available_at''], False),
       (''ix_jobs_status_lease_expires_at'', [''status'', ''lease_expires_at''], False)])"

definition job_metadata :: sql_schema where
  "job_metadata = [declared_Job]"

section \<open>obs\<close>

definition declared_MonitoredService :: "string \<times> sql_table" where
  "declared_MonitoredService = (''monitored_services'', declared_table
      [table_column ''id'' SqlUuid False None,
       table_column ''name'' (SqlString 100) False None,
       table_column ''environment'' (SqlString 30) False None,
       table_column ''description'' SqlText True None,
       table_column ''created_at'' SqlTimestamp False (Some DefaultNow),
       table_column ''updated_at'' SqlTimestamp False (Some DefaultNow)]
      [(''uq_monitored_services_name_environment'', UniqueKey [''name'', ''environment'']),
       (''monitored_services_pkey'', PrimaryKey [''id''])]
      [])"

definition declared_TelemetryRecord :: "string \<times> sql_table" where
  "declared_TelemetryRecord = (''telemetry_records'', declared_table
      [table_column ''id'' SqlUuid False None,
       table_column ''service_id'' SqlUuid False None,
       table_column ''telemetry_type'' (SqlString 20) False None,
       table_column ''source'' (SqlString 200) False None,
       table_column ''observed_at'' SqlTimestamp False None,
       table_column ''received_at'' SqlTimestamp False (Some DefaultNow),
       table_column ''payload'' SqlJson False None]
      [(''telemetry_records_service_id_fkey'', ForeignKey [''service_id''] ''monitored_services'' [''id''] ''CASCADE''),
       (''telemetry_records_pkey'', PrimaryKey [''id''])]
      [(''ix_telemetry_service_observed_at'', [''service_id'', ''observed_at''], False),
       (''ix_telemetry_type_observed_at'', [''telemetry_type'', ''observed_at''], False),
       (''ix_telemetry_records_source'', [''source''], False),
       (''ix_telemetry_records_observed_at'', [''observed_at''], False)])"

definition declared_AnomalyRecord :: "string \<times> sql_table" where
  "declared_AnomalyRecord = (''anomaly_records'', declared_table
      [table_column ''id'' SqlUuid False None,
       table_column ''telemetry_id'' SqlUuid False None,
       table_column ''rule_id'' (SqlString 100) False None,
       table_column ''category'' (SqlString 30) False None,
       table_column ''severity'' (SqlString 20) False None,
       table_column ''title'' (SqlString 200) False None,
       table_column ''description'' SqlText False None,
       table_column ''observed_value'' SqlJson False None,
       table_column ''threshold'' SqlJson True None,
       table_column ''detected_at'' SqlTimestamp False (Some DefaultNow)]
      [(''anomaly_records_telemetry_id_fkey'', ForeignKey [''telemetry_id''] ''telemetry_records'' [''id''] ''CASCADE''),
       (''anomaly_records_pkey'', PrimaryKey [''id''])]
      [(''ix_anomaly_severity_detected_at'', [''severity'', ''detected_at''], False),
       (''ix_anomaly_rule_detected_at'', [''rule_id'', ''detected_at''], False),
       (''ix_anomaly_records_telemetry_id'', [''telemetry_id''], False)])"

definition declared_IncidentRecord :: "string \<times> sql_table" where
  "declared_IncidentRecord = (''incidents'', declared_table
      [table_column ''id'' SqlUuid False None,
       table_column ''service_id'' SqlUuid False None,
       table_column ''trigger_anomaly_id'' SqlUuid False None,
       table_column ''status'' (SqlString 20) False None,
       table_column ''severity'' (SqlString 20) False None,
       table_column ''title'' (SqlString 200) False None,
       table_column ''description'' SqlText False None,
       table_column ''created_at'' SqlTimestamp False (Some DefaultNow),
       table_column ''acknowledged_at'' SqlTimestamp True None,
       table_column ''acknowledged_by'' (SqlString 100) True None,
       table_column ''resolved_at'' SqlTimestamp True None,
       table_column ''resolved_by'' (SqlString 100) True None,
       table_column ''resolution_summary'' SqlText True None]
      [(''uq_incidents_trigger_anomaly_id'', UniqueKey [''trigger_anomaly_id'']),
       (''incidents_service_id_fkey'', ForeignKey [''service_id''] ''monitored_services'' [''id''] ''CASCADE''),
       (''incidents_trigger_anomaly_id_fkey'', ForeignKey [''trigger_anomaly_id''] ''anomaly_records'' [''id''] ''CASCADE''),
       (''incidents_pkey'', PrimaryKey [''id''])]
      [(''ix_incident_status_created_at'', [''status'', ''created_at''], False),
       (''ix_incident_severity_created_at'', [''severity'', ''created_at''], False),
       (''ix_incident_service_status'', [''service_id'', ''status''], False)])"

definition declared_CorrelationRecord :: "string \<times> sql_table" where
  "declared_CorrelationRecord = (''correlations'', declared_table
      [table_column ''id'' SqlUuid False None,
       table_column ''service_id'' SqlUuid False None,
       table_column ''status'' (SqlString 20) False None,
       table_column ''window_started_at'' SqlTimestamp False None,
       table_column ''window_ended_at'' SqlTimestamp False None,
       table_column ''root_cause_anomaly_id'' SqlUuid False None,
       table_column ''root_cause_incident_id'' SqlUuid False None,
       table_column ''root_cause_confidence'' SqlFloat False None,
       table_column ''root_cause_reasons'' SqlJson False None,
       table_column ''summary'' SqlText False None,
       table_column ''created_at'' SqlTimestamp False (Some DefaultNow),
       table_column ''updated_at'' SqlTimestamp False (Some DefaultNow)]
      [(''correlations_service_id_fkey'', ForeignKey [''service_id''] ''monitored_services'' [''id''] ''CASCADE''),
       (''correlations_root_cause_anomaly_id_fkey'', ForeignKey [''root_cause_anomaly_id''] ''anomaly_records'' [''id''] ''CASCADE''),
       (''correlations_root_cause_incident_id_fkey'', ForeignKey [''root_cause_incident_id''] ''incidents'' [''id''] ''CASCADE''),
       (''correlations_pkey'', PrimaryKey [''id''])]
      [(''ix_correlation_service_status'', [''service_id'', ''status''], False),
       (''ix_correlation_created_at'', [''created_at''], False),
       (''ix_correlations_root_cause_anomaly_id'', [''root_cause_anomaly_id''], False)])"

definition declared_CorrelationIncidentRecord :: "string \<times> sql_table" where
  "declared_CorrelationIncidentRecord = (''correlation_incidents'', declared_table
      [table_column ''correlation_id'' SqlUuid False None,
       table_column ''incident_id'' SqlUuid False None,
       table_column ''added_at'' SqlTimestamp False (Some DefaultNow)]
      [(''uq_correlation_incidents_incident_id'', UniqueKey [''incident_id'']),
       (''correlation_incidents_correlation_id_fkey'', ForeignKey [''correlation_id''] ''correlations'' [''id''] ''CASCADE''),
       (''correlation_incidents_incident_id_fkey'', ForeignKey [''incident_id''] ''incidents'' [''id''] ''CASCADE''),
       (''correlation_incidents_pkey'', PrimaryKey [''correlation_id'', ''incident_id''])]
      [])"

definition declared_TraceSpanRecord :: "string \<times> sql_table" where
  "declared_TraceSpanRecord = (''trace_spans'', declared_table
      [table_column ''id'' SqlUuid False None,
       table_column ''service_id'' SqlUuid False None,
       table_column ''trace_id'' (SqlString 32) False None,
       table_column ''span_id'' (SqlString 16) False None,
       table_column ''parent_span_id'' (SqlString 16) True None,
       table_column ''source'' (SqlString 200) False None,
       table_column ''operation'' (SqlString 200) False None,
       table_column ''status'' (SqlString 20) False None,
       table_column ''started_at'' SqlTimestamp False None,
       table_column ''ended_at'' SqlTimestamp False None,
       table_column ''duration_ms'' SqlFloat False None,
       table_column ''attributes'' SqlJson False None,
       table_column ''received_at'' SqlTimestamp False (Some DefaultNow)]
      [(''uq_trace_spans_trace_id_span_id'', UniqueKey [''trace_id'', ''span_id'']),
       (''trace_spans_service_id_fkey'', ForeignKey [''service_id''] ''monitored_services'' [''id''] ''CASCADE''),
       (''trace_spans_pkey'', PrimaryKey [''id''])]
      [(''ix_trace_span_trace_started_at'', [''trace_id'', ''started_at''], False),
       (''ix_trace_span_service_started_at'', [''service_id'', ''started_at''], False),
       (''ix_trace_span_status_started_at'', [''status'', ''started_at''], False),
       (''ix_trace_spans_parent_span_id'', [''parent_span_id''], False)])"

definition obs_metadata :: sql_schema where
  "obs_metadata = [declared_MonitoredService, declared_TelemetryRecord, declared_AnomalyRecord, declared_IncidentRecord, declared_CorrelationRecord, declared_CorrelationIncidentRecord, declared_TraceSpanRecord]"

section \<open>cloud\<close>

definition declared_User :: "string \<times> sql_table" where
  "declared_User = (''users'', declared_table
      [table_column ''id'' SqlUuid False None,
       table_column ''email'' (SqlString 320) False None,
       table_column ''full_name'' (SqlString 120) False None,
       table_column ''password_hash'' (SqlString 255) False None,
       table_column ''role'' (SqlString 8) False (Some (DefaultValue (VText ''viewer''))),
       table_column ''is_active'' SqlBoolean False (Some (DefaultValue (VBool True))),
       table_column ''created_at'' SqlTimestamp False (Some DefaultNow),
       table_column ''updated_at'' SqlTimestamp False (Some DefaultNow)]
      [(''user_role'', CheckThat (OneOf ''role'' [''viewer'', ''operator'', ''admin''])),
       (''pk_users'', PrimaryKey [''id''])]
      [(''ix_users_email'', [''email''], True),
       (''ix_users_role'', [''role''], False),
       (''ix_users_is_active'', [''is_active''], False)])"

definition declared_Incident :: "string \<times> sql_table" where
  "declared_Incident = (''incidents'', declared_table
      [table_column ''id'' SqlUuid False None,
       table_column ''title'' (SqlString 200) False None,
       table_column ''description'' SqlText False None,
       table_column ''service_name'' (SqlString 120) False None,
       table_column ''severity'' (SqlString 8) False (Some (DefaultValue (VText ''medium''))),
       table_column ''status'' (SqlString 13) False (Some (DefaultValue (VText ''open''))),
       table_column ''created_at'' SqlTimestamp False (Some DefaultNow),
       table_column ''updated_at'' SqlTimestamp False (Some DefaultNow)]
      [(''incident_severity'', CheckThat (OneOf ''severity'' [''low'', ''medium'', ''high'', ''critical''])),
       (''incident_status'', CheckThat (OneOf ''status'' [''open'', ''investigating'', ''resolved'', ''closed''])),
       (''pk_incidents'', PrimaryKey [''id''])]
      [(''ix_incidents_title'', [''title''], False),
       (''ix_incidents_service_name'', [''service_name''], False),
       (''ix_incidents_status'', [''status''], False)])"

definition declared_AuditEvent :: "string \<times> sql_table" where
  "declared_AuditEvent = (''audit_events'', declared_table
      [table_column ''id'' SqlUuid False None,
       table_column ''actor_user_id'' SqlUuid False None,
       table_column ''actor_email'' (SqlString 320) False None,
       table_column ''actor_role'' (SqlString 8) False None,
       table_column ''action'' (SqlString 19) False None,
       table_column ''resource_type'' (SqlString 8) False None,
       table_column ''resource_id'' SqlUuid False None,
       table_column ''resource_label'' (SqlString 320) False None,
       table_column ''changes'' SqlJson False None,
       table_column ''created_at'' SqlTimestamp False (Some DefaultNow)]
      [(''audit_actor_role'', CheckThat (OneOf ''actor_role'' [''viewer'', ''operator'', ''admin''])),
       (''audit_action'', CheckThat (OneOf ''action'' [''incident.created'', ''incident.updated'', ''incident.deleted'', ''user.role_changed'', ''user.status_changed''])),
       (''audit_resource_type'', CheckThat (OneOf ''resource_type'' [''incident'', ''user''])),
       (''fk_audit_events_actor_user_id_users'', ForeignKey [''actor_user_id''] ''users'' [''id''] ''RESTRICT''),
       (''pk_audit_events'', PrimaryKey [''id''])]
      [(''ix_audit_events_actor_user_id'', [''actor_user_id''], False),
       (''ix_audit_events_action'', [''action''], False),
       (''ix_audit_events_resource_type'', [''resource_type''], False),
       (''ix_audit_events_resource_id'', [''resource_id''], False),
       (''ix_audit_events_created_at'', [''created_at''], False)])"

definition cloud_metadata :: sql_schema where
  "cloud_metadata = [declared_User, declared_Incident, declared_AuditEvent]"

section \<open>inventory\<close>

definition declared_Product :: "string \<times> sql_table" where
  "declared_Product = (''products'', declared_table
      [table_column ''id'' SqlUuid False None,
       table_column ''sku'' (SqlString 50) False None,
       table_column ''name'' (SqlString 200) False None,
       table_column ''description'' SqlText True None,
       table_column ''unit_price'' (SqlNumeric 12 2) False None,
       table_column ''reorder_level'' SqlInteger False (Some (DefaultValue (VNum 0))),
       table_column ''is_active'' SqlBoolean False (Some (DefaultValue (VBool True))),
       table_column ''created_at'' SqlTimestamp False (Some DefaultNow),
       table_column ''updated_at'' SqlTimestamp False (Some DefaultNow)]
      [(''ck_products_unit_price_non_negative'', CheckThat (AtLeast ''unit_price'' 0)),
       (''ck_products_reorder_level_non_negative'', CheckThat (AtLeast ''reorder_level'' 0)),
       (''products_pkey'', PrimaryKey [''id''])]
      [(''ix_products_sku'', [''sku''], True)])"

definition declared_InventoryBalance :: "string \<times> sql_table" where
  "declared_InventoryBalance = (''inventory_balances'', declared_table
      [table_column ''id'' SqlUuid False None,
       table_column ''product_id'' SqlUuid False None,
       table_column ''warehouse_id'' SqlUuid False None,
       table_column ''quantity_on_hand'' SqlInteger False (Some (DefaultValue (VNum 0))),
       table_column ''quantity_reserved'' SqlInteger False (Some (DefaultValue (VNum 0))),
       table_column ''created_at'' SqlTimestamp False (Some DefaultNow),
       table_column ''updated_at'' SqlTimestamp False (Some DefaultNow)]
      [(''uq_inventory_balances_product_warehouse'', UniqueKey [''product_id'', ''warehouse_id'']),
       (''ck_inventory_balances_on_hand_non_negative'', CheckThat (AtLeast ''quantity_on_hand'' 0)),
       (''ck_inventory_balances_reserved_non_negative'', CheckThat (AtLeast ''quantity_reserved'' 0)),
       (''ck_inventory_balances_reserved_not_above_on_hand'', CheckThat (NotAbove ''quantity_reserved'' ''quantity_on_hand'')),
       (''inventory_balances_product_id_fkey'', ForeignKey [''product_id''] ''products'' [''id''] ''CASCADE''),
       (''inventory_balances_pkey'', PrimaryKey [''id''])]
      [(''ix_inventory_balances_product_id'', [''product_id''], False),
       (''ix_inventory_balances_warehouse_id'', [''warehouse_id''], False)])"

definition declared_StockMovement :: "string \<times> sql_table" where
  "declared_StockMovement = (''stock_movements'', declared_table
      [table_column ''id'' SqlUuid False None,
       table_column ''product_id'' SqlUuid False None,
       table_column ''warehouse_id'' SqlUuid False None,
       table_column ''movement_type'' (SqlString 20) False None,
       table_column ''on_hand_delta'' SqlInteger False None,
       table_column ''reserved_delta'' SqlInteger False None,
       table_column ''on_hand_balance_after'' SqlInteger False None,
       table_column ''reserved_balance_after'' SqlInteger False None,
       table_column ''reference_id'' (SqlString 100) True None,
       table_column ''reason'' (SqlString 500) True None,
       table_column ''transfer_id'' SqlUuid True None,
       table_column ''created_at'' SqlTimestamp False (Some DefaultNow)]
      [(''ck_stock_movements_valid_type'', CheckThat (OneOf ''movement_type'' [''RECEIPT'', ''ISSUE'', ''ADJUSTMENT'', ''RESERVATION'', ''RELEASE'', ''TRANSFER_OUT'', ''TRANSFER_IN''])),
       (''ck_stock_movements_non_zero_delta'', CheckThat (EitherCheck (NonZero ''on_hand_delta'') (NonZero ''reserved_delta''))),
       (''ck_stock_movements_on_hand_after_non_negative'', CheckThat (AtLeast ''on_hand_balance_after'' 0)),
       (''ck_stock_movements_reserved_after_non_negative'', CheckThat (AtLeast ''reserved_balance_after'' 0)),
       (''stock_movements_product_id_fkey'', ForeignKey [''product_id''] ''products'' [''id''] ''CASCADE''),
       (''stock_movements_pkey'', PrimaryKey [''id''])]
      [(''ix_stock_movements_product_warehouse_created'', [''product_id'', ''warehouse_id'', ''created_at''], False),
       (''ix_stock_movements_product_id'', [''product_id''], False),
       (''ix_stock_movements_warehouse_id'', [''warehouse_id''], False),
       (''ix_stock_movements_transfer_id'', [''transfer_id''], False)])"

definition inventory_metadata :: sql_schema where
  "inventory_metadata = [declared_Product, declared_InventoryBalance, declared_StockMovement]"

section \<open>warehouse\<close>

definition declared_Warehouse :: "string \<times> sql_table" where
  "declared_Warehouse = (''warehouses'', declared_table
      [table_column ''id'' SqlUuid False None,
       table_column ''code'' (SqlString 50) False None,
       table_column ''name'' (SqlString 150) False None,
       table_column ''address_line_1'' (SqlString 200) False None,
       table_column ''address_line_2'' (SqlString 200) True None,
       table_column ''city'' (SqlString 100) False None,
       table_column ''state'' (SqlString 100) False None,
       table_column ''postal_code'' (SqlString 20) False None,
       table_column ''country_code'' (SqlString 2) False (Some (DefaultValue (VText ''US''))),
       table_column ''is_active'' SqlBoolean False (Some (DefaultValue (VBool True))),
       table_column ''created_at'' SqlTimestamp False (Some DefaultNow),
       table_column ''updated_at'' SqlTimestamp False (Some DefaultNow)]
      [(''warehouses_pkey'', PrimaryKey [''id''])]
      [(''ix_warehouses_code'', [''code''], True)])"

definition warehouse_metadata :: sql_schema where
  "warehouse_metadata = [declared_Warehouse]"

section \<open>order\<close>

definition declared_Order :: "string \<times> sql_table" where
  "declared_Order = (''orders'', declared_table
      [table_column ''id'' SqlUuid False None,
       table_column ''order_number'' (SqlString 50) False None,
       table_column ''customer_name'' (SqlString 150) False None,
       table_column ''customer_email'' (SqlString 320) False None,
       table_column ''warehouse_id'' SqlUuid False None,
       table_column ''status'' (SqlString 20) False (Some (DefaultValue (VText ''PENDING''))),
       table_column ''total_amount'' (SqlNumeric 12 2) False (Some (DefaultValue (VNum 0))),
       table_column ''created_at'' SqlTimestamp False (Some DefaultNow),
       table_column ''updated_at'' SqlTimestamp False (Some DefaultNow)]
      [(''ck_orders_total_amount_non_negative'', CheckThat (AtLeast ''total_amount'' 0)),
       (''order_status'', CheckThat (OneOf ''status'' [''PENDING'', ''RESERVED'', ''CONFIRMED'', ''CANCELLED''])),
       (''orders_pkey'', PrimaryKey [''id''])]
      [(''ix_orders_warehouse_status'', [''warehouse_id'', ''status''], False),
       (''ix_orders_order_number'', [''order_number''], True),
       (''ix_orders_warehouse_id'', [''warehouse_id''], False),
       (''ix_orders_status'', [''status''], False)])"

definition declared_OrderItem :: "string \<times> sql_table" where
  "declared_OrderItem = (''order_items'', declared_table
      [table_column ''id'' SqlUuid False None,
       table_column ''order_id'' SqlUuid False None,
       table_column ''product_id'' SqlUuid False None,
       table_column ''quantity'' SqlInteger False None,
       table_column ''unit_price'' (SqlNumeric 12 2) False None,
       table_column ''line_total'' (SqlNumeric 14 2) False None]
      [(''ck_order_items_quantity_positive'', CheckThat (MoreThan ''quantity'' 0)),
       (''ck_order_items_unit_price_non_negative'', CheckThat (AtLeast ''unit_price'' 0)),
       (''ck_order_items_line_total_non_negative'', CheckThat (AtLeast ''line_total'' 0)),
       (''order_items_order_id_fkey'', ForeignKey [''order_id''] ''orders'' [''id''] ''CASCADE''),
       (''order_items_pkey'', PrimaryKey [''id''])]
      [(''ix_order_items_order_id'', [''order_id''], False),
       (''ix_order_items_product_id'', [''product_id''], False)])"

definition order_metadata :: sql_schema where
  "order_metadata = [declared_Order, declared_OrderItem]"

section \<open>All services\<close>

definition declared_metadata :: "(string \<times> sql_schema) list" where
  "declared_metadata = [(''job'', job_metadata), (''obs'', obs_metadata), (''cloud'', cloud_metadata), (''inventory'', inventory_metadata), (''warehouse'', warehouse_metadata), (''order'', order_metadata)]"

end
