(* ===== verification/Schema_Claims.thy ===== *)
theory Schema_Claims
  imports Schema_Chains Declared_Tables
begin

text \<open>
  The properties of the migrations: an upgrade of a database with data succeeds, loses nothing and can be taken back; what it
  ends with is what the classes of the services declare; the one migration that cannot always be taken back.
\<close>

section \<open>Revisions\<close>

definition revisions :: "migration list \<Rightarrow> string option list" where
  "revisions scripts = None # map (\<lambda>m. Some (mg_revision m)) (pending scripts None)"

definition at_revision :: "migration list \<Rightarrow> string option \<Rightarrow> sql_database \<Rightarrow> bool" where
  "at_revision scripts current db \<longleftrightarrow> current \<in> set (revisions scripts)
     \<and> alter_all (concat (map mg_upgrade (applied_since scripts None current))) [] = Some (db_schema db)"

text \<open>What evaluation shows of the links of the scripts: what is before and what is behind every revision.\<close>

definition linked :: "migration list \<Rightarrow> migration list \<Rightarrow> bool" where
  "linked scripts ms \<longleftrightarrow> revisions scripts = None # map (\<lambda>m. Some (mg_revision m)) ms
     \<and> head_revision scripts = last (revisions scripts)
     \<and> list_all (\<lambda>(k, c). pending scripts c = drop k ms \<and> applied_since scripts None c = take k ms
          \<and> applied_since scripts c (head_revision scripts) = drop k ms) (enumerate 0 (revisions scripts))"

lemma job_linked: "linked job_scripts [jobs_table_migration, worker_fields_migration, retry_fields_migration, idempotency_key_migration, lease_fields_migration]"
  by code_simp

lemma obs_linked: "linked obs_scripts [services_and_telemetry_migration, anomaly_records_migration, incidents_migration, correlations_migration, trace_spans_migration]"
  by code_simp

lemma cloud_linked: "linked cloud_scripts [cloud_incidents_migration, cloud_users_migration, audit_events_migration]"
  by code_simp

lemma inventory_linked: "linked inventory_scripts [products_migration, balances_and_movements_migration, transfer_movements_migration]"
  by code_simp

lemma warehouse_linked: "linked warehouse_scripts [warehouses_migration]"
  by code_simp

lemma order_linked: "linked order_scripts [orders_migration]"
  by code_simp

lemma service_chains:
  assumes "(service, scripts) \<in> set migration_scripts"
  obtains ms where "linked scripts ms" "safe_chain [] ms"
proof -
  have created: "safe_chain [] ms" if "creating_chain [] ms" for ms
    using creating_chain_safe [OF that, of "[]"] by simp
  show ?thesis
    using assms that job_linked job_chain obs_linked created [OF obs_safe] cloud_linked created [OF cloud_safe]
      inventory_linked inventory_chain warehouse_linked created [OF warehouse_safe] order_linked created [OF order_safe]
    unfolding migration_scripts_def by (auto simp del: safe_chain.simps)
qed

lemma safe_chain_rest:
  "safe_chain ts (ms @ ns) \<Longrightarrow> alter_all (concat (map mg_upgrade ms)) ts = Some ts' \<Longrightarrow> safe_chain ts' ns"
  by (induction ms arbitrary: ts) (auto simp: alter_all_append safe_migration_def)

lemma linkedD:
  assumes "linked scripts ms" and "current \<in> set (revisions scripts)"
  obtains k where "pending scripts current = drop k ms" "applied_since scripts None current = take k ms"
    "applied_since scripts current (head_revision scripts) = drop k ms"
proof -
  obtain k where "k < length (revisions scripts)" "revisions scripts ! k = current"
    using assms(2) by (metis in_set_conv_nth)
  then have "(k, current) \<in> set (enumerate 0 (revisions scripts))" by (simp add: in_set_enumerate_eq)
  then have "pending scripts current = drop k ms \<and> applied_since scripts None current = take k ms
      \<and> applied_since scripts current (head_revision scripts) = drop k ms"
    using assms(1) unfolding linked_def list_all_iff by blast
  then show ?thesis using that by blast
qed

lemma head_applied:
  assumes "linked scripts ms"
  shows "head_revision scripts \<in> set (revisions scripts)" and "applied_since scripts None (head_revision scripts) = ms"
proof -
  have "last (revisions scripts) \<in> set (revisions scripts)" by (rule last_in_set) (simp add: revisions_def)
  then show "head_revision scripts \<in> set (revisions scripts)" using assms by (simp add: linked_def)
  have "(0, None) \<in> set (enumerate 0 (revisions scripts))" by (simp add: revisions_def)
  then show "applied_since scripts None (head_revision scripts) = ms"
    using assms by (fastforce simp: linked_def list_all_iff)
qed

section \<open>Upgrading a database with data\<close>

text \<open>C37: an upgrade works on data. For every service with a database, every revision and every database of that revision
  whose rows fit it, the pending migrations all succeed. The new database fits the head revision; every old row is there,
  in its place and with all its old columns; and a downgrade right after gives back exactly the old database.\<close>

theorem upgrade_keeps_data:
  assumes "(service, scripts) \<in> set migration_scripts" and "at_revision scripts current db" and "database_ok db"
  shows "\<exists>db'. alembic_upgrade now scripts (current, db) = Some (head_revision scripts, db')
    \<and> at_revision scripts (head_revision scripts) db' \<and> database_ok db'
    \<and> keeps_rows (db_schema db) (db_rows db) (db_rows db')
    \<and> alembic_downgrade later scripts current (head_revision scripts, db') = Some (current, db)"
proof -
  obtain ms where ms: "linked scripts ms" "safe_chain [] ms" using service_chains [OF assms(1)] .
  obtain k where k: "pending scripts current = drop k ms" "applied_since scripts None current = take k ms"
      "applied_since scripts current (head_revision scripts) = drop k ms"
    using linkedD [OF ms(1)] assms(2) unfolding at_revision_def by blast
  obtain ts f where db: "db = \<lparr>db_schema = ts, db_rows = f\<rparr>" by (cases db)
  have ts: "alter_all (concat (map mg_upgrade (take k ms))) [] = Some ts" and fit: "contents_fit ts f"
    using assms(2,3) by (simp_all add: at_revision_def k(2) db database_ok_def)
  have "safe_chain ts (drop k ms)" using safe_chain_rest [OF _ ts] ms(2) by simp
  from safe_chain_run [OF this fit, of now later] obtain ts' f' where
    up: "alter_all (concat (map mg_upgrade (drop k ms))) ts = Some ts'" "contents_fit ts' f'" "keeps_rows ts f f'"
      "run_ops now (concat (map mg_upgrade (drop k ms))) db = Some \<lparr>db_schema = ts', db_rows = f'\<rparr>"
      "run_ops later (concat (map mg_downgrade (rev (drop k ms)))) \<lparr>db_schema = ts', db_rows = f'\<rparr> = Some db"
    unfolding db by blast
  have "concat (map mg_upgrade ms) = concat (map mg_upgrade (take k ms)) @ concat (map mg_upgrade (drop k ms))"
    by (metis append_take_drop_id concat_append map_append)
  then have "alter_all (concat (map mg_upgrade ms)) [] = Some ts'" by (simp add: alter_all_append ts up(1))
  then have "at_revision scripts (head_revision scripts) \<lparr>db_schema = ts', db_rows = f'\<rparr>"
    using head_applied [OF ms(1)] by (simp add: at_revision_def)
  then show ?thesis
    using up by (intro exI [of _ "\<lparr>db_schema = ts', db_rows = f'\<rparr>"])
      (simp add: alembic_upgrade_def alembic_downgrade_def k database_ok_def db)
qed

section \<open>Taking the transfer migration back\<close>

text \<open>What evaluation shows of the table of movements before and after that migration.\<close>

definition narrows :: "string \<Rightarrow> string \<Rightarrow> sql_check list \<Rightarrow> sql_schema \<Rightarrow> sql_schema \<Rightarrow> bool" where
  "narrows n c chks ts' ts \<longleftrightarrow> (case (map_of ts' n, map_of ts n) of
      (Some t', Some t) \<Rightarrow> ts = replace_table n t ts' \<and> foreign_keys t = foreign_keys t' \<and> no_references ts' n \<and> distinct (map fst ts')
        \<and> tb_columns t = filter (\<lambda>d. co_name d \<noteq> c) (tb_columns t')
        \<and> list_all (\<lambda>chk. chk \<in> set chks \<or> chk \<in> set (checks t')) (checks t) \<and> list_all (\<lambda>chk. c \<notin> set (check_columns chk)) (checks t)
        \<and> list_all (\<lambda>cs. cs \<in> set (unique_keys t') \<and> c \<notin> set cs) (unique_keys t)
        \<and> list_all (\<lambda>(cs, _). c \<notin> set cs) (foreign_keys t')
    | _ \<Rightarrow> False)"

lemma narrows_fit:
  assumes "narrows n c chks ts' ts" and fit: "contents_fit ts' f" and new: "\<forall>r\<in>set (f n). \<forall>chk\<in>set chks. check_passes chk r"
  shows "contents_fit ts (f(n := map (\<lambda>r. r(c := VNull)) (f n)))"
proof -
  let ?g = "\<lambda>r :: sql_row. r(c := VNull)"
  obtain t' t where t: "map_of ts' n = Some t'" "ts = replace_table n t ts'" "foreign_keys t = foreign_keys t'" "no_references ts' n"
      "distinct (map fst ts')" "tb_columns t = filter (\<lambda>d. co_name d \<noteq> c) (tb_columns t')"
      "list_all (\<lambda>chk. chk \<in> set chks \<or> chk \<in> set (checks t')) (checks t)" "list_all (\<lambda>chk. c \<notin> set (check_columns chk)) (checks t)"
      "list_all (\<lambda>cs. cs \<in> set (unique_keys t') \<and> c \<notin> set cs) (unique_keys t)" "list_all (\<lambda>(cs, _). c \<notin> set cs) (foreign_keys t')"
    using assms(1) unfolding narrows_def by (auto split: option.splits)
  have own: "table_fits f t' (f n)" using fit map_of_SomeD [OF t(1)] by (auto simp: contents_fit_def)
  show ?thesis
    unfolding t(2)
  proof (rule change_table [OF fit t(1,5,4,3)])
    show "map (?g r) cs = map r cs" if "(cs, m, ds) \<in> set (foreign_keys t')" for r cs m ds
      using t(10) that by (fastforce simp: list_all_iff)
    show "row_fits t (?g r)" if r: "r \<in> set (f n)" for r
    proof -
      have old: "row_fits t' r" using own r by (simp add: table_fits_def)
      have "check_passes chk (?g r)" if "chk \<in> set (checks t)" for chk
      proof -
        have "check_value chk (?g r) = check_value chk r"
          using t(8) that by (intro check_value_cong) (auto simp: list_all_iff)
        moreover have "check_passes chk r" using t(7) that new r old by (auto simp: list_all_iff row_fits_def)
        ultimately show ?thesis by (simp add: check_passes_def)
      qed
      then show ?thesis using old t(6) by (auto simp: row_fits_def column_names_def)
    qed
    show "no_duplicates cs (map ?g (f n))" if "cs \<in> set (unique_keys t)" for cs
    proof -
      have cs: "cs \<in> set (unique_keys t')" "c \<notin> set cs" using t(9) that by (auto simp: list_all_iff)
      then have "no_duplicates cs (map ?g (f n)) = no_duplicates cs (f n)" by (intro no_duplicates_cong) auto
      then show ?thesis using own cs(1) by (simp add: table_fits_def)
    qed
  qed
qed

lemma movements_narrow:
  "narrows ''stock_movements'' ''transfer_id'' [OneOf ''movement_type'' plain_movements]
     (schema_after [] [products_migration, balances_and_movements_migration, transfer_movements_migration])
     (schema_after [] [products_migration, balances_and_movements_migration])"
  by code_simp

lemma transfer_table:
  "case map_of (schema_after [] [products_migration, balances_and_movements_migration, transfer_movements_migration]) ''stock_movements'' of None \<Rightarrow> False
   | Some t \<Rightarrow> OneOf ''movement_type'' (plain_movements @ transfer_movements) \<in> set (checks t)
       \<and> table_column ''movement_type'' (SqlString 20) False None \<in> set (tb_columns t)"
  by code_simp

lemma head_movement:
  assumes "contents_fit (schema_after [] [products_migration, balances_and_movements_migration, transfer_movements_migration]) f"
    and "r \<in> set (f ''stock_movements'')"
  shows "check_passes (OneOf ''movement_type'' plain_movements) r \<longleftrightarrow> r ''movement_type'' \<notin> VText ` set transfer_movements"
proof -
  obtain t where t: "map_of (schema_after [] [products_migration, balances_and_movements_migration, transfer_movements_migration]) ''stock_movements'' = Some t"
      "OneOf ''movement_type'' (plain_movements @ transfer_movements) \<in> set (checks t)"
      "table_column ''movement_type'' (SqlString 20) False None \<in> set (tb_columns t)"
    using transfer_table by (auto split: option.splits)
  then have "row_fits t r" using assms map_of_SomeD [OF t(1)] by (auto simp: contents_fit_def table_fits_def)
  then have "check_passes (OneOf ''movement_type'' (plain_movements @ transfer_movements)) r"
      "column_fits (table_column ''movement_type'' (SqlString 20) False None) (r ''movement_type'')"
    using t(2,3) by (auto simp: row_fits_def table_column_def)
  moreover obtain s where "r ''movement_type'' = VText s"
    using calculation(2) by (cases "r ''movement_type''") (auto simp: column_fits_def table_column_def)
  moreover have "set plain_movements \<inter> set transfer_movements = {}" by (simp add: plain_movements_def transfer_movements_def)
  ultimately show ?thesis by (auto simp: check_passes_def)
qed

lemma schema_after_alter: "alter_all (concat (map mg_upgrade ms)) ts = Some ts' \<Longrightarrow> schema_after ts ms = ts'"
  by (induction ms arbitrary: ts) (auto simp: alter_all_append split: option.splits)

lemma inventory_revisions:
  "head_revision inventory_scripts = Some ''be8514c2d2b9''" "Some ''db993ddf412b'' \<in> set (revisions inventory_scripts)"
  "applied_since inventory_scripts None (Some ''be8514c2d2b9'') = [products_migration, balances_and_movements_migration, transfer_movements_migration]"
  "applied_since inventory_scripts None (Some ''db993ddf412b'') = [products_migration, balances_and_movements_migration]"
  "applied_since inventory_scripts (Some ''db993ddf412b'') (Some ''be8514c2d2b9'') = [transfer_movements_migration]"
  by code_simp+

lemma transfer_schema_down:
  "alter_all (mg_downgrade transfer_movements_migration)
     (schema_after [] [products_migration, balances_and_movements_migration, transfer_movements_migration])
   = Some (schema_after [] [products_migration, balances_and_movements_migration])"
  "alter_all (concat (map mg_upgrade [products_migration, balances_and_movements_migration])) []
   = Some (schema_after [] [products_migration, balances_and_movements_migration])"
  by code_simp+

text \<open>C38: the transfer migration can be taken back only while there are no transfers. For every inventory database at the head
  revision, the downgrade by one step fails and changes nothing if a movement is a transfer; otherwise it succeeds, the
  database fits the earlier revision, and no row has lost anything but the identifier of its transfer.\<close>

theorem transfers_block_downgrade:
  assumes "at_revision inventory_scripts (head_revision inventory_scripts) db" and "database_ok db"
  shows "if \<exists>r\<in>set (db_rows db ''stock_movements''). r ''movement_type'' \<in> VText ` set [''TRANSFER_OUT'', ''TRANSFER_IN'']
    then alembic_downgrade now inventory_scripts (Some ''db993ddf412b'') (head_revision inventory_scripts, db) = None
    else \<exists>db'. alembic_downgrade now inventory_scripts (Some ''db993ddf412b'') (head_revision inventory_scripts, db) = Some (Some ''db993ddf412b'', db')
      \<and> at_revision inventory_scripts (Some ''db993ddf412b'') db' \<and> database_ok db'
      \<and> db_rows db' = (db_rows db)(''stock_movements'' := map (\<lambda>r. r(''transfer_id'' := VNull)) (db_rows db ''stock_movements''))"
proof -
  let ?old = "schema_after [] [products_migration, balances_and_movements_migration]"
  let ?new = "schema_after [] [products_migration, balances_and_movements_migration, transfer_movements_migration]"
  obtain ts f where db: "db = \<lparr>db_schema = ts, db_rows = f\<rparr>" by (cases db)
  have "alter_all (concat (map mg_upgrade [products_migration, balances_and_movements_migration, transfer_movements_migration])) [] = Some ts"
    using assms(1) unfolding at_revision_def inventory_revisions(1,3) by (simp add: db)
  from schema_after_alter [OF this] have ts: "ts = ?new" ..
  have fit: "contents_fit ?new f" using assms(2) by (simp add: database_ok_def db ts)
  let ?f = "f(''stock_movements'' := map (\<lambda>r. r(''transfer_id'' := VNull)) (f ''stock_movements''))"
  have rows: "rewrite_all now (mg_downgrade transfer_movements_migration) f
      = (if list_all (check_passes (OneOf ''movement_type'' plain_movements)) (f ''stock_movements'') then Some ?f else None)"
    by (simp add: transfer_down)
  have down: "alembic_downgrade now inventory_scripts (Some ''db993ddf412b'') (head_revision inventory_scripts, db)
      = map_option (\<lambda>f'. (Some ''db993ddf412b'', \<lparr>db_schema = ?old, db_rows = f'\<rparr>)) (rewrite_all now (mg_downgrade transfer_movements_migration) f)"
    unfolding alembic_downgrade_def prod.case inventory_revisions(1) inventory_revisions(5) db ts
    by (simp add: run_ops_split [OF transfer_schema_down(1)] split: option.splits del: schema_after.simps)
  show ?thesis
  proof (cases "\<exists>r\<in>set (f ''stock_movements''). r ''movement_type'' \<in> VText ` set transfer_movements")
    case True
    then have "\<not> list_all (check_passes (OneOf ''movement_type'' plain_movements)) (f ''stock_movements'')"
      using head_movement [OF fit] by (auto simp: list_all_iff)
    then show ?thesis using True unfolding down rows by (simp add: db transfer_movements_def)
  next
    case False
    then have passes: "\<forall>r\<in>set (f ''stock_movements''). check_passes (OneOf ''movement_type'' plain_movements) r"
      using head_movement [OF fit] by blast
    have "contents_fit ?old ?f" by (rule narrows_fit [OF movements_narrow fit]) (use passes in simp)
    moreover have "at_revision inventory_scripts (Some ''db993ddf412b'') \<lparr>db_schema = ?old, db_rows = ?f\<rparr>"
      unfolding at_revision_def inventory_revisions(4) transfer_schema_down(2) using inventory_revisions(2) by simp
    ultimately show ?thesis
      using False passes unfolding down rows
      by (simp add: db transfer_movements_def list_all_iff database_ok_def del: schema_after.simps)
  qed
qed

section \<open>What the classes declare\<close>

text \<open>Two schemas with the same tables, columns, constraints and indexes, whatever the order of tables and columns.\<close>

definition same_tables :: "sql_schema \<Rightarrow> sql_schema \<Rightarrow> bool" where
  "same_tables ts us \<longleftrightarrow> sort_key fst (map (\<lambda>(n, t). (n, t\<lparr>tb_columns := sort_key co_name (tb_columns t)\<rparr>)) ts)
     = sort_key fst (map (\<lambda>(n, t). (n, t\<lparr>tb_columns := sort_key co_name (tb_columns t)\<rparr>)) us)"

definition builds :: "migration list \<Rightarrow> sql_schema \<Rightarrow> bool" where
  "builds scripts declared \<longleftrightarrow> (case alter_all (concat (map mg_upgrade (applied_since scripts None (head_revision scripts)))) [] of
      None \<Rightarrow> False | Some ts \<Rightarrow> same_tables ts declared)"

lemma scripts_match_classes:
  "builds job_scripts job_metadata" "builds obs_scripts obs_metadata" "builds cloud_scripts cloud_metadata"
  "builds inventory_scripts inventory_metadata" "builds warehouse_scripts warehouse_metadata" "builds order_scripts order_metadata"
proof -
  show "builds job_scripts job_metadata" by code_simp
  show "builds obs_scripts obs_metadata" by code_simp
  show "builds cloud_scripts cloud_metadata" by code_simp
  show "builds inventory_scripts inventory_metadata" by code_simp
  show "builds warehouse_scripts warehouse_metadata" by code_simp
  show "builds order_scripts order_metadata" by code_simp
qed

text \<open>C39: the migrations build what the classes declare. A database at the head revision has exactly the tables of the SQLAlchemy
  classes of its service: the same columns with type, nullability and default, the same keys, checks and foreign keys, and
  the same indexes, under the same names.\<close>

theorem migrated_schema_is_declared:
  assumes "(service, scripts) \<in> set migration_scripts" and "at_revision scripts (head_revision scripts) db"
  shows "\<exists>declared. map_of declared_metadata service = Some declared \<and> same_tables (db_schema db) declared"
proof -
  have "\<exists>declared. map_of declared_metadata service = Some declared \<and> builds scripts declared"
    using assms(1) scripts_match_classes by (auto simp: migration_scripts_def declared_metadata_def)
  then show ?thesis using assms(2) by (auto simp: builds_def at_revision_def split: option.splits)
qed

end
