(* ===== verification/Schema_Demo.thy ===== *)
theory Schema_Demo
  imports Schema_Claims
begin

text \<open>
  Two small databases on which the hypotheses of the properties hold: a job stored before the worker was built, and a transfer
  between two warehouses. Rows are given as association lists, so that evaluation decides whether they fit.
\<close>

definition row_of :: "(string \<times> sql_value) list \<Rightarrow> sql_row" where
  "row_of kvs x = (case map_of kvs x of None \<Rightarrow> VNull | Some v \<Rightarrow> v)"

type_synonym row_lists = "(string \<times> (string \<times> sql_value) list list) list"

definition rows_of :: "row_lists \<Rightarrow> contents" where
  "rows_of tabs n = (case map_of tabs n of None \<Rightarrow> [] | Some rows \<Rightarrow> map row_of rows)"

definition row_checked :: "sql_table \<Rightarrow> (string \<times> sql_value) list \<Rightarrow> bool" where
  "row_checked t kvs \<longleftrightarrow> list_all (\<lambda>c. column_fits c (row_of kvs (co_name c))) (tb_columns t)
     \<and> list_all (\<lambda>(k, _). k \<in> set (column_names t)) kvs \<and> list_all (\<lambda>chk. check_passes chk (row_of kvs)) (checks t)"

definition tables_checked :: "sql_schema \<Rightarrow> row_lists \<Rightarrow> bool" where
  "tables_checked ts tabs \<longleftrightarrow> list_all (\<lambda>(n, _). n \<in> fst ` set ts) tabs
     \<and> list_all (\<lambda>(n, t). (case map_of tabs n of None \<Rightarrow> True | Some rows \<Rightarrow> list_all (row_checked t) rows)
          \<and> list_all (\<lambda>cs. no_duplicates cs (rows_of tabs n)) (unique_keys t)
          \<and> list_all (\<lambda>k. links_fit (rows_of tabs) k (rows_of tabs n)) (foreign_keys t)) ts"

lemma row_checked_fits: "row_checked t kvs \<Longrightarrow> row_fits t (row_of kvs)"
  by (auto simp: row_checked_def row_fits_def list_all_iff row_of_def split: option.splits dest: map_of_SomeD)

lemma checked_fit:
  assumes "tables_checked ts tabs"
  shows "contents_fit ts (rows_of tabs)"
  unfolding contents_fit_def
proof (intro conjI ballI allI impI)
  fix nt assume "nt \<in> set ts"
  then show "case nt of (n, t) \<Rightarrow> table_fits (rows_of tabs) t (rows_of tabs n)"
    using assms row_checked_fits unfolding tables_checked_def list_all_iff table_fits_def rows_of_def
    by (fastforce split: option.splits)
next
  fix n assume "n \<notin> fst ` set ts"
  then have "map_of tabs n = None" using assms by (fastforce simp: tables_checked_def list_all_iff map_of_eq_None_iff)
  then show "rows_of tabs n = []" by (simp add: rows_of_def)
qed

section \<open>A job from before the worker\<close>

definition old_jobs :: row_lists where
  "old_jobs = [(''jobs'', [[(''id'', VUuid 7), (''queue'', VText ''default''), (''task_name'', VText ''echo''), (''payload'', VJson (JObj [])),
     (''status'', VText ''queued''), (''priority'', VNum 0), (''created_at'', VTime 1), (''updated_at'', VTime 1)]])]"

definition old_job_database :: sql_database where
  "old_job_database = \<lparr>db_schema = schema_after [] [jobs_table_migration], db_rows = rows_of old_jobs\<rparr>"

lemma old_jobs_checked: "tables_checked (schema_after [] [jobs_table_migration]) old_jobs"
  by code_simp

lemma old_job_revision:
  "at_revision job_scripts (Some ''b63bc8dd8717'') old_job_database" "database_ok old_job_database"
  "head_revision job_scripts = Some ''5bb6c4b76aca''"
proof -
  have "Some ''b63bc8dd8717'' \<in> set (revisions job_scripts)"
    "applied_since job_scripts None (Some ''b63bc8dd8717'') = [jobs_table_migration]"
    "alter_all (concat (map mg_upgrade [jobs_table_migration])) [] = Some (schema_after [] [jobs_table_migration])"
    by code_simp+
  then show "at_revision job_scripts (Some ''b63bc8dd8717'') old_job_database"
    by (simp add: at_revision_def old_job_database_def del: schema_after.simps)
  show "database_ok old_job_database"
    using checked_fit [OF old_jobs_checked] by (simp add: database_ok_def old_job_database_def del: schema_after.simps)
  show "head_revision job_scripts = Some ''5bb6c4b76aca''" by code_simp
qed

lemma old_job_table: "map_of (db_schema old_job_database) ''jobs'' \<noteq> None"
  by code_simp

theorem upgrade_keeps_data_witness:
  "\<exists>db'. alembic_upgrade 5 job_scripts (Some ''b63bc8dd8717'', old_job_database) = Some (Some ''5bb6c4b76aca'', db')
    \<and> length (db_rows db' ''jobs'') = 1
    \<and> alembic_downgrade 9 job_scripts (Some ''b63bc8dd8717'') (Some ''5bb6c4b76aca'', db') = Some (Some ''b63bc8dd8717'', old_job_database)"
proof -
  have job: "(''job'', job_scripts) \<in> set migration_scripts" by (simp add: migration_scripts_def)
  obtain db' where up: "alembic_upgrade 5 job_scripts (Some ''b63bc8dd8717'', old_job_database) = Some (head_revision job_scripts, db')"
      "keeps_rows (db_schema old_job_database) (db_rows old_job_database) (db_rows db')"
      "alembic_downgrade 9 job_scripts (Some ''b63bc8dd8717'') (head_revision job_scripts, db') = Some (Some ''b63bc8dd8717'', old_job_database)"
    using upgrade_keeps_data [OF job old_job_revision(1,2), of 5 9] by blast
  obtain t where t: "(''jobs'', t) \<in> set (db_schema old_job_database)" using old_job_table map_of_SomeD by fastforce
  have "length (db_rows old_job_database ''jobs'') = length (db_rows db' ''jobs'')"
    using up(2) t unfolding keeps_rows_def by (fastforce dest: list_all2_lengthD)
  moreover have "length (db_rows old_job_database ''jobs'') = 1" by (simp add: old_job_database_def rows_of_def old_jobs_def)
  ultimately show ?thesis using up(1,3) unfolding old_job_revision(3) by simp
qed

theorem migrated_schema_is_declared_witness:
  "\<exists>declared. map_of declared_metadata ''warehouse'' = Some declared \<and> same_tables (schema_after [] [warehouses_migration]) declared"
proof -
  have here: "(''warehouse'', warehouse_scripts) \<in> set migration_scripts" by (simp add: migration_scripts_def)
  have "head_revision warehouse_scripts \<in> set (revisions warehouse_scripts)"
    "applied_since warehouse_scripts None (head_revision warehouse_scripts) = [warehouses_migration]"
    "alter_all (concat (map mg_upgrade [warehouses_migration])) [] = Some (schema_after [] [warehouses_migration])"
    by code_simp+
  then have "at_revision warehouse_scripts (head_revision warehouse_scripts) \<lparr>db_schema = schema_after [] [warehouses_migration], db_rows = (\<lambda>_. [])\<rparr>"
    by (simp add: at_revision_def del: schema_after.simps)
  from migrated_schema_is_declared [OF here this] show ?thesis by simp
qed

section \<open>A transfer\<close>

definition transferred :: row_lists where
  "transferred = [(''products'', [[(''id'', VUuid 1), (''sku'', VText ''SKU-1''), (''name'', VText ''Bolt''), (''unit_price'', VNum 2),
       (''reorder_level'', VNum 0), (''is_active'', VBool True), (''created_at'', VTime 1), (''updated_at'', VTime 1)]]),
     (''stock_movements'', [[(''id'', VUuid 9), (''product_id'', VUuid 1), (''warehouse_id'', VUuid 3), (''movement_type'', VText ''TRANSFER_IN''),
       (''on_hand_delta'', VNum 4), (''reserved_delta'', VNum 0), (''on_hand_balance_after'', VNum 4), (''reserved_balance_after'', VNum 0),
       (''created_at'', VTime 2), (''transfer_id'', VUuid 8)]])]"

lemma transferred_checked:
  "tables_checked (schema_after [] [products_migration, balances_and_movements_migration, transfer_movements_migration]) transferred"
  by code_simp

theorem transfers_block_downgrade_witness:
  "alembic_downgrade 5 inventory_scripts (Some ''db993ddf412b'') (head_revision inventory_scripts,
     \<lparr>db_schema = schema_after [] [products_migration, balances_and_movements_migration, transfer_movements_migration],
      db_rows = rows_of transferred\<rparr>) = None"
proof -
  let ?ts = "schema_after [] [products_migration, balances_and_movements_migration, transfer_movements_migration]"
  have "alter_all (concat (map mg_upgrade [products_migration, balances_and_movements_migration, transfer_movements_migration])) [] = Some ?ts"
    by code_simp
  then have rev: "at_revision inventory_scripts (head_revision inventory_scripts) \<lparr>db_schema = ?ts, db_rows = rows_of transferred\<rparr>"
    using head_applied(1) [OF inventory_linked] inventory_revisions(1,3) by (simp add: at_revision_def del: schema_after.simps)
  have ok: "database_ok \<lparr>db_schema = ?ts, db_rows = rows_of transferred\<rparr>"
    using checked_fit [OF transferred_checked] by (simp add: database_ok_def del: schema_after.simps)
  have "\<exists>r\<in>set (rows_of transferred ''stock_movements''). r ''movement_type'' \<in> VText ` set [''TRANSFER_OUT'', ''TRANSFER_IN'']"
    by (simp add: rows_of_def transferred_def row_of_def)
  then show ?thesis using transfers_block_downgrade [OF rev ok, of 5] by (simp del: schema_after.simps)
qed

end
