(* ===== verification/Service_Health.thy ===== *)
theory Service_Health
  imports Gateway_Claims Cloud_Api
begin

text \<open>
  The small endpoints with which a deployment watches the services: those of the job system (job_system/main.py), of the
  observability platform (observability_platform/api/routes/health.py) and of the three warehouse services (app/main.py), and
  the identifier that the job system gives to a request. What a lemma at the end shows: the gateway reports the warehouse
  platform as healthy while all its databases are down, since it asks for the endpoint that does not look at them.
\<close>

section \<open>Job system\<close>

text \<open>What comes of the connection and of \<open>SELECT 1\<close>; the handler takes errors of SQLAlchemy and of the system.\<close>

datatype probe = ProbeReturns int | ProbeSqlError | ProbeOsError | ProbeOtherError string

text \<open>\<open>fullmatch\<close> with the pattern of at most 128 letters, digits, dots, underscores and hyphens.\<close>

definition job_request_id :: "uuid \<Rightarrow> string option \<Rightarrow> string" where
  "job_request_id fresh candidate = (case candidate of
      Some c \<Rightarrow> if 1 \<le> length c \<and> length c \<le> 128 \<and> list_all safe_id_char c then c else uuid_hex fresh
    | None \<Rightarrow> uuid_hex fresh)"

definition add_request_context :: "uuid \<Rightarrow> (gateway_request \<Rightarrow> app_result) \<Rightarrow> gateway_request \<Rightarrow> app_result" where
  "add_request_context fresh call_next q = (case call_next q of
      AppRaises e \<Rightarrow> AppRaises e
    | AppResponds r \<Rightarrow> AppResponds (r\<lparr>gs_headers := header_set ''x-content-type-options'' ''nosniff''
        (header_set ''x-request-id'' (job_request_id fresh (header_get ''x-request-id'' (gr_headers q))) (gs_headers r))\<rparr>))"

definition job_health :: "string \<Rightarrow> (string \<times> string) list" where
  "job_health version = [(''status'', ''healthy''), (''service'', ''distributed-job-processing-system''), (''version'', version)]"

definition check_database_connection :: "probe \<Rightarrow> string + bool" where
  "check_database_connection p = (case p of
      ProbeReturns n \<Rightarrow> Inr (n = 1)
    | ProbeSqlError \<Rightarrow> Inl ''SQLAlchemyError'' | ProbeOsError \<Rightarrow> Inl ''OSError'' | ProbeOtherError e \<Rightarrow> Inl e)"

definition job_readiness :: "string \<Rightarrow> probe \<Rightarrow> (string \<times> string) list endpoint_result" where
  "job_readiness version p = (case check_database_connection p of
      Inl e \<Rightarrow> if e = ''SQLAlchemyError'' \<or> e = ''OSError'' then HTTPException 503 (JStr ''Database is unavailable'') else server_error
    | Inr connected \<Rightarrow> if connected then Reply 200 (job_health version)
        else HTTPException 503 (JStr ''Database readiness check failed''))"

lemma job_readiness_ok: "(\<exists>x. job_readiness version p = Reply 200 x) \<longleftrightarrow> p = ProbeReturns 1"
  by (auto simp: job_readiness_def check_database_connection_def server_error_def split: probe.splits)

text \<open>A client never sees an identifier that could break a header or a log line.\<close>

lemma hex_char_identifier: "d < 16 \<Longrightarrow> safe_id_char (hex_char d)"
  by (auto simp: safe_id_char_def hex_char_def Let_def)

lemma uuid_hex_identifier: "list_all safe_id_char (uuid_hex i)"
proof -
  have "list_all safe_id_char (hex_fixed w n)" for w n
    by (induction w n rule: hex_fixed.induct) (auto simp: hex_char_identifier)
  then show ?thesis by (simp add: uuid_hex_def)
qed

lemma job_request_id_safe: "list_all safe_id_char (job_request_id fresh candidate)"
  by (simp add: job_request_id_def uuid_hex_identifier split: option.splits)

section \<open>Observability platform\<close>

definition verify_database_readiness :: "probe \<Rightarrow> unit endpoint_result" where
  "verify_database_readiness p = (case p of
      ProbeReturns _ \<Rightarrow> Reply 200 ()
    | ProbeSqlError \<Rightarrow> HTTPException 503 (JStr ''Database connection failed'')
    | _ \<Rightarrow> server_error)"

definition after_check :: "unit endpoint_result \<Rightarrow> 'a \<Rightarrow> 'a endpoint_result" where
  "after_check checked body = (case checked of Reply _ _ \<Rightarrow> Reply 200 body | HTTPException code detail \<Rightarrow> HTTPException code detail)"

definition liveness_health :: "(string \<times> string) list endpoint_result" where
  "liveness_health = Reply 200 [(''status'', ''healthy''), (''check'', ''liveness'')]"

definition readiness_health :: "probe \<Rightarrow> (string \<times> string) list endpoint_result" where
  "readiness_health p = after_check (verify_database_readiness p) [(''status'', ''ready''), (''database'', ''postgresql'')]"

definition database_health :: "probe \<Rightarrow> (string \<times> string) list endpoint_result" where
  "database_health p = after_check (verify_database_readiness p) [(''status'', ''healthy''), (''database'', ''postgresql'')]"

section \<open>Warehouse services\<close>

text \<open>The three services answer alike; an error of the database is not handled.\<close>

definition service_health_check :: "string \<Rightarrow> app_result" where
  "service_health_check name = AppResponds (json_reply 200 (JObj [(''status'', JStr ''healthy''), (''service'', JStr name)]))"

definition service_database_check :: "probe \<Rightarrow> app_result" where
  "service_database_check p = (case p of
      ProbeReturns _ \<Rightarrow> AppResponds (json_reply 200 (JObj [(''status'', JStr ''healthy''), (''database'', JStr ''connected'')]))
    | ProbeSqlError \<Rightarrow> AppRaises ''SQLAlchemyError'' | ProbeOsError \<Rightarrow> AppRaises ''OSError'' | ProbeOtherError e \<Rightarrow> AppRaises e)"

text \<open>The services as the gateway reaches them: every process runs, the databases are what the probe says.\<close>

definition served :: "app_result \<Rightarrow> client_outcome" where
  "served r = (case r of AppResponds x \<Rightarrow> ClientAnswers x
     | AppRaises _ \<Rightarrow> ClientAnswers \<lparr>gs_status = 500, gs_headers = [(''content-type'', ''text/plain; charset=utf-8'')],
         gs_content = BodyBytes ''Internal Server Error''\<rparr>)"

definition running_services :: "gateway_settings \<Rightarrow> probe \<Rightarrow> proxy_call \<Rightarrow> client_outcome" where
  "running_services cfg p call =
     (case find (\<lambda>(_, s). pc_url call = dn_base_url s @ ''/health'' \<or> pc_url call = dn_base_url s @ ''/health/db'') (downstream_services cfg) of
        None \<Rightarrow> ClientRequestError
      | Some (_, s) \<Rightarrow> if pc_url call = dn_base_url s @ ''/health'' then served (service_health_check (dn_name s))
          else served (service_database_check p))"

lemma find_holds: "find P xs = Some x \<Longrightarrow> P x"
  by (induction xs) (auto split: if_splits)

text \<open>The gateway reports its services as healthy whatever their databases do.\<close>

lemma gateway_health_ignores_databases:
  "downstream_health_check cfg (running_services cfg p) = AppResponds (json_reply 200 (JObj [(''status'', JStr ''healthy''),
     (''services'', JObj [(''inventory-service'', health_json (HealthStatus True 200)),
       (''warehouse-service'', health_json (HealthStatus True 200)), (''order-service'', health_json (HealthStatus True 200))])]))"
proof -
  have one: "check_one_service (running_services cfg p) s = Inr (HealthStatus True 200)" if s: "s \<in> snd ` set (downstream_services cfg)" for s
  proof -
    let ?call = "\<lparr>pc_method = ''GET'', pc_url = dn_base_url s @ ''/health'', pc_params = [], pc_headers = [], pc_content = None\<rparr>"
    let ?at = "\<lambda>x :: string \<times> downstream_service. case x of (_, u) \<Rightarrow> pc_url ?call = dn_base_url u @ ''/health'' \<or> pc_url ?call = dn_base_url u @ ''/health/db''"
    obtain a where "(a, s) \<in> set (downstream_services cfg)" "?at (a, s)" using s by auto
    then have "find ?at (downstream_services cfg) \<noteq> None" unfolding find_None_iff by blast
    then obtain k u where u: "find ?at (downstream_services cfg) = Some (k, u)" by fastforce
    from find_holds [OF u] have "?at (k, u)" .
    moreover have "dn_base_url s @ ''/health'' \<noteq> dn_base_url u @ ''/health/db''"
    proof
      assume "dn_base_url s @ ''/health'' = dn_base_url u @ ''/health/db''"
      then have "last (dn_base_url s @ ''/health'') = last (dn_base_url u @ ''/health/db'')" by (rule arg_cong)
      then show False by simp
    qed
    ultimately show ?thesis
      using u by (simp add: check_one_service_def running_services_def served_def service_health_check_def json_reply_def)
  qed
  show ?thesis
    using one by (simp add: downstream_health_check_def check_health_def downstream_services_def make_downstream_def
        health_is_good_def Let_def comp_def)
qed

end
