(* ===== verification/Spec2Isabelle.thy ===== *)
theory Spec2Isabelle
  imports Stock_Claims Product_Claims Warehouse_Correct Order_Claims Worker_Claims
    Obs_Reads Access_Claims Cloud_Claims Sensor_Stored Gateway_Claims Signature_Claims Sensor_Feed Schema_Demo Service_Health
begin

text \<open>
  A verification library for the Python programs of this repository. It holds seven projects that share no code;
  each is a chain of theories of its own, over one common layer. A definition keeps the name of the function, class or
  constant that it models.

  \<^bold>\<open>What is common.\<close> \<open>Prelude\<close>: identifiers (128-bit words), times (microseconds), results that carry a Python
  exception as \<open>Inl\<close>, text operations of Python, lemmas on lists, maps and association lists. \<open>Json_Decimal\<close>: JSON
  documents as Python sees them after decoding, and decimal numbers. \<open>Http_Types\<close>: what an endpoint answers; an
  exception nobody handles is the status 500. \<open>Wire\<close>: identifiers as text. \<open>Floats\<close>: Python's \<open>float\<close> as rationals,
  with every operation rounded to 53 bits, half to even.

  \<^bold>\<open>production-warehouse-microservices.\<close> Three services with a database each, behind a gateway. The Order Service
  calls the other two over HTTP while it creates or cancels an order.

  \<^item> Inventory Service: \<open>Inventory_Model\<close> (app/models), \<open>Products\<close> (schemas, repositories and routes of products), \<open>Stock\<close>
    (services/stock.py), \<open>Stock_Api\<close> (api/routes/stock.py and the answer to a request on the wire). An operation holds its row
    locks to the end of its transaction, so it is one step on the tables. \<open>Stock_Ledger\<close> states the ledger invariant: a balance is
    the sum of its movements, and what an order reference holds is never negative. \<open>Stock_Correct\<close> and \<open>Stock_Steps\<close> show that
    every operation keeps it; \<open>Stock_Spec\<close> states the service as an abstract account, which the operations refine;
    \<open>Stock_Claims\<close> and \<open>Product_Claims\<close> hold the properties.
  \<^item> Warehouse Service: \<open>Warehouses\<close>, with its invariant and the order of listings in \<open>Warehouse_Correct\<close>.
  \<^item> Order Service: \<open>Order_Client\<close> (services/external.py), \<open>Orders\<close> (models, schemas, services/order.py, routes).
    \<open>Order_Saga\<close> states what the saga needs of a reservation service as the locale \<open>reservation_service\<close>, and proves creation
    and cancellation all-or-nothing inside it; \<open>reliable_releases\<close> adds that releases go through. \<open>Order_System\<close> wires the
    client to the modelled services. The world outside is their two databases and a schedule: for every call, what other users
    do before it (stock operations, new, changed and deleted products), whether the request is lost, and whether the reply is
    lost. Both locales are interpreted on that platform, for an order reference and the products of its order, in worlds where
    no reply is lost, nobody else reserves or releases under the reference and nobody deletes one of the products; what a lost
    reply and a deleted product do is shown apart.
    \<open>Order_Lifecycle\<close> holds the invariant of stored orders, \<open>Order_Liveness\<close> when creation succeeds, \<open>Order_Claims\<close> the
    properties and a small platform on which their hypotheses hold.
  \<^item> API Gateway: \<open>Gateway\<close> (services/proxy.py, api/routes/gateway.py, and core/observability.py, which the four services
    have in common), \<open>Gateway_Claims\<close>: forwarding, outages, and one request identifier from end to end. The HTTP client and
    the answers of Starlette where no route of the code matches are functions. What the HTTP client makes of the text of a URL and
    of the parameters beside it is a function too; forwarding is stated for paths that need no quoting, since the code
    puts the decoded path into the URL as it is.

  \<^bold>\<open>distributed-job-processing-system.\<close> Clients submit jobs, workers take them from a queue in PostgreSQL.
  \<open>Job_Queue\<close> (models.py, queue.py): each queue operation is one transaction with its own clock, locked rows and faults.
  \<open>Job_Service\<close> (schemas.py, repository.py, services.py, api/jobs.py) with the \<open>JSONB\<close> column that a payload goes through before
  it is compared. \<open>Job_Worker\<close> (worker.py, handlers.py, config.py) is a client of
  the locale \<open>job_queue_service\<close>, interpreted in \<open>Job_System\<close> on the PostgreSQL queue with the interference of other workers
  between any two transactions. \<open>Job_Correct\<close>: what every stored row satisfies and the steps it can take, which every operation
  simulates. \<open>Job_History\<close>: whole histories of the table. \<open>Job_Claims\<close> and \<open>Worker_Claims\<close>: claiming, leases, bounded executions,
  recovery, idempotent submission, and that a slot finishes the best job. The worker's loops run until a stop event; the
  model counts their turns, and the liveness property says how many turns are needed: one.

  \<^bold>\<open>observability-incident-detection-platform.\<close> Telemetry is ingested, anomalies are detected in it, critical ones open incidents,
  incidents of one dependency chain are correlated and ranked. \<open>Obs_Model\<close> (schemas, db/models.py), \<open>Obs_Detection\<close>
  (anomaly_detection.py, root_cause_analysis.py; scores are counted in hundredths), \<open>Obs_Ingest\<close> (registry, telemetry, queries),
  \<open>Obs_Incidents\<close> (incidents and correlations; a change reads and writes in separate steps, since no row is locked), \<open>Obs_Traces\<close>,
  \<open>Obs_Dashboard\<close>, \<open>Obs_Access\<close> (security.py, rate_limit.py, middleware.py, config.py, main.py). \<open>Obs_Correct\<close> proves the invariant of
  all tables; \<open>Obs_Claims\<close>, \<open>Obs_Reads\<close> and \<open>Access_Claims\<close> hold the properties.

  \<^bold>\<open>cloud-deployed-full-stack-system.\<close> Users with roles work on incidents, every change is recorded. \<open>Cloud_Model\<close>
  (models, schemas, settings), \<open>Cloud_Search\<close> (SQL's \<open>ILIKE\<close> and its escapes), \<open>Cloud_Service\<close> (services, repositories, the
  bootstrap command), \<open>Cloud_Api\<close> (authentication, authorization, routes, core/observability.py). \<open>Cloud_Correct\<close>: reading the audit
  history from its start rebuilds incidents and users, for every sequence of requests served one after the other. \<open>Cloud_Claims\<close>: the properties. No
  row is locked, so two requests may overlap; \<open>Cloud_Claims\<close> also shows what then goes wrong, with administrators and with the
  history.

  \<^bold>\<open>sensor-data-logging-test-platform.\<close> \<open>Sensor_Model\<close> (models.py, repository.py, simulator.py, analysis.py), \<open>Sensor_Testing\<close>
  (hardware_testing.py, reporting.py, api.py, dashboard.py, the two commands). \<open>Sensor_Claims\<close>: in floating point, what is simulated
  is diagnosed, and the report accounts for every reading. \<open>Sensor_Stored\<close>: the invariant of the database, reading back,
  and the agreement of dashboard and API.

  \<^bold>\<open>secure-command-control-simulator.\<close> A Python station sends signed commands to a unit written in Java.
  \<open>Control_Station\<close> models control_station_client.py, \<open>Command_Server\<close> the classes of the unit that a command passes, for the
  two must agree on the signed text. The network is a schedule again. \<open>Station_Claims\<close>: delivery ends after at most three
  attempts; the history of the unit explains its state. \<open>Delivery_Claims\<close>: a command is executed once although replies are lost; a genuine
  command whose time ends on a whole millisecond is refused. \<open>Signature_Claims\<close>: the signed text determines the command.

  \<^bold>\<open>real-time-sensor-monitoring-system.\<close> \<open>Sensor_Feed\<close> models the Python simulator that feeds the monitor. Its loop has no
  end, so the number of cycles is fuel; the property holds for every amount, also when a send fails on the way.

  \<^bold>\<open>Migrations.\<close> Six services keep their tables with Alembic. \<open>Schema_Model\<close> says what an operation does to a PostgreSQL
  schema and to the rows of its tables, and when the database refuses it; \<open>Migrations\<close> holds the scripts under
  migrations/versions, up and down, and \<open>Declared_Tables\<close> what the SQLAlchemy classes declare. \<open>Schema_Correct\<close> treats schema and rows
  apart: what concerns the schemas alone is decided by evaluation, what concerns the rows is proved for all rows.
  \<open>Schema_Chains\<close> shows that every script is safe, \<open>Schema_Claims\<close> that upgrades keep all data and can be taken back, that only the transfer
  migration may refuse to, and that the result is what the classes declare; \<open>Schema_Demo\<close> holds two small databases.

  \<^bold>\<open>Health.\<close> \<open>Service_Health\<close> models what the services answer to probes, and shows that the gateway reports them as healthy
  while their databases are down.

  \<^bold>\<open>Parameters.\<close> Code outside the repository is an argument: the HTTP client of the services, password hashing, signed
  tokens, the validation of addresses, HMAC, Jackson's JSON text, \<open>Instant.parse\<close>, the numbers of random generators, clocks, and
  the faults of databases. What a property needs of one is a hypothesis, and its witness gives a concrete instance.

  \<^bold>\<open>Not modelled.\<close> Set-up without logic of its own: engines and sessions, the wiring of applications, logging
  configuration and metrics. Scripts that drive a deployed system (smoke tests). Charts, files and argument parsing. The JavaScript
  frontends, the infrastructure files, the C++ monitor, and the audit log files of the unit. Log lines are left out, save
  those of the request logging. The text of validation messages that Pydantic writes is left out; that a request is answered 422 is
  modelled. Left out as well: the host check of Starlette and the 422 of a body that is no JSON, both before the key check of the
  observability platform; a database that fails between the commit of a stock operation and the reading back of its rows; the answer
  of the unit when its audit log throws; NUL characters in the incident search, whose letters are folded as in ASCII; and the heartbeat of
  a worker as a part of the processing of a job (it is a loop of its own, and the properties say that the lease holds). The result of a job
  is kept as the handler returned it.
\<close>

end
